(* ===== verification/Prelude.thy ===== *)
theory Prelude
  imports Main "HOL-Library.AList"
begin

text \<open>
  Shared vocabulary of the development: the JavaScript values the statistics console
  handles, the coercions its source relies on (truthiness, loose equality, string
  concatenation, property reads), handlers that may throw, counting loops over array-like
  values, and the string helpers.

  Numbers are the integers the servers send (identifiers, counts, levels, time stamps),
  plus \<open>NaN\<close>. Strings are sequences of bytes holding UTF-8 text; \<open>js_length\<close> counts
  UTF-16 units as JavaScript does, and \<open>uni\<close> writes a literal by its code points.
  A \<open>Date\<close> object carries its time value and the text the runtime prints for it.
\<close>

named_theorems js_simps "evaluation rules of JavaScript values and loops"

section \<open>Values\<close>

datatype jsval =
    JUndef
  | JNull
  | JBool bool
  | JNaN
  | JNum int
  | JStr string
  | JDate int string
  | JArr "jsval list"
  | JObj "(string \<times> jsval) list"

type_synonym jsobj = "(string \<times> jsval) list"

datatype js_exn = TypeError | ReferenceError string | SyntaxError | URIError

section \<open>Numbers and text\<close>

definition digit_char :: "nat \<Rightarrow> char" where
  "digit_char n = char_of (48 + n)"

fun string_of_nat :: "nat \<Rightarrow> string" where
  "string_of_nat n =
     (if n < 10 then [digit_char n] else string_of_nat (n div 10) @ [digit_char (n mod 10)])"

declare string_of_nat.simps [simp del]

definition string_of_int :: "int \<Rightarrow> string" where
  "string_of_int i = (if i < 0 then CHR ''-'' # string_of_nat (nat (- i)) else string_of_nat (nat i))"

definition digit_val :: "char \<Rightarrow> nat option" where
  "digit_val c = (let n = of_char c :: nat in if 48 \<le> n \<and> n \<le> 57 then Some (n - 48) else None)"

fun digits_val :: "nat \<Rightarrow> string \<Rightarrow> nat \<times> string" where
  "digits_val acc [] = (acc, [])"
| "digits_val acc (c # cs) =
     (case digit_val c of Some d \<Rightarrow> digits_val (10 * acc + d) cs | None \<Rightarrow> (acc, c # cs))"

text \<open>A text read in base ten: the longest integer prefix after blanks, or none.\<close>

definition parse_int_string :: "string \<Rightarrow> int option" where
  "parse_int_string s0 =
     (let s = dropWhile (\<lambda>c. c = CHR '' '') s0;
          neg = (s \<noteq> [] \<and> hd s = CHR ''-'');
          t = (if s \<noteq> [] \<and> (hd s = CHR ''-'' \<or> hd s = CHR ''+'') then tl s else s)
      in if t = [] \<or> digit_val (hd t) = None then None
         else Some ((if neg then - 1 else 1) * int (fst (digits_val 0 t))))"

text \<open>
  \<open>parseInt\<close> without a base: white space of the language in front (in UTF-8), a sign, then digits of base
  sixteen after \<open>0x\<close> or \<open>0X\<close>, of base ten otherwise. \<open>blank_length\<close> is the number of bytes of a white space.
\<close>

definition blank_length :: "string \<Rightarrow> nat" where
  "blank_length s =
     (if s = [] then 0
      else if (let n = of_char (hd s) :: nat in n = 32 \<or> (9 \<le> n \<and> n \<le> 13)) then 1
      else if take 2 s = [CHR 0xC2, CHR 0xA0] then 2
      else if List.member
             [[CHR 0xE1, CHR 0x9A, CHR 0x80], [CHR 0xE2, CHR 0x80, CHR 0xA8], [CHR 0xE2, CHR 0x80, CHR 0xA9],
              [CHR 0xE2, CHR 0x80, CHR 0xAF], [CHR 0xE2, CHR 0x81, CHR 0x9F], [CHR 0xE3, CHR 0x80, CHR 0x80],
              [CHR 0xEF, CHR 0xBB, CHR 0xBF]] (take 3 s) \<or>
           take 2 s = [CHR 0xE2, CHR 0x80] \<and> length s > 2 \<and> (let n = of_char (s ! 2) :: nat in 0x80 \<le> n \<and> n \<le> 0x8A)
           then 3
      else 0)"

function skip_blanks :: "string \<Rightarrow> string" where
  "skip_blanks s = (if blank_length s = 0 then s else skip_blanks (drop (blank_length s) s))"
  by pat_completeness auto
termination
  by (relation "measure length") (auto simp: blank_length_def split: if_splits)

declare skip_blanks.simps [simp del]

fun trim_end :: "string \<Rightarrow> string" where
  "trim_end [] = []"
| "trim_end (c # cs) = (if skip_blanks (c # cs) = [] then [] else c # trim_end cs)"

definition js_trim :: "string \<Rightarrow> string" where
  "js_trim s = trim_end (skip_blanks s)"

definition base_digit :: "nat \<Rightarrow> char \<Rightarrow> nat option" where
  "base_digit b c =
     (let n = of_char c :: nat;
          d = (if 48 \<le> n \<and> n \<le> 57 then n - 48 else if 65 \<le> n \<and> n \<le> 70 then n - 55
               else if 97 \<le> n \<and> n \<le> 102 then n - 87 else b)
      in if d < b then Some d else None)"

definition base_value :: "nat \<Rightarrow> string \<Rightarrow> nat" where
  "base_value b s = fold (\<lambda>c acc. b * acc + (case base_digit b c of Some d \<Rightarrow> d | None \<Rightarrow> 0)) s 0"

definition unsigned :: "string \<Rightarrow> string" where
  "unsigned s = (if s \<noteq> [] \<and> (hd s = CHR ''-'' \<or> hd s = CHR ''+'') then tl s else s)"

definition signed :: "string \<Rightarrow> nat \<Rightarrow> int" where
  "signed s n = (if s \<noteq> [] \<and> hd s = CHR ''-'' then - int n else int n)"

definition js_parse_int :: "string \<Rightarrow> int option" where
  "js_parse_int s0 =
     (let s = skip_blanks s0; t = unsigned s
      in if take 2 t = ''0x'' \<or> take 2 t = ''0X''
         then (let ds = takeWhile (\<lambda>c. base_digit 16 c \<noteq> None) (drop 2 t)
               in if ds = [] then None else Some (signed s (base_value 16 ds)))
         else if t = [] \<or> digit_val (hd t) = None then None
         else Some (signed s (fst (digits_val 0 t))))"

fun utf8_char :: "nat \<Rightarrow> string" where
  "utf8_char n =
     (if n < 128 then [char_of n]
      else if n < 2048 then [char_of (192 + n div 64), char_of (128 + n mod 64)]
      else [char_of (224 + n div 4096), char_of (128 + n div 64 mod 64), char_of (128 + n mod 64)])"

text \<open>A text literal given by the code points of the basic multilingual plane.\<close>

definition uni :: "nat list \<Rightarrow> string" where
  "uni cps = concat (map utf8_char cps)"

text \<open>
  \<open>String.length\<close>: UTF-16 units of a UTF-8 encoded text. Every byte that does not continue
  a character counts once, a four-byte character counts twice.
\<close>

definition js_length :: "string \<Rightarrow> nat" where
  "js_length s =
     length (filter (\<lambda>c. (of_char c :: nat) < 128 \<or> 192 \<le> (of_char c :: nat)) s) +
     length (filter (\<lambda>c. 240 \<le> (of_char c :: nat)) s)"

section \<open>Coercions\<close>

fun truthy :: "jsval \<Rightarrow> bool" where
  "truthy JUndef = False"
| "truthy JNull = False"
| "truthy (JBool b) = b"
| "truthy JNaN = False"
| "truthy (JNum n) = (n \<noteq> 0)"
| "truthy (JStr s) = (s \<noteq> [])"
| "truthy (JDate t s) = True"
| "truthy (JArr xs) = True"
| "truthy (JObj kvs) = True"

abbreviation falsy :: "jsval \<Rightarrow> bool" where
  "falsy v \<equiv> \<not> truthy v"

text \<open>\<open>v == undefined\<close> holds of \<open>undefined\<close> and \<open>null\<close> only.\<close>

fun nullish :: "jsval \<Rightarrow> bool" where
  "nullish JUndef = True"
| "nullish JNull = True"
| "nullish _ = False"

fun js_typeof :: "jsval \<Rightarrow> string" where
  "js_typeof JUndef = ''undefined''"
| "js_typeof (JBool _) = ''boolean''"
| "js_typeof JNaN = ''number''"
| "js_typeof (JNum _) = ''number''"
| "js_typeof (JStr _) = ''string''"
| "js_typeof _ = ''object''"

fun js_join :: "string \<Rightarrow> string list \<Rightarrow> string" where
  "js_join sep [] = []"
| "js_join sep [x] = x"
| "js_join sep (x # y # ys) = x @ sep @ js_join sep (y # ys)"

fun js_to_string :: "jsval \<Rightarrow> string" where
  "js_to_string JUndef = ''undefined''"
| "js_to_string JNull = ''null''"
| "js_to_string (JBool b) = (if b then ''true'' else ''false'')"
| "js_to_string JNaN = ''NaN''"
| "js_to_string (JNum n) = string_of_int n"
| "js_to_string (JStr s) = s"
| "js_to_string (JDate t s) = s"
| "js_to_string (JArr xs) =
     js_join '','' (map (\<lambda>x. if nullish x then [] else js_to_string x) xs)"
| "js_to_string (JObj kvs) = ''[object Object]''"

text \<open>
  The text of a string as a number (\<open>Number\<close>): white space around it is cut off; blank is 0; then an
  optionally signed decimal numeral, or one of base sixteen, eight or two after its prefix. Numbers
  are integers, so the texts of numbers that are not whole, and \<open>Infinity\<close>, stand as none.
\<close>

definition base_prefix :: "string \<Rightarrow> nat option" where
  "base_prefix s =
     (if take 2 s = ''0x'' \<or> take 2 s = ''0X'' then Some 16
      else if take 2 s = ''0o'' \<or> take 2 s = ''0O'' then Some 8
      else if take 2 s = ''0b'' \<or> take 2 s = ''0B'' then Some 2
      else None)"

text \<open>Digits with a fraction and an exponent, when they make a whole number.\<close>

definition js_decimal :: "string \<Rightarrow> nat option" where
  "js_decimal t =
     (let digit = (\<lambda>c. digit_val c \<noteq> None);
          ds = takeWhile digit t; r = dropWhile digit t; dot = (r \<noteq> [] \<and> hd r = CHR ''.'');
          frac = (if dot then takeWhile digit (tl r) else []);
          rest = (if dot then dropWhile digit (tl r) else r);
          u = unsigned (tl rest);
          expo = (if rest = [] then Some 0
                  else if (hd rest = CHR ''e'' \<or> hd rest = CHR ''E'') \<and> u \<noteq> [] \<and> list_all digit u
                  then Some (signed (tl rest) (fst (digits_val 0 u)))
                  else None);
          m = fst (digits_val 0 (ds @ frac))
      in if ds @ frac = [] then None
         else (case expo of
                 None \<Rightarrow> None
               | Some e \<Rightarrow>
                   (let k = e - int (length frac)
                    in if 0 \<le> k then Some (m * 10 ^ nat k)
                       else if m mod 10 ^ nat (- k) = 0 then Some (m div 10 ^ nat (- k))
                       else None)))"

definition js_string_number :: "string \<Rightarrow> int option" where
  "js_string_number s0 =
     (let s = js_trim s0; t = unsigned s
      in if s = [] then Some 0
         else if t \<noteq> [] \<and> list_all (\<lambda>c. digit_val c \<noteq> None) t then Some (signed s (fst (digits_val 0 t)))
         else (case base_prefix s of
                 Some b \<Rightarrow>
                   if drop 2 s \<noteq> [] \<and> list_all (\<lambda>c. base_digit b c \<noteq> None) (drop 2 s)
                   then Some (int (base_value b (drop 2 s))) else None
               | None \<Rightarrow> map_option (signed s) (js_decimal t)))"

fun js_to_number :: "jsval \<Rightarrow> int option" where
  "js_to_number JUndef = None"
| "js_to_number JNull = Some 0"
| "js_to_number (JBool b) = Some (if b then 1 else 0)"
| "js_to_number JNaN = None"
| "js_to_number (JNum n) = Some n"
| "js_to_number (JStr s) = js_string_number s"
| "js_to_number (JDate t s) = Some t"
| "js_to_number (JArr xs) = js_string_number (js_to_string (JArr xs))"
| "js_to_number (JObj kvs) = js_string_number (js_to_string (JObj kvs))"

text \<open>
  Loose equality \<open>==\<close>. Two values of one primitive type compare by value, \<open>null\<close> and
  \<open>undefined\<close> equal each other only, a number and a string compare as numbers, an object
  meets a primitive value as its text. Two objects compare by identity; two separately
  decoded ones are different.
\<close>

fun js_eq_prim :: "jsval \<Rightarrow> jsval \<Rightarrow> bool" where
  "js_eq_prim (JStr a) (JStr b) = (a = b)"
| "js_eq_prim (JNum a) (JNum b) = (a = b)"
| "js_eq_prim (JBool a) (JBool b) = (a = b)"
| "js_eq_prim (JNum a) (JStr b) = (js_string_number b = Some a)"
| "js_eq_prim (JStr a) (JNum b) = (js_string_number a = Some b)"
| "js_eq_prim (JBool a) (JNum b) = (js_to_number (JBool a) = Some b)"
| "js_eq_prim (JNum a) (JBool b) = (js_to_number (JBool b) = Some a)"
| "js_eq_prim (JBool a) (JStr b) = (js_to_number (JBool a) = js_string_number b)"
| "js_eq_prim (JStr a) (JBool b) = (js_to_number (JBool b) = js_string_number a)"
| "js_eq_prim v w = (nullish v \<and> nullish w)"

fun is_object :: "jsval \<Rightarrow> bool" where
  "is_object (JDate _ _) = True"
| "is_object (JArr _) = True"
| "is_object (JObj _) = True"
| "is_object _ = False"

definition js_prim :: "jsval \<Rightarrow> jsval" where
  "js_prim v = (if is_object v then JStr (js_to_string v) else v)"

definition js_eq :: "jsval \<Rightarrow> jsval \<Rightarrow> bool" where
  "js_eq v w = (\<not> (is_object v \<and> is_object w) \<and> js_eq_prim (js_prim v) (js_prim w))"

text \<open>The operator \<open>+\<close>: numbers add, anything else concatenates as text.\<close>

fun numeric :: "jsval \<Rightarrow> bool" where
  "numeric (JNum _) = True"
| "numeric JNaN = True"
| "numeric JUndef = True"
| "numeric JNull = True"
| "numeric (JBool _) = True"
| "numeric _ = False"

definition js_add :: "jsval \<Rightarrow> jsval \<Rightarrow> jsval" where
  "js_add a b =
     (if numeric a \<and> numeric b
      then (case (js_to_number a, js_to_number b) of
              (Some x, Some y) \<Rightarrow> JNum (x + y) | _ \<Rightarrow> JNaN)
      else JStr (js_to_string a @ js_to_string b))"

text \<open>\<open>parseInt(v)\<close> and \<open>parseInt(v, 10)\<close>.\<close>

definition parseInt :: "jsval \<Rightarrow> jsval" where
  "parseInt v = (case js_parse_int (js_to_string v) of Some n \<Rightarrow> JNum n | None \<Rightarrow> JNaN)"

definition parseInt10 :: "jsval \<Rightarrow> jsval" where
  "parseInt10 v = (case parse_int_string (skip_blanks (js_to_string v)) of Some n \<Rightarrow> JNum n | None \<Rightarrow> JNaN)"

section \<open>Objects\<close>

definition obj_get :: "jsobj \<Rightarrow> string \<Rightarrow> jsval" where
  "obj_get kvs k = (case map_of kvs k of None \<Rightarrow> JUndef | Some v \<Rightarrow> v)"

abbreviation obj_set :: "string \<Rightarrow> jsval \<Rightarrow> jsobj \<Rightarrow> jsobj" where
  "obj_set \<equiv> AList.update"

text \<open>
  A property read. Reading a property of \<open>undefined\<close> or \<open>null\<close> throws; \<open>js_prop\<close> is the value
  read from anything else.
\<close>

fun js_prop :: "jsval \<Rightarrow> string \<Rightarrow> jsval" where
  "js_prop (JObj kvs) k = obj_get kvs k"
| "js_prop (JArr xs) k = (if k = ''length'' then JNum (int (length xs)) else JUndef)"
| "js_prop (JStr s) k = (if k = ''length'' then JNum (int (js_length s)) else JUndef)"
| "js_prop _ k = JUndef"

definition js_get :: "jsval \<Rightarrow> string \<Rightarrow> js_exn + jsval" where
  "js_get v k = (if nullish v then Inl TypeError else Inr (js_prop v k))"

fun js_index :: "jsval \<Rightarrow> nat \<Rightarrow> jsval" where
  "js_index (JArr xs) i = (if i < length xs then xs ! i else JUndef)"
| "js_index (JStr s) i = (if i < length s then JStr [s ! i] else JUndef)"
| "js_index v i = js_prop v (string_of_nat i)"

text \<open>
  The elements a loop \<open>for (var i = 0; i < v.length; i++)\<close> visits: none where the length is
  not a number, an exception where \<open>v\<close> is \<open>undefined\<close> or \<open>null\<close>.
\<close>

definition js_items :: "jsval \<Rightarrow> js_exn + jsval list" where
  "js_items v =
     (if nullish v then Inl TypeError
      else Inr (case js_to_number (js_prop v ''length'') of
                  Some n \<Rightarrow> map (js_index v) [0 ..< nat n]
                | None \<Rightarrow> []))"

text \<open>
  An object literal \<open>{k: rc['f'], ...}\<close> whose values are read from one row: \<open>pick\<close> lists
  the keys with the properties they are read from. A key written twice keeps its last value.
\<close>

definition pick :: "(string \<times> string) list \<Rightarrow> jsval \<Rightarrow> js_exn + jsobj" where
  "pick ks rc =
     (if ks \<noteq> [] \<and> nullish rc then Inl TypeError
      else Inr (fold (\<lambda>(k, f) d. obj_set k (js_prop rc f) d) ks []))"

section \<open>Handlers that may throw\<close>

text \<open>
  A handler changes a state and may stop at an exception; what it changed before the
  exception stays changed.
\<close>

datatype 's outcome = Done 's | Threw js_exn 's

fun final_state :: "'s outcome \<Rightarrow> 's" where
  "final_state (Done s) = s"
| "final_state (Threw e s) = s"

fun and_then :: "'s outcome \<Rightarrow> ('s \<Rightarrow> 's outcome) \<Rightarrow> 's outcome" where
  "and_then (Done s) f = f s"
| "and_then (Threw e s) f = Threw e s"

fun js_for :: "('a \<Rightarrow> 's \<Rightarrow> 's outcome) \<Rightarrow> 'a list \<Rightarrow> 's \<Rightarrow> 's outcome" where
  "js_for f [] s = Done s"
| "js_for f (x # xs) s = and_then (f x s) (js_for f xs)"

text \<open>Evaluating an expression that may throw, then going on with its value.\<close>

definition with_val :: "js_exn + 'v \<Rightarrow> ('v \<Rightarrow> 's \<Rightarrow> 's outcome) \<Rightarrow> 's \<Rightarrow> 's outcome" where
  "with_val r f s = (case r of Inl e \<Rightarrow> Threw e s | Inr v \<Rightarrow> f v s)"

section \<open>Lemmas\<close>

lemma string_of_nat_nonempty [simp]: "string_of_nat n \<noteq> []"
  by (subst string_of_nat.simps) simp

text \<open>Printed numbers read back.\<close>

lemma digit_val_digit_char [simp]: "d < 10 \<Longrightarrow> digit_val (digit_char d) = Some d"
  by (simp add: digit_val_def digit_char_def)

lemma digit_char_plain: "d < 10 \<Longrightarrow> 48 \<le> (of_char (digit_char d) :: nat) \<and> (of_char (digit_char d) :: nat) \<le> 57"
  by (simp add: digit_char_def)

lemma digits_val_append:
  "list_all (\<lambda>c. digit_val c \<noteq> None) s \<Longrightarrow> digits_val acc (s @ t) = digits_val (fst (digits_val acc s)) t"
  by (induction s arbitrary: acc) auto

lemma string_of_nat_digits: "list_all (\<lambda>c. digit_val c \<noteq> None) (string_of_nat n)"
  by (induction n rule: string_of_nat.induct) (subst string_of_nat.simps, simp)

lemma digits_val_all: "list_all (\<lambda>c. digit_val c \<noteq> None) s \<Longrightarrow> snd (digits_val acc s) = []"
  by (induction s arbitrary: acc) auto

lemma digits_val_string_of_nat: "digits_val 0 (string_of_nat n) = (n, [])"
proof (induction n rule: string_of_nat.induct)
  case (1 n)
  show ?case
  proof (cases "n < 10")
    case True
    then show ?thesis by (subst string_of_nat.simps) simp
  next
    case False
    with 1 have "digits_val 0 (string_of_nat (n div 10)) = (n div 10, [])" by simp
    with False show ?thesis
      using digits_val_append [OF string_of_nat_digits, of 0 "n div 10" "[digit_char (n mod 10)]"]
      by (subst string_of_nat.simps) simp
  qed
qed

lemma hd_string_of_nat: "digit_val (hd (string_of_nat n)) \<noteq> None"
  using string_of_nat_digits [of n] by (cases "string_of_nat n") simp_all

lemma digit_val_not_sign: "digit_val c \<noteq> None \<Longrightarrow> c \<noteq> CHR '' '' \<and> c \<noteq> CHR ''-'' \<and> c \<noteq> CHR ''+''"
  by (auto simp: digit_val_def Let_def)

lemma parse_int_digits:
  assumes "s \<noteq> []" and "digit_val (hd s) \<noteq> None"
  shows "parse_int_string s = Some (int (fst (digits_val 0 s)))"
    and "parse_int_string (CHR ''-'' # s) = Some (- int (fst (digits_val 0 s)))"
proof -
  obtain c cs where s: "s = c # cs" using assms(1) by (cases s) auto
  then have "c \<noteq> CHR '' ''" "c \<noteq> CHR ''-''" "c \<noteq> CHR ''+''" "digit_val c \<noteq> None"
    using assms(2) digit_val_not_sign [of c] by simp_all
  then show "parse_int_string s = Some (int (fst (digits_val 0 s)))"
    and "parse_int_string (CHR ''-'' # s) = Some (- int (fst (digits_val 0 s)))"
    by (simp_all add: s parse_int_string_def Let_def del: digits_val.simps)
qed

theorem parse_int_string_of_int: "parse_int_string (string_of_int i) = Some i"
  by (simp add: string_of_int_def parse_int_digits hd_string_of_nat digits_val_string_of_nat)

text \<open>Printed numbers begin with no blank and hold none.\<close>

lemma skip_visible: "33 \<le> (of_char c :: nat) \<Longrightarrow> (of_char c :: nat) < 0x80 \<Longrightarrow> skip_blanks (c # cs) = c # cs"
proof -
  assume c: "33 \<le> (of_char c :: nat)" "(of_char c :: nat) < 0x80"
  then have "c \<noteq> CHR 0xC2" "c \<noteq> CHR 0xE1" "c \<noteq> CHR 0xE2" "c \<noteq> CHR 0xE3" "c \<noteq> CHR 0xEF" by auto
  then have "blank_length (c # cs) = 0" using c by (simp add: blank_length_def)
  then show ?thesis by (simp add: skip_blanks.simps [of "c # cs"])
qed

definition number_char :: "char \<Rightarrow> bool" where
  "number_char c = (digit_val c \<noteq> None \<or> c = CHR ''-'')"

lemma number_char_visible: "number_char c \<Longrightarrow> 33 \<le> (of_char c :: nat) \<and> (of_char c :: nat) < 0x80 \<and> c \<noteq> CHR ''x'' \<and> c \<noteq> CHR ''X''"
  by (auto simp: number_char_def digit_val_def Let_def split: if_splits)

lemma number_chars: "list_all number_char (string_of_int i)"
proof -
  have "list_all number_char (string_of_nat n)" for n
    using string_of_nat_digits [of n] by (auto simp: number_char_def list_all_iff)
  then show ?thesis by (simp add: string_of_int_def number_char_def)
qed

lemma skip_number: "list_all number_char s \<Longrightarrow> skip_blanks s = s"
  by (cases s) (simp_all add: skip_visible number_char_visible skip_blanks.simps [of "[]"] blank_length_def)

lemma trim_number: "list_all number_char s \<Longrightarrow> js_trim s = s"
proof -
  have "trim_end s = s" if "list_all number_char s" for s
    using that by (induction s) (simp_all add: skip_visible number_char_visible)
  then show "list_all number_char s \<Longrightarrow> js_trim s = s" by (simp add: js_trim_def skip_number)
qed

lemma printed_parts:
  "unsigned (string_of_int i) = string_of_nat (nat (abs i))" "signed (string_of_int i) (nat (abs i)) = i"
  using hd_string_of_nat [of "nat i"] digit_val_not_sign [of "hd (string_of_nat (nat i))"]
  by (auto simp: unsigned_def signed_def string_of_int_def)

lemma js_parse_int_of_int: "js_parse_int (string_of_int i) = Some i"
proof -
  let ?t = "string_of_nat (nat (abs i))"
  have "list_all number_char ?t" using number_chars [of "int (nat (abs i))"] by (simp add: string_of_int_def)
  then have "CHR ''x'' \<notin> set ?t" "CHR ''X'' \<notin> set ?t" using number_char_visible by (auto simp: list_all_iff)
  then have "take 2 ?t \<noteq> ''0x''" "take 2 ?t \<noteq> ''0X''" by (auto dest!: arg_cong [of _ _ set] dest: in_set_takeD)
  then show ?thesis
    using hd_string_of_nat [of "nat (abs i)"]
    by (simp add: js_parse_int_def Let_def skip_number number_chars printed_parts digits_val_string_of_nat)
qed

lemma js_string_number_of_int: "js_string_number (string_of_int i) = Some i"
proof -
  have "string_of_int i \<noteq> []" by (simp add: string_of_int_def)
  then show ?thesis
    using string_of_nat_digits [of "nat (abs i)"]
    by (simp add: js_string_number_def Let_def trim_number number_chars printed_parts digits_val_string_of_nat)
qed

lemma nullish_falsy: "nullish v \<Longrightarrow> falsy v"
  by (cases v) simp_all

lemma obj_get_Nil [simp]: "obj_get [] k = JUndef"
  by (simp add: obj_get_def)

lemma obj_get_Cons [simp]: "obj_get ((k', v) # kvs) k = (if k = k' then v else obj_get kvs k)"
  by (simp add: obj_get_def)

lemma obj_get_set [simp]: "obj_get (obj_set k v kvs) k' = (if k' = k then v else obj_get kvs k')"
  by (auto simp: obj_get_def update_conv')

lemma js_eq_simps [simp]:
  "js_eq (JStr a) (JStr b) = (a = b)"
  "js_eq (JNum m) (JNum n) = (m = n)"
  "js_eq JNull v = nullish v"
  "js_eq v JUndef = nullish v"
  by (simp_all add: js_eq_def js_prim_def) (cases v; simp)+

lemma with_val_simps [simp]:
  "with_val (Inl e) f s = Threw e s"
  "with_val (Inr v) f s = f v s"
  by (simp_all add: with_val_def)

lemma js_get_simps [simp]:
  "js_get JUndef k = Inl TypeError"
  "js_get JNull k = Inl TypeError"
  "js_get (JObj kvs) k = Inr (obj_get kvs k)"
  by (simp_all add: js_get_def)

lemma js_items_JArr [simp]: "js_items (JArr xs) = Inr xs"
proof -
  have "map (js_index (JArr xs)) [0 ..< length xs] = xs"
    by (rule nth_equalityI) simp_all
  then show ?thesis by (simp add: js_items_def)
qed

lemma js_items_null [simp]:
  "js_items JUndef = Inl TypeError"
  "js_items JNull = Inl TypeError"
  by (simp_all add: js_items_def)

lemma js_for_append: "js_for f (xs @ ys) s = and_then (js_for f xs s) (js_for f ys)"
proof (induction xs arbitrary: s)
  case Nil
  show ?case by simp
next
  case (Cons x xs)
  then show ?case by (cases "f x s") simp_all
qed

text \<open>A loop whose body never throws is a fold.\<close>

lemma js_for_Done: "(\<And>x s. x \<in> set xs \<Longrightarrow> f x s = Done (g x s)) \<Longrightarrow> js_for f xs s = Done (fold g xs s)"
  by (induction xs arbitrary: s) simp_all

text \<open>A property every iteration keeps holds after the loop, whether or not it throws.\<close>

lemma js_for_invariant:
  assumes "\<And>x s. x \<in> set xs \<Longrightarrow> P s \<Longrightarrow> P (final_state (f x s))"
    and "P s"
  shows "P (final_state (js_for f xs s))"
  using assms
proof (induction xs arbitrary: s)
  case Nil
  then show ?case by simp
next
  case (Cons x xs)
  from Cons.prems have x: "P (final_state (f x s))" by simp
  show ?case
  proof (cases "f x s")
    case (Done s')
    with x Cons show ?thesis by simp
  next
    case (Threw e s')
    with x show ?thesis by simp
  qed
qed

lemma map_update_same: "f x = f (xs ! i) \<Longrightarrow> map f (xs[i := x]) = map f xs"
  by (cases "i < length xs") (simp_all add: map_update list_eq_iff_nth_eq nth_list_update)

lemma list_all_update: "list_all P kvs \<Longrightarrow> P (k, v) \<Longrightarrow> list_all P (AList.update k v kvs)"
  by (induction kvs) auto

lemma obj_get_fold_set_notin:
  "k \<notin> fst ` set ks \<Longrightarrow> obj_get (fold (\<lambda>(k, f) d. obj_set k (g f) d) ks d) k = obj_get d k"
  by (induction ks arbitrary: d) auto

lemma obj_get_fold_set:
  "distinct (map fst ks) \<Longrightarrow> (k, f) \<in> set ks \<Longrightarrow>
     obj_get (fold (\<lambda>(k, f) d. obj_set k (g f) d) ks d) k = g f"
proof (induction ks arbitrary: d)
  case Nil
  then show ?case by simp
next
  case (Cons p ks)
  show ?case
  proof (cases "p = (k, f)")
    case True
    with Cons.prems(1) have "k \<notin> fst ` set ks" by auto
    with True show ?thesis by (simp add: obj_get_fold_set_notin)
  next
    case False
    with Cons.prems have "(k, f) \<in> set ks" and "distinct (map fst ks)" by auto
    then show ?thesis using Cons.IH by (simp add: case_prod_beta)
  qed
qed

lemma pick_not_null [simp]:
  "\<not> nullish rc \<Longrightarrow> pick ks rc = Inr (fold (\<lambda>(k, f) d. obj_set k (js_prop rc f) d) ks [])"
  by (simp add: pick_def)

declare with_val_simps [js_simps] js_items_JArr [js_simps] js_for.simps [js_simps] obj_get_Cons [js_simps]

end
