(* ===== verification/Ext_Store.thy ===== *)
theory Ext_Store
  imports Prelude
begin

text \<open>
  The data stores the console's pages fill (\<open>Ext.data.Store\<close> of the Ext JS 4.2.1 build under
  \<open>app/stat/public/extjs/ext-all-rtl.js\<close>), as far as the pages use them: a store declares its
  fields, adding a plain object builds a record that has exactly the declared fields, a field
  the object lacks takes the default value (the empty string; the identifier field has none),
  and properties outside the declared fields are dropped. The contract the pages rely on is
  the locale \<open>record_store\<close>, interpreted on this model at the end.
\<close>

record store =
  s_fields :: "string list"
  s_recs :: "jsobj list"

section \<open>Operations\<close>

text \<open>Fields are a keyed collection: declaring a name again replaces the earlier field in place.\<close>

fun field_list :: "string list \<Rightarrow> string list \<Rightarrow> string list" where
  "field_list seen [] = []"
| "field_list seen (f # fs) = (if f \<in> set seen then field_list seen fs else f # field_list (f # seen) fs)"

definition new_store :: "string list \<Rightarrow> store" where
  "new_store fs = \<lparr>s_fields = field_list [] fs, s_recs = []\<rparr>"

definition field_value :: "jsobj \<Rightarrow> string \<Rightarrow> (string \<times> jsval) list" where
  "field_value d f =
     (let v = obj_get d f in
      if v = JUndef then (if f = ''id'' then [] else [(f, JStr [])]) else [(f, v)])"

definition model_data :: "string list \<Rightarrow> jsobj \<Rightarrow> jsobj" where
  "model_data fs d = concat (map (field_value d) fs)"

definition store_add :: "jsobj \<Rightarrow> store \<Rightarrow> store" where
  "store_add d s = s\<lparr>s_recs := s_recs s @ [model_data (s_fields s) d]\<rparr>"

definition store_insert :: "nat \<Rightarrow> jsobj \<Rightarrow> store \<Rightarrow> store" where
  "store_insert i d s =
     s\<lparr>s_recs := take i (s_recs s) @ [model_data (s_fields s) d] @ drop i (s_recs s)\<rparr>"

definition store_removeAll :: "store \<Rightarrow> store" where
  "store_removeAll s = s\<lparr>s_recs := []\<rparr>"

definition store_getRange :: "store \<Rightarrow> jsobj list" where
  "store_getRange s = s_recs s"

definition store_getAt :: "store \<Rightarrow> nat \<Rightarrow> jsobj option" where
  "store_getAt s i = (if i < length (s_recs s) then Some (s_recs s ! i) else None)"

text \<open>
  A record conforms to its store when it carries the declared fields in their order (the
  identifier field may be missing).
\<close>

definition conforms :: "string list \<Rightarrow> jsobj \<Rightarrow> bool" where
  "conforms fs r = (filter (\<lambda>f. f \<noteq> ''id'') (map fst r) = filter (\<lambda>f. f \<noteq> ''id'') fs \<and>
                    set (map fst r) \<subseteq> set fs)"

definition store_wf :: "store \<Rightarrow> bool" where
  "store_wf s = (distinct (s_fields s) \<and> list_all (conforms (s_fields s)) (s_recs s))"

section \<open>The contract\<close>

locale record_store =
  fixes empty_store :: "string list \<Rightarrow> 's"
    and add :: "jsobj \<Rightarrow> 's \<Rightarrow> 's"
    and clear :: "'s \<Rightarrow> 's"
    and rows :: "'s \<Rightarrow> jsobj list"
    and fields :: "'s \<Rightarrow> string list"
    and mk :: "string list \<Rightarrow> jsobj \<Rightarrow> jsobj"
    and wf :: "'s \<Rightarrow> bool"
  assumes rows_empty: "rows (empty_store fs) = []"
    and rows_add: "rows (add d s) = rows s @ [mk (fields s) d]"
    and rows_clear: "rows (clear s) = []"
    and fields_add: "fields (add d s) = fields s"
    and fields_clear: "fields (clear s) = fields s"
    and wf_empty: "wf (empty_store fs)"
    and wf_add: "wf s \<Longrightarrow> wf (add d s)"
    and wf_clear: "wf s \<Longrightarrow> wf (clear s)"
begin

lemma fields_fold_add: "fields (fold add ds s) = fields s"
  by (induction ds arbitrary: s) (simp_all add: fields_add)

lemma rows_fold_add: "rows (fold add ds s) = rows s @ map (mk (fields s)) ds"
  by (induction ds arbitrary: s) (simp_all add: rows_add fields_add)

lemma rows_refill: "rows (fold add ds (clear s)) = map (mk (fields s)) ds"
  by (simp add: rows_fold_add rows_clear fields_clear)

lemma wf_fold_add: "wf s \<Longrightarrow> wf (fold add ds s)"
  by (induction ds arbitrary: s) (simp_all add: wf_add)

lemma wf_refill: "wf s \<Longrightarrow> wf (fold add ds (clear s))"
  by (simp add: wf_fold_add wf_clear)

text \<open>Filling twice with the same rows after a clear changes nothing.\<close>

lemma refill_idempotent:
  "rows (fold add ds (clear (fold add ds (clear s)))) = rows (fold add ds (clear s))"
  by (simp add: rows_refill fields_fold_add fields_clear)

end

section \<open>The model keeps the contract\<close>

lemma field_list_notin: "f \<in> set seen \<Longrightarrow> f \<notin> set (field_list seen fs)"
  by (induction fs arbitrary: seen) auto

lemma distinct_field_list: "distinct (field_list seen fs)"
  by (induction fs arbitrary: seen) (auto simp: field_list_notin)

lemma set_field_list: "set (field_list seen fs) = set fs - set seen"
  by (induction fs arbitrary: seen) auto

lemma field_list_distinct:
  "distinct fs \<Longrightarrow> set fs \<inter> set seen = {} \<Longrightarrow> field_list seen fs = fs"
  by (induction fs arbitrary: seen) auto

lemma model_data_Nil [simp]: "model_data [] d = []"
  by (simp add: model_data_def)

lemma model_data_Cons [simp]: "model_data (f # fs) d = field_value d f @ model_data fs d"
  by (simp add: model_data_def)

lemma conforms_model_data: "conforms fs (model_data fs d)"
  by (induction fs) (auto simp: conforms_def field_value_def Let_def)

lemma map_fst_model_data: "''id'' \<notin> set fs \<Longrightarrow> map fst (model_data fs d) = fs"
  by (induction fs) (auto simp: field_value_def Let_def)

lemma obj_get_field_value:
  "obj_get (field_value d f @ ys) k =
     (if k = f \<and> obj_get d f \<noteq> JUndef then obj_get d f
      else if k = f \<and> f \<noteq> ''id'' then JStr []
      else obj_get ys k)"
  by (auto simp: field_value_def Let_def)

lemma obj_get_model_data:
  "obj_get (model_data fs d) k =
     (if k \<notin> set fs then JUndef
      else if obj_get d k = JUndef \<and> k \<noteq> ''id'' then JStr []
      else obj_get d k)"
proof (induction fs)
  case Nil
  show ?case by simp
next
  case (Cons f fs)
  then show ?case by (cases "k = f") (auto simp: obj_get_field_value)
qed

text \<open>A record built from an object of the declared fields reads back the object's values.\<close>

lemma model_data_reads:
  "f \<in> set fs \<Longrightarrow> obj_get d f \<noteq> JUndef \<Longrightarrow> obj_get (model_data fs d) f = obj_get d f"
  by (simp add: obj_get_model_data)

lemma model_data_again: "distinct fs \<Longrightarrow> model_data fs (model_data fs d) = model_data fs d"
proof -
  have "field_value (model_data fs d) f = field_value d f" if "f \<in> set fs" for f
    using that by (auto simp: field_value_def Let_def obj_get_model_data)
  then show ?thesis unfolding model_data_def [of fs] by (metis (no_types, lifting) map_eq_conv)
qed

interpretation ext_store: record_store new_store store_add store_removeAll store_getRange s_fields model_data store_wf
  by unfold_locales
    (auto simp: new_store_def store_add_def store_removeAll_def store_getRange_def store_wf_def
      distinct_field_list conforms_model_data)

lemma store_insert_wf: "store_wf s \<Longrightarrow> store_wf (store_insert i d s)"
  by (auto simp: store_wf_def store_insert_def conforms_model_data list_all_iff
      dest: in_set_takeD in_set_dropD)

lemma s_fields_new_store: "distinct fs \<Longrightarrow> s_fields (new_store fs) = fs"
  by (simp add: new_store_def field_list_distinct)

lemmas store_simps = store_add_def store_removeAll_def store_getRange_def new_store_def

end
