(* ===== verification/Localisation.thy ===== *)
theory Localisation
  imports Prelude
begin

text \<open>
  The console's texts (\<open>app/stat/public/locale/zh.js\<close>): the table \<open>map_string\<close> in the order
  of the file and the lookup \<open>loc\<close>, which falls back to the identifier itself. A key written
  twice keeps its last text, as an object literal does, so the lookup reads the table from
  the end.
\<close>

definition map_string :: "(string \<times> string) list" where
  "map_string = [
     (''alert'', uni [0x63D0, 0x793A]),
     (''str_sys_inter_err'', (uni [0x5185, 0x90E8, 0x9519, 0x8BEF] @ ''!'')),
     (''str_passwore_length_err'', (uni [0x5BC6, 0x7801, 0x957F, 0x5EA6, 0x5FC5, 0x987B, 0x5927, 0x4E8E] @ ''6!'')),
     (''err_wrong_email_pass'', (uni [0x9519, 0x8BEF, 0x7684, 0x7528, 0x6237, 0x540D, 0x6216, 0x5BC6, 0x7801] @ ''!'')),
     (''err_invalid_param'', (uni [0x670D, 0x52A1, 0x5668, 0x53C2, 0x6570, 0x9519, 0x8BEF] @ ''!'')),
     (''str_login'', uni [0x767B, 0x9646]),
     (''str_email'', (uni [0x90AE, 0x7BB1] @ '':'')),
     (''str_password'', (uni [0x5BC6, 0x7801] @ '':'')),
     (''str_confirm_password'', (uni [0x786E, 0x8BA4, 0x5BC6, 0x7801] @ '':'')),
     (''str_regist'', uni [0x6CE8, 0x518C]),
     (''err_email_format'', uni [0x90AE, 0x7BB1, 0x683C, 0x5F0F, 0x9519, 0x8BEF, 0xFF01]),
     (''str_functions'', uni [0x529F, 0x80FD, 0x5217, 0x8868]),
     (''str_user_manage'', uni [0x7528, 0x6237, 0x7BA1, 0x7406]),
     (''str_role_manage'', uni [0x89D2, 0x8272, 0x7BA1, 0x7406]),
     (''str_logout'', uni [0x9000, 0x51FA, 0x767B, 0x9646]),
     (''str_add_new_role'', uni [0x6DFB, 0x52A0, 0x65B0, 0x89D2, 0x8272]),
     (''str_id'', uni [0x5E8F, 0x53F7]),
     (''str_name'', uni [0x540D, 0x79F0]),
     (''str_description'', uni [0x63CF, 0x8FF0]),
     (''str_remove_alert'', uni [0x786E, 0x5B9A, 0x5220, 0x9664, 0x5417, 0xFF1F]),
     (''str_save_success'', uni [0x4FDD, 0x5B58, 0x6210, 0x529F, 0xFF01]),
     (''str_save'', uni [0x4FDD, 0x5B58]),
     (''str_cancel'', uni [0x53D6, 0x6D88]),
     (''str_check_rights'', uni [0x9009, 0x62E9, 0x89D2, 0x8272, 0x529F, 0x80FD, 0x6743, 0x9650]),
     (''str_role'', uni [0x89D2, 0x8272]),
     (''yes'', uni [0x662F]),
     (''no'', uni [0x5426]),
     (''delete'', uni [0x5220, 0x9664]),
     (''modify'', uni [0x4FEE, 0x6539]),
     (''str_inuse'', uni [0x542F, 0x7528]),
     (''str_switch_inuse'', (uni [0x542F, 0x7528] @ ''/'' @ uni [0x7981, 0x7528])),
     (''str_tip_modify_role'', uni [0x4FEE, 0x6539, 0x89D2, 0x8272, 0x6743, 0x9650]),
     (''str_remove_role'', uni [0x5220, 0x9664, 0x89D2, 0x8272]),
     (''str_switch_inuse'', uni [0x5F00, 0x542F, 0x6216, 0x7981, 0x7528, 0x8D26, 0x6237]),
     (''str_modify_user_role'', uni [0x4FEE, 0x6539, 0x7528, 0x6237, 0x89D2, 0x8272]),
     (''str_select_role'', uni [0x9009, 0x62E9, 0x89D2, 0x8272]),
     (''str_gen_today'', (uni [0x751F, 0x6210, 0x4ECA, 0x65E5] @ ''Stats'')),
     (''str_gen_today_stats_success'', (uni [0x4ECA, 0x65E5] @ ''stats'' @ uni [0x751F, 0x6210, 0x6210, 0x529F])),
     (''str_level_consume'', uni [0x6D88, 0x8D39, 0x7B49, 0x7EA7, 0x5206, 0x5E03, 0x6309, 0x7CFB, 0x7EDF, 0x67E5, 0x8BE2]),
     (''str_consume_report'', uni [0x6D88, 0x8D39, 0x7B49, 0x7EA7, 0x5206, 0x5E03, 0x62A5, 0x8868, 0x67E5, 0x8BE2]),
     (''str_date'', uni [0x65E5, 0x671F]),
     (''str_zone'', uni [0x533A]),
     (''str_sdk'', ''SDK''),
     (''str_plz_select_zone'', uni [0x8BF7, 0x9009, 0x62E9, 0x533A]),
     (''str_huobi_cat'', uni [0x8D27, 0x5E01, 0x7C7B, 0x578B]),
     (''str_plz_select_category'', uni [0x8BF7, 0x9009, 0x62E9, 0x8D27, 0x5E01]),
     (''str_sys_cat'', uni [0x7CFB, 0x7EDF]),
     (''str_plz_select_syscat'', uni [0x8BF7, 0x9009, 0x62E9, 0x7CFB, 0x7EDF, 0x7C7B, 0x578B]),
     (''str_plz_select_date'', uni [0x8BF7, 0x9009, 0x62E9, 0x65E5, 0x671F]),
     (''str_credits'', uni [0x91D1, 0x7816]),
     (''str_coins'', uni [0x786C, 0x5E01]),
     (''str_money'', uni [0x7EB8, 0x5E01]),
     (''str_voucher'', uni [0x4EE3, 0x91D1, 0x5238]),
     (''str_query'', uni [0x67E5, 0x8BE2]),
     (''str_module_users'', uni [0x7528, 0x6237]),
     (''str_module_statshelper'', uni [0x6E38, 0x620F, 0x5185, 0x7EDF, 0x8BA1]),
     (''str_module_statsorign'', uni [0x6E38, 0x620F, 0x901A, 0x7528, 0x7EDF, 0x8BA1]),
     (''str_module_realtimestats'', uni [0x6E38, 0x620F, 0x5B9E, 0x65F6, 0x7EDF, 0x8BA1]),
     (''str_module_statsbin'', uni [0x53EF, 0x6267, 0x884C, 0x529F, 0x80FD]),
     (''str_module_recharge'', uni [0x5145, 0x503C, 0x7EDF, 0x8BA1]),
     (''str_module_loss'', uni [0x6D41, 0x5931, 0x7EDF, 0x8BA1]),
     (''str_total_active'', uni [0x5F53, 0x5468, 0x6D3B, 0x8DC3, 0x7528, 0x6237, 0x6570, 0x91CF]),
     (''str_date_start'', uni [0x5F00, 0x59CB, 0x65E5, 0x671F]),
     (''str_date_end'', uni [0x7ED3, 0x675F, 0x65E5, 0x671F]),
     (''str_active_cat'', uni [0x7EDF, 0x8BA1, 0x6D3B, 0x8DC3, 0x7684, 0x7C7B, 0x578B]),
     (''str_plz_select_active_kind'', uni [0x8BF7, 0x9009, 0x62E9, 0x6D3B, 0x8DC3, 0x5206, 0x7C7B]),
     (''str_players'', uni [0x73A9, 0x5BB6]),
     (''str_accounts'', uni [0x8D26, 0x53F7]),
     (''str_device'', uni [0x8BBE, 0x5907]),
     (''str_new_player'', uni [0x65B0, 0x73A9, 0x5BB6]),
     (''str_new_device'', uni [0x65B0, 0x8BBE, 0x5907]),
     (''str_new_account'', uni [0x65B0, 0x8D26, 0x53F7]),
     (''str_sdk_plat_cat'', (''SDK'' @ uni [0x4E0E, 0x533A])),
     (''str_plz_select_sdk'', (uni [0x8BF7, 0x9009, 0x62E9] @ ''SDK'')),
     (''str_plz_select_sdk_plat'', (uni [0x8BF7, 0x9009, 0x62E9] @ ''SDK'' @ uni [0x6216, 0x5E73, 0x53F0])),
     (''str_active_report'', uni [0x6D3B, 0x8DC3, 0x5EA6, 0x62A5, 0x8868]),
     (''str_retention_report'', uni [0x7559, 0x5B58, 0x7387, 0x62A5, 0x8868]),
     (''str_chief_level_report'', uni [0x73A9, 0x5BB6, 0x7B49, 0x7EA7, 0x5206, 0x5E03, 0x62A5, 0x8868]),
     (''str_city_level_report'', uni [0x6D3B, 0x8DC3, 0x73A9, 0x5BB6, 0x5165, 0x5E02, 0x7B49, 0x7EA7, 0x5206, 0x5E03, 0x62A5, 0x8868]),
     (''str_credits_consume_report'', uni [0x91D1, 0x7816, 0x5404, 0x7CFB, 0x7EDF, 0x6D88, 0x8017, 0x62A5, 0x8868]),
     (''str_credits_gain_report'', uni [0x91D1, 0x7816, 0x5404, 0x7CFB, 0x7EDF, 0x83B7, 0x53D6, 0x62A5, 0x8868]),
     (''str_coins_consume_report'', uni [0x786C, 0x5E01, 0x5404, 0x7CFB, 0x7EDF, 0x6D88, 0x8017, 0x62A5, 0x8868]),
     (''str_coins_gain_report'', uni [0x786C, 0x5E01, 0x5404, 0x7CFB, 0x7EDF, 0x83B7, 0x53D6, 0x62A5, 0x8868]),
     (''str_money_consume_report'', uni [0x7EB8, 0x5E01, 0x5404, 0x7CFB, 0x7EDF, 0x6D88, 0x8017, 0x62A5, 0x8868]),
     (''str_money_gain_report'', uni [0x7EB8, 0x5E01, 0x5404, 0x7CFB, 0x7EDF, 0x83B7, 0x53D6, 0x62A5, 0x8868]),
     (''str_voucher_consume_report'', uni [0x4EE3, 0x91D1, 0x5238, 0x5404, 0x7CFB, 0x7EDF, 0x6D88, 0x8017, 0x62A5, 0x8868]),
     (''str_voucher_gain_report'', uni [0x4EE3, 0x91D1, 0x5238, 0x5404, 0x7CFB, 0x7EDF, 0x83B7, 0x53D6, 0x62A5, 0x8868]),
     (''str_shop_consume_report'', uni [0x5546, 0x57CE, 0x6D88, 0x8D39, 0x62A5, 0x8868]),
     (''str_start_campaign_report'', uni [0x5404, 0x7C7B, 0x578B, 0x6218, 0x6597, 0x7EDF, 0x8BA1]),
     (''str_active_factions_report'', uni [0x6D3B, 0x8DC3, 0x804C, 0x4E1A, 0x4EBA, 0x6570, 0x5206, 0x5E03, 0x62A5, 0x8868]),
     (''str_all_factions_report'', uni [0x6240, 0x6709, 0x804C, 0x4E1A, 0x4EBA, 0x6570, 0x5206, 0x5E03, 0x62A5, 0x8868]),
     (''str_main_quest_cam_report'', uni [0x4E3B, 0x7EBF, 0x6218, 0x6597, 0x901A, 0x8FC7, 0x4EBA, 0x6570, 0x7EDF, 0x8BA1]),
     (''str_booth_trade_report'', uni [0x4EA4, 0x6613, 0x884C, 0x6D41, 0x6C34, 0x62A5, 0x8868]),
     (''str_new_users_report'', uni [0x6BCF, 0x5C0F, 0x65F6, 0x65B0, 0x7528, 0x6237, 0x62A5, 0x8868]),
     (''str_active_users_report'', uni [0x6BCF, 0x5C0F, 0x65F6, 0x6D3B, 0x8DC3, 0x7528, 0x6237, 0x62A5, 0x8868]),
     (''str_max_online_report'', uni [0x6700, 0x5927, 0x5728, 0x7EBF, 0x6570, 0x62A5, 0x8868]),
     (''str_ave_online_report'', uni [0x6BCF, 0x5C0F, 0x65F6, 0x5E73, 0x5747, 0x5728, 0x7EBF, 0x62A5, 0x8868]),
     (''str_export_xls'', (uni [0x5BFC, 0x51FA] @ ''excel'')),
     (''str_chapter_quest_report'', uni [0x7AE0, 0x8282, 0x4E8B, 0x4EF6, 0x4EFB, 0x52A1, 0x62A5, 0x8868]),
     (''str_boss_practice_report'', (uni [0x5371, 0x9669, 0x4EBA, 0x7269] @ ''-'' @ uni [0x4E0D, 0x6CD5, 0x533A, 0x57DF, 0x53C2, 0x4E0E, 0x5EA6, 0x62A5, 0x8868])),
     (''str_guild_level_record'', uni [0x516C, 0x4F1A, 0x7B49, 0x7EA7, 0x4EBA, 0x6570, 0x62A5, 0x8868]),
     (''str_guild_skill_record'', uni [0x516C, 0x4F1A, 0x6280, 0x80FD, 0x7B49, 0x7EA7, 0x4EBA, 0x6570, 0x62A5, 0x8868]),
     (''str_guild_active_record'', uni [0x516C, 0x4F1A, 0x6D3B, 0x8DC3, 0x4EBA, 0x6570, 0x62A5, 0x8868]),
     (''str_player_recharge_record'', uni [0x5145, 0x503C, 0x6D41, 0x6C34]),
     (''str_player_recharge_report'', uni [0x5145, 0x503C, 0x7EDF, 0x8BA1]),
     (''str_new_player_recharge_report'', uni [0x65B0, 0x7528, 0x6237, 0x5145, 0x503C]),
     (''str_loss_consume_report'', uni [0x6D41, 0x5931, 0x7528, 0x6237, 0x6D88, 0x8D39, 0x7EDF, 0x8BA1]),
     (''str_loss_recharge_report'', uni [0x6D41, 0x5931, 0x7528, 0x6237, 0x5145, 0x503C, 0x7EDF, 0x8BA1]),
     (''str_loss_report'', uni [0x6D41, 0x5931, 0x67E5, 0x8BE2]),
     (''str_platform'', uni [0x5E73, 0x53F0]),
     (''str_plz_select_platform'', uni [0x8BF7, 0x9009, 0x62E9, 0x5E73, 0x53F0]),
     (''str_lianxu_days'', uni [0x8FDE, 0x7EED, 0x672A, 0x767B, 0x9646, 0x5929, 0x6570]),
     (''str_plz_select_days'', uni [0x8BF7, 0x9009, 0x62E9, 0x5929, 0x6570]),
     (''str_level_campaign_report'', uni [0x6218, 0x6597, 0x6309, 0x7B49, 0x7EA7, 0x7EDF, 0x8BA1]),
     (''str_city_campaign_report'', uni [0x6218, 0x6597, 0x6309, 0x57CE, 0x533A, 0x7EDF, 0x8BA1]),
     (''str_add_equip_report'', uni [0x88C5, 0x5907, 0x6389, 0x843D, 0x6253, 0x9020, 0x7EDF, 0x8BA1]),
     (''str_main_quest_report'', uni [0x4E3B, 0x7EBF, 0x4EFB, 0x52A1, 0x7EDF, 0x8BA1]),
     (''str_main_quest_user_report'', uni [0x4E3B, 0x7EBF, 0x4EFB, 0x52A1, 0x6C47, 0x603B, 0x7EDF, 0x8BA1]),
     (''str_grade'', uni [0x54C1, 0x7EA7]),
     (''str_plz_select_grade'', uni [0x8BF7, 0x9009, 0x54C1, 0x7EA7]),
     (''str_star'', uni [0x661F, 0x7EA7]),
     (''str_plz_select_star'', uni [0x8BF7, 0x9009, 0x661F, 0x7EA7]),
     (''str_all_player_level_report'', uni [0x6240, 0x6709, 0x73A9, 0x5BB6, 0x7B49, 0x7EA7, 0x5206, 0x5E03]),
     (''str_all_player_city_event_level_report'', uni [0x6240, 0x6709, 0x73A9, 0x5BB6, 0x5165, 0x4E16, 0x7B49, 0x7EA7, 0x5206, 0x5E03]),
     (''str_campaign_id'', (uni [0x526F, 0x672C] @ ''ID'')),
     (''str_cat'', uni [0x7C7B, 0x578B]),
     (''str_plz_select_cat'', uni [0x8BF7, 0x9009, 0x62E9, 0x7C7B, 0x578B]),
     (''str_campaign_report'', uni [0x526F, 0x672C, 0x62A5, 0x8868]),
     (''str_vip_level_report'', (''vip'' @ uni [0x7B49, 0x7EA7, 0x62A5, 0x8868])),
     (''str_vip_purchase_report'', (''vip'' @ uni [0x793C, 0x5305, 0x8D2D, 0x4E70, 0x62A5, 0x8868])),
     (''str_share_award_report'', uni [0x5206, 0x4EAB, 0x9886, 0x5956, 0x62A5, 0x8868]),
     (''str_born_quest_report'', uni [0x5F00, 0x670D, 0x72C2, 0x6B22, 0x62A5, 0x8868])]"

definition loc :: "string \<Rightarrow> string" where
  "loc i = (case map_of (rev map_string) i of
              None \<Rightarrow> i
            | Some t \<Rightarrow> if t = [] then i else t)"

text \<open>The identifiers the table translates.\<close>

definition known_text :: "string \<Rightarrow> bool" where
  "known_text i = list_ex (\<lambda>p. fst p = i) map_string"

text \<open>An identifier outside the table is shown as it is.\<close>

lemma loc_unknown: "\<not> known_text i \<Longrightarrow> loc i = i"
proof -
  assume "\<not> known_text i"
  then have "map_of (rev map_string) i = None"
    by (auto simp: known_text_def list_ex_iff map_of_eq_None_iff)
  then show ?thesis by (simp add: loc_def)
qed

text \<open>A text is never empty, except for the empty identifier.\<close>

lemma loc_nonempty: "i \<noteq> [] \<Longrightarrow> loc i \<noteq> []"
  by (auto simp: loc_def split: option.splits)

end
