(* ===== verification/Text_Split.thy ===== *)
theory Text_Split
  imports Prelude
begin

text \<open>
  Splitting a text at a character, as \<open>split\<close> does in JavaScript: one part more than there are
  separators, the parts between two of them may be empty.
\<close>

fun js_split :: "char \<Rightarrow> string \<Rightarrow> string list" where
  "js_split c [] = [[]]"
| "js_split c (x # xs) =
     (if x = c then [] # js_split c xs
      else (case js_split c xs of [] \<Rightarrow> [[x]] | s # ss \<Rightarrow> (x # s) # ss))"

lemma js_split_nonempty [simp]: "js_split c s \<noteq> []"
  by (cases s) (auto split: list.splits)

lemma js_split_no_sep: "c \<notin> set s \<Longrightarrow> js_split c s = [s]"
  by (induction s) auto

lemma js_split_append: "c \<notin> set s \<Longrightarrow> js_split c (s @ c # t) = s # js_split c t"
  by (induction s) auto

text \<open>The parts joined with the separator give the text back, and the other way round.\<close>

lemma join_split: "js_join [c] (js_split c s) = s"
proof (induction s)
  case (Cons x xs)
  obtain p ps where ps: "js_split c xs = p # ps" by (cases "js_split c xs") simp_all
  then show ?case using Cons by (cases ps) auto
qed simp

lemma split_join:
  assumes "xs \<noteq> []" "\<forall>x\<in>set xs. c \<notin> set x"
  shows "js_split c (js_join [c] xs) = xs"
  using assms by (induction "[c]" xs rule: js_join.induct) (simp_all add: js_split_no_sep js_split_append)

end
