(* ===== verification/Session.thy ===== *)
theory Session
  imports Ext_Store Localisation Text_Split
begin

text \<open>
  The console's shared script (\<open>app/stat/public/shared/include-ext.js\<close>): the session cookies,
  the query string of the page, the server calls every page goes through (\<open>ajaxCall\<close>) with
  the four ways a response is handled, and the export of a grid to a spreadsheet.

  The browser around a page is the record \<open>world\<close>: the cookie jar, the page's own address,
  the anti-forgery token, and the observable effects in the order they happen. Page states
  extend this record, so the functions below work on every page. \<open>Ext.encode\<close> is kept
  symbolic: a request parameter is either a value or the encoding of one (\<open>Encoded\<close>).
  A response carries its text and what \<open>Ext.decode\<close> makes of it (\<open>None\<close>: it throws).
\<close>

section \<open>The browser\<close>

datatype pval = Raw jsval | Encoded jsval

record request =
  r_url :: string
  r_method :: string
  r_params :: "(string \<times> pval) list"
  r_token :: jsval

datatype effect =
    Alert string
  | MsgAlert string string
  | Send request
  | Goto string
  | Download string string

record world =
  cookies :: "(string \<times> string) list"
  doc_url :: string
  csrf :: jsval
  effects :: "effect list"

definition emit :: "effect \<Rightarrow> 'a world_scheme \<Rightarrow> 'a world_scheme" where
  "emit e w = w\<lparr>effects := effects w @ [e]\<rparr>"

text \<open>\<open>Ext.util.Cookies\<close>: reading a missing cookie gives \<open>null\<close>, writing stores the text of the value.\<close>

definition cookie_get :: "string \<Rightarrow> 'a world_scheme \<Rightarrow> jsval" where
  "cookie_get k w = (case map_of (cookies w) k of Some v \<Rightarrow> JStr v | None \<Rightarrow> JNull)"

definition cookie_set :: "string \<Rightarrow> jsval \<Rightarrow> 'a world_scheme \<Rightarrow> 'a world_scheme" where
  "cookie_set k v w = w\<lparr>cookies := AList.update k (js_to_string v) (cookies w)\<rparr>"

section \<open>Session and address\<close>

definition BASE_URL :: string where
  "BASE_URL = []"

definition getSid :: "'a world_scheme \<Rightarrow> jsval \<times> 'a world_scheme" where
  "getSid w =
     (let sessionid = cookie_get ''sessionid'' w
      in (sessionid,
          if js_typeof sessionid = ''undefined'' then emit (Goto (BASE_URL @ ''/users/login'')) w else w))"

definition getUid :: "'a world_scheme \<Rightarrow> jsval" where
  "getUid w = cookie_get ''userid'' w"

definition hex_val :: "char \<Rightarrow> nat option" where
  "hex_val c =
     (let n = of_char c :: nat
      in if 48 \<le> n \<and> n \<le> 57 then Some (n - 48)
         else if 65 \<le> n \<and> n \<le> 70 then Some (n - 55)
         else if 97 \<le> n \<and> n \<le> 102 then Some (n - 87)
         else None)"

text \<open>\<open>decodeURIComponent\<close> on the bytes of the text; a broken escape throws.\<close>

fun decode_uri :: "string \<Rightarrow> string option" where
  "decode_uri [] = Some []"
| "decode_uri (c # cs) =
     (if c = CHR ''%'' then
        (case cs of
           a # b # rest \<Rightarrow>
             (case (hex_val a, hex_val b) of
                (Some x, Some y) \<Rightarrow> map_option (\<lambda>t. char_of (16 * x + y) # t) (decode_uri rest)
              | _ \<Rightarrow> None)
         | _ \<Rightarrow> None)
      else map_option (\<lambda>t. c # t) (decode_uri cs))"

text \<open>One \<open>name=value\<close> part of a query string; a name that comes again collects its values.\<close>

definition add_param :: "string \<Rightarrow> jsval \<Rightarrow> jsobj \<Rightarrow> jsobj" where
  "add_param k v u =
     (case map_of u k of
        None \<Rightarrow> u @ [(k, v)]
      | Some (JArr xs) \<Rightarrow> obj_set k (JArr (xs @ [v])) u
      | Some x \<Rightarrow> obj_set k (JArr [x, v]) u)"

fun decode_parts :: "string list \<Rightarrow> jsobj \<Rightarrow> js_exn + jsobj" where
  "decode_parts [] u = Inr u"
| "decode_parts (p # ps) u =
     (if p = [] then decode_parts ps u
      else
        (let k = js_split (CHR ''='') p
         in case (decode_uri (hd k), decode_uri (if 1 < length k then k ! 1 else [])) of
              (Some w, Some n) \<Rightarrow> decode_parts ps (add_param w (JStr n) u)
            | _ \<Rightarrow> Inl URIError))"

definition urlDecode :: "string \<Rightarrow> js_exn + jsobj" where
  "urlDecode q =
     decode_parts (js_split (CHR ''&'') (if q \<noteq> [] \<and> hd q = CHR ''?'' then tl q else q)) []"

definition getUrlParam :: "'a world_scheme \<Rightarrow> js_exn + jsobj" where
  "getUrlParam w = urlDecode (last (js_split (CHR ''?'') (doc_url w)))"

section \<open>Server calls\<close>

record ajax_opts =
  o_url :: string
  o_method :: "string option"
  o_params :: "(string \<times> pval) list option"

definition ajaxCall :: "ajax_opts \<Rightarrow> 'a world_scheme \<Rightarrow> 'a world_scheme" where
  "ajaxCall opts w =
     (let (sid, w') = getSid w;
          params = (case o_params opts of None \<Rightarrow> [] | Some ps \<Rightarrow> ps);
          params' = AList.update ''sid'' (Raw sid) params;
          verb = (case o_method opts of None \<Rightarrow> ''POST'' | Some m \<Rightarrow> if m = [] then ''POST'' else m)
      in emit (Send \<lparr>r_url = BASE_URL @ o_url opts, r_method = verb,
                     r_params = params', r_token = csrf w'\<rparr>) w')"

text \<open>The parameters a call sends: those of the caller with the session identifier set.\<close>

definition sent_params :: "ajax_opts \<Rightarrow> 'a world_scheme \<Rightarrow> (string \<times> pval) list" where
  "sent_params opts w =
     AList.update ''sid'' (Raw (cookie_get ''sessionid'' w)) (case o_params opts of None \<Rightarrow> [] | Some ps \<Rightarrow> ps)"

datatype response = Responded string "jsval option" | Failed string

type_synonym 's callback = "jsval \<Rightarrow> 's \<Rightarrow> 's outcome"

text \<open>
  The two callbacks \<open>ajaxCall\<close> registers: \<open>success\<close> decodes the text and dispatches on
  \<open>res.success\<close> and \<open>res.reason\<close>; \<open>failure\<close> shows the text of the error.
\<close>

definition ajax_response ::
  "'a world_scheme callback option \<Rightarrow> 'a world_scheme callback option \<Rightarrow> response \<Rightarrow>
   'a world_scheme \<Rightarrow> 'a world_scheme outcome" where
  "ajax_response onSuccess onFail r w =
     (case r of
        Failed txt \<Rightarrow> Done (emit (MsgAlert (loc ''str_sys_inter_err'') txt) w)
      | Responded txt None \<Rightarrow> Threw SyntaxError w
      | Responded txt (Some res) \<Rightarrow>
          with_val (js_get res ''success'') (\<lambda>succ w.
            if js_eq succ (JStr ''ok'') then
              (case onSuccess of Some f \<Rightarrow> f res w | None \<Rightarrow> Done w)
            else if js_eq (js_prop res ''reason'') (JStr ''verify fail'') then
              Done (emit (Goto (BASE_URL @ ''/users/login'')) w)
            else
              (case onFail of
                 Some f \<Rightarrow> f res w
               | None \<Rightarrow> Done (emit (MsgAlert (loc ''alert'') txt) w))) w)"

section \<open>Export to a spreadsheet\<close>

record column =
  c_text :: string
  c_dataIndex :: string

definition column_obj :: "column \<Rightarrow> jsval" where
  "column_obj c = JObj [(''text'', JStr (c_text c)), (''dataIndex'', JStr (c_dataIndex c))]"

definition getJsonOfStore :: "store \<Rightarrow> pval" where
  "getJsonOfStore s = Encoded (JArr (map JObj (store_getRange s)))"

definition getJsonOfHeader :: "column list \<Rightarrow> pval" where
  "getJsonOfHeader cols = Encoded (JArr (map column_obj cols))"

definition doExportXls :: "store \<Rightarrow> column list \<Rightarrow> 'a world_scheme \<Rightarrow> 'a world_scheme" where
  "doExportXls s cols w =
     ajaxCall \<lparr>o_url = ''/statsexport/save_export_data'', o_method = None,
       o_params = Some [(''str_header'', getJsonOfHeader cols), (''str_data'', getJsonOfStore s)]\<rparr> w"

text \<open>Its \<open>onSuccess\<close>: a link to the saved sheet is made and clicked, then \<open>onComplete\<close> runs.\<close>

definition export_saved ::
  "string \<Rightarrow> ('a world_scheme \<Rightarrow> 'a world_scheme) option \<Rightarrow> 'a world_scheme callback" where
  "export_saved file_name onComplete res w =
     (let uid = getUid w;
          url = BASE_URL @ ''/statsexport/export_to_xls.xls?uid='' @ js_to_string uid @
                ''&file_name='' @ file_name;
          w' = emit (Download url (file_name @ ''.xls'')) w
      in Done (case onComplete of Some f \<Rightarrow> f w' | None \<Rightarrow> w'))"

section \<open>Lemmas\<close>

lemma emit_simps [simp]:
  "cookies (emit e w) = cookies w"
  "doc_url (emit e w) = doc_url w"
  "csrf (emit e w) = csrf w"
  "effects (emit e w) = effects w @ [e]"
  by (simp_all add: emit_def)

lemma cookie_get_set:
  "cookie_get k' (cookie_set k v w) = (if k' = k then JStr (js_to_string v) else cookie_get k' w)"
  by (simp add: cookie_get_def cookie_set_def update_conv')

text \<open>The check in \<open>getSid\<close> never fires: a missing cookie is \<open>null\<close>, whose type is \<open>object\<close>.\<close>

lemma getSid_eq: "getSid w = (cookie_get ''sessionid'' w, w)"
  by (simp add: getSid_def cookie_get_def split: option.splits)

lemma ajaxCall_eq:
  "ajaxCall opts w =
     emit (Send \<lparr>r_url = o_url opts,
                 r_method = (case o_method opts of None \<Rightarrow> ''POST'' | Some m \<Rightarrow> if m = [] then ''POST'' else m),
                 r_params = sent_params opts w, r_token = csrf w\<rparr>) w"
  by (simp add: ajaxCall_def getSid_eq sent_params_def Let_def BASE_URL_def)

lemma ajaxCall_simps [simp]:
  "cookies (ajaxCall opts w) = cookies w"
  "doc_url (ajaxCall opts w) = doc_url w"
  "csrf (ajaxCall opts w) = csrf w"
  by (simp_all add: ajaxCall_eq)

lemma effects_ajaxCall:
  "effects (ajaxCall opts w) = effects w @
     [Send \<lparr>r_url = o_url opts,
            r_method = (case o_method opts of None \<Rightarrow> ''POST'' | Some m \<Rightarrow> if m = [] then ''POST'' else m),
            r_params = sent_params opts w, r_token = csrf w\<rparr>]"
  by (simp add: ajaxCall_eq)

lemma map_of_sent_params: "map_of (sent_params opts w) ''sid'' = Some (Raw (cookie_get ''sessionid'' w))"
  by (simp add: sent_params_def update_conv')

lemma decode_uri_plain: "CHR ''%'' \<notin> set s \<Longrightarrow> decode_uri s = Some s"
  by (induction s) auto

text \<open>A response reaches exactly one of the callbacks, the log-in page or a message.\<close>

lemma ajax_response_cases:
  "ajax_response (Some f) None (Responded txt (Some (JObj r))) w =
     (if js_eq (obj_get r ''success'') (JStr ''ok'') then f (JObj r) w
      else if js_eq (obj_get r ''reason'') (JStr ''verify fail'') then Done (emit (Goto ''/users/login'') w)
      else Done (emit (MsgAlert (loc ''alert'') txt) w))"
  by (simp add: ajax_response_def BASE_URL_def)

lemma ajax_response_ok:
  "obj_get r ''success'' = JStr ''ok'' \<Longrightarrow>
     ajax_response (Some f) g (Responded txt (Some (JObj r))) w = f (JObj r) w"
  by (simp add: ajax_response_def)

section \<open>Properties\<close>

text \<open>
  A server call sends exactly one request. The parameters are the caller's, and the
  parameter \<open>sid\<close> is always the session cookie, even where the caller set one.
\<close>

lemma ajaxCall_carries_session:
  "\<exists>req. effects (ajaxCall opts w) = effects w @ [Send req] \<and> r_url req = o_url opts \<and>
     map_of (r_params req) =
       (case o_params opts of None \<Rightarrow> Map.empty | Some ps \<Rightarrow> map_of ps)(''sid'' \<mapsto> Raw (cookie_get ''sessionid'' w))"
  by (auto simp: ajaxCall_eq sent_params_def update_conv split: option.splits)

text \<open>
  A response that does not report success reaches no success callback: when its reason is
  \<open>verify fail\<close> the browser goes to the log-in page and nothing else happens, whichever
  callbacks the caller gave.
\<close>

lemma expired_session_goes_to_login:
  assumes "\<not> js_eq (obj_get r ''success'') (JStr ''ok'')" and "js_eq (obj_get r ''reason'') (JStr ''verify fail'')"
  shows "ajax_response f g (Responded txt (Some (JObj r))) w = Done (emit (Goto ''/users/login'') w)"
  using assms by (simp add: ajax_response_def BASE_URL_def)

theorem expired_session_goes_to_login_witness:
  "ajax_response (Some (\<lambda>res w. Done (emit (Alert ''done'') w))) None
     (Responded [] (Some (JObj [(''success'', JStr ''fail''), (''reason'', JStr ''verify fail'')])))
     \<lparr>cookies = [], doc_url = [], csrf = JNull, effects = []\<rparr> =
   Done \<lparr>cookies = [], doc_url = [], csrf = JNull, effects = [Goto ''/users/login'']\<rparr>"
  by (subst expired_session_goes_to_login) (simp_all add: js_eq_def js_prim_def emit_def)

end
