(* ===== verification/Report_Page.thy ===== *)
theory Report_Page
  imports Session
begin

text \<open>
  What the report pages under \<open>app/stat/public/functions\<close> share. A page declares stores,
  input fields, grids and a layout (the record \<open>page_cfg\<close>, read from the arguments of its
  \<open>Ext.create\<close> calls), asks the server for the choices of its input fields when it is
  launched, and then reacts to its query and export buttons and to the answers of the server.

  The state of a page is the record \<open>page\<close>: the browser, its stores by variable name, the
  value and the shown text of every input field, the name of the last search, the other
  script variables a page assigns (\<open>vars\<close>, unset at first) and the callbacks of the requests that wait for an answer. Callbacks are named by the datatype
  \<open>kont\<close>. Answers may come in any order, so an \<open>Answer\<close> event picks any waiting request.

  A page's program is the record \<open>report\<close>; \<open>page_step\<close> runs one event and \<open>run_page\<close> a
  sequence of them. The locales at the end state what the pages' handlers promise and what
  follows for every run.
\<close>

section \<open>Page descriptions\<close>

record combo =
  cb_label :: string
  cb_editable :: bool
  cb_store :: string
  cb_valueField :: string
  cb_displayField :: string
  cb_typeAhead :: bool
  cb_queryMode :: string
  cb_emptyText :: string
  cb_selectOnFocus :: bool
  cb_width :: nat

record textfield =
  tf_name :: string
  tf_label :: string
  tf_allowBlank :: bool
  tf_editable :: bool

record button =
  bt_icon :: string
  bt_text :: string
  bt_handler :: string

datatype widget = Combo combo | DateField textfield | TextField textfield | Button button

text \<open>All combo boxes of the pages are local, not editable and select on focus.\<close>

definition local_combo :: "string \<Rightarrow> string \<Rightarrow> string \<Rightarrow> string \<Rightarrow> string \<Rightarrow> nat \<Rightarrow> widget" where
  "local_combo label s value display prompt w =
     Combo \<lparr>cb_label = loc label, cb_editable = False, cb_store = s, cb_valueField = value,
            cb_displayField = display, cb_typeAhead = True, cb_queryMode = ''local'',
            cb_emptyText = loc prompt, cb_selectOnFocus = True, cb_width = w\<rparr>"

definition date_field :: "string \<Rightarrow> string \<Rightarrow> widget" where
  "date_field n label =
     DateField \<lparr>tf_name = n, tf_label = loc label, tf_allowBlank = False, tf_editable = False\<rparr>"

definition query_button :: widget where
  "query_button = Button \<lparr>bt_icon = ''/images/search.png'', bt_text = loc ''str_query'', bt_handler = ''onBtnQuery''\<rparr>"

definition export_button :: widget where
  "export_button = Button \<lparr>bt_icon = ''/images/down.png'', bt_text = loc ''str_export_xls'', bt_handler = ''onBtnExport''\<rparr>"

record grid =
  gr_title :: string
  gr_store :: string
  gr_columns :: "column list"

record page_cfg =
  app_name :: string
  pg_stores :: "(string \<times> string list \<times> jsobj list) list"
  pg_widgets :: "(string \<times> widget) list"
  pg_grids :: "(string \<times> grid) list"

record layout =
  toolbar :: "string list"
  center :: "string list"

abbreviation col :: "string \<Rightarrow> string \<Rightarrow> column" where
  "col t i \<equiv> \<lparr>c_text = t, c_dataIndex = i\<rparr>"

text \<open>A description holds together: what it names exists and is declared once.\<close>

definition fields_of :: "page_cfg \<Rightarrow> string \<Rightarrow> string list" where
  "fields_of c n = (case map_of (pg_stores c) n of None \<Rightarrow> [] | Some (fs, d) \<Rightarrow> fs)"

fun widget_ok :: "page_cfg \<Rightarrow> widget \<Rightarrow> bool" where
  "widget_ok c (Combo b) =
     (list_ex (\<lambda>p. fst p = cb_store b) (pg_stores c) \<and>
      List.member (fields_of c (cb_store b)) (cb_valueField b) \<and>
      List.member (fields_of c (cb_store b)) (cb_displayField b))"
| "widget_ok c _ = True"

definition grid_ok :: "page_cfg \<Rightarrow> grid \<Rightarrow> bool" where
  "grid_ok c g =
     (list_ex (\<lambda>p. fst p = gr_store g) (pg_stores c) \<and>
      list_all (\<lambda>k. List.member (fields_of c (gr_store g)) (c_dataIndex k)) (gr_columns g))"

definition cfg_ok :: "page_cfg \<Rightarrow> bool" where
  "cfg_ok c =
     (distinct (map fst (pg_stores c)) \<and> distinct (map fst (pg_widgets c)) \<and>
      list_all (\<lambda>p. widget_ok c (snd p)) (pg_widgets c) \<and>
      list_all (\<lambda>p. grid_ok c (snd p)) (pg_grids c))"

definition layout_ok :: "page_cfg \<Rightarrow> layout \<Rightarrow> bool" where
  "layout_ok c l =
     (distinct (toolbar l) \<and>
      list_all (\<lambda>n. list_ex (\<lambda>p. fst p = n) (pg_widgets c)) (toolbar l) \<and>
      list_all (\<lambda>n. list_ex (\<lambda>p. fst p = n) (pg_grids c)) (center l))"

section \<open>Page states\<close>

record input =
  in_value :: jsval
  in_raw :: string

datatype kont = KInit | KQuery | KExport string | KExportThen string

record page = world +
  stores :: "string \<Rightarrow> store"
  inputs :: "string \<Rightarrow> input"
  g_search_name :: string
  vars :: "string \<rightharpoonup> jsval"
  pending :: "kont list"

definition init_store :: "page_cfg \<Rightarrow> string \<Rightarrow> store" where
  "init_store c n =
     (case map_of (pg_stores c) n of
        None \<Rightarrow> new_store []
      | Some (fs, data) \<Rightarrow> fold store_add data (new_store fs))"

text \<open>An untouched text field holds the empty string, every other field \<open>null\<close>.\<close>

definition init_input :: "page_cfg \<Rightarrow> string \<Rightarrow> input" where
  "init_input c n =
     \<lparr>in_value = (case map_of (pg_widgets c) n of Some (TextField f) \<Rightarrow> JStr [] | _ \<Rightarrow> JNull), in_raw = []\<rparr>"

definition page_init :: "page_cfg \<Rightarrow> world \<Rightarrow> page" where
  "page_init c w =
     \<lparr>cookies = cookies w, doc_url = doc_url w, csrf = csrf w, effects = effects w,
      stores = init_store c, inputs = init_input c,
      g_search_name = [], vars = Map.empty, pending = []\<rparr>"

definition getValue :: "page \<Rightarrow> string \<Rightarrow> jsval" where
  "getValue p n = in_value (inputs p n)"

definition getRawValue :: "page \<Rightarrow> string \<Rightarrow> string" where
  "getRawValue p n = in_raw (inputs p n)"

definition add_to :: "string \<Rightarrow> jsobj \<Rightarrow> page \<Rightarrow> page" where
  "add_to n d p = p\<lparr>stores := (stores p)(n := store_add d (stores p n))\<rparr>"

definition clear_store :: "string \<Rightarrow> page \<Rightarrow> page" where
  "clear_store n p = p\<lparr>stores := (stores p)(n := store_removeAll (stores p n))\<rparr>"

section \<open>Handlers the pages share\<close>

text \<open>\<open>for (i ...) { name.add(mk i v[i]) }\<close>\<close>

definition add_each :: "string \<Rightarrow> (nat \<Rightarrow> jsval \<Rightarrow> js_exn + jsobj) \<Rightarrow> jsval \<Rightarrow> page \<Rightarrow> page outcome" where
  "add_each n mk v =
     with_val (js_items v) (\<lambda>xs. js_for (\<lambda>(i, x). with_val (mk i x) (\<lambda>d p. Done (add_to n d p)))
       (enumerate 0 xs))"

definition add_each_if :: "string \<Rightarrow> (nat \<Rightarrow> jsval \<Rightarrow> js_exn + jsobj) \<Rightarrow> jsval \<Rightarrow> page \<Rightarrow> page outcome" where
  "add_each_if n mk v p = (if truthy v then add_each n mk v p else Done p)"

text \<open>The callback of \<open>/statshelper/get_zones\<close>.\<close>

definition zones_loaded :: "page callback" where
  "zones_loaded res =
     add_each ''store_zone''
       (\<lambda>i zone. if nullish zone then Inl TypeError
                 else Inr [(''zone_name'', js_prop zone ''name''), (''zone_id'', JNum (int i + 1))])
       (js_prop res ''res'')"

definition zong_ti :: string where
  "zong_ti = uni [0x603B, 0x4F53]"

text \<open>
  The callback of \<open>/statsorign/get_sdk_plats\<close>: each of the three lists starts with an entry
  for the total; a list the answer lacks stays with that entry alone.
\<close>

definition sdk_plats_loaded :: "page callback" where
  "sdk_plats_loaded res0 p =
     (let res = js_prop res0 ''res''
      in and_then
           (and_then
             (with_val (js_get res ''sdks'')
               (add_each_if ''store_sdk'' (\<lambda>i sdk. Inr [(''sdk_name'', sdk), (''sdk'', sdk)]))
               (add_to ''store_sdk'' [(''sdk_name'', JStr zong_ti), (''sdk'', JStr ''all'')] p))
             (\<lambda>p. add_each_if ''store_platform'' (\<lambda>i plat. Inr [(''platform_name'', plat), (''platform'', plat)])
                (js_prop res ''platforms'')
                (add_to ''store_platform'' [(''platform_name'', JStr zong_ti), (''platform'', JStr ''all'')] p)))
           (\<lambda>p. add_each_if ''store_zone'' (\<lambda>i zname. Inr [(''zone_name'', zname), (''zone_id'', JNum (int i + 1))])
              (js_prop res ''zones'')
              (add_to ''store_zone'' [(''zone_name'', JStr zong_ti), (''zone_id'', JNum 0)] p)))"

text \<open>
  The callback of the same call on the pages with one combined choice: platforms, sdks,
  markets and zones in one list, each entry tagged with what it restricts.
\<close>

definition tagged :: "string \<Rightarrow> nat \<Rightarrow> jsval \<Rightarrow> js_exn + jsobj" where
  "tagged pre i v = Inr [(''catname'', v), (''category'', js_add (JStr pre) v)]"

definition cat_plats_loaded :: "page callback" where
  "cat_plats_loaded res0 p =
     (let res = js_prop res0 ''res''
      in and_then
           (and_then
             (and_then
               (with_val (js_get res ''platforms'') (add_each_if ''store_cat1'' (tagged ''platform#''))
                 (add_to ''store_cat1'' [(''catname'', JStr zong_ti), (''category'', JStr ''all#all'')] p))
               (add_each_if ''store_cat1'' (tagged ''sdk#'') (js_prop res ''sdks'')))
             (add_each_if ''store_cat1'' (tagged ''market#'') (js_prop res ''markets'')))
           (add_each_if ''store_cat1''
             (\<lambda>i zname. Inr [(''catname'', zname), (''category'', JStr (''zone_id#'' @ string_of_nat (i + 1)))])
             (js_prop res ''zones'')))"

text \<open>The callback of the same call on the pages that use its zones only.\<close>

definition zones_only_loaded :: "page callback" where
  "zones_only_loaded res0 =
     with_val (js_get (js_prop res0 ''res'') ''zones'')
       (add_each_if ''store_zone'' (\<lambda>i zname. Inr [(''zone_name'', zname), (''zone_id'', JNum (int i + 1))]))"

text \<open>
  The callback of the same call on the pages on recharges: sdks and zones in one list, on one
  page with an entry for the total before them.
\<close>

definition recharge_cats_loaded :: "bool \<Rightarrow> page callback" where
  "recharge_cats_loaded total_entry res0 p =
     (let res = js_prop res0 ''res''
      in and_then
           (with_val (js_get res ''sdks'') (add_each_if ''store_cat1'' (tagged ''sdk#''))
             (if total_entry
              then add_to ''store_cat1'' [(''catname'', JStr zong_ti), (''category'', JStr ''all#all'')] p else p))
           (add_each_if ''store_cat1''
             (\<lambda>i zname. Inr [(''catname'', zname), (''category'', JStr (''zone_id#'' @ string_of_nat (i + 1)))])
             (js_prop res ''zones'')))"

text \<open>
  The query button: the first input field that is missing is asked for; with none missing
  the search gets its name and the request goes out.
\<close>

definition run_query :: "(bool \<times> string) list \<Rightarrow> string \<Rightarrow> ajax_opts \<Rightarrow> page \<Rightarrow> page" where
  "run_query gs name opts p =
     (case find fst gs of
        Some g \<Rightarrow> emit (Alert (loc (snd g))) p
      | None \<Rightarrow> (ajaxCall opts (p\<lparr>g_search_name := name\<rparr>))\<lparr>pending := pending p @ [KQuery]\<rparr>)"

definition post :: "string \<Rightarrow> (string \<times> jsval) list \<Rightarrow> ajax_opts" where
  "post url ps = \<lparr>o_url = url, o_method = None, o_params = Some (map (\<lambda>(k, v). (k, Raw v)) ps)\<rparr>"

text \<open>A request whose parameters travel as one encoded object.\<close>

definition post_encoded :: "string \<Rightarrow> string \<Rightarrow> jsobj \<Rightarrow> ajax_opts" where
  "post_encoded url k ps = \<lparr>o_url = url, o_method = None, o_params = Some [(k, Encoded (JObj ps))]\<rparr>"

definition get_choices :: "string \<Rightarrow> ajax_opts" where
  "get_choices url = \<lparr>o_url = url, o_method = None, o_params = None\<rparr>"

definition start_export :: "kont \<Rightarrow> string \<Rightarrow> column list \<Rightarrow> page \<Rightarrow> page" where
  "start_export k n cols p = (doExportXls (stores p n) cols p)\<lparr>pending := pending p @ [k]\<rparr>"

text \<open>\<open>updateGrid\<close> of the plain pages: clear the grid, then add a record for every row.\<close>

definition fill_rows :: "string \<Rightarrow> (jsval \<Rightarrow> js_exn + jsobj) \<Rightarrow> jsval \<Rightarrow> page \<Rightarrow> page outcome" where
  "fill_rows n mk res p = add_each n (\<lambda>i. mk) res (clear_store n p)"

definition fill_grid :: "string \<Rightarrow> (string \<times> string) list \<Rightarrow> jsval \<Rightarrow> page \<Rightarrow> page outcome" where
  "fill_grid n ks = fill_rows n (pick ks)"

text \<open>
  \<open>updateGrid\<close> of the pages that keep all rows for the export and show the first fifty.
  \<open>also_save\<close> says whether the page clears the kept rows first.
\<close>

definition fill_both :: "bool \<Rightarrow> (string \<times> string) list \<Rightarrow> jsval \<Rightarrow> page \<Rightarrow> page outcome" where
  "fill_both also_save ks res p =
     with_val (js_items res)
       (\<lambda>xs. js_for (\<lambda>(i, rc). with_val (pick ks rc)
          (\<lambda>d p. Done ((if i < 50 then add_to ''store_grid'' d else id) (add_to ''save_store'' d p))))
          (enumerate 0 xs))
       (clear_store ''store_grid'' (if also_save then clear_store ''save_store'' p else p))"

section \<open>Programs and runs\<close>

record report =
  rp_cfg :: page_cfg
  rp_launch :: "(ajax_opts \<times> page callback) option"
  rp_query :: "page \<Rightarrow> page"
  rp_done :: "page callback"
  rp_export :: "page \<Rightarrow> page"
  rp_then :: "page \<Rightarrow> page"

datatype event =
    Choose string nat
  | Pick string int string string
  | Type string string
  | ClickQuery
  | ClickExport
  | Answer nat response

definition launch :: "report \<Rightarrow> world \<Rightarrow> page" where
  "launch r w =
     (case rp_launch r of
        None \<Rightarrow> page_init (rp_cfg r) w
      | Some (opts, f) \<Rightarrow> (ajaxCall opts (page_init (rp_cfg r) w))\<lparr>pending := [KInit]\<rparr>)"

definition on_answer :: "report \<Rightarrow> kont \<Rightarrow> page callback" where
  "on_answer r k =
     (case k of
        KInit \<Rightarrow> (case rp_launch r of None \<Rightarrow> (\<lambda>res p. Done p) | Some (opts, f) \<Rightarrow> f)
      | KQuery \<Rightarrow> rp_done r
      | KExport name \<Rightarrow> export_saved name None
      | KExportThen name \<Rightarrow> export_saved name (Some (rp_then r)))"

text \<open>
  The user picks the \<open>i\<close>-th entry of a combo box, or a day in a date field (its time value,
  the text the runtime prints for it, the text the field shows), or types into a text field.
\<close>

definition select_entry :: "page_cfg \<Rightarrow> string \<Rightarrow> nat \<Rightarrow> page \<Rightarrow> page" where
  "select_entry c n i p =
     (case map_of (pg_widgets c) n of
        Some (Combo b) \<Rightarrow>
          (case store_getAt (stores p (cb_store b)) i of
             Some r \<Rightarrow> p\<lparr>inputs := (inputs p)(n :=
                 \<lparr>in_value = obj_get r (cb_valueField b), in_raw = js_to_string (obj_get r (cb_displayField b))\<rparr>)\<rparr>
           | None \<Rightarrow> p)
      | _ \<Rightarrow> p)"

fun page_step :: "report \<Rightarrow> page \<Rightarrow> event \<Rightarrow> page" where
  "page_step r p (Choose n i) = select_entry (rp_cfg r) n i p"
| "page_step r p (Pick n t s raw) =
     (case map_of (pg_widgets (rp_cfg r)) n of
        Some (DateField f) \<Rightarrow> p\<lparr>inputs := (inputs p)(n := \<lparr>in_value = JDate t s, in_raw = raw\<rparr>)\<rparr>
      | _ \<Rightarrow> p)"
| "page_step r p (Type n s) =
     (case map_of (pg_widgets (rp_cfg r)) n of
        Some (TextField f) \<Rightarrow> p\<lparr>inputs := (inputs p)(n := \<lparr>in_value = JStr s, in_raw = s\<rparr>)\<rparr>
      | _ \<Rightarrow> p)"
| "page_step r p ClickQuery = rp_query r p"
| "page_step r p ClickExport = rp_export r p"
| "page_step r p (Answer i a) =
     (if i < length (pending p)
      then final_state (ajax_response (Some (on_answer r (pending p ! i))) None a
             (p\<lparr>pending := take i (pending p) @ drop (Suc i) (pending p)\<rparr>))
      else p)"

definition run_page :: "report \<Rightarrow> page \<Rightarrow> event list \<Rightarrow> page" where
  "run_page r p es = foldl (page_step r) p es"

text \<open>
  The queries a run answers: the decoded response of every successful answer to a query, in
  the order the answers come.
\<close>

definition query_answer :: "page \<Rightarrow> event \<Rightarrow> jsval list" where
  "query_answer p e =
     (case e of
        Answer i (Responded t (Some (JObj kvs))) \<Rightarrow>
          (if i < length (pending p) \<and> pending p ! i = KQuery \<and> js_eq (obj_get kvs ''success'') (JStr ''ok'')
           then [JObj kvs] else [])
      | _ \<Rightarrow> [])"

fun query_answers :: "report \<Rightarrow> page \<Rightarrow> event list \<Rightarrow> jsval list" where
  "query_answers r p [] = []"
| "query_answers r p (e # es) = query_answer p e @ query_answers r (page_step r p e) es"

text \<open>
  The rows of an answer, and answers whose rows are all good: \<open>res.res\<close> is an array, and
  every element satisfies what the page needs of a row (\<open>present\<close>: it is not missing).
\<close>

definition rows_of :: "jsval \<Rightarrow> jsval list" where
  "rows_of res = (case js_prop res ''res'' of JArr xs \<Rightarrow> xs | _ \<Rightarrow> [])"

definition rows_wf :: "(jsval \<Rightarrow> bool) \<Rightarrow> jsval \<Rightarrow> bool" where
  "rows_wf good res = (case js_prop res ''res'' of JArr xs \<Rightarrow> list_all good xs | _ \<Rightarrow> False)"

definition present :: "jsval \<Rightarrow> bool" where
  "present x = (\<not> nullish x)"

text \<open>An answer is an object or does not decode to a value at all (the servers send objects).\<close>

fun object_answer :: "event \<Rightarrow> bool" where
  "object_answer (Answer i (Responded t (Some v))) = (case v of JObj kvs \<Rightarrow> True | _ \<Rightarrow> False)"
| "object_answer _ = True"

text \<open>The record a row becomes: the object literal of the page, then the store's fields.\<close>

definition row_obj :: "(string \<times> string) list \<Rightarrow> jsval \<Rightarrow> jsobj" where
  "row_obj ks rc = fold (\<lambda>(k, f) d. obj_set k (js_prop rc f) d) ks []"

definition page_ok :: "page_cfg \<Rightarrow> page \<Rightarrow> bool" where
  "page_ok c p = (\<forall>n. store_wf (stores p n) \<and> s_fields (stores p n) = s_fields (init_store c n))"

text \<open>
  What an input field can hold: a combo box nothing or the value of an entry of its store, a
  date field nothing or a date, a text field a string.
\<close>

fun can_hold :: "widget \<Rightarrow> (string \<Rightarrow> store) \<Rightarrow> jsval \<Rightarrow> bool" where
  "can_hold (Combo b) st v =
     (v = JNull \<or> List.member (map (\<lambda>r. obj_get r (cb_valueField b)) (s_recs (st (cb_store b)))) v)"
| "can_hold (DateField f) st v = (case v of JNull \<Rightarrow> True | JDate t s \<Rightarrow> True | _ \<Rightarrow> False)"
| "can_hold (TextField f) st v = (case v of JStr s \<Rightarrow> True | _ \<Rightarrow> False)"
| "can_hold (Button b) st v = True"

definition input_ok :: "page_cfg \<Rightarrow> page \<Rightarrow> string \<Rightarrow> bool" where
  "input_ok c p n =
     (case map_of (pg_widgets c) n of
        None \<Rightarrow> True
      | Some w \<Rightarrow> can_hold w (stores p) (in_value (inputs p n)))"

definition inputs_ok :: "page_cfg \<Rightarrow> page \<Rightarrow> bool" where
  "inputs_ok c p = list_all (\<lambda>nw. input_ok c p (fst nw)) (pg_widgets c)"

text \<open>The stores of the choices are none of those the answers fill.\<close>

definition result_store :: "string \<Rightarrow> bool" where
  "result_store n =
     (n = ''store_grid'' \<or> n = ''save_store'' \<or> n = ''store'' \<or> n = ''store_consume'' \<or> n = ''store_recharge'' \<or>
      n = ''store_players'')"

definition choices_apart :: "page_cfg \<Rightarrow> bool" where
  "choices_apart c =
     list_all (\<lambda>nw. case snd nw of Combo b \<Rightarrow> \<not> result_store (cb_store b) | _ \<Rightarrow> True) (pg_widgets c)"

text \<open>A parameter of a query request is complete when it carries a value; the session may be missing.\<close>

fun complete_param :: "string \<times> pval \<Rightarrow> bool" where
  "complete_param (k, Raw v) = (k = ''sid'' \<or> \<not> nullish v)"
| "complete_param (k, Encoded v) =
     (case v of JObj kvs \<Rightarrow> list_all (\<lambda>kv. \<not> nullish (snd kv)) kvs | _ \<Rightarrow> True)"

text \<open>
  A guarded query asks for every field it needs: once no field is missing, no parameter of
  the request is \<open>null\<close> or \<open>undefined\<close>. It may assign script variables on the way.
\<close>

definition guarded_query :: "page_cfg \<Rightarrow> (page \<Rightarrow> page) \<Rightarrow> bool" where
  "guarded_query c q =
     (\<forall>p. \<exists>gs name opts vs. q p = run_query gs name opts (p\<lparr>vars := vs\<rparr>) \<and>
        (inputs_ok c p \<longrightarrow> list_all (\<lambda>g. \<not> fst g) gs \<longrightarrow>
           (\<exists>ps. o_params opts = Some ps \<and> list_all complete_param ps)))"

text \<open>A browser with a session, and the answer of a server that succeeded, for examples.\<close>

definition example_world :: world where
  "example_world =
     \<lparr>cookies = [(''sessionid'', ''s1''), (''userid'', ''7'')], doc_url = ''/statshelper/index'',
      csrf = JStr ''token'', effects = []\<rparr>"

definition ok_answer :: "jsval \<Rightarrow> response" where
  "ok_answer v = Responded [] (Some (JObj [(''success'', JStr ''ok''), (''res'', v)]))"

section \<open>Frame lemmas\<close>

lemmas run_eval =
  launch_def page_init_def init_store_def new_store_def init_input_def zones_loaded_def add_each_def
  run_query_def post_def ajaxCall_eq emit_def query_answer_def select_entry_def store_getAt_def
  getValue_def getRawValue_def on_answer_def ajax_response_def local_combo_def date_field_def query_button_def
  export_button_def ok_answer_def get_choices_def run_page_def Let_def

lemmas store_eval =
  add_to_def store_add_def fill_grid_def fill_rows_def fill_both_def clear_store_def store_removeAll_def
  row_obj_def rows_wf_def rows_of_def present_def model_data_def field_value_def

lemmas page_eval = run_eval store_eval

lemmas cfg_eval =
  choices_apart_def result_store_def local_combo_def date_field_def query_button_def export_button_def

named_theorems page_simps "what the shared handlers do to the parts of a page"
named_theorems page_intros "the shared handlers keep a page's stores well formed"

lemma emit_page [simp]:
  "stores (emit e p) = stores p"
  "inputs (emit e p) = inputs p"
  "g_search_name (emit e p) = g_search_name p"
  "pending (emit e p) = pending p"
  by (simp_all add: emit_def)

lemma ajaxCall_page [simp]:
  "stores (ajaxCall opts p) = stores p"
  "inputs (ajaxCall opts p) = inputs p"
  "g_search_name (ajaxCall opts p) = g_search_name p"
  "pending (ajaxCall opts p) = pending p"
  by (simp_all add: ajaxCall_eq)

lemma doExportXls_page [simp]:
  "stores (doExportXls s cols p) = stores p"
  "inputs (doExportXls s cols p) = inputs p"
  "g_search_name (doExportXls s cols p) = g_search_name p"
  "pending (doExportXls s cols p) = pending p"
  by (simp_all add: doExportXls_def)

lemma start_export_page [simp]:
  "stores (start_export k n cols p) = stores p"
  "inputs (start_export k n cols p) = inputs p"
  "g_search_name (start_export k n cols p) = g_search_name p"
  "pending (start_export k n cols p) = pending p @ [k]"
  by (simp_all add: start_export_def)

lemma run_query_page [simp]:
  "stores (run_query gs name opts p) = stores p"
  "inputs (run_query gs name opts p) = inputs p"
  by (simp_all add: run_query_def split: option.splits)

lemma add_to_page [simp]:
  "inputs (add_to n d p) = inputs p"
  "g_search_name (add_to n d p) = g_search_name p"
  "pending (add_to n d p) = pending p"
  "stores (add_to n d p) m = (if m = n then store_add d (stores p n) else stores p m)"
  by (simp_all add: add_to_def)

lemma clear_store_page [simp]:
  "inputs (clear_store n p) = inputs p"
  "g_search_name (clear_store n p) = g_search_name p"
  "pending (clear_store n p) = pending p"
  "stores (clear_store n p) m = (if m = n then store_removeAll (stores p n) else stores p m)"
  by (simp_all add: clear_store_def)

lemma select_entry_page [simp]:
  "stores (select_entry c n i p) = stores p"
  "pending (select_entry c n i p) = pending p"
  by (simp_all add: select_entry_def split: option.splits widget.splits)

lemma set_init_fields: "set (s_fields (init_store c n)) = set (fields_of c n)"
  by (auto simp: init_store_def fields_of_def ext_store.fields_fold_add new_store_def set_field_list
      split: option.splits)

lemma guarded_query_intro:
  assumes "\<And>p. q p = run_query (gs p) (name p) (opts p) (p\<lparr>vars := vs p\<rparr>)"
    and "\<And>p. inputs_ok c p \<Longrightarrow> list_all (\<lambda>g. \<not> fst g) (gs p) \<Longrightarrow>
      \<exists>ps. o_params (opts p) = Some ps \<and> list_all complete_param ps"
  shows "guarded_query c q"
  unfolding guarded_query_def using assms by blast

lemma vars_same [simp]: "p\<lparr>vars := vars p\<rparr> = p"
  by (cases p) simp

lemma guarded_queryI:
  assumes "\<And>p. q p = run_query (gs p) (name p) (post url (ps p)) p"
    and "\<And>p. inputs_ok c p \<Longrightarrow> list_all (\<lambda>g. \<not> fst g) (gs p) \<Longrightarrow> list_all (\<lambda>kv. \<not> nullish (snd kv)) (ps p)"
  shows "guarded_query c q"
proof (rule guarded_query_intro)
  show "q p = run_query (gs p) (name p) (post url (ps p)) (p\<lparr>vars := vars p\<rparr>)" for p
    using assms(1) by simp
  show "\<exists>qs. o_params (post url (ps p)) = Some qs \<and> list_all complete_param qs"
    if "inputs_ok c p" "list_all (\<lambda>g. \<not> fst g) (gs p)" for p
    using assms(2) [OF that] by (fastforce simp: post_def list_all_iff)
qed

lemma guarded_query_encodedI:
  assumes "\<And>p. q p = run_query (gs p) (name p) (post_encoded url k (ps p)) p"
    and "\<And>p. inputs_ok c p \<Longrightarrow> list_all (\<lambda>g. \<not> fst g) (gs p) \<Longrightarrow> list_all (\<lambda>kv. \<not> nullish (snd kv)) (ps p)"
  shows "guarded_query c q"
proof (rule guarded_query_intro)
  show "q p = run_query (gs p) (name p) (post_encoded url k (ps p)) (p\<lparr>vars := vars p\<rparr>)" for p
    using assms(1) by simp
  show "\<exists>qs. o_params (post_encoded url k (ps p)) = Some qs \<and> list_all complete_param qs"
    if "inputs_ok c p" "list_all (\<lambda>g. \<not> fst g) (gs p)" for p
    using assms(2) [OF that] by (simp add: post_encoded_def)
qed

lemma guarded_query_frame:
  assumes "guarded_query c q"
  shows "stores (q p) = stores p" and "inputs (q p) = inputs p"
proof -
  from assms obtain gs name opts vs where "q p = run_query gs name opts (p\<lparr>vars := vs\<rparr>)"
    unfolding guarded_query_def by blast
  then show "stores (q p) = stores p" and "inputs (q p) = inputs p" by simp_all
qed

lemma input_ok_cong: "stores q = stores p \<Longrightarrow> inputs q n = inputs p n \<Longrightarrow> input_ok c q n = input_ok c p n"
  by (simp add: input_ok_def split: option.split)

lemma inputs_ok_cong: "stores q = stores p \<Longrightarrow> inputs q = inputs p \<Longrightarrow> inputs_ok c q = inputs_ok c p"
  by (simp add: inputs_ok_def input_ok_cong [of q p])

lemma inputs_okD: "inputs_ok c p \<Longrightarrow> map_of (pg_widgets c) n = Some w \<Longrightarrow> input_ok c p n"
  unfolding inputs_ok_def list_all_iff by (drule map_of_SomeD) (drule (1) bspec, simp)

lemma text_input_not_null:
  assumes "inputs_ok c p" and "map_of (pg_widgets c) n = Some (TextField f)"
  shows "\<not> nullish (getValue p n)"
  using inputs_okD [OF assms] assms(2) by (simp add: input_ok_def getValue_def split: jsval.splits)

text \<open>
  A click on a guarded query button has one of two outcomes: one message and no request,
  or one request with complete parameters and its callback in waiting.
\<close>

lemma guarded_query_cases:
  assumes "guarded_query c q" and inputs: "inputs_ok c p"
  obtains (asked) t vs where "q p = emit (Alert t) (p\<lparr>vars := vs\<rparr>)"
    | (sent) req where "effects (q p) = effects p @ [Send req]" and "pending (q p) = pending p @ [KQuery]"
        and "list_all complete_param (r_params req)"
proof -
  from assms obtain gs name opts vs where q: "q p = run_query gs name opts (p\<lparr>vars := vs\<rparr>)"
    and ok: "list_all (\<lambda>g. \<not> fst g) gs \<Longrightarrow> \<exists>ps. o_params opts = Some ps \<and> list_all complete_param ps"
    unfolding guarded_query_def by blast
  show ?thesis
  proof (cases "find fst gs")
    case (Some g)
    then show ?thesis using q asked by (simp add: run_query_def)
  next
    case None
    then have "list_all (\<lambda>g. \<not> fst g) gs" by (auto simp: find_None_iff list_all_iff)
    from ok [OF this] obtain ps where "o_params opts = Some ps" "list_all complete_param ps" by blast
    then show ?thesis
      using None q by (intro sent) (auto simp: run_query_def ajaxCall_eq sent_params_def intro!: list_all_update)
  qed
qed

section \<open>Stores stay well formed\<close>

lemma page_ok_init: "page_ok c (page_init c w)"
  by (auto simp: page_ok_def page_init_def init_store_def ext_store.wf_empty ext_store.wf_fold_add
      ext_store.fields_fold_add split: option.splits)

lemma page_ok_stores_cong: "stores p = stores q \<Longrightarrow> page_ok c p = page_ok c q"
  by (simp add: page_ok_def)

lemma page_ok_add_to [page_intros]: "page_ok c p \<Longrightarrow> page_ok c (add_to n d p)"
  by (auto simp: page_ok_def ext_store.wf_add ext_store.fields_add)

lemma page_ok_clear_store [page_intros]: "page_ok c p \<Longrightarrow> page_ok c (clear_store n p)"
  by (auto simp: page_ok_def ext_store.wf_clear ext_store.fields_clear)

lemma page_ok_and_then [page_intros]:
  "page_ok c (final_state a) \<Longrightarrow> (\<And>p. page_ok c p \<Longrightarrow> page_ok c (final_state (f p))) \<Longrightarrow>
     page_ok c (final_state (and_then a f))"
  by (cases a) simp_all

lemma page_ok_with_val [page_intros]:
  "page_ok c p \<Longrightarrow> (\<And>v. page_ok c (final_state (f v p))) \<Longrightarrow> page_ok c (final_state (with_val r f p))"
  by (simp add: with_val_def split: sum.splits)

lemma page_ok_js_for [page_intros]:
  "(\<And>x p. page_ok c p \<Longrightarrow> page_ok c (final_state (f x p))) \<Longrightarrow> page_ok c p \<Longrightarrow>
     page_ok c (final_state (js_for f xs p))"
  by (rule js_for_invariant)

lemma page_ok_add_each [page_intros]: "page_ok c p \<Longrightarrow> page_ok c (final_state (add_each n mk v p))"
  unfolding add_each_def
  by (intro page_ok_with_val page_ok_js_for) (auto simp: split_def intro!: page_ok_with_val page_ok_add_to)

lemma page_ok_add_each_if [page_intros]: "page_ok c p \<Longrightarrow> page_ok c (final_state (add_each_if n mk v p))"
  by (simp add: add_each_if_def page_ok_add_each)

lemma page_ok_fill_rows [page_intros]: "page_ok c p \<Longrightarrow> page_ok c (final_state (fill_rows n mk res p))"
  by (simp add: fill_rows_def page_ok_add_each page_ok_clear_store)

lemma page_ok_fill_grid [page_intros]: "page_ok c p \<Longrightarrow> page_ok c (final_state (fill_grid n ks res p))"
  by (simp add: fill_grid_def page_ok_fill_rows)

lemma page_ok_fill_both [page_intros]: "page_ok c p \<Longrightarrow> page_ok c (final_state (fill_both b ks res p))"
  unfolding fill_both_def
  by (intro page_ok_with_val page_ok_js_for) (auto simp: split_def intro!: page_intros)

lemma page_ok_zones_loaded [page_intros]: "page_ok c p \<Longrightarrow> page_ok c (final_state (zones_loaded res p))"
  by (simp add: zones_loaded_def page_ok_add_each)

lemma page_ok_sdk_plats_loaded [page_intros]:
  "page_ok c p \<Longrightarrow> page_ok c (final_state (sdk_plats_loaded res p))"
  unfolding sdk_plats_loaded_def Let_def
  by (intro page_ok_and_then page_ok_with_val page_ok_add_each_if page_ok_add_to) auto

lemma page_ok_cat_plats_loaded [page_intros]:
  "page_ok c p \<Longrightarrow> page_ok c (final_state (cat_plats_loaded res p))"
  unfolding cat_plats_loaded_def Let_def
  by (intro page_ok_and_then page_ok_with_val page_ok_add_each_if page_ok_add_to) auto

lemma page_ok_zones_only_loaded [page_intros]:
  "page_ok c p \<Longrightarrow> page_ok c (final_state (zones_only_loaded res p))"
  unfolding zones_only_loaded_def by (intro page_ok_with_val page_ok_add_each_if)

lemma page_ok_recharge_cats_loaded [page_intros]:
  "page_ok c p \<Longrightarrow> page_ok c (final_state (recharge_cats_loaded b res p))"
  unfolding recharge_cats_loaded_def Let_def
  by (intro page_ok_and_then page_ok_with_val page_ok_add_each_if) (auto intro: page_ok_add_to page_ok_add_each_if)

lemma page_ok_run_query [page_intros]: "page_ok c p \<Longrightarrow> page_ok c (run_query gs name opts p)"
  using page_ok_stores_cong [of "run_query gs name opts p" p] by simp

lemma page_ok_start_export [page_intros]: "page_ok c p \<Longrightarrow> page_ok c (start_export k n cols p)"
  using page_ok_stores_cong [of "start_export k n cols p" p] by simp

lemma page_ok_emit [page_intros]: "page_ok c p \<Longrightarrow> page_ok c (emit e p)"
  using page_ok_stores_cong [of "emit e p" p] by simp

lemma page_ok_ajax_response [page_intros]:
  assumes "page_ok c p" and "\<And>res. page_ok c (final_state (f res p))"
  shows "page_ok c (final_state (ajax_response (Some f) None a p))"
  using assms
  by (auto simp: ajax_response_def with_val_def page_ok_emit split: response.splits option.splits sum.splits)

section \<open>What the shared handlers do to single stores\<close>

lemma js_for_frame:
  assumes "\<And>x q. g (final_state (f x q)) = g q"
  shows "g (final_state (js_for f xs q)) = g q"
  using js_for_invariant [of xs "\<lambda>s. g s = g q" f q] assms by simp

lemma with_val_frame: "(\<And>v. g (final_state (f v q)) = g q) \<Longrightarrow> g (final_state (with_val r f q)) = g q"
  by (simp add: with_val_def split: sum.splits)

lemma and_then_frame:
  "g (final_state a) = x \<Longrightarrow> (\<And>q. g (final_state (f q)) = g q) \<Longrightarrow> g (final_state (and_then a f)) = x"
  by (cases a) simp_all

lemma add_each_frame [page_simps]:
  "m \<noteq> n \<Longrightarrow> stores (final_state (add_each n mk v p)) m = stores p m"
  unfolding add_each_def
  by (intro with_val_frame [of "\<lambda>q. stores q m"] js_for_frame [of "\<lambda>q. stores q m"])
    (auto simp: split_def intro: with_val_frame [of "\<lambda>q. stores q m"])

lemma add_each_fields [page_simps]:
  "s_fields (stores (final_state (add_each n mk v p)) m) = s_fields (stores p m)"
  unfolding add_each_def
  by (intro with_val_frame [of "\<lambda>q. s_fields (stores q m)"] js_for_frame [of "\<lambda>q. s_fields (stores q m)"])
    (auto simp: split_def ext_store.fields_add intro: with_val_frame [of "\<lambda>q. s_fields (stores q m)"])

lemma add_each_if_frame [page_simps]:
  "m \<noteq> n \<Longrightarrow> stores (final_state (add_each_if n mk v p)) m = stores p m"
  by (simp add: add_each_if_def add_each_frame)

lemma zones_loaded_frame [page_simps]:
  "m \<noteq> ''store_zone'' \<Longrightarrow> stores (final_state (zones_loaded res p)) m = stores p m"
  by (simp add: zones_loaded_def add_each_frame)

lemma sdk_plats_loaded_frame [page_simps]:
  assumes "m \<noteq> ''store_zone''" and "m \<noteq> ''store_sdk''" and "m \<noteq> ''store_platform''"
  shows "stores (final_state (sdk_plats_loaded res p)) m = stores p m"
  using assms unfolding sdk_plats_loaded_def Let_def
  by (intro and_then_frame [of "\<lambda>q. stores q m"])
    (simp_all add: add_each_if_frame with_val_def split: sum.splits)

lemma zones_only_loaded_frame [page_simps]:
  "m \<noteq> ''store_zone'' \<Longrightarrow> stores (final_state (zones_only_loaded res p)) m = stores p m"
  by (simp add: zones_only_loaded_def add_each_if_frame with_val_def split: sum.splits)

lemma cat_plats_loaded_frame [page_simps]:
  assumes "m \<noteq> ''store_cat1''"
  shows "stores (final_state (cat_plats_loaded res p)) m = stores p m"
  using assms unfolding cat_plats_loaded_def Let_def
  by (intro and_then_frame [of "\<lambda>q. stores q m"])
    (simp_all add: add_each_if_frame with_val_def split: sum.splits)

lemma recharge_cats_loaded_frame [page_simps]:
  assumes "m \<noteq> ''store_cat1''"
  shows "stores (final_state (recharge_cats_loaded b res p)) m = stores p m"
  using assms unfolding recharge_cats_loaded_def Let_def
  by (intro and_then_frame [of "\<lambda>q. stores q m"])
    (simp_all add: add_each_if_frame with_val_def split: sum.splits)

lemma fill_rows_fields [page_simps]:
  "s_fields (stores (final_state (fill_rows n mk res p)) m) = s_fields (stores p m)"
  by (simp add: fill_rows_def add_each_fields ext_store.fields_clear)

lemma fill_grid_fields [page_simps]:
  "s_fields (stores (final_state (fill_grid n ks res p)) m) = s_fields (stores p m)"
  by (simp add: fill_grid_def fill_rows_fields)

lemma fill_both_fields [page_simps]:
  "s_fields (stores (final_state (fill_both b ks res p)) m) = s_fields (stores p m)"
proof -
  let ?f = "\<lambda>q. s_fields (stores q m)"
  let ?q = "clear_store ''store_grid'' (if b then clear_store ''save_store'' p else p)"
  have "?f (final_state (fill_both b ks res p)) = ?f ?q"
    unfolding fill_both_def
    by (intro with_val_frame [of ?f] js_for_frame [of ?f])
      (auto simp: split_def ext_store.fields_add intro!: with_val_frame [of ?f])
  then show ?thesis by (simp add: ext_store.fields_clear)
qed

lemma stores_fold_add_to:
  "stores (fold (add_to n) ds p) m = (if m = n then fold store_add ds (stores p n) else stores p m)"
  by (induction ds arbitrary: p) auto

lemma add_each_rows:
  assumes "\<And>i x. x \<in> set xs \<Longrightarrow> mk i x = Inr (g x)"
  shows "add_each n mk (JArr xs) p = Done (fold (add_to n) (map g xs) p)"
proof -
  have "js_for (\<lambda>(i, x). with_val (mk i x) (\<lambda>d p. Done (add_to n d p))) (enumerate 0 xs) p =
      Done (fold (\<lambda>(i, x). add_to n (g x)) (enumerate 0 xs) p)"
    using assms by (intro js_for_Done) (auto dest: in_set_enumerate_eq [THEN iffD1] simp: set_zip enumerate_eq_zip)
  also have "fold (\<lambda>(i, x). add_to n (g x)) (enumerate k xs) p = fold (add_to n) (map g xs) p" for k
    by (induction xs arbitrary: k p) simp_all
  finally show ?thesis by (simp add: add_each_def)
qed

lemma pick_rows: "list_all present xs \<Longrightarrow> x \<in> set xs \<Longrightarrow> pick ks x = Inr (row_obj ks x)"
  by (auto simp: list_all_iff row_obj_def present_def)

text \<open>Filling a store from rows whose objects can all be built.\<close>

lemma fill_rows_recs:
  assumes "list_all good xs" and "\<And>x. good x \<Longrightarrow> mk x = Inr (row x)"
  shows "s_recs (stores (final_state (fill_rows n mk (JArr xs) p)) n) =
           map (model_data (s_fields (stores p n)) \<circ> row) xs"
proof -
  have "add_each n (\<lambda>i. mk) (JArr xs) (clear_store n p) = Done (fold (add_to n) (map row xs) (clear_store n p))"
    using assms by (intro add_each_rows) (simp add: list_all_iff)
  then show ?thesis
    using ext_store.rows_refill [of "map row xs" "stores p n"]
    by (simp add: fill_rows_def stores_fold_add_to store_getRange_def)
qed

lemma fill_grid_recs:
  "list_all present xs \<Longrightarrow>
     s_recs (stores (final_state (fill_grid n ks (JArr xs) p)) n) =
       map (\<lambda>x. model_data (s_fields (stores p n)) (row_obj ks x)) xs"
  unfolding fill_grid_def
  by (subst fill_rows_recs [of present _ _ "row_obj ks"]) (auto simp: present_def row_obj_def)

lemma fold_both_recs:
  fixes ks :: "(string \<times> string) list"
  defines "body \<equiv> \<lambda>(i, rc) p. (if i < 50 then add_to ''store_grid'' (row_obj ks rc) else id) (add_to ''save_store'' (row_obj ks rc) p)"
  shows "s_recs (stores (fold body (enumerate k xs) p) ''save_store'') =
           s_recs (stores p ''save_store'') @ map (\<lambda>x. model_data (s_fields (stores p ''save_store'')) (row_obj ks x)) xs"
    and "s_recs (stores (fold body (enumerate k xs) p) ''store_grid'') =
           s_recs (stores p ''store_grid'') @
           map (\<lambda>x. model_data (s_fields (stores p ''store_grid'')) (row_obj ks x)) (take (50 - k) xs)"
proof (induction xs arbitrary: k p)
  case (Cons x xs)
  { case 1 show ?case using Cons(1) by (simp add: body_def store_add_def) }
  { case 2
    have "take (50 - k) (x # xs) = (if k < 50 then x # take (50 - Suc k) xs else [])"
      by (auto simp: take_Cons' diff_diff_eq)
    then show ?case using Cons(2) by (simp add: body_def store_add_def) }
qed simp_all

lemma fill_both_rows:
  assumes "list_all present xs"
  shows "fill_both b ks (JArr xs) p =
    Done (fold (\<lambda>(i, rc) p. (if i < 50 then add_to ''store_grid'' (row_obj ks rc) else id) (add_to ''save_store'' (row_obj ks rc) p))
      (enumerate 0 xs) (clear_store ''store_grid'' (if b then clear_store ''save_store'' p else p)))"
proof -
  have "pick ks rc = Inr (row_obj ks rc)" if "(i, rc) \<in> set (enumerate 0 xs)" for i rc
    using that assms by (auto simp: enumerate_eq_zip set_zip intro: pick_rows)
  then show ?thesis
    unfolding fill_both_def js_items_JArr with_val_simps
    by (intro js_for_Done) auto
qed

lemma fill_both_save:
  "list_all present xs \<Longrightarrow>
     s_recs (stores (final_state (fill_both b ks (JArr xs) p)) ''save_store'') =
       (if b then [] else s_recs (stores p ''save_store'')) @
       map (\<lambda>x. model_data (s_fields (stores p ''save_store'')) (row_obj ks x)) xs"
  by (simp add: fill_both_rows fold_both_recs store_removeAll_def)

lemma fill_both_grid:
  "list_all present xs \<Longrightarrow>
     s_recs (stores (final_state (fill_both b ks (JArr xs) p)) ''store_grid'') =
       map (\<lambda>x. model_data (s_fields (stores p ''store_grid'')) (row_obj ks x)) (take 50 xs)"
  by (simp add: fill_both_rows fold_both_recs store_removeAll_def)

text \<open>The same over the rows of a well-formed answer.\<close>

lemma rows_wfD:
  assumes "rows_wf good res"
  shows "js_prop res ''res'' = JArr (rows_of res)" and "list_all good (rows_of res)"
  using assms by (auto simp: rows_wf_def rows_of_def split: jsval.splits)

lemma answer_rows:
  assumes "rows_wf present (JObj kvs)"
  shows "s_recs (stores (final_state (fill_grid n ks (obj_get kvs ''res'') p)) n) =
           map (model_data (s_fields (stores p n)) \<circ> row_obj ks) (rows_of (JObj kvs))"
    and "s_recs (stores (final_state (fill_both b ks (obj_get kvs ''res'') p)) ''store_grid'') =
           map (model_data (s_fields (stores p ''store_grid'')) \<circ> row_obj ks) (take 50 (rows_of (JObj kvs)))"
    and "s_recs (stores (final_state (fill_both b ks (obj_get kvs ''res'') p)) ''save_store'') =
           (if b then [] else s_recs (stores p ''save_store'')) @
           map (model_data (s_fields (stores p ''save_store'')) \<circ> row_obj ks) (rows_of (JObj kvs))"
  using rows_wfD [OF assms] by (simp_all add: fill_grid_recs fill_both_grid fill_both_save o_def)

lemma callback_inputs [page_simps]:
  "inputs (final_state (add_each n mk v p)) = inputs p"
  "inputs (final_state (add_each_if n mk v p)) = inputs p"
proof -
  show *: "inputs (final_state (add_each n mk v p)) = inputs p" for n mk v p
    unfolding add_each_def
    by (intro with_val_frame [of inputs] js_for_frame [of inputs])
      (auto simp: split_def intro: with_val_frame [of inputs])
  then show "inputs (final_state (add_each_if n mk v p)) = inputs p"
    by (simp add: add_each_if_def)
qed

lemma loaded_inputs [page_simps]:
  "inputs (final_state (zones_loaded res p)) = inputs p"
  "inputs (final_state (sdk_plats_loaded res p)) = inputs p"
  "inputs (final_state (cat_plats_loaded res p)) = inputs p"
  unfolding zones_loaded_def sdk_plats_loaded_def cat_plats_loaded_def Let_def
  by (simp add: callback_inputs,
      (intro and_then_frame [of inputs]; simp add: callback_inputs with_val_def split: sum.splits)+)

lemma zones_only_loaded_inputs [page_simps]: "inputs (final_state (zones_only_loaded res p)) = inputs p"
  by (simp add: zones_only_loaded_def callback_inputs with_val_def split: sum.splits)

lemma recharge_cats_loaded_inputs [page_simps]:
  "inputs (final_state (recharge_cats_loaded b res p)) = inputs p"
  unfolding recharge_cats_loaded_def Let_def
  by (intro and_then_frame [of inputs]; simp add: callback_inputs with_val_def split: sum.splits)

lemma fill_inputs [page_simps]:
  "inputs (final_state (fill_grid n ks res p)) = inputs p"
  "inputs (final_state (fill_both b ks res p)) = inputs p"
proof -
  show "inputs (final_state (fill_grid n ks res p)) = inputs p"
    by (simp add: fill_grid_def fill_rows_def callback_inputs)
  let ?q = "clear_store ''store_grid'' (if b then clear_store ''save_store'' p else p)"
  have "inputs (final_state (fill_both b ks res p)) = inputs ?q"
    unfolding fill_both_def
    by (intro with_val_frame [of inputs] js_for_frame [of inputs])
      (auto simp: split_def intro!: with_val_frame [of inputs])
  then show "inputs (final_state (fill_both b ks res p)) = inputs p" by simp
qed

lemma fill_pending [page_simps]:
  "pending (final_state (fill_rows n mk res p)) = pending p"
  "pending (final_state (fill_grid n ks res p)) = pending p"
  "pending (final_state (fill_both b ks res p)) = pending p"
proof -
  have "pending (final_state (fill_rows n mk res p)) = pending (clear_store n p)" for n mk res p
    unfolding fill_rows_def add_each_def
    by (intro with_val_frame [of pending] js_for_frame [of pending])
      (auto simp: split_def intro!: with_val_frame [of pending])
  then show *: "pending (final_state (fill_rows n mk res p)) = pending p" for n mk res p by simp
  then show "pending (final_state (fill_grid n ks res p)) = pending p" by (simp add: fill_grid_def)
  let ?q = "clear_store ''store_grid'' (if b then clear_store ''save_store'' p else p)"
  have "pending (final_state (fill_both b ks res p)) = pending ?q"
    unfolding fill_both_def
    by (intro with_val_frame [of pending] js_for_frame [of pending])
      (auto simp: split_def intro!: with_val_frame [of pending])
  then show "pending (final_state (fill_both b ks res p)) = pending p" by simp
qed

lemma fill_frame [page_simps]:
  "m \<noteq> n \<Longrightarrow> stores (final_state (fill_grid n ks res p)) m = stores p m"
  "\<not> result_store m \<Longrightarrow> stores (final_state (fill_both b ks res p)) m = stores p m"
proof -
  show "m \<noteq> n \<Longrightarrow> stores (final_state (fill_grid n ks res p)) m = stores p m"
    by (simp add: fill_grid_def fill_rows_def add_each_frame)
  let ?q = "clear_store ''store_grid'' (if b then clear_store ''save_store'' p else p)"
  let ?f = "\<lambda>q. stores q m"
  assume m: "\<not> result_store m"
  then have "?f (final_state (fill_both b ks res p)) = ?f ?q"
    unfolding fill_both_def result_store_def
    by (intro with_val_frame [of ?f] js_for_frame [of ?f])
      (auto simp: split_def intro!: with_val_frame [of ?f])
  with m show "stores (final_state (fill_both b ks res p)) m = stores p m"
    by (simp add: result_store_def)
qed

lemma fill_rows_frame [page_simps]:
  "m \<noteq> n \<Longrightarrow> stores (final_state (fill_rows n mk res p)) m = stores p m"
  "inputs (final_state (fill_rows n mk res p)) = inputs p"
  by (simp_all add: fill_rows_def add_each_frame callback_inputs)

text \<open>Loading the choices only adds entries.\<close>

definition grown :: "page \<Rightarrow> page \<Rightarrow> bool" where
  "grown p q = (\<forall>m. set (s_recs (stores p m)) \<subseteq> set (s_recs (stores q m)))"

lemma grown_refl: "grown p p"
  by (simp add: grown_def)

lemma grown_add_to: "grown p q \<Longrightarrow> grown p (add_to n d q)"
  by (auto simp: grown_def store_add_def)

lemma grown_and_then:
  "grown p (final_state a) \<Longrightarrow> (\<And>q. grown p q \<Longrightarrow> grown p (final_state (f q))) \<Longrightarrow>
     grown p (final_state (and_then a f))"
  by (cases a) simp_all

lemma grown_with_val:
  "grown p q \<Longrightarrow> (\<And>v. grown p (final_state (f v q))) \<Longrightarrow> grown p (final_state (with_val r f q))"
  by (simp add: with_val_def split: sum.splits)

lemma grown_add_each: "grown p q \<Longrightarrow> grown p (final_state (add_each n mk v q))"
  unfolding add_each_def
  by (intro grown_with_val js_for_invariant [where P = "grown p"])
    (auto simp: split_def intro!: grown_with_val grown_add_to)

lemma grown_add_each_if: "grown p q \<Longrightarrow> grown p (final_state (add_each_if n mk v q))"
  by (simp add: add_each_if_def grown_add_each)

lemma grown_loaded:
  "grown p (final_state (zones_loaded res p))"
  "grown p (final_state (sdk_plats_loaded res p))"
  "grown p (final_state (cat_plats_loaded res p))"
  unfolding zones_loaded_def sdk_plats_loaded_def cat_plats_loaded_def Let_def
  by (intro grown_and_then grown_with_val grown_add_each grown_add_each_if grown_add_to grown_refl; assumption)+

lemma grown_zones_only: "grown p (final_state (zones_only_loaded res p))"
  unfolding zones_only_loaded_def by (intro grown_with_val grown_add_each_if grown_refl)

lemma grown_recharge: "grown p (final_state (recharge_cats_loaded b res p))"
  unfolding recharge_cats_loaded_def Let_def
  by (intro grown_and_then grown_with_val grown_add_each_if)
    (auto intro: grown_refl grown_add_to grown_add_each_if)

text \<open>What every callback that loads choices promises.\<close>

definition loads_choices :: "page callback \<Rightarrow> bool" where
  "loads_choices f =
     (\<forall>res p. (\<forall>c. page_ok c p \<longrightarrow> page_ok c (final_state (f res p))) \<and>
        inputs (final_state (f res p)) = inputs p \<and> grown p (final_state (f res p)) \<and>
        (\<forall>n. result_store n \<longrightarrow> stores (final_state (f res p)) n = stores p n))"

lemma loads_choices_shared [simp]:
  "loads_choices zones_loaded" "loads_choices sdk_plats_loaded" "loads_choices cat_plats_loaded"
  "loads_choices zones_only_loaded" "loads_choices (recharge_cats_loaded b)"
  unfolding loads_choices_def
  by (auto simp: grown_loaded grown_zones_only grown_recharge result_store_def page_simps intro: page_intros)

text \<open>What an input field holds stays possible when entries are added and nothing else changes.\<close>

lemma input_ok_grown:
  assumes "input_ok c p n" and "inputs q n = inputs p n"
    and "\<And>m. \<not> result_store m \<Longrightarrow> set (s_recs (stores p m)) \<subseteq> set (s_recs (stores q m))"
    and "\<And>b. map_of (pg_widgets c) n = Some (Combo b) \<Longrightarrow> \<not> result_store (cb_store b)"
  shows "input_ok c q n"
proof (cases "map_of (pg_widgets c) n")
  case (Some w)
  show ?thesis
  proof (cases w)
    case (Combo b)
    with Some assms(3,4) have "set (s_recs (stores p (cb_store b))) \<subseteq> set (s_recs (stores q (cb_store b)))"
      by blast
    with Some Combo assms(1,2) show ?thesis by (auto simp: input_ok_def)
  qed (use Some assms(1,2) in \<open>simp_all add: input_ok_def\<close>)
qed (simp add: input_ok_def)

lemma inputs_ok_grown:
  assumes "inputs_ok c p" and "choices_apart c" and "distinct (map fst (pg_widgets c))"
    and "inputs q = inputs p"
    and "\<And>m. \<not> result_store m \<Longrightarrow> set (s_recs (stores p m)) \<subseteq> set (s_recs (stores q m))"
  shows "inputs_ok c q"
  unfolding inputs_ok_def list_all_iff
proof
  fix nw
  assume nw: "nw \<in> set (pg_widgets c)"
  have "\<not> result_store (cb_store b)" if "map_of (pg_widgets c) (fst nw) = Some (Combo b)" for b
    using map_of_SomeD [OF that] assms(2) by (auto simp: choices_apart_def list_all_iff)
  moreover have "input_ok c p (fst nw)"
    using assms(1) nw by (simp add: inputs_ok_def list_all_iff)
  ultimately show "input_ok c q (fst nw)"
    using assms(4,5) input_ok_grown [of c p "fst nw" q] by simp
qed

end
