(* ===== verification/Page_Runs.thy ===== *)
theory Page_Runs
  imports Report_Page
begin

text \<open>
  What follows for every run of a report page. The locales state what a page's handlers
  promise (\<open>report_program\<close>: the stores stay well formed; \<open>answered_store\<close>: one store is
  driven by the answers alone; \<open>asking_page\<close>: choices, query and export work as on every
  page; \<open>plain_report\<close> and \<open>keeping_report\<close>: the two ways an answer is shown) and derive
  from them what holds after any sequence of events.
\<close>

section \<open>Every run of a page keeps its stores well formed\<close>

locale report_program =
  fixes r :: report
  assumes launch_keeps:
      "rp_launch r = Some (opts, f) \<Longrightarrow> page_ok (rp_cfg r) p \<Longrightarrow> page_ok (rp_cfg r) (final_state (f res p))"
    and query_keeps: "page_ok (rp_cfg r) p \<Longrightarrow> page_ok (rp_cfg r) (rp_query r p)"
    and done_keeps: "page_ok (rp_cfg r) p \<Longrightarrow> page_ok (rp_cfg r) (final_state (rp_done r res p))"
    and export_keeps: "page_ok (rp_cfg r) p \<Longrightarrow> page_ok (rp_cfg r) (rp_export r p)"
    and then_keeps: "page_ok (rp_cfg r) p \<Longrightarrow> page_ok (rp_cfg r) (rp_then r p)"
begin

lemma on_answer_keeps:
  "page_ok (rp_cfg r) p \<Longrightarrow> page_ok (rp_cfg r) (final_state (on_answer r k res p))"
  by (cases k)
    (auto simp: on_answer_def export_saved_def Let_def launch_keeps done_keeps then_keeps page_ok_emit
      split: option.splits)

lemma page_step_keeps: "page_ok (rp_cfg r) p \<Longrightarrow> page_ok (rp_cfg r) (page_step r p e)"
proof (cases e)
  case (Answer i a)
  assume p: "page_ok (rp_cfg r) p"
  have "page_ok (rp_cfg r) (p\<lparr>pending := take i (pending p) @ drop (Suc i) (pending p)\<rparr>)"
    using p by (simp add: page_ok_def)
  then show ?thesis
    using p Answer by (simp add: page_ok_ajax_response on_answer_keeps)
qed (simp_all add: page_ok_def query_keeps [unfolded page_ok_def] export_keeps [unfolded page_ok_def]
    split: option.splits widget.splits)

lemma launch_ok: "page_ok (rp_cfg r) (launch r w)"
  using page_ok_init [of "rp_cfg r" w]
  by (auto simp: launch_def page_ok_def split: option.splits)

theorem run_ok: "page_ok (rp_cfg r) (run_page r (launch r w) es)"
proof (induction es rule: rev_induct)
  case Nil
  show ?case by (simp add: run_page_def launch_ok)
next
  case (snoc e es)
  then show ?case by (simp add: run_page_def page_step_keeps)
qed

text \<open>Every record of a store reads only declared fields.\<close>

lemma run_record_fields:
  assumes "rec \<in> set (store_getRange (stores (run_page r (launch r w) es) n))"
  shows "set (map fst rec) \<subseteq> set (s_fields (init_store (rp_cfg r) n))"
proof -
  have "store_wf (stores (run_page r (launch r w) es) n)"
    and f: "s_fields (stores (run_page r (launch r w) es) n) = s_fields (init_store (rp_cfg r) n)"
    using run_ok by (simp_all add: page_ok_def)
  then have "conforms (s_fields (init_store (rp_cfg r) n)) rec"
    using assms by (auto simp: store_wf_def store_getRange_def list_all_iff)
  then show ?thesis by (simp add: conforms_def)
qed

end

section \<open>What a grid shows after any run\<close>

text \<open>
  A store of a page is driven by the query answers only: each answer combines the records
  the store holds with the records of the new rows. Then its contents after any run are the
  fold of that combination over the answered results, in the order the answers came,
  whatever else happened in between.
\<close>

locale answered_store =
  fixes r :: report
    and n :: string
    and good :: "jsval \<Rightarrow> bool"
    and shape :: "jsval \<Rightarrow> jsobj list"
    and comb :: "jsobj list \<Rightarrow> jsobj list \<Rightarrow> jsobj list"
  assumes done_comb:
      "good (JObj kvs) \<Longrightarrow>
         s_recs (stores (final_state (rp_done r (JObj kvs) p)) n) =
           comb (s_recs (stores p n)) (map (model_data (s_fields (stores p n))) (shape (JObj kvs)))"
    and done_fields: "s_fields (stores (final_state (rp_done r res p)) n) = s_fields (stores p n)"
    and launch_frame: "rp_launch r = Some (opts, f) \<Longrightarrow> stores (final_state (f res p)) n = stores p n"
    and query_frame: "stores (rp_query r p) n = stores p n"
    and export_frame: "stores (rp_export r p) n = stores p n"
    and then_frame: "stores (rp_then r p) n = stores p n"
    and starts_empty: "s_recs (init_store (rp_cfg r) n) = []"
begin

definition fs :: "string list" where
  "fs = s_fields (init_store (rp_cfg r) n)"

lemma other_answer_frame: "k \<noteq> KQuery \<Longrightarrow> stores (final_state (on_answer r k res p)) n = stores p n"
  by (cases k)
    (auto simp: on_answer_def export_saved_def Let_def launch_frame then_frame split: option.splits)

lemma response_frame:
  assumes "k \<noteq> KQuery"
  shows "stores (final_state (ajax_response (Some (on_answer r k)) None a p)) n = stores p n"
  using other_answer_frame [OF assms]
  by (auto simp: ajax_response_def with_val_def split: response.splits option.splits sum.splits)

lemma step_fields: "s_fields (stores (page_step r p e) n) = s_fields (stores p n)"
proof (cases e)
  case (Answer i a)
  then show ?thesis
    using response_frame [of "pending p ! i"]
    by (cases "pending p ! i = KQuery")
      (auto simp: ajax_response_def with_val_def on_answer_def done_fields
        split: response.splits option.splits sum.splits)
qed (simp_all add: query_frame export_frame split: option.splits widget.splits)

lemma step_other:
  assumes "query_answer p e = []" and "object_answer e"
  shows "s_recs (stores (page_step r p e) n) = s_recs (stores p n)"
proof (cases e)
  case (Answer i a)
  consider "i < length (pending p) \<longrightarrow> pending p ! i \<noteq> KQuery"
    | "i < length (pending p)" "pending p ! i = KQuery" by blast
  then show ?thesis
  proof cases
    case 1
    then show ?thesis using Answer response_frame [of "pending p ! i"] by auto
  next
    case 2
    then show ?thesis
      using assms Answer
      by (cases e rule: object_answer.cases)
        (auto simp: query_answer_def ajax_response_def split: jsval.splits)
  qed
qed (simp_all add: query_frame export_frame split: option.splits widget.splits)

lemma step_result:
  assumes "query_answer p e = [v]" and "good v" and "s_fields (stores p n) = fs"
  shows "s_recs (stores (page_step r p e) n) = comb (s_recs (stores p n)) (map (model_data fs) (shape v))"
proof -
  from assms(1) obtain i t kvs where e: "e = Answer i (Responded t (Some (JObj kvs)))"
    and i: "i < length (pending p)" "pending p ! i = KQuery"
    and ok: "js_eq (obj_get kvs ''success'') (JStr ''ok'')" and v: "v = JObj kvs"
    by (auto simp: query_answer_def split: event.splits response.splits option.splits jsval.splits if_splits)
  then show ?thesis
    using assms(2,3) done_comb [of kvs] by (simp add: ajax_response_def on_answer_def)
qed

lemma query_answer_cases: "query_answer p e = [] \<or> (\<exists>v. query_answer p e = [v])"
  by (auto simp: query_answer_def split: event.splits response.splits option.splits jsval.splits)

lemma run_from:
  assumes "list_all good (query_answers r p es)" and "list_all object_answer es"
    and "s_fields (stores p n) = fs"
  shows "s_recs (stores (run_page r p es) n) =
           foldl (\<lambda>old v. comb old (map (model_data fs) (shape v)))
             (s_recs (stores p n)) (query_answers r p es)"
  using assms
proof (induction es arbitrary: p)
  case Nil
  then show ?case by (simp add: run_page_def)
next
  case (Cons e es)
  let ?q = "page_step r p e"
  have IH: "s_recs (stores (run_page r ?q es) n) =
      foldl (\<lambda>old v. comb old (map (model_data fs) (shape v)))
        (s_recs (stores ?q n)) (query_answers r ?q es)"
    using Cons.prems by (intro Cons.IH) (simp_all add: step_fields)
  have run: "run_page r p (e # es) = run_page r ?q es" by (simp add: run_page_def)
  consider "query_answer p e = []" | v where "query_answer p e = [v]"
    using query_answer_cases by blast
  then show ?case
  proof cases
    case 1
    with Cons.prems(2) show ?thesis using IH run by (simp add: step_other)
  next
    case 2
    with Cons.prems have "good v" by simp
    with 2 Cons.prems(3) have "s_recs (stores ?q n) =
        comb (s_recs (stores p n)) (map (model_data fs) (shape v))"
      by (intro step_result) simp_all
    with 2 show ?thesis using IH run by simp
  qed
qed

lemma launch_fields: "s_fields (stores (launch r w) n) = fs"
  by (auto simp: launch_def page_init_def fs_def split: option.splits)

lemma launch_empty: "s_recs (stores (launch r w) n) = []"
  using starts_empty by (auto simp: launch_def page_init_def split: option.splits)

theorem run_shows:
  assumes "list_all good (query_answers r (launch r w) es)" and "list_all object_answer es"
  shows "store_getRange (stores (run_page r (launch r w) es) n) =
           foldl (\<lambda>old v. comb old (map (model_data (s_fields (init_store (rp_cfg r) n))) (shape v)))
             [] (query_answers r (launch r w) es)"
  using run_from [OF assms launch_fields] by (simp add: store_getRange_def launch_empty fs_def)

end

text \<open>Where an answer replaces the rows, the last one is shown; where it adds to them, all are kept.\<close>

lemma foldl_replace: "foldl (\<lambda>old v. f v) z vs = (if vs = [] then z else f (last vs))"
  by (induction vs rule: rev_induct) simp_all

lemma foldl_append_concat: "foldl (\<lambda>old v. old @ f v) z vs = z @ concat (map f vs)"
  by (induction vs arbitrary: z) simp_all

section \<open>The two kinds of report pages\<close>

text \<open>
  What the kinds have in common: the launch only loads choices, the query asks for every field it needs, the export sends what a store holds, and an
  answer changes result stores only.
\<close>

locale asking_page =
  fixes r :: report
  assumes launch_loads: "rp_launch r = Some (opts, f) \<Longrightarrow> loads_choices f"
    and query_guarded: "guarded_query (rp_cfg r) (rp_query r)"
    and export_stores: "stores (rp_export r p) = stores p"
    and export_inputs: "inputs (rp_export r p) = inputs p"
    and then_stores: "stores (rp_then r p) = stores p"
    and then_inputs: "inputs (rp_then r p) = inputs p"
    and done_inputs: "inputs (final_state (rp_done r res p)) = inputs p"
    and done_frame: "\<not> result_store m \<Longrightarrow> stores (final_state (rp_done r res p)) m = stores p m"
    and apart: "choices_apart (rp_cfg r)"
    and widgets_distinct: "distinct (map fst (pg_widgets (rp_cfg r)))"
begin

lemmas query_stores = guarded_query_frame [OF query_guarded]

lemma asking_keeps:
  "rp_launch r = Some (opts, f) \<Longrightarrow> page_ok (rp_cfg r) p \<Longrightarrow> page_ok (rp_cfg r) (final_state (f res p))"
  "page_ok (rp_cfg r) p \<Longrightarrow> page_ok (rp_cfg r) (rp_query r p)"
  "page_ok (rp_cfg r) p \<Longrightarrow> page_ok (rp_cfg r) (rp_export r p)"
  "page_ok (rp_cfg r) p \<Longrightarrow> page_ok (rp_cfg r) (rp_then r p)"
  using launch_loads page_ok_stores_cong [OF query_stores(1)] page_ok_stores_cong [OF export_stores]
    page_ok_stores_cong [OF then_stores]
  by (auto simp: loads_choices_def)

lemma asking_frame:
  assumes "result_store n" and "rp_launch r = Some (opts, f)"
  shows "stores (final_state (f res p)) n = stores p n"
  using launch_loads [OF assms(2)] assms(1) by (simp add: loads_choices_def)

text \<open>Every event keeps the input fields within what the page offers.\<close>

lemma callback_keeps_inputs:
  assumes "inputs_ok (rp_cfg r) p"
  shows "inputs_ok (rp_cfg r) (final_state (on_answer r k res p))"
proof -
  have "inputs_ok (rp_cfg r) (final_state (f res p))" if "rp_launch r = Some (opts, f)" for opts f
    using launch_loads [OF that]
    by (auto simp: loads_choices_def grown_def intro!: inputs_ok_grown [OF assms apart widgets_distinct])
  moreover have "inputs_ok (rp_cfg r) (final_state (rp_done r res p))"
    by (rule inputs_ok_grown [OF assms apart widgets_distinct]) (simp_all add: done_inputs done_frame)
  moreover have "inputs_ok (rp_cfg r) (emit e p)" "inputs_ok (rp_cfg r) (rp_then r (emit e p))" for e
    by (rule inputs_ok_grown [OF assms apart widgets_distinct]; simp add: then_stores then_inputs)+
  ultimately show ?thesis
    using assms by (cases k) (auto simp: on_answer_def export_saved_def Let_def split: option.splits)
qed

lemma input_set_keeps:
  assumes "inputs_ok c p" and "input_ok c q n" and "stores q = stores p"
    and "\<And>m. m \<noteq> n \<Longrightarrow> inputs q m = inputs p m"
  shows "inputs_ok c q"
  unfolding inputs_ok_def list_all_iff
proof
  fix nw
  assume "nw \<in> set (pg_widgets c)"
  then have "input_ok c p (fst nw)" using assms(1) by (simp add: inputs_ok_def list_all_iff)
  then show "input_ok c q (fst nw)"
    using assms(2) input_ok_cong [OF assms(3,4)] by (cases "fst nw = n") simp_all
qed

lemma select_entry_keeps:
  assumes "inputs_ok c p"
  shows "inputs_ok c (select_entry c n i p)"
proof (rule input_set_keeps [OF assms])
  have "input_ok c p n \<or> map_of (pg_widgets c) n = None"
    using inputs_okD [OF assms] by (cases "map_of (pg_widgets c) n") simp_all
  then show "input_ok c (select_entry c n i p) n"
    by (auto simp: select_entry_def input_ok_def store_getAt_def split: option.splits widget.splits)
qed (auto simp: select_entry_def split: option.splits widget.splits)

lemma step_keeps_inputs:
  assumes p: "inputs_ok (rp_cfg r) p"
  shows "inputs_ok (rp_cfg r) (page_step r p e)"
proof (cases e)
  case (Answer i a)
  let ?q = "p\<lparr>pending := take i (pending p) @ drop (Suc i) (pending p)\<rparr>"
  have q: "inputs_ok (rp_cfg r) ?q" using p inputs_ok_cong [of ?q p] by simp
  then have e: "inputs_ok (rp_cfg r) (emit x ?q)" for x using inputs_ok_cong [of "emit x ?q" ?q] by simp
  show ?thesis
    using p Answer callback_keeps_inputs [OF q] q e
    by (auto simp: ajax_response_def with_val_def split: response.splits option.splits sum.splits)
next
  case (Choose n i)
  then show ?thesis using select_entry_keeps [OF p] by simp
next
  case (Pick n t s raw)
  show ?thesis
    by (rule input_set_keeps [OF p, of _ n])
      (use Pick p in \<open>auto simp: input_ok_def dest: inputs_okD split: option.splits widget.splits\<close>)
next
  case (Type n s)
  show ?thesis
    by (rule input_set_keeps [OF p, of _ n])
      (use Type p in \<open>auto simp: input_ok_def dest: inputs_okD split: option.splits widget.splits\<close>)
qed (use p in \<open>simp_all add: inputs_ok_cong [OF query_stores] inputs_ok_cong [OF export_stores export_inputs]\<close>)

lemma launch_inputs: "inputs_ok (rp_cfg r) (launch r w)"
  by (auto simp: launch_def page_init_def init_input_def inputs_ok_def input_ok_def list_all_iff
      split: option.splits widget.splits)

theorem run_inputs: "inputs_ok (rp_cfg r) (run_page r (launch r w) es)"
  by (induction es rule: rev_induct) (simp_all add: run_page_def launch_inputs step_keeps_inputs)

text \<open>The query button after any run: one message, or one request with complete parameters.\<close>

theorem run_query_complete:
  fixes w es
  defines "p \<equiv> run_page r (launch r w) es"
  shows "(\<exists>t vs. page_step r p ClickQuery = emit (Alert t) (p\<lparr>vars := vs\<rparr>)) \<or>
     (\<exists>req. effects (page_step r p ClickQuery) = effects p @ [Send req] \<and>
        pending (page_step r p ClickQuery) = pending p @ [KQuery] \<and>
        list_all complete_param (r_params req))"
  by (rule guarded_query_cases [OF query_guarded run_inputs [of w es]]) (auto simp: p_def)

end

text \<open>A plain page shows the rows of the answer.\<close>

locale plain_report = asking_page +
  fixes ks :: "(string \<times> string) list"
  assumes done_fill: "rp_done r res p = fill_grid ''store_grid'' ks (js_prop res ''res'') p"
    and grid_empty: "s_recs (init_store (rp_cfg r) ''store_grid'') = []"

sublocale plain_report \<subseteq> report_program r
  by unfold_locales (simp_all add: asking_keeps done_fill page_ok_fill_grid)

sublocale plain_report \<subseteq> shown: answered_store r "''store_grid''" "rows_wf present" "\<lambda>res. map (row_obj ks) (rows_of res)"
    "\<lambda>old new. new"
  by unfold_locales
    (simp_all add: asking_frame result_store_def query_stores export_stores then_stores done_fill answer_rows
      fill_grid_fields grid_empty)

context plain_report
begin

theorem grid_shows_last:
  assumes "list_all (rows_wf present) (query_answers r (launch r w) es)" and "list_all object_answer es"
  shows "store_getRange (stores (run_page r (launch r w) es) ''store_grid'') =
    (let answers = query_answers r (launch r w) es;
         fields = s_fields (init_store (rp_cfg r) ''store_grid'')
     in if answers = [] then [] else map (\<lambda>x. model_data fields (row_obj ks x)) (rows_of (last answers)))"
  using shown.run_shows [OF assms] by (simp add: foldl_replace Let_def)

lemma program: "report_program r"
  by unfold_locales

end

text \<open>
  A keeping page keeps all rows in \<open>save_store\<close>, cleared first or not, and shows the first
  fifty.
\<close>

locale keeping_report = asking_page +
  fixes ks :: "(string \<times> string) list"
    and clr :: bool
  assumes done_both: "rp_done r res p = fill_both clr ks (js_prop res ''res'') p"
    and both_empty: "s_recs (init_store (rp_cfg r) ''store_grid'') = []"
      "s_recs (init_store (rp_cfg r) ''save_store'') = []"

sublocale keeping_report \<subseteq> report_program r
  by unfold_locales (simp_all add: asking_keeps done_both page_ok_fill_both)

sublocale keeping_report \<subseteq> shown: answered_store r "''store_grid''" "rows_wf present" "\<lambda>res. map (row_obj ks) (rows_of res)"
    "\<lambda>old new. take 50 new"
  by unfold_locales
    (simp_all add: asking_frame result_store_def query_stores export_stores then_stores done_both answer_rows
      fill_both_fields both_empty take_map)

sublocale keeping_report \<subseteq> kept: answered_store r "''save_store''" "rows_wf present" "\<lambda>res. map (row_obj ks) (rows_of res)"
    "\<lambda>old new. (if clr then [] else old) @ new"
  by unfold_locales
    (simp_all add: asking_frame result_store_def query_stores export_stores then_stores done_both answer_rows
      fill_both_fields both_empty)

context keeping_report
begin

theorem grid_shows_first_fifty:
  assumes "list_all (rows_wf present) (query_answers r (launch r w) es)" and "list_all object_answer es"
  shows "store_getRange (stores (run_page r (launch r w) es) ''store_grid'') =
    (let answers = query_answers r (launch r w) es;
         fields = s_fields (init_store (rp_cfg r) ''store_grid'')
     in if answers = [] then []
        else map (\<lambda>x. model_data fields (row_obj ks x)) (take 50 (rows_of (last answers))))"
  using shown.run_shows [OF assms] by (simp add: foldl_replace Let_def take_map)

theorem save_keeps:
  assumes "list_all (rows_wf present) (query_answers r (launch r w) es)" and "list_all object_answer es"
  shows "store_getRange (stores (run_page r (launch r w) es) ''save_store'') =
    (let answers = query_answers r (launch r w) es;
         fields = s_fields (init_store (rp_cfg r) ''save_store'');
         recs = (\<lambda>v. map (\<lambda>x. model_data fields (row_obj ks x)) (rows_of v))
     in if clr then (if answers = [] then [] else recs (last answers)) else concat (map recs answers))"
  using kept.run_shows [OF assms] by (cases clr) (simp_all add: foldl_replace foldl_append_concat Let_def o_def)

lemma program: "report_program r"
  by unfold_locales

end

text \<open>
  A mapped page builds the object of a row by its own code, which succeeds on good rows.
\<close>

locale mapped_report = asking_page +
  fixes n :: string
    and good :: "jsval \<Rightarrow> bool"
    and mk :: "jsval \<Rightarrow> js_exn + jsobj"
    and row :: "jsval \<Rightarrow> jsobj"
  assumes done_rows: "js_prop res ''res'' = JArr xs \<Longrightarrow> rp_done r res p = fill_rows n mk (JArr xs) p"
    and done_page_ok: "page_ok (rp_cfg r) p \<Longrightarrow> page_ok (rp_cfg r) (final_state (rp_done r res p))"
    and done_keeps_fields: "s_fields (stores (final_state (rp_done r res p)) n) = s_fields (stores p n)"
    and mk_good: "good x \<Longrightarrow> mk x = Inr (row x)"
    and n_result: "result_store n"
    and n_empty: "s_recs (init_store (rp_cfg r) n) = []"

sublocale mapped_report \<subseteq> report_program r
  by unfold_locales (simp_all add: asking_keeps done_page_ok)

sublocale mapped_report \<subseteq> shown: answered_store r n "rows_wf good" "\<lambda>res. map row (rows_of res)" "\<lambda>old new. new"
proof
  fix kvs p
  assume "rows_wf good (JObj kvs)"
  note rows = rows_wfD [OF this]
  show "s_recs (stores (final_state (rp_done r (JObj kvs) p)) n) =
      map (model_data (s_fields (stores p n))) (map row (rows_of (JObj kvs)))"
    using done_rows [OF rows(1)] fill_rows_recs [of good "rows_of (JObj kvs)" mk row n p, OF rows(2) mk_good] by simp
qed (simp_all add: asking_frame n_result query_stores export_stores then_stores done_keeps_fields n_empty)

context mapped_report
begin

theorem shows_last:
  assumes "list_all (rows_wf good) (query_answers r (launch r w) es)" and "list_all object_answer es"
  shows "store_getRange (stores (run_page r (launch r w) es) n) =
    (let answers = query_answers r (launch r w) es;
         fields = s_fields (init_store (rp_cfg r) n)
     in if answers = [] then [] else map (\<lambda>x. model_data fields (row x)) (rows_of (last answers)))"
  using shown.run_shows [OF assms] by (simp add: foldl_replace Let_def o_def)

lemma program: "report_program r"
  by unfold_locales

end

section \<open>Exports\<close>

text \<open>
  A page whose export button sends one store under one header and names the sheet after the
  last search. The request carries what the store holds at the click, and the sheet keeps
  the name of the click whatever the user does before the answer comes.
\<close>

fun is_answer :: "event \<Rightarrow> bool" where
  "is_answer (Answer i a) = True"
| "is_answer _ = False"

definition export_request :: "column list \<Rightarrow> jsobj list \<Rightarrow> page \<Rightarrow> request" where
  "export_request cols recs p =
     \<lparr>r_url = ''/statsexport/save_export_data'', r_method = ''POST'',
      r_params = [(''str_header'', Encoded (JArr (map column_obj cols))),
                  (''str_data'', Encoded (JArr (map JObj recs))),
                  (''sid'', Raw (cookie_get ''sessionid'' p))],
      r_token = csrf p\<rparr>"

definition sheet_download :: "string \<Rightarrow> page \<Rightarrow> effect" where
  "sheet_download name p =
     Download (''/statsexport/export_to_xls.xls?uid='' @ js_to_string (getUid p) @ ''&file_name='' @ name)
       (name @ ''.xls'')"

lemma effects_start_export:
  "effects (start_export k n cols p) = effects p @ [Send (export_request cols (store_getRange (stores p n)) p)]"
  by (simp add: start_export_def doExportXls_def ajaxCall_eq sent_params_def export_request_def emit_def
      getJsonOfStore_def getJsonOfHeader_def)

locale exporting_page = asking_page +
  fixes n :: string
    and cols :: "column list"
  assumes export_click: "rp_export r p = start_export (KExport (g_search_name p)) n cols p"
begin

theorem click_sends:
  "effects (page_step r p ClickExport) =
     effects p @ [Send (export_request cols (store_getRange (stores p n)) p)]"
  by (simp add: export_click effects_start_export)

lemma pending_query: "\<exists>ks. pending (rp_query r p) = pending p @ ks"
proof -
  from query_guarded obtain gs name opts vs where "rp_query r p = run_query gs name opts (p\<lparr>vars := vs\<rparr>)"
    unfolding guarded_query_def by blast
  then show ?thesis by (simp add: run_query_def split: option.splits)
qed

lemma pending_step: "\<not> is_answer e \<Longrightarrow> \<exists>ks. pending (page_step r p e) = pending p @ ks"
  using pending_query by (cases e) (auto simp: export_click split: option.splits widget.splits)

lemma pending_run:
  "list_all (\<lambda>e. \<not> is_answer e) es \<Longrightarrow> \<exists>ks. pending (run_page r p es) = pending p @ ks"
proof (induction es rule: rev_induct)
  case (snoc e es)
  then obtain ks where "pending (run_page r p es) = pending p @ ks" by auto
  moreover obtain ks' where "pending (page_step r (run_page r p es) e) = pending (run_page r p es) @ ks'"
    using snoc.prems pending_step by fastforce
  ultimately show ?case by (simp add: run_page_def)
qed (simp add: run_page_def)

theorem sheet_keeps_name:
  fixes p
  assumes "list_all (\<lambda>e. \<not> is_answer e) es" and "js_eq (obj_get kvs ''success'') (JStr ''ok'')"
  defines "q \<equiv> run_page r (page_step r p ClickExport) es"
  shows "effects (page_step r q (Answer (length (pending p)) (Responded t (Some (JObj kvs))))) =
     effects q @ [sheet_download (g_search_name p) q]"
proof -
  obtain ks where "pending q = (pending p @ [KExport (g_search_name p)]) @ ks"
    using pending_run [OF assms(1), of "page_step r p ClickExport"] by (auto simp: q_def export_click)
  then have "pending q ! length (pending p) = KExport (g_search_name p)" and "length (pending p) < length (pending q)"
    by (simp_all add: nth_append)
  then show ?thesis
    using assms(2)
    by (simp add: ajax_response_def on_answer_def export_saved_def sheet_download_def Let_def BASE_URL_def getUid_def
        cookie_get_def)
qed

end

end
