(* ===== verification/Reports_Plain.thy ===== *)
theory Reports_Plain
  imports Page_Runs
begin

text \<open>
  The report pages that show the rows of an answer as they come: for each page its columns,
  its stores, input fields and grid (\<open>_cfg\<close>), the call that loads the choices (\<open>_launch\<close>),
  the query button, the object literal a row is turned into (\<open>_row\<close>), \<open>updateGrid\<close>, the
  export button, the layout of the viewport (\<open>_view\<close>) and the page's program. Every page is
  an instance of the locale \<open>plain_report\<close>.
\<close>

section \<open>activereport.js\<close>

definition activereport_columns :: "column list" where
  "activereport_columns = [
     col (uni [0x65E5, 0x671F]) ''date'',
     col (uni [0x603B, 0x6570]) ''total_count'',
     col (''5'' @ uni [0x5206, 0x949F, 0x4EE5, 0x5185]) ''m5'',
     col (''10'' @ uni [0x5206, 0x949F, 0x4EE5, 0x5185]) ''m10'',
     col (''15'' @ uni [0x5206, 0x949F, 0x4EE5, 0x5185]) ''m15'',
     col (''20'' @ uni [0x5206, 0x949F, 0x4EE5, 0x5185]) ''m20'',
     col (''25'' @ uni [0x5206, 0x949F, 0x4EE5, 0x5185]) ''m25'',
     col (''30'' @ uni [0x5206, 0x949F, 0x4EE5, 0x5185]) ''m30'',
     col (''35'' @ uni [0x5206, 0x949F, 0x4EE5, 0x5185]) ''m35'',
     col (''40'' @ uni [0x5206, 0x949F, 0x4EE5, 0x5185]) ''m40'',
     col (''45'' @ uni [0x5206, 0x949F, 0x4EE5, 0x5185]) ''m45'',
     col (''50'' @ uni [0x5206, 0x949F, 0x4EE5, 0x5185]) ''m50'',
     col (''55'' @ uni [0x5206, 0x949F, 0x4EE5, 0x5185]) ''m55'',
     col (''1'' @ uni [0x5C0F, 0x65F6, 0x4EE5, 0x5185]) ''m60'',
     col (''2'' @ uni [0x5C0F, 0x65F6, 0x4EE5, 0x5185]) ''m120'',
     col (''3'' @ uni [0x5C0F, 0x65F6, 0x4EE5, 0x5185]) ''m180'',
     col (''5'' @ uni [0x5C0F, 0x65F6, 0x4EE5, 0x5185]) ''m300'',
     col (''5'' @ uni [0x5C0F, 0x65F6, 0x4EE5, 0x4E0A]) ''m300plus'']"

definition activereport_cfg :: page_cfg where
  "activereport_cfg =
     \<lparr>app_name = ''totalactivereport'',
      pg_stores =
       [(''store_grid'', [''date'', ''total_count'', ''m5'', ''m10'', ''m15'', ''m20'', ''m25'', ''m30'',
         ''m35'', ''m40'', ''m45'', ''m50'', ''m55'', ''m60'', ''m120'', ''m180'', ''m300'', ''m300plus''],
           []),
        (''store_cat1'', [''catname'', ''category''], []),
        (''store_cat2'', [''catname'', ''category''], [[(''catname'', JStr (loc ''str_players'')),
          (''category'', JStr ''user'')], [(''catname'', JStr (loc ''str_device'')), (''category'',
            JStr ''device'')], [(''catname'', JStr (loc ''str_accounts'')), (''category'',
              JStr ''account'')], [(''catname'', JStr (loc ''str_new_player'')), (''category'',
                JStr ''new_user'')], [(''catname'', JStr (loc ''str_new_device'')), (''category'',
                  JStr ''new_device'')], [(''catname'', JStr (loc ''str_new_account'')), (''category'',
                    JStr ''new_account'')]])],
      pg_widgets =
       [(''date_start'', date_field ''query_date_start'' ''str_date_start''),
        (''date_end'', date_field ''query_date_end'' ''str_date_end''),
        (''cat_input1'', local_combo ''str_sdk_plat_cat'' ''store_cat1'' ''category'' ''catname'' ''str_plz_select_sdk_plat'' 235),
        (''cat_input2'', local_combo ''str_active_cat'' ''store_cat2'' ''category'' ''catname'' ''str_plz_select_active_kind'' 235),
        (''btn_query'', query_button),
        (''btn_export'', export_button)],
      pg_grids =
       [(''data_grid'', \<lparr>gr_title = [], gr_store = ''store_grid'',
         gr_columns = activereport_columns\<rparr>)]\<rparr>"

definition activereport_launch :: "ajax_opts \<times> page callback" where
  "activereport_launch = (get_choices ''/statsorign/get_sdk_plats'', cat_plats_loaded)"

definition activereport_onBtnQuery :: "page \<Rightarrow> page" where
  "activereport_onBtnQuery p =
     (let start_date = getValue p ''date_start'';
          end_date = getValue p ''date_end'';
          cat_sp = getValue p ''cat_input1'';
          cat_act = getValue p ''cat_input2''
      in run_query
          [(falsy start_date, ''str_plz_select_date_start''),
           (falsy end_date, ''str_plz_select_date_end''),
           (falsy cat_sp, ''str_plz_select_sdk_plat''),
           (falsy cat_act, ''str_plz_select_active_kind'')]
          (getRawValue p ''cat_input1'' @ ''_'' @ getRawValue p ''cat_input2'' @ ''_'' @ getRawValue p ''date_start'' @ ''_'' @ getRawValue p ''date_end'' @ uni [0x6D3B, 0x8DC3, 0x5EA6])
          (post ''/statsorign/get_active_report'' [(''start_date'', start_date), (''end_date'', end_date),
            (''cat_sp'', cat_sp), (''cat_act'', cat_act)]) p)"

definition activereport_row :: "(string \<times> string) list" where
  "activereport_row =
     [(''date'', ''date''), (''total_count'', ''total_count''), (''m5'', ''m5''), (''m10'', ''m10''),
       (''m15'', ''m15''), (''m20'', ''m20''), (''m25'', ''m25''), (''m30'', ''m30''), (''m35'', ''m35''),
         (''m40'', ''m40''), (''m45'', ''m45''), (''m50'', ''m50''), (''m55'', ''m55''), (''m60'', ''m60''),
           (''m120'', ''m120''), (''m180'', ''m180''), (''m300'', ''m300''), (''m300plus'', ''m300plus'')]"

definition activereport_updateGrid :: "page callback" where
  "activereport_updateGrid res p =
     fill_grid ''store_grid'' activereport_row (js_prop res ''res'') p"

definition activereport_onBtnExport :: "page \<Rightarrow> page" where
  "activereport_onBtnExport p = start_export (KExport (g_search_name p)) ''store_grid'' activereport_columns p"

definition activereport_view :: layout where
  "activereport_view = \<lparr>toolbar = [''cat_input1'', ''cat_input2'', ''date_start'', ''date_end'',
    ''btn_query'', ''btn_export''], center = [''data_grid'']\<rparr>"

definition activereport :: report where
  "activereport =
     \<lparr>rp_cfg = activereport_cfg, rp_launch = Some activereport_launch,
      rp_query = activereport_onBtnQuery, rp_done = activereport_updateGrid,
      rp_export = activereport_onBtnExport, rp_then = id\<rparr>"

section \<open>retentionreport.js\<close>

definition retentionreport_columns :: "column list" where
  "retentionreport_columns = [
     col (uni [0x65E5, 0x671F]) ''date'',
     col (uni [0x603B, 0x6570]) ''total_count'',
     col (uni [0x6B21, 0x65E5, 0x7559, 0x5B58, 0x7387]) ''d1'',
     col (uni [0x4E8C, 0x65E5, 0x7559, 0x5B58, 0x7387]) ''d2'',
     col (uni [0x4E09, 0x65E5, 0x7559, 0x5B58, 0x7387]) ''d3'',
     col (uni [0x56DB, 0x65E5, 0x7559, 0x5B58, 0x7387]) ''d4'',
     col (uni [0x4E94, 0x65E5, 0x7559, 0x5B58, 0x7387]) ''d5'',
     col (uni [0x516D, 0x65E5, 0x7559, 0x5B58, 0x7387]) ''d6'',
     col (uni [0x4E03, 0x65E5, 0x7559, 0x5B58, 0x7387]) ''w1'',
     col (uni [0x5341, 0x56DB, 0x65E5, 0x7559, 0x5B58, 0x7387]) ''w2'',
     col (uni [0x4E00, 0x6708, 0x7559, 0x5B58, 0x7387]) ''m1'',
     col (uni [0x4E09, 0x6708, 0x7559, 0x5B58, 0x7387]) ''m3'']"

definition retentionreport_cfg :: page_cfg where
  "retentionreport_cfg =
     \<lparr>app_name = ''retentionreport'',
      pg_stores =
       [(''store_grid'', [''date'', ''total_count'', ''d1'', ''d2'', ''d3'', ''d4'', ''d5'', ''d6'', ''w1'',
         ''w2'', ''m1'', ''m3''], []),
        (''store_cat1'', [''catname'', ''category''], []),
        (''store_cat2'', [''catname'', ''category''], [[(''catname'', JStr (loc ''str_players'')),
          (''category'', JStr ''user'')], [(''catname'', JStr (loc ''str_accounts'')), (''category'',
            JStr ''account'')], [(''catname'', JStr (loc ''str_device'')), (''category'',
              JStr ''device'')]])],
      pg_widgets =
       [(''cat_input1'', local_combo ''str_sdk_plat_cat'' ''store_cat1'' ''category'' ''catname'' ''str_plz_select_sdk_plat'' 235),
        (''cat_input2'', local_combo ''str_active_cat'' ''store_cat2'' ''category'' ''catname'' ''str_plz_select_active_kind'' 235),
        (''btn_query'', query_button),
        (''btn_export'', export_button)],
      pg_grids =
       [(''data_grid'', \<lparr>gr_title = [], gr_store = ''store_grid'',
         gr_columns = retentionreport_columns\<rparr>)]\<rparr>"

definition retentionreport_launch :: "ajax_opts \<times> page callback" where
  "retentionreport_launch = (get_choices ''/statsorign/get_sdk_plats'', cat_plats_loaded)"

definition retentionreport_onBtnQuery :: "page \<Rightarrow> page" where
  "retentionreport_onBtnQuery p =
     (let cat_sp = getValue p ''cat_input1'';
          cat_act = getValue p ''cat_input2''
      in run_query
          [(falsy cat_sp, ''str_plz_select_sdk_plat''),
           (falsy cat_act, ''str_plz_select_active_kind'')]
          (getRawValue p ''cat_input1'' @ ''_'' @ getRawValue p ''cat_input2'' @ uni [0x7559, 0x5B58, 0x7387])
          (post ''/statsorign/get_retention_report'' [(''cat_sp'', cat_sp), (''cat_act'', cat_act)]) p)"

definition retentionreport_row :: "(string \<times> string) list" where
  "retentionreport_row =
     [(''date'', ''date''), (''total_count'', ''total_count''), (''d1'', ''d1''), (''d2'', ''d2''), (''d3'',
       ''d3''), (''d4'', ''d4''), (''d5'', ''d5''), (''d6'', ''d6''), (''w1'', ''w1''), (''w2'', ''w2''),
         (''m1'', ''m1''), (''m3'', ''m3'')]"

definition retentionreport_updateGrid :: "page callback" where
  "retentionreport_updateGrid res p =
     fill_grid ''store_grid'' retentionreport_row (js_prop res ''res'') p"

definition retentionreport_onBtnExport :: "page \<Rightarrow> page" where
  "retentionreport_onBtnExport p = start_export (KExport (g_search_name p)) ''store_grid'' retentionreport_columns p"

definition retentionreport_view :: layout where
  "retentionreport_view = \<lparr>toolbar = [''cat_input1'', ''cat_input2'', ''btn_query'', ''btn_export''],
    center = [''data_grid'']\<rparr>"

definition retentionreport :: report where
  "retentionreport =
     \<lparr>rp_cfg = retentionreport_cfg, rp_launch = Some retentionreport_launch,
      rp_query = retentionreport_onBtnQuery, rp_done = retentionreport_updateGrid,
      rp_export = retentionreport_onBtnExport, rp_then = id\<rparr>"

section \<open>all_factions_report.js\<close>

definition all_factions_report_columns :: "column list" where
  "all_factions_report_columns = [
     col (uni [0x533A]) ''zone_id'',
     col (uni [0x65E5, 0x671F]) ''date'',
     col (uni [0x804C, 0x4E1A]) ''faction'',
     col (uni [0x89D2, 0x8272, 0x6570]) ''players'',
     col (uni [0x8D26, 0x53F7, 0x6570]) ''accounts'']"

definition all_factions_report_cfg :: page_cfg where
  "all_factions_report_cfg =
     \<lparr>app_name = ''allfactionreport'',
      pg_stores =
       [(''store_grid'', [''zone_id'', ''date'', ''faction'', ''players'', ''accounts''], []),
        (''store_zone'', [''zone_name'', ''zone_id''], []),
        (''store_sdk'', [''sdk_name'', ''sdk''], []),
        (''store_platform'', [''platform_name'', ''platform''], [])],
      pg_widgets =
       [(''date_input'', date_field ''query_date'' ''str_date''),
        (''zone_input'', local_combo ''str_zone'' ''store_zone'' ''zone_id'' ''zone_name'' ''str_plz_select_zone'' 200),
        (''sdk_input'', local_combo ''str_sdk'' ''store_sdk'' ''sdk'' ''sdk_name'' ''str_plz_select_sdk'' 200),
        (''platform_input'', local_combo ''str_platform'' ''store_platform'' ''platform'' ''platform_name'' ''str_plz_select_platform'' 200),
        (''btn_query'', query_button),
        (''btn_export'', export_button)],
      pg_grids =
       [(''data_grid'', \<lparr>gr_title = [], gr_store = ''store_grid'',
         gr_columns = all_factions_report_columns\<rparr>)]\<rparr>"

definition all_factions_report_launch :: "ajax_opts \<times> page callback" where
  "all_factions_report_launch = (get_choices ''/statsorign/get_sdk_plats'', sdk_plats_loaded)"

definition all_factions_report_onBtnQuery :: "page \<Rightarrow> page" where
  "all_factions_report_onBtnQuery p =
     (let zone_id = getValue p ''zone_input'';
          sdk = getValue p ''sdk_input'';
          platform = getValue p ''platform_input'';
          date = getValue p ''date_input''
      in run_query
          [(nullish zone_id, ''str_plz_select_zone''),
           (falsy sdk, ''str_plz_select_sdk''),
           (falsy platform, ''str_plz_select_platform''),
           (falsy date, ''str_plz_select_date'')]
          (getRawValue p ''zone_input'' @ ''_'' @ getRawValue p ''date_input'' @ uni [0x6240, 0x6709, 0x804C,
            0x4E1A, 0x7EDF, 0x8BA1])
          (post ''/statshelper/get_all_factions_report'' [(''zone_id'', zone_id), (''sdk'', sdk),
            (''platform'', platform), (''date'', date)]) p)"

definition all_factions_report_row :: "(string \<times> string) list" where
  "all_factions_report_row =
     [(''zone_id'', ''zone_id''), (''date'', ''date''), (''faction'', ''faction''), (''players'',
       ''players''), (''accounts'', ''accounts'')]"

definition all_factions_report_updateGrid :: "page callback" where
  "all_factions_report_updateGrid res p =
     fill_grid ''store_grid'' all_factions_report_row res p"

definition all_factions_report_onBtnExport :: "page \<Rightarrow> page" where
  "all_factions_report_onBtnExport p = start_export (KExport (g_search_name p)) ''store_grid'' all_factions_report_columns p"

definition all_factions_report_view :: layout where
  "all_factions_report_view = \<lparr>toolbar = [''zone_input'', ''sdk_input'', ''platform_input'',
    ''date_input'', ''btn_query'', ''btn_export''], center = [''data_grid'']\<rparr>"

definition all_factions_report :: report where
  "all_factions_report =
     \<lparr>rp_cfg = all_factions_report_cfg, rp_launch = Some all_factions_report_launch,
      rp_query = all_factions_report_onBtnQuery,
        rp_done = \<lambda>res. all_factions_report_updateGrid (js_prop res ''res''),
      rp_export = all_factions_report_onBtnExport, rp_then = id\<rparr>"

section \<open>all_player_city_event_level_report.js\<close>

definition all_player_city_event_level_report_columns :: "column list" where
  "all_player_city_event_level_report_columns = [
     col (uni [0x65E5, 0x671F]) ''date'',
     col (uni [0x533A]) ''zone_id'',
     col (uni [0x89D2, 0x8272, 0x5165, 0x4E16, 0x7B49, 0x7EA7]) ''level'',
     col (uni [0x603B, 0x4EBA, 0x6570]) ''num'']"

definition all_player_city_event_level_report_cfg :: page_cfg where
  "all_player_city_event_level_report_cfg =
     \<lparr>app_name = ''all_player_ciyt_event_level_report'',
      pg_stores =
       [(''store_grid'', [''date'', ''zone_id'', ''level'', ''num''], []),
        (''store_zone'', [''zone_name'', ''zone_id''], []),
        (''store_sdk'', [''sdk_name'', ''sdk''], []),
        (''store_platform'', [''platform_name'', ''platform''], [])],
      pg_widgets =
       [(''zone_input'', local_combo ''str_zone'' ''store_zone'' ''zone_id'' ''zone_name'' ''str_plz_select_zone'' 200),
        (''sdk_input'', local_combo ''str_sdk'' ''store_sdk'' ''sdk'' ''sdk_name'' ''str_plz_select_sdk'' 200),
        (''platform_input'', local_combo ''str_platform'' ''store_platform'' ''platform'' ''platform_name'' ''str_plz_select_platform'' 200),
        (''date_end'', date_field ''query_date_end'' ''str_date_end''),
        (''btn_query'', query_button),
        (''btn_export'', export_button)],
      pg_grids =
       [(''data_grid'', \<lparr>gr_title = [], gr_store = ''store_grid'',
         gr_columns = all_player_city_event_level_report_columns\<rparr>)]\<rparr>"

definition all_player_city_event_level_report_launch :: "ajax_opts \<times> page callback" where
  "all_player_city_event_level_report_launch = (get_choices ''/statsorign/get_sdk_plats'', sdk_plats_loaded)"

definition all_player_city_event_level_report_onBtnQuery :: "page \<Rightarrow> page" where
  "all_player_city_event_level_report_onBtnQuery p =
     (let zone_id = getValue p ''zone_input'';
          sdk = getValue p ''sdk_input'';
          platform = getValue p ''platform_input'';
          end_date = getValue p ''date_end''
      in run_query
          [(nullish zone_id, ''str_plz_select_zone''),
           (falsy sdk, ''str_plz_select_sdk''),
           (falsy platform, ''str_plz_select_platform''),
           (falsy end_date, ''str_plz_select_date_end'')]
          (getRawValue p ''zone_input'' @ ''_'' @ getRawValue p ''sdk_input'' @ ''_'' @ getRawValue p ''platform_input'' @ ''_'' @ getRawValue p ''date_end'' @ ''_'' @ uni [0x6240, 0x6709, 0x89D2, 0x8272, 0x5165, 0x4E16, 0x7B49, 0x7EA7, 0x5206, 0x5E03])
          (post ''/statshelper/get_all_player_city_event_level_report'' [(''end_date'', end_date),
            (''zone_id'', zone_id), (''sdk'', sdk), (''platform'', platform)]) p)"

definition all_player_city_event_level_report_row :: "(string \<times> string) list" where
  "all_player_city_event_level_report_row =
     [(''date'', ''date''), (''zone_id'', ''zone_id''), (''level'', ''level''), (''num'', ''num'')]"

definition all_player_city_event_level_report_updateGrid :: "page callback" where
  "all_player_city_event_level_report_updateGrid res p =
     fill_grid ''store_grid'' all_player_city_event_level_report_row (js_prop res ''res'') p"

definition all_player_city_event_level_report_onBtnExport :: "page \<Rightarrow> page" where
  "all_player_city_event_level_report_onBtnExport p = start_export (KExport (g_search_name p)) ''store_grid'' all_player_city_event_level_report_columns p"

definition all_player_city_event_level_report_view :: layout where
  "all_player_city_event_level_report_view = \<lparr>toolbar = [''zone_input'', ''sdk_input'',
    ''platform_input'', ''date_end'', ''btn_query'', ''btn_export''], center = [''data_grid'']\<rparr>"

definition all_player_city_event_level_report :: report where
  "all_player_city_event_level_report =
     \<lparr>rp_cfg = all_player_city_event_level_report_cfg,
       rp_launch = Some all_player_city_event_level_report_launch,
      rp_query = all_player_city_event_level_report_onBtnQuery,
        rp_done = all_player_city_event_level_report_updateGrid,
      rp_export = all_player_city_event_level_report_onBtnExport, rp_then = id\<rparr>"

section \<open>all_player_level_report.js\<close>

definition all_player_level_report_columns :: "column list" where
  "all_player_level_report_columns = [
     col (uni [0x65E5, 0x671F]) ''date'',
     col (uni [0x533A]) ''zone_id'',
     col (uni [0x89D2, 0x8272, 0x7B49, 0x7EA7]) ''level'',
     col (uni [0x603B, 0x4EBA, 0x6570]) ''num'']"

definition all_player_level_report_cfg :: page_cfg where
  "all_player_level_report_cfg =
     \<lparr>app_name = ''all_player_level_report'',
      pg_stores =
       [(''store_grid'', [''date'', ''zone_id'', ''level'', ''num''], []),
        (''store_zone'', [''zone_name'', ''zone_id''], []),
        (''store_sdk'', [''sdk_name'', ''sdk''], []),
        (''store_platform'', [''platform_name'', ''platform''], [])],
      pg_widgets =
       [(''zone_input'', local_combo ''str_zone'' ''store_zone'' ''zone_id'' ''zone_name'' ''str_plz_select_zone'' 200),
        (''sdk_input'', local_combo ''str_sdk'' ''store_sdk'' ''sdk'' ''sdk_name'' ''str_plz_select_sdk'' 200),
        (''platform_input'', local_combo ''str_platform'' ''store_platform'' ''platform'' ''platform_name'' ''str_plz_select_platform'' 200),
        (''date_end'', date_field ''query_date_end'' ''str_date_end''),
        (''btn_query'', query_button),
        (''btn_export'', export_button)],
      pg_grids =
       [(''data_grid'', \<lparr>gr_title = [], gr_store = ''store_grid'',
         gr_columns = all_player_level_report_columns\<rparr>)]\<rparr>"

definition all_player_level_report_launch :: "ajax_opts \<times> page callback" where
  "all_player_level_report_launch = (get_choices ''/statsorign/get_sdk_plats'', sdk_plats_loaded)"

definition all_player_level_report_onBtnQuery :: "page \<Rightarrow> page" where
  "all_player_level_report_onBtnQuery p =
     (let zone_id = getValue p ''zone_input'';
          sdk = getValue p ''sdk_input'';
          platform = getValue p ''platform_input'';
          end_date = getValue p ''date_end''
      in run_query
          [(nullish zone_id, ''str_plz_select_zone''),
           (falsy sdk, ''str_plz_select_sdk''),
           (falsy platform, ''str_plz_select_platform''),
           (falsy end_date, ''str_plz_select_date_end'')]
          (getRawValue p ''zone_input'' @ ''_'' @ getRawValue p ''sdk_input'' @ ''_'' @ getRawValue p ''platform_input'' @ ''_'' @ getRawValue p ''date_end'' @ ''_'' @ uni [0x6240, 0x6709, 0x89D2, 0x8272, 0x7B49, 0x7EA7, 0x5206, 0x5E03])
          (post ''/statshelper/get_all_player_level_report'' [(''end_date'', end_date), (''zone_id'',
            zone_id), (''sdk'', sdk), (''platform'', platform)]) p)"

definition all_player_level_report_row :: "(string \<times> string) list" where
  "all_player_level_report_row =
     [(''date'', ''date''), (''zone_id'', ''zone_id''), (''level'', ''level''), (''num'', ''num'')]"

definition all_player_level_report_updateGrid :: "page callback" where
  "all_player_level_report_updateGrid res p =
     fill_grid ''store_grid'' all_player_level_report_row (js_prop res ''res'') p"

definition all_player_level_report_onBtnExport :: "page \<Rightarrow> page" where
  "all_player_level_report_onBtnExport p = start_export (KExport (g_search_name p)) ''store_grid'' all_player_level_report_columns p"

definition all_player_level_report_view :: layout where
  "all_player_level_report_view = \<lparr>toolbar = [''zone_input'', ''sdk_input'', ''platform_input'',
    ''date_end'', ''btn_query'', ''btn_export''], center = [''data_grid'']\<rparr>"

definition all_player_level_report :: report where
  "all_player_level_report =
     \<lparr>rp_cfg = all_player_level_report_cfg, rp_launch = Some all_player_level_report_launch,
      rp_query = all_player_level_report_onBtnQuery, rp_done = all_player_level_report_updateGrid,
      rp_export = all_player_level_report_onBtnExport, rp_then = id\<rparr>"

section \<open>born_quest_report.js\<close>

definition born_quest_report_columns :: "column list" where
  "born_quest_report_columns = [
     col (uni [0x65E5, 0x671F]) ''date'',
     col (uni [0x533A]) ''zone_id'',
     col (uni [0x6D3B, 0x52A8]) ''tid'',
     col (uni [0x4EBA, 0x6570]) ''num'']"

definition born_quest_report_cfg :: page_cfg where
  "born_quest_report_cfg =
     \<lparr>app_name = ''bornquestreport'',
      pg_stores =
       [(''store_grid'', [''date'', ''zone_id'', ''tid'', ''num''], []),
        (''store_zone'', [''zone_name'', ''zone_id''], []),
        (''store_sdk'', [''sdk_name'', ''sdk''], []),
        (''store_platform'', [''platform_name'', ''platform''], [])],
      pg_widgets =
       [(''date_input'', date_field ''query_date'' ''str_date''),
        (''zone_input'', local_combo ''str_zone'' ''store_zone'' ''zone_id'' ''zone_name'' ''str_plz_select_zone'' 200),
        (''sdk_input'', local_combo ''str_sdk'' ''store_sdk'' ''sdk'' ''sdk_name'' ''str_plz_select_sdk'' 200),
        (''platform_input'', local_combo ''str_platform'' ''store_platform'' ''platform'' ''platform_name'' ''str_plz_select_platform'' 200),
        (''btn_query'', query_button),
        (''btn_export'', export_button)],
      pg_grids =
       [(''data_grid'', \<lparr>gr_title = [], gr_store = ''store_grid'',
         gr_columns = born_quest_report_columns\<rparr>)]\<rparr>"

definition born_quest_report_launch :: "ajax_opts \<times> page callback" where
  "born_quest_report_launch = (get_choices ''/statsorign/get_sdk_plats'', sdk_plats_loaded)"

definition born_quest_report_onBtnQuery :: "page \<Rightarrow> page" where
  "born_quest_report_onBtnQuery p =
     (let zone_id = getValue p ''zone_input'';
          sdk = getValue p ''sdk_input'';
          platform = getValue p ''platform_input'';
          date = getValue p ''date_input''
      in run_query
          [(nullish zone_id, ''str_plz_select_zone''),
           (falsy sdk, ''str_plz_select_sdk''),
           (falsy platform, ''str_plz_select_platform''),
           (falsy date, ''str_plz_select_date'')]
          (getRawValue p ''zone_input'' @ ''_'' @ getRawValue p ''sdk_input'' @ ''_'' @ getRawValue p ''platform_input'' @ ''_'' @ uni [0x5F00, 0x670D, 0x72C2, 0x6B22, 0x62A5, 0x8868] @ ''_'' @ getRawValue p ''date_input'')
          (post ''/statshelper/get_born_quest_report'' [(''zone_id'', zone_id), (''sdk'', sdk),
            (''platform'', platform), (''date'', date)]) p)"

definition born_quest_report_row :: "(string \<times> string) list" where
  "born_quest_report_row =
     [(''date'', ''date''), (''zone_id'', ''zone_id''), (''tid'', ''tid''), (''num'', ''num'')]"

definition born_quest_report_updateGrid :: "page callback" where
  "born_quest_report_updateGrid res p =
     fill_grid ''store_grid'' born_quest_report_row res p"

definition born_quest_report_onBtnExport :: "page \<Rightarrow> page" where
  "born_quest_report_onBtnExport p = start_export (KExport (g_search_name p)) ''store_grid'' born_quest_report_columns p"

definition born_quest_report_view :: layout where
  "born_quest_report_view = \<lparr>toolbar = [''zone_input'', ''sdk_input'', ''platform_input'',
    ''date_input'', ''btn_query'', ''btn_export''], center = [''data_grid'']\<rparr>"

definition born_quest_report :: report where
  "born_quest_report =
     \<lparr>rp_cfg = born_quest_report_cfg, rp_launch = Some born_quest_report_launch,
      rp_query = born_quest_report_onBtnQuery,
        rp_done = \<lambda>res. born_quest_report_updateGrid (js_prop res ''res''),
      rp_export = born_quest_report_onBtnExport, rp_then = id\<rparr>"

section \<open>share_award_report.js\<close>

definition share_award_report_columns :: "column list" where
  "share_award_report_columns = [
     col (uni [0x65E5, 0x671F]) ''date'',
     col (uni [0x533A]) ''zone_id'',
     col (uni [0x5956, 0x52B1]) ''tid'',
     col (uni [0x4EBA, 0x6570]) ''num'']"

definition share_award_report_cfg :: page_cfg where
  "share_award_report_cfg =
     \<lparr>app_name = ''vippurchasereport'',
      pg_stores =
       [(''store_grid'', [''date'', ''zone_id'', ''tid'', ''num''], []),
        (''store_zone'', [''zone_name'', ''zone_id''], []),
        (''store_sdk'', [''sdk_name'', ''sdk''], []),
        (''store_platform'', [''platform_name'', ''platform''], [])],
      pg_widgets =
       [(''zone_input'', local_combo ''str_zone'' ''store_zone'' ''zone_id'' ''zone_name'' ''str_plz_select_zone'' 200),
        (''sdk_input'', local_combo ''str_sdk'' ''store_sdk'' ''sdk'' ''sdk_name'' ''str_plz_select_sdk'' 200),
        (''platform_input'', local_combo ''str_platform'' ''store_platform'' ''platform'' ''platform_name'' ''str_plz_select_platform'' 200),
        (''start_date_input'', date_field ''query_date_start'' ''str_date_start''),
        (''end_date_input'', date_field ''query_date_end'' ''str_date_end''),
        (''btn_query'', query_button),
        (''btn_export'', export_button)],
      pg_grids =
       [(''data_grid'', \<lparr>gr_title = [], gr_store = ''store_grid'',
         gr_columns = share_award_report_columns\<rparr>)]\<rparr>"

definition share_award_report_launch :: "ajax_opts \<times> page callback" where
  "share_award_report_launch = (get_choices ''/statsorign/get_sdk_plats'', sdk_plats_loaded)"

definition share_award_report_onBtnQuery :: "page \<Rightarrow> page" where
  "share_award_report_onBtnQuery p =
     (let zone_id = getValue p ''zone_input'';
          sdk = getValue p ''sdk_input'';
          platform = getValue p ''platform_input'';
          date_start = getValue p ''start_date_input'';
          date_end = getValue p ''end_date_input''
      in run_query
          [(nullish zone_id, ''str_plz_select_zone''),
           (falsy sdk, ''str_plz_select_sdk''),
           (falsy platform, ''str_plz_select_platform''),
           (falsy date_start, ''str_plz_select_date''),
           (falsy date_end, ''str_plz_select_date'')]
          (getRawValue p ''zone_input'' @ ''_'' @ getRawValue p ''sdk_input'' @ ''_'' @ getRawValue p ''platform_input'' @ ''_'' @ getRawValue p ''start_date_input'' @ ''_'' @ getRawValue p ''end_date_input'' @ ''_'' @ ''vip'' @ uni [0x793C, 0x5305, 0x8D2D, 0x4E70, 0x62A5, 0x8868])
          (post ''/statshelper/get_share_award_report'' [(''zone_id'', zone_id), (''sdk'', sdk),
            (''platform'', platform), (''date_start'', date_start), (''date_end'', date_end)]) p)"

definition share_award_report_row :: "(string \<times> string) list" where
  "share_award_report_row =
     [(''date'', ''date''), (''zone_id'', ''zone_id''), (''num'', ''num''), (''tid'', ''tid'')]"

definition share_award_report_updateGrid :: "page callback" where
  "share_award_report_updateGrid res p =
     fill_grid ''store_grid'' share_award_report_row res p"

definition share_award_report_onBtnExport :: "page \<Rightarrow> page" where
  "share_award_report_onBtnExport p = start_export (KExport (g_search_name p)) ''store_grid'' share_award_report_columns p"

definition share_award_report_view :: layout where
  "share_award_report_view = \<lparr>toolbar = [''zone_input'', ''sdk_input'', ''platform_input'',
    ''start_date_input'', ''end_date_input'', ''btn_query'', ''btn_export''],
      center = [''data_grid'']\<rparr>"

definition share_award_report :: report where
  "share_award_report =
     \<lparr>rp_cfg = share_award_report_cfg, rp_launch = Some share_award_report_launch,
      rp_query = share_award_report_onBtnQuery,
        rp_done = \<lambda>res. share_award_report_updateGrid (js_prop res ''res''),
      rp_export = share_award_report_onBtnExport, rp_then = id\<rparr>"

section \<open>shopconsumereport.js\<close>

definition shopconsumereport_columns :: "column list" where
  "shopconsumereport_columns = [
     col (uni [0x65E5, 0x671F]) ''date'',
     col (uni [0x5546, 0x54C1]) ''goods'',
     col (uni [0x5546, 0x5E97]) ''shop'',
     col (uni [0x6D88, 0x8017, 0x7C7B, 0x578B]) ''cost'',
     col (uni [0x6570, 0x91CF]) ''count'',
     col (uni [0x82B1, 0x8D39]) ''consume'',
     col (uni [0x4EBA, 0x6570]) ''players'']"

definition shopconsumereport_cfg :: page_cfg where
  "shopconsumereport_cfg =
     \<lparr>app_name = ''shopconsumereport'',
      pg_stores =
       [(''store_grid'', [''date'', ''goods'', ''shop'', ''cost'', ''count'', ''consume'', ''account'',
         ''players''], []),
        (''store_zone'', [''zone_name'', ''zone_id''], []),
        (''store_sdk'', [''sdk_name'', ''sdk''], []),
        (''store_platform'', [''platform_name'', ''platform''], [])],
      pg_widgets =
       [(''date_input'', date_field ''query_date'' ''str_date''),
        (''zone_input'', local_combo ''str_zone'' ''store_zone'' ''zone_id'' ''zone_name'' ''str_plz_select_zone'' 200),
        (''sdk_input'', local_combo ''str_sdk'' ''store_sdk'' ''sdk'' ''sdk_name'' ''str_plz_select_sdk'' 200),
        (''platform_input'', local_combo ''str_platform'' ''store_platform'' ''platform'' ''platform_name'' ''str_plz_select_platform'' 200),
        (''btn_query'', query_button),
        (''btn_export'', export_button)],
      pg_grids =
       [(''data_grid'', \<lparr>gr_title = [], gr_store = ''store_grid'',
         gr_columns = shopconsumereport_columns\<rparr>)]\<rparr>"

definition shopconsumereport_launch :: "ajax_opts \<times> page callback" where
  "shopconsumereport_launch = (get_choices ''/statsorign/get_sdk_plats'', sdk_plats_loaded)"

definition shopconsumereport_onBtnQuery :: "page \<Rightarrow> page" where
  "shopconsumereport_onBtnQuery p =
     (let zone_id = getValue p ''zone_input'';
          sdk = getValue p ''sdk_input'';
          platform = getValue p ''platform_input'';
          date = getValue p ''date_input''
      in run_query
          [(nullish zone_id, ''str_plz_select_zone''),
           (falsy sdk, ''str_plz_select_sdk''),
           (falsy platform, ''str_plz_select_platform''),
           (falsy date, ''str_plz_select_date'')]
          (getRawValue p ''zone_input'' @ ''_'' @ getRawValue p ''sdk_input'' @ ''_'' @ getRawValue p ''platform_input'' @ ''_'' @ getRawValue p ''date_input'' @ uni [0x5546, 0x57CE, 0x6D88, 0x8D39])
          (post ''/statshelper/get_shop_consume'' [(''zone_id'', zone_id), (''sdk'', sdk), (''platform'',
            platform), (''date'', date)]) p)"

definition shopconsumereport_row :: "(string \<times> string) list" where
  "shopconsumereport_row =
     [(''date'', ''date''), (''goods'', ''goods''), (''shop'', ''shop''), (''cost'', ''cost''), (''count'',
       ''count''), (''players'', ''players''), (''consume'', ''consume'')]"

definition shopconsumereport_updateGrid :: "page callback" where
  "shopconsumereport_updateGrid res p =
     fill_grid ''store_grid'' shopconsumereport_row res p"

definition shopconsumereport_onBtnExport :: "page \<Rightarrow> page" where
  "shopconsumereport_onBtnExport p = start_export (KExport (g_search_name p)) ''store_grid'' shopconsumereport_columns p"

definition shopconsumereport_view :: layout where
  "shopconsumereport_view = \<lparr>toolbar = [''zone_input'', ''sdk_input'', ''platform_input'',
    ''date_input'', ''btn_query'', ''btn_export''], center = [''data_grid'']\<rparr>"

definition shopconsumereport :: report where
  "shopconsumereport =
     \<lparr>rp_cfg = shopconsumereport_cfg, rp_launch = Some shopconsumereport_launch,
      rp_query = shopconsumereport_onBtnQuery,
        rp_done = \<lambda>res. shopconsumereport_updateGrid (js_prop res ''res''),
      rp_export = shopconsumereport_onBtnExport, rp_then = id\<rparr>"

section \<open>vip_level_report.js\<close>

definition vip_level_report_columns :: "column list" where
  "vip_level_report_columns = [
     col (uni [0x65E5, 0x671F]) ''date'',
     col (uni [0x6570, 0x91CF]) ''count'',
     col (''vip'' @ uni [0x7B49, 0x7EA7]) ''level'']"

definition vip_level_report_cfg :: page_cfg where
  "vip_level_report_cfg =
     \<lparr>app_name = ''viplevelreport'',
      pg_stores =
       [(''store_grid'', [''date'', ''count'', ''level''], []),
        (''store_zone'', [''zone_name'', ''zone_id''], []),
        (''store_sdk'', [''sdk_name'', ''sdk''], []),
        (''store_platform'', [''platform_name'', ''platform''], [])],
      pg_widgets =
       [(''date_input'', date_field ''query_date'' ''str_date''),
        (''zone_input'', local_combo ''str_zone'' ''store_zone'' ''zone_id'' ''zone_name'' ''str_plz_select_zone'' 200),
        (''sdk_input'', local_combo ''str_sdk'' ''store_sdk'' ''sdk'' ''sdk_name'' ''str_plz_select_sdk'' 200),
        (''platform_input'', local_combo ''str_platform'' ''store_platform'' ''platform'' ''platform_name'' ''str_plz_select_platform'' 200),
        (''btn_query'', query_button),
        (''btn_export'', export_button)],
      pg_grids =
       [(''data_grid'', \<lparr>gr_title = [], gr_store = ''store_grid'',
         gr_columns = vip_level_report_columns\<rparr>)]\<rparr>"

definition vip_level_report_launch :: "ajax_opts \<times> page callback" where
  "vip_level_report_launch = (get_choices ''/statsorign/get_sdk_plats'', sdk_plats_loaded)"

definition vip_level_report_onBtnQuery :: "page \<Rightarrow> page" where
  "vip_level_report_onBtnQuery p =
     (let zone_id = getValue p ''zone_input'';
          sdk = getValue p ''sdk_input'';
          platform = getValue p ''platform_input'';
          date = getValue p ''date_input''
      in run_query
          [(nullish zone_id, ''str_plz_select_zone''),
           (falsy sdk, ''str_plz_select_sdk''),
           (falsy platform, ''str_plz_select_platform''),
           (falsy date, ''str_plz_select_date'')]
          (getRawValue p ''zone_input'' @ ''_'' @ getRawValue p ''sdk_input'' @ ''_'' @ getRawValue p ''platform_input'' @ ''_'' @ ''vip'' @ uni [0x7B49, 0x7EA7, 0x5206, 0x5E03] @ ''_'' @ getRawValue p ''date_input'')
          (post ''/statshelper/get_vip_level_report'' [(''zone_id'', zone_id), (''sdk'', sdk), (''platform'',
            platform), (''date'', date)]) p)"

definition vip_level_report_row :: "(string \<times> string) list" where
  "vip_level_report_row =
     [(''date'', ''date''), (''count'', ''count''), (''level'', ''level'')]"

definition vip_level_report_updateGrid :: "page callback" where
  "vip_level_report_updateGrid res p =
     fill_grid ''store_grid'' vip_level_report_row res p"

definition vip_level_report_onBtnExport :: "page \<Rightarrow> page" where
  "vip_level_report_onBtnExport p = start_export (KExport (g_search_name p)) ''store_grid'' vip_level_report_columns p"

definition vip_level_report_view :: layout where
  "vip_level_report_view = \<lparr>toolbar = [''zone_input'', ''sdk_input'', ''platform_input'',
    ''date_input'', ''btn_query'', ''btn_export''], center = [''data_grid'']\<rparr>"

definition vip_level_report :: report where
  "vip_level_report =
     \<lparr>rp_cfg = vip_level_report_cfg, rp_launch = Some vip_level_report_launch,
      rp_query = vip_level_report_onBtnQuery,
        rp_done = \<lambda>res. vip_level_report_updateGrid (js_prop res ''res''),
      rp_export = vip_level_report_onBtnExport, rp_then = id\<rparr>"

section \<open>vip_purchase_report.js\<close>

definition vip_purchase_report_columns :: "column list" where
  "vip_purchase_report_columns = [
     col (uni [0x65E5, 0x671F]) ''date'',
     col (uni [0x533A]) ''zone_id'',
     col (uni [0x793C, 0x5305]) ''tid'',
     col (uni [0x6570, 0x91CF]) ''num'',
     col (uni [0x91D1, 0x989D]) ''consume'']"

definition vip_purchase_report_cfg :: page_cfg where
  "vip_purchase_report_cfg =
     \<lparr>app_name = ''vippurchasereport'',
      pg_stores =
       [(''store_grid'', [''date'', ''zone_id'', ''tid'', ''num'', ''consume''], []),
        (''store_zone'', [''zone_name'', ''zone_id''], []),
        (''store_sdk'', [''sdk_name'', ''sdk''], []),
        (''store_platform'', [''platform_name'', ''platform''], [])],
      pg_widgets =
       [(''date_input'', date_field ''query_date'' ''str_date''),
        (''zone_input'', local_combo ''str_zone'' ''store_zone'' ''zone_id'' ''zone_name'' ''str_plz_select_zone'' 200),
        (''sdk_input'', local_combo ''str_sdk'' ''store_sdk'' ''sdk'' ''sdk_name'' ''str_plz_select_sdk'' 200),
        (''platform_input'', local_combo ''str_platform'' ''store_platform'' ''platform'' ''platform_name'' ''str_plz_select_platform'' 200),
        (''btn_query'', query_button),
        (''btn_export'', export_button)],
      pg_grids =
       [(''data_grid'', \<lparr>gr_title = [], gr_store = ''store_grid'',
         gr_columns = vip_purchase_report_columns\<rparr>)]\<rparr>"

definition vip_purchase_report_launch :: "ajax_opts \<times> page callback" where
  "vip_purchase_report_launch = (get_choices ''/statsorign/get_sdk_plats'', sdk_plats_loaded)"

definition vip_purchase_report_onBtnQuery :: "page \<Rightarrow> page" where
  "vip_purchase_report_onBtnQuery p =
     (let zone_id = getValue p ''zone_input'';
          sdk = getValue p ''sdk_input'';
          platform = getValue p ''platform_input'';
          date = getValue p ''date_input''
      in run_query
          [(nullish zone_id, ''str_plz_select_zone''),
           (falsy sdk, ''str_plz_select_sdk''),
           (falsy platform, ''str_plz_select_platform''),
           (falsy date, ''str_plz_select_date'')]
          (getRawValue p ''zone_input'' @ ''_'' @ getRawValue p ''sdk_input'' @ ''_'' @ getRawValue p ''platform_input'' @ ''_'' @ getRawValue p ''date_input'' @ ''_'' @ ''vip'' @ uni [0x793C, 0x5305, 0x8D2D, 0x4E70, 0x62A5, 0x8868])
          (post ''/statshelper/get_vip_purchase_report'' [(''zone_id'', zone_id), (''sdk'', sdk),
            (''platform'', platform), (''date'', date)]) p)"

definition vip_purchase_report_row :: "(string \<times> string) list" where
  "vip_purchase_report_row =
     [(''date'', ''date''), (''zone_id'', ''zone_id''), (''num'', ''num''), (''tid'', ''tid''), (''consume'',
       ''consume'')]"

definition vip_purchase_report_updateGrid :: "page callback" where
  "vip_purchase_report_updateGrid res p =
     fill_grid ''store_grid'' vip_purchase_report_row res p"

definition vip_purchase_report_onBtnExport :: "page \<Rightarrow> page" where
  "vip_purchase_report_onBtnExport p = start_export (KExport (g_search_name p)) ''store_grid'' vip_purchase_report_columns p"

definition vip_purchase_report_view :: layout where
  "vip_purchase_report_view = \<lparr>toolbar = [''zone_input'', ''sdk_input'', ''platform_input'',
    ''date_input'', ''btn_query'', ''btn_export''], center = [''data_grid'']\<rparr>"

definition vip_purchase_report :: report where
  "vip_purchase_report =
     \<lparr>rp_cfg = vip_purchase_report_cfg, rp_launch = Some vip_purchase_report_launch,
      rp_query = vip_purchase_report_onBtnQuery,
        rp_done = \<lambda>res. vip_purchase_report_updateGrid (js_prop res ''res''),
      rp_export = vip_purchase_report_onBtnExport, rp_then = id\<rparr>"

section \<open>mainquestcamreport.js\<close>

definition mainquestcamreport_columns :: "column list" where
  "mainquestcamreport_columns = [
     col (uni [0x65E5, 0x671F]) ''date'',
     col (uni [0x6218, 0x6597] @ ''ID'') ''campaign'',
     col (uni [0x4EBA, 0x6570]) ''count'']"

definition mainquestcamreport_cfg :: page_cfg where
  "mainquestcamreport_cfg =
     \<lparr>app_name = ''mainquestcamreport'',
      pg_stores =
       [(''store_grid'', [''date'', ''campaign'', ''count''], []),
        (''store_zone'', [''zone_name'', ''zone_id''], []),
        (''store_sdk'', [''sdk_name'', ''sdk''], []),
        (''store_platform'', [''platform_name'', ''platform''], [])],
      pg_widgets =
       [(''zone_input'', local_combo ''str_zone'' ''store_zone'' ''zone_id'' ''zone_name'' ''str_plz_select_zone'' 200),
        (''sdk_input'', local_combo ''str_sdk'' ''store_sdk'' ''sdk'' ''sdk_name'' ''str_plz_select_sdk'' 200),
        (''platform_input'', local_combo ''str_platform'' ''store_platform'' ''platform'' ''platform_name'' ''str_plz_select_platform'' 200),
        (''date_start'', date_field ''query_date_start'' ''str_date_start''),
        (''date_end'', date_field ''query_date_end'' ''str_date_end''),
        (''btn_query'', query_button),
        (''btn_export'', export_button)],
      pg_grids =
       [(''data_grid'', \<lparr>gr_title = [], gr_store = ''store_grid'',
         gr_columns = mainquestcamreport_columns\<rparr>)]\<rparr>"

definition mainquestcamreport_launch :: "ajax_opts \<times> page callback" where
  "mainquestcamreport_launch = (get_choices ''/statsorign/get_sdk_plats'', sdk_plats_loaded)"

definition mainquestcamreport_onBtnQuery :: "page \<Rightarrow> page" where
  "mainquestcamreport_onBtnQuery p =
     (let zone_id = getValue p ''zone_input'';
          sdk = getValue p ''sdk_input'';
          platform = getValue p ''platform_input'';
          start_date = getValue p ''date_start'';
          end_date = getValue p ''date_end''
      in run_query
          [(nullish zone_id, ''str_plz_select_zone''),
           (falsy sdk, ''str_plz_select_sdk''),
           (falsy platform, ''str_plz_select_platform''),
           (falsy start_date, ''str_plz_select_date_start''),
           (falsy end_date, ''str_plz_select_date_end'')]
          (getRawValue p ''zone_input'' @ ''_'' @ getRawValue p ''sdk_input'' @ ''_'' @ getRawValue p ''platform_input'' @ ''_'' @ getRawValue p ''date_start'' @ ''_'' @ getRawValue p ''date_end'' @ uni [0x4E3B, 0x7EBF, 0x526F, 0x672C, 0x901A, 0x8FC7, 0x4EBA, 0x6570])
          (post ''/statshelper/get_main_quest_cam'' [(''sdk'', sdk), (''platform'', platform),
            (''start_date'', start_date), (''end_date'', end_date), (''zone_id'', zone_id)]) p)"

definition mainquestcamreport_row :: "(string \<times> string) list" where
  "mainquestcamreport_row =
     [(''date'', ''date''), (''campaign'', ''campaign''), (''count'', ''count'')]"

definition mainquestcamreport_updateGrid :: "page callback" where
  "mainquestcamreport_updateGrid res p =
     fill_grid ''store_grid'' mainquestcamreport_row (js_prop res ''res'') p"

definition mainquestcamreport_onBtnExport :: "page \<Rightarrow> page" where
  "mainquestcamreport_onBtnExport p = start_export (KExport (g_search_name p)) ''store_grid'' mainquestcamreport_columns p"

definition mainquestcamreport_view :: layout where
  "mainquestcamreport_view = \<lparr>toolbar = [''zone_input'', ''sdk_input'', ''platform_input'',
    ''date_start'', ''date_end'', ''btn_query'', ''btn_export''], center = [''data_grid'']\<rparr>"

definition mainquestcamreport :: report where
  "mainquestcamreport =
     \<lparr>rp_cfg = mainquestcamreport_cfg, rp_launch = Some mainquestcamreport_launch,
      rp_query = mainquestcamreport_onBtnQuery, rp_done = mainquestcamreport_updateGrid,
      rp_export = mainquestcamreport_onBtnExport, rp_then = id\<rparr>"

section \<open>chieflevelreport.js\<close>

definition chieflevelreport_columns :: "column list" where
  "chieflevelreport_columns = [
     col (uni [0x65E5, 0x671F]) ''date'',
     col (uni [0x73A9, 0x5BB6, 0x6570, 0x91CF]) ''count'',
     col (uni [0x73A9, 0x5BB6, 0x7B49, 0x7EA7]) ''level'']"

definition chieflevelreport_cfg :: page_cfg where
  "chieflevelreport_cfg =
     \<lparr>app_name = ''chieflevelreport'',
      pg_stores =
       [(''store_grid'', [''date'', ''count'', ''level''], []),
        (''store_zone'', [''zone_name'', ''zone_id''], [])],
      pg_widgets =
       [(''date_input'', date_field ''query_date'' ''str_date''),
        (''zone_input'', local_combo ''str_zone'' ''store_zone'' ''zone_id'' ''zone_name'' ''str_plz_select_zone'' 235),
        (''btn_query'', query_button),
        (''btn_export'', export_button)],
      pg_grids =
       [(''data_grid'', \<lparr>gr_title = [], gr_store = ''store_grid'',
         gr_columns = chieflevelreport_columns\<rparr>)]\<rparr>"

definition chieflevelreport_launch :: "ajax_opts \<times> page callback" where
  "chieflevelreport_launch = (get_choices ''/statshelper/get_zones'', zones_loaded)"

definition chieflevelreport_onBtnQuery :: "page \<Rightarrow> page" where
  "chieflevelreport_onBtnQuery p =
     (let zone_id = getValue p ''zone_input'';
          date = getValue p ''date_input''
      in run_query
          [(falsy zone_id, ''str_plz_select_zone''),
           (falsy date, ''str_plz_select_date'')]
          (getRawValue p ''zone_input'' @ ''_'' @ uni [0x73A9, 0x5BB6, 0x7B49, 0x7EA7, 0x5206,
            0x5E03] @ ''_'' @ getRawValue p ''date_input'')
          (post ''/statsorign/get_chief_level_report'' [(''zone_id'', zone_id), (''date'', date)]) p)"

definition chieflevelreport_row :: "(string \<times> string) list" where
  "chieflevelreport_row =
     [(''date'', ''date''), (''count'', ''count''), (''level'', ''level'')]"

definition chieflevelreport_updateGrid :: "page callback" where
  "chieflevelreport_updateGrid res p =
     fill_grid ''store_grid'' chieflevelreport_row res p"

definition chieflevelreport_onBtnExport :: "page \<Rightarrow> page" where
  "chieflevelreport_onBtnExport p = start_export (KExport (g_search_name p)) ''store_grid'' chieflevelreport_columns p"

definition chieflevelreport_view :: layout where
  "chieflevelreport_view = \<lparr>toolbar = [''zone_input'', ''date_input'', ''btn_query'', ''btn_export''],
    center = [''data_grid'']\<rparr>"

definition chieflevelreport :: report where
  "chieflevelreport =
     \<lparr>rp_cfg = chieflevelreport_cfg, rp_launch = Some chieflevelreport_launch,
      rp_query = chieflevelreport_onBtnQuery,
        rp_done = \<lambda>res. chieflevelreport_updateGrid (js_prop res ''res''),
      rp_export = chieflevelreport_onBtnExport, rp_then = id\<rparr>"

section \<open>citylevelreport.js\<close>

definition citylevelreport_columns :: "column list" where
  "citylevelreport_columns = [
     col (uni [0x65E5, 0x671F]) ''date'',
     col (uni [0x73A9, 0x5BB6, 0x6570, 0x91CF]) ''count'',
     col (uni [0x73A9, 0x5BB6, 0x7B49, 0x7EA7]) ''level'']"

definition citylevelreport_cfg :: page_cfg where
  "citylevelreport_cfg =
     \<lparr>app_name = ''citylevelreport'',
      pg_stores =
       [(''store_grid'', [''date'', ''count'', ''level''], []),
        (''store_zone'', [''zone_name'', ''zone_id''], [])],
      pg_widgets =
       [(''date_input'', date_field ''query_date'' ''str_date''),
        (''zone_input'', local_combo ''str_zone'' ''store_zone'' ''zone_id'' ''zone_name'' ''str_plz_select_zone'' 235),
        (''btn_query'', query_button),
        (''btn_export'', export_button)],
      pg_grids =
       [(''data_grid'', \<lparr>gr_title = [], gr_store = ''store_grid'',
         gr_columns = citylevelreport_columns\<rparr>)]\<rparr>"

definition citylevelreport_launch :: "ajax_opts \<times> page callback" where
  "citylevelreport_launch = (get_choices ''/statshelper/get_zones'', zones_loaded)"

definition citylevelreport_onBtnQuery :: "page \<Rightarrow> page" where
  "citylevelreport_onBtnQuery p =
     (let zone_id = getValue p ''zone_input'';
          date = getValue p ''date_input''
      in run_query
          [(falsy zone_id, ''str_plz_select_zone''),
           (falsy date, ''str_plz_select_date'')]
          (getRawValue p ''zone_input'' @ ''_'' @ uni [0x73A9, 0x5BB6, 0x5165, 0x5E02, 0x7B49, 0x7EA7,
            0x5206, 0x5E03] @ ''_'' @ getRawValue p ''date_input'')
          (post ''/statshelper/get_city_level_report'' [(''zone_id'', zone_id), (''date'', date)]) p)"

definition citylevelreport_row :: "(string \<times> string) list" where
  "citylevelreport_row =
     [(''date'', ''date''), (''count'', ''count''), (''level'', ''level'')]"

definition citylevelreport_updateGrid :: "page callback" where
  "citylevelreport_updateGrid res p =
     fill_grid ''store_grid'' citylevelreport_row res p"

definition citylevelreport_onBtnExport :: "page \<Rightarrow> page" where
  "citylevelreport_onBtnExport p = start_export (KExport (g_search_name p)) ''store_grid'' citylevelreport_columns p"

definition citylevelreport_view :: layout where
  "citylevelreport_view = \<lparr>toolbar = [''zone_input'', ''date_input'', ''btn_query'', ''btn_export''],
    center = [''data_grid'']\<rparr>"

definition citylevelreport :: report where
  "citylevelreport =
     \<lparr>rp_cfg = citylevelreport_cfg, rp_launch = Some citylevelreport_launch,
      rp_query = citylevelreport_onBtnQuery,
        rp_done = \<lambda>res. citylevelreport_updateGrid (js_prop res ''res''),
      rp_export = citylevelreport_onBtnExport, rp_then = id\<rparr>"

section \<open>main_quest_report.js\<close>

definition main_quest_report_columns :: "column list" where
  "main_quest_report_columns = [
     col (uni [0x65E5, 0x671F]) ''date'',
     col (uni [0x533A]) ''zone_id'',
     col (uni [0x4EFB, 0x52A1] @ ''Tid'') ''tid'',
     col (uni [0x6570, 0x91CF]) ''num'']"

definition main_quest_report_cfg :: page_cfg where
  "main_quest_report_cfg =
     \<lparr>app_name = ''levelcampaignreport'',
      pg_stores =
       [(''store_grid'', [''date'', ''zone_id'', ''tid'', ''num''], []),
        (''store_zone'', [''zone_name'', ''zone_id''], [])],
      pg_widgets =
       [(''date_input'', date_field ''query_date'' ''str_date''),
        (''zone_input'', local_combo ''str_zone'' ''store_zone'' ''zone_id'' ''zone_name'' ''str_plz_select_zone'' 235),
        (''btn_query'', query_button),
        (''btn_export'', export_button)],
      pg_grids =
       [(''data_grid'', \<lparr>gr_title = [], gr_store = ''store_grid'',
         gr_columns = main_quest_report_columns\<rparr>)]\<rparr>"

definition main_quest_report_launch :: "ajax_opts \<times> page callback" where
  "main_quest_report_launch = (get_choices ''/statshelper/get_zones'', zones_loaded)"

definition main_quest_report_onBtnQuery :: "page \<Rightarrow> page" where
  "main_quest_report_onBtnQuery p =
     (let zone_id = getValue p ''zone_input'';
          date = getValue p ''date_input''
      in run_query
          [(falsy zone_id, ''str_plz_select_zone''),
           (falsy date, ''str_plz_select_date'')]
          (getRawValue p ''zone_input'' @ ''_'' @ getRawValue p ''date_input'' @ uni [0x4E3B, 0x7EBF, 0x4EFB,
            0x52A1, 0x7EDF, 0x8BA1])
          (post ''/statshelper/get_main_quest_report'' [(''zone_id'', zone_id), (''date'', date)]) p)"

definition main_quest_report_row :: "(string \<times> string) list" where
  "main_quest_report_row =
     [(''date'', ''date''), (''zone_id'', ''zone_id''), (''tid'', ''tid''), (''num'', ''num'')]"

definition main_quest_report_updateGrid :: "page callback" where
  "main_quest_report_updateGrid res p =
     fill_grid ''store_grid'' main_quest_report_row res p"

definition main_quest_report_onBtnExport :: "page \<Rightarrow> page" where
  "main_quest_report_onBtnExport p = start_export (KExport (g_search_name p)) ''store_grid'' main_quest_report_columns p"

definition main_quest_report_view :: layout where
  "main_quest_report_view = \<lparr>toolbar = [''zone_input'', ''date_input'', ''btn_query'',
    ''btn_export''], center = [''data_grid'']\<rparr>"

definition main_quest_report :: report where
  "main_quest_report =
     \<lparr>rp_cfg = main_quest_report_cfg, rp_launch = Some main_quest_report_launch,
      rp_query = main_quest_report_onBtnQuery,
        rp_done = \<lambda>res. main_quest_report_updateGrid (js_prop res ''res''),
      rp_export = main_quest_report_onBtnExport, rp_then = id\<rparr>"

section \<open>main_quest_user_report.js\<close>

definition main_quest_user_report_columns :: "column list" where
  "main_quest_user_report_columns = [
     col (uni [0x65E5, 0x671F]) ''date'',
     col (uni [0x533A]) ''zone_id'',
     col (uni [0x5E73, 0x53F0]) ''platform'',
     col ''sdk'' ''sdk'',
     col (uni [0x4EFB, 0x52A1] @ ''Tid'') ''qid'',
     col (uni [0x6570, 0x91CF]) ''num'']"

definition main_quest_user_report_cfg :: page_cfg where
  "main_quest_user_report_cfg =
     \<lparr>app_name = ''mainquestuserreport``'',
      pg_stores =
       [(''store_grid'', [''date'', ''zone_id'', ''platform'', ''sdk'', ''qid'', ''num''], []),
        (''store_zone'', [''zone_name'', ''zone_id''], []),
        (''store_sdk'', [''sdk_name'', ''sdk''], []),
        (''store_platform'', [''platform_name'', ''platform''], [])],
      pg_widgets =
       [(''date_input'', date_field ''query_date'' ''str_date''),
        (''zone_input'', local_combo ''str_zone'' ''store_zone'' ''zone_id'' ''zone_name'' ''str_plz_select_zone'' 235),
        (''sdk_input'', local_combo ''str_sdk'' ''store_sdk'' ''sdk'' ''sdk_name'' ''str_plz_select_sdk'' 200),
        (''platform_input'', local_combo ''str_platform'' ''store_platform'' ''platform'' ''platform_name'' ''str_plz_select_platform'' 200),
        (''btn_query'', query_button),
        (''btn_export'', export_button)],
      pg_grids =
       [(''data_grid'', \<lparr>gr_title = [], gr_store = ''store_grid'',
         gr_columns = main_quest_user_report_columns\<rparr>)]\<rparr>"

definition main_quest_user_report_launch :: "ajax_opts \<times> page callback" where
  "main_quest_user_report_launch = (get_choices ''/statsorign/get_sdk_plats'', sdk_plats_loaded)"

definition main_quest_user_report_onBtnQuery :: "page \<Rightarrow> page" where
  "main_quest_user_report_onBtnQuery p =
     (let zone_id = getValue p ''zone_input'';
          sdk = getValue p ''sdk_input'';
          platform = getValue p ''platform_input'';
          date = getValue p ''date_input''
      in run_query
          [(nullish zone_id, ''str_plz_select_zone''),
           (falsy sdk, ''str_plz_select_sdk''),
           (falsy platform, ''str_plz_select_platform''),
           (falsy date, ''str_plz_select_date'')]
          (getRawValue p ''zone_input'' @ ''_'' @ getRawValue p ''date_input'' @ uni [0x4E3B, 0x7EBF, 0x4EFB,
            0x52A1, 0x5168, 0x90E8, 0x7EDF, 0x8BA1])
          (post_encoded ''/statshelper/get_main_quest_user_report'' ''args'' [(''zone_id'', zone_id),
            (''sdk'', sdk), (''platform'', platform), (''date'', date)]) p)"

definition main_quest_user_report_row :: "(string \<times> string) list" where
  "main_quest_user_report_row =
     [(''date'', ''date''), (''zone_id'', ''zone_id''), (''platform'', ''platform''), (''sdk'', ''sdk''),
       (''qid'', ''qid''), (''num'', ''num'')]"

definition main_quest_user_report_updateGrid :: "page callback" where
  "main_quest_user_report_updateGrid res p =
     fill_grid ''store_grid'' main_quest_user_report_row res p"

definition main_quest_user_report_onBtnExport :: "page \<Rightarrow> page" where
  "main_quest_user_report_onBtnExport p = start_export (KExport (g_search_name p)) ''store_grid'' main_quest_user_report_columns p"

definition main_quest_user_report_view :: layout where
  "main_quest_user_report_view = \<lparr>toolbar = [''zone_input'', ''sdk_input'', ''platform_input'',
    ''date_input'', ''btn_query'', ''btn_export''], center = [''data_grid'']\<rparr>"

definition main_quest_user_report :: report where
  "main_quest_user_report =
     \<lparr>rp_cfg = main_quest_user_report_cfg, rp_launch = Some main_quest_user_report_launch,
      rp_query = main_quest_user_report_onBtnQuery,
        rp_done = \<lambda>res. main_quest_user_report_updateGrid (js_prop res ''res''),
      rp_export = main_quest_user_report_onBtnExport, rp_then = id\<rparr>"

section \<open>The pages keep the contract\<close>

definition plain_pages :: "(report \<times> layout \<times> (string \<times> string) list) list" where
  "plain_pages =
     [(activereport, activereport_view, activereport_row),
      (retentionreport, retentionreport_view, retentionreport_row),
      (all_factions_report, all_factions_report_view, all_factions_report_row),
      (all_player_city_event_level_report, all_player_city_event_level_report_view, all_player_city_event_level_report_row),
      (all_player_level_report, all_player_level_report_view, all_player_level_report_row),
      (born_quest_report, born_quest_report_view, born_quest_report_row),
      (share_award_report, share_award_report_view, share_award_report_row),
      (shopconsumereport, shopconsumereport_view, shopconsumereport_row),
      (vip_level_report, vip_level_report_view, vip_level_report_row),
      (vip_purchase_report, vip_purchase_report_view, vip_purchase_report_row),
      (mainquestcamreport, mainquestcamreport_view, mainquestcamreport_row),
      (chieflevelreport, chieflevelreport_view, chieflevelreport_row),
      (citylevelreport, citylevelreport_view, citylevelreport_row),
      (main_quest_report, main_quest_report_view, main_quest_report_row),
      (main_quest_user_report, main_quest_user_report_view, main_quest_user_report_row)]"

lemma activereport_guarded: "guarded_query activereport_cfg activereport_onBtnQuery"
  by (rule guarded_queryI)
    (unfold activereport_onBtnQuery_def Let_def, rule refl, auto simp: nullish_falsy)

interpretation activereport: plain_report activereport activereport_row
proof
  show "choices_apart (rp_cfg activereport)" and "distinct (map fst (pg_widgets (rp_cfg activereport)))"
    by (simp_all add: activereport_def activereport_cfg_def cfg_eval)
  show "guarded_query (rp_cfg activereport) (rp_query activereport)"
    using activereport_guarded by (simp add: activereport_def)
qed (auto simp: activereport_def activereport_launch_def activereport_onBtnExport_def activereport_updateGrid_def
      activereport_cfg_def init_store_def new_store_def page_simps result_store_def)

lemma retentionreport_guarded: "guarded_query retentionreport_cfg retentionreport_onBtnQuery"
  by (rule guarded_queryI)
    (unfold retentionreport_onBtnQuery_def Let_def, rule refl, auto simp: nullish_falsy)

interpretation retentionreport: plain_report retentionreport retentionreport_row
proof
  show "choices_apart (rp_cfg retentionreport)" and "distinct (map fst (pg_widgets (rp_cfg retentionreport)))"
    by (simp_all add: retentionreport_def retentionreport_cfg_def cfg_eval)
  show "guarded_query (rp_cfg retentionreport) (rp_query retentionreport)"
    using retentionreport_guarded by (simp add: retentionreport_def)
qed (auto simp: retentionreport_def retentionreport_launch_def retentionreport_onBtnExport_def retentionreport_updateGrid_def
      retentionreport_cfg_def init_store_def new_store_def page_simps result_store_def)

lemma all_factions_report_guarded: "guarded_query all_factions_report_cfg all_factions_report_onBtnQuery"
  by (rule guarded_queryI)
    (unfold all_factions_report_onBtnQuery_def Let_def, rule refl, auto simp: nullish_falsy)

interpretation all_factions_report: plain_report all_factions_report all_factions_report_row
proof
  show "choices_apart (rp_cfg all_factions_report)" and "distinct (map fst (pg_widgets (rp_cfg all_factions_report)))"
    by (simp_all add: all_factions_report_def all_factions_report_cfg_def cfg_eval)
  show "guarded_query (rp_cfg all_factions_report) (rp_query all_factions_report)"
    using all_factions_report_guarded by (simp add: all_factions_report_def)
qed (auto simp: all_factions_report_def all_factions_report_launch_def all_factions_report_onBtnExport_def all_factions_report_updateGrid_def
      all_factions_report_cfg_def init_store_def new_store_def page_simps result_store_def)

lemma all_player_city_event_level_report_guarded: "guarded_query all_player_city_event_level_report_cfg all_player_city_event_level_report_onBtnQuery"
  by (rule guarded_queryI)
    (unfold all_player_city_event_level_report_onBtnQuery_def Let_def, rule refl, auto simp: nullish_falsy)

interpretation all_player_city_event_level_report: plain_report all_player_city_event_level_report all_player_city_event_level_report_row
proof
  show "choices_apart (rp_cfg all_player_city_event_level_report)" and "distinct (map fst (pg_widgets (rp_cfg all_player_city_event_level_report)))"
    by (simp_all add: all_player_city_event_level_report_def all_player_city_event_level_report_cfg_def cfg_eval)
  show "guarded_query (rp_cfg all_player_city_event_level_report) (rp_query all_player_city_event_level_report)"
    using all_player_city_event_level_report_guarded by (simp add: all_player_city_event_level_report_def)
qed (auto simp: all_player_city_event_level_report_def all_player_city_event_level_report_launch_def all_player_city_event_level_report_onBtnExport_def all_player_city_event_level_report_updateGrid_def
      all_player_city_event_level_report_cfg_def init_store_def new_store_def page_simps result_store_def)

lemma all_player_level_report_guarded: "guarded_query all_player_level_report_cfg all_player_level_report_onBtnQuery"
  by (rule guarded_queryI)
    (unfold all_player_level_report_onBtnQuery_def Let_def, rule refl, auto simp: nullish_falsy)

interpretation all_player_level_report: plain_report all_player_level_report all_player_level_report_row
proof
  show "choices_apart (rp_cfg all_player_level_report)" and "distinct (map fst (pg_widgets (rp_cfg all_player_level_report)))"
    by (simp_all add: all_player_level_report_def all_player_level_report_cfg_def cfg_eval)
  show "guarded_query (rp_cfg all_player_level_report) (rp_query all_player_level_report)"
    using all_player_level_report_guarded by (simp add: all_player_level_report_def)
qed (auto simp: all_player_level_report_def all_player_level_report_launch_def all_player_level_report_onBtnExport_def all_player_level_report_updateGrid_def
      all_player_level_report_cfg_def init_store_def new_store_def page_simps result_store_def)

lemma born_quest_report_guarded: "guarded_query born_quest_report_cfg born_quest_report_onBtnQuery"
  by (rule guarded_queryI)
    (unfold born_quest_report_onBtnQuery_def Let_def, rule refl, auto simp: nullish_falsy)

interpretation born_quest_report: plain_report born_quest_report born_quest_report_row
proof
  show "choices_apart (rp_cfg born_quest_report)" and "distinct (map fst (pg_widgets (rp_cfg born_quest_report)))"
    by (simp_all add: born_quest_report_def born_quest_report_cfg_def cfg_eval)
  show "guarded_query (rp_cfg born_quest_report) (rp_query born_quest_report)"
    using born_quest_report_guarded by (simp add: born_quest_report_def)
qed (auto simp: born_quest_report_def born_quest_report_launch_def born_quest_report_onBtnExport_def born_quest_report_updateGrid_def
      born_quest_report_cfg_def init_store_def new_store_def page_simps result_store_def)

lemma share_award_report_guarded: "guarded_query share_award_report_cfg share_award_report_onBtnQuery"
  by (rule guarded_queryI)
    (unfold share_award_report_onBtnQuery_def Let_def, rule refl, auto simp: nullish_falsy)

interpretation share_award_report: plain_report share_award_report share_award_report_row
proof
  show "choices_apart (rp_cfg share_award_report)" and "distinct (map fst (pg_widgets (rp_cfg share_award_report)))"
    by (simp_all add: share_award_report_def share_award_report_cfg_def cfg_eval)
  show "guarded_query (rp_cfg share_award_report) (rp_query share_award_report)"
    using share_award_report_guarded by (simp add: share_award_report_def)
qed (auto simp: share_award_report_def share_award_report_launch_def share_award_report_onBtnExport_def share_award_report_updateGrid_def
      share_award_report_cfg_def init_store_def new_store_def page_simps result_store_def)

lemma shopconsumereport_guarded: "guarded_query shopconsumereport_cfg shopconsumereport_onBtnQuery"
  by (rule guarded_queryI)
    (unfold shopconsumereport_onBtnQuery_def Let_def, rule refl, auto simp: nullish_falsy)

interpretation shopconsumereport: plain_report shopconsumereport shopconsumereport_row
proof
  show "choices_apart (rp_cfg shopconsumereport)" and "distinct (map fst (pg_widgets (rp_cfg shopconsumereport)))"
    by (simp_all add: shopconsumereport_def shopconsumereport_cfg_def cfg_eval)
  show "guarded_query (rp_cfg shopconsumereport) (rp_query shopconsumereport)"
    using shopconsumereport_guarded by (simp add: shopconsumereport_def)
qed (auto simp: shopconsumereport_def shopconsumereport_launch_def shopconsumereport_onBtnExport_def shopconsumereport_updateGrid_def
      shopconsumereport_cfg_def init_store_def new_store_def page_simps result_store_def)

lemma vip_level_report_guarded: "guarded_query vip_level_report_cfg vip_level_report_onBtnQuery"
  by (rule guarded_queryI)
    (unfold vip_level_report_onBtnQuery_def Let_def, rule refl, auto simp: nullish_falsy)

interpretation vip_level_report: plain_report vip_level_report vip_level_report_row
proof
  show "choices_apart (rp_cfg vip_level_report)" and "distinct (map fst (pg_widgets (rp_cfg vip_level_report)))"
    by (simp_all add: vip_level_report_def vip_level_report_cfg_def cfg_eval)
  show "guarded_query (rp_cfg vip_level_report) (rp_query vip_level_report)"
    using vip_level_report_guarded by (simp add: vip_level_report_def)
qed (auto simp: vip_level_report_def vip_level_report_launch_def vip_level_report_onBtnExport_def vip_level_report_updateGrid_def
      vip_level_report_cfg_def init_store_def new_store_def page_simps result_store_def)

lemma vip_purchase_report_guarded: "guarded_query vip_purchase_report_cfg vip_purchase_report_onBtnQuery"
  by (rule guarded_queryI)
    (unfold vip_purchase_report_onBtnQuery_def Let_def, rule refl, auto simp: nullish_falsy)

interpretation vip_purchase_report: plain_report vip_purchase_report vip_purchase_report_row
proof
  show "choices_apart (rp_cfg vip_purchase_report)" and "distinct (map fst (pg_widgets (rp_cfg vip_purchase_report)))"
    by (simp_all add: vip_purchase_report_def vip_purchase_report_cfg_def cfg_eval)
  show "guarded_query (rp_cfg vip_purchase_report) (rp_query vip_purchase_report)"
    using vip_purchase_report_guarded by (simp add: vip_purchase_report_def)
qed (auto simp: vip_purchase_report_def vip_purchase_report_launch_def vip_purchase_report_onBtnExport_def vip_purchase_report_updateGrid_def
      vip_purchase_report_cfg_def init_store_def new_store_def page_simps result_store_def)

lemma mainquestcamreport_guarded: "guarded_query mainquestcamreport_cfg mainquestcamreport_onBtnQuery"
  by (rule guarded_queryI)
    (unfold mainquestcamreport_onBtnQuery_def Let_def, rule refl, auto simp: nullish_falsy)

interpretation mainquestcamreport: plain_report mainquestcamreport mainquestcamreport_row
proof
  show "choices_apart (rp_cfg mainquestcamreport)" and "distinct (map fst (pg_widgets (rp_cfg mainquestcamreport)))"
    by (simp_all add: mainquestcamreport_def mainquestcamreport_cfg_def cfg_eval)
  show "guarded_query (rp_cfg mainquestcamreport) (rp_query mainquestcamreport)"
    using mainquestcamreport_guarded by (simp add: mainquestcamreport_def)
qed (auto simp: mainquestcamreport_def mainquestcamreport_launch_def mainquestcamreport_onBtnExport_def mainquestcamreport_updateGrid_def
      mainquestcamreport_cfg_def init_store_def new_store_def page_simps result_store_def)

lemma chieflevelreport_guarded: "guarded_query chieflevelreport_cfg chieflevelreport_onBtnQuery"
  by (rule guarded_queryI)
    (unfold chieflevelreport_onBtnQuery_def Let_def, rule refl, auto simp: nullish_falsy)

interpretation chieflevelreport: plain_report chieflevelreport chieflevelreport_row
proof
  show "choices_apart (rp_cfg chieflevelreport)" and "distinct (map fst (pg_widgets (rp_cfg chieflevelreport)))"
    by (simp_all add: chieflevelreport_def chieflevelreport_cfg_def cfg_eval)
  show "guarded_query (rp_cfg chieflevelreport) (rp_query chieflevelreport)"
    using chieflevelreport_guarded by (simp add: chieflevelreport_def)
qed (auto simp: chieflevelreport_def chieflevelreport_launch_def chieflevelreport_onBtnExport_def chieflevelreport_updateGrid_def
      chieflevelreport_cfg_def init_store_def new_store_def page_simps result_store_def)

lemma citylevelreport_guarded: "guarded_query citylevelreport_cfg citylevelreport_onBtnQuery"
  by (rule guarded_queryI)
    (unfold citylevelreport_onBtnQuery_def Let_def, rule refl, auto simp: nullish_falsy)

interpretation citylevelreport: plain_report citylevelreport citylevelreport_row
proof
  show "choices_apart (rp_cfg citylevelreport)" and "distinct (map fst (pg_widgets (rp_cfg citylevelreport)))"
    by (simp_all add: citylevelreport_def citylevelreport_cfg_def cfg_eval)
  show "guarded_query (rp_cfg citylevelreport) (rp_query citylevelreport)"
    using citylevelreport_guarded by (simp add: citylevelreport_def)
qed (auto simp: citylevelreport_def citylevelreport_launch_def citylevelreport_onBtnExport_def citylevelreport_updateGrid_def
      citylevelreport_cfg_def init_store_def new_store_def page_simps result_store_def)

lemma main_quest_report_guarded: "guarded_query main_quest_report_cfg main_quest_report_onBtnQuery"
  by (rule guarded_queryI)
    (unfold main_quest_report_onBtnQuery_def Let_def, rule refl, auto simp: nullish_falsy)

interpretation main_quest_report: plain_report main_quest_report main_quest_report_row
proof
  show "choices_apart (rp_cfg main_quest_report)" and "distinct (map fst (pg_widgets (rp_cfg main_quest_report)))"
    by (simp_all add: main_quest_report_def main_quest_report_cfg_def cfg_eval)
  show "guarded_query (rp_cfg main_quest_report) (rp_query main_quest_report)"
    using main_quest_report_guarded by (simp add: main_quest_report_def)
qed (auto simp: main_quest_report_def main_quest_report_launch_def main_quest_report_onBtnExport_def main_quest_report_updateGrid_def
      main_quest_report_cfg_def init_store_def new_store_def page_simps result_store_def)

lemma main_quest_user_report_guarded: "guarded_query main_quest_user_report_cfg main_quest_user_report_onBtnQuery"
  by (rule guarded_query_encodedI)
    (unfold main_quest_user_report_onBtnQuery_def Let_def, rule refl, auto simp: nullish_falsy)

interpretation main_quest_user_report: plain_report main_quest_user_report main_quest_user_report_row
proof
  show "choices_apart (rp_cfg main_quest_user_report)" and "distinct (map fst (pg_widgets (rp_cfg main_quest_user_report)))"
    by (simp_all add: main_quest_user_report_def main_quest_user_report_cfg_def cfg_eval)
  show "guarded_query (rp_cfg main_quest_user_report) (rp_query main_quest_user_report)"
    using main_quest_user_report_guarded by (simp add: main_quest_user_report_def)
qed (auto simp: main_quest_user_report_def main_quest_user_report_launch_def main_quest_user_report_onBtnExport_def main_quest_user_report_updateGrid_def
      main_quest_user_report_cfg_def init_store_def new_store_def page_simps result_store_def)

lemma plain_pages_contract: "(r, v, ks) \<in> set plain_pages \<Longrightarrow> plain_report r ks"
  unfolding plain_pages_def
  by (auto intro: activereport.plain_report_axioms
      retentionreport.plain_report_axioms
      all_factions_report.plain_report_axioms
      all_player_city_event_level_report.plain_report_axioms
      all_player_level_report.plain_report_axioms
      born_quest_report.plain_report_axioms
      share_award_report.plain_report_axioms
      shopconsumereport.plain_report_axioms
      vip_level_report.plain_report_axioms
      vip_purchase_report.plain_report_axioms
      mainquestcamreport.plain_report_axioms
      chieflevelreport.plain_report_axioms
      citylevelreport.plain_report_axioms
      main_quest_report.plain_report_axioms
      main_quest_user_report.plain_report_axioms)

end
