(* ===== verification/Reports_Saved.thy ===== *)
theory Reports_Saved
  imports Page_Runs
begin

text \<open>
  The report pages that keep every row of an answer for the export and show the first fifty:
  the same groups of definitions as for the plain pages. Every page is an instance of the
  locale \<open>keeping_report\<close>; its last parameter says whether the page drops the kept rows of
  the previous answers first.
\<close>

section \<open>boothtradereport.js\<close>

definition boothtradereport_columns :: "column list" where
  "boothtradereport_columns = [
     col (uni [0x65E5, 0x671F]) ''date'',
     col (uni [0x5356, 0x5BB6] @ ''ID'') ''seller'',
     col (uni [0x4E70, 0x5BB6] @ ''ID'') ''buyer'',
     col ''tid'' ''tid'',
     col (uni [0x5546, 0x54C1]) ''name'',
     col (uni [0x6570, 0x91CF]) ''count'',
     col (uni [0x4EF7, 0x683C]) ''price'',
     col (uni [0x7B49, 0x7EA7]) ''level'',
     col (uni [0x54C1, 0x7EA7]) ''grade'',
     col (uni [0x661F, 0x7EA7]) ''star'',
     col (uni [0x4EA4, 0x6613, 0x65F6, 0x95F4]) ''time'']"

definition boothtradereport_cfg :: page_cfg where
  "boothtradereport_cfg =
     \<lparr>app_name = ''boothtradereport'',
      pg_stores =
       [(''save_store'', [''date'', ''seller'', ''buyer'', ''tid'', ''name'', ''count'', ''price'', ''time'',
         ''level'', ''grade'', ''star''], []),
        (''store_grid'', [''date'', ''seller'', ''buyer'', ''tid'', ''name'', ''count'', ''price'', ''time'',
          ''level'', ''grade'', ''star''], []),
        (''store_zone'', [''zone_name'', ''zone_id''], [])],
      pg_widgets =
       [(''zone_input'', local_combo ''str_zone'' ''store_zone'' ''zone_id'' ''zone_name'' ''str_plz_select_zone'' 235),
        (''date_start'', date_field ''query_date_start'' ''str_date_start''),
        (''date_end'', date_field ''query_date_end'' ''str_date_end''),
        (''btn_query'', query_button),
        (''btn_export'', export_button)],
      pg_grids =
       [(''data_grid'', \<lparr>gr_title = [], gr_store = ''store_grid'',
         gr_columns = boothtradereport_columns\<rparr>)]\<rparr>"

definition boothtradereport_launch :: "ajax_opts \<times> page callback" where
  "boothtradereport_launch = (get_choices ''/statshelper/get_zones'', zones_loaded)"

definition boothtradereport_onBtnQuery :: "page \<Rightarrow> page" where
  "boothtradereport_onBtnQuery p =
     (let zone_id = getValue p ''zone_input'';
          start_date = getValue p ''date_start'';
          end_date = getValue p ''date_end''
      in run_query
          [(falsy zone_id, ''str_plz_select_zone''),
           (falsy start_date, ''str_plz_select_date_start''),
           (falsy end_date, ''str_plz_select_date_end'')]
          (getRawValue p ''zone_input'' @ ''_'' @ getRawValue p ''date_start'' @ ''_'' @ getRawValue p ''date_end'' @ uni [0x4EA4, 0x6613, 0x884C, 0x6D41, 0x6C34])
          (post ''/statshelper/get_booth_trade'' [(''start_date'', start_date), (''end_date'', end_date),
            (''zone_id'', zone_id)]) p)"

definition boothtradereport_row :: "(string \<times> string) list" where
  "boothtradereport_row =
     [(''date'', ''date''), (''seller'', ''seller''), (''buyer'', ''buyer''), (''tid'', ''tid''), (''name'',
       ''name''), (''count'', ''count''), (''price'', ''price''), (''time'', ''time''), (''level'',
         ''level''), (''grade'', ''grade''), (''grade'', ''star'')]"

definition boothtradereport_updateGrid :: "page callback" where
  "boothtradereport_updateGrid res p =
     fill_both False boothtradereport_row (js_prop res ''res'') p"

definition boothtradereport_onBtnExport :: "page \<Rightarrow> page" where
  "boothtradereport_onBtnExport p = start_export (KExport (g_search_name p)) ''save_store'' boothtradereport_columns p"

definition boothtradereport_view :: layout where
  "boothtradereport_view = \<lparr>toolbar = [''zone_input'', ''date_start'', ''date_end'', ''btn_query'',
    ''btn_export''], center = [''data_grid'']\<rparr>"

definition boothtradereport :: report where
  "boothtradereport =
     \<lparr>rp_cfg = boothtradereport_cfg, rp_launch = Some boothtradereport_launch,
      rp_query = boothtradereport_onBtnQuery, rp_done = boothtradereport_updateGrid,
      rp_export = boothtradereport_onBtnExport, rp_then = id\<rparr>"

section \<open>bosspracticereport.js\<close>

definition bosspracticereport_columns :: "column list" where
  "bosspracticereport_columns = [
     col (uni [0x65E5, 0x671F]) ''date'',
     col (uni [0x5371, 0x9669] @ ''1'' @ uni [0x8D26]) ''count1_boss'',
     col (uni [0x5371, 0x9669] @ ''1'' @ uni [0x89D2]) ''count1p_boss'',
     col (uni [0x5371, 0x9669] @ ''2'' @ uni [0x8D26]) ''count2_boss'',
     col (uni [0x5371, 0x9669] @ ''2'' @ uni [0x89D2]) ''count2p_boss'',
     col (uni [0x5371, 0x9669] @ ''3'' @ uni [0x8D26]) ''count3_boss'',
     col (uni [0x5371, 0x9669] @ ''3'' @ uni [0x89D2]) ''count3p_boss'',
     col (uni [0x5371, 0x9669] @ ''4'' @ uni [0x8D26]) ''count4_boss'',
     col (uni [0x5371, 0x9669] @ ''4'' @ uni [0x89D2]) ''count4p_boss'',
     col (uni [0x5371, 0x9669] @ ''5'' @ uni [0x8D26]) ''count5_boss'',
     col (uni [0x5371, 0x9669] @ ''5'' @ uni [0x89D2]) ''count5p_boss'',
     col (uni [0x5371, 0x9669] @ ''6'' @ uni [0x8D26]) ''count6_boss'',
     col (uni [0x5371, 0x9669] @ ''6'' @ uni [0x89D2]) ''count6p_boss'',
     col (uni [0x5371, 0x9669] @ ''7'' @ uni [0x89D2]) ''count7p_boss'',
     col (uni [0x5371, 0x9669] @ ''8'' @ uni [0x89D2]) ''count8p_boss'',
     col (uni [0x5371, 0x9669] @ ''8m'' @ uni [0x8D26]) ''count_more_boss'',
     col (uni [0x5371, 0x9669] @ ''8m'' @ uni [0x89D2]) ''countp_more_boss'',
     col (uni [0x4E0D, 0x6CD5] @ ''1'' @ uni [0x8D26]) ''count1_practice'',
     col (uni [0x4E0D, 0x6CD5] @ ''1'' @ uni [0x89D2]) ''count1p_practice'',
     col (uni [0x4E0D, 0x6CD5] @ ''2'' @ uni [0x8D26]) ''count2_practice'',
     col (uni [0x4E0D, 0x6CD5] @ ''2'' @ uni [0x89D2]) ''count2p_practice'',
     col (uni [0x4E0D, 0x6CD5] @ ''3'' @ uni [0x8D26]) ''count3_practice'',
     col (uni [0x4E0D, 0x6CD5] @ ''3'' @ uni [0x89D2]) ''count3p_practice'',
     col (uni [0x4E0D, 0x6CD5] @ ''4'' @ uni [0x8D26]) ''count4_practice'',
     col (uni [0x4E0D, 0x6CD5] @ ''4'' @ uni [0x89D2]) ''count4p_practice'',
     col (uni [0x4E0D, 0x6CD5] @ ''5'' @ uni [0x8D26]) ''count5_practice'',
     col (uni [0x4E0D, 0x6CD5] @ ''5'' @ uni [0x89D2]) ''count5p_practice'',
     col (uni [0x4E0D, 0x6CD5] @ ''6'' @ uni [0x8D26]) ''count6_practice'',
     col (uni [0x4E0D, 0x6CD5] @ ''6'' @ uni [0x89D2]) ''count6p_practice'',
     col (uni [0x4E0D, 0x6CD5] @ ''7'' @ uni [0x89D2]) ''count7p_practice'',
     col (uni [0x4E0D, 0x6CD5] @ ''8'' @ uni [0x89D2]) ''count8p_practice'',
     col (uni [0x4E0D, 0x6CD5] @ ''8m'' @ uni [0x8D26]) ''count_more_practice'',
     col (uni [0x4E0D, 0x6CD5] @ ''8m'' @ uni [0x89D2]) ''count_morep_practice'']"

definition bosspracticereport_cfg :: page_cfg where
  "bosspracticereport_cfg =
     \<lparr>app_name = ''bosspractivereport'',
      pg_stores =
       [(''save_store'', [''date'', ''count1_boss'', ''count1p_boss'', ''count2_boss'', ''count2p_boss'',
         ''count3_boss'', ''count3p_boss'', ''count4_boss'', ''count4p_boss'', ''count5_boss'',
           ''count5p_boss'', ''count6_boss'', ''count6p_boss'', ''count7_boss'', ''count7p_boss'',
             ''count8_boss'', ''count8p_boss'', ''count_more_boss'', ''countp_more_boss'',
               ''count1_practice'', ''count1p_practice'', ''count2_practice'', ''count2p_practice'',
                 ''count3_practice'', ''count3p_practice'', ''count4_practice'', ''count4p_practice'',
                   ''count5_practice'', ''count5p_practice'', ''count6_practice'', ''count6p_practice'',
                     ''count7_practice'', ''count7p_practice'', ''count8_practice'', ''count8p_practice'',
                       ''count_more_practice'', ''count_morep_practice''], []),
        (''store_grid'', [''date'', ''count1_boss'', ''count1p_boss'', ''count2_boss'', ''count2p_boss'',
          ''count3_boss'', ''count3p_boss'', ''count4_boss'', ''count4p_boss'', ''count5_boss'',
            ''count5p_boss'', ''count6_boss'', ''count6p_boss'', ''count7_boss'', ''count7p_boss'',
              ''count8_boss'', ''count8p_boss'', ''count_more_boss'', ''countp_more_boss'',
                ''count1_practice'', ''count1p_practice'', ''count2_practice'', ''count2p_practice'',
                  ''count3_practice'', ''count3p_practice'', ''count4_practice'', ''count4p_practice'',
                    ''count5_practice'', ''count5p_practice'', ''count6_practice'', ''count6p_practice'',
                      ''count7_practice'', ''count7p_practice'', ''count8_practice'', ''count8p_practice'',
                        ''count_more_practice'', ''count_morep_practice''], []),
        (''store_zone'', [''zone_name'', ''zone_id''], []),
        (''store_sdk'', [''sdk_name'', ''sdk''], []),
        (''store_platform'', [''platform_name'', ''platform''], [])],
      pg_widgets =
       [(''zone_input'', local_combo ''str_zone'' ''store_zone'' ''zone_id'' ''zone_name'' ''str_plz_select_zone'' 200),
        (''sdk_input'', local_combo ''str_sdk'' ''store_sdk'' ''sdk'' ''sdk_name'' ''str_plz_select_sdk'' 200),
        (''platform_input'', local_combo ''str_platform'' ''store_platform'' ''platform'' ''platform_name'' ''str_plz_select_platform'' 200),
        (''date_start'', date_field ''query_date_start'' ''str_date_start''),
        (''date_end'', date_field ''query_date_end'' ''str_date_end''),
        (''btn_query'', query_button),
        (''btn_export'', export_button)],
      pg_grids =
       [(''data_grid'', \<lparr>gr_title = [], gr_store = ''store_grid'',
         gr_columns = bosspracticereport_columns\<rparr>)]\<rparr>"

definition bosspracticereport_launch :: "ajax_opts \<times> page callback" where
  "bosspracticereport_launch = (get_choices ''/statsorign/get_sdk_plats'', sdk_plats_loaded)"

definition bosspracticereport_onBtnQuery :: "page \<Rightarrow> page" where
  "bosspracticereport_onBtnQuery p =
     (let zone_id = getValue p ''zone_input'';
          sdk = getValue p ''sdk_input'';
          platform = getValue p ''platform_input'';
          start_date = getValue p ''date_start'';
          end_date = getValue p ''date_end''
      in run_query
          [(nullish zone_id, ''str_plz_select_zone''),
           (falsy sdk, ''str_plz_select_sdk''),
           (falsy platform, ''str_plz_select_platform''),
           (falsy start_date, ''str_plz_select_date_start''),
           (falsy end_date, ''str_plz_select_date_end'')]
          (getRawValue p ''zone_input'' @ ''_'' @ getRawValue p ''sdk_input'' @ ''_'' @ getRawValue p ''platform_input'' @ ''_'' @ getRawValue p ''date_start'' @ ''_'' @ getRawValue p ''date_end'' @ uni [0x7AE0, 0x8282, 0x4EFB, 0x52A1, 0x901A, 0x8FC7, 0x4EBA, 0x6570])
          (post ''/statshelper/get_boss_practice_report'' [(''zone_id'', zone_id), (''sdk'', sdk),
            (''platform'', platform), (''start_date'', start_date), (''end_date'', end_date)]) p)"

definition bosspracticereport_row :: "(string \<times> string) list" where
  "bosspracticereport_row =
     [(''date'', ''date''), (''count1_boss'', ''count1_boss''), (''count1p_boss'', ''count1p_boss''),
       (''count2_boss'', ''count2_boss''), (''count2p_boss'', ''count2p_boss''), (''count3_boss'',
         ''count3_boss''), (''count3p_boss'', ''count3p_boss''), (''count4_boss'', ''count4_boss''),
           (''count4p_boss'', ''count4p_boss''), (''count5_boss'', ''count5_boss''), (''count5p_boss'',
             ''count5p_boss''), (''count6_boss'', ''count6_boss''), (''count6p_boss'', ''count6p_boss''),
               (''count7_boss'', ''count7_boss''), (''count7p_boss'', ''count7p_boss''), (''count8_boss'',
                 ''count8_boss''), (''count8p_boss'', ''count8p_boss''), (''count_more_boss'',
                   ''count_more_boss''), (''countp_more_boss'', ''countp_more_boss''), (''count1_practice'',
                     ''count1_practice''), (''count1p_practice'', ''count1p_practice''),
                       (''count2_practice'', ''count2_practice''), (''count2p_practice'',
                         ''count2p_practice''), (''count3_practice'', ''count3_practice''),
                           (''count3p_practice'', ''count3p_practice''), (''count4_practice'',
                             ''count4_practice''), (''count4p_practice'', ''count4p_practice''),
                               (''count5_practice'', ''count5_practice''), (''count5p_practice'',
                                 ''count5p_practice''), (''count6_practice'', ''count6_practice''),
                                   (''count6p_practice'', ''count6p_practice''), (''count7_practice'',
                                     ''count7_practice''), (''count7p_practice'', ''count7p_practice''),
                                       (''count8_practice'', ''count8_practice''), (''count8p_practice'',
                                         ''count8p_practice''), (''count_more_practice'',
                                           ''count_more_practice''), (''count_morep_practice'',
                                             ''count_morep_practice'')]"

definition bosspracticereport_updateGrid :: "page callback" where
  "bosspracticereport_updateGrid res p =
     fill_both False bosspracticereport_row (js_prop res ''res'') p"

definition bosspracticereport_onBtnExport :: "page \<Rightarrow> page" where
  "bosspracticereport_onBtnExport p = start_export (KExport (g_search_name p)) ''save_store'' bosspracticereport_columns p"

definition bosspracticereport_view :: layout where
  "bosspracticereport_view = \<lparr>toolbar = [''zone_input'', ''sdk_input'', ''platform_input'',
    ''date_start'', ''date_end'', ''btn_query'', ''btn_export''], center = [''data_grid'']\<rparr>"

definition bosspracticereport :: report where
  "bosspracticereport =
     \<lparr>rp_cfg = bosspracticereport_cfg, rp_launch = Some bosspracticereport_launch,
      rp_query = bosspracticereport_onBtnQuery, rp_done = bosspracticereport_updateGrid,
      rp_export = bosspracticereport_onBtnExport, rp_then = id\<rparr>"

section \<open>guild_level_record.js\<close>

definition guild_level_record_columns :: "column list" where
  "guild_level_record_columns = [
     col (uni [0x65E5, 0x671F]) ''record_date'',
     col (uni [0x9009, 0x533A]) ''zone'',
     col (''1'' @ uni [0x7EA7, 0x5DE5, 0x4F1A]) ''level_1'',
     col (''1'' @ uni [0x7EA7, 0x5DE5, 0x4F1A, 0x4EBA, 0x6570]) ''level_1_person'',
     col (''2'' @ uni [0x7EA7, 0x5DE5, 0x4F1A]) ''level_2'',
     col (''2'' @ uni [0x7EA7, 0x5DE5, 0x4F1A, 0x4EBA, 0x6570]) ''level_2_person'',
     col (''3'' @ uni [0x7EA7, 0x5DE5, 0x4F1A]) ''level_3'',
     col (''3'' @ uni [0x7EA7, 0x5DE5, 0x4F1A, 0x4EBA, 0x6570]) ''level_3_person'',
     col (''4'' @ uni [0x7EA7, 0x5DE5, 0x4F1A]) ''level_4'',
     col (''4'' @ uni [0x7EA7, 0x5DE5, 0x4F1A, 0x4EBA, 0x6570]) ''level_4_person'',
     col (''5'' @ uni [0x7EA7, 0x5DE5, 0x4F1A]) ''level_5'',
     col (''5'' @ uni [0x7EA7, 0x5DE5, 0x4F1A, 0x4EBA, 0x6570]) ''level_5_person'',
     col (''6'' @ uni [0x7EA7, 0x5DE5, 0x4F1A]) ''level_6'',
     col (''6'' @ uni [0x7EA7, 0x5DE5, 0x4F1A, 0x4EBA, 0x6570]) ''level_6_person'',
     col (''7'' @ uni [0x7EA7, 0x5DE5, 0x4F1A]) ''level_7'',
     col (''7'' @ uni [0x7EA7, 0x5DE5, 0x4F1A, 0x4EBA, 0x6570]) ''level_7_person'',
     col (''8'' @ uni [0x7EA7, 0x5DE5, 0x4F1A]) ''level_8'',
     col (''8'' @ uni [0x7EA7, 0x5DE5, 0x4F1A, 0x4EBA, 0x6570]) ''level_8_person'',
     col (''9'' @ uni [0x7EA7, 0x5DE5, 0x4F1A]) ''level_9'',
     col (''9'' @ uni [0x7EA7, 0x5DE5, 0x4F1A, 0x4EBA, 0x6570]) ''level_9_person'',
     col (''10'' @ uni [0x7EA7, 0x5DE5, 0x4F1A]) ''level_10'',
     col (''10'' @ uni [0x7EA7, 0x5DE5, 0x4F1A]) ''level_10_person'',
     col (''11-15'' @ uni [0x7EA7, 0x5DE5, 0x4F1A]) ''level_11_15'',
     col (''11-15'' @ uni [0x7EA7, 0x5DE5, 0x4F1A, 0x4EBA, 0x6570]) ''level_11_15_person'',
     col (''16-20'' @ uni [0x7EA7, 0x5DE5, 0x4F1A]) ''level_16_20'',
     col (''16-20'' @ uni [0x7EA7, 0x5DE5, 0x4F1A, 0x4EBA, 0x6570]) ''level_16_20_person'',
     col (''21-25'' @ uni [0x7EA7, 0x5DE5, 0x4F1A]) ''level_21_25'',
     col (''21-25'' @ uni [0x7EA7, 0x5DE5, 0x4F1A, 0x4EBA, 0x6570]) ''level_21_25_person'',
     col (''26-30'' @ uni [0x7EA7, 0x5DE5, 0x4F1A]) ''level_26_30'',
     col (''26-30'' @ uni [0x7EA7, 0x5DE5, 0x4F1A, 0x4EBA, 0x6570]) ''level_26_30_person'',
     col (''30'' @ uni [0x7EA7, 0x4EE5, 0x4E0A, 0x5DE5, 0x4F1A]) ''level_over_30'',
     col (''30'' @ uni [0x7EA7, 0x4EE5, 0x4E0A, 0x5DE5, 0x4F1A, 0x4EBA, 0x6570]) ''level_over_30_person'']"

definition guild_level_record_cfg :: page_cfg where
  "guild_level_record_cfg =
     \<lparr>app_name = ''guild_level_record'',
      pg_stores =
       [(''save_store'', [''record_date'', ''zone'', ''level_1'', ''level_1_person'', ''level_2'',
         ''level_2_person'', ''level_3'', ''level_3_person'', ''level_4'', ''level_4_person'', ''level_5'',
           ''level_5_person'', ''level_6'', ''level_6_person'', ''level_7'', ''level_7_person'', ''level_8'',
             ''level_8_person'', ''level_9'', ''level_9_person'', ''level_10'', ''level_10_person'',
               ''level_11_15'', ''level_11_15_person'', ''level_16_20'', ''level_16_20_person'',
                 ''level_21_25'', ''level_21_25_person'', ''level_26_30'', ''level_26_30_person'',
                   ''level_over_30'', ''level_over_30_person''], []),
        (''store_grid'', [''record_date'', ''zone'', ''level_1'', ''level_1_person'', ''level_2'',
          ''level_2_person'', ''level_3'', ''level_3_person'', ''level_4'', ''level_4_person'', ''level_5'',
            ''level_5_person'', ''level_6'', ''level_6_person'', ''level_7'', ''level_7_person'',
              ''level_8'', ''level_8_person'', ''level_9'', ''level_9_person'', ''level_10'',
                ''level_10_person'', ''level_11_15'', ''level_11_15_person'', ''level_16_20'',
                  ''level_16_20_person'', ''level_21_25'', ''level_21_25_person'', ''level_26_30'',
                    ''level_26_30_person'', ''level_over_30'', ''level_over_30_person''], []),
        (''store_zone'', [''zone_name'', ''zone_id''], [])],
      pg_widgets =
       [(''zone_input'', local_combo ''str_zone'' ''store_zone'' ''zone_id'' ''zone_name'' ''str_plz_select_zone'' 235),
        (''date_start'', date_field ''query_date_start'' ''str_date_start''),
        (''date_end'', date_field ''query_date_end'' ''str_date_end''),
        (''btn_query'', query_button),
        (''btn_export'', export_button)],
      pg_grids =
       [(''data_grid'', \<lparr>gr_title = [], gr_store = ''store_grid'',
         gr_columns = guild_level_record_columns\<rparr>)]\<rparr>"

definition guild_level_record_launch :: "ajax_opts \<times> page callback" where
  "guild_level_record_launch = (get_choices ''/statshelper/get_zones'', zones_loaded)"

definition guild_level_record_onBtnQuery :: "page \<Rightarrow> page" where
  "guild_level_record_onBtnQuery p =
     (let zone_id = getValue p ''zone_input'';
          start_date = getValue p ''date_start'';
          end_date = getValue p ''date_end''
      in run_query
          [(falsy zone_id, ''str_plz_select_zone''),
           (falsy start_date, ''str_plz_select_date_start''),
           (falsy end_date, ''str_plz_select_date_end'')]
          (getRawValue p ''zone_input'' @ ''_'' @ getRawValue p ''date_start'' @ ''_'' @ getRawValue p ''date_end'' @ uni [0x5DE5, 0x4F1A, 0x4EBA, 0x6570, 0x7B49, 0x7EA7, 0x5206, 0x5E03])
          (post ''/statshelper/get_guild_level_record'' [(''start_date'', start_date), (''end_date'',
            end_date), (''zone_id'', zone_id)]) p)"

definition guild_level_record_row :: "(string \<times> string) list" where
  "guild_level_record_row =
     [(''record_date'', ''record_date''), (''zone'', ''zone''), (''level_1'', ''level_1''),
       (''level_1_person'', ''level_1_person''), (''level_2'', ''level_2''), (''level_2_person'',
         ''level_2_person''), (''level_3'', ''level_3''), (''level_3_person'', ''level_3_person''),
           (''level_4'', ''level_4''), (''level_4_person'', ''level_4_person''), (''level_5'', ''level_5''),
             (''level_5_person'', ''level_5_person''), (''level_6'', ''level_6''), (''level_6_person'',
               ''level_6_person''), (''level_7'', ''level_7''), (''level_7_person'', ''level_7_person''),
                 (''level_8'', ''level_8''), (''level_8_person'', ''level_8_person''), (''level_9'',
                   ''level_9''), (''level_9_person'', ''level_9_person''), (''level_10'', ''level_10''),
                     (''level_10_person'', ''level_10_person''), (''level_11_15'', ''level_11_15''),
                       (''level_11_15_person'', ''level_11_15_person''), (''level_16_20'', ''level_16_20''),
                         (''level_16_20_person'', ''level_16_20_person''), (''level_21_25'',
                           ''level_21_25''), (''level_21_25_person'', ''level_21_25_person''),
                             (''level_26_30'', ''level_26_30''), (''level_26_30_person'',
                               ''level_26_30_person''), (''level_over_30'', ''level_over_30''),
                                 (''level_over_30_person'', ''level_over_30_person'')]"

definition guild_level_record_updateGrid :: "page callback" where
  "guild_level_record_updateGrid res p =
     fill_both False guild_level_record_row (js_prop res ''res'') p"

definition guild_level_record_onBtnExport :: "page \<Rightarrow> page" where
  "guild_level_record_onBtnExport p = start_export (KExport (g_search_name p)) ''save_store'' guild_level_record_columns p"

definition guild_level_record_view :: layout where
  "guild_level_record_view = \<lparr>toolbar = [''zone_input'', ''date_start'', ''date_end'', ''btn_query'',
    ''btn_export''], center = [''data_grid'']\<rparr>"

definition guild_level_record :: report where
  "guild_level_record =
     \<lparr>rp_cfg = guild_level_record_cfg, rp_launch = Some guild_level_record_launch,
      rp_query = guild_level_record_onBtnQuery, rp_done = guild_level_record_updateGrid,
      rp_export = guild_level_record_onBtnExport, rp_then = id\<rparr>"

section \<open>campaign_report.js\<close>

definition campaign_report_columns :: "column list" where
  "campaign_report_columns = [
     col (uni [0x65E5, 0x671F]) ''date'',
     col (uni [0x533A]) ''zone_id'',
     col (uni [0x526F, 0x672C]) ''cid'',
     col (uni [0x6B21, 0x6570]) ''num'',
     col (uni [0x4EBA, 0x6570]) ''players'']"

definition campaign_report_cfg :: page_cfg where
  "campaign_report_cfg =
     \<lparr>app_name = ''campaignreport'',
      pg_stores =
       [(''save_store'', [''date'', ''zone_id'', ''cid'', ''num'', ''players''], []),
        (''store_grid'', [''date'', ''zone_id'', ''cid'', ''num'', ''players''], []),
        (''store_zone'', [''zone_name'', ''zone_id''], []),
        (''store_cat'', [''cat_name'', ''cat''], [[(''cat_name'', JStr (uni [0x53C2, 0x4E0E])), (''cat'',
          JStr ''start'')], [(''cat_name'', JStr (uni [0x5B8C, 0x6210])), (''cat'', JStr ''finish'')]])],
      pg_widgets =
       [(''zone_input'', local_combo ''str_zone'' ''store_zone'' ''zone_id'' ''zone_name'' ''str_plz_select_zone'' 235),
        (''cat_input'', local_combo ''str_cat'' ''store_cat'' ''cat'' ''cat_name'' ''str_plz_select_cat'' 235),
        (''date_input'', date_field ''query_date'' ''str_date''),
        (''cid_input'', TextField \<lparr>tf_name = ''query_cid'', tf_label = loc ''str_campaign_id'',
          tf_allowBlank = True, tf_editable = True\<rparr>),
        (''btn_query'', query_button),
        (''btn_export'', export_button)],
      pg_grids =
       [(''data_grid'', \<lparr>gr_title = [], gr_store = ''store_grid'',
         gr_columns = campaign_report_columns\<rparr>)]\<rparr>"

definition campaign_report_launch :: "ajax_opts \<times> page callback" where
  "campaign_report_launch = (get_choices ''/statshelper/get_zones'', zones_loaded)"

definition campaign_report_onBtnQuery :: "page \<Rightarrow> page" where
  "campaign_report_onBtnQuery p =
     (let zone_id = getValue p ''zone_input'';
          date = getValue p ''date_input'';
          cat = getValue p ''cat_input'';
          cid = getValue p ''cid_input''
      in run_query
          [(falsy zone_id, ''str_plz_select_zone''),
           (falsy date, ''str_plz_select_date''),
           (falsy cat, ''str_plz_select_cat'')]
          (getRawValue p ''zone_input'' @ ''_'' @ getRawValue p ''date_input'' @ ''_'' @ getRawValue p ''cid_input'' @ ''_'' @ getRawValue p ''cat_input'' @ uni [0x526F, 0x672C, 0x62A5, 0x8868])
          (post ''/statshelper/get_campaign_report'' [(''date'', date), (''zone_id'', zone_id), (''cat'',
            cat), (''cid'', cid)]) p)"

definition campaign_report_row :: "(string \<times> string) list" where
  "campaign_report_row =
     [(''date'', ''date''), (''zone_id'', ''zone_id''), (''cid'', ''cid''), (''num'', ''num''), (''players'',
       ''players'')]"

definition campaign_report_updateGrid :: "page callback" where
  "campaign_report_updateGrid res p =
     fill_both True campaign_report_row (js_prop res ''res'') p"

definition campaign_report_onBtnExport :: "page \<Rightarrow> page" where
  "campaign_report_onBtnExport p = start_export (KExport (g_search_name p)) ''save_store'' campaign_report_columns p"

definition campaign_report_view :: layout where
  "campaign_report_view = \<lparr>toolbar = [''zone_input'', ''date_input'', ''cat_input'', ''cid_input'',
    ''btn_query'', ''btn_export''], center = [''data_grid'']\<rparr>"

definition campaign_report :: report where
  "campaign_report =
     \<lparr>rp_cfg = campaign_report_cfg, rp_launch = Some campaign_report_launch,
      rp_query = campaign_report_onBtnQuery, rp_done = campaign_report_updateGrid,
      rp_export = campaign_report_onBtnExport, rp_then = id\<rparr>"

section \<open>chapterquestreport.js\<close>

definition chapterquestreport_columns :: "column list" where
  "chapterquestreport_columns = [
     col (uni [0x65E5, 0x671F]) ''date'',
     col (uni [0x4EFB, 0x52A1]) ''tid'',
     col (uni [0x63A5, 0x4EFB, 0x52A1, 0x4EBA, 0x6570]) ''create_count'',
     col (uni [0x5B8C, 0x6210, 0x4EFB, 0x52A1, 0x4EBA, 0x6570]) ''finish_count'']"

definition chapterquestreport_cfg :: page_cfg where
  "chapterquestreport_cfg =
     \<lparr>app_name = ''chapterquestreport'',
      pg_stores =
       [(''save_store'', [''date'', ''tid'', ''create_count'', ''finish_count''], []),
        (''store_grid'', [''date'', ''tid'', ''create_count'', ''finish_count''], []),
        (''store_zone'', [''zone_name'', ''zone_id''], []),
        (''store_sdk'', [''sdk_name'', ''sdk''], []),
        (''store_platform'', [''platform_name'', ''platform''], [])],
      pg_widgets =
       [(''zone_input'', local_combo ''str_zone'' ''store_zone'' ''zone_id'' ''zone_name'' ''str_plz_select_zone'' 200),
        (''sdk_input'', local_combo ''str_sdk'' ''store_sdk'' ''sdk'' ''sdk_name'' ''str_plz_select_sdk'' 200),
        (''platform_input'', local_combo ''str_platform'' ''store_platform'' ''platform'' ''platform_name'' ''str_plz_select_platform'' 200),
        (''date_start'', date_field ''query_date_start'' ''str_date_start''),
        (''date_end'', date_field ''query_date_end'' ''str_date_end''),
        (''btn_query'', query_button),
        (''btn_export'', export_button)],
      pg_grids =
       [(''data_grid'', \<lparr>gr_title = [], gr_store = ''store_grid'',
         gr_columns = chapterquestreport_columns\<rparr>)]\<rparr>"

definition chapterquestreport_launch :: "ajax_opts \<times> page callback" where
  "chapterquestreport_launch = (get_choices ''/statsorign/get_sdk_plats'', sdk_plats_loaded)"

definition chapterquestreport_onBtnQuery :: "page \<Rightarrow> page" where
  "chapterquestreport_onBtnQuery p =
     (let zone_id = getValue p ''zone_input'';
          sdk = getValue p ''sdk_input'';
          platform = getValue p ''platform_input'';
          start_date = getValue p ''date_start'';
          end_date = getValue p ''date_end''
      in run_query
          [(nullish zone_id, ''str_plz_select_zone''),
           (falsy sdk, ''str_plz_select_sdk''),
           (falsy platform, ''str_plz_select_platform''),
           (falsy start_date, ''str_plz_select_date_start''),
           (falsy end_date, ''str_plz_select_date_end'')]
          (getRawValue p ''zone_input'' @ ''_'' @ getRawValue p ''sdk_input'' @ ''_'' @ getRawValue p ''platform_input'' @ ''_'' @ getRawValue p ''date_start'' @ ''_'' @ getRawValue p ''date_end'' @ uni [0x7AE0, 0x8282, 0x4EFB, 0x52A1, 0x901A, 0x8FC7, 0x4EBA, 0x6570])
          (post ''/statshelper/get_chapter_request_report'' [(''start_date'', start_date), (''end_date'',
            end_date), (''zone_id'', zone_id), (''sdk'', sdk), (''platform'', platform)]) p)"

definition chapterquestreport_row :: "(string \<times> string) list" where
  "chapterquestreport_row =
     [(''date'', ''date''), (''tid'', ''tid''), (''create_count'', ''create_count''), (''finish_count'',
       ''finish_count'')]"

definition chapterquestreport_updateGrid :: "page callback" where
  "chapterquestreport_updateGrid res p =
     fill_both True chapterquestreport_row (js_prop res ''res'') p"

definition chapterquestreport_onBtnExport :: "page \<Rightarrow> page" where
  "chapterquestreport_onBtnExport p = start_export (KExport (g_search_name p)) ''save_store'' chapterquestreport_columns p"

definition chapterquestreport_view :: layout where
  "chapterquestreport_view = \<lparr>toolbar = [''zone_input'', ''sdk_input'', ''platform_input'',
    ''date_start'', ''date_end'', ''btn_query'', ''btn_export''], center = [''data_grid'']\<rparr>"

definition chapterquestreport :: report where
  "chapterquestreport =
     \<lparr>rp_cfg = chapterquestreport_cfg, rp_launch = Some chapterquestreport_launch,
      rp_query = chapterquestreport_onBtnQuery, rp_done = chapterquestreport_updateGrid,
      rp_export = chapterquestreport_onBtnExport, rp_then = id\<rparr>"

section \<open>The pages keep the contract\<close>

definition keeping_pages :: "(report \<times> layout \<times> (string \<times> string) list \<times> bool) list" where
  "keeping_pages =
     [(boothtradereport, boothtradereport_view, boothtradereport_row, False),
      (bosspracticereport, bosspracticereport_view, bosspracticereport_row, False),
      (guild_level_record, guild_level_record_view, guild_level_record_row, False),
      (campaign_report, campaign_report_view, campaign_report_row, True),
      (chapterquestreport, chapterquestreport_view, chapterquestreport_row, True)]"

lemma boothtradereport_guarded: "guarded_query boothtradereport_cfg boothtradereport_onBtnQuery"
  by (rule guarded_queryI)
    (unfold boothtradereport_onBtnQuery_def Let_def, rule refl, auto simp: nullish_falsy)

interpretation boothtradereport: keeping_report boothtradereport boothtradereport_row False
proof
  show "choices_apart (rp_cfg boothtradereport)" and "distinct (map fst (pg_widgets (rp_cfg boothtradereport)))"
    by (simp_all add: boothtradereport_def boothtradereport_cfg_def cfg_eval)
  show "guarded_query (rp_cfg boothtradereport) (rp_query boothtradereport)"
    using boothtradereport_guarded by (simp add: boothtradereport_def)
qed (auto simp: boothtradereport_def boothtradereport_launch_def boothtradereport_onBtnExport_def boothtradereport_updateGrid_def
      boothtradereport_cfg_def init_store_def new_store_def page_simps result_store_def)

lemma bosspracticereport_guarded: "guarded_query bosspracticereport_cfg bosspracticereport_onBtnQuery"
  by (rule guarded_queryI)
    (unfold bosspracticereport_onBtnQuery_def Let_def, rule refl, auto simp: nullish_falsy)

interpretation bosspracticereport: keeping_report bosspracticereport bosspracticereport_row False
proof
  show "choices_apart (rp_cfg bosspracticereport)" and "distinct (map fst (pg_widgets (rp_cfg bosspracticereport)))"
    by (simp_all add: bosspracticereport_def bosspracticereport_cfg_def cfg_eval)
  show "guarded_query (rp_cfg bosspracticereport) (rp_query bosspracticereport)"
    using bosspracticereport_guarded by (simp add: bosspracticereport_def)
qed (auto simp: bosspracticereport_def bosspracticereport_launch_def bosspracticereport_onBtnExport_def bosspracticereport_updateGrid_def
      bosspracticereport_cfg_def init_store_def new_store_def page_simps result_store_def)

lemma guild_level_record_guarded: "guarded_query guild_level_record_cfg guild_level_record_onBtnQuery"
  by (rule guarded_queryI)
    (unfold guild_level_record_onBtnQuery_def Let_def, rule refl, auto simp: nullish_falsy)

interpretation guild_level_record: keeping_report guild_level_record guild_level_record_row False
proof
  show "choices_apart (rp_cfg guild_level_record)" and "distinct (map fst (pg_widgets (rp_cfg guild_level_record)))"
    by (simp_all add: guild_level_record_def guild_level_record_cfg_def cfg_eval)
  show "guarded_query (rp_cfg guild_level_record) (rp_query guild_level_record)"
    using guild_level_record_guarded by (simp add: guild_level_record_def)
qed (auto simp: guild_level_record_def guild_level_record_launch_def guild_level_record_onBtnExport_def guild_level_record_updateGrid_def
      guild_level_record_cfg_def init_store_def new_store_def page_simps result_store_def)

lemma campaign_report_text: "inputs_ok campaign_report_cfg p \<Longrightarrow> \<not> nullish (getValue p ''cid_input'')"
  by (rule text_input_not_null [of campaign_report_cfg]) (simp_all add: campaign_report_cfg_def)

lemma campaign_report_guarded: "guarded_query campaign_report_cfg campaign_report_onBtnQuery"
  by (rule guarded_queryI)
    (unfold campaign_report_onBtnQuery_def Let_def, rule refl, auto simp: nullish_falsy campaign_report_text)

interpretation campaign_report: keeping_report campaign_report campaign_report_row True
proof
  show "choices_apart (rp_cfg campaign_report)" and "distinct (map fst (pg_widgets (rp_cfg campaign_report)))"
    by (simp_all add: campaign_report_def campaign_report_cfg_def cfg_eval)
  show "guarded_query (rp_cfg campaign_report) (rp_query campaign_report)"
    using campaign_report_guarded by (simp add: campaign_report_def)
qed (auto simp: campaign_report_def campaign_report_launch_def campaign_report_onBtnExport_def campaign_report_updateGrid_def
      campaign_report_cfg_def init_store_def new_store_def page_simps result_store_def)

lemma chapterquestreport_guarded: "guarded_query chapterquestreport_cfg chapterquestreport_onBtnQuery"
  by (rule guarded_queryI)
    (unfold chapterquestreport_onBtnQuery_def Let_def, rule refl, auto simp: nullish_falsy)

interpretation chapterquestreport: keeping_report chapterquestreport chapterquestreport_row True
proof
  show "choices_apart (rp_cfg chapterquestreport)" and "distinct (map fst (pg_widgets (rp_cfg chapterquestreport)))"
    by (simp_all add: chapterquestreport_def chapterquestreport_cfg_def cfg_eval)
  show "guarded_query (rp_cfg chapterquestreport) (rp_query chapterquestreport)"
    using chapterquestreport_guarded by (simp add: chapterquestreport_def)
qed (auto simp: chapterquestreport_def chapterquestreport_launch_def chapterquestreport_onBtnExport_def chapterquestreport_updateGrid_def
      chapterquestreport_cfg_def init_store_def new_store_def page_simps result_store_def)

lemma keeping_pages_contract: "(r, v, ks, clr) \<in> set keeping_pages \<Longrightarrow> keeping_report r ks clr"
  unfolding keeping_pages_def
  by (auto intro: boothtradereport.keeping_report_axioms
      bosspracticereport.keeping_report_axioms
      guild_level_record.keeping_report_axioms
      campaign_report.keeping_report_axioms
      chapterquestreport.keeping_report_axioms)

end
