(* ===== verification/Currency.thy ===== *)
theory Currency
  imports Page_Runs
begin

text \<open>
  The reports generated from a description (\<open>gencurrencyview.js\<close>): a description lists
  categories and value columns with their titles; \<open>genView\<close> makes one grid column for every
  pair and \<open>genViewNoSdkPlat\<close> does so without the choices of sdk and platform. The pages that
  call them (\<open>coinsconsumereport.js\<close> and the like) consist of their description.
\<close>

section \<open>Descriptions\<close>

record gen_args =
  reportname :: string
  categories :: "string list"
  catnames :: "string list"
  val_columns :: "string list"
  colnames :: "string list"
  type_col :: string
  src_table :: string

definition gen_field :: "string \<Rightarrow> string \<Rightarrow> string" where
  "gen_field cat c = cat @ ''_'' @ c"

definition gen_fields :: "gen_args \<Rightarrow> string list" where
  "gen_fields a = ''date'' # concat (map (\<lambda>cat. map (gen_field cat) (val_columns a)) (categories a))"

definition nth_text :: "string list \<Rightarrow> nat \<Rightarrow> jsval" where
  "nth_text xs i = (if i < length xs then JStr (xs ! i) else JUndef)"

definition gen_columns :: "gen_args \<Rightarrow> column list" where
  "gen_columns a =
     col (uni [0x65E5, 0x671F]) ''date'' #
     concat (map (\<lambda>(i, cat). map (\<lambda>(j, c).
         col (js_to_string (js_add (nth_text (catnames a) i) (nth_text (colnames a) j))) (gen_field cat c))
       (enumerate 0 (val_columns a))) (enumerate 0 (categories a)))"

text \<open>The assignments of one round of \<open>updateGrid\<close>: the date, again for every category, and the values.\<close>

definition gen_keys :: "gen_args \<Rightarrow> (string \<times> string) list" where
  "gen_keys a =
     concat (map (\<lambda>cat. (''date'', ''date'') # map (\<lambda>c. (gen_field cat c, gen_field cat c)) (val_columns a)) (categories a))"

section \<open>genView\<close>

definition genView_cfg :: "string \<Rightarrow> gen_args \<Rightarrow> page_cfg" where
  "genView_cfg app a =
     \<lparr>app_name = app,
      pg_stores =
       [(''store_grid'', gen_fields a, []),
        (''store_zone'', [''zone_name'', ''zone_id''], []),
        (''store_sdk'', [''sdk_name'', ''sdk''], []),
        (''store_platform'', [''platform_name'', ''platform''], [])],
      pg_widgets =
       [(''zone_input'', local_combo ''str_zone'' ''store_zone'' ''zone_id'' ''zone_name'' ''str_plz_select_zone'' 200),
        (''sdk_input'', local_combo ''str_sdk'' ''store_sdk'' ''sdk'' ''sdk_name'' ''str_plz_select_sdk'' 200),
        (''platform_input'',
          local_combo ''str_platform'' ''store_platform'' ''platform'' ''platform_name'' ''str_plz_select_platform'' 200),
        (''date_start'', date_field ''query_date_start'' ''str_date_start''),
        (''date_end'', date_field ''query_date_end'' ''str_date_end''),
        (''btn_query'', query_button),
        (''btn_export'', export_button)],
      pg_grids = [(''data_grid'', \<lparr>gr_title = [], gr_store = ''store_grid'', gr_columns = gen_columns a\<rparr>)]\<rparr>"

definition genView_launch :: "ajax_opts \<times> page callback" where
  "genView_launch = (get_choices ''/statsorign/get_sdk_plats'', sdk_plats_loaded)"

definition text_list :: "string list \<Rightarrow> jsval" where
  "text_list xs = JArr (map JStr xs)"

definition genView_onBtnQuery :: "gen_args \<Rightarrow> page \<Rightarrow> page" where
  "genView_onBtnQuery a p =
     (let zone_id = getValue p ''zone_input'';
          sdk = getValue p ''sdk_input'';
          platform = getValue p ''platform_input'';
          start_date = getValue p ''date_start'';
          end_date = getValue p ''date_end''
      in run_query
          [(nullish zone_id, ''str_plz_select_zone''),
           (falsy sdk, ''str_plz_select_sdk''),
           (falsy platform, ''str_plz_select_platform''),
           (falsy start_date, ''str_plz_select_date_start''),
           (falsy end_date, ''str_plz_select_date_end'')]
          (getRawValue p ''zone_input'' @ ''_'' @ getRawValue p ''sdk_input'' @ ''_'' @
            getRawValue p ''platform_input'' @ ''_'' @ getRawValue p ''date_start'' @ ''_'' @
            getRawValue p ''date_end'' @ reportname a)
          (post_encoded ''/statshelper/get_currency_records'' ''args''
            [(''zone_id'', zone_id), (''sdk'', sdk), (''platform'', platform),
             (''categories'', text_list (categories a)), (''type_col'', JStr (type_col a)),
             (''src_table'', JStr (src_table a)), (''columns'', text_list (val_columns a)),
             (''date_start'', start_date), (''date_end'', end_date)]) p)"

definition genView_updateGrid :: "gen_args \<Rightarrow> page callback" where
  "genView_updateGrid a res p = fill_grid ''store_grid'' (gen_keys a) (js_prop res ''res'') p"

definition genView_onBtnExport :: "gen_args \<Rightarrow> page \<Rightarrow> page" where
  "genView_onBtnExport a p = start_export (KExport (g_search_name p)) ''store_grid'' (gen_columns a) p"

definition genView_view :: layout where
  "genView_view =
     \<lparr>toolbar = [''zone_input'', ''sdk_input'', ''platform_input'', ''date_start'', ''date_end'', ''btn_query'',
        ''btn_export''], center = [''data_grid'']\<rparr>"

definition genView :: "string \<Rightarrow> gen_args \<Rightarrow> report" where
  "genView app a =
     \<lparr>rp_cfg = genView_cfg app a, rp_launch = Some genView_launch, rp_query = genView_onBtnQuery a,
      rp_done = genView_updateGrid a, rp_export = genView_onBtnExport a, rp_then = id\<rparr>"

section \<open>genViewNoSdkPlat\<close>

definition genViewNoSdkPlat_cfg :: "string \<Rightarrow> gen_args \<Rightarrow> page_cfg" where
  "genViewNoSdkPlat_cfg app a =
     \<lparr>app_name = app,
      pg_stores =
       [(''store_grid'', gen_fields a, []), (''store_zone'', [''zone_name'', ''zone_id''], [])],
      pg_widgets =
       [(''zone_input'', local_combo ''str_zone'' ''store_zone'' ''zone_id'' ''zone_name'' ''str_plz_select_zone'' 200),
        (''date_start'', date_field ''query_date_start'' ''str_date_start''),
        (''date_end'', date_field ''query_date_end'' ''str_date_end''),
        (''btn_query'', query_button),
        (''btn_export'', export_button)],
      pg_grids = [(''data_grid'', \<lparr>gr_title = [], gr_store = ''store_grid'', gr_columns = gen_columns a\<rparr>)]\<rparr>"

definition genViewNoSdkPlat_launch :: "ajax_opts \<times> page callback" where
  "genViewNoSdkPlat_launch = (get_choices ''/statsorign/get_sdk_plats'', zones_only_loaded)"

definition genViewNoSdkPlat_onBtnQuery :: "gen_args \<Rightarrow> page \<Rightarrow> page" where
  "genViewNoSdkPlat_onBtnQuery a p =
     (let zone_id = getValue p ''zone_input'';
          start_date = getValue p ''date_start'';
          end_date = getValue p ''date_end''
      in run_query
          [(nullish zone_id, ''str_plz_select_zone''),
           (falsy start_date, ''str_plz_select_date_start''),
           (falsy end_date, ''str_plz_select_date_end'')]
          (getRawValue p ''zone_input'' @ ''_'' @ getRawValue p ''date_start'' @ ''_'' @
            getRawValue p ''date_end'' @ reportname a)
          (post_encoded ''/statshelper/get_currency_records'' ''args''
            [(''zone_id'', zone_id), (''categories'', text_list (categories a)), (''type_col'', JStr (type_col a)),
             (''src_table'', JStr (src_table a)), (''columns'', text_list (val_columns a)),
             (''date_start'', start_date), (''date_end'', end_date)]) p)"

definition genViewNoSdkPlat_updateGrid :: "gen_args \<Rightarrow> page callback" where
  "genViewNoSdkPlat_updateGrid a res p = fill_grid ''store_grid'' (gen_keys a) (js_prop res ''res'') p"

definition genViewNoSdkPlat_onBtnExport :: "gen_args \<Rightarrow> page \<Rightarrow> page" where
  "genViewNoSdkPlat_onBtnExport a p = start_export (KExport (g_search_name p)) ''store_grid'' (gen_columns a) p"

definition genViewNoSdkPlat_view :: layout where
  "genViewNoSdkPlat_view =
     \<lparr>toolbar = [''zone_input'', ''date_start'', ''date_end'', ''btn_query'', ''btn_export''], center = [''data_grid'']\<rparr>"

definition genViewNoSdkPlat :: "string \<Rightarrow> gen_args \<Rightarrow> report" where
  "genViewNoSdkPlat app a =
     \<lparr>rp_cfg = genViewNoSdkPlat_cfg app a, rp_launch = Some genViewNoSdkPlat_launch,
      rp_query = genViewNoSdkPlat_onBtnQuery a, rp_done = genViewNoSdkPlat_updateGrid a,
      rp_export = genViewNoSdkPlat_onBtnExport a, rp_then = id\<rparr>"

section \<open>The descriptions of the pages\<close>

subsection \<open>creditsconsumereport.js\<close>

definition creditsconsumereport_args :: gen_args where
  "creditsconsumereport_args =
     \<lparr>reportname = uni [0x91D1, 0x7816, 0x5404, 0x7CFB, 0x7EDF, 0x6D88, 0x8017],
      categories = [''manual_reborn'', ''buy_goods'', ''taxi'', ''currency_exchange_coins'',
        ''currency_exchange_money'', ''resign'', ''buy_portrait'', ''extend_combat_time'', ''create_guild'',
          ''guild_change_name'', ''guild_banner'', ''guild_donate'', ''lottery_badges'', ''vip_first'',
            ''roll_treasure_credit'', ''roll_treasure_exchange''],
      catnames = [uni [0x590D, 0x6D3B], uni [0x5546, 0x57CE], uni [0x6253, 0x8F66], uni [0x5151, 0x6362,
        0x786C, 0x5E01], uni [0x5151, 0x6362, 0x7EB8, 0x5E01], uni [0x8865, 0x7B7E, 0x5230], uni [0x8D2D,
          0x4E70, 0x5934, 0x50CF], uni [0x526F, 0x672C, 0x5EF6, 0x65F6], uni [0x521B, 0x5EFA, 0x793E,
            0x56E2], uni [0x793E, 0x56E2, 0x6539, 0x540D], uni [0x793E, 0x56E2, 0x65D7, 0x5E1C], uni [0x793E,
              0x56E2, 0x5BA3, 0x4F20], uni [0x7EB9, 0x7AE0, 0x62BD, 0x53D6], (''vip'' @ uni [0x793C,
                0x5305]), uni [0x9EC4, 0x91D1, 0x593A, 0x5B9D], uni [0x66FF, 0x4EE3, 0x5E01, 0x593A, 0x5B9D]],
      val_columns = [''credits'', ''players''],
      colnames = [uni [0x6D88, 0x8D39], uni [0x4EBA, 0x6570]],
      type_col = ''reason'', src_table = ''alter_credits_sys''\<rparr>"

definition creditsconsumereport :: report where
  "creditsconsumereport = genView ''creditsconsumereport'' creditsconsumereport_args"

subsection \<open>creditsgainreport.js\<close>

definition creditsgainreport_args :: gen_args where
  "creditsgainreport_args =
     \<lparr>reportname = uni [0x91D1, 0x7816, 0x7CFB, 0x7EDF, 0x83B7, 0x53D6],
      categories = [''recharge'', ''item_drop'', ''sign'', ''newbeereward'', ''cdkey'', ''guild_envelop'',
        ''born_quest'', ''dialy_activity''],
      catnames = [uni [0x5145, 0x503C], uni [0x793C, 0x5305, 0x6389, 0x843D], uni [0x7B7E, 0x5230],
        uni [0x65B0, 0x624B, 0x5956, 0x52B1], ''cdkey'', uni [0x793E, 0x56E2, 0x7EA2, 0x5305], uni [0x5F00,
          0x670D, 0x72C2, 0x6B22], uni [0x6BCF, 0x65E5, 0x6D3B, 0x8DC3]],
      val_columns = [''credits'', ''players''],
      colnames = [uni [0x83B7, 0x5F97], uni [0x4EBA, 0x6570]],
      type_col = ''reason'', src_table = ''gain_credits_sys''\<rparr>"

definition creditsgainreport :: report where
  "creditsgainreport = genView ''creditsgainreport'' creditsgainreport_args"

subsection \<open>coinsconsumereport.js\<close>

definition coinsconsumereport_args :: gen_args where
  "coinsconsumereport_args =
     \<lparr>reportname = uni [0x786C, 0x5E01, 0x5404, 0x7CFB, 0x7EDF, 0x6D88, 0x8017],
      categories = [''buy_foods'', ''taxi'', ''take_subway'', ''buy_bus_ticket'', ''hospital_cure'',
        ''coach'', ''absorb_equip'', ''make_forge'', ''upgrade_new_talent'', ''buy_goods_eqp'',
          ''buy_goods_gem'', ''buy_goods_gift'', ''buy_goods_wine'', ''buy_goods_cooking'',
            ''use_enchant_medica'', ''upgrade_therion'', ''buy_goods_gem'', ''buy_goods_drawing'',
              ''unlock_bag_slot'', ''add_inventory'', ''buy_goods_quest'', ''upgrade_skill'', ''booth_sell'',
                ''ufc_signup''],
      catnames = [uni [0x5065, 0x5EB7, 0x996E, 0x98DF], uni [0x561F, 0x561F, 0x6253, 0x8F66], uni [0x5730,
        0x94C1], uni [0x957F, 0x9014], uni [0x533B, 0x9662, 0x7597, 0x4F24], uni [0x5F3A, 0x8EAB, 0x5065,
          0x4F53], uni [0x88C5, 0x5907, 0x5408, 0x9B42], uni [0x88C5, 0x5907, 0x6253, 0x9020], uni [0x5929,
            0x8D4B, 0x5347, 0x7EA7], uni [0x88C5, 0x5907, 0x5546, 0x5E97], uni [0x5B9D, 0x77F3, 0x5546,
              0x5E97], uni [0x793C, 0x7269, 0x5546, 0x5E97], uni [0x836F, 0x54C1, 0x5546, 0x5E97],
                uni [0x98DF, 0x7269, 0x5546, 0x5E97], uni [0x7075, 0x7B26, 0x7BC6, 0x523B], uni [0x56DB,
                  0x8C61, 0x89C9, 0x9192], uni [0x5B9D, 0x77F3, 0x5546, 0x5E97], uni [0x7075, 0x7B26, 0x5546,
                    0x5E97], uni [0x80CC, 0x5305, 0x7A7A, 0x95F4], uni [0x94F6, 0x884C, 0x7A7A, 0x95F4],
                      uni [0x8D2D, 0x4E70, 0x4EFB, 0x52A1, 0x9053, 0x5177], uni [0x6280, 0x80FD, 0x5347,
                        0x7EA7], uni [0x4EA4, 0x6613, 0x884C, 0x4E0A, 0x67B6], uni [0x65E0, 0x5DEE, 0x522B,
                          0x683C, 0x6597, 0x62A5, 0x540D]],
      val_columns = [''coins'', ''players''],
      colnames = [uni [0x6D88, 0x8D39], uni [0x4EBA, 0x6570]],
      type_col = ''reason'', src_table = ''alter_coins_sys''\<rparr>"

definition coinsconsumereport :: report where
  "coinsconsumereport = genView ''coinsconsumereport'' coinsconsumereport_args"

subsection \<open>coinsgainreport.js\<close>

definition coinsgainreport_args :: gen_args where
  "coinsgainreport_args =
     \<lparr>reportname = uni [0x786C, 0x5E01, 0x5404, 0x7CFB, 0x7EDF, 0x83B7, 0x53D6],
      categories = [''mq_drop'', ''bq_drop_chapterevent'', ''sell_slot'', ''drop_chance'', ''drop_review'',
        ''drop_boss'', ''drop_shadow'', ''drop_shadow_advance'', ''dialy_activity'', ''decompose_equip'',
          ''city_event'', ''apply_drive'', ''currency_exchange_money'', ''currency_exchange_credits'',
            ''sign'', ''newbeereward'', ''level_reward'', ''city_level_reward'', ''fightval_reward'',
              ''guild_envelop'', ''guild_dialy'', ''born_quest''],
      catnames = [uni [0x4E3B, 0x7EBF, 0x4EFB, 0x52A1], uni [0x7AE0, 0x8282, 0x4E8B, 0x4EF6], uni [0x5356,
        0x9053, 0x5177], uni [0x673A, 0x9047, 0x526F, 0x672C], uni [0x56DE, 0x987E, 0x526F, 0x672C],
          uni [0x5371, 0x9669, 0x4EBA, 0x7269], uni [0x57CE, 0x5E02, 0x6697, 0x5F71], uni [0x7CBE, 0x82F1,
            0x6697, 0x5F71], uni [0x6BCF, 0x65E5, 0x6D3B, 0x8DC3], uni [0x88C5, 0x5907, 0x5206, 0x89E3],
              uni [0x5E02, 0x4E95, 0x4E8B, 0x4EF6], uni [0x8BD5, 0x9A7E], uni [0x7EB8, 0x5E01, 0x5151,
                0x6362], uni [0x9EC4, 0x91D1, 0x5151, 0x6362], uni [0x7B7E, 0x5230], uni [0x65B0, 0x624B,
                  0x5956, 0x52B1], uni [0x5347, 0x7EA7, 0x5956, 0x52B1], uni [0x9605, 0x5386, 0x5956,
                    0x52B1], uni [0x6218, 0x529B, 0x5956, 0x52B1], uni [0x516C, 0x4F1A, 0x7EA2, 0x5305],
                      uni [0x516C, 0x4F1A, 0x7FFB, 0x724C], uni [0x5F00, 0x670D, 0x72C2, 0x6B22]],
      val_columns = [''coins'', ''players''],
      colnames = [uni [0x83B7, 0x53D6], uni [0x4EBA, 0x6570]],
      type_col = ''reason'', src_table = ''gain_coins_sys''\<rparr>"

definition coinsgainreport :: report where
  "coinsgainreport = genView ''coinsgainreport'' coinsgainreport_args"

subsection \<open>moneyconsumereport.js\<close>

definition moneyconsumereport_args :: gen_args where
  "moneyconsumereport_args =
     \<lparr>reportname = uni [0x7EB8, 0x5E01, 0x5404, 0x7CFB, 0x7EDF, 0x6D88, 0x8017],
      categories = [''currency_exchange_coins'', ''booth_buy'', ''buy_goods'', ''post_tweet''],
      catnames = [uni [0x5151, 0x6362, 0x786C, 0x5E01], uni [0x4EA4, 0x6613, 0x884C], uni [0x5546, 0x57CE,
        0x9650, 0x8D2D], uni [0x670B, 0x53CB, 0x5708, 0x8BBE, 0x7F6E, 0x793C, 0x7269]],
      val_columns = [''money'', ''players''],
      colnames = [uni [0x6D88, 0x8D39], uni [0x4EBA, 0x6570]],
      type_col = ''reason'', src_table = ''alter_money_sys''\<rparr>"

definition moneyconsumereport :: report where
  "moneyconsumereport = genView ''moneyconsumereport'' moneyconsumereport_args"

subsection \<open>moneygainreport.js\<close>

definition moneygainreport_args :: gen_args where
  "moneygainreport_args =
     \<lparr>reportname = uni [0x7EB8, 0x5E01, 0x5404, 0x7CFB, 0x7EDF, 0x83B7, 0x53D6],
      categories = [''sell_photo'', ''finish_job'', ''bq_drop_wanted'', ''currency_exchange_credits'',
        ''sign'', ''newbeereward'', ''guild_envelop'', ''bq_drop_chapterevent'', ''month_card'',
          ''born_quest'', ''cdkey'', ''item_drop''],
      catnames = [uni [0x90FD, 0x5E02, 0x6444, 0x5F71], uni [0x5E94, 0x8058, 0x6253, 0x5DE5], uni [0x901A,
        0x8BAF, 0x5F55, 0x59D4, 0x6258], uni [0x9EC4, 0x91D1, 0x5151, 0x6362], uni [0x7B7E, 0x5230],
          uni [0x65B0, 0x624B, 0x5956, 0x52B1], uni [0x793E, 0x56E2, 0x7EA2, 0x5305], uni [0x7AE0, 0x8282,
            0x4E8B, 0x4EF6], uni [0x6708, 0x5361], uni [0x5F00, 0x670D, 0x72C2, 0x6B22],
              (''cdkey'' @ uni [0x793C, 0x5305]), uni [0x793C, 0x5305, 0x6389, 0x843D]],
      val_columns = [''money'', ''players''],
      colnames = [uni [0x83B7, 0x53D6], uni [0x4EBA, 0x6570]],
      type_col = ''reason'', src_table = ''gain_money_sys''\<rparr>"

definition moneygainreport :: report where
  "moneygainreport = genView ''moneygainreport'' moneygainreport_args"

subsection \<open>voucherconsumereport.js\<close>

definition voucherconsumereport_args :: gen_args where
  "voucherconsumereport_args =
     \<lparr>reportname = uni [0x4EE3, 0x91D1, 0x5238, 0x5404, 0x7CFB, 0x7EDF, 0x6D88, 0x8017],
      categories = [''buy_goods'', ''roll_treasure_voucher'', ''roll_treasure_exchange''],
      catnames = [uni [0x5546, 0x57CE, 0x514D, 0x8D39], uni [0x4EE3, 0x5E01, 0x593A, 0x5B9D], uni [0x4EE3,
        0x5E01, 0x4E0D, 0x591F, 0x593A, 0x5B9D]],
      val_columns = [''voucher'', ''accounts'', ''players''],
      colnames = [uni [0x6D88, 0x8D39], (uni [0x4EBA, 0x6570] @ ''by'' @ uni [0x8D26]), (uni [0x4EBA,
        0x6570] @ ''by'' @ uni [0x89D2])],
      type_col = ''reason'', src_table = ''alter_voucher_sys''\<rparr>"

definition voucherconsumereport :: report where
  "voucherconsumereport = genView ''voucherconsumereport'' voucherconsumereport_args"

subsection \<open>vouchergainreport.js\<close>

definition vouchergainreport_args :: gen_args where
  "vouchergainreport_args =
     \<lparr>reportname = uni [0x4EE3, 0x91D1, 0x5238, 0x5404, 0x7CFB, 0x7EDF, 0x83B7, 0x53D6],
      categories = [''item_drop'', ''dialy_activity'', ''bq_drop_chapterevent'', ''press_trigger_bonus2'',
        ''delay_drop_comment'', ''delay_drop_like'', ''choose_npc_question'', ''city_event'', ''sign'',
          ''newbeereward'', ''guild_envelop'', ''guild_dialy'', ''born_quest'', ''npc_repo'', ''cdkey''],
      catnames = [uni [0x793C, 0x5305, 0x6389, 0x843D], uni [0x6BCF, 0x65E5, 0x6D3B, 0x8DC3], uni [0x7AE0,
        0x8282, 0x4E8B, 0x4EF6], uni [0x5206, 0x4EAB, 0x65B0, 0x95FB], uni [0x670B, 0x53CB, 0x5708, 0x56DE,
          0x590D], uni [0x670B, 0x53CB, 0x5708, 0x70B9, 0x8D5E], uni [0x901A, 0x8BAF, 0x5F55, 0x7B54,
            0x9898], uni [0x5E02, 0x4E95, 0x4E8B, 0x4EF6], uni [0x7B7E, 0x5230], uni [0x65B0, 0x624B, 0x5956,
              0x52B1], uni [0x516C, 0x4F1A, 0x7EA2, 0x5305], uni [0x516C, 0x4F1A, 0x7FFB, 0x724C],
                uni [0x5F00, 0x670D, 0x72C2, 0x6B22], uni [0x7EB8, 0x5E01, 0x6025, 0x8D2D],
                  (''cdkey'' @ uni [0x793C, 0x5305])],
      val_columns = [''voucher'', ''accounts'', ''players''],
      colnames = [uni [0x83B7, 0x53D6], (uni [0x4EBA, 0x6570] @ ''by'' @ uni [0x8D26]), (uni [0x4EBA,
        0x6570] @ ''by'' @ uni [0x89D2])],
      type_col = ''reason'', src_table = ''gain_voucher_sys''\<rparr>"

definition vouchergainreport :: report where
  "vouchergainreport = genView ''vouchergainreport'' vouchergainreport_args"

subsection \<open>startcampaignreport.js\<close>

definition startcampaignreport_args :: gen_args where
  "startcampaignreport_args =
     \<lparr>reportname = uni [0x5404, 0x7C7B, 0x578B, 0x6218, 0x6597, 0x7EDF, 0x8BA1],
      categories = [''boss'', ''practice'', ''independent'', ''quest'', ''review'', ''nightmare_review'',
        ''robber'', ''ufc'', ''wushu'', ''freestyle'', ''shadow'', ''shadow_advance'', ''guild_dungeon''],
      catnames = [uni [0x9996, 0x9886], uni [0x4FEE, 0x70BC], uni [0x673A, 0x9047], uni [0x4EFB, 0x52A1],
        uni [0x56DE, 0x987E], uni [0x5669, 0x68A6, 0x56DE, 0x987E], uni [0x5343, 0x9762], uni [0x65E0,
          0x5DEE, 0x522B, 0x683C, 0x6597], uni [0x56FD, 0x672F, 0x6BD4, 0x8D5B], uni [0x56FD, 0x672F, 0x5207,
            0x78CB], uni [0x6697, 0x5F71], uni [0x7CBE, 0x82F1, 0x6697, 0x5F71], ''GVE''],
      val_columns = [''count'', ''players'', ''accounts''],
      colnames = [uni [0x6B21, 0x6570], (uni [0x4EBA, 0x6570] @ ''by'' @ uni [0x8D26]), (uni [0x4EBA,
        0x6570] @ ''by'' @ uni [0x89D2])],
      type_col = ''kind'', src_table = ''start_campaign_sum''\<rparr>"

definition startcampaignreport :: report where
  "startcampaignreport = genView ''creditsconsumereport'' startcampaignreport_args"

subsection \<open>active_factions_report.js\<close>

definition active_factions_report_args :: gen_args where
  "active_factions_report_args =
     \<lparr>reportname = uni [0x804C, 0x4E1A, 0x4EBA, 0x6570, 0x5206, 0x5E03],
      categories = [''tao'', ''dem'', ''pol'', ''qigong'', ''rune'', ''shadow'', ''fire'', ''fighter'',
        ''sanda''],
      catnames = [uni [0x9053, 0x58EB], uni [0x72D0, 0x5996], uni [0x6740, 0x9A6C, 0x7279], uni [0x5FA1,
        0x5251], uni [0x7075, 0x7B26], uni [0x5229, 0x5203], uni [0x5E7B, 0x672F], uni [0x8857, 0x9738],
          uni [0x821E, 0x8005]],
      val_columns = [''count_by_account'', ''count_by_player''],
      colnames = [(uni [0x4EBA, 0x6570] @ ''by'' @ uni [0x8D26]), (uni [0x4EBA,
        0x6570] @ ''by'' @ uni [0x89D2])],
      type_col = ''faction'', src_table = ''active_factions''\<rparr>"

definition active_factions_report :: report where
  "active_factions_report = genViewNoSdkPlat ''activefactionreport'' active_factions_report_args"

section \<open>The pages keep the contract\<close>

definition currency_pages :: "(report \<times> layout \<times> (string \<times> string) list) list" where
  "currency_pages =
     [(creditsconsumereport, genView_view, gen_keys creditsconsumereport_args),
      (creditsgainreport, genView_view, gen_keys creditsgainreport_args),
      (coinsconsumereport, genView_view, gen_keys coinsconsumereport_args),
      (coinsgainreport, genView_view, gen_keys coinsgainreport_args),
      (moneyconsumereport, genView_view, gen_keys moneyconsumereport_args),
      (moneygainreport, genView_view, gen_keys moneygainreport_args),
      (voucherconsumereport, genView_view, gen_keys voucherconsumereport_args),
      (vouchergainreport, genView_view, gen_keys vouchergainreport_args),
      (startcampaignreport, genView_view, gen_keys startcampaignreport_args),
      (active_factions_report, genViewNoSdkPlat_view, gen_keys active_factions_report_args)]"

definition currency_args :: "gen_args list" where
  "currency_args = [creditsconsumereport_args, creditsgainreport_args, coinsconsumereport_args, coinsgainreport_args, moneyconsumereport_args, moneygainreport_args, voucherconsumereport_args, vouchergainreport_args, startcampaignreport_args, active_factions_report_args]"

lemma genView_guarded: "guarded_query (genView_cfg app a) (genView_onBtnQuery a)"
  by (rule guarded_query_encodedI)
    (unfold genView_onBtnQuery_def Let_def, rule refl, auto simp: nullish_falsy text_list_def)

lemma genViewNoSdkPlat_guarded: "guarded_query (genViewNoSdkPlat_cfg app a) (genViewNoSdkPlat_onBtnQuery a)"
  by (rule guarded_query_encodedI)
    (unfold genViewNoSdkPlat_onBtnQuery_def Let_def, rule refl, auto simp: nullish_falsy text_list_def)

interpretation gen_view: plain_report "genView app a" "gen_keys a" for app a
proof
  show "choices_apart (rp_cfg (genView app a))" and "distinct (map fst (pg_widgets (rp_cfg (genView app a))))"
    by (simp_all add: genView_def genView_cfg_def cfg_eval)
  show "guarded_query (rp_cfg (genView app a)) (rp_query (genView app a))"
    using genView_guarded by (simp add: genView_def)
qed (auto simp: genView_def genView_launch_def genView_onBtnExport_def genView_updateGrid_def genView_cfg_def
      init_store_def new_store_def page_simps result_store_def)

interpretation gen_view_zones: plain_report "genViewNoSdkPlat app a" "gen_keys a" for app a
proof
  show "choices_apart (rp_cfg (genViewNoSdkPlat app a))"
    and "distinct (map fst (pg_widgets (rp_cfg (genViewNoSdkPlat app a))))"
    by (simp_all add: genViewNoSdkPlat_def genViewNoSdkPlat_cfg_def cfg_eval)
  show "guarded_query (rp_cfg (genViewNoSdkPlat app a)) (rp_query (genViewNoSdkPlat app a))"
    using genViewNoSdkPlat_guarded by (simp add: genViewNoSdkPlat_def)
qed (auto simp: genViewNoSdkPlat_def genViewNoSdkPlat_launch_def genViewNoSdkPlat_onBtnExport_def
      genViewNoSdkPlat_updateGrid_def genViewNoSdkPlat_cfg_def init_store_def new_store_def page_simps result_store_def)

lemma currency_pages_contract: "(r, v, ks) \<in> set currency_pages \<Longrightarrow> plain_report r ks"
  unfolding currency_pages_def creditsconsumereport_def creditsgainreport_def coinsconsumereport_def coinsgainreport_def moneyconsumereport_def moneygainreport_def voucherconsumereport_def vouchergainreport_def startcampaignreport_def active_factions_report_def
  by (auto intro: gen_view.plain_report_axioms gen_view_zones.plain_report_axioms)

section \<open>Columns and fields fit\<close>

lemma gen_columns_index:
  "map c_dataIndex (gen_columns a) = gen_fields a"
proof -
  have "map (\<lambda>(j, c). gen_field cat c) (enumerate k cs) = map (gen_field cat) cs" for cat k cs
    by (induction cs arbitrary: k) simp_all
  then have inner: "map c_dataIndex (map (\<lambda>(j, c). col (f j) (gen_field cat c)) (enumerate 0 cs)) = map (gen_field cat) cs"
    for f cat cs by (simp add: o_def split_def)
  have "map c_dataIndex (concat (map (\<lambda>(i, cat). map (\<lambda>(j, c). col (g i j) (gen_field cat c)) (enumerate 0 cs)) (enumerate k cats))) =
      concat (map (\<lambda>cat. map (gen_field cat) cs) cats)" for g k cs cats
  proof (induction cats arbitrary: k)
    case (Cons cat cats)
    then show ?case using inner [of "g k" cat cs] by simp
  qed simp
  then show ?thesis by (simp add: gen_columns_def gen_fields_def)
qed

end
