(* ===== verification/Level_Reports.thy ===== *)
theory Level_Reports
  imports Page_Runs
begin

text \<open>
  Report pages that build the objects of their rows by code of their own: a name looked up in
  a table (\<open>add_equip_report.js\<close>, \<open>city_campaign_report.js\<close>), cells enumerated over the levels
  (\<open>level_campaign_report.js\<close>, \<open>loss_consume_report.js\<close>, \<open>loss_recharge_report.js\<close>), and
  answers that are objects instead of arrays (\<open>loss_report.js\<close>).
\<close>

section \<open>Levels, names and cells\<close>

text \<open>\<open>enumLevel\<close>: the loop and the levels it hands to its function.\<close>

function enum_from :: "nat \<Rightarrow> nat list" where
  "enum_from i = (if i < 100 then (let j = (if i < 20 then i + 10 else i + 5) in j # enum_from j) else [])"
  by pat_completeness auto
termination
  by (relation "measure (\<lambda>i. 100 - i)") (auto simp: Let_def split: if_splits)

declare enum_from.simps [simp del]

definition enumLevel :: "nat list" where
  "enumLevel = enum_from 0"

text \<open>\<open>map[v]\<close>, then \<open>v\<close> itself where the table has nothing.\<close>

definition named :: "(string \<times> string) list \<Rightarrow> jsval \<Rightarrow> jsval" where
  "named t v =
     (let k = (case map_of (rev t) (js_to_string v) of Some s \<Rightarrow> JStr s | None \<Rightarrow> JUndef)
      in if truthy k then k else v)"

text \<open>The cells of a row over the levels; a missing cell throws.\<close>

fun cells :: "(nat \<Rightarrow> jsval \<Rightarrow> jsobj) \<Rightarrow> (nat \<Rightarrow> jsval) \<Rightarrow> nat list \<Rightarrow> js_exn + jsobj" where
  "cells f get [] = Inr []"
| "cells f get (j # js) =
     (if nullish (get j) then Inl TypeError
      else (case cells f get js of Inl e \<Rightarrow> Inl e | Inr d \<Rightarrow> Inr (f j (get j) @ d)))"

definition level_key :: "string \<Rightarrow> nat \<Rightarrow> string" where
  "level_key s j = s @ string_of_nat j"

text \<open>The keys \<open>for (k in v)\<close> visits: array indices first, in ascending order.\<close>

definition index_key :: "string \<Rightarrow> int option" where
  "index_key s = (case parse_int_string s of
     Some i \<Rightarrow> if 0 \<le> i \<and> string_of_int i = s then Some i else None | None \<Rightarrow> None)"

definition js_keys :: "jsval \<Rightarrow> string list" where
  "js_keys v =
     (case v of
        JObj kvs \<Rightarrow>
          (let ks = remdups (map fst kvs)
           in sort_key (\<lambda>k. the (index_key k)) (filter (\<lambda>k. index_key k \<noteq> None) ks) @
              filter (\<lambda>k. index_key k = None) ks)
      | JArr xs \<Rightarrow> map string_of_nat [0 ..< length xs]
      | JStr s \<Rightarrow> map string_of_nat [0 ..< js_length s]
      | _ \<Rightarrow> [])"

definition js_member :: "jsval \<Rightarrow> string \<Rightarrow> jsval" where
  "js_member v k =
     (case (v, index_key k) of
        (JArr xs, Some i) \<Rightarrow> js_index v (nat i)
      | (JStr s, Some i) \<Rightarrow> js_index v (nat i)
      | _ \<Rightarrow> js_prop v k)"


section \<open>add_equip_report.js\<close>

definition add_equip_report_map_sys :: "(string \<times> string) list" where
  "add_equip_report_map_sys = [
     (''finish_quest_campaign'', uni [0x4E3B, 0x7EBF, 0x4EFB, 0x52A1, 0x526F, 0x672C]),
     (''enemy_drop_quest'', uni [0x4E3B, 0x7EBF, 0x4EFB, 0x52A1, 0x602A, 0x6389, 0x843D]),
     (''mq_drop'', uni [0x4E3B, 0x7EBF, 0x4EFB, 0x52A1]),
     (''finish_robber_campaign'', uni [0x5343, 0x9762, 0x94F6, 0x72D0, 0x526F, 0x672C]),
     (''enemy_drop_robber'', uni [0x5343, 0x9762, 0x94F6, 0x72D0, 0x602A, 0x6389, 0x843D]),
     (''finish_shadow_cam'', uni [0x6697, 0x5F71, 0x526F, 0x672C]),
     (''enemy_drop_shadow'', uni [0x6697, 0x5F71, 0x602A, 0x6389, 0x843D]),
     (''finish_shadow_advance_cam'', uni [0x7CBE, 0x82F1, 0x6697, 0x5F71, 0x526F, 0x672C]),
     (''enemy_drop_shadow_advance'', uni [0x7CBE, 0x82F1, 0x6697, 0x5F71, 0x602A, 0x6389, 0x843D]),
     (''finish_boss_cam'', uni [0x9996, 0x9886, 0x526F, 0x672C]),
     (''enemy_drop_leader'', uni [0x9996, 0x9886, 0x602A, 0x6389, 0x843D]),
     (''bq_drop_chapterevent'', uni [0x7AE0, 0x8282, 0x4E8B, 0x4EF6, 0x6389, 0x843D]),
     (''first_recharge'', uni [0x9996, 0x51B2, 0x5956, 0x52B1]),
     (''item_drop'', uni [0x793C, 0x5305, 0x6389, 0x843D])]"

definition add_equip_report_columns :: "column list" where
  "add_equip_report_columns = [
     col (uni [0x65E5, 0x671F]) ''date'',
     col (uni [0x533A]) ''zone_id'',
     col (uni [0x6765, 0x6E90]) ''reason'',
     col (uni [0x54C1, 0x7EA7]) ''grade'',
     col (uni [0x661F, 0x7EA7]) ''star'',
     col (uni [0x5957, 0x88C5, 0x6570, 0x91CF]) ''suits'',
     col (uni [0x7A00, 0x6709, 0x6570, 0x91CF]) ''scarces'',
     col (uni [0x8FC7, 0x6E21, 0x6570, 0x91CF]) ''normals'']"

definition add_equip_report_cfg :: page_cfg where
  "add_equip_report_cfg =
     \<lparr>app_name = ''levelcampaignreport'',
      pg_stores =
       [(''store_grid'', [''date'', ''zone_id'', ''reason'', ''grade'', ''star'', ''suits'', ''scarces'',
         ''normals''], []),
        (''store_zone'', [''zone_name'', ''zone_id''], []),
        (''store_grade'', [''gname'', ''grade''], [[(''gname'', JStr (uni [0x7EFF])), (''grade'', JNum 1)],
          [(''gname'', JStr (uni [0x84DD])), (''grade'', JNum 2)], [(''gname'', JStr (uni [0x7D2B])),
            (''grade'', JNum 3)], [(''gname'', JStr (uni [0x6A59])), (''grade'', JNum 4)]]),
        (''store_star'', [''sname'', ''star''], [[(''sname'', JStr ''1''), (''star'', JNum 1)], [(''sname'',
          JStr ''2''), (''star'', JNum 2)], [(''sname'', JStr ''3''), (''star'', JNum 3)], [(''sname'',
            JStr ''4''), (''star'', JNum 4)]])],
      pg_widgets =
       [(''date_input'', date_field ''query_date'' ''str_date''),
        (''zone_input'', local_combo ''str_zone'' ''store_zone'' ''zone_id'' ''zone_name'' ''str_plz_select_zone'' 235),
        (''grade_input'', local_combo ''str_grade'' ''store_grade'' ''grade'' ''gname'' ''str_plz_select_grade'' 235),
        (''star_input'', local_combo ''str_star'' ''store_star'' ''star'' ''sname'' ''str_plz_select_star'' 235),
        (''btn_query'', query_button),
        (''btn_export'', export_button)],
      pg_grids =
       [(''data_grid'', \<lparr>gr_title = [], gr_store = ''store_grid'',
         gr_columns = add_equip_report_columns\<rparr>)]\<rparr>"

definition add_equip_report_launch :: "ajax_opts \<times> page callback" where
  "add_equip_report_launch = (get_choices ''/statshelper/get_zones'', zones_loaded)"

definition add_equip_report_onBtnQuery :: "page \<Rightarrow> page" where
  "add_equip_report_onBtnQuery p =
     (let zone_id = getValue p ''zone_input'';
          date = getValue p ''date_input'';
          grade = getValue p ''grade_input'';
          star = getValue p ''star_input''
      in run_query
          [(falsy zone_id, ''str_plz_select_zone''),
           (falsy date, ''str_plz_select_date''),
           (falsy grade, ''str_plz_select_grade''),
           (falsy star, ''str_plz_select_star'')]
          (getRawValue p ''zone_input'' @ ''_'' @ getRawValue p ''date_input'' @ ''_'' @ getRawValue p ''grade_input'' @ ''_'' @ getRawValue p ''star_input'' @ uni [0x88C5, 0x5907, 0x6389, 0x843D, 0x6253, 0x9020, 0x7EDF, 0x8BA1])
          (post ''/statshelper/get_add_equip_report'' [(''zone_id'', zone_id), (''date'', date), (''grade'',
            grade), (''star'', star)]) p)"

definition add_equip_report_row :: "jsval \<Rightarrow> jsobj" where
  "add_equip_report_row rc =
     [(''date'', js_prop rc ''date''), (''zone_id'', js_prop rc ''zone_id''),
      (''reason'', named add_equip_report_map_sys (js_prop rc ''reason'')),
      (''grade'', js_prop rc ''grade''), (''star'', js_prop rc ''star''), (''suits'', js_prop rc ''suits''),
      (''scarces'', js_prop rc ''scarces''), (''normals'', js_prop rc ''normals'')]"

definition add_equip_report_mk :: "jsval \<Rightarrow> js_exn + jsobj" where
  "add_equip_report_mk rc = (if nullish rc then Inl TypeError else Inr (add_equip_report_row rc))"

definition add_equip_report_updateGrid :: "page callback" where
  "add_equip_report_updateGrid res p =
     fill_rows ''store_grid'' add_equip_report_mk res p"

definition add_equip_report_onBtnExport :: "page \<Rightarrow> page" where
  "add_equip_report_onBtnExport p = start_export (KExport (g_search_name p)) ''store_grid'' add_equip_report_columns p"

definition add_equip_report_view :: layout where
  "add_equip_report_view = \<lparr>toolbar = [''zone_input'', ''date_input'', ''grade_input'',
    ''star_input'', ''btn_query'', ''btn_export''], center = [''data_grid'']\<rparr>"

definition add_equip_report :: "report" where
  "add_equip_report =
     \<lparr>rp_cfg = add_equip_report_cfg, rp_launch = Some add_equip_report_launch,
      rp_query = add_equip_report_onBtnQuery,
        rp_done = \<lambda>res. add_equip_report_updateGrid (js_prop res ''res''),
      rp_export = add_equip_report_onBtnExport, rp_then = id\<rparr>"

section \<open>city_campaign_report.js\<close>

definition city_campaign_report_map_kind :: "(string \<times> string) list" where
  "city_campaign_report_map_kind = [
     (''boss'', uni [0x9996, 0x9886]),
     (''practice'', uni [0x4FEE, 0x70BC]),
     (''independent'', uni [0x673A, 0x9047]),
     (''quest'', uni [0x4EFB, 0x52A1]),
     (''review'', uni [0x56DE, 0x987E]),
     (''nightmare_review'', uni [0x5669, 0x68A6, 0x56DE, 0x987E]),
     (''robber'', uni [0x5343, 0x9762]),
     (''ufc'', uni [0x65E0, 0x5DEE, 0x522B, 0x683C, 0x6597]),
     (''wushu'', uni [0x56FD, 0x672F, 0x6BD4, 0x8D5B]),
     (''freestyle'', uni [0x672F, 0x5207, 0x78CB]),
     (''shadow'', uni [0x6697, 0x5F71]),
     (''shadow_advance'', uni [0x7CBE, 0x82F1, 0x6697, 0x5F71]),
     (''guild_dungeon'', ''GVE'')]"

definition city_campaign_report_columns :: "column list" where
  "city_campaign_report_columns = [
     col (uni [0x7C7B, 0x578B]) ''kind'',
     col (uni [0x6B21, 0x6570]) ''num'',
     col (uni [0x57CE, 0x533A]) ''city'',
     col (uni [0x4EBA, 0x6570]) ''players'']"

definition city_campaign_report_cfg :: page_cfg where
  "city_campaign_report_cfg =
     \<lparr>app_name = ''citycampaignreport'',
      pg_stores =
       [(''store_grid'', [''kind'', ''city'', ''num'', ''players''], []),
        (''store_zone'', [''zone_name'', ''zone_id''], []),
        (''store_sdk'', [''sdk_name'', ''sdk''], []),
        (''store_platform'', [''platform_name'', ''platform''], [])],
      pg_widgets =
       [(''date_input'', date_field ''query_date'' ''str_date''),
        (''zone_input'', local_combo ''str_zone'' ''store_zone'' ''zone_id'' ''zone_name'' ''str_plz_select_zone'' 200),
        (''sdk_input'', local_combo ''str_sdk'' ''store_sdk'' ''sdk'' ''sdk_name'' ''str_plz_select_sdk'' 200),
        (''platform_input'', local_combo ''str_platform'' ''store_platform'' ''platform'' ''platform_name'' ''str_plz_select_platform'' 200),
        (''btn_query'', query_button),
        (''btn_export'', export_button)],
      pg_grids =
       [(''data_grid'', \<lparr>gr_title = [], gr_store = ''store_grid'',
         gr_columns = city_campaign_report_columns\<rparr>)]\<rparr>"

definition city_campaign_report_launch :: "ajax_opts \<times> page callback" where
  "city_campaign_report_launch = (get_choices ''/statsorign/get_sdk_plats'', sdk_plats_loaded)"

definition city_campaign_report_onBtnQuery :: "page \<Rightarrow> page" where
  "city_campaign_report_onBtnQuery p =
     (let zone_id = getValue p ''zone_input'';
          sdk = getValue p ''sdk_input'';
          platform = getValue p ''platform_input'';
          date = getValue p ''date_input''
      in run_query
          [(nullish zone_id, ''str_plz_select_zone''),
           (falsy sdk, ''str_plz_select_sdk''),
           (falsy platform, ''str_plz_select_platform''),
           (falsy date, ''str_plz_select_date'')]
          (getRawValue p ''zone_input'' @ ''_'' @ getRawValue p ''sdk_input'' @ ''_'' @ getRawValue p ''platform_input'' @ ''_'' @ getRawValue p ''date_input'' @ uni [0x6218, 0x6597, 0x53C2, 0x4E0E, 0x6309, 0x57CE, 0x533A, 0x7EDF, 0x8BA1])
          (post ''/statshelper/get_city_campaign_report'' [(''zone_id'', zone_id), (''sdk'', sdk),
            (''platform'', platform), (''date'', date)]) p)"

definition city_campaign_report_row :: "jsval \<Rightarrow> jsobj" where
  "city_campaign_report_row rc =
     [(''kind'', named city_campaign_report_map_kind (js_prop rc ''kind'')), (''num'', js_prop rc ''num''),
      (''city'', js_prop rc ''city''), (''players'', js_prop rc ''players'')]"

definition city_campaign_report_mk :: "jsval \<Rightarrow> js_exn + jsobj" where
  "city_campaign_report_mk rc = (if nullish rc then Inl TypeError else Inr (city_campaign_report_row rc))"

definition city_campaign_report_updateGrid :: "page callback" where
  "city_campaign_report_updateGrid res p =
     fill_rows ''store_grid'' city_campaign_report_mk res p"

definition city_campaign_report_onBtnExport :: "page \<Rightarrow> page" where
  "city_campaign_report_onBtnExport p = start_export (KExport (g_search_name p)) ''store_grid'' city_campaign_report_columns p"

definition city_campaign_report_view :: layout where
  "city_campaign_report_view = \<lparr>toolbar = [''zone_input'', ''sdk_input'', ''platform_input'',
    ''date_input'', ''btn_query'', ''btn_export''], center = [''data_grid'']\<rparr>"

definition city_campaign_report :: "report" where
  "city_campaign_report =
     \<lparr>rp_cfg = city_campaign_report_cfg, rp_launch = Some city_campaign_report_launch,
      rp_query = city_campaign_report_onBtnQuery,
        rp_done = \<lambda>res. city_campaign_report_updateGrid (js_prop res ''res''),
      rp_export = city_campaign_report_onBtnExport, rp_then = id\<rparr>"

section \<open>level_campaign_report.js\<close>

definition level_campaign_report_map_kind :: "(string \<times> string) list" where
  "level_campaign_report_map_kind = [
     (''boss'', uni [0x9996, 0x9886]),
     (''practice'', uni [0x4FEE, 0x70BC]),
     (''independent'', uni [0x673A, 0x9047]),
     (''quest'', uni [0x4EFB, 0x52A1]),
     (''review'', uni [0x56DE, 0x987E]),
     (''nightmare_review'', uni [0x5669, 0x68A6, 0x56DE, 0x987E]),
     (''robber'', uni [0x5343, 0x9762]),
     (''ufc'', uni [0x65E0, 0x5DEE, 0x522B, 0x683C, 0x6597]),
     (''wushu'', uni [0x56FD, 0x672F, 0x6BD4, 0x8D5B]),
     (''freestyle'', uni [0x672F, 0x5207, 0x78CB]),
     (''shadow'', uni [0x6697, 0x5F71]),
     (''shadow_advance'', uni [0x7CBE, 0x82F1, 0x6697, 0x5F71]),
     (''guild_dungeon'', ''GVE'')]"

definition level_campaign_report_fields :: "string list" where
  "level_campaign_report_fields =
     ''kind'' # concat (map (\<lambda>i. [level_key ''num_lv'' i, level_key ''players_lv'' i]) enumLevel)"

definition level_campaign_report_columns :: "column list" where
  "level_campaign_report_columns = (
     col (uni [0x7C7B, 0x578B]) ''kind'' #
     concat (map (\<lambda>i. [col (uni [0x6B21, 0x6570] @ ''_'' @ string_of_nat i) (level_key ''num_lv'' i),
       col (uni [0x4EBA, 0x6570] @ ''_'' @ string_of_nat i) (level_key ''players_lv'' i)]) enumLevel))"

definition level_campaign_report_cfg :: page_cfg where
  "level_campaign_report_cfg =
     \<lparr>app_name = ''levelcampaignreport'',
      pg_stores =
       [(''store_grid'', level_campaign_report_fields, []),
        (''store_zone'', [''zone_name'', ''zone_id''], []),
        (''store_sdk'', [''sdk_name'', ''sdk''], []),
        (''store_platform'', [''platform_name'', ''platform''], [])],
      pg_widgets =
       [(''date_input'', date_field ''query_date'' ''str_date''),
        (''zone_input'', local_combo ''str_zone'' ''store_zone'' ''zone_id'' ''zone_name'' ''str_plz_select_zone'' 200),
        (''sdk_input'', local_combo ''str_sdk'' ''store_sdk'' ''sdk'' ''sdk_name'' ''str_plz_select_sdk'' 200),
        (''platform_input'', local_combo ''str_platform'' ''store_platform'' ''platform'' ''platform_name'' ''str_plz_select_platform'' 200),
        (''btn_query'', query_button),
        (''btn_export'', export_button)],
      pg_grids =
       [(''data_grid'', \<lparr>gr_title = [], gr_store = ''store_grid'',
         gr_columns = level_campaign_report_columns\<rparr>)]\<rparr>"

definition level_campaign_report_launch :: "ajax_opts \<times> page callback" where
  "level_campaign_report_launch = (get_choices ''/statsorign/get_sdk_plats'', sdk_plats_loaded)"

definition level_campaign_report_onBtnQuery :: "page \<Rightarrow> page" where
  "level_campaign_report_onBtnQuery p =
     (let zone_id = getValue p ''zone_input'';
          sdk = getValue p ''sdk_input'';
          platform = getValue p ''platform_input'';
          date = getValue p ''date_input''
      in run_query
          [(nullish zone_id, ''str_plz_select_zone''),
           (falsy sdk, ''str_plz_select_sdk''),
           (falsy platform, ''str_plz_select_platform''),
           (falsy date, ''str_plz_select_date'')]
          (getRawValue p ''zone_input'' @ ''_'' @ getRawValue p ''date_input'' @ uni [0x6218, 0x6597, 0x53C2,
            0x4E0E, 0x6309, 0x7B49, 0x7EA7, 0x7EDF, 0x8BA1])
          (post ''/statshelper/get_level_campaign_report'' [(''zone_id'', zone_id), (''date'', date)]) p)"

definition level_cell :: "nat \<Rightarrow> jsval \<Rightarrow> jsobj" where
  "level_cell j c = [(level_key ''num_lv'' j, js_prop c ''num''), (level_key ''players_lv'' j,
    js_prop c ''players'')]"

definition level_campaign_report_mk :: "jsval \<Rightarrow> js_exn + jsobj" where
  "level_campaign_report_mk rc =
     (if nullish rc then Inl TypeError
      else map_sum id (\<lambda>d. (''kind'', named level_campaign_report_map_kind (js_prop rc ''kind'')) # d)
             (cells level_cell (js_index rc) enumLevel))"

definition level_campaign_report_updateGrid :: "page callback" where
  "level_campaign_report_updateGrid res p =
     fill_rows ''store_grid'' level_campaign_report_mk res p"

definition level_campaign_report_onBtnExport :: "page \<Rightarrow> page" where
  "level_campaign_report_onBtnExport p = start_export (KExport (g_search_name p)) ''store_grid'' level_campaign_report_columns p"

definition level_campaign_report_view :: layout where
  "level_campaign_report_view = \<lparr>toolbar = [''zone_input'', ''sdk_input'', ''platform_input'',
    ''date_input'', ''btn_query'', ''btn_export''], center = [''data_grid'']\<rparr>"

definition level_campaign_report :: "report" where
  "level_campaign_report =
     \<lparr>rp_cfg = level_campaign_report_cfg, rp_launch = Some level_campaign_report_launch,
      rp_query = level_campaign_report_onBtnQuery,
        rp_done = \<lambda>res. level_campaign_report_updateGrid (js_prop res ''res''),
      rp_export = level_campaign_report_onBtnExport, rp_then = id\<rparr>"

section \<open>Answers by category\<close>

text \<open>
  \<open>updateGrid\<close> of the two pages on losses: for every category of the answer one record with
  the amounts per level and one with the numbers of players.
\<close>

definition level_row :: "string \<Rightarrow> string \<Rightarrow> jsval \<Rightarrow> string \<Rightarrow> js_exn + jsobj" where
  "level_row key k rc what =
     (if nullish rc then Inl TypeError
      else map_sum id (\<lambda>d. (key, JStr k) # d)
             (cells (\<lambda>j c. [(level_key ''lv'' j, js_prop c what)]) (\<lambda>j. js_member rc (string_of_nat j)) enumLevel))"

definition fill_levels :: "string \<Rightarrow> string \<Rightarrow> jsval \<Rightarrow> page \<Rightarrow> page outcome" where
  "fill_levels n key res p =
     js_for (\<lambda>k. with_val (level_row key k (js_member res k) ''num'')
               (\<lambda>d1. with_val (level_row key k (js_member res k) ''players'')
                 (\<lambda>d2 p. Done (add_to ''store_players'' d2 (add_to n d1 p)))))
       (js_keys res) (clear_store ''store_players'' (clear_store n p))"

section \<open>loss_consume_report.js\<close>

definition loss_consume_report_fields :: "string list" where
  "loss_consume_report_fields = ''sys_name'' # map (level_key ''lv'') enumLevel"

definition loss_consume_report_columns_consume :: "column list" where
  "loss_consume_report_columns_consume = (
     col (uni [0x7CFB, 0x7EDF, 0x5206, 0x7C7B]) ''sys_name'' # map (\<lambda>i. col (uni [0x6D88,
       0x8D39] @ ''_'' @ string_of_nat i) (level_key ''lv'' i)) enumLevel)"

definition loss_consume_report_columns_players :: "column list" where
  "loss_consume_report_columns_players = (
     col (uni [0x7CFB, 0x7EDF, 0x5206, 0x7C7B]) ''sys_name'' # map (\<lambda>i. col (uni [0x4EBA,
       0x6570] @ ''_'' @ string_of_nat i) (level_key ''lv'' i)) enumLevel)"

definition loss_consume_report_cfg :: page_cfg where
  "loss_consume_report_cfg =
     \<lparr>app_name = ''levelconsumereport'',
      pg_stores =
       [(''store_zone'', [''zone_name'', ''zone_id''], []),
        (''store_cat'', [''catname'', ''category''], [[(''catname'', JStr (loc ''str_credits'')),
          (''category'', JStr ''credits'')], [(''catname'', JStr (loc ''str_money'')), (''category'',
            JStr ''money'')], [(''catname'', JStr (loc ''str_coins'')), (''category'', JStr ''coins'')],
              [(''catname'', JStr (loc ''str_voucher'')), (''category'', JStr ''voucher'')]]),
        (''store_days'', [''days_name'', ''days''], [[(''days_name'', JStr ''3''), (''days'', JNum 3)],
          [(''days_name'', JStr ''7''), (''days'', JNum 7)], [(''days_name'', JStr ''14''), (''days'',
            JNum 14)], [(''days_name'', JStr ''30''), (''days'', JNum 30)]]),
        (''store_consume'', loss_consume_report_fields, []),
        (''store_players'', loss_consume_report_fields, [])],
      pg_widgets =
       [(''zone_input'', local_combo ''str_zone'' ''store_zone'' ''zone_id'' ''zone_name'' ''str_plz_select_zone'' 235),
        (''cat_input'', local_combo ''str_huobi_cat'' ''store_cat'' ''category'' ''catname'' ''str_plz_select_category'' 235),
        (''days_input'', local_combo ''str_lianxu_days'' ''store_days'' ''days'' ''days_name'' ''str_plz_select_days'' 235),
        (''btn_query'', query_button),
        (''btn_export'', export_button)],
      pg_grids =
       [(''data_grid_consume'', \<lparr>gr_title = uni [0x6D88, 0x8D39, 0x7B49, 0x7EA7, 0x8868],
         gr_store = ''store_consume'', gr_columns = loss_consume_report_columns_consume\<rparr>),
        (''data_grid_players'', \<lparr>gr_title = uni [0x4EBA, 0x6570, 0x7B49, 0x7EA7, 0x8868],
          gr_store = ''store_players'', gr_columns = loss_consume_report_columns_players\<rparr>)]\<rparr>"

definition loss_consume_report_launch :: "ajax_opts \<times> page callback" where
  "loss_consume_report_launch = (get_choices ''/statshelper/get_zones'', zones_loaded)"

definition loss_consume_report_onBtnQuery :: "page \<Rightarrow> page" where
  "loss_consume_report_onBtnQuery p =
     (let zone_id = getValue p ''zone_input'';
          days = getValue p ''days_input'';
          cost_type = getValue p ''cat_input''
      in run_query
          [(falsy zone_id, ''str_plz_select_zone''),
           (falsy days, ''str_plz_select_days''),
           (falsy cost_type, ''str_plz_select_category'')]
          (getRawValue p ''zone_input'' @ ''_'' @ getRawValue p ''days_input'' @ ''_'' @ getRawValue p ''cat_input'')
          (post ''/loss/get_loss_consume_report'' [(''zone_id'', zone_id), (''cost_type'', cost_type),
            (''days'', days)]) p)"


definition loss_consume_report_updateGrid :: "page callback" where
  "loss_consume_report_updateGrid res p =
     fill_levels ''store_consume'' ''sys_name'' res p"

definition loss_consume_report_onBtnExport :: "page \<Rightarrow> page" where
  "loss_consume_report_onBtnExport p =
     start_export (KExportThen (uni [0x6D88,
       0x8D39] @ g_search_name p)) ''store_consume'' loss_consume_report_columns_consume p"

definition loss_consume_report_onComplete :: "page \<Rightarrow> page" where
  "loss_consume_report_onComplete p =
     start_export (KExport (uni [0x4EBA,
       0x6570] @ g_search_name p)) ''store_players'' loss_consume_report_columns_players p"

definition loss_consume_report_view :: layout where
  "loss_consume_report_view = \<lparr>toolbar = [''zone_input'', ''days_input'', ''cat_input'',
    ''btn_query'', ''btn_export''], center = [''data_grid_consume'', ''data_grid_players'']\<rparr>"

definition loss_consume_report :: "report" where
  "loss_consume_report =
     \<lparr>rp_cfg = loss_consume_report_cfg, rp_launch = Some loss_consume_report_launch,
      rp_query = loss_consume_report_onBtnQuery,
        rp_done = \<lambda>res. loss_consume_report_updateGrid (js_prop res ''res''),
      rp_export = loss_consume_report_onBtnExport, rp_then = loss_consume_report_onComplete\<rparr>"

section \<open>loss_recharge_report.js\<close>

definition loss_recharge_report_fields :: "string list" where
  "loss_recharge_report_fields = ''goods'' # map (level_key ''lv'') enumLevel"

definition loss_recharge_report_columns_consume :: "column list" where
  "loss_recharge_report_columns_consume = (
     col (uni [0x5145, 0x503C, 0x5206, 0x7C7B]) ''goods'' # map (\<lambda>i. col (uni [0x5145,
       0x503C] @ ''_'' @ string_of_nat i) (level_key ''lv'' i)) enumLevel)"

definition loss_recharge_report_columns_players :: "column list" where
  "loss_recharge_report_columns_players = (
     col (uni [0x5145, 0x503C, 0x5206, 0x7C7B]) ''goods'' # map (\<lambda>i. col (uni [0x4EBA,
       0x6570] @ ''_'' @ string_of_nat i) (level_key ''lv'' i)) enumLevel)"

definition loss_recharge_report_cfg :: page_cfg where
  "loss_recharge_report_cfg =
     \<lparr>app_name = ''lossrechargereport'',
      pg_stores =
       [(''store_zone'', [''zone_name'', ''zone_id''], []),
        (''store_days'', [''days_name'', ''days''], [[(''days_name'', JStr ''3''), (''days'', JNum 3)],
          [(''days_name'', JStr ''7''), (''days'', JNum 7)], [(''days_name'', JStr ''14''), (''days'',
            JNum 14)], [(''days_name'', JStr ''30''), (''days'', JNum 30)]]),
        (''store_recharge'', loss_recharge_report_fields, []),
        (''store_players'', loss_recharge_report_fields, [])],
      pg_widgets =
       [(''zone_input'', local_combo ''str_zone'' ''store_zone'' ''zone_id'' ''zone_name'' ''str_plz_select_zone'' 235),
        (''days_input'', local_combo ''str_lianxu_days'' ''store_days'' ''days'' ''days_name'' ''str_plz_select_days'' 235),
        (''btn_query'', query_button),
        (''btn_export'', export_button)],
      pg_grids =
       [(''data_grid_consume'', \<lparr>gr_title = uni [0x5145, 0x503C, 0x7B49, 0x7EA7, 0x8868],
         gr_store = ''store_recharge'', gr_columns = loss_recharge_report_columns_consume\<rparr>),
        (''data_grid_players'', \<lparr>gr_title = uni [0x4EBA, 0x6570, 0x7B49, 0x7EA7, 0x8868],
          gr_store = ''store_players'', gr_columns = loss_recharge_report_columns_players\<rparr>)]\<rparr>"

definition loss_recharge_report_launch :: "ajax_opts \<times> page callback" where
  "loss_recharge_report_launch = (get_choices ''/statshelper/get_zones'', zones_loaded)"

definition loss_recharge_report_onBtnQuery :: "page \<Rightarrow> page" where
  "loss_recharge_report_onBtnQuery p =
     (let zone_id = getValue p ''zone_input'';
          days = getValue p ''days_input''
      in run_query
          [(falsy zone_id, ''str_plz_select_zone''),
           (falsy days, ''str_plz_select_days'')]
          (getRawValue p ''zone_input'' @ ''_'' @ getRawValue p ''days_input'')
          (post ''/loss/get_loss_recharge_report'' [(''zone_id'', zone_id), (''days'', days)]) p)"


definition loss_recharge_report_updateGrid :: "page callback" where
  "loss_recharge_report_updateGrid res p =
     fill_levels ''store_recharge'' ''goods'' res p"

definition loss_recharge_report_onBtnExport :: "page \<Rightarrow> page" where
  "loss_recharge_report_onBtnExport p =
     start_export (KExportThen (uni [0x5145,
       0x503C] @ g_search_name p)) ''store_recharge'' loss_recharge_report_columns_consume p"

definition loss_recharge_report_onComplete :: "page \<Rightarrow> page" where
  "loss_recharge_report_onComplete p =
     start_export (KExport (uni [0x4EBA,
       0x6570] @ g_search_name p)) ''store_players'' loss_recharge_report_columns_players p"

definition loss_recharge_report_view :: layout where
  "loss_recharge_report_view = \<lparr>toolbar = [''zone_input'', ''days_input'', ''btn_query'',
    ''btn_export''], center = [''data_grid_consume'', ''data_grid_players'']\<rparr>"

definition loss_recharge_report :: "report" where
  "loss_recharge_report =
     \<lparr>rp_cfg = loss_recharge_report_cfg, rp_launch = Some loss_recharge_report_launch,
      rp_query = loss_recharge_report_onBtnQuery,
        rp_done = \<lambda>res. loss_recharge_report_updateGrid (js_prop res ''res''),
      rp_export = loss_recharge_report_onBtnExport, rp_then = loss_recharge_report_onComplete\<rparr>"

section \<open>loss_report.js\<close>

definition loss_report_columns :: "column list" where
  "loss_report_columns = [
     col (uni [0x7C7B, 0x578B]) ''kind'',
     col (uni [0x4EBA, 0x6570]) ''players'']"

definition loss_report_cfg :: page_cfg where
  "loss_report_cfg =
     \<lparr>app_name = ''lossreport'',
      pg_stores =
       [(''store_zone'', [''zone_name'', ''zone_id''], []),
        (''store_sdk'', [''sdk_name'', ''sdk''], []),
        (''store_platform'', [''platform_name'', ''platform''], []),
        (''store_kind'', [''kind_name'', ''kind''], [[(''kind_name'', JStr (uni [0x7B49, 0x7EA7])),
          (''kind'', JStr ''hero_level'')], [(''kind_name'', JStr (uni [0x4E3B, 0x7EBF, 0x4EFB, 0x52A1])),
            (''kind'', JStr ''main_quest'')], [(''kind_name'', JStr (uni [0x4E3B, 0x7EBF, 0x6218, 0x6597])),
              (''kind'', JStr ''main_quest_campaign'')]]),
        (''store_days'', [''days_name'', ''days''], [[(''days_name'', JStr ''3''), (''days'', JNum 3)],
          [(''days_name'', JStr ''7''), (''days'', JNum 7)], [(''days_name'', JStr ''14''), (''days'',
            JNum 14)], [(''days_name'', JStr ''30''), (''days'', JNum 30)]]),
        (''store'', [''kind'', ''players''], [])],
      pg_widgets =
       [(''zone_input'', local_combo ''str_zone'' ''store_zone'' ''zone_id'' ''zone_name'' ''str_plz_select_zone'' 200),
        (''sdk_input'', local_combo ''str_sdk'' ''store_sdk'' ''sdk'' ''sdk_name'' ''str_plz_select_sdk'' 200),
        (''platform_input'', local_combo ''str_platform'' ''store_platform'' ''platform'' ''platform_name'' ''str_plz_select_platform'' 200),
        (''kinds_input'', local_combo ''str_cat'' ''store_kind'' ''kind'' ''kind_name'' ''str_plz_select_cat'' 235),
        (''days_input'', local_combo ''str_lianxu_days'' ''store_days'' ''days'' ''days_name'' ''str_plz_select_days'' 235),
        (''btn_query'', query_button),
        (''btn_export'', export_button)],
      pg_grids =
       [(''data_grid'', \<lparr>gr_title = uni [0x6D41, 0x5931, 0x67E5, 0x8BE2], gr_store = ''store'',
         gr_columns = loss_report_columns\<rparr>)]\<rparr>"

definition loss_report_launch :: "ajax_opts \<times> page callback" where
  "loss_report_launch = (get_choices ''/statsorign/get_sdk_plats'', sdk_plats_loaded)"

definition loss_report_onBtnQuery :: "page \<Rightarrow> page" where
  "loss_report_onBtnQuery p =
     (let zone_id = getValue p ''zone_input'';
          sdk = getValue p ''sdk_input'';
          platform = getValue p ''platform_input'';
          kind = getValue p ''kinds_input'';
          days = getValue p ''days_input''
      in run_query
          [(nullish zone_id, ''str_plz_select_zone''),
           (falsy sdk, ''str_plz_select_sdk''),
           (falsy platform, ''str_plz_select_platform''),
           (falsy kind, ''str_plz_select_cat''),
           (falsy days, ''str_plz_select_days'')]
          (getRawValue p ''zone_input'' @ ''_'' @ getRawValue p ''sdk_input'' @ ''_'' @ getRawValue p ''platform_input'' @ ''_'' @ getRawValue p ''kinds_input'' @ ''_'' @ getRawValue p ''days_input'')
          (post ''/loss/get_loss_report'' [(''zone_id'', zone_id), (''sdk'', sdk), (''platform'', platform),
            (''kind'', kind), (''days'', days)]) p)"

definition loss_report_updateGrid :: "page callback" where
  "loss_report_updateGrid res p =
     js_for (\<lambda>goods. with_val (pick [(''kind'', ''kind''), (''players'',
       ''players'')] (js_member res goods))
               (\<lambda>d p. Done (add_to ''store'' d p))) (js_keys res) (clear_store ''store'' p)"

definition loss_report_onBtnExport :: "page \<Rightarrow> page" where
  "loss_report_onBtnExport p =
     start_export (KExport (uni [0x6D41, 0x5931] @ g_search_name p)) ''store'' loss_report_columns p"

definition loss_report_view :: layout where
  "loss_report_view = \<lparr>toolbar = [''zone_input'', ''sdk_input'', ''platform_input'', ''kinds_input'',
    ''days_input'', ''btn_query'', ''btn_export''], center = [''data_grid'']\<rparr>"

definition loss_report :: "report" where
  "loss_report =
     \<lparr>rp_cfg = loss_report_cfg, rp_launch = Some loss_report_launch,
      rp_query = loss_report_onBtnQuery, rp_done = \<lambda>res. loss_report_updateGrid (js_prop res ''res''),
      rp_export = loss_report_onBtnExport, rp_then = id\<rparr>"

section \<open>The levels\<close>

lemma enumLevel_eq:
  "enumLevel = [10, 20, 25, 30, 35, 40, 45, 50, 55, 60, 65, 70, 75, 80, 85, 90, 95, 100]"
  by (simp add: enumLevel_def enum_from.simps)

lemma cells_good:
  "list_all (\<lambda>j. \<not> nullish (get j)) js \<Longrightarrow> cells f get js = Inr (concat (map (\<lambda>j. f j (get j)) js))"
  by (induction js) simp_all

section \<open>The mapped pages keep the contract\<close>

definition level_campaign_good :: "jsval \<Rightarrow> bool" where
  "level_campaign_good rc = (\<not> nullish rc \<and> list_all (\<lambda>j. \<not> nullish (js_index rc j)) enumLevel)"

definition level_campaign_row :: "jsval \<Rightarrow> jsobj" where
  "level_campaign_row rc =
     (''kind'', named level_campaign_report_map_kind (js_prop rc ''kind'')) #
     concat (map (\<lambda>j. level_cell j (js_index rc j)) enumLevel)"

lemma level_campaign_mk_good: "level_campaign_good rc \<Longrightarrow> level_campaign_report_mk rc = Inr (level_campaign_row rc)"
  by (simp add: level_campaign_good_def level_campaign_report_mk_def level_campaign_row_def cells_good)

lemma add_equip_report_guarded: "guarded_query add_equip_report_cfg add_equip_report_onBtnQuery"
  by (rule guarded_queryI)
    (unfold add_equip_report_onBtnQuery_def Let_def, rule refl, auto simp: nullish_falsy)

interpretation add_equip_report: mapped_report "add_equip_report" "''store_grid''" present "add_equip_report_mk" "add_equip_report_row"
proof
  show "choices_apart (rp_cfg add_equip_report)" and "distinct (map fst (pg_widgets (rp_cfg add_equip_report)))"
    by (simp_all add: add_equip_report_def add_equip_report_cfg_def cfg_eval)
  show "guarded_query (rp_cfg add_equip_report) (rp_query add_equip_report)"
    using add_equip_report_guarded by (simp add: add_equip_report_def)
qed (auto simp: add_equip_report_def add_equip_report_launch_def add_equip_report_onBtnExport_def add_equip_report_updateGrid_def
      add_equip_report_cfg_def init_store_def new_store_def page_simps result_store_def
      add_equip_report_mk_def present_def intro!: page_intros)

lemma city_campaign_report_guarded: "guarded_query city_campaign_report_cfg city_campaign_report_onBtnQuery"
  by (rule guarded_queryI)
    (unfold city_campaign_report_onBtnQuery_def Let_def, rule refl, auto simp: nullish_falsy)

interpretation city_campaign_report: mapped_report "city_campaign_report" "''store_grid''" present "city_campaign_report_mk" "city_campaign_report_row"
proof
  show "choices_apart (rp_cfg city_campaign_report)" and "distinct (map fst (pg_widgets (rp_cfg city_campaign_report)))"
    by (simp_all add: city_campaign_report_def city_campaign_report_cfg_def cfg_eval)
  show "guarded_query (rp_cfg city_campaign_report) (rp_query city_campaign_report)"
    using city_campaign_report_guarded by (simp add: city_campaign_report_def)
qed (auto simp: city_campaign_report_def city_campaign_report_launch_def city_campaign_report_onBtnExport_def city_campaign_report_updateGrid_def
      city_campaign_report_cfg_def init_store_def new_store_def page_simps result_store_def
      city_campaign_report_mk_def present_def intro!: page_intros)

lemma level_campaign_report_guarded: "guarded_query level_campaign_report_cfg level_campaign_report_onBtnQuery"
  by (rule guarded_queryI)
    (unfold level_campaign_report_onBtnQuery_def Let_def, rule refl, auto simp: nullish_falsy)

interpretation level_campaign_report: mapped_report "level_campaign_report" "''store_grid''" level_campaign_good "level_campaign_report_mk" "level_campaign_row"
proof
  show "choices_apart (rp_cfg level_campaign_report)" and "distinct (map fst (pg_widgets (rp_cfg level_campaign_report)))"
    by (simp_all add: level_campaign_report_def level_campaign_report_cfg_def cfg_eval)
  show "guarded_query (rp_cfg level_campaign_report) (rp_query level_campaign_report)"
    using level_campaign_report_guarded by (simp add: level_campaign_report_def)
qed (auto simp: level_campaign_report_def level_campaign_report_launch_def level_campaign_report_onBtnExport_def level_campaign_report_updateGrid_def
      level_campaign_report_cfg_def init_store_def new_store_def page_simps result_store_def
      level_campaign_mk_good intro!: page_intros)

section \<open>The pages on losses\<close>

definition categories_good :: "jsval \<Rightarrow> bool" where
  "categories_good res =
     (let v = js_prop res ''res''
      in list_all (\<lambda>k. \<not> nullish (js_member v k) \<and>
           list_all (\<lambda>j. \<not> nullish (js_member (js_member v k) (string_of_nat j))) enumLevel) (js_keys v))"

definition category_row :: "string \<Rightarrow> string \<Rightarrow> jsval \<Rightarrow> string \<Rightarrow> jsobj" where
  "category_row key k rc what =
     (key, JStr k) # map (\<lambda>j. (level_key ''lv'' j, js_prop (js_member rc (string_of_nat j)) what)) enumLevel"

definition category_rows :: "string \<Rightarrow> string \<Rightarrow> jsval \<Rightarrow> jsobj list" where
  "category_rows key what res =
     (let v = js_prop res ''res'' in map (\<lambda>k. category_row key k (js_member v k) what) (js_keys v))"

lemma level_row_good:
  "\<not> nullish rc \<Longrightarrow> list_all (\<lambda>j. \<not> nullish (js_member rc (string_of_nat j))) enumLevel \<Longrightarrow>
     level_row key k rc what = Inr (category_row key k rc what)"
  by (simp add: level_row_def cells_good category_row_def concat_map_singleton)

lemma fill_levels_done:
  assumes "categories_good res" and "v = js_prop res ''res''"
  shows "fill_levels n key v p =
    Done (fold (\<lambda>k p. add_to ''store_players'' (category_row key k (js_member v k) ''players'')
                       (add_to n (category_row key k (js_member v k) ''num'') p)) (js_keys v)
           (clear_store ''store_players'' (clear_store n p)))"
  unfolding fill_levels_def
  using assms by (intro js_for_Done) (auto simp: categories_good_def Let_def list_all_iff level_row_good)

lemma fold_two_stores:
  assumes "a \<noteq> b"
  shows "s_recs (stores (fold (\<lambda>k p. add_to b (g k) (add_to a (f k) p)) ks p) a) =
           s_recs (stores p a) @ map (\<lambda>k. model_data (s_fields (stores p a)) (f k)) ks"
    and "s_recs (stores (fold (\<lambda>k p. add_to b (g k) (add_to a (f k) p)) ks p) b) =
           s_recs (stores p b) @ map (\<lambda>k. model_data (s_fields (stores p b)) (g k)) ks"
  using assms by (induction ks arbitrary: p) (auto simp: store_add_def)

lemma fill_levels_frame:
  "m \<noteq> n \<Longrightarrow> m \<noteq> ''store_players'' \<Longrightarrow> stores (final_state (fill_levels n key res p)) m = stores p m"
  "inputs (final_state (fill_levels n key res p)) = inputs p"
  "s_fields (stores (final_state (fill_levels n key res p)) k) = s_fields (stores p k)"
proof -
  let ?q = "clear_store ''store_players'' (clear_store n p)"
  show "m \<noteq> n \<Longrightarrow> m \<noteq> ''store_players'' \<Longrightarrow> stores (final_state (fill_levels n key res p)) m = stores p m"
    unfolding fill_levels_def
    by (subst js_for_frame [of "\<lambda>q. stores q m"]) (auto simp: with_val_def split: sum.splits)
  show "inputs (final_state (fill_levels n key res p)) = inputs p"
    unfolding fill_levels_def
    by (subst js_for_frame [of inputs]) (auto simp: with_val_def split: sum.splits)
  show "s_fields (stores (final_state (fill_levels n key res p)) k) = s_fields (stores p k)"
    unfolding fill_levels_def
    by (subst js_for_frame [of "\<lambda>q. s_fields (stores q k)"])
      (auto simp: with_val_def ext_store.fields_add ext_store.fields_clear split: sum.splits)
qed

lemma page_ok_fill_levels: "page_ok c p \<Longrightarrow> page_ok c (final_state (fill_levels n key res p))"
  unfolding fill_levels_def by (intro page_ok_js_for) (auto intro!: page_intros)

locale level_loss_report = asking_page +
  fixes n :: string
    and key :: string
  assumes done_levels: "rp_done r res p = fill_levels n key (js_prop res ''res'') p"
    and n_result: "result_store n" and n_other: "n \<noteq> ''store_players''"
    and n_empty: "s_recs (init_store (rp_cfg r) n) = []" "s_recs (init_store (rp_cfg r) ''store_players'') = []"

sublocale level_loss_report \<subseteq> report_program r
  by unfold_locales (simp_all add: asking_keeps done_levels page_ok_fill_levels)

sublocale level_loss_report \<subseteq> amounts: answered_store r n categories_good "category_rows key ''num''" "\<lambda>old new. new"
proof
  fix kvs p
  assume g: "categories_good (JObj kvs)"
  show "s_recs (stores (final_state (rp_done r (JObj kvs) p)) n) =
      map (model_data (s_fields (stores p n))) (category_rows key ''num'' (JObj kvs))"
    using n_other
    by (simp add: done_levels fill_levels_done [OF g refl, simplified] fold_two_stores category_rows_def Let_def
        store_removeAll_def)
qed (simp_all add: asking_frame n_result query_stores export_stores then_stores done_levels fill_levels_frame n_empty)

sublocale level_loss_report \<subseteq> heads: answered_store r "''store_players''" categories_good
    "category_rows key ''players''" "\<lambda>old new. new"
proof
  fix kvs p
  assume g: "categories_good (JObj kvs)"
  show "s_recs (stores (final_state (rp_done r (JObj kvs) p)) ''store_players'') =
      map (model_data (s_fields (stores p ''store_players''))) (category_rows key ''players'' (JObj kvs))"
    using n_other
    by (simp add: done_levels fill_levels_done [OF g refl, simplified] fold_two_stores category_rows_def Let_def
        store_removeAll_def)
qed (simp_all add: asking_frame result_store_def query_stores export_stores then_stores done_levels fill_levels_frame
    n_empty)

context level_loss_report
begin

theorem tables_show_last:
  assumes "list_all categories_good (query_answers r (launch r w) es)" and "list_all object_answer es"
    and "query_answers r (launch r w) es \<noteq> []"
  shows "store_getRange (stores (run_page r (launch r w) es) n) =
      map (model_data (s_fields (init_store (rp_cfg r) n)))
        (category_rows key ''num'' (last (query_answers r (launch r w) es))) \<and>
    store_getRange (stores (run_page r (launch r w) es) ''store_players'') =
      map (model_data (s_fields (init_store (rp_cfg r) ''store_players'')))
        (category_rows key ''players'' (last (query_answers r (launch r w) es)))"
  using amounts.run_shows [OF assms(1,2)] heads.run_shows [OF assms(1,2)] assms(3) by (simp add: foldl_replace)

lemma program: "report_program r"
  by unfold_locales

end

lemma loss_consume_report_guarded: "guarded_query loss_consume_report_cfg loss_consume_report_onBtnQuery"
  by (rule guarded_queryI)
    (unfold loss_consume_report_onBtnQuery_def Let_def, rule refl, auto simp: nullish_falsy)

interpretation loss_consume_report: level_loss_report loss_consume_report "''store_consume''" "''sys_name''"
proof
  show "choices_apart (rp_cfg loss_consume_report)" and "distinct (map fst (pg_widgets (rp_cfg loss_consume_report)))"
    by (simp_all add: loss_consume_report_def loss_consume_report_cfg_def cfg_eval)
  show "guarded_query (rp_cfg loss_consume_report) (rp_query loss_consume_report)"
    using loss_consume_report_guarded by (simp add: loss_consume_report_def)
qed (auto simp: loss_consume_report_def loss_consume_report_launch_def loss_consume_report_onBtnExport_def loss_consume_report_onComplete_def
      loss_consume_report_updateGrid_def loss_consume_report_cfg_def init_store_def new_store_def fill_levels_frame result_store_def)

lemma loss_recharge_report_guarded: "guarded_query loss_recharge_report_cfg loss_recharge_report_onBtnQuery"
  by (rule guarded_queryI)
    (unfold loss_recharge_report_onBtnQuery_def Let_def, rule refl, auto simp: nullish_falsy)

interpretation loss_recharge_report: level_loss_report loss_recharge_report "''store_recharge''" "''goods''"
proof
  show "choices_apart (rp_cfg loss_recharge_report)" and "distinct (map fst (pg_widgets (rp_cfg loss_recharge_report)))"
    by (simp_all add: loss_recharge_report_def loss_recharge_report_cfg_def cfg_eval)
  show "guarded_query (rp_cfg loss_recharge_report) (rp_query loss_recharge_report)"
    using loss_recharge_report_guarded by (simp add: loss_recharge_report_def)
qed (auto simp: loss_recharge_report_def loss_recharge_report_launch_def loss_recharge_report_onBtnExport_def loss_recharge_report_onComplete_def
      loss_recharge_report_updateGrid_def loss_recharge_report_cfg_def init_store_def new_store_def fill_levels_frame result_store_def)

lemma loss_report_guarded: "guarded_query loss_report_cfg loss_report_onBtnQuery"
  by (rule guarded_queryI)
    (unfold loss_report_onBtnQuery_def Let_def, rule refl, auto simp: nullish_falsy)

definition loss_good :: "jsval \<Rightarrow> bool" where
  "loss_good res = (let v = js_prop res ''res'' in list_all (\<lambda>k. \<not> nullish (js_member v k)) (js_keys v))"

definition loss_rows :: "jsval \<Rightarrow> jsobj list" where
  "loss_rows res =
     (let v = js_prop res ''res''
      in map (\<lambda>k. row_obj [(''kind'', ''kind''), (''players'', ''players'')] (js_member v k)) (js_keys v))"

lemma loss_updateGrid_frame:
  "m \<noteq> ''store'' \<Longrightarrow> stores (final_state (loss_report_updateGrid res p)) m = stores p m"
  "inputs (final_state (loss_report_updateGrid res p)) = inputs p"
  "s_fields (stores (final_state (loss_report_updateGrid res p)) k) = s_fields (stores p k)"
proof -
  show "m \<noteq> ''store'' \<Longrightarrow> stores (final_state (loss_report_updateGrid res p)) m = stores p m"
    unfolding loss_report_updateGrid_def
    by (subst js_for_frame [of "\<lambda>q. stores q m"]) (auto simp: with_val_def split: sum.splits)
  show "inputs (final_state (loss_report_updateGrid res p)) = inputs p"
    unfolding loss_report_updateGrid_def
    by (subst js_for_frame [of inputs]) (auto simp: with_val_def split: sum.splits)
  show "s_fields (stores (final_state (loss_report_updateGrid res p)) k) = s_fields (stores p k)"
    unfolding loss_report_updateGrid_def
    by (subst js_for_frame [of "\<lambda>q. s_fields (stores q k)"])
      (auto simp: with_val_def ext_store.fields_add ext_store.fields_clear split: sum.splits)
qed

lemma loss_updateGrid_rows:
  assumes "loss_good (JObj kvs)"
  shows "s_recs (stores (final_state (loss_report_updateGrid (obj_get kvs ''res'') p)) ''store'') =
    map (model_data (s_fields (stores p ''store''))) (loss_rows (JObj kvs))"
proof -
  let ?v = "obj_get kvs ''res''" and ?ks = "[(''kind'', ''kind''), (''players'', ''players'')]"
  have "loss_report_updateGrid ?v p =
      Done (fold (\<lambda>k. add_to ''store'' (row_obj ?ks (js_member ?v k))) (js_keys ?v) (clear_store ''store'' p))"
    unfolding loss_report_updateGrid_def
    using assms by (intro js_for_Done) (auto simp: loss_good_def Let_def list_all_iff row_obj_def)
  then have "loss_report_updateGrid ?v p =
      Done (fold (add_to ''store'') (loss_rows (JObj kvs)) (clear_store ''store'' p))"
    by (simp add: loss_rows_def fold_map o_def Let_def)
  then show ?thesis
    using ext_store.rows_refill [of "loss_rows (JObj kvs)" "stores p ''store''"]
    by (simp add: stores_fold_add_to store_getRange_def)
qed

interpretation loss_report: asking_page loss_report
proof
  show "choices_apart (rp_cfg loss_report)" and "distinct (map fst (pg_widgets (rp_cfg loss_report)))"
    by (simp_all add: loss_report_def loss_report_cfg_def cfg_eval)
  show "guarded_query (rp_cfg loss_report) (rp_query loss_report)"
    using loss_report_guarded by (simp add: loss_report_def)
qed (auto simp: loss_report_def loss_report_launch_def loss_report_onBtnExport_def loss_updateGrid_frame result_store_def)

interpretation loss_report: answered_store loss_report "''store''" loss_good loss_rows "\<lambda>old new. new"
  by unfold_locales
    (auto simp: loss_report.asking_frame result_store_def loss_report.query_stores loss_report.export_stores
      guarded_query_frame [OF loss_report_guarded] loss_report_def loss_updateGrid_rows loss_updateGrid_frame loss_report_cfg_def
      init_store_def new_store_def loss_report_onBtnExport_def loss_report_launch_def page_simps)

lemma page_ok_loss_updateGrid: "page_ok c p \<Longrightarrow> page_ok c (final_state (loss_report_updateGrid res p))"
  unfolding loss_report_updateGrid_def by (intro page_ok_js_for) (auto intro!: page_intros)

interpretation loss_report: report_program loss_report
  by unfold_locales (simp_all add: loss_report.asking_keeps, simp add: loss_report_def page_ok_loss_updateGrid)

end
