(* ===== verification/Date_Format.thy ===== *)
theory Date_Format
  imports Prelude
begin

text \<open>
  Dates as the pages use them: a time value in milliseconds, its local calendar fields (the
  calendar of the ECMAScript specification, at a fixed offset \<open>tz\<close> of the local zone in
  minutes), and \<open>Date.prototype.Format\<close> of \<open>app/stat/public/shared/include-ext.js\<close>, which
  replaces the runs of pattern letters of a format by the fields. An invalid date (time value
  \<open>NaN\<close>) has \<open>NaN\<close> for every field.
\<close>

section \<open>The calendar\<close>

definition day_from_year :: "int \<Rightarrow> int" where
  "day_from_year y = 365 * (y - 1970) + (y - 1969) div 4 - (y - 1901) div 100 + (y - 1601) div 400"

definition leap :: "int \<Rightarrow> bool" where
  "leap y = (y mod 4 = 0 \<and> (y mod 100 \<noteq> 0 \<or> y mod 400 = 0))"

definition days_in_year :: "int \<Rightarrow> int" where
  "days_in_year y = (if leap y then 366 else 365)"

definition month_lengths :: "int \<Rightarrow> int list" where
  "month_lengths y = [31, if leap y then 29 else 28, 31, 30, 31, 30, 31, 31, 30, 31, 30, 31]"

lemma div_bounds:
  assumes "0 < (k :: int)"
  shows "k * (x div k) \<le> x" and "x < k * (x div k) + k"
  using assms mult_div_mod_eq [of k x] pos_mod_sign [of k x] pos_mod_bound [of k x] by linarith+

lemma div_step:
  assumes "0 < (k :: int)"
  shows "(x + 1) div k = x div k + (if (x + 1) mod k = 0 then 1 else 0)"
proof -
  have x: "x + 1 = k * (x div k) + (x mod k + 1)" and r: "0 \<le> x mod k" "x mod k < k"
    using assms by simp_all
  show ?thesis
  proof (cases "x mod k + 1 = k")
    case True
    then have "x + 1 = (x div k + 1) * k" using x by (simp add: algebra_simps)
    then show ?thesis using assms by simp
  next
    case False
    with r have l: "0 \<le> x mod k + 1" "x mod k + 1 < k" by linarith+
    then show ?thesis using int_div_pos_eq [OF x l] int_mod_pos_eq [OF x l] r by simp
  qed
qed

lemma mod_shift: "(y - c * k) mod k = y mod (k :: int)"
  using mod_mult_self1 [of y "- c" k] by simp

lemma leap_count:
  "c \<longrightarrow> b \<Longrightarrow> b \<longrightarrow> a \<Longrightarrow>
     (if a \<and> (\<not> b \<or> c) then 366 else 365 :: int) =
     365 + (if a then 1 else 0) - (if b then 1 else 0) + (if c then 1 else 0)"
  by (cases a; cases b; cases c) simp_all

lemma day_from_year_next: "day_from_year (y + 1) = day_from_year y + days_in_year y"
proof -
  have a: "(y + 1 - 1969) div 4 = (y - 1969) div 4 + (if y mod 4 = 0 then 1 else 0)"
    using div_step [of 4 "y - 1969"] mod_shift [of y 492 4] by simp
  have b: "(y + 1 - 1901) div 100 = (y - 1901) div 100 + (if y mod 100 = 0 then 1 else 0)"
    using div_step [of 100 "y - 1901"] mod_shift [of y 19 100] by simp
  have c: "(y + 1 - 1601) div 400 = (y - 1601) div 400 + (if y mod 400 = 0 then 1 else 0)"
    using div_step [of 400 "y - 1601"] mod_shift [of y 4 400] by simp
  have "400 dvd y \<Longrightarrow> 100 dvd y" "100 dvd y \<Longrightarrow> 4 dvd y"
    by (rule dvd_trans [rotated], assumption, simp)+
  then have "y mod 400 = 0 \<longrightarrow> y mod 100 = 0" "y mod 100 = 0 \<longrightarrow> y mod 4 = 0"
    by (simp_all add: dvd_eq_mod_eq_0)
  then have "days_in_year y = 365 + (if y mod 4 = 0 then 1 else 0) - (if y mod 100 = 0 then 1 else 0) +
      (if y mod 400 = 0 then 1 else 0)"
    unfolding days_in_year_def leap_def by (rule leap_count)
  moreover have "day_from_year (y + 1) = 365 + 365 * (y - 1970) +
      ((y - 1969) div 4 + (if y mod 4 = 0 then 1 else 0)) -
      ((y - 1901) div 100 + (if y mod 100 = 0 then 1 else 0)) +
      ((y - 1601) div 400 + (if y mod 400 = 0 then 1 else 0))"
    unfolding day_from_year_def a [symmetric] b [symmetric] c [symmetric] by simp
  ultimately show ?thesis unfolding day_from_year_def [of y] by (simp only: add_ac diff_add_eq diff_diff_eq2)
qed

lemma days_in_year_bounds: "365 \<le> days_in_year y" "days_in_year y \<le> 366"
  by (simp_all add: days_in_year_def)

text \<open>The year of a day: the last one that has begun, searched upwards from a year before.\<close>

function year_up :: "int \<Rightarrow> int \<Rightarrow> int" where
  "year_up y d = (if day_from_year (y + 1) \<le> d then year_up (y + 1) d else y)"
  by pat_completeness auto
termination
  by (relation "measure (\<lambda>(y, d). nat (d + 1 - day_from_year y))")
    (simp_all add: day_from_year_next days_in_year_def split: if_splits)

declare year_up.simps [simp del]

definition year_of_day :: "int \<Rightarrow> int" where
  "year_of_day d = year_up (1970 + d div (if 0 \<le> d then 366 else 365)) d"

fun month_of :: "int list \<Rightarrow> int \<Rightarrow> int \<times> int" where
  "month_of [] k = (0, k)"
| "month_of (l # ls) k = (if k < l then (0, k) else (let (m, r) = month_of ls (k - l) in (m + 1, r)))"

record date_fields =
  getFullYear :: "int option"
  getMonth :: "int option"
  getDate :: "int option"
  getHours :: "int option"
  getMinutes :: "int option"
  getSeconds :: "int option"
  getMilliseconds :: "int option"

text \<open>
  \<open>new Date(t)\<close> and its local fields; a time value out of range is \<open>NaN\<close>.
\<close>

definition max_time :: int where
  "max_time = 8640000000000000"

definition new_date :: "int option \<Rightarrow> int option" where
  "new_date t = (case t of Some x \<Rightarrow> if \<bar>x\<bar> \<le> max_time then Some x else None | None \<Rightarrow> None)"

definition date_fields_of :: "int \<Rightarrow> int option \<Rightarrow> date_fields" where
  "date_fields_of tz t =
     (case new_date t of
        None \<Rightarrow> \<lparr>getFullYear = None, getMonth = None, getDate = None, getHours = None, getMinutes = None,
                 getSeconds = None, getMilliseconds = None\<rparr>
      | Some x \<Rightarrow>
          (let l = x + tz * 60000;
               d = l div 86400000;
               y = year_of_day d;
               (m, k) = month_of (month_lengths y) (d - day_from_year y);
               ms = l mod 86400000
           in \<lparr>getFullYear = Some y, getMonth = Some m, getDate = Some (k + 1),
               getHours = Some (ms div 3600000), getMinutes = Some (ms div 60000 mod 60),
               getSeconds = Some (ms div 1000 mod 60), getMilliseconds = Some (ms mod 1000)\<rparr>))"

section \<open>Format\<close>

definition num_text :: "int option \<Rightarrow> string" where
  "num_text v = (case v of Some n \<Rightarrow> string_of_int n | None \<Rightarrow> ''NaN'')"

definition js_substr :: "string \<Rightarrow> int \<Rightarrow> string" where
  "js_substr s i = (if i < 0 then drop (nat (int (length s) + i)) s else drop (nat i) s)"

text \<open>
  One replacement: the leftmost run of the letter (a single letter where the pattern has no
  \<open>+\<close>) gives way to the text computed from its length.
\<close>

definition replace_run :: "bool \<Rightarrow> char \<Rightarrow> (nat \<Rightarrow> string) \<Rightarrow> string \<Rightarrow> string" where
  "replace_run many c f fmt =
     (let pre = takeWhile (\<lambda>x. x \<noteq> c) fmt;
          rest = dropWhile (\<lambda>x. x \<noteq> c) fmt;
          n = (if many then length (takeWhile (\<lambda>x. x = c) rest) else 1)
      in if rest = [] then fmt else pre @ f n @ drop n rest)"

definition year_text :: "int option \<Rightarrow> nat \<Rightarrow> string" where
  "year_text y n = js_substr (num_text y) (4 - int n)"

definition field_text :: "int option \<Rightarrow> nat \<Rightarrow> string" where
  "field_text v n =
     (if n = 1 then num_text v else js_substr (''00'' @ num_text v) (int (length (num_text v))))"

definition month_number :: "date_fields \<Rightarrow> int option" where
  "month_number d = map_option (\<lambda>m. m + 1) (getMonth d)"

definition quarter :: "date_fields \<Rightarrow> int option" where
  "quarter d = map_option (\<lambda>m. (m + 3) div 3) (getMonth d)"

definition format_entries :: "date_fields \<Rightarrow> (char \<times> bool \<times> int option) list" where
  "format_entries d =
     [(CHR ''M'', True, month_number d), (CHR ''d'', True, getDate d), (CHR ''h'', True, getHours d),
      (CHR ''m'', True, getMinutes d), (CHR ''s'', True, getSeconds d), (CHR ''q'', True, quarter d),
      (CHR ''S'', False, getMilliseconds d)]"

definition Format :: "date_fields \<Rightarrow> string \<Rightarrow> string" where
  "Format d fmt =
     fold (\<lambda>(c, many, v) s. replace_run many c (field_text v) s) (format_entries d)
       (replace_run True (CHR ''y'') (year_text (getFullYear d)) fmt)"

section \<open>The calendar fields are right\<close>

lemma day_from_year_mono: "day_from_year y \<le> day_from_year (y + int k)"
proof (induction k)
  case (Suc k)
  have "day_from_year (y + int k + 1) = day_from_year (y + int k) + days_in_year (y + int k)"
    by (rule day_from_year_next)
  then show ?case using Suc by (simp add: days_in_year_def algebra_simps split: if_splits)
qed simp

lemma day_from_year_less: "y < y' \<Longrightarrow> day_from_year (y + 1) \<le> day_from_year y'"
  using day_from_year_mono [of "y + 1" "nat (y' - y - 1)"] by simp

lemma year_up_bounds:
  "day_from_year y \<le> d \<Longrightarrow>
     day_from_year (year_up y d) \<le> d \<and> d < day_from_year (year_up y d + 1)"
proof (induction y d rule: year_up.induct)
  case (1 y d)
  then show ?case by (subst (1 2) year_up.simps) auto
qed

lemma leap_days_bound:
  "400 * ((k + 1) div 4 - (k + 69) div 100 + (k + 369) div 400) \<le> 97 * (k :: int) + 589"
proof -
  define a b c where "a = (k + 1) div 4" and "b = (k + 69) div 100" and "c = (k + 369) div 400"
  have "4 * a \<le> k + 1" "k + 69 < 100 * b + 100" "400 * c \<le> k + 369"
    unfolding a_def b_def c_def by (rule div_bounds, simp)+
  then have "400 * (a - b + c) \<le> 97 * k + 589" by simp
  then show ?thesis by (simp only: a_def b_def c_def)
qed

lemma start_year_before: "day_from_year (1970 + d div (if 0 \<le> d then 366 else 365)) \<le> d"
proof -
  define n :: int where "n = (if 0 \<le> d then 366 else 365)"
  define k where "k = d div n"
  have n: "0 < n" by (simp add: n_def)
  have k: "n * k \<le> d" unfolding k_def by (rule div_bounds) (rule n)
  have pos: "0 \<le> k \<longleftrightarrow> 0 \<le> d" unfolding k_def using n by (rule pos_imp_zdiv_nonneg_iff)
  define l where "l = (k + 1) div 4 - (k + 69) div 100 + (k + 369) div 400"
  have b: "400 * l \<le> 97 * k + 589" unfolding l_def by (rule leap_days_bound)
  have "k = 0 \<Longrightarrow> l = 0" "k = - 1 \<Longrightarrow> l = 0" by (simp_all add: l_def)
  with b have "0 \<le> k \<longrightarrow> l \<le> k" and "k < 0 \<longrightarrow> l \<le> 0"
    by linarith+
  then have "365 * k + l \<le> n * k"
    using pos by (cases "0 \<le> d") (simp_all add: n_def)
  moreover have "day_from_year (1970 + k) = 365 * k + l"
    unfolding day_from_year_def l_def by (simp add: add.commute)
  ultimately show ?thesis using k unfolding k_def n_def by linarith
qed

lemma year_of_day_bounds:
  "day_from_year (year_of_day d) \<le> d \<and> d < day_from_year (year_of_day d + 1)"
  unfolding year_of_day_def by (rule year_up_bounds) (rule start_year_before)

lemma year_of_day_unique:
  assumes "day_from_year y \<le> d" and "d < day_from_year (y + 1)"
  shows "year_of_day d = y"
proof (rule linorder_cases [of "year_of_day d" y])
  assume "year_of_day d < y"
  from day_from_year_less [OF this] assms year_of_day_bounds [of d] show ?thesis by simp
next
  assume "y < year_of_day d"
  from day_from_year_less [OF this] assms year_of_day_bounds [of d] show ?thesis by simp
qed

lemma month_of_bounds:
  assumes "month_of ls k = (m, r)" and "0 \<le> k" and "k < sum_list ls" and "list_all (\<lambda>l. 0 < l) ls"
  shows "0 \<le> m \<and> nat m < length ls \<and> 0 \<le> r \<and> r < ls ! nat m \<and> k = sum_list (take (nat m) ls) + r"
  using assms
proof (induction ls arbitrary: k m)
  case (Cons l ls)
  show ?case
  proof (cases "k < l")
    case True
    with Cons.prems show ?thesis by simp
  next
    case False
    with Cons.prems obtain m' where m: "month_of ls (k - l) = (m', r)" "m = m' + 1"
      by (auto split: prod.splits)
    have "0 \<le> m' \<and> nat m' < length ls \<and> 0 \<le> r \<and> r < ls ! nat m' \<and> k - l = sum_list (take (nat m') ls) + r"
      using Cons.prems False by (intro Cons.IH [OF m(1)]) simp_all
    with m(2) show ?thesis by (simp add: nat_add_distrib)
  qed
qed simp

lemma sum_month_lengths: "sum_list (month_lengths y) = days_in_year y"
  by (simp add: month_lengths_def days_in_year_def)

lemma month_lengths_pos: "list_all (\<lambda>l. 0 < l) (month_lengths y)" "length (month_lengths y) = 12"
  by (simp_all add: month_lengths_def)

text \<open>The day a calendar date stands for (months from 0, days from 1) and the time of day in milliseconds.\<close>

definition day_of_civil :: "int \<Rightarrow> int \<Rightarrow> int \<Rightarrow> int" where
  "day_of_civil y m d = day_from_year y + sum_list (take (nat m) (month_lengths y)) + (d - 1)"

definition time_of_day :: "int \<Rightarrow> int \<Rightarrow> int \<Rightarrow> int \<Rightarrow> int" where
  "time_of_day h mi s ms = ((h * 60 + mi) * 60 + s) * 1000 + ms"

definition fields_ok :: "int \<Rightarrow> int \<Rightarrow> date_fields \<Rightarrow> bool" where
  "fields_ok tz x f =
     (case (getFullYear f, getMonth f, getDate f, getHours f, getMinutes f, getSeconds f, getMilliseconds f) of
        (Some y, Some m, Some d, Some h, Some mi, Some s, Some ms) \<Rightarrow>
          0 \<le> m \<and> m < 12 \<and> 1 \<le> d \<and> d \<le> month_lengths y ! nat m \<and>
          0 \<le> h \<and> h < 24 \<and> 0 \<le> mi \<and> mi < 60 \<and> 0 \<le> s \<and> s < 60 \<and> 0 \<le> ms \<and> ms < 1000 \<and>
          x + tz * 60000 = day_of_civil y m d * 86400000 + time_of_day h mi s ms
      | _ \<Rightarrow> False)"

lemma time_of_day_split:
  assumes "0 \<le> ms" and "ms < 86400000"
  shows "time_of_day (ms div 3600000) (ms div 60000 mod 60) (ms div 1000 mod 60) (ms mod 1000) = ms"
    and "0 \<le> ms div 3600000" and "ms div 3600000 < 24"
proof -
  have "ms div 1000 = ms div 60000 * 60 + ms div 1000 mod 60"
    using div_mult_mod_eq [of "ms div 1000" 60] by (simp add: zdiv_zmult2_eq [symmetric])
  moreover have "ms div 60000 = ms div 3600000 * 60 + ms div 60000 mod 60"
    using div_mult_mod_eq [of "ms div 60000" 60] by (simp add: zdiv_zmult2_eq [symmetric])
  moreover have "ms = ms div 1000 * 1000 + ms mod 1000" by simp
  ultimately show "time_of_day (ms div 3600000) (ms div 60000 mod 60) (ms div 1000 mod 60) (ms mod 1000) = ms"
    unfolding time_of_day_def by (metis (no_types, lifting))
  show "0 \<le> ms div 3600000" and "ms div 3600000 < 24" using assms by simp_all
qed

lemma date_fields_ok:
  assumes "\<bar>x\<bar> \<le> max_time"
  shows "fields_ok tz x (date_fields_of tz (Some x))"
proof -
  define l d ms where "l = x + tz * 60000" and "d = l div 86400000" and "ms = l mod 86400000"
  define y where "y = year_of_day d"
  obtain m k where mk: "month_of (month_lengths y) (d - day_from_year y) = (m, k)" by fastforce
  have y: "day_from_year y \<le> d" "d < day_from_year (y + 1)"
    using year_of_day_bounds [of d] by (simp_all add: y_def)
  have m: "0 \<le> m \<and> nat m < 12 \<and> 0 \<le> k \<and> k < month_lengths y ! nat m \<and>
      d - day_from_year y = sum_list (take (nat m) (month_lengths y)) + k"
    using month_of_bounds [OF mk] y month_lengths_pos [of y] by (simp add: sum_month_lengths day_from_year_next)
  have ms: "0 \<le> ms" "ms < 86400000" by (simp_all add: ms_def)
  have l: "l = d * 86400000 + ms" by (simp add: d_def ms_def)
  have f: "date_fields_of tz (Some x) =
      \<lparr>getFullYear = Some y, getMonth = Some m, getDate = Some (k + 1), getHours = Some (ms div 3600000),
       getMinutes = Some (ms div 60000 mod 60), getSeconds = Some (ms div 1000 mod 60),
       getMilliseconds = Some (ms mod 1000)\<rparr>"
    using assms mk by (simp add: date_fields_of_def new_date_def l_def d_def ms_def y_def Let_def)
  have "day_of_civil y m (k + 1) = d" using m by (simp add: day_of_civil_def)
  moreover have "m < 12" using m by linarith
  ultimately show ?thesis using m l
    unfolding fields_ok_def f by (simp add: time_of_day_split [OF ms] l_def)
qed

section \<open>The formats of the pages\<close>

lemma dash_skip: "c \<noteq> x \<Longrightarrow> replace_run many c f (x # s) = x # replace_run many c f s"
  by (auto simp: replace_run_def Let_def)

lemma replace_run_skip: "c \<notin> set pre \<Longrightarrow> replace_run many c f (pre @ s) = pre @ replace_run many c f s"
  by (induction pre) (auto simp: dash_skip)

lemma replace_run_absent: "c \<notin> set s \<Longrightarrow> replace_run many c f s = s"
  using replace_run_skip [of c s many f "[]"] by (simp add: replace_run_def)

lemma digit_val_not_letter: "digit_val x \<noteq> None \<Longrightarrow> x \<notin> set ''yMdhmsqS''"
  by (auto simp: digit_val_def Let_def)

lemma num_text_plain: "x \<in> set (num_text v) \<Longrightarrow> x \<notin> set ''yMdhmsqS''"
proof -
  assume x: "x \<in> set (num_text v)"
  have "x \<notin> set ''yMdhmsqS''" if "x \<in> set (string_of_nat n)" for n
    using that string_of_nat_digits [of n] by (intro digit_val_not_letter) (simp add: list_all_iff)
  with x show ?thesis
    by (auto simp: num_text_def string_of_int_def split: option.splits if_splits)
qed

lemma text_plain:
  "x \<in> set (year_text v n) \<Longrightarrow> x \<notin> set ''yMdhmsqS''"
  "x \<in> set (field_text v n) \<Longrightarrow> x \<notin> set ''yMdhmsqS''"
  using num_text_plain [of x v]
  by (auto simp: year_text_def field_text_def js_substr_def split: if_splits dest!: in_set_dropD)

lemma text_skip:
  "c \<in> set ''yMdhmsqS'' \<Longrightarrow> replace_run many c f (year_text v n @ s) = year_text v n @ replace_run many c f s"
  "c \<in> set ''yMdhmsqS'' \<Longrightarrow> replace_run many c f (field_text v n @ s) = field_text v n @ replace_run many c f s"
  by (rule replace_run_skip; use text_plain in blast)+

lemma replace_run_Nil: "replace_run many c f [] = []"
  by (simp add: replace_run_def)

lemmas run_simps = text_skip dash_skip replace_run_Nil

lemma Format_day:
  "Format d ''yyyy-MM-dd'' =
     year_text (getFullYear d) 4 @ ''-'' @ field_text (month_number d) 2 @ ''-'' @ field_text (getDate d) 2"
proof -
  have y: "replace_run True CHR ''y'' f ''yyyy-MM-dd'' = f 4 @ ''-MM-dd''" for f
    by (simp add: replace_run_def Let_def eval_nat_numeral)
  have M: "replace_run True CHR ''M'' f ''MM-dd'' = f 2 @ ''-dd''" for f
    by (simp add: replace_run_def Let_def eval_nat_numeral)
  have d: "replace_run True CHR ''d'' f ''dd'' = f 2" for f
    by (simp add: replace_run_def Let_def eval_nat_numeral)
  have n: "replace_run many c f (field_text v n) = field_text v n" if "c \<in> set ''yMdhmsqS''" for many c f v n
    using text_skip(2) [OF that, of many f v n "[]"] by (simp add: replace_run_Nil)
  show ?thesis by (simp add: Format_def format_entries_def y run_simps M d n)
qed

lemma Format_time:
  "Format d ''hh:mm:ss'' =
     field_text (getHours d) 2 @ '':'' @ field_text (getMinutes d) 2 @ '':'' @ field_text (getSeconds d) 2"
proof -
  have h: "replace_run True CHR ''h'' f ''hh:mm:ss'' = f 2 @ '':mm:ss''" for f
    by (simp add: replace_run_def Let_def eval_nat_numeral)
  have m: "replace_run True CHR ''m'' f ''mm:ss'' = f 2 @ '':ss''" for f
    by (simp add: replace_run_def Let_def eval_nat_numeral)
  have s: "replace_run True CHR ''s'' f ''ss'' = f 2" for f
    by (simp add: replace_run_def Let_def eval_nat_numeral)
  have n: "replace_run many c f (field_text v n) = field_text v n" if "c \<in> set ''yMdhmsqS''" for many c f v n
    using text_skip(2) [OF that, of many f v n "[]"] by (simp add: replace_run_Nil)
  have a: "replace_run many c f ''hh:mm:ss'' = ''hh:mm:ss''" if "c \<notin> set ''hh:mm:ss''" for many c f
    by (rule replace_run_absent) (rule that)
  show ?thesis by (simp add: Format_def format_entries_def a h run_simps m s n)
qed

text \<open>Numbers below a hundred are padded to two digits, years keep their digits.\<close>

lemma string_of_int_two_digits:
  "0 \<le> v \<Longrightarrow> v < 10 \<Longrightarrow> string_of_int v = [digit_char (nat v)]"
  "10 \<le> v \<Longrightarrow> v < 100 \<Longrightarrow> string_of_int v = [digit_char (nat v div 10), digit_char (nat v mod 10)]"
proof -
  show "0 \<le> v \<Longrightarrow> v < 10 \<Longrightarrow> string_of_int v = [digit_char (nat v)]"
    by (subst string_of_int_def, subst (2) string_of_nat.simps) simp
  assume v: "10 \<le> v" "v < 100"
  then have "nat v div 10 < 10" "\<not> nat v < 10" by auto
  with v show "string_of_int v = [digit_char (nat v div 10), digit_char (nat v mod 10)]"
    by (simp add: string_of_int_def string_of_nat.simps [of "nat v"] string_of_nat.simps [of "nat v div 10"])
qed

lemma field_text_padded:
  assumes "0 \<le> v" and "v < 100"
  shows "field_text (Some v) 2 = [digit_char (nat v div 10), digit_char (nat v mod 10)]"
proof (cases "v < 10")
  case True
  have "digit_char 0 = CHR ''0''" by code_simp
  with True assms show ?thesis
    by (simp add: field_text_def num_text_def js_substr_def string_of_int_two_digits)
next
  case False
  with assms show ?thesis
    by (simp add: field_text_def num_text_def js_substr_def string_of_int_two_digits)
qed

lemma year_text_full: "year_text (Some y) 4 = string_of_int y"
  by (simp add: year_text_def js_substr_def num_text_def)

lemma length_string_of_nat_four:
  assumes "1000 \<le> n" and "n < 10000"
  shows "length (string_of_nat n) = 4"
proof -
  have "n div 1000 < 10" "n div 1000 \<noteq> 0" "\<not> n div 100 < 10" "\<not> n div 10 < 10" "\<not> n < 10" using assms by auto
  then show ?thesis
    by (simp add: string_of_nat.simps [of n] string_of_nat.simps [of "n div 10"]
        string_of_nat.simps [of "n div 100"] string_of_nat.simps [of "n div 1000"] div_mult2_eq [symmetric])
qed

definition read_day :: "string \<Rightarrow> int option \<times> int option \<times> int option" where
  "read_day s = (parse_int_string (take 4 s), parse_int_string (take 2 (drop 5 s)), parse_int_string (take 2 (drop 8 s)))"

lemma parse_two_digits:
  assumes "0 \<le> v" and "v < 100"
  shows "parse_int_string [digit_char (nat v div 10), digit_char (nat v mod 10)] = Some v"
proof -
  have "nat v div 10 < 10" using assms by auto
  then show ?thesis using assms by (simp add: parse_int_digits)
qed

lemma read_day_text:
  assumes "getFullYear f = Some y" and "1000 \<le> y" and "y < 10000"
    and "month_number f = Some m" and "0 \<le> m" and "m < 100" and "getDate f = Some d" and "0 \<le> d" and "d < 100"
  shows "read_day (Format f ''yyyy-MM-dd'') = (Some y, Some m, Some d)"
proof -
  have "length (string_of_int y) = 4"
    using assms(2,3) by (simp add: string_of_int_def length_string_of_nat_four)
  then show ?thesis
    by (simp add: read_day_def Format_day assms year_text_full field_text_padded parse_int_string_of_int
        parse_two_digits)
qed

text \<open>
  C35. The text a grid shows for a time stamp is the calendar day of that time: for every valid
  time in a year of four digits, the three numbers of the text name the day of the local
  calendar that contains the time.
\<close>

theorem day_text_names_the_day:
  assumes "\<bar>x\<bar> \<le> max_time"
    and "getFullYear (date_fields_of tz (Some x)) = Some y0" and "1000 \<le> y0" and "y0 < 10000"
  shows "\<exists>y m d. read_day (Format (date_fields_of tz (Some x)) ''yyyy-MM-dd'') = (Some y, Some m, Some d) \<and>
    day_of_civil y (m - 1) d = (x + tz * 60000) div 86400000"
proof -
  let ?f = "date_fields_of tz (Some x)"
  from date_fields_ok [OF assms(1), of tz] obtain m d h mi s ms where
    f: "getMonth ?f = Some m" "getDate ?f = Some d" "0 \<le> m" "m < 12" "1 \<le> d" "d \<le> month_lengths y0 ! nat m"
    and t: "0 \<le> h" "h < 24" "0 \<le> mi" "mi < 60" "0 \<le> s" "s < 60" "0 \<le> ms" "ms < 1000"
    and x: "x + tz * 60000 = day_of_civil y0 m d * 86400000 + time_of_day h mi s ms"
    using assms(2) by (auto simp: fields_ok_def split: option.splits)
  have "month_lengths y0 ! nat m \<le> 31"
  proof -
    have "list_all (\<lambda>l. l \<le> 31) (month_lengths y0)" by (simp add: month_lengths_def)
    then show ?thesis using f(3,4) month_lengths_pos(2) [of y0] by (simp add: list_all_length)
  qed
  with f have "read_day (Format ?f ''yyyy-MM-dd'') = (Some y0, Some (m + 1), Some d)"
    by (intro read_day_text) (simp_all add: assms month_number_def)
  moreover have "0 \<le> time_of_day h mi s ms" "time_of_day h mi s ms < 86400000"
    using t by (simp_all add: time_of_day_def)
  then have "(x + tz * 60000) div 86400000 = day_of_civil y0 m d"
    unfolding x by simp
  ultimately show ?thesis by (intro exI [of _ y0] exI [of _ "m + 1"] exI [of _ d]) simp
qed

theorem day_text_names_the_day_witness:
  "\<exists>y m d. read_day (Format (date_fields_of 480 (Some 1451952000000)) ''yyyy-MM-dd'') = (Some y, Some m, Some d) \<and>
    day_of_civil y (m - 1) d = 16805"
proof -
  have "year_of_day 16805 = 2016"
    by (rule year_of_day_unique) (simp_all add: day_from_year_def)
  then have "getFullYear (date_fields_of 480 (Some 1451952000000)) = Some 2016"
    by (simp add: date_fields_of_def new_date_def max_time_def Let_def split: prod.splits)
  then show ?thesis
    using day_text_names_the_day [of 1451952000000 480 2016] by (simp add: max_time_def)
qed

text \<open>An invalid date is shown as a text that names no day.\<close>

lemma invalid_day_text: "Format (date_fields_of tz None) ''yyyy-MM-dd'' = ''NaN-aN-aN''"
  by (simp add: Format_day date_fields_of_def new_date_def year_text_def field_text_def month_number_def
      num_text_def js_substr_def)

end
