(* ===== verification/Online_Reports.thy ===== *)
theory Online_Reports
  imports Page_Runs Date_Format
begin

text \<open>
  The pages of the last seven days (\<open>aveonlinereport.js\<close>, \<open>maxonlinereport.js\<close>,
  \<open>newusersreport.js\<close>, \<open>activeusersreport.js\<close>): time stamps are shown as local days and
  times, the hours of a day as columns. \<open>tz\<close> is the offset of the browser's zone in minutes.
  The page of the weekly totals (\<open>totalactive.js\<close>) is at the end.
\<close>

section \<open>Days, times and averages\<close>

definition stamp :: "jsval \<Rightarrow> int option" where
  "stamp v = (case parseInt v of JNum n \<Rightarrow> Some (n * 1000) | _ \<Rightarrow> None)"

definition day_text :: "int \<Rightarrow> jsval \<Rightarrow> jsval" where
  "day_text tz v = JStr (Format (date_fields_of tz (stamp v)) ''yyyy-MM-dd'')"

definition time_text :: "int \<Rightarrow> jsval \<Rightarrow> jsval" where
  "time_text tz v = JStr (Format (date_fields_of tz (stamp v)) ''hh:mm:ss'')"

definition hour_key :: "nat \<Rightarrow> string" where
  "hour_key i = ''h'' @ string_of_nat i"

definition hours :: "nat list" where
  "hours = [0 ..< 24]"

definition sum_parsed :: "jsval list \<Rightarrow> int option" where
  "sum_parsed xs =
     fold (\<lambda>x acc. case (acc, parseInt x) of (Some a, JNum b) \<Rightarrow> Some (a + b) | _ \<Rightarrow> None) xs (Some 0)"

text \<open>\<open>Math.ceil(total / n)\<close> on integers.\<close>

definition ceil_div :: "int \<Rightarrow> int \<Rightarrow> int" where
  "ceil_div a n = - ((- a) div n)"

definition hour_average :: "jsval \<Rightarrow> jsval" where
  "hour_average v =
     (if truthy v then
        (case js_to_number (js_prop v ''length'') of
           Some n \<Rightarrow>
             (if 0 < n then
                (case sum_parsed (map (js_index v) [0 ..< nat n]) of
                   Some s \<Rightarrow> JNum (ceil_div s n)
                 | None \<Rightarrow> JNaN)
              else JNum 0)
         | None \<Rightarrow> JNum 0)
      else JNum 0)"

definition hour_count :: "jsval \<Rightarrow> jsval" where
  "hour_count v = (if truthy v then v else JNum 0)"


section \<open>aveonlinereport.js\<close>

definition aveonlinereport_fields :: "string list" where
  "aveonlinereport_fields = ''date'' # map hour_key hours"

definition aveonlinereport_columns :: "column list" where
  "aveonlinereport_columns = (
     col (uni [0x65E5, 0x671F]) ''date'' # map (\<lambda>i. col (string_of_nat (i + 1) @ uni [0x70B9]) (hour_key i)) hours)"

definition aveonlinereport_cfg :: page_cfg where
  "aveonlinereport_cfg =
     \<lparr>app_name = ''aveonlinereport'',
      pg_stores =
       [(''store_grid'', aveonlinereport_fields, []),
        (''store_zone'', [''zone_name'', ''zone_id''], [])],
      pg_widgets =
       [(''zone_input'', local_combo ''str_zone'' ''store_zone'' ''zone_id'' ''zone_name'' ''str_plz_select_zone'' 235),
        (''btn_query'', query_button),
        (''btn_export'', export_button)],
      pg_grids =
       [(''data_grid'', \<lparr>gr_title = (uni [0x6700, 0x8FD1] @ ''7'' @ uni [0x5929, 0x6570, 0x636E]),
         gr_store = ''store_grid'', gr_columns = aveonlinereport_columns\<rparr>)]\<rparr>"

definition aveonlinereport_launch :: "ajax_opts \<times> page callback" where
  "aveonlinereport_launch = (get_choices ''/statshelper/get_zones'', zones_loaded)"

definition aveonlinereport_onBtnQuery :: "page \<Rightarrow> page" where
  "aveonlinereport_onBtnQuery p =
     (let zone_id = getValue p ''zone_input''
      in run_query
          [(falsy zone_id, ''str_plz_select_zone'')]
          (js_to_string zone_id @ uni [0x533A, 0x5E73, 0x5747, 0x5728, 0x7EBF])
          (post ''/realtimestats/get_ave_online_report'' [(''zone_id'', zone_id)]) p)"

definition aveonlinereport_row :: "int \<Rightarrow> jsval \<Rightarrow> jsobj" where
  "aveonlinereport_row tz rc =
     (''date'', day_text tz (js_prop rc ''date'')) #
     map (\<lambda>j. (hour_key j, hour_average (js_prop (js_prop rc ''hours'') (hour_key j)))) hours"

definition aveonlinereport_mk :: "int \<Rightarrow> jsval \<Rightarrow> js_exn + jsobj" where
  "aveonlinereport_mk tz rc =
     (if nullish rc \<or> nullish (js_prop rc ''hours'') then Inl TypeError else Inr (aveonlinereport_row tz rc))"

definition aveonlinereport_updateGrid :: "int \<Rightarrow> page callback" where
  "aveonlinereport_updateGrid tz res p =
     (if falsy res then Done p else fill_rows ''store_grid'' (aveonlinereport_mk tz) res p)"

definition aveonlinereport_onBtnExport :: "page \<Rightarrow> page" where
  "aveonlinereport_onBtnExport p = start_export (KExport (g_search_name p)) ''store_grid'' aveonlinereport_columns p"

definition aveonlinereport_view :: layout where
  "aveonlinereport_view = \<lparr>toolbar = [''zone_input'', ''btn_query'', ''btn_export''],
    center = [''data_grid'']\<rparr>"

definition aveonlinereport :: "int \<Rightarrow> report" where
  "aveonlinereport tz =
     \<lparr>rp_cfg = aveonlinereport_cfg, rp_launch = Some aveonlinereport_launch,
      rp_query = aveonlinereport_onBtnQuery,
        rp_done = \<lambda>res. aveonlinereport_updateGrid tz (js_prop res ''res''),
      rp_export = aveonlinereport_onBtnExport, rp_then = id\<rparr>"

section \<open>maxonlinereport.js\<close>

definition maxonlinereport_columns :: "column list" where
  "maxonlinereport_columns = [
     col (uni [0x65E5, 0x671F]) ''date'',
     col (uni [0x6700, 0x5927, 0x5728, 0x7EBF]) ''maxCount'',
     col (uni [0x65F6, 0x95F4]) ''time'']"

definition maxonlinereport_cfg :: page_cfg where
  "maxonlinereport_cfg =
     \<lparr>app_name = ''maxonlinereport'',
      pg_stores =
       [(''store_grid'', [''date'', ''maxCount'', ''time''], []),
        (''store_zone'', [''zone_name'', ''zone_id''], [])],
      pg_widgets =
       [(''zone_input'', local_combo ''str_zone'' ''store_zone'' ''zone_id'' ''zone_name'' ''str_plz_select_zone'' 235),
        (''btn_query'', query_button),
        (''btn_export'', export_button)],
      pg_grids =
       [(''data_grid'', \<lparr>gr_title = (uni [0x6700, 0x8FD1] @ ''7'' @ uni [0x5929, 0x6570, 0x636E]),
         gr_store = ''store_grid'', gr_columns = maxonlinereport_columns\<rparr>)]\<rparr>"

definition maxonlinereport_launch :: "ajax_opts \<times> page callback" where
  "maxonlinereport_launch = (get_choices ''/statshelper/get_zones'', zones_loaded)"

definition maxonlinereport_onBtnQuery :: "page \<Rightarrow> page" where
  "maxonlinereport_onBtnQuery p =
     (let zone_id = getValue p ''zone_input''
      in run_query
          [(falsy zone_id, ''str_plz_select_zone'')]
          (js_to_string zone_id @ uni [0x533A, 0x6700, 0x5927, 0x5728, 0x7EBF])
          (post ''/realtimestats/get_max_online_report'' [(''zone_id'', zone_id)]) p)"

definition maxonlinereport_row :: "int \<Rightarrow> jsval \<Rightarrow> jsobj" where
  "maxonlinereport_row tz rc =
     [(''date'', day_text tz (js_prop rc ''date'')), (''maxCount'', js_prop rc ''maxCount''),
      (''time'', time_text tz (js_prop rc ''time''))]"

definition maxonlinereport_mk :: "int \<Rightarrow> jsval \<Rightarrow> js_exn + jsobj" where
  "maxonlinereport_mk tz rc = (if nullish rc then Inl TypeError else Inr (maxonlinereport_row tz rc))"

definition maxonlinereport_updateGrid :: "int \<Rightarrow> page callback" where
  "maxonlinereport_updateGrid tz res p =
     (if falsy res then Done p else fill_rows ''store_grid'' (maxonlinereport_mk tz) res p)"

definition maxonlinereport_onBtnExport :: "page \<Rightarrow> page" where
  "maxonlinereport_onBtnExport p = start_export (KExport (g_search_name p)) ''store_grid'' maxonlinereport_columns p"

definition maxonlinereport_view :: layout where
  "maxonlinereport_view = \<lparr>toolbar = [''zone_input'', ''btn_query'', ''btn_export''],
    center = [''data_grid'']\<rparr>"

definition maxonlinereport :: "int \<Rightarrow> report" where
  "maxonlinereport tz =
     \<lparr>rp_cfg = maxonlinereport_cfg, rp_launch = Some maxonlinereport_launch,
      rp_query = maxonlinereport_onBtnQuery,
        rp_done = \<lambda>res. maxonlinereport_updateGrid tz (js_prop res ''res''),
      rp_export = maxonlinereport_onBtnExport, rp_then = id\<rparr>"

section \<open>newusersreport.js\<close>

definition newusersreport_fields :: "string list" where
  "newusersreport_fields = ''date'' # map hour_key hours"

definition newusersreport_columns :: "column list" where
  "newusersreport_columns = (
     col (uni [0x65E5, 0x671F]) ''date'' # map (\<lambda>i. col (string_of_nat i @ uni [0x70B9]) (hour_key i)) hours)"

definition newusersreport_cfg :: page_cfg where
  "newusersreport_cfg =
     \<lparr>app_name = ''newusersreport'',
      pg_stores =
       [(''store_grid'', newusersreport_fields, []),
        (''store_zone'', [''zone_name'', ''zone_id''], [])],
      pg_widgets =
       [(''zone_input'', local_combo ''str_zone'' ''store_zone'' ''zone_id'' ''zone_name'' ''str_plz_select_zone'' 235),
        (''btn_query'', query_button),
        (''btn_export'', export_button)],
      pg_grids =
       [(''data_grid'', \<lparr>gr_title = (uni [0x6700, 0x8FD1] @ ''7'' @ uni [0x5929, 0x6570, 0x636E]),
         gr_store = ''store_grid'', gr_columns = newusersreport_columns\<rparr>)]\<rparr>"

definition newusersreport_launch :: "ajax_opts \<times> page callback" where
  "newusersreport_launch = (get_choices ''/statshelper/get_zones'', zones_loaded)"

definition newusersreport_onBtnQuery :: "page \<Rightarrow> page" where
  "newusersreport_onBtnQuery p =
     (let zone_id = getValue p ''zone_input''
      in run_query
          [(falsy zone_id, ''str_plz_select_zone'')]
          (js_to_string zone_id @ uni [0x533A, 0x65B0, 0x589E, 0x73A9, 0x5BB6])
          (post ''/realtimestats/get_new_user_report'' [(''zone_id'', zone_id)]) p)"

definition newusersreport_row :: "int \<Rightarrow> jsval \<Rightarrow> jsobj" where
  "newusersreport_row tz rc =
     (''date'', day_text tz (js_prop rc ''date'')) #
     map (\<lambda>j. (hour_key j, hour_count (js_prop (js_prop rc ''counts'') (hour_key j)))) hours"

definition newusersreport_mk :: "int \<Rightarrow> jsval \<Rightarrow> js_exn + jsobj" where
  "newusersreport_mk tz rc =
     (if nullish rc \<or> nullish (js_prop rc ''counts'') then Inl TypeError else Inr (newusersreport_row tz rc))"

definition newusersreport_updateGrid :: "int \<Rightarrow> page callback" where
  "newusersreport_updateGrid tz res p =
     (if falsy res then Done p else fill_rows ''store_grid'' (newusersreport_mk tz) res p)"

definition newusersreport_onBtnExport :: "page \<Rightarrow> page" where
  "newusersreport_onBtnExport p = start_export (KExport (g_search_name p)) ''store_grid'' newusersreport_columns p"

definition newusersreport_view :: layout where
  "newusersreport_view = \<lparr>toolbar = [''zone_input'', ''btn_query'', ''btn_export''],
    center = [''data_grid'']\<rparr>"

definition newusersreport :: "int \<Rightarrow> report" where
  "newusersreport tz =
     \<lparr>rp_cfg = newusersreport_cfg, rp_launch = Some newusersreport_launch,
      rp_query = newusersreport_onBtnQuery,
        rp_done = \<lambda>res. newusersreport_updateGrid tz (js_prop res ''res''),
      rp_export = newusersreport_onBtnExport, rp_then = id\<rparr>"

section \<open>activeusersreport.js\<close>

definition activeusersreport_fields :: "string list" where
  "activeusersreport_fields = ''date'' # map hour_key hours"

definition activeusersreport_columns :: "column list" where
  "activeusersreport_columns = (
     col (uni [0x65E5, 0x671F]) ''date'' # map (\<lambda>i. col (string_of_nat i @ uni [0x70B9]) (hour_key i)) hours)"

definition activeusersreport_cfg :: page_cfg where
  "activeusersreport_cfg =
     \<lparr>app_name = ''activeusersreport'',
      pg_stores =
       [(''store_grid'', activeusersreport_fields, []),
        (''store_zone'', [''zone_name'', ''zone_id''], [])],
      pg_widgets =
       [(''zone_input'', local_combo ''str_zone'' ''store_zone'' ''zone_id'' ''zone_name'' ''str_plz_select_zone'' 235),
        (''btn_query'', query_button),
        (''btn_export'', export_button)],
      pg_grids =
       [(''data_grid'', \<lparr>gr_title = (uni [0x6700, 0x8FD1] @ ''7'' @ uni [0x5929, 0x6570, 0x636E]),
         gr_store = ''store_grid'', gr_columns = activeusersreport_columns\<rparr>)]\<rparr>"

definition activeusersreport_launch :: "ajax_opts \<times> page callback" where
  "activeusersreport_launch = (get_choices ''/statshelper/get_zones'', zones_loaded)"

definition activeusersreport_onBtnQuery :: "page \<Rightarrow> page" where
  "activeusersreport_onBtnQuery p =
     (let zone_id = getValue p ''zone_input''
      in run_query
          [(falsy zone_id, ''str_plz_select_zone'')]
          (js_to_string zone_id @ uni [0x533A, 0x6D3B, 0x8DC3, 0x73A9, 0x5BB6])
          (post ''/realtimestats/get_active_user_report'' [(''zone_id'', zone_id)]) p)"

definition activeusersreport_row :: "int \<Rightarrow> jsval \<Rightarrow> jsobj" where
  "activeusersreport_row tz rc =
     (''date'', day_text tz (js_prop rc ''date'')) #
     map (\<lambda>j. (hour_key j, hour_count (js_prop (js_prop rc ''counts'') (hour_key j)))) hours"

definition activeusersreport_mk :: "int \<Rightarrow> jsval \<Rightarrow> js_exn + jsobj" where
  "activeusersreport_mk tz rc =
     (if nullish rc \<or> nullish (js_prop rc ''counts'') then Inl TypeError else Inr (activeusersreport_row tz rc))"

definition activeusersreport_updateGrid :: "int \<Rightarrow> page callback" where
  "activeusersreport_updateGrid tz res p =
     (if falsy res then Done p else fill_rows ''store_grid'' (activeusersreport_mk tz) res p)"

definition activeusersreport_onBtnExport :: "page \<Rightarrow> page" where
  "activeusersreport_onBtnExport p = start_export (KExport (g_search_name p)) ''store_grid'' activeusersreport_columns p"

definition activeusersreport_view :: layout where
  "activeusersreport_view = \<lparr>toolbar = [''zone_input'', ''btn_query'', ''btn_export''],
    center = [''data_grid'']\<rparr>"

definition activeusersreport :: "int \<Rightarrow> report" where
  "activeusersreport tz =
     \<lparr>rp_cfg = activeusersreport_cfg, rp_launch = Some activeusersreport_launch,
      rp_query = activeusersreport_onBtnQuery,
        rp_done = \<lambda>res. activeusersreport_updateGrid tz (js_prop res ''res''),
      rp_export = activeusersreport_onBtnExport, rp_then = id\<rparr>"

section \<open>totalactive.js\<close>

definition totalactive_cfg :: page_cfg where
  "totalactive_cfg =
     \<lparr>app_name = ''totalactivereport'',
      pg_stores = [(''store'', [''counts_user'', ''counts_account''], [])],
      pg_widgets = [(''date_input'', date_field ''query_date'' ''str_date''), (''btn_query'', query_button)],
      pg_grids =
       [(''data_grid'', \<lparr>gr_title = [], gr_store = ''store'',
         gr_columns =
          [col (uni [0x5F53, 0x5468, 0x6D3B, 0x8DC3, 0x7528, 0x6237, 0x6570, 0x91CF]) ''counts_user'',
           col (uni [0x5F53, 0x5468, 0x6D3B, 0x8DC3, 0x8D26, 0x6237, 0x6570, 0x91CF]) ''counts_account'']\<rparr>)]\<rparr>"

definition totalactive_view :: layout where
  "totalactive_view = \<lparr>toolbar = [''date_input'', ''btn_query''], center = [''data_grid'']\<rparr>"

definition totalactive_onBtnQuery :: "page \<Rightarrow> page" where
  "totalactive_onBtnQuery p =
     (let date = getValue p ''date_input''
      in run_query [(falsy date, ''str_plz_select_date'')] (g_search_name p)
           (post ''/statsorign/get_total_active'' [(''date'', date)]) p)"

definition totalactive_onSuccess :: "page callback" where
  "totalactive_onSuccess res p =
     Done (add_to ''store'' [(''counts_user'', js_prop res ''counts_user''), (''counts_account'', js_prop res ''counts_account'')]
       (clear_store ''store'' p))"

definition totalactive :: report where
  "totalactive =
     \<lparr>rp_cfg = totalactive_cfg, rp_launch = None, rp_query = totalactive_onBtnQuery,
      rp_done = totalactive_onSuccess, rp_export = id, rp_then = id\<rparr>"

section \<open>Averages\<close>

lemma sum_parsed_nums: "sum_parsed (map JNum xs) = Some (sum_list xs)"
proof -
  have "fold (\<lambda>x acc. case (acc, parseInt x) of (Some a, JNum b) \<Rightarrow> Some (a + b) | _ \<Rightarrow> None) (map JNum xs) (Some s) =
      Some (s + sum_list xs)" for s
    by (induction xs arbitrary: s) (simp_all add: parseInt_def js_parse_int_of_int)
  then show ?thesis by (simp add: sum_parsed_def)
qed

lemma ceil_div_bounds: "0 < n \<Longrightarrow> (ceil_div a n - 1) * n < a \<and> a \<le> ceil_div a n * n"
proof -
  assume n: "0 < n"
  define q where "q = (- a) div n"
  have "n * q \<le> - a" "- a < n * q + n"
    using n mult_div_mod_eq [of n "- a"] pos_mod_sign [of n "- a"] pos_mod_bound [of n "- a"]
    unfolding q_def by linarith+
  then show ?thesis unfolding ceil_div_def q_def [symmetric] by (simp add: algebra_simps)
qed

lemma hour_average_nums:
  assumes "ys \<noteq> []"
  shows "hour_average (JArr (map JNum ys)) = JNum (ceil_div (sum_list ys) (int (length ys)))"
proof -
  have "map (js_index (JArr (map JNum ys))) [0 ..< length ys] = map JNum ys"
    by (rule nth_equalityI) simp_all
  then show ?thesis
    using assms by (simp add: hour_average_def sum_parsed_nums del: js_index.simps)
qed

text \<open>
  The hourly cell of the average page is the mean of the hour's samples, rounded up: for
  samples that sum to \<open>s\<close> over \<open>n\<close> of them the cell \<open>a\<close> is the number with \<open>(a - 1) n < s \<le> a n\<close>;
  an hour without samples shows 0.
\<close>

lemma hour_average_is_mean:
  "hour_average (JArr []) = JNum 0 \<and> hour_average JUndef = JNum 0 \<and>
   (\<exists>a. hour_average (JArr (map JNum (x # xs))) = JNum a \<and>
      (a - 1) * int (length (x # xs)) < sum_list (x # xs) \<and> sum_list (x # xs) \<le> a * int (length (x # xs)))"
proof -
  have "hour_average (JArr (map JNum (x # xs))) = JNum (ceil_div (sum_list (x # xs)) (int (length (x # xs))))"
    by (rule hour_average_nums) simp
  moreover have "hour_average (JArr []) = JNum 0" "hour_average JUndef = JNum 0"
    by (simp_all add: hour_average_def)
  ultimately show ?thesis
    using ceil_div_bounds [of "int (length (x # xs))" "sum_list (x # xs)"] by auto
qed

section \<open>The pages keep the contract\<close>

definition has_hours :: "string \<Rightarrow> jsval \<Rightarrow> bool" where
  "has_hours k rc = (\<not> nullish rc \<and> \<not> nullish (js_prop rc k))"

lemma aveonlinereport_guarded: "guarded_query aveonlinereport_cfg aveonlinereport_onBtnQuery"
  by (rule guarded_queryI)
    (unfold aveonlinereport_onBtnQuery_def Let_def, rule refl, auto simp: nullish_falsy)

interpretation aveonlinereport: mapped_report "(aveonlinereport tz)" "''store_grid''" "has_hours ''hours''" "aveonlinereport_mk tz" "aveonlinereport_row tz" for tz
proof
  show "choices_apart (rp_cfg (aveonlinereport tz))" and "distinct (map fst (pg_widgets (rp_cfg (aveonlinereport tz))))"
    by (simp_all add: aveonlinereport_def aveonlinereport_cfg_def cfg_eval)
  show "guarded_query (rp_cfg (aveonlinereport tz)) (rp_query (aveonlinereport tz))"
    using aveonlinereport_guarded by (simp add: aveonlinereport_def)
qed (auto simp: aveonlinereport_def aveonlinereport_launch_def aveonlinereport_onBtnExport_def aveonlinereport_updateGrid_def
      aveonlinereport_cfg_def init_store_def new_store_def page_simps result_store_def
      aveonlinereport_mk_def has_hours_def intro!: page_intros)

lemma maxonlinereport_guarded: "guarded_query maxonlinereport_cfg maxonlinereport_onBtnQuery"
  by (rule guarded_queryI)
    (unfold maxonlinereport_onBtnQuery_def Let_def, rule refl, auto simp: nullish_falsy)

interpretation maxonlinereport: mapped_report "(maxonlinereport tz)" "''store_grid''" present "maxonlinereport_mk tz" "maxonlinereport_row tz" for tz
proof
  show "choices_apart (rp_cfg (maxonlinereport tz))" and "distinct (map fst (pg_widgets (rp_cfg (maxonlinereport tz))))"
    by (simp_all add: maxonlinereport_def maxonlinereport_cfg_def cfg_eval)
  show "guarded_query (rp_cfg (maxonlinereport tz)) (rp_query (maxonlinereport tz))"
    using maxonlinereport_guarded by (simp add: maxonlinereport_def)
qed (auto simp: maxonlinereport_def maxonlinereport_launch_def maxonlinereport_onBtnExport_def maxonlinereport_updateGrid_def
      maxonlinereport_cfg_def init_store_def new_store_def page_simps result_store_def
      maxonlinereport_mk_def present_def intro!: page_intros)

lemma newusersreport_guarded: "guarded_query newusersreport_cfg newusersreport_onBtnQuery"
  by (rule guarded_queryI)
    (unfold newusersreport_onBtnQuery_def Let_def, rule refl, auto simp: nullish_falsy)

interpretation newusersreport: mapped_report "(newusersreport tz)" "''store_grid''" "has_hours ''counts''" "newusersreport_mk tz" "newusersreport_row tz" for tz
proof
  show "choices_apart (rp_cfg (newusersreport tz))" and "distinct (map fst (pg_widgets (rp_cfg (newusersreport tz))))"
    by (simp_all add: newusersreport_def newusersreport_cfg_def cfg_eval)
  show "guarded_query (rp_cfg (newusersreport tz)) (rp_query (newusersreport tz))"
    using newusersreport_guarded by (simp add: newusersreport_def)
qed (auto simp: newusersreport_def newusersreport_launch_def newusersreport_onBtnExport_def newusersreport_updateGrid_def
      newusersreport_cfg_def init_store_def new_store_def page_simps result_store_def
      newusersreport_mk_def has_hours_def intro!: page_intros)

lemma activeusersreport_guarded: "guarded_query activeusersreport_cfg activeusersreport_onBtnQuery"
  by (rule guarded_queryI)
    (unfold activeusersreport_onBtnQuery_def Let_def, rule refl, auto simp: nullish_falsy)

interpretation activeusersreport: mapped_report "(activeusersreport tz)" "''store_grid''" "has_hours ''counts''" "activeusersreport_mk tz" "activeusersreport_row tz" for tz
proof
  show "choices_apart (rp_cfg (activeusersreport tz))" and "distinct (map fst (pg_widgets (rp_cfg (activeusersreport tz))))"
    by (simp_all add: activeusersreport_def activeusersreport_cfg_def cfg_eval)
  show "guarded_query (rp_cfg (activeusersreport tz)) (rp_query (activeusersreport tz))"
    using activeusersreport_guarded by (simp add: activeusersreport_def)
qed (auto simp: activeusersreport_def activeusersreport_launch_def activeusersreport_onBtnExport_def activeusersreport_updateGrid_def
      activeusersreport_cfg_def init_store_def new_store_def page_simps result_store_def
      activeusersreport_mk_def has_hours_def intro!: page_intros)

lemma totalactive_guarded: "guarded_query totalactive_cfg totalactive_onBtnQuery"
  by (rule guarded_queryI)
    (unfold totalactive_onBtnQuery_def Let_def, rule refl, auto simp: nullish_falsy)

interpretation totalactive: asking_page totalactive
proof
  show "choices_apart (rp_cfg totalactive)" and "distinct (map fst (pg_widgets (rp_cfg totalactive)))"
    by (simp_all add: totalactive_def totalactive_cfg_def cfg_eval)
  show "guarded_query (rp_cfg totalactive) (rp_query totalactive)"
    using totalactive_guarded by (simp add: totalactive_def)
qed (auto simp: totalactive_def totalactive_onSuccess_def result_store_def)

interpretation totalactive: answered_store totalactive "''store''" "\<lambda>res. True"
    "\<lambda>res. [[(''counts_user'', js_prop res ''counts_user''), (''counts_account'', js_prop res ''counts_account'')]]"
    "\<lambda>old new. new"
  by unfold_locales
    (auto simp: guarded_query_frame [OF totalactive_guarded] totalactive_def totalactive_onSuccess_def store_add_def
      store_removeAll_def totalactive_cfg_def init_store_def new_store_def)

interpretation totalactive: report_program totalactive
  by unfold_locales
    (auto simp: totalactive_def totalactive_onSuccess_def guarded_query_frame [OF totalactive_guarded]
      page_ok_stores_cong [OF guarded_query_frame(1) [OF totalactive_guarded]] intro!: page_intros)

end
