(* ===== verification/Recharge_Reports.thy ===== *)
theory Recharge_Reports
  imports Page_Runs
begin

text \<open>
  The pages on recharges (\<open>player_recharge_record.js\<close>, \<open>player_recharge_report.js\<close>,
  \<open>new_player_recharge_report.js\<close>): they keep all rows for the export and show the first
  fifty, as the pages of \<open>Reports_Saved\<close> do; two of them offer sdks and zones in one list.
\<close>

section \<open>player_recharge_record.js\<close>

definition player_recharge_record_columns :: "column list" where
  "player_recharge_record_columns = [
     col ''PID'' ''pid'',
     col (uni [0x65E5, 0x671F]) ''date'',
     col (uni [0x533A]) ''zone_id'',
     col (uni [0x5E73, 0x53F0]) ''platform'',
     col (uni [0x6570, 0x91CF]) ''num'',
     col (uni [0x5145, 0x503C]) ''goods'']"

definition player_recharge_record_cfg :: page_cfg where
  "player_recharge_record_cfg =
     \<lparr>app_name = ''playerrechargerecord'',
      pg_stores =
       [(''save_store'', [''pid'', ''date'', ''zone_id'', ''platform'', ''num'', ''goods''], []),
        (''store_grid'', [''pid'', ''date'', ''zone_id'', ''platform'', ''num'', ''goods''], []),
        (''store_zone'', [''zone_name'', ''zone_id''], []),
        (''store_plat'', [''name'', ''platform''],
          [[(''name'', JStr (uni [0x5B89, 0x5353])), (''platform'', JStr ''android'')],
           [(''name'', JStr (uni [0x82F9, 0x679C])), (''platform'', JStr ''ios'')],
           [(''name'', JStr ''Unity''), (''platform'', JStr ''editor'')]])],
      pg_widgets =
       [(''zone_input'', local_combo ''str_zone'' ''store_zone'' ''zone_id'' ''zone_name'' ''str_plz_select_zone'' 235),
        (''date_start'', date_field ''query_date_start'' ''str_date_start''),
        (''date_end'', date_field ''query_date_end'' ''str_date_end''),
        (''platform_input'', local_combo ''str_platform'' ''store_plat'' ''platform'' ''name'' ''str_plz_select_platform'' 235),
        (''btn_query'', query_button),
        (''btn_export'', export_button)],
      pg_grids =
       [(''data_grid'', \<lparr>gr_title = [], gr_store = ''store_grid'', gr_columns = player_recharge_record_columns\<rparr>)]\<rparr>"

definition player_recharge_record_launch :: "ajax_opts \<times> page callback" where
  "player_recharge_record_launch = (get_choices ''/statshelper/get_zones'', zones_loaded)"

definition player_recharge_record_onBtnQuery :: "page \<Rightarrow> page" where
  "player_recharge_record_onBtnQuery p =
     (let zone_id = getValue p ''zone_input'';
          platform = getValue p ''platform_input'';
          start_date = getValue p ''date_start'';
          end_date = getValue p ''date_end''
      in run_query
          [(falsy zone_id, ''str_plz_select_zone''),
           (falsy platform, ''str_plz_select_platform''),
           (falsy start_date, ''str_plz_select_date_start''),
           (falsy end_date, ''str_plz_select_date_end'')]
          (getRawValue p ''zone_input'' @ ''_'' @ getRawValue p ''platform_input'' @ ''_'' @ getRawValue p ''date_start'' @ ''_'' @ getRawValue p ''date_end'' @ (uni [0x5145, 0x503C, 0x8BB0, 0x5F55]))
          (post ''/recharge/get_player_recharge_record'' [(''start_date'', start_date), (''end_date'', end_date), (''zone_id'', zone_id), (''platform'', platform)]) p)"

definition player_recharge_record_row :: "(string \<times> string) list" where
  "player_recharge_record_row =
     [(''pid'', ''pid''), (''date'', ''date''), (''zone_id'', ''zone_id''), (''platform'', ''platform''), (''num'', ''num''), (''goods'', ''goods'')]"

definition player_recharge_record_updateGrid :: "page callback" where
  "player_recharge_record_updateGrid res p = fill_both True player_recharge_record_row (js_prop res ''res'') p"

definition player_recharge_record_onBtnExport :: "page \<Rightarrow> page" where
  "player_recharge_record_onBtnExport p = start_export (KExport (g_search_name p)) ''save_store'' player_recharge_record_columns p"

definition player_recharge_record_view :: layout where
  "player_recharge_record_view = \<lparr>toolbar = [''zone_input'', ''platform_input'', ''date_start'', ''date_end'', ''btn_query'', ''btn_export''], center = [''data_grid'']\<rparr>"

definition player_recharge_record :: report where
  "player_recharge_record =
     \<lparr>rp_cfg = player_recharge_record_cfg, rp_launch = Some player_recharge_record_launch,
      rp_query = player_recharge_record_onBtnQuery, rp_done = player_recharge_record_updateGrid,
      rp_export = player_recharge_record_onBtnExport, rp_then = id\<rparr>"

section \<open>player_recharge_report.js\<close>

definition player_recharge_report_columns :: "column list" where
  "player_recharge_report_columns = [
     col (uni [0x5145, 0x503C, 0x7C7B, 0x578B]) ''goods'',
     col (uni [0x5E73, 0x53F0]) ''platform'',
     col (uni [0x65E5, 0x671F]) ''date'',
     col (uni [0x7C7B, 0x578B]) ''key_value'',
     col (uni [0x65B0, 0x589E, 0x5145, 0x503C]) ''new_num'',
     col (uni [0x603B, 0x5145, 0x503C]) ''num'',
     col (uni [0x65B0, 0x589E, 0x5145, 0x503C, 0x73A9, 0x5BB6]) ''new_players'',
     col (uni [0x603B, 0x5145, 0x503C, 0x73A9, 0x5BB6]) ''players'']"

definition player_recharge_report_cfg :: page_cfg where
  "player_recharge_report_cfg =
     \<lparr>app_name = ''playerrechargereport'',
      pg_stores =
       [(''save_store'', [''goods'', ''platform'', ''date'', ''key_value'', ''new_num'', ''num'', ''new_players'', ''players''], []),
        (''store_grid'', [''goods'', ''platform'', ''date'', ''key_value'', ''new_num'', ''num'', ''new_players'', ''players''], []),
        (''store_cat1'', [''catname'', ''category''], []),
        (''store_plat'', [''name'', ''platform''],
          [[(''name'', JStr ''all''), (''platform'', JStr ''all'')],
           [(''name'', JStr (uni [0x5B89, 0x5353])), (''platform'', JStr ''android'')],
           [(''name'', JStr (uni [0x82F9, 0x679C])), (''platform'', JStr ''ios'')],
           [(''name'', JStr ''Unity''), (''platform'', JStr ''editor'')]])],
      pg_widgets =
       [(''cat_input1'', local_combo ''str_sdk_plat_cat'' ''store_cat1'' ''category'' ''catname'' ''str_plz_select_sdk_plat'' 235),
        (''date_start'', date_field ''query_date_start'' ''str_date_start''),
        (''date_end'', date_field ''query_date_end'' ''str_date_end''),
        (''platform_input'', local_combo ''str_platform'' ''store_plat'' ''platform'' ''name'' ''str_plz_select_platform'' 235),
        (''btn_query'', query_button),
        (''btn_export'', export_button)],
      pg_grids =
       [(''data_grid'', \<lparr>gr_title = [], gr_store = ''store_grid'', gr_columns = player_recharge_report_columns\<rparr>)]\<rparr>"

definition player_recharge_report_launch :: "ajax_opts \<times> page callback" where
  "player_recharge_report_launch = (get_choices ''/statsorign/get_sdk_plats'', recharge_cats_loaded True)"

definition player_recharge_report_onBtnQuery :: "page \<Rightarrow> page" where
  "player_recharge_report_onBtnQuery p =
     (let cat = getValue p ''cat_input1'';
          platform = getValue p ''platform_input'';
          start_date = getValue p ''date_start'';
          end_date = getValue p ''date_end''
      in run_query
          [(falsy cat, ''str_plz_select_zone''),
           (falsy platform, ''str_plz_select_platform''),
           (falsy start_date, ''str_plz_select_date''),
           (falsy end_date, ''str_plz_select_date'')]
          (getRawValue p ''cat_input1'' @ ''_'' @ getRawValue p ''platform_input'' @ ''_'' @ getRawValue p ''date_start'' @ ''_'' @ getRawValue p ''date_end'')
          (post ''/recharge/get_player_recharge_report'' [(''date_start'', start_date), (''date_end'', end_date), (''cat'', cat), (''platform'', platform)]) p)"

definition player_recharge_report_row :: "(string \<times> string) list" where
  "player_recharge_report_row =
     [(''goods'', ''goods''), (''platform'', ''platform''), (''date'', ''date''), (''key_value'', ''key_value''), (''new_num'', ''new_num''), (''num'', ''num''), (''new_players'', ''new_players''), (''players'', ''players'')]"

definition player_recharge_report_updateGrid :: "page callback" where
  "player_recharge_report_updateGrid res p = fill_both True player_recharge_report_row (js_prop res ''res'') p"

definition player_recharge_report_onBtnExport :: "page \<Rightarrow> page" where
  "player_recharge_report_onBtnExport p = start_export (KExport (g_search_name p)) ''save_store'' player_recharge_report_columns p"

definition player_recharge_report_view :: layout where
  "player_recharge_report_view = \<lparr>toolbar = [''cat_input1'', ''platform_input'', ''date_start'', ''date_end'', ''btn_query'', ''btn_export''], center = [''data_grid'']\<rparr>"

definition player_recharge_report :: report where
  "player_recharge_report =
     \<lparr>rp_cfg = player_recharge_report_cfg, rp_launch = Some player_recharge_report_launch,
      rp_query = player_recharge_report_onBtnQuery, rp_done = player_recharge_report_updateGrid,
      rp_export = player_recharge_report_onBtnExport, rp_then = id\<rparr>"

section \<open>new_player_recharge_report.js\<close>

definition new_player_recharge_report_columns :: "column list" where
  "new_player_recharge_report_columns = [
     col (uni [0x7C7B, 0x578B]) ''goods'',
     col (uni [0x6570, 0x91CF]) ''num'',
     col (uni [0x8D26, 0x6237]) ''accounts'']"

definition new_player_recharge_report_cfg :: page_cfg where
  "new_player_recharge_report_cfg =
     \<lparr>app_name = ''newplayerrechargereport'',
      pg_stores =
       [(''save_store'', [''goods'', ''num'', ''accounts''], []),
        (''store_grid'', [''goods'', ''num'', ''accounts''], []),
        (''store_cat1'', [''catname'', ''category''], []),
        (''store_plat'', [''name'', ''platform''],
          [[(''name'', JStr ''all''), (''platform'', JStr ''all'')],
           [(''name'', JStr (uni [0x5B89, 0x5353])), (''platform'', JStr ''android'')],
           [(''name'', JStr (uni [0x82F9, 0x679C])), (''platform'', JStr ''ios'')],
           [(''name'', JStr ''Unity''), (''platform'', JStr ''editor'')]])],
      pg_widgets =
       [(''cat_input'', local_combo ''str_sdk_plat_cat'' ''store_cat1'' ''category'' ''catname'' ''str_plz_select_sdk_plat'' 235),
        (''date_start'', date_field ''query_date_start'' ''str_date_start''),
        (''date_end'', date_field ''query_date_end'' ''str_date_end''),
        (''platform_input'', local_combo ''str_platform'' ''store_plat'' ''platform'' ''name'' ''str_plz_select_platform'' 235),
        (''btn_query'', query_button),
        (''btn_export'', export_button)],
      pg_grids =
       [(''data_grid'', \<lparr>gr_title = [], gr_store = ''store_grid'', gr_columns = new_player_recharge_report_columns\<rparr>)]\<rparr>"

definition new_player_recharge_report_launch :: "ajax_opts \<times> page callback" where
  "new_player_recharge_report_launch = (get_choices ''/statsorign/get_sdk_plats'', recharge_cats_loaded False)"

definition new_player_recharge_report_onBtnQuery :: "page \<Rightarrow> page" where
  "new_player_recharge_report_onBtnQuery p =
     (let cat = getValue p ''cat_input'';
          platform = getValue p ''platform_input'';
          start_date = getValue p ''date_start'';
          end_date = getValue p ''date_end''
      in run_query
          [(falsy cat, ''str_plz_select_zone''),
           (falsy platform, ''str_plz_select_platform''),
           (falsy start_date, ''str_plz_select_date_start''),
           (falsy end_date, ''str_plz_select_date_end'')]
          (getRawValue p ''cat_input'' @ ''_'' @ getRawValue p ''platform_input'' @ ''_'' @ getRawValue p ''date_start'' @ ''_'' @ getRawValue p ''date_end'' @ (uni [0x65B0, 0x589E, 0x5145, 0x503C, 0x7EDF, 0x8BA1]))
          (post ''/recharge/get_new_player_recharge_report'' [(''start_date'', start_date), (''end_date'', end_date), (''cat'', cat), (''platform'', platform)]) p)"

definition new_player_recharge_report_row :: "(string \<times> string) list" where
  "new_player_recharge_report_row =
     [(''goods'', ''goods''), (''num'', ''num''), (''accounts'', ''accounts'')]"

definition new_player_recharge_report_updateGrid :: "page callback" where
  "new_player_recharge_report_updateGrid res p = fill_both False new_player_recharge_report_row (js_prop res ''res'') p"

definition new_player_recharge_report_onBtnExport :: "page \<Rightarrow> page" where
  "new_player_recharge_report_onBtnExport p = start_export (KExport (g_search_name p)) ''save_store'' new_player_recharge_report_columns p"

definition new_player_recharge_report_view :: layout where
  "new_player_recharge_report_view = \<lparr>toolbar = [''cat_input'', ''platform_input'', ''date_start'', ''date_end'', ''btn_query'', ''btn_export''], center = [''data_grid'']\<rparr>"

definition new_player_recharge_report :: report where
  "new_player_recharge_report =
     \<lparr>rp_cfg = new_player_recharge_report_cfg, rp_launch = Some new_player_recharge_report_launch,
      rp_query = new_player_recharge_report_onBtnQuery, rp_done = new_player_recharge_report_updateGrid,
      rp_export = new_player_recharge_report_onBtnExport, rp_then = id\<rparr>"

definition recharge_pages :: "(report \<times> layout \<times> (string \<times> string) list \<times> bool) list" where
  "recharge_pages =
     [(player_recharge_record, player_recharge_record_view, player_recharge_record_row, True),
      (player_recharge_report, player_recharge_report_view, player_recharge_report_row, True),
      (new_player_recharge_report, new_player_recharge_report_view, new_player_recharge_report_row, False)]"

section \<open>The pages keep the contract\<close>

lemma player_recharge_record_guarded: "guarded_query player_recharge_record_cfg player_recharge_record_onBtnQuery"
  by (rule guarded_queryI)
    (unfold player_recharge_record_onBtnQuery_def Let_def, rule refl, auto simp: nullish_falsy)

interpretation player_recharge_record: keeping_report player_recharge_record player_recharge_record_row True
proof
  show "choices_apart (rp_cfg player_recharge_record)" and "distinct (map fst (pg_widgets (rp_cfg player_recharge_record)))"
    by (simp_all add: player_recharge_record_def player_recharge_record_cfg_def cfg_eval)
  show "guarded_query (rp_cfg player_recharge_record) (rp_query player_recharge_record)"
    using player_recharge_record_guarded by (simp add: player_recharge_record_def)
qed (auto simp: player_recharge_record_def player_recharge_record_launch_def player_recharge_record_onBtnExport_def player_recharge_record_updateGrid_def player_recharge_record_cfg_def
      init_store_def new_store_def page_simps result_store_def)

lemma player_recharge_report_guarded: "guarded_query player_recharge_report_cfg player_recharge_report_onBtnQuery"
  by (rule guarded_queryI)
    (unfold player_recharge_report_onBtnQuery_def Let_def, rule refl, auto simp: nullish_falsy)

interpretation player_recharge_report: keeping_report player_recharge_report player_recharge_report_row True
proof
  show "choices_apart (rp_cfg player_recharge_report)" and "distinct (map fst (pg_widgets (rp_cfg player_recharge_report)))"
    by (simp_all add: player_recharge_report_def player_recharge_report_cfg_def cfg_eval)
  show "guarded_query (rp_cfg player_recharge_report) (rp_query player_recharge_report)"
    using player_recharge_report_guarded by (simp add: player_recharge_report_def)
qed (auto simp: player_recharge_report_def player_recharge_report_launch_def player_recharge_report_onBtnExport_def player_recharge_report_updateGrid_def player_recharge_report_cfg_def
      init_store_def new_store_def page_simps result_store_def)

lemma new_player_recharge_report_guarded: "guarded_query new_player_recharge_report_cfg new_player_recharge_report_onBtnQuery"
  by (rule guarded_queryI)
    (unfold new_player_recharge_report_onBtnQuery_def Let_def, rule refl, auto simp: nullish_falsy)

interpretation new_player_recharge_report: keeping_report new_player_recharge_report new_player_recharge_report_row False
proof
  show "choices_apart (rp_cfg new_player_recharge_report)" and "distinct (map fst (pg_widgets (rp_cfg new_player_recharge_report)))"
    by (simp_all add: new_player_recharge_report_def new_player_recharge_report_cfg_def cfg_eval)
  show "guarded_query (rp_cfg new_player_recharge_report) (rp_query new_player_recharge_report)"
    using new_player_recharge_report_guarded by (simp add: new_player_recharge_report_def)
qed (auto simp: new_player_recharge_report_def new_player_recharge_report_launch_def new_player_recharge_report_onBtnExport_def new_player_recharge_report_updateGrid_def new_player_recharge_report_cfg_def
      init_store_def new_store_def page_simps result_store_def)

lemma recharge_pages_contract: "(r, v, ks, clr) \<in> set recharge_pages \<Longrightarrow> keeping_report r ks clr"
  unfolding recharge_pages_def
  by (auto intro: player_recharge_record.keeping_report_axioms player_recharge_report.keeping_report_axioms new_player_recharge_report.keeping_report_axioms)

end
