(* ===== verification/Guild_Reports.thy ===== *)
theory Guild_Reports
  imports Page_Runs
begin

text \<open>
  The two pages on guilds that merge rows (\<open>guild_skill_record.js\<close>, \<open>guild_active_record.js\<close>).
  The server sends one row per skill and level range, or per guild and activity; the page
  collects neighbouring rows of one skill, or one guild, in one object and writes it to the
  stores when the next one begins. The loop is modelled as it is written; \<open>groups\<close> is the
  reference: the rows cut wherever the key changes.
\<close>

section \<open>Merging neighbouring rows\<close>

text \<open>
  One round of the loops: \<open>d\<close> is what has been collected, \<open>pre\<close> the key of the row before,
  \<open>s\<close> what is written to. When the key changes, the collection is written and started anew.
\<close>

definition merge_step ::
  "string \<Rightarrow> (jsval \<Rightarrow> 'd \<Rightarrow> 'd) \<Rightarrow> 'd \<Rightarrow> (nat \<Rightarrow> 'd \<Rightarrow> 's \<Rightarrow> 's) \<Rightarrow> nat \<times> jsval \<Rightarrow> 'd \<times> jsval \<times> 's \<Rightarrow> ('d \<times> jsval \<times> 's) outcome" where
  "merge_step key row z flush ix st =
     (case (ix, st) of ((i, rc), (d, pre, s)) \<Rightarrow>
        if nullish rc then Threw TypeError st
        else if 0 < i \<and> \<not> js_eq (js_prop rc key) pre
        then Done (row rc z, js_prop rc key, flush i d s)
        else Done (row rc d, js_prop rc key, s))"

text \<open>What follows the loop, unless it threw; \<open>pg\<close> finds the page in what is written to.\<close>

definition after_loop :: "('s \<Rightarrow> page) \<Rightarrow> ('d \<Rightarrow> 's \<Rightarrow> page) \<Rightarrow> ('d \<times> jsval \<times> 's) outcome \<Rightarrow> page outcome" where
  "after_loop pg f r = (case r of Threw e st \<Rightarrow> Threw e (pg (snd (snd st))) | Done st \<Rightarrow> Done (f (fst st) (snd (snd st))))"

section \<open>The reference\<close>

fun cut_rows :: "string \<Rightarrow> jsval \<Rightarrow> jsval list \<Rightarrow> jsval list \<Rightarrow> jsval list list" where
  "cut_rows key pre acc [] = [acc]"
| "cut_rows key pre acc (x # xs) =
     (if js_eq (js_prop x key) pre then cut_rows key (js_prop x key) (acc @ [x]) xs
      else acc # cut_rows key (js_prop x key) [x] xs)"

text \<open>No rows at all count as one empty group: both pages write an empty object then.\<close>

definition groups :: "string \<Rightarrow> jsval list \<Rightarrow> jsval list list" where
  "groups key xs = (case xs of [] \<Rightarrow> [[]] | x # ys \<Rightarrow> cut_rows key (js_prop x key) [x] ys)"

definition merged :: "(jsval \<Rightarrow> 'd \<Rightarrow> 'd) \<Rightarrow> 'd \<Rightarrow> jsval list \<Rightarrow> 'd" where
  "merged row z g = fold row g z"

fun flush_groups :: "(nat \<Rightarrow> 'd \<Rightarrow> 's \<Rightarrow> 's) \<Rightarrow> (jsval list \<Rightarrow> 'd) \<Rightarrow> nat \<Rightarrow> jsval list list \<Rightarrow> 's \<Rightarrow> 's" where
  "flush_groups flush m k [] s = s"
| "flush_groups flush m k (g # gs) s = flush_groups flush m (k + length g) gs (flush (k + length g) (m g) s)"

section \<open>guild_skill_record.js\<close>

definition guild_skill_record_fields :: "string list" where
  "guild_skill_record_fields =
     [''date'', ''skill_id'', ''num_1'', ''num_2'', ''num_3'', ''num_4'', ''num_5'', ''num_6'', ''num_7'', ''num_8'', ''num_9'', ''num_10'', ''num_11'', ''num_12'', ''num_13'', ''num_14'']"

definition guild_skill_record_columns :: "column list" where
  "guild_skill_record_columns = [
     col (uni [0x65E5, 0x671F]) ''date'',
     col ((uni [0x6280, 0x80FD]) @ ''ID'') ''skill_id'',
     col (''1-5'' @ (uni [0x7EA7, 0x4EBA, 0x6570])) ''num_1'',
     col (''6-10'' @ (uni [0x7EA7, 0x4EBA, 0x6570])) ''num_2'',
     col (''11-15'' @ (uni [0x7EA7, 0x4EBA, 0x6570])) ''num_3'',
     col (''16-20'' @ (uni [0x7EA7, 0x4EBA, 0x6570])) ''num_4'',
     col (''21-25'' @ (uni [0x7EA7, 0x4EBA, 0x6570])) ''num_5'',
     col (''26-30'' @ (uni [0x7EA7, 0x4EBA, 0x6570])) ''num_6'',
     col (''31-35'' @ (uni [0x7EA7, 0x4EBA, 0x6570])) ''num_7'',
     col (''36-40'' @ (uni [0x7EA7, 0x4EBA, 0x6570])) ''num_8'',
     col (''41-45'' @ (uni [0x7EA7, 0x4EBA, 0x6570])) ''num_9'',
     col (''46-50'' @ (uni [0x7EA7, 0x4EBA, 0x6570])) ''num_10'',
     col (''51-55'' @ (uni [0x7EA7, 0x4EBA, 0x6570])) ''num_11'',
     col (''56-60'' @ (uni [0x7EA7, 0x4EBA, 0x6570])) ''num_12'',
     col (''61-65'' @ (uni [0x7EA7, 0x4EBA, 0x6570])) ''num_13'',
     col (''66-70'' @ (uni [0x7EA7, 0x4EBA, 0x6570])) ''num_14'']"

definition guild_skill_record_cfg :: page_cfg where
  "guild_skill_record_cfg =
     \<lparr>app_name = ''guild_skill_record'',
      pg_stores =
       [(''save_store'', guild_skill_record_fields, []),
        (''store_grid'', guild_skill_record_fields, []),
        (''store_zone'', [''zone_name'', ''zone_id''], []),
        (''store_sdk'', [''sdk_name'', ''sdk''], []),
        (''store_platform'', [''platform_name'', ''platform''], [])],
      pg_widgets =
       [(''zone_input'', local_combo ''str_zone'' ''store_zone'' ''zone_id'' ''zone_name'' ''str_plz_select_zone'' 200),
        (''sdk_input'', local_combo ''str_sdk'' ''store_sdk'' ''sdk'' ''sdk_name'' ''str_plz_select_sdk'' 200),
        (''platform_input'',
          local_combo ''str_platform'' ''store_platform'' ''platform'' ''platform_name'' ''str_plz_select_platform'' 200),
        (''date_start'', date_field ''query_date_start'' ''str_date_start''),
        (''date_end'', date_field ''query_date_end'' ''str_date_end''),
        (''btn_query'', query_button),
        (''btn_export'', export_button)],
      pg_grids = [(''data_grid'', \<lparr>gr_title = [], gr_store = ''store_grid'', gr_columns = guild_skill_record_columns\<rparr>)]\<rparr>"

definition guild_skill_record_launch :: "ajax_opts \<times> page callback" where
  "guild_skill_record_launch = (get_choices ''/statsorign/get_sdk_plats'', sdk_plats_loaded)"

definition guild_skill_record_onBtnQuery :: "page \<Rightarrow> page" where
  "guild_skill_record_onBtnQuery p =
     (let zone_id = getValue p ''zone_input'';
          sdk = getValue p ''sdk_input'';
          platform = getValue p ''platform_input'';
          start_date = getValue p ''date_start'';
          end_date = getValue p ''date_end''
      in run_query
          [(nullish zone_id, ''str_plz_select_zone''),
           (falsy sdk, ''str_plz_select_sdk''),
           (falsy platform, ''str_plz_select_platform''),
           (falsy start_date, ''str_plz_select_date_start''),
           (falsy end_date, ''str_plz_select_date_end'')]
          (getRawValue p ''zone_input'' @ ''_'' @ getRawValue p ''date_start'' @ ''_'' @ getRawValue p ''date_end'' @
            (uni [0x5DE5, 0x4F1A, 0x4EBA, 0x6570, 0x7B49, 0x7EA7, 0x5206, 0x5E03]))
          (post ''/statshelper/get_guild_skill_record''
            [(''start_date'', start_date), (''end_date'', end_date), (''zone_id'', zone_id), (''sdk'', sdk),
             (''platform'', platform)]) p)"

definition skill_row :: "jsval \<Rightarrow> jsobj \<Rightarrow> jsobj" where
  "skill_row rc d =
     obj_set (''num_'' @ js_to_string (js_add (js_prop rc ''lv_rgn'') (JNum 1))) (js_prop rc ''num'')
       (obj_set ''skill_id'' (js_prop rc ''skill_id'') (obj_set ''date'' (js_prop rc ''date'') d))"

definition skill_flush :: "nat \<Rightarrow> jsobj \<Rightarrow> page \<Rightarrow> page" where
  "skill_flush i final_data p =
     (let p1 = add_to ''save_store'' final_data p
      in if i < 50 then add_to ''store_grid'' final_data p1 else p1)"

definition guild_skill_record_updateGrid :: "page callback" where
  "guild_skill_record_updateGrid res p =
     with_val (js_items (js_prop res ''res''))
       (\<lambda>xs p. after_loop id (skill_flush (length xs))
          (js_for (merge_step ''skill_id'' skill_row [] skill_flush) (enumerate 0 xs) ([], JStr [], p)))
       (clear_store ''store_grid'' p)"

definition guild_skill_record_onBtnExport :: "page \<Rightarrow> page" where
  "guild_skill_record_onBtnExport p = start_export (KExport (g_search_name p)) ''save_store'' guild_skill_record_columns p"

definition guild_skill_record_view :: layout where
  "guild_skill_record_view =
     \<lparr>toolbar = [''zone_input'', ''sdk_input'', ''platform_input'', ''date_start'', ''date_end'', ''btn_query'',
        ''btn_export''], center = [''data_grid'']\<rparr>"

definition guild_skill_record :: report where
  "guild_skill_record =
     \<lparr>rp_cfg = guild_skill_record_cfg, rp_launch = Some guild_skill_record_launch, rp_query = guild_skill_record_onBtnQuery,
      rp_done = guild_skill_record_updateGrid, rp_export = guild_skill_record_onBtnExport, rp_then = id\<rparr>"

section \<open>guild_active_record.js\<close>

definition guild_active_record_fields :: "string list" where
  "guild_active_record_fields =
     [''date'', ''guild_id'', ''receive_guild_red_envelope'', ''receive_prop_red_envelope'', ''donate'', ''mrjj'', ''upgrade_science'', ''gve'']"

definition guild_active_record_columns :: "column list" where
  "guild_active_record_columns = [
     col (uni [0x65E5, 0x671F]) ''date'',
     col ((uni [0x5DE5, 0x4F1A]) @ ''ID'') ''guild_id'',
     col (uni [0x5DE5, 0x4F1A, 0x7EA2, 0x5305]) ''receive_guild_red_envelope'',
     col (uni [0x9053, 0x5177, 0x7EA2, 0x5305]) ''receive_prop_red_envelope'',
     col (uni [0x6350, 0x732E]) ''donate'',
     col (uni [0x6BCF, 0x65E5, 0x57FA, 0x91D1]) ''mrjj'',
     col (uni [0x5347, 0x7EA7, 0x79D1, 0x6280]) ''upgrade_science'',
     col (uni [0x5DE5, 0x4F1A, 0x6218]) ''gve'']"

definition guild_active_record_cfg :: page_cfg where
  "guild_active_record_cfg =
     \<lparr>app_name = ''guild_skill_record'',
      pg_stores =
       [(''save_store'', guild_active_record_fields, []),
        (''store_grid'', guild_active_record_fields, []),
        (''store_zone'', [''zone_name'', ''zone_id''], []),
        (''store_sdk'', [''sdk_name'', ''sdk''], []),
        (''store_platform'', [''platform_name'', ''platform''], [])],
      pg_widgets =
       [(''zone_input'', local_combo ''str_zone'' ''store_zone'' ''zone_id'' ''zone_name'' ''str_plz_select_zone'' 200),
        (''sdk_input'', local_combo ''str_sdk'' ''store_sdk'' ''sdk'' ''sdk_name'' ''str_plz_select_sdk'' 200),
        (''platform_input'',
          local_combo ''str_platform'' ''store_platform'' ''platform'' ''platform_name'' ''str_plz_select_platform'' 200),
        (''date_start'', date_field ''query_date_start'' ''str_date_start''),
        (''date_end'', date_field ''query_date_end'' ''str_date_end''),
        (''btn_query'', query_button),
        (''btn_export'', export_button)],
      pg_grids = [(''data_grid'', \<lparr>gr_title = [], gr_store = ''store_grid'', gr_columns = guild_active_record_columns\<rparr>)]\<rparr>"

definition guild_active_record_launch :: "ajax_opts \<times> page callback" where
  "guild_active_record_launch = (get_choices ''/statsorign/get_sdk_plats'', sdk_plats_loaded)"

definition guild_active_record_onBtnQuery :: "page \<Rightarrow> page" where
  "guild_active_record_onBtnQuery p =
     (let zone_id = getValue p ''zone_input'';
          sdk = getValue p ''sdk_input'';
          platform = getValue p ''platform_input'';
          start_date = getValue p ''date_start'';
          end_date = getValue p ''date_end''
      in run_query
          [(nullish zone_id, ''str_plz_select_zone''),
           (falsy sdk, ''str_plz_select_sdk''),
           (falsy platform, ''str_plz_select_platform''),
           (falsy start_date, ''str_plz_select_date_start''),
           (falsy end_date, ''str_plz_select_date_end'')]
          (getRawValue p ''zone_input'' @ ''_'' @ getRawValue p ''date_start'' @ ''_'' @ getRawValue p ''date_end'' @
            (uni [0x5DE5, 0x4F1A, 0x4EBA, 0x6570, 0x7B49, 0x7EA7, 0x5206, 0x5E03]))
          (post ''/statshelper/get_guild_active_record''
            [(''start_date'', start_date), (''end_date'', end_date), (''zone_id'', zone_id), (''sdk'', sdk),
             (''platform'', platform)]) p)"

definition active_row :: "jsval \<Rightarrow> jsobj \<Rightarrow> jsobj" where
  "active_row rc d =
     obj_set (js_to_string (js_prop rc ''active_type'')) (js_prop rc ''num'')
       (obj_set ''guild_id'' (js_add (JStr ''guild_'') (js_prop rc ''guild_id'')) (obj_set ''date'' (js_prop rc ''date'') d))"

text \<open>\<open>data_store\<close> and \<open>data_save\<close> side by side; \<open>c\<close> counts what the grid has got.\<close>

definition active_rows :: "jsval \<Rightarrow> jsobj \<times> jsobj \<Rightarrow> jsobj \<times> jsobj" where
  "active_rows rc ds = (active_row rc (fst ds), active_row rc (snd ds))"

definition active_flush :: "nat \<Rightarrow> jsobj \<times> jsobj \<Rightarrow> nat \<times> page \<Rightarrow> nat \<times> page" where
  "active_flush i ds cp =
     (case (ds, cp) of ((data_store, data_save), (c, p)) \<Rightarrow>
        let p1 = add_to ''save_store'' data_save p
        in if c < 50 then (c + 1, add_to ''store_grid'' data_store p1) else (c, p1))"

text \<open>The bound of \<open>for (i = 0; i < v; ...)\<close>.\<close>

definition loop_bound :: "jsval \<Rightarrow> nat" where
  "loop_bound v = (case js_to_number v of Some n \<Rightarrow> nat n | None \<Rightarrow> 0)"

definition active_finish :: "jsobj \<times> jsobj \<Rightarrow> nat \<times> page \<Rightarrow> page" where
  "active_finish ds cp =
     (case (ds, cp) of ((data_store, data_save), (c, p)) \<Rightarrow>
        let p1 = add_to ''save_store'' data_save p;
            list_grid = (if c < 50 then [data_store] else [])
        in fold (add_to ''store_grid'') (take (loop_bound (JArr (map JObj list_grid))) list_grid) p1)"

definition guild_active_record_updateGrid :: "page callback" where
  "guild_active_record_updateGrid res p =
     with_val (js_items (js_prop res ''res''))
       (\<lambda>xs p. after_loop snd active_finish
          (js_for (merge_step ''guild_id'' active_rows ([], []) active_flush) (enumerate 0 xs)
            (([], []), JStr [], (0, p))))
       (clear_store ''save_store'' (clear_store ''store_grid'' p))"

definition guild_active_record_onBtnExport :: "page \<Rightarrow> page" where
  "guild_active_record_onBtnExport p = start_export (KExport (g_search_name p)) ''save_store'' guild_active_record_columns p"

definition guild_active_record_view :: layout where
  "guild_active_record_view =
     \<lparr>toolbar = [''zone_input'', ''sdk_input'', ''platform_input'', ''date_start'', ''date_end'', ''btn_query'',
        ''btn_export''], center = [''data_grid'']\<rparr>"

definition guild_active_record :: report where
  "guild_active_record =
     \<lparr>rp_cfg = guild_active_record_cfg, rp_launch = Some guild_active_record_launch, rp_query = guild_active_record_onBtnQuery,
      rp_done = guild_active_record_updateGrid, rp_export = guild_active_record_onBtnExport, rp_then = id\<rparr>"

section \<open>The loop cuts the rows as the reference does\<close>

text \<open>The groups are the rows in their order, cut exactly where the key changes.\<close>

lemma concat_cut: "concat (cut_rows key pre acc xs) = acc @ xs"
  by (induction key pre acc xs rule: cut_rows.induct) simp_all

lemma concat_groups: "concat (groups key xs) = xs"
  by (cases xs) (simp_all add: groups_def concat_cut)

lemma cut_not_Nil: "cut_rows key pre acc xs \<noteq> []"
  by (induction key pre acc xs rule: cut_rows.induct) simp_all

lemma groups_not_Nil: "groups key xs \<noteq> []"
  by (cases xs) (simp_all add: groups_def cut_not_Nil)

definition same_key :: "string \<Rightarrow> jsval \<Rightarrow> jsval \<Rightarrow> bool" where
  "same_key key x y = js_eq (js_prop y key) (js_prop x key)"

lemma cut_uniform:
  assumes "acc \<noteq> []" and "successively (same_key key) acc"
  shows "list_all (\<lambda>g. g \<noteq> [] \<and> successively (same_key key) g) (cut_rows key (js_prop (last acc) key) acc xs)"
  using assms
proof (induction xs arbitrary: acc)
  case (Cons x xs)
  show ?case
  proof (cases "same_key key (last acc) x")
    case True
    with Cons.prems have "successively (same_key key) (acc @ [x])" by (simp add: successively_append_iff)
    with True show ?thesis using Cons.IH [of "acc @ [x]"] by (simp add: same_key_def)
  next
    case False
    then show ?thesis using Cons.IH [of "[x]"] Cons.prems by (simp add: same_key_def)
  qed
qed simp

lemma hd_cut: "acc \<noteq> [] \<Longrightarrow> hd (hd (cut_rows key pre acc xs)) = hd acc"
  by (induction xs arbitrary: acc pre) simp_all

lemma cut_at_changes:
  assumes "acc \<noteq> []"
  shows "successively (\<lambda>g h. \<not> same_key key (last g) (hd h)) (cut_rows key (js_prop (last acc) key) acc xs)"
  using assms
proof (induction xs arbitrary: acc)
  case (Cons x xs)
  show ?case
    using Cons.IH [of "acc @ [x]"] Cons.IH [of "[x]"] hd_cut [of "[x]" key "js_prop x key" xs]
    by (simp add: successively_Cons same_key_def)
qed simp

lemma groups_cut_at_changes:
  assumes "xs \<noteq> []"
  shows "list_all (\<lambda>g. g \<noteq> [] \<and> successively (same_key key) g) (groups key xs)"
    and "successively (\<lambda>g h. \<not> same_key key (last g) (hd h)) (groups key xs)"
proof -
  from assms obtain x ys where xs: "xs = x # ys" by (cases xs) auto
  show "list_all (\<lambda>g. g \<noteq> [] \<and> successively (same_key key) g) (groups key xs)"
    and "successively (\<lambda>g h. \<not> same_key key (last g) (hd h)) (groups key xs)"
    using cut_uniform [of "[x]" key ys] cut_at_changes [of "[x]" key ys] by (simp_all add: groups_def xs)
qed

section \<open>The loops write the groups\<close>

lemma merge_loop:
  assumes "list_all present xs" and "0 < k" and "length acc \<le> k"
  shows "\<exists>pre'. js_for (merge_step key row z flush) (enumerate k xs) (merged row z acc, pre, s) =
    Done (merged row z (last (cut_rows key pre acc xs)), pre',
          flush_groups flush (merged row z) (k - length acc) (butlast (cut_rows key pre acc xs)) s)"
  using assms
proof (induction xs arbitrary: k acc pre s)
  case Nil
  then show ?case by simp
next
  case (Cons x xs)
  let ?key = "js_prop x key"
  have xs: "list_all present xs" and "present x" using Cons.prems by simp_all
  then have x: "\<not> nullish x" by (simp add: present_def)
  have row: "row x (merged row z acc) = merged row z (acc @ [x])" "row x z = merged row z [x]"
    by (simp_all add: merged_def)
  show ?case
  proof (cases "js_eq ?key pre")
    case True
    then have "merge_step key row z flush (k, x) (merged row z acc, pre, s) = Done (merged row z (acc @ [x]), ?key, s)"
      using x by (simp add: merge_step_def row)
    then show ?thesis using Cons.IH [of "Suc k" "acc @ [x]" ?key s] Cons.prems True xs by simp
  next
    case False
    then have "merge_step key row z flush (k, x) (merged row z acc, pre, s) =
        Done (merged row z [x], ?key, flush k (merged row z acc) s)"
      using x Cons.prems(2) by (simp add: merge_step_def row)
    then show ?thesis
      using Cons.IH [of "Suc k" "[x]" ?key "flush k (merged row z acc) s"] Cons.prems False xs
      by (simp add: cut_not_Nil)
  qed
qed

lemma merge_groups:
  assumes "list_all present xs"
  shows "\<exists>pre'. js_for (merge_step key row z flush) (enumerate 0 xs) (z, JStr [], s) =
    Done (merged row z (last (groups key xs)), pre', flush_groups flush (merged row z) 0 (butlast (groups key xs)) s)"
proof (cases xs)
  case Nil
  then show ?thesis by (simp add: groups_def merged_def)
next
  case (Cons x ys)
  with assms have ys: "list_all present ys" and "present x" by simp_all
  then have x: "\<not> nullish x" by (simp add: present_def)
  have "merge_step key row z flush (0, x) (z, JStr [], s) = Done (merged row z [x], js_prop x key, s)"
    using x by (simp add: merge_step_def merged_def)
  then show ?thesis using merge_loop [OF ys, of 1 "[x]" key row z flush "js_prop x key" s] Cons by (simp add: groups_def)
qed

lemma merge_loop_invariant:
  assumes "\<And>i d s. P s \<Longrightarrow> P (flush i d s)" and "P (snd (snd st))"
  shows "P (snd (snd (final_state (js_for (merge_step key row z flush) ixs st))))"
proof -
  have "P (snd (snd (final_state (merge_step key row z flush ix st))))" if "P (snd (snd st))" for ix st
    using that assms(1) by (cases st; cases ix) (auto simp: merge_step_def)
  then show ?thesis
    using js_for_invariant [where P = "\<lambda>st. P (snd (snd st))" and f = "merge_step key row z flush"] assms(2) by blast
qed

lemma after_loop_invariant:
  assumes "P (pg (snd (snd (final_state r))))" and "\<And>d s. P (pg s) \<Longrightarrow> P (f d s)"
  shows "P (final_state (after_loop pg f r))"
  using assms by (cases r) (simp_all add: after_loop_def)

lemma flush_groups_snoc:
  "flush_groups flush m k (gs @ [g]) s =
     flush (k + length (concat gs) + length g) (m g) (flush_groups flush m k gs s)"
  by (induction gs arbitrary: k s) (simp_all add: add.assoc)

lemma flush_all:
  "flush (length xs) (m (last (groups key xs))) (flush_groups flush m 0 (butlast (groups key xs)) s) =
     flush_groups flush m 0 (groups key xs) s"
proof -
  let ?gs = "groups key xs"
  have split: "butlast ?gs @ [last ?gs] = ?gs" by (simp add: groups_not_Nil)
  then have "length (concat (butlast ?gs)) + length (last ?gs) = length xs"
    using concat_groups [of key xs] by (metis concat.simps concat_append append_Nil2 length_append)
  then show ?thesis using flush_groups_snoc [of flush m 0 "butlast ?gs" "last ?gs" s] split by simp
qed

subsection \<open>Skills\<close>

lemma skill_invariant:
  assumes "\<And>n d p. n = ''save_store'' \<or> n = ''store_grid'' \<Longrightarrow> P p \<Longrightarrow> P (add_to n d p)"
    and "P (clear_store ''store_grid'' p)"
  shows "P (final_state (guild_skill_record_updateGrid res p))"
proof -
  have flush: "P (skill_flush i d q)" if "P q" for i d q
    using that assms(1) by (simp add: skill_flush_def Let_def)
  have "P (final_state (after_loop id (skill_flush (length xs))
      (js_for (merge_step ''skill_id'' skill_row [] skill_flush) (enumerate 0 xs) ([], JStr [], q))))" if "P q" for xs q
    by (rule after_loop_invariant; simp add: flush)
      (rule merge_loop_invariant [of P]; simp add: flush that)
  then show ?thesis
    using assms(2) by (simp add: guild_skill_record_updateGrid_def with_val_def split: sum.split)
qed

lemma skill_done:
  assumes "rows_wf present (JObj kvs)"
  shows "guild_skill_record_updateGrid (JObj kvs) p =
    Done (flush_groups skill_flush (merged skill_row []) 0 (groups ''skill_id'' (rows_of (JObj kvs)))
      (clear_store ''store_grid'' p))"
proof -
  note rows = rows_wfD [OF assms]
  from merge_groups [OF rows(2), of "''skill_id''" skill_row "[]" skill_flush "clear_store ''store_grid'' p"]
  show ?thesis
    using rows(1) flush_all [of skill_flush "rows_of (JObj kvs)"]
    by (auto simp: guild_skill_record_updateGrid_def after_loop_def)
qed

text \<open>The groups the grid shows: those that end before the fiftieth row.\<close>

fun ending_before :: "nat \<Rightarrow> nat \<Rightarrow> jsval list list \<Rightarrow> jsval list list" where
  "ending_before n k [] = []"
| "ending_before n k (g # gs) = (if k + length g < n then [g] else []) @ ending_before n (k + length g) gs"

lemma skill_stores:
  "s_recs (stores (flush_groups skill_flush m k gs p) ''save_store'') =
     s_recs (stores p ''save_store'') @ map (model_data (s_fields (stores p ''save_store'')) \<circ> m) gs"
  "s_recs (stores (flush_groups skill_flush m k gs p) ''store_grid'') =
     s_recs (stores p ''store_grid'') @ map (model_data (s_fields (stores p ''store_grid'')) \<circ> m) (ending_before 50 k gs)"
  by (induction gs arbitrary: k p) (simp_all add: skill_flush_def Let_def store_add_def)

lemma ending_before_all: "k + length (concat gs) < n \<Longrightarrow> ending_before n k gs = gs"
  by (induction gs arbitrary: k) simp_all

definition skill_table :: "jsval \<Rightarrow> jsobj list" where
  "skill_table res = map (merged skill_row []) (groups ''skill_id'' (rows_of res))"

definition skill_shown :: "jsval \<Rightarrow> jsobj list" where
  "skill_shown res = map (merged skill_row []) (ending_before 50 0 (groups ''skill_id'' (rows_of res)))"

lemma guild_skill_record_guarded: "guarded_query guild_skill_record_cfg guild_skill_record_onBtnQuery"
  by (rule guarded_queryI)
    (unfold guild_skill_record_onBtnQuery_def Let_def, rule refl, auto simp: nullish_falsy)

lemma skill_frame:
  "inputs (final_state (guild_skill_record_updateGrid res p)) = inputs p"
  "\<not> result_store m \<Longrightarrow> stores (final_state (guild_skill_record_updateGrid res p)) m = stores p m"
  "s_fields (stores (final_state (guild_skill_record_updateGrid res p)) m) = s_fields (stores p m)"
  "page_ok c p \<Longrightarrow> page_ok c (final_state (guild_skill_record_updateGrid res p))"
  by (rule skill_invariant; auto simp: result_store_def ext_store.fields_add ext_store.fields_clear intro: page_intros)+

interpretation guild_skill_record: asking_page guild_skill_record
proof
  show "choices_apart (rp_cfg guild_skill_record)" and "distinct (map fst (pg_widgets (rp_cfg guild_skill_record)))"
    by (simp_all add: guild_skill_record_def guild_skill_record_cfg_def cfg_eval)
  show "guarded_query (rp_cfg guild_skill_record) (rp_query guild_skill_record)"
    using guild_skill_record_guarded by (simp add: guild_skill_record_def)
qed (auto simp: guild_skill_record_def guild_skill_record_launch_def guild_skill_record_onBtnExport_def skill_frame)

lemmas skill_asking = guild_skill_record.asking_frame guild_skill_record.query_stores
  guild_skill_record.export_stores guild_skill_record.then_stores

interpretation guild_skill_record: report_program guild_skill_record
  by unfold_locales (simp_all add: guild_skill_record.asking_keeps, simp add: guild_skill_record_def skill_frame)

interpretation skill_grid: answered_store guild_skill_record "''store_grid''" "rows_wf present" skill_shown "\<lambda>old new. new"
  by unfold_locales
    (simp_all add: skill_asking result_store_def,
     simp_all add: guild_skill_record_def skill_done skill_frame skill_shown_def skill_stores store_removeAll_def
       guild_skill_record_cfg_def init_store_def new_store_def)

interpretation skill_save: answered_store guild_skill_record "''save_store''" "rows_wf present" skill_table "\<lambda>old new. old @ new"
  by unfold_locales
    (simp_all add: skill_asking result_store_def,
     simp_all add: guild_skill_record_def skill_done skill_frame skill_table_def skill_stores
       guild_skill_record_cfg_def init_store_def new_store_def)

subsection \<open>Activities\<close>

lemma js_to_string_object: "js_string_number ''[object Object]'' = None"
proof -
  have "skip_blanks (CHR '' '' # ''Object]'') = ''Object]''"
    by (simp add: skip_blanks.simps [of "CHR '' '' # s" for s] blank_length_def skip_visible)
  then have "js_trim ''[object Object]'' = ''[object Object]''" by (simp add: js_trim_def skip_visible)
  then show ?thesis
    by (simp add: js_string_number_def unsigned_def digit_val_def base_prefix_def js_decimal_def Let_def)
qed

lemma js_string_number_empty: "js_string_number [] = Some 0"
  by (simp add: js_string_number_def js_trim_def skip_blanks.simps [of "[]"] blank_length_def)

lemma loop_bound_objects: "loop_bound (JArr [JObj d]) = 0" "loop_bound (JArr []) = 0"
  by (simp_all add: loop_bound_def js_to_string_object js_string_number_empty)

text \<open>The last loop runs over a bound that is no number, or zero: what was pushed for the grid is never added.\<close>

lemma active_finish_eq: "active_finish ds cp = add_to ''save_store'' (snd ds) (snd cp)"
  by (cases ds; cases cp) (simp add: active_finish_def loop_bound_objects Let_def)

lemma active_invariant:
  assumes "\<And>n d p. n = ''save_store'' \<or> n = ''store_grid'' \<Longrightarrow> P p \<Longrightarrow> P (add_to n d p)"
    and "P (clear_store ''save_store'' (clear_store ''store_grid'' p))"
  shows "P (final_state (guild_active_record_updateGrid res p))"
proof -
  have flush: "P (snd (active_flush i d cq))" if "P (snd cq)" for i d cq
    using that assms(1) by (cases d; cases cq) (simp add: active_flush_def Let_def)
  have "P (final_state (after_loop snd active_finish
      (js_for (merge_step ''guild_id'' active_rows ([], []) active_flush) (enumerate 0 xs) (([], []), JStr [], (0, q)))))"
    if "P q" for xs q
    by (rule after_loop_invariant [of P snd], rule merge_loop_invariant [of "\<lambda>cq. P (snd cq)"])
      (simp_all add: active_finish_eq assms(1) flush that)
  then show ?thesis
    using assms(2) by (simp add: guild_active_record_updateGrid_def with_val_def split: sum.split)
qed

lemma merged_active: "merged active_rows (a, b) g = (merged active_row a g, merged active_row b g)"
  unfolding merged_def by (induction g arbitrary: a b) (simp_all add: active_rows_def)

lemma active_flush_eq:
  "active_flush i (a, b) (c, p) =
     (if c < 50 then (Suc c, add_to ''store_grid'' a (add_to ''save_store'' b p)) else (c, add_to ''save_store'' b p))"
  by (simp add: active_flush_def Let_def)

lemma active_stores:
  "s_recs (stores (snd (flush_groups active_flush (merged active_rows ([], [])) k gs (c, p))) ''save_store'') =
     s_recs (stores p ''save_store'') @ map (model_data (s_fields (stores p ''save_store'')) \<circ> merged active_row []) gs"
  "s_recs (stores (snd (flush_groups active_flush (merged active_rows ([], [])) k gs (c, p))) ''store_grid'') =
     s_recs (stores p ''store_grid'') @
     map (model_data (s_fields (stores p ''store_grid'')) \<circ> merged active_row []) (take (50 - c) gs)"
  "s_fields (stores (snd (flush_groups active_flush (merged active_rows ([], [])) k gs (c, p))) n) = s_fields (stores p n)"
proof (induction gs arbitrary: k c p)
  case (Cons g gs)
  have first: "take (50 - c) (g # gs) = (if c < 50 then g # take (49 - c) gs else [])" for c
    by (auto simp: take_Cons')
  { case 1 show ?case using Cons(1) by (simp add: active_flush_eq merged_active store_add_def)
  next
    case 2 show ?case using Cons(2) by (simp add: first active_flush_eq merged_active store_add_def)
  next
    case 3 show ?case using Cons(3) by (simp add: active_flush_eq merged_active store_add_def) }
qed simp_all

lemma active_done:
  assumes "rows_wf present (JObj kvs)"
  shows "\<exists>cq. cq = flush_groups active_flush (merged active_rows ([], [])) 0
        (butlast (groups ''guild_id'' (rows_of (JObj kvs)))) (0, clear_store ''save_store'' (clear_store ''store_grid'' p)) \<and>
      guild_active_record_updateGrid (JObj kvs) p =
        Done (add_to ''save_store'' (merged active_row [] (last (groups ''guild_id'' (rows_of (JObj kvs))))) (snd cq))"
proof -
  note rows = rows_wfD [OF assms]
  from merge_groups [OF rows(2), of "''guild_id''" active_rows "([], [])" active_flush
      "(0, clear_store ''save_store'' (clear_store ''store_grid'' p))"]
  show ?thesis
    using rows(1) by (auto simp: guild_active_record_updateGrid_def after_loop_def active_finish_eq merged_active)
qed

definition active_table :: "jsval \<Rightarrow> jsobj list" where
  "active_table res = map (merged active_row []) (groups ''guild_id'' (rows_of res))"

definition active_shown :: "jsval \<Rightarrow> jsobj list" where
  "active_shown res = take 50 (butlast (active_table res))"

lemma active_results:
  assumes "rows_wf present (JObj kvs)"
  shows "s_recs (stores (final_state (guild_active_record_updateGrid (JObj kvs) p)) ''save_store'') =
      map (model_data (s_fields (stores p ''save_store''))) (active_table (JObj kvs))"
    and "s_recs (stores (final_state (guild_active_record_updateGrid (JObj kvs) p)) ''store_grid'') =
      map (model_data (s_fields (stores p ''store_grid''))) (active_shown (JObj kvs))"
proof -
  let ?gs = "groups ''guild_id'' (rows_of (JObj kvs))"
  have "map f ?gs = map f (butlast ?gs) @ [f (last ?gs)]" for f :: "jsval list \<Rightarrow> jsobj"
    using arg_cong [OF append_butlast_last_id [OF groups_not_Nil], of "map f"] by simp
  then show "s_recs (stores (final_state (guild_active_record_updateGrid (JObj kvs) p)) ''save_store'') =
      map (model_data (s_fields (stores p ''save_store''))) (active_table (JObj kvs))"
    using active_done [OF assms, of p]
    by (auto simp: active_stores active_table_def store_add_def store_removeAll_def)
  show "s_recs (stores (final_state (guild_active_record_updateGrid (JObj kvs) p)) ''store_grid'') =
      map (model_data (s_fields (stores p ''store_grid''))) (active_shown (JObj kvs))"
    using active_done [OF assms, of p]
    by (auto simp: active_stores active_table_def active_shown_def store_removeAll_def map_butlast [symmetric] take_map)
qed

lemma guild_active_record_guarded: "guarded_query guild_active_record_cfg guild_active_record_onBtnQuery"
  by (rule guarded_queryI)
    (unfold guild_active_record_onBtnQuery_def Let_def, rule refl, auto simp: nullish_falsy)

lemma active_frame:
  "inputs (final_state (guild_active_record_updateGrid res p)) = inputs p"
  "\<not> result_store m \<Longrightarrow> stores (final_state (guild_active_record_updateGrid res p)) m = stores p m"
  "s_fields (stores (final_state (guild_active_record_updateGrid res p)) m) = s_fields (stores p m)"
  "page_ok c p \<Longrightarrow> page_ok c (final_state (guild_active_record_updateGrid res p))"
  by (rule active_invariant; auto simp: result_store_def ext_store.fields_add ext_store.fields_clear intro: page_intros)+

interpretation guild_active_record: asking_page guild_active_record
proof
  show "choices_apart (rp_cfg guild_active_record)" and "distinct (map fst (pg_widgets (rp_cfg guild_active_record)))"
    by (simp_all add: guild_active_record_def guild_active_record_cfg_def cfg_eval)
  show "guarded_query (rp_cfg guild_active_record) (rp_query guild_active_record)"
    using guild_active_record_guarded by (simp add: guild_active_record_def)
qed (auto simp: guild_active_record_def guild_active_record_launch_def guild_active_record_onBtnExport_def active_frame)

lemmas active_asking = guild_active_record.asking_frame guild_active_record.query_stores
  guild_active_record.export_stores guild_active_record.then_stores

interpretation guild_active_record: report_program guild_active_record
  by unfold_locales (simp_all add: guild_active_record.asking_keeps, simp add: guild_active_record_def active_frame)

interpretation active_grid: answered_store guild_active_record "''store_grid''" "rows_wf present" active_shown "\<lambda>old new. new"
  by unfold_locales
    (simp_all add: active_asking result_store_def,
     simp_all add: guild_active_record_def active_results active_frame guild_active_record_cfg_def init_store_def new_store_def)

interpretation active_save: answered_store guild_active_record "''save_store''" "rows_wf present" active_table "\<lambda>old new. new"
  by unfold_locales
    (simp_all add: active_asking result_store_def,
     simp_all add: guild_active_record_def active_results active_frame guild_active_record_cfg_def init_store_def new_store_def)

section \<open>An example\<close>

definition guild_run :: "jsval list \<Rightarrow> event list" where
  "guild_run rows =
     [Answer 0 (ok_answer (JObj [])), Choose ''zone_input'' 0, Choose ''sdk_input'' 0, Choose ''platform_input'' 0,
      Pick ''date_start'' 1 ''d1'' ''2016-01-01'', Pick ''date_end'' 5 ''d5'' ''2016-01-05'', ClickQuery,
      Answer 0 (ok_answer (JArr rows))]"

definition example_skills :: "jsval list" where
  "example_skills =
     [JObj [(''skill_id'', JStr ''s1''), (''lv_rgn'', JNum 0), (''num'', JNum 3)],
      JObj [(''skill_id'', JStr ''s1''), (''lv_rgn'', JNum 1), (''num'', JNum 4)],
      JObj [(''skill_id'', JStr ''s2''), (''lv_rgn'', JNum 0), (''num'', JNum 5)]]"

definition example_activities :: "jsval list" where
  "example_activities =
     [JObj [(''guild_id'', JStr ''1''), (''active_type'', JStr ''donate''), (''num'', JNum 3)],
      JObj [(''guild_id'', JStr ''1''), (''active_type'', JStr ''gve''), (''num'', JNum 4)],
      JObj [(''guild_id'', JStr ''2''), (''active_type'', JStr ''gve''), (''num'', JNum 5)]]"

lemmas guild_eval = guild_run_def run_eval sdk_plats_loaded_def add_each_if_def add_to_def store_add_def
  model_data_def field_value_def

lemma guild_answers:
  "query_answers guild_skill_record (launch guild_skill_record example_world) (guild_run rows) =
     [JObj [(''success'', JStr ''ok''), (''res'', JArr rows)]]"
  "query_answers guild_active_record (launch guild_active_record example_world) (guild_run rows) =
     [JObj [(''success'', JStr ''ok''), (''res'', JArr rows)]]"
  by (simp add: guild_eval guild_skill_record_def guild_skill_record_cfg_def guild_skill_record_launch_def
      guild_skill_record_onBtnQuery_def,
    simp add: guild_eval guild_active_record_def guild_active_record_cfg_def guild_active_record_launch_def
      guild_active_record_onBtnQuery_def)

lemma guild_run_objects: "list_all object_answer (guild_run rows)"
  by (simp add: guild_run_def ok_answer_def)

lemma example_groups:
  "groups ''skill_id'' example_skills = [take 2 example_skills, drop 2 example_skills]"
  "groups ''guild_id'' example_activities = [take 2 example_activities, drop 2 example_activities]"
  by (simp_all add: groups_def example_skills_def example_activities_def js_eq_def js_prim_def)

lemma example_digits: "digit_char (Suc 0) = CHR ''1''" "digit_char 2 = CHR ''2''"
  by code_simp+

lemma example_rows_ok:
  "list_all present example_skills" "list_all present example_activities"
  by (simp_all add: example_skills_def example_activities_def present_def)

section \<open>Properties\<close>

text \<open>
  The groups cut the rows exactly where the key changes: joined they are the rows in their
  order, no group is empty, neighbouring rows of a group have one key, and the last row of a
  group and the first of the next one differ in it.
\<close>

lemma groups_cut_where_key_changes:
  assumes "xs \<noteq> []"
  shows "concat (groups key xs) = xs \<and>
    list_all (\<lambda>g. g \<noteq> [] \<and> successively (same_key key) g) (groups key xs) \<and>
    successively (\<lambda>g h. \<not> same_key key (last g) (hd h)) (groups key xs)"
  using groups_cut_at_changes [OF assms] by (simp add: concat_groups)

text \<open>
  C28. The page on guild skills, after any sequence of events that answers a query with fewer
  than fifty rows last: its grid has one line per group of neighbouring rows of one skill, with
  the numbers of all its level ranges; its export holds these lines for all answered queries.
\<close>

theorem guild_skills_merged:
  fixes w es
  defines "answers \<equiv> query_answers guild_skill_record (launch guild_skill_record w) es"
    and "p \<equiv> run_page guild_skill_record (launch guild_skill_record w) es"
    and "line \<equiv> \<lambda>g. model_data (s_fields (init_store guild_skill_record_cfg ''store_grid'')) (merged skill_row [] g)"
  assumes "list_all (rows_wf present) answers" and "list_all object_answer es"
    and "answers \<noteq> []" and "length (rows_of (last answers)) < 50"
  shows "store_getRange (stores p ''store_grid'') = map line (groups ''skill_id'' (rows_of (last answers))) \<and>
    store_getRange (stores p ''save_store'') = concat (map (\<lambda>a. map line (groups ''skill_id'' (rows_of a))) answers)"
proof -
  have "ending_before 50 0 (groups ''skill_id'' (rows_of (last answers))) = groups ''skill_id'' (rows_of (last answers))"
    using assms(7) by (intro ending_before_all) (simp add: concat_groups)
  moreover have "s_fields (init_store guild_skill_record_cfg ''save_store'') = s_fields (init_store guild_skill_record_cfg ''store_grid'')"
    by (simp add: guild_skill_record_cfg_def init_store_def)
  moreover have "rp_cfg guild_skill_record = guild_skill_record_cfg" by (simp add: guild_skill_record_def)
  ultimately show ?thesis
    using skill_grid.run_shows [of w es] skill_save.run_shows [of w es] assms(4-6)
    by (simp add: answers_def p_def line_def foldl_replace foldl_append_concat skill_shown_def skill_table_def o_def)
qed

theorem guild_skills_merged_witness:
  "map (\<lambda>l. (obj_get l ''num_1'', obj_get l ''num_2'')) (store_getRange (stores
     (run_page guild_skill_record (launch guild_skill_record example_world) (guild_run example_skills)) ''store_grid'')) =
   [(JNum 3, JNum 4), (JNum 5, JStr [])]"
  using guild_skills_merged [of example_world "guild_run example_skills"] example_rows_ok(1)
  by (simp add: guild_answers guild_run_objects rows_wf_def rows_of_def example_groups)
    (simp add: example_skills_def merged_def skill_row_def js_add_def string_of_int_def string_of_nat.simps example_digits
      obj_get_model_data set_init_fields fields_of_def guild_skill_record_cfg_def guild_skill_record_fields_def)

text \<open>
  The page on guild activities, after any sequence of events that answers a query: its
  export holds one line per group of neighbouring rows of one guild, but its grid shows the
  first fifty of all lines but the last one. With one guild only the grid stays empty.
\<close>

lemma guild_activities_miss_last:
  fixes w es
  defines "answers \<equiv> query_answers guild_active_record (launch guild_active_record w) es"
    and "p \<equiv> run_page guild_active_record (launch guild_active_record w) es"
  assumes "list_all (rows_wf present) answers" and "list_all object_answer es" and "answers \<noteq> []"
  shows "store_getRange (stores p ''save_store'') =
      map (model_data (s_fields (init_store guild_active_record_cfg ''save_store'')) \<circ> merged active_row [])
        (groups ''guild_id'' (rows_of (last answers))) \<and>
    store_getRange (stores p ''store_grid'') = take 50 (butlast (store_getRange (stores p ''save_store'')))"
proof -
  have "s_fields (init_store guild_active_record_cfg ''save_store'') = s_fields (init_store guild_active_record_cfg ''store_grid'')"
    by (simp add: guild_active_record_cfg_def init_store_def)
  moreover have "rp_cfg guild_active_record = guild_active_record_cfg" by (simp add: guild_active_record_def)
  ultimately show ?thesis
    using active_grid.run_shows [of w es] active_save.run_shows [of w es] assms(3-5)
    by (simp add: answers_def p_def foldl_replace active_shown_def active_table_def o_def map_butlast [symmetric] take_map)
qed

theorem guild_activities_miss_last_witness:
  "map (\<lambda>l. obj_get l ''guild_id'') (store_getRange (stores
     (run_page guild_active_record (launch guild_active_record example_world) (guild_run example_activities)) ''store_grid'')) =
   [JStr ''guild_1'']"
  using guild_activities_miss_last [of example_world "guild_run example_activities"] example_rows_ok(2)
  by (simp add: guild_answers guild_run_objects rows_wf_def rows_of_def example_groups)
    (simp add: example_activities_def merged_def active_row_def js_add_def obj_get_model_data set_init_fields fields_of_def
      guild_active_record_cfg_def guild_active_record_fields_def)

end

