(* ===== verification/Consume_Report.thy ===== *)
theory Consume_Report
  imports Level_Reports
begin

text \<open>
  The page on what players consumed per system and level (\<open>consumereport.js\<close>). The server
  sends one row per system and level range; the page translates the system's name, collects
  the rows in a table of tables and writes two grids, the amounts and the numbers of players.
  The kind of currency asked for is the script variable \<open>g_cost_type\<close>, set by the query
  button and read when the answer comes.
\<close>

section \<open>The page\<close>

definition map_sys_credits :: "(string \<times> string) list" where
  "map_sys_credits =
     [(''manual_reborn'', (uni [0x590D, 0x6D3B])),
      (''buy_goods'', (uni [0x5546, 0x57CE])),
      (''taxi'', (uni [0x6253, 0x8F66])),
      (''currency_exchange_coins'', (uni [0x5151, 0x6362, 0x786C, 0x5E01])),
      (''currency_exchange_money'', (uni [0x5151, 0x6362, 0x7EB8, 0x5E01])),
      (''resign'', (uni [0x8865, 0x7B7E, 0x5230])),
      (''buy_portrait'', (uni [0x8D2D, 0x4E70, 0x5934, 0x50CF])),
      (''extend_combat_time'', (uni [0x526F, 0x672C, 0x5EF6, 0x65F6])),
      (''create_guild'', (uni [0x521B, 0x5EFA, 0x793E, 0x56E2])),
      (''guild_change_name'', (uni [0x793E, 0x56E2, 0x6539, 0x540D])),
      (''guild_banner'', (uni [0x793E, 0x56E2, 0x65D7, 0x5E1C])),
      (''guild_donate'', (uni [0x793E, 0x56E2, 0x5BA3, 0x4F20])),
      (''lottery_badges'', (uni [0x7EB9, 0x7AE0, 0x62BD, 0x53D6])),
      (''vip_first'', (''vip'' @ (uni [0x793C, 0x5305]))),
      (''roll_treasure_credit'', (uni [0x9EC4, 0x91D1, 0x593A, 0x5B9D])),
      (''roll_treasure_exchange'', (uni [0x66FF, 0x4EE3, 0x5E01, 0x593A, 0x5B9D]))]"

definition map_sys_coins :: "(string \<times> string) list" where
  "map_sys_coins =
     [(''buy_foods'', (uni [0x5065, 0x5EB7, 0x996E, 0x98DF])),
      (''taxi'', (uni [0x561F, 0x561F, 0x6253, 0x8F66])),
      (''take_subway'', (uni [0x5730, 0x94C1])),
      (''buy_bus_ticket'', (uni [0x957F, 0x9014])),
      (''hospital_cure'', (uni [0x533B, 0x9662])),
      (''coach'', (uni [0x5F3A, 0x8EAB, 0x5065, 0x4F53])),
      (''absorb_equip'', (uni [0x88C5, 0x5907, 0x5408, 0x9B42])),
      (''make_forge'', (uni [0x88C5, 0x5907, 0x6253, 0x9020])),
      (''upgrade_new_talent'', (uni [0x5929, 0x8D4B, 0x5347, 0x7EA7])),
      (''buy_goods_eqp'', (uni [0x88C5, 0x5907, 0x5546, 0x5E97])),
      (''buy_goods_gift'', (uni [0x793C, 0x7269, 0x5546, 0x5E97])),
      (''buy_goods_wine'', (uni [0x836F, 0x54C1, 0x5546, 0x5E97])),
      (''buy_goods_cooking'', (uni [0x98DF, 0x7269, 0x5546, 0x5E97])),
      (''use_enchant_medica'', (uni [0x7075, 0x7B26, 0x7BC6, 0x523B])),
      (''refresh_therion'', (uni [0x56DB, 0x8C61, 0x89C9, 0x9192])),
      (''buy_goods_gem'', (uni [0x5B9D, 0x77F3, 0x5546, 0x5E97])),
      (''buy_goods_drawing'', (uni [0x7075, 0x7B26, 0x5546, 0x5E97])),
      (''unlock_bag_slot'', (uni [0x80CC, 0x5305, 0x7A7A, 0x95F4])),
      (''add_inventory'', (uni [0x94F6, 0x884C, 0x7A7A, 0x95F4])),
      (''upgrade_skill'', (uni [0x6280, 0x80FD, 0x5347, 0x7EA7])),
      (''booth_sell'', (uni [0x4EA4, 0x6613, 0x884C, 0x4E0A, 0x67B6])),
      (''ufc_signup'', (uni [0x65E0, 0x5DEE, 0x522B, 0x683C, 0x6597, 0x62A5, 0x540D]))]"

definition map_sys_voucher :: "(string \<times> string) list" where
  "map_sys_voucher =
     [(''buy_goods'', (uni [0x5546, 0x57CE, 0x514D, 0x8D39])),
      (''roll_treasure_voucher'', (uni [0x4EE3, 0x5E01, 0x593A, 0x5B9D])),
      (''roll_treasure_exchange'', (uni [0x4EE3, 0x5E01, 0x4E0D, 0x591F, 0x593A, 0x5B9D]))]"

definition map_sys_money :: "(string \<times> string) list" where
  "map_sys_money =
     [(''currency_exchange_coins'', (uni [0x5151, 0x6362, 0x786C, 0x5E01])),
      (''booth_buy'', (uni [0x4EA4, 0x6613, 0x884C])),
      (''buy_goods'', (uni [0x5546, 0x57CE, 0x9650, 0x8D2D])),
      (''post_tweet'', (uni [0x670B, 0x53CB, 0x5708, 0x8BBE, 0x7F6E, 0x793C, 0x7269]))]"

definition consumereport_fields :: "string list" where
  "consumereport_fields = ''sys_name'' # map (level_key ''lv'') enumLevel"

definition consumereport_columns_consume :: "column list" where
  "consumereport_columns_consume =
     col (uni [0x7CFB, 0x7EDF, 0x5206, 0x7C7B]) ''sys_name'' # map (\<lambda>i. col (((uni [0x6D88, 0x8D39]) @ ''_'') @ string_of_nat i) (level_key ''lv'' i)) enumLevel"

definition consumereport_columns_players :: "column list" where
  "consumereport_columns_players =
     col (uni [0x7CFB, 0x7EDF, 0x5206, 0x7C7B]) ''sys_name'' # map (\<lambda>i. col (((uni [0x4EBA, 0x6570]) @ ''_'') @ string_of_nat i) (level_key ''lv'' i)) enumLevel"

definition consumereport_cfg :: page_cfg where
  "consumereport_cfg =
     \<lparr>app_name = ''levelconsumereport'',
      pg_stores =
       [(''store_zone'', [''zone_name'', ''zone_id''], []),
        (''store_sdk'', [''sdk_name'', ''sdk''], []),
        (''store_platform'', [''platform_name'', ''platform''], []),
        (''store_cat'', [''catname'', ''category''],
          [[(''catname'', JStr (loc ''str_credits'')), (''category'', JStr ''credits'')],
           [(''catname'', JStr (loc ''str_money'')), (''category'', JStr ''money'')],
           [(''catname'', JStr (loc ''str_coins'')), (''category'', JStr ''coins'')],
           [(''catname'', JStr (loc ''str_voucher'')), (''category'', JStr ''voucher'')]]),
        (''store_consume'', consumereport_fields, []),
        (''store_players'', consumereport_fields, [])],
      pg_widgets =
       [(''zone_input'', local_combo ''str_zone'' ''store_zone'' ''zone_id'' ''zone_name'' ''str_plz_select_zone'' 200),
        (''sdk_input'', local_combo ''str_sdk'' ''store_sdk'' ''sdk'' ''sdk_name'' ''str_plz_select_sdk'' 200),
        (''platform_input'',
          local_combo ''str_platform'' ''store_platform'' ''platform'' ''platform_name'' ''str_plz_select_platform'' 200),
        (''date_input'', date_field ''query_date'' ''str_date''),
        (''cat_input'', local_combo ''str_huobi_cat'' ''store_cat'' ''category'' ''catname'' ''str_plz_select_category'' 235),
        (''btn_query'', query_button),
        (''btn_export'', export_button)],
      pg_grids =
       [(''data_grid_consume'', \<lparr>gr_title = (uni [0x6D88, 0x8D39, 0x7B49, 0x7EA7, 0x8868]), gr_store = ''store_consume'', gr_columns = consumereport_columns_consume\<rparr>),
        (''data_grid_players'', \<lparr>gr_title = (uni [0x4EBA, 0x6570, 0x7B49, 0x7EA7, 0x8868]), gr_store = ''store_players'', gr_columns = consumereport_columns_players\<rparr>)]\<rparr>"

definition consumereport_launch :: "ajax_opts \<times> page callback" where
  "consumereport_launch = (get_choices ''/statsorign/get_sdk_plats'', sdk_plats_loaded)"

text \<open>The variable starts as the empty string.\<close>

definition g_cost_type :: "page \<Rightarrow> jsval" where
  "g_cost_type p = (case vars p ''g_cost_type'' of Some v \<Rightarrow> v | None \<Rightarrow> JStr [])"

text \<open>The query button assigns the variable before it asks for the currency and the date.\<close>

definition consumereport_onBtnQuery :: "page \<Rightarrow> page" where
  "consumereport_onBtnQuery p =
     (let zone_id = getValue p ''zone_input'';
          sdk = getValue p ''sdk_input'';
          platform = getValue p ''platform_input'';
          cost_type = getValue p ''cat_input'';
          date = getValue p ''date_input'';
          p1 = (if nullish zone_id \<or> falsy sdk \<or> falsy platform then p
                else p\<lparr>vars := (vars p)(''g_cost_type'' \<mapsto> cost_type)\<rparr>)
      in run_query
          [(nullish zone_id, ''str_plz_select_zone''),
           (falsy sdk, ''str_plz_select_sdk''),
           (falsy platform, ''str_plz_select_platform''),
           (falsy cost_type, ''str_plz_select_category''),
           (falsy date, ''str_plz_select_date'')]
          (getRawValue p ''zone_input'' @ ''_'' @ getRawValue p ''sdk_input'' @ ''_'' @
            getRawValue p ''platform_input'' @ ''_'' @ getRawValue p ''cat_input'' @ ''_'' @ getRawValue p ''date_input'')
          (post ''/statshelper/get_consume_report''
            [(''zone_id'', zone_id), (''sdk'', sdk), (''platform'', platform), (''cost_type'', cost_type), (''date'', date)])
          p1)"

definition names_for :: "jsval \<Rightarrow> (string \<times> string) list" where
  "names_for cost_type =
     (if js_eq cost_type (JStr ''credits'') then map_sys_credits
      else if js_eq cost_type (JStr ''coins'') then map_sys_coins
      else if js_eq cost_type (JStr ''monty'') then map_sys_money
      else map_sys_voucher)"

definition sys_of :: "(string \<times> string) list \<Rightarrow> jsval \<Rightarrow> jsval" where
  "sys_of map_sys rc =
     (case map_of map_sys (js_to_string (js_prop rc ''sys_name'')) of
        Some sn \<Rightarrow> JStr sn
      | None \<Rightarrow> js_prop rc ''sys_name'')"

definition level_of :: "jsval \<Rightarrow> string" where
  "level_of rc = js_to_string (js_prop rc ''level_rgn'')"

text \<open>\<open>tmpData\<close> and \<open>syses\<close>.\<close>

type_synonym collected = "(string \<times> (string \<times> jsval \<times> jsval) list) list \<times> jsval list"

definition collect :: "(string \<times> string) list \<Rightarrow> jsval \<Rightarrow> collected \<Rightarrow> collected" where
  "collect map_sys rc st =
     (let sn = sys_of map_sys rc;
          k = js_to_string sn;
          (tmp, syses) = (if map_of (fst st) k = None then (AList.update k [] (fst st), snd st @ [sn]) else st);
          cells = (case map_of tmp k of Some m \<Rightarrow> m | None \<Rightarrow> [])
      in (AList.update k (AList.update (level_of rc) (js_prop rc ''consume'', js_prop rc ''players'') cells) tmp, syses))"

definition collect_row :: "(string \<times> string) list \<Rightarrow> jsval \<Rightarrow> collected \<Rightarrow> collected outcome" where
  "collect_row map_sys rc st = (if nullish rc then Threw TypeError st else Done (collect map_sys rc st))"

definition look_up :: "collected \<Rightarrow> string \<Rightarrow> string \<Rightarrow> (jsval \<times> jsval) option" where
  "look_up st k lv = (case map_of (fst st) k of Some m \<Rightarrow> map_of m lv | None \<Rightarrow> None)"

definition sys_line :: "collected \<Rightarrow> (jsval \<times> jsval \<Rightarrow> jsval) \<Rightarrow> jsval \<Rightarrow> jsobj" where
  "sys_line st what sn =
     (''sys_name'', sn) #
     map (\<lambda>j. (level_key ''lv'' j,
        case look_up st (js_to_string sn) (string_of_nat j) of None \<Rightarrow> JNum 0 | Some c \<Rightarrow> what c)) enumLevel"

definition write_lines :: "collected \<Rightarrow> page \<Rightarrow> page" where
  "write_lines st p =
     fold (\<lambda>sn p. add_to ''store_players'' (sys_line st snd sn) (add_to ''store_consume'' (sys_line st fst sn) p)) (snd st) p"

definition consumereport_updateGrid :: "page callback" where
  "consumereport_updateGrid res p =
     with_val (js_items res)
       (\<lambda>xs p. case js_for (collect_row (names_for (g_cost_type p))) xs ([], []) of
                 Threw e st \<Rightarrow> Threw e p
               | Done st \<Rightarrow> Done (write_lines st p))
       (clear_store ''store_players'' (clear_store ''store_consume'' p))"

definition consumereport_onBtnExport :: "page \<Rightarrow> page" where
  "consumereport_onBtnExport p =
     start_export (KExportThen ((uni [0x6D88, 0x8D39]) @ g_search_name p)) ''store_consume'' consumereport_columns_consume p"

definition consumereport_onComplete :: "page \<Rightarrow> page" where
  "consumereport_onComplete p =
     start_export (KExport ((uni [0x4EBA, 0x6570]) @ g_search_name p)) ''store_players'' consumereport_columns_players p"

definition consumereport_view :: layout where
  "consumereport_view =
     \<lparr>toolbar = [''zone_input'', ''sdk_input'', ''platform_input'', ''date_input'', ''cat_input'', ''btn_query'',
        ''btn_export''], center = [''data_grid_consume'', ''data_grid_players'']\<rparr>"

definition consumereport :: report where
  "consumereport =
     \<lparr>rp_cfg = consumereport_cfg, rp_launch = Some consumereport_launch, rp_query = consumereport_onBtnQuery,
      rp_done = \<lambda>res. consumereport_updateGrid (js_prop res ''res''), rp_export = consumereport_onBtnExport,
      rp_then = consumereport_onComplete\<rparr>"

section \<open>The reference table\<close>

text \<open>
  The systems in the order of their first rows, and for a system and a level the last row
  that names them.
\<close>

fun firsts :: "('a \<Rightarrow> 'k) \<Rightarrow> 'k set \<Rightarrow> 'a list \<Rightarrow> 'a list" where
  "firsts key seen [] = []"
| "firsts key seen (x # xs) =
     (if key x \<in> seen then firsts key seen xs else x # firsts key (insert (key x) seen) xs)"

definition sys_key :: "(string \<times> string) list \<Rightarrow> jsval \<Rightarrow> string" where
  "sys_key map_sys rc = js_to_string (sys_of map_sys rc)"

definition last_row :: "(string \<times> string) list \<Rightarrow> jsval list \<Rightarrow> string \<Rightarrow> string \<Rightarrow> jsval option" where
  "last_row map_sys xs k lv = find (\<lambda>rc. sys_key map_sys rc = k \<and> level_of rc = lv) (rev xs)"

definition consume_line :: "(string \<times> string) list \<Rightarrow> jsval list \<Rightarrow> string \<Rightarrow> jsval \<Rightarrow> jsobj" where
  "consume_line map_sys xs what sn =
     (''sys_name'', sn) #
     map (\<lambda>j. (level_key ''lv'' j,
        case last_row map_sys xs (js_to_string sn) (string_of_nat j) of None \<Rightarrow> JNum 0 | Some rc \<Rightarrow> js_prop rc what)) enumLevel"

definition consume_lines :: "(string \<times> string) list \<Rightarrow> jsval list \<Rightarrow> string \<Rightarrow> jsobj list" where
  "consume_lines map_sys xs what =
     map (consume_line map_sys xs what \<circ> sys_of map_sys) (firsts (sys_key map_sys) {} xs)"

section \<open>The loops build the reference table\<close>

lemma firsts_snoc:
  "firsts key seen (xs @ [x]) = firsts key seen xs @ (if key x \<in> seen \<union> key ` set xs then [] else [x])"
  by (induction xs arbitrary: seen) auto

lemma firsts_distinct: "distinct (map key (firsts key seen xs)) \<and> key ` set (firsts key seen xs) = key ` set xs - seen"
  by (induction xs arbitrary: seen) auto

lemma collect_parts:
  "map_of (fst (collect t x st)) k =
     (if k = sys_key t x
      then Some (AList.update (level_of x) (js_prop x ''consume'', js_prop x ''players'')
             (case map_of (fst st) k of Some m \<Rightarrow> m | None \<Rightarrow> []))
      else map_of (fst st) k)"
  "snd (collect t x st) = snd st @ (if map_of (fst st) (sys_key t x) = None then [sys_of t x] else [])"
  by (cases st; auto simp: collect_def update_conv' sys_key_def Let_def)+

lemma collect_loop:
  defines "st t xs \<equiv> fold (collect t) xs ([], [])"
  shows "snd (st t xs) = map (sys_of t) (firsts (sys_key t) {} xs)"
    and "map_of (fst (st t xs)) k = None \<longleftrightarrow> k \<notin> sys_key t ` set xs"
    and "look_up (st t xs) k lv = map_option (\<lambda>rc. (js_prop rc ''consume'', js_prop rc ''players'')) (last_row t xs k lv)"
proof (induction xs arbitrary: k lv rule: rev_induct)
  case Nil
  { case 1 show ?case by (simp add: st_def) }
  { case 2 show ?case by (simp add: st_def) }
  { case 3 show ?case by (simp add: st_def look_up_def last_row_def) }
next
  case (snoc x xs)
  have step: "st t (xs @ [x]) = collect t x (st t xs)" by (simp add: st_def)
  { case 1 show ?case
      using snoc(1) snoc(2) [of "sys_key t x"] by (simp add: step collect_parts firsts_snoc) }
  { case 2 show ?case using snoc(2) [of k] by (auto simp: step collect_parts) }
  { case 3 show ?case
      using snoc(3) [of k lv]
      by (auto simp: step look_up_def collect_parts update_conv' last_row_def split: option.splits) }
qed

lemma collect_rows:
  "list_all present xs \<Longrightarrow> js_for (collect_row t) xs st = Done (fold (collect t) xs st)"
  by (rule js_for_Done) (auto simp: collect_row_def present_def list_all_iff)

lemma sys_line_eq:
  assumes "st = fold (collect t) xs ([], [])"
  shows "sys_line st fst sn = consume_line t xs ''consume'' sn" and "sys_line st snd sn = consume_line t xs ''players'' sn"
  by (simp_all add: sys_line_def consume_line_def assms collect_loop(3) split: option.split)

lemma updateGrid_lines:
  fixes p xs
  assumes "list_all present xs"
  defines "q \<equiv> final_state (consumereport_updateGrid (JArr xs) p)" and "t \<equiv> names_for (g_cost_type p)"
  shows "s_recs (stores q ''store_consume'') =
      map (model_data (s_fields (stores p ''store_consume''))) (consume_lines t xs ''consume'')"
    and "s_recs (stores q ''store_players'') =
      map (model_data (s_fields (stores p ''store_players''))) (consume_lines t xs ''players'')"
proof -
  let ?st = "fold (collect t) xs ([], [])"
  let ?p = "clear_store ''store_players'' (clear_store ''store_consume'' p)"
  have "g_cost_type ?p = g_cost_type p" by (simp add: g_cost_type_def clear_store_def)
  then have "q = write_lines ?st ?p"
    using assms(1) by (simp add: q_def t_def consumereport_updateGrid_def collect_rows)
  moreover have "snd ?st = map (sys_of t) (firsts (sys_key t) {} xs)" by (rule collect_loop)
  ultimately show "s_recs (stores q ''store_consume'') =
      map (model_data (s_fields (stores p ''store_consume''))) (consume_lines t xs ''consume'')"
    and "s_recs (stores q ''store_players'') =
      map (model_data (s_fields (stores p ''store_players''))) (consume_lines t xs ''players'')"
    by (simp_all add: write_lines_def fold_two_stores consume_lines_def sys_line_eq [OF refl, of t xs] store_removeAll_def)
qed

section \<open>The page keeps the contract\<close>

lemma updateGrid_invariant:
  assumes "\<And>n d p. n = ''store_consume'' \<or> n = ''store_players'' \<Longrightarrow> P p \<Longrightarrow> P (add_to n d p)"
    and "P (clear_store ''store_players'' (clear_store ''store_consume'' p))"
  shows "P (final_state (consumereport_updateGrid res p))"
proof -
  have "P (write_lines st q)" if "P q" for st q
  proof -
    have "P (fold (\<lambda>sn p. add_to ''store_players'' (f sn) (add_to ''store_consume'' (g sn) p)) sns q)" for f g sns
      using that by (induction sns arbitrary: q) (simp_all add: assms(1))
    then show ?thesis by (simp add: write_lines_def)
  qed
  then show ?thesis
    using assms(2) by (auto simp: consumereport_updateGrid_def with_val_def split: sum.split outcome.split)
qed

lemma consumereport_frame:
  "inputs (final_state (consumereport_updateGrid res p)) = inputs p"
  "\<not> result_store m \<Longrightarrow> stores (final_state (consumereport_updateGrid res p)) m = stores p m"
  "page_ok c p \<Longrightarrow> page_ok c (final_state (consumereport_updateGrid res p))"
  by (rule updateGrid_invariant; auto simp: result_store_def intro: page_intros)+

lemma vars_if: "(if b then p else p\<lparr>vars := vs\<rparr>) = p\<lparr>vars := if b then vars p else vs\<rparr>"
  by simp

lemma consumereport_guarded: "guarded_query consumereport_cfg consumereport_onBtnQuery"
  by (rule guarded_query_intro)
    (unfold consumereport_onBtnQuery_def Let_def vars_if, rule refl, auto simp: post_def nullish_falsy)

interpretation consumereport: asking_page consumereport
proof
  show "choices_apart (rp_cfg consumereport)" and "distinct (map fst (pg_widgets (rp_cfg consumereport)))"
    by (simp_all add: consumereport_def consumereport_cfg_def cfg_eval)
  show "guarded_query (rp_cfg consumereport) (rp_query consumereport)"
    using consumereport_guarded by (simp add: consumereport_def)
qed (auto simp: consumereport_def consumereport_launch_def consumereport_onBtnExport_def consumereport_onComplete_def
      consumereport_frame)

interpretation consumereport: report_program consumereport
  by unfold_locales (simp_all add: consumereport.asking_keeps, simp add: consumereport_def consumereport_frame)

section \<open>Properties\<close>

lemma answered_query:
  assumes "query_answer p e = [v]"
  shows "\<exists>ks kvs. v = JObj kvs \<and>
    page_step consumereport p e = final_state (consumereport_updateGrid (obj_get kvs ''res'') (p\<lparr>pending := ks\<rparr>))"
  using assms
  by (auto simp: query_answer_def ajax_response_def on_answer_def consumereport_def
      split: event.splits response.splits option.splits jsval.splits if_splits)

text \<open>
  C27. When a query of the consumption page is answered, after any sequence of events, the two
  grids show the reference table: one line per system, in the order of the first rows, and in
  it for every level the amount, or the number of players, of the last row that names the
  system and the level, 0 where there is none. Names are translated by the table of the
  currency the query button saw last.
\<close>

theorem consume_tables_refine:
  fixes w es
  defines "p \<equiv> run_page consumereport (launch consumereport w) es"
  assumes "query_answer p e = [v]" and "rows_wf present v"
  shows "store_getRange (stores (page_step consumereport p e) ''store_consume'') =
      map (model_data (s_fields (init_store consumereport_cfg ''store_consume'')))
        (consume_lines (names_for (g_cost_type p)) (rows_of v) ''consume'') \<and>
    store_getRange (stores (page_step consumereport p e) ''store_players'') =
      map (model_data (s_fields (init_store consumereport_cfg ''store_players'')))
        (consume_lines (names_for (g_cost_type p)) (rows_of v) ''players'')"
proof -
  from answered_query [OF assms(2)] obtain ks kvs where v: "v = JObj kvs"
    and q: "page_step consumereport p e = final_state (consumereport_updateGrid (obj_get kvs ''res'') (p\<lparr>pending := ks\<rparr>))"
    by blast
  have "s_fields (stores p n) = s_fields (init_store consumereport_cfg n)" for n
    using consumereport.run_ok [of w es] by (simp add: p_def page_ok_def consumereport_def)
  moreover have "g_cost_type (p\<lparr>pending := ks\<rparr>) = g_cost_type p" by (simp add: g_cost_type_def)
  moreover note rows = rows_wfD [OF assms(3)]
  ultimately show ?thesis
    using updateGrid_lines [OF rows(2), of "p\<lparr>pending := ks\<rparr>"] by (simp add: q v store_getRange_def)
qed

definition consume_run :: "event list" where
  "consume_run =
     [Answer 0 (ok_answer (JObj [])), Choose ''zone_input'' 0, Choose ''sdk_input'' 0, Choose ''platform_input'' 0,
      Choose ''cat_input'' 0, Pick ''date_input'' 1 ''d1'' ''2016-01-01'', ClickQuery]"

definition consume_answer :: event where
  "consume_answer = Answer 0 (ok_answer (JArr
     [JObj [(''sys_name'', JStr ''shop''), (''level_rgn'', JNum 10), (''consume'', JNum 7), (''players'', JNum 2)]]))"

lemma consume_run_waits:
  "pending (run_page consumereport (launch consumereport example_world) consume_run) = [KQuery]"
  "g_cost_type (run_page consumereport (launch consumereport example_world) consume_run) = JStr ''credits''"
  by (simp_all add: consume_run_def run_eval sdk_plats_loaded_def add_each_if_def add_to_def store_add_def
      model_data_def field_value_def g_cost_type_def consumereport_def consumereport_cfg_def consumereport_launch_def
      consumereport_onBtnQuery_def)

theorem consume_tables_refine_witness:
  "map (\<lambda>l. (obj_get l ''sys_name'', obj_get l ''lv10'')) (store_getRange (stores (page_step consumereport
     (run_page consumereport (launch consumereport example_world) consume_run) consume_answer) ''store_consume'')) =
   [(JStr ''shop'', JNum 7)]"
proof -
  let ?row = "JObj [(''sys_name'', JStr ''shop''), (''level_rgn'', JNum 10), (''consume'', JNum 7), (''players'', JNum 2)]"
  let ?v = "JObj [(''success'', JStr ''ok''), (''res'', JArr [?row])]"
  have ans: "query_answer (run_page consumereport (launch consumereport example_world) consume_run) consume_answer = [?v]"
    by (simp add: query_answer_def consume_answer_def ok_answer_def consume_run_waits js_eq_def js_prim_def)
  have digits: "digit_char 0 = CHR ''0''" "digit_char (Suc 0) = CHR ''1''" by code_simp+
  then have ten: "string_of_nat 10 = ''10''" by (simp add: string_of_nat.simps)
  have lines: "consume_lines map_sys_credits [?row] ''consume'' =
      [(''sys_name'', JStr ''shop'') # (''lv10'', JNum 7) #
        map (\<lambda>j. (level_key ''lv'' j, case last_row map_sys_credits [?row] ''shop'' (string_of_nat j) of
           None \<Rightarrow> JNum 0 | Some rc \<Rightarrow> js_prop rc ''consume'')) (tl enumLevel)]"
    by (simp add: consume_lines_def consume_line_def sys_of_def sys_key_def map_sys_credits_def enumLevel_eq ten
        level_key_def last_row_def level_of_def string_of_int_def)
  have fs: "''sys_name'' \<in> set (s_fields (init_store consumereport_cfg ''store_consume''))"
    "''lv10'' \<in> set (s_fields (init_store consumereport_cfg ''store_consume''))"
    by (simp_all add: set_init_fields fields_of_def consumereport_cfg_def consumereport_fields_def enumLevel_eq level_key_def ten)
  have wf: "rows_wf present ?v" by (simp add: rows_wf_def present_def)
  have "names_for (JStr ''credits'') = map_sys_credits" by (simp add: names_for_def js_eq_def js_prim_def)
  then show ?thesis
    using consume_tables_refine [OF ans wf] fs
    by (simp add: consume_run_waits rows_of_def lines obj_get_model_data)
qed

text \<open>
  The table of names for money is never used: the page compares the currency with a
  misspelt word, so a report on money is named by the table of the vouchers, and a system only the
  table of money knows (the booth) keeps its technical name.
\<close>

lemma money_named_as_vouchers:
  "names_for (JStr ''money'') = map_sys_voucher \<and>
   map_of (names_for (JStr ''money'')) ''booth_buy'' = None \<and> map_of map_sys_money ''booth_buy'' \<noteq> None"
  by (simp add: names_for_def js_eq_def js_prim_def map_sys_voucher_def map_sys_money_def)

end

