(* ===== verification/Console_Pages.thy ===== *)
theory Console_Pages
  imports Reports_Plain Reports_Saved Currency Level_Reports Online_Reports Recharge_Reports Guild_Reports Consume_Report
begin

text \<open>
  All report pages of the console together: the list \<open>report_pages\<close>, that every page's
  description holds together (stores, input fields, grid columns and layout name each other),
  which row property feeds which grid column, and what the export buttons send.
\<close>

section \<open>The pages\<close>

definition row_pages :: "(report \<times> layout \<times> (string \<times> string) list) list" where
  "row_pages = plain_pages @ currency_pages"

text \<open>The pages that keep their rows for the export, and whether they clear the kept rows first.\<close>

definition saving_pages :: "(report \<times> layout \<times> (string \<times> string) list \<times> bool) list" where
  "saving_pages = keeping_pages @ recharge_pages"

definition guild_pages :: "(report \<times> layout) list" where
  "guild_pages = [(guild_skill_record, guild_skill_record_view), (guild_active_record, guild_active_record_view)]"

text \<open>
  The pages that build the objects of their rows themselves, with the rows they can handle
  and the objects they make of them.
\<close>

definition mapped_pages :: "int \<Rightarrow> (report \<times> layout \<times> (jsval \<Rightarrow> bool) \<times> (jsval \<Rightarrow> jsobj)) list" where
  "mapped_pages tz =
     [(add_equip_report, add_equip_report_view, present, add_equip_report_row),
      (city_campaign_report, city_campaign_report_view, present, city_campaign_report_row),
      (level_campaign_report, level_campaign_report_view, level_campaign_good, level_campaign_row),
      (aveonlinereport tz, aveonlinereport_view, has_hours ''hours'', aveonlinereport_row tz),
      (maxonlinereport tz, maxonlinereport_view, present, maxonlinereport_row tz),
      (newusersreport tz, newusersreport_view, has_hours ''counts'', newusersreport_row tz),
      (activeusersreport tz, activeusersreport_view, has_hours ''counts'', activeusersreport_row tz)]"

text \<open>The pages with a table of amounts and one of players, with the store of the amounts and the key of a row.\<close>

definition loss_pages :: "(report \<times> layout \<times> string \<times> string) list" where
  "loss_pages =
     [(loss_consume_report, loss_consume_report_view, ''store_consume'', ''sys_name''),
      (loss_recharge_report, loss_recharge_report_view, ''store_recharge'', ''goods'')]"

definition report_pages :: "int \<Rightarrow> (report \<times> layout) list" where
  "report_pages tz =
     map (\<lambda>(r, v, ks). (r, v)) row_pages @ map (\<lambda>(r, v, ks, clr). (r, v)) saving_pages @
     map (\<lambda>(r, v, good, row). (r, v)) (mapped_pages tz) @ map (\<lambda>(r, v, n, key). (r, v)) loss_pages @
     guild_pages @ [(loss_report, loss_report_view), (totalactive, totalactive_view), (consumereport, consumereport_view)]"

lemma row_pages_contract: "(r, v, ks) \<in> set row_pages \<Longrightarrow> plain_report r ks"
  by (auto simp: row_pages_def intro: plain_pages_contract currency_pages_contract)

lemma saving_pages_contract: "(r, v, ks, clr) \<in> set saving_pages \<Longrightarrow> keeping_report r ks clr"
  by (auto simp: saving_pages_def intro: keeping_pages_contract recharge_pages_contract)

lemma mapped_pages_contract:
  "(r, v, good, row) \<in> set (mapped_pages tz) \<Longrightarrow> \<exists>mk. mapped_report r ''store_grid'' good mk row"
  unfolding mapped_pages_def
  by (auto intro: add_equip_report.mapped_report_axioms city_campaign_report.mapped_report_axioms
      level_campaign_report.mapped_report_axioms aveonlinereport.mapped_report_axioms
      maxonlinereport.mapped_report_axioms newusersreport.mapped_report_axioms
      activeusersreport.mapped_report_axioms)

lemma loss_pages_contract: "(r, v, n, key) \<in> set loss_pages \<Longrightarrow> level_loss_report r n key"
  unfolding loss_pages_def
  by (auto intro: loss_consume_report.level_loss_report_axioms loss_recharge_report.level_loss_report_axioms)

lemma report_pages_cases:
  assumes "(r, v) \<in> set (report_pages tz)"
  obtains (row) ks where "(r, v, ks) \<in> set row_pages"
    | (keeping) ks clr where "(r, v, ks, clr) \<in> set saving_pages"
    | (mapped) good row where "(r, v, good, row) \<in> set (mapped_pages tz)"
    | (losses) n key where "(r, v, n, key) \<in> set loss_pages"
    | (guild) "(r, v) \<in> set guild_pages"
    | (loss) "r = loss_report" "v = loss_report_view"
    | (active) "r = totalactive" "v = totalactive_view"
    | (consume) "r = consumereport" "v = consumereport_view"
  using assms by (auto simp: report_pages_def)

lemma report_pages_contract:
  assumes "(r, v) \<in> set (report_pages tz)"
  shows "asking_page r" and "report_program r"
proof -
  have "asking_page r \<and> report_program r"
    using assms
  proof (cases rule: report_pages_cases)
    case (row ks)
    note c = row_pages_contract [OF row]
    show ?thesis using plain_report.axioms(1) [OF c] plain_report.program [OF c] by blast
  next
    case (keeping ks clr)
    note c = saving_pages_contract [OF keeping]
    show ?thesis using keeping_report.axioms(1) [OF c] keeping_report.program [OF c] by blast
  next
    case (mapped good row)
    from mapped_pages_contract [OF mapped] obtain mk where c: "mapped_report r ''store_grid'' good mk row" ..
    show ?thesis using mapped_report.axioms(1) [OF c] mapped_report.program [OF c] by blast
  next
    case (losses n key)
    note c = loss_pages_contract [OF losses]
    show ?thesis using level_loss_report.axioms(1) [OF c] level_loss_report.program [OF c] by blast
  next
    case guild
    then show ?thesis
      using guild_skill_record.asking_page_axioms guild_skill_record.report_program_axioms
        guild_active_record.asking_page_axioms guild_active_record.report_program_axioms
      by (auto simp: guild_pages_def)
  next
    case consume
    then show ?thesis using consumereport.asking_page_axioms consumereport.report_program_axioms by simp
  next
    case loss
    then show ?thesis using loss_report.asking_page_axioms loss_report.report_program_axioms by simp
  next
    case active
    then show ?thesis using totalactive.asking_page_axioms totalactive.report_program_axioms by simp
  qed
  then show "asking_page r" and "report_program r" by simp_all
qed

section \<open>Descriptions hold together\<close>

definition page_fits :: "report \<Rightarrow> layout \<Rightarrow> bool" where
  "page_fits r v = (cfg_ok (rp_cfg r) \<and> layout_ok (rp_cfg r) v)"

text \<open>Every grid column is fed, and only by the row property of its own name.\<close>

definition columns_fed :: "report \<Rightarrow> (string \<times> string) list \<Rightarrow> bool" where
  "columns_fed r ks =
     list_all (\<lambda>(n, g). list_all (\<lambda>k. List.member (map fst ks) (c_dataIndex k) \<and>
         list_all (\<lambda>(a, f). a = c_dataIndex k \<longrightarrow> f = c_dataIndex k) ks) (gr_columns g)) (pg_grids (rp_cfg r))"

definition main_grid :: "report \<Rightarrow> grid" where
  "main_grid r = snd (hd (pg_grids (rp_cfg r)))"

definition grid_in :: "report \<Rightarrow> string \<Rightarrow> bool" where
  "grid_in r n = (pg_grids (rp_cfg r) \<noteq> [] \<and> gr_store (main_grid r) = n)"

lemma main_grid_listed: "grid_in r n \<Longrightarrow> \<exists>m. (m, main_grid r) \<in> set (pg_grids (rp_cfg r))"
  by (cases "pg_grids (rp_cfg r)") (auto simp: grid_in_def main_grid_def)

lemma main_grid_fields:
  assumes "page_fits r v" and "grid_in r n" and "k \<in> set (gr_columns (main_grid r))"
  shows "c_dataIndex k \<in> set (s_fields (init_store (rp_cfg r) n))"
proof -
  from main_grid_listed [OF assms(2)] obtain m where "(m, main_grid r) \<in> set (pg_grids (rp_cfg r))" ..
  with assms have "grid_ok (rp_cfg r) (main_grid r)" and "gr_store (main_grid r) = n"
    by (auto simp: page_fits_def cfg_ok_def grid_in_def list_all_iff)
  with assms(3) show ?thesis by (auto simp: grid_ok_def set_init_fields list_all_iff)
qed

named_theorems page_fit "the descriptions of the single pages hold together"

lemmas fit_eval = page_fits_def columns_fed_def grid_in_def main_grid_def cfg_ok_def layout_ok_def grid_ok_def fields_of_def cfg_eval

lemma exporting_pageI:
  "asking_page r \<Longrightarrow> (\<And>p. rp_export r p = start_export (KExport (g_search_name p)) n cols p) \<Longrightarrow>
     exporting_page r n cols"
  by (intro exporting_page.intro exporting_page_axioms.intro)

lemma obj_get_row_obj:
  assumes "list_all (\<lambda>(a, f). a = i \<longrightarrow> f = i) ks"
  shows "obj_get (row_obj ks rc) i = (if i \<in> set (map fst ks) then js_prop rc i else JUndef)"
proof -
  have "obj_get (fold (\<lambda>(k, f) d. obj_set k (js_prop rc f) d) ks d) i =
      (if i \<in> set (map fst ks) then js_prop rc i else obj_get d i)" for d
    using assms by (induction ks arbitrary: d) auto
  then show ?thesis by (simp add: row_obj_def)
qed

lemma column_cell:
  assumes "columns_fed r ks" and "(m, g) \<in> set (pg_grids (rp_cfg r))" and "k \<in> set (gr_columns g)"
  shows "obj_get (row_obj ks rc) (c_dataIndex k) = js_prop rc (c_dataIndex k)"
proof -
  have "c_dataIndex k \<in> set (map fst ks)" and "list_all (\<lambda>(a, f). a = c_dataIndex k \<longrightarrow> f = c_dataIndex k) ks"
    using assms by (fastforce simp: columns_fed_def list_all_iff)+
  then show ?thesis by (simp add: obj_get_row_obj)
qed


lemma activereport_fits [page_fit]: "page_fits activereport activereport_view" "columns_fed activereport activereport_row"
    "grid_in activereport ''store_grid''"
  by (simp_all add: fit_eval activereport_def activereport_cfg_def activereport_view_def activereport_columns_def activereport_row_def)

interpretation activereport_export: exporting_page activereport "''store_grid''" "gr_columns (main_grid activereport)"
  by (rule exporting_pageI [OF activereport.asking_page_axioms])
    (simp add: main_grid_def activereport_def activereport_onBtnExport_def activereport_cfg_def)

lemma retentionreport_fits [page_fit]: "page_fits retentionreport retentionreport_view" "columns_fed retentionreport retentionreport_row"
    "grid_in retentionreport ''store_grid''"
  by (simp_all add: fit_eval retentionreport_def retentionreport_cfg_def retentionreport_view_def retentionreport_columns_def retentionreport_row_def)

interpretation retentionreport_export: exporting_page retentionreport "''store_grid''" "gr_columns (main_grid retentionreport)"
  by (rule exporting_pageI [OF retentionreport.asking_page_axioms])
    (simp add: main_grid_def retentionreport_def retentionreport_onBtnExport_def retentionreport_cfg_def)

lemma all_factions_report_fits [page_fit]: "page_fits all_factions_report all_factions_report_view" "columns_fed all_factions_report all_factions_report_row"
    "grid_in all_factions_report ''store_grid''"
  by (simp_all add: fit_eval all_factions_report_def all_factions_report_cfg_def all_factions_report_view_def all_factions_report_columns_def all_factions_report_row_def)

interpretation all_factions_report_export: exporting_page all_factions_report "''store_grid''" "gr_columns (main_grid all_factions_report)"
  by (rule exporting_pageI [OF all_factions_report.asking_page_axioms])
    (simp add: main_grid_def all_factions_report_def all_factions_report_onBtnExport_def all_factions_report_cfg_def)

lemma all_player_city_event_level_report_fits [page_fit]: "page_fits all_player_city_event_level_report all_player_city_event_level_report_view" "columns_fed all_player_city_event_level_report all_player_city_event_level_report_row"
    "grid_in all_player_city_event_level_report ''store_grid''"
  by (simp_all add: fit_eval all_player_city_event_level_report_def all_player_city_event_level_report_cfg_def all_player_city_event_level_report_view_def all_player_city_event_level_report_columns_def all_player_city_event_level_report_row_def)

interpretation all_player_city_event_level_report_export: exporting_page all_player_city_event_level_report "''store_grid''" "gr_columns (main_grid all_player_city_event_level_report)"
  by (rule exporting_pageI [OF all_player_city_event_level_report.asking_page_axioms])
    (simp add: main_grid_def all_player_city_event_level_report_def all_player_city_event_level_report_onBtnExport_def all_player_city_event_level_report_cfg_def)

lemma all_player_level_report_fits [page_fit]: "page_fits all_player_level_report all_player_level_report_view" "columns_fed all_player_level_report all_player_level_report_row"
    "grid_in all_player_level_report ''store_grid''"
  by (simp_all add: fit_eval all_player_level_report_def all_player_level_report_cfg_def all_player_level_report_view_def all_player_level_report_columns_def all_player_level_report_row_def)

interpretation all_player_level_report_export: exporting_page all_player_level_report "''store_grid''" "gr_columns (main_grid all_player_level_report)"
  by (rule exporting_pageI [OF all_player_level_report.asking_page_axioms])
    (simp add: main_grid_def all_player_level_report_def all_player_level_report_onBtnExport_def all_player_level_report_cfg_def)

lemma born_quest_report_fits [page_fit]: "page_fits born_quest_report born_quest_report_view" "columns_fed born_quest_report born_quest_report_row"
    "grid_in born_quest_report ''store_grid''"
  by (simp_all add: fit_eval born_quest_report_def born_quest_report_cfg_def born_quest_report_view_def born_quest_report_columns_def born_quest_report_row_def)

interpretation born_quest_report_export: exporting_page born_quest_report "''store_grid''" "gr_columns (main_grid born_quest_report)"
  by (rule exporting_pageI [OF born_quest_report.asking_page_axioms])
    (simp add: main_grid_def born_quest_report_def born_quest_report_onBtnExport_def born_quest_report_cfg_def)

lemma share_award_report_fits [page_fit]: "page_fits share_award_report share_award_report_view" "columns_fed share_award_report share_award_report_row"
    "grid_in share_award_report ''store_grid''"
  by (simp_all add: fit_eval share_award_report_def share_award_report_cfg_def share_award_report_view_def share_award_report_columns_def share_award_report_row_def)

interpretation share_award_report_export: exporting_page share_award_report "''store_grid''" "gr_columns (main_grid share_award_report)"
  by (rule exporting_pageI [OF share_award_report.asking_page_axioms])
    (simp add: main_grid_def share_award_report_def share_award_report_onBtnExport_def share_award_report_cfg_def)

lemma shopconsumereport_fits [page_fit]: "page_fits shopconsumereport shopconsumereport_view" "columns_fed shopconsumereport shopconsumereport_row"
    "grid_in shopconsumereport ''store_grid''"
  by (simp_all add: fit_eval shopconsumereport_def shopconsumereport_cfg_def shopconsumereport_view_def shopconsumereport_columns_def shopconsumereport_row_def)

interpretation shopconsumereport_export: exporting_page shopconsumereport "''store_grid''" "gr_columns (main_grid shopconsumereport)"
  by (rule exporting_pageI [OF shopconsumereport.asking_page_axioms])
    (simp add: main_grid_def shopconsumereport_def shopconsumereport_onBtnExport_def shopconsumereport_cfg_def)

lemma vip_level_report_fits [page_fit]: "page_fits vip_level_report vip_level_report_view" "columns_fed vip_level_report vip_level_report_row"
    "grid_in vip_level_report ''store_grid''"
  by (simp_all add: fit_eval vip_level_report_def vip_level_report_cfg_def vip_level_report_view_def vip_level_report_columns_def vip_level_report_row_def)

interpretation vip_level_report_export: exporting_page vip_level_report "''store_grid''" "gr_columns (main_grid vip_level_report)"
  by (rule exporting_pageI [OF vip_level_report.asking_page_axioms])
    (simp add: main_grid_def vip_level_report_def vip_level_report_onBtnExport_def vip_level_report_cfg_def)

lemma vip_purchase_report_fits [page_fit]: "page_fits vip_purchase_report vip_purchase_report_view" "columns_fed vip_purchase_report vip_purchase_report_row"
    "grid_in vip_purchase_report ''store_grid''"
  by (simp_all add: fit_eval vip_purchase_report_def vip_purchase_report_cfg_def vip_purchase_report_view_def vip_purchase_report_columns_def vip_purchase_report_row_def)

interpretation vip_purchase_report_export: exporting_page vip_purchase_report "''store_grid''" "gr_columns (main_grid vip_purchase_report)"
  by (rule exporting_pageI [OF vip_purchase_report.asking_page_axioms])
    (simp add: main_grid_def vip_purchase_report_def vip_purchase_report_onBtnExport_def vip_purchase_report_cfg_def)

lemma mainquestcamreport_fits [page_fit]: "page_fits mainquestcamreport mainquestcamreport_view" "columns_fed mainquestcamreport mainquestcamreport_row"
    "grid_in mainquestcamreport ''store_grid''"
  by (simp_all add: fit_eval mainquestcamreport_def mainquestcamreport_cfg_def mainquestcamreport_view_def mainquestcamreport_columns_def mainquestcamreport_row_def)

interpretation mainquestcamreport_export: exporting_page mainquestcamreport "''store_grid''" "gr_columns (main_grid mainquestcamreport)"
  by (rule exporting_pageI [OF mainquestcamreport.asking_page_axioms])
    (simp add: main_grid_def mainquestcamreport_def mainquestcamreport_onBtnExport_def mainquestcamreport_cfg_def)

lemma chieflevelreport_fits [page_fit]: "page_fits chieflevelreport chieflevelreport_view" "columns_fed chieflevelreport chieflevelreport_row"
    "grid_in chieflevelreport ''store_grid''"
  by (simp_all add: fit_eval chieflevelreport_def chieflevelreport_cfg_def chieflevelreport_view_def chieflevelreport_columns_def chieflevelreport_row_def)

interpretation chieflevelreport_export: exporting_page chieflevelreport "''store_grid''" "gr_columns (main_grid chieflevelreport)"
  by (rule exporting_pageI [OF chieflevelreport.asking_page_axioms])
    (simp add: main_grid_def chieflevelreport_def chieflevelreport_onBtnExport_def chieflevelreport_cfg_def)

lemma citylevelreport_fits [page_fit]: "page_fits citylevelreport citylevelreport_view" "columns_fed citylevelreport citylevelreport_row"
    "grid_in citylevelreport ''store_grid''"
  by (simp_all add: fit_eval citylevelreport_def citylevelreport_cfg_def citylevelreport_view_def citylevelreport_columns_def citylevelreport_row_def)

interpretation citylevelreport_export: exporting_page citylevelreport "''store_grid''" "gr_columns (main_grid citylevelreport)"
  by (rule exporting_pageI [OF citylevelreport.asking_page_axioms])
    (simp add: main_grid_def citylevelreport_def citylevelreport_onBtnExport_def citylevelreport_cfg_def)

lemma main_quest_report_fits [page_fit]: "page_fits main_quest_report main_quest_report_view" "columns_fed main_quest_report main_quest_report_row"
    "grid_in main_quest_report ''store_grid''"
  by (simp_all add: fit_eval main_quest_report_def main_quest_report_cfg_def main_quest_report_view_def main_quest_report_columns_def main_quest_report_row_def)

interpretation main_quest_report_export: exporting_page main_quest_report "''store_grid''" "gr_columns (main_grid main_quest_report)"
  by (rule exporting_pageI [OF main_quest_report.asking_page_axioms])
    (simp add: main_grid_def main_quest_report_def main_quest_report_onBtnExport_def main_quest_report_cfg_def)

lemma main_quest_user_report_fits [page_fit]: "page_fits main_quest_user_report main_quest_user_report_view" "columns_fed main_quest_user_report main_quest_user_report_row"
    "grid_in main_quest_user_report ''store_grid''"
  by (simp_all add: fit_eval main_quest_user_report_def main_quest_user_report_cfg_def main_quest_user_report_view_def main_quest_user_report_columns_def main_quest_user_report_row_def)

interpretation main_quest_user_report_export: exporting_page main_quest_user_report "''store_grid''" "gr_columns (main_grid main_quest_user_report)"
  by (rule exporting_pageI [OF main_quest_user_report.asking_page_axioms])
    (simp add: main_grid_def main_quest_user_report_def main_quest_user_report_onBtnExport_def main_quest_user_report_cfg_def)

lemma plain_pages_fit:
  assumes "(r, v, ks) \<in> set plain_pages"
  shows "page_fits r v" and "columns_fed r ks" and "grid_in r ''store_grid''" and "exporting_page r ''store_grid'' (gr_columns (main_grid r))"
  using assms by (auto simp: plain_pages_def page_fit
      activereport_export.exporting_page_axioms retentionreport_export.exporting_page_axioms
      all_factions_report_export.exporting_page_axioms
      all_player_city_event_level_report_export.exporting_page_axioms
      all_player_level_report_export.exporting_page_axioms born_quest_report_export.exporting_page_axioms
      share_award_report_export.exporting_page_axioms shopconsumereport_export.exporting_page_axioms
      vip_level_report_export.exporting_page_axioms vip_purchase_report_export.exporting_page_axioms
      mainquestcamreport_export.exporting_page_axioms chieflevelreport_export.exporting_page_axioms
      citylevelreport_export.exporting_page_axioms main_quest_report_export.exporting_page_axioms
      main_quest_user_report_export.exporting_page_axioms)

subsection \<open>The generated reports\<close>

lemma gen_keys_names:
  "(k, f) \<in> set (gen_keys a) \<Longrightarrow> f = k"
  "categories a \<noteq> [] \<Longrightarrow> set (map fst (gen_keys a)) = set (gen_fields a)"
  by (auto simp: gen_keys_def gen_fields_def image_Un image_image image_UN split: if_splits)

lemma gen_columns_in_fields: "k \<in> set (gen_columns a) \<Longrightarrow> c_dataIndex k \<in> set (gen_fields a)"
  unfolding gen_columns_index [symmetric] by simp

lemma gen_columns_fed:
  assumes "categories a \<noteq> []" and "k \<in> set (gen_columns a)"
  shows "c_dataIndex k \<in> set (map fst (gen_keys a))" and "list_all (\<lambda>(b, f). b = c_dataIndex k \<longrightarrow> f = c_dataIndex k) (gen_keys a)"
  using gen_keys_names(2) [OF assms(1)] gen_columns_in_fields [OF assms(2)] gen_keys_names(1) [of _ _ a]
  by (auto simp: list_all_iff)

lemma genView_fits [page_fit]:
  "page_fits (genView app a) genView_view"
  "categories a \<noteq> [] \<Longrightarrow> columns_fed (genView app a) (gen_keys a)"
  "grid_in (genView app a) ''store_grid''"
  using gen_columns_fed [of a]
  by (simp_all add: fit_eval genView_def genView_cfg_def genView_view_def list_all_iff gen_columns_in_fields)

interpretation genView_export: exporting_page "(genView app a)" "''store_grid''" "gr_columns (main_grid (genView app a))" for app a
  by (rule exporting_pageI [OF gen_view.asking_page_axioms])
    (simp add: main_grid_def genView_def genView_onBtnExport_def genView_cfg_def)

lemma genViewNoSdkPlat_fits [page_fit]:
  "page_fits (genViewNoSdkPlat app a) genViewNoSdkPlat_view"
  "categories a \<noteq> [] \<Longrightarrow> columns_fed (genViewNoSdkPlat app a) (gen_keys a)"
  "grid_in (genViewNoSdkPlat app a) ''store_grid''"
  using gen_columns_fed [of a]
  by (simp_all add: fit_eval genViewNoSdkPlat_def genViewNoSdkPlat_cfg_def genViewNoSdkPlat_view_def list_all_iff
      gen_columns_in_fields)

interpretation genViewNoSdkPlat_export: exporting_page "(genViewNoSdkPlat app a)" "''store_grid''" "gr_columns (main_grid (genViewNoSdkPlat app a))" for app a
  by (rule exporting_pageI [OF gen_view_zones.asking_page_axioms])
    (simp add: main_grid_def genViewNoSdkPlat_def genViewNoSdkPlat_onBtnExport_def genViewNoSdkPlat_cfg_def)

lemma currency_args_nonempty: "a \<in> set currency_args \<Longrightarrow> categories a \<noteq> []"
  unfolding currency_args_def
  by (auto simp: creditsconsumereport_args_def creditsgainreport_args_def coinsconsumereport_args_def coinsgainreport_args_def moneyconsumereport_args_def moneygainreport_args_def voucherconsumereport_args_def vouchergainreport_args_def startcampaignreport_args_def active_factions_report_args_def)

lemma currency_pages_shape:
  assumes "(r, v, ks) \<in> set currency_pages"
  obtains app a where "a \<in> set currency_args" and "ks = gen_keys a"
    and "r = genView app a \<and> v = genView_view \<or> r = genViewNoSdkPlat app a \<and> v = genViewNoSdkPlat_view"
  using assms that unfolding currency_pages_def currency_args_def creditsconsumereport_def creditsgainreport_def coinsconsumereport_def coinsgainreport_def moneyconsumereport_def moneygainreport_def voucherconsumereport_def vouchergainreport_def startcampaignreport_def active_factions_report_def
  by (simp, blast)

lemma row_pages_fit:
  assumes "(r, v, ks) \<in> set row_pages"
  shows "page_fits r v" and "columns_fed r ks" and "grid_in r ''store_grid''" and "exporting_page r ''store_grid'' (gr_columns (main_grid r))"
proof -
  have "page_fits r v \<and> columns_fed r ks \<and> grid_in r ''store_grid'' \<and> exporting_page r ''store_grid'' (gr_columns (main_grid r))"
  proof (cases "(r, v, ks) \<in> set plain_pages")
    case True
    then show ?thesis using plain_pages_fit by blast
  next
    case False
    with assms have "(r, v, ks) \<in> set currency_pages" by (simp add: row_pages_def)
    then show ?thesis
      by (cases rule: currency_pages_shape)
        (auto simp: genView_fits genView_export.exporting_page_axioms genViewNoSdkPlat_fits genViewNoSdkPlat_export.exporting_page_axioms currency_args_nonempty)
  qed
  then show "page_fits r v" and "columns_fed r ks" and "grid_in r ''store_grid''" and "exporting_page r ''store_grid'' (gr_columns (main_grid r))"
    by simp_all
qed

subsection \<open>The pages that keep their rows\<close>

lemma boothtradereport_fits [page_fit]: "page_fits boothtradereport boothtradereport_view" "grid_in boothtradereport ''store_grid''"
  by (simp_all add: fit_eval boothtradereport_def boothtradereport_cfg_def boothtradereport_view_def boothtradereport_columns_def boothtradereport_row_def)

interpretation boothtradereport_export: exporting_page boothtradereport "''save_store''" "gr_columns (main_grid boothtradereport)"
  by (rule exporting_pageI [OF boothtradereport.asking_page_axioms])
    (simp add: main_grid_def boothtradereport_def boothtradereport_onBtnExport_def boothtradereport_cfg_def)

lemma bosspracticereport_fits [page_fit]: "page_fits bosspracticereport bosspracticereport_view" "columns_fed bosspracticereport bosspracticereport_row" "grid_in bosspracticereport ''store_grid''"
  by (simp_all add: fit_eval bosspracticereport_def bosspracticereport_cfg_def bosspracticereport_view_def bosspracticereport_columns_def bosspracticereport_row_def)

interpretation bosspracticereport_export: exporting_page bosspracticereport "''save_store''" "gr_columns (main_grid bosspracticereport)"
  by (rule exporting_pageI [OF bosspracticereport.asking_page_axioms])
    (simp add: main_grid_def bosspracticereport_def bosspracticereport_onBtnExport_def bosspracticereport_cfg_def)

lemma guild_level_record_fits [page_fit]: "page_fits guild_level_record guild_level_record_view" "columns_fed guild_level_record guild_level_record_row" "grid_in guild_level_record ''store_grid''"
  by (simp_all add: fit_eval guild_level_record_def guild_level_record_cfg_def guild_level_record_view_def guild_level_record_columns_def guild_level_record_row_def)

interpretation guild_level_record_export: exporting_page guild_level_record "''save_store''" "gr_columns (main_grid guild_level_record)"
  by (rule exporting_pageI [OF guild_level_record.asking_page_axioms])
    (simp add: main_grid_def guild_level_record_def guild_level_record_onBtnExport_def guild_level_record_cfg_def)

lemma campaign_report_fits [page_fit]: "page_fits campaign_report campaign_report_view" "columns_fed campaign_report campaign_report_row" "grid_in campaign_report ''store_grid''"
  by (simp_all add: fit_eval campaign_report_def campaign_report_cfg_def campaign_report_view_def campaign_report_columns_def campaign_report_row_def)

interpretation campaign_report_export: exporting_page campaign_report "''save_store''" "gr_columns (main_grid campaign_report)"
  by (rule exporting_pageI [OF campaign_report.asking_page_axioms])
    (simp add: main_grid_def campaign_report_def campaign_report_onBtnExport_def campaign_report_cfg_def)

lemma chapterquestreport_fits [page_fit]: "page_fits chapterquestreport chapterquestreport_view" "columns_fed chapterquestreport chapterquestreport_row" "grid_in chapterquestreport ''store_grid''"
  by (simp_all add: fit_eval chapterquestreport_def chapterquestreport_cfg_def chapterquestreport_view_def chapterquestreport_columns_def chapterquestreport_row_def)

interpretation chapterquestreport_export: exporting_page chapterquestreport "''save_store''" "gr_columns (main_grid chapterquestreport)"
  by (rule exporting_pageI [OF chapterquestreport.asking_page_axioms])
    (simp add: main_grid_def chapterquestreport_def chapterquestreport_onBtnExport_def chapterquestreport_cfg_def)

lemma player_recharge_record_fits [page_fit]: "page_fits player_recharge_record player_recharge_record_view" "columns_fed player_recharge_record player_recharge_record_row" "grid_in player_recharge_record ''store_grid''"
  by (simp_all add: fit_eval player_recharge_record_def player_recharge_record_cfg_def player_recharge_record_view_def player_recharge_record_columns_def player_recharge_record_row_def)

interpretation player_recharge_record_export: exporting_page player_recharge_record "''save_store''" "gr_columns (main_grid player_recharge_record)"
  by (rule exporting_pageI [OF player_recharge_record.asking_page_axioms])
    (simp add: main_grid_def player_recharge_record_def player_recharge_record_onBtnExport_def player_recharge_record_cfg_def)

lemma player_recharge_report_fits [page_fit]: "page_fits player_recharge_report player_recharge_report_view" "columns_fed player_recharge_report player_recharge_report_row" "grid_in player_recharge_report ''store_grid''"
  by (simp_all add: fit_eval player_recharge_report_def player_recharge_report_cfg_def player_recharge_report_view_def player_recharge_report_columns_def player_recharge_report_row_def)

interpretation player_recharge_report_export: exporting_page player_recharge_report "''save_store''" "gr_columns (main_grid player_recharge_report)"
  by (rule exporting_pageI [OF player_recharge_report.asking_page_axioms])
    (simp add: main_grid_def player_recharge_report_def player_recharge_report_onBtnExport_def player_recharge_report_cfg_def)

lemma new_player_recharge_report_fits [page_fit]: "page_fits new_player_recharge_report new_player_recharge_report_view" "columns_fed new_player_recharge_report new_player_recharge_report_row" "grid_in new_player_recharge_report ''store_grid''"
  by (simp_all add: fit_eval new_player_recharge_report_def new_player_recharge_report_cfg_def new_player_recharge_report_view_def new_player_recharge_report_columns_def new_player_recharge_report_row_def)

interpretation new_player_recharge_report_export: exporting_page new_player_recharge_report "''save_store''" "gr_columns (main_grid new_player_recharge_report)"
  by (rule exporting_pageI [OF new_player_recharge_report.asking_page_axioms])
    (simp add: main_grid_def new_player_recharge_report_def new_player_recharge_report_onBtnExport_def new_player_recharge_report_cfg_def)

lemma saving_pages_fit:
  assumes "(r, v, ks, clr) \<in> set saving_pages"
  shows "page_fits r v" and "grid_in r ''store_grid''" and "exporting_page r ''save_store'' (gr_columns (main_grid r))"
    and "r \<noteq> boothtradereport \<Longrightarrow> columns_fed r ks"
  using assms by (auto simp: saving_pages_def keeping_pages_def recharge_pages_def page_fit
      boothtradereport_export.exporting_page_axioms bosspracticereport_export.exporting_page_axioms
      guild_level_record_export.exporting_page_axioms campaign_report_export.exporting_page_axioms
      chapterquestreport_export.exporting_page_axioms player_recharge_record_export.exporting_page_axioms
      player_recharge_report_export.exporting_page_axioms
      new_player_recharge_report_export.exporting_page_axioms)

subsection \<open>The other pages\<close>

lemma add_equip_report_fits [page_fit]: "page_fits add_equip_report add_equip_report_view"
  by (simp add: fit_eval add_equip_report_def add_equip_report_cfg_def add_equip_report_view_def add_equip_report_columns_def)

interpretation add_equip_report_export: exporting_page add_equip_report "''store_grid''" "gr_columns (main_grid add_equip_report)"
  by (rule exporting_pageI [OF add_equip_report.asking_page_axioms])
    (simp add: main_grid_def add_equip_report_def add_equip_report_onBtnExport_def add_equip_report_cfg_def)

lemma city_campaign_report_fits [page_fit]: "page_fits city_campaign_report city_campaign_report_view"
  by (simp add: fit_eval city_campaign_report_def city_campaign_report_cfg_def city_campaign_report_view_def city_campaign_report_columns_def)

interpretation city_campaign_report_export: exporting_page city_campaign_report "''store_grid''" "gr_columns (main_grid city_campaign_report)"
  by (rule exporting_pageI [OF city_campaign_report.asking_page_axioms])
    (simp add: main_grid_def city_campaign_report_def city_campaign_report_onBtnExport_def city_campaign_report_cfg_def)

lemma level_campaign_report_fits [page_fit]: "page_fits level_campaign_report level_campaign_report_view"
  by (simp add: fit_eval level_campaign_report_def level_campaign_report_cfg_def level_campaign_report_view_def level_campaign_report_columns_def level_campaign_report_fields_def level_campaign_report_fields_def enumLevel_eq)

interpretation level_campaign_report_export: exporting_page level_campaign_report "''store_grid''" "gr_columns (main_grid level_campaign_report)"
  by (rule exporting_pageI [OF level_campaign_report.asking_page_axioms])
    (simp add: main_grid_def level_campaign_report_def level_campaign_report_onBtnExport_def level_campaign_report_cfg_def)

lemma aveonlinereport_fits [page_fit]: "page_fits (aveonlinereport tz) aveonlinereport_view"
  by (simp add: fit_eval aveonlinereport_def aveonlinereport_cfg_def aveonlinereport_view_def aveonlinereport_columns_def aveonlinereport_fields_def hours_def list_all_iff)

interpretation aveonlinereport_export: exporting_page "(aveonlinereport tz)" "''store_grid''" "gr_columns (main_grid (aveonlinereport tz))" for tz
  by (rule exporting_pageI [OF aveonlinereport.asking_page_axioms])
    (simp add: main_grid_def aveonlinereport_def aveonlinereport_onBtnExport_def aveonlinereport_cfg_def)

lemma maxonlinereport_fits [page_fit]: "page_fits (maxonlinereport tz) maxonlinereport_view"
  by (simp add: fit_eval maxonlinereport_def maxonlinereport_cfg_def maxonlinereport_view_def maxonlinereport_columns_def hours_def list_all_iff)

interpretation maxonlinereport_export: exporting_page "(maxonlinereport tz)" "''store_grid''" "gr_columns (main_grid (maxonlinereport tz))" for tz
  by (rule exporting_pageI [OF maxonlinereport.asking_page_axioms])
    (simp add: main_grid_def maxonlinereport_def maxonlinereport_onBtnExport_def maxonlinereport_cfg_def)

lemma newusersreport_fits [page_fit]: "page_fits (newusersreport tz) newusersreport_view"
  by (simp add: fit_eval newusersreport_def newusersreport_cfg_def newusersreport_view_def newusersreport_columns_def newusersreport_fields_def hours_def list_all_iff)

interpretation newusersreport_export: exporting_page "(newusersreport tz)" "''store_grid''" "gr_columns (main_grid (newusersreport tz))" for tz
  by (rule exporting_pageI [OF newusersreport.asking_page_axioms])
    (simp add: main_grid_def newusersreport_def newusersreport_onBtnExport_def newusersreport_cfg_def)

lemma activeusersreport_fits [page_fit]: "page_fits (activeusersreport tz) activeusersreport_view"
  by (simp add: fit_eval activeusersreport_def activeusersreport_cfg_def activeusersreport_view_def activeusersreport_columns_def activeusersreport_fields_def hours_def list_all_iff)

interpretation activeusersreport_export: exporting_page "(activeusersreport tz)" "''store_grid''" "gr_columns (main_grid (activeusersreport tz))" for tz
  by (rule exporting_pageI [OF activeusersreport.asking_page_axioms])
    (simp add: main_grid_def activeusersreport_def activeusersreport_onBtnExport_def activeusersreport_cfg_def)

lemma loss_consume_report_fits [page_fit]: "page_fits loss_consume_report loss_consume_report_view"
  by (simp add: fit_eval loss_consume_report_def loss_consume_report_cfg_def loss_consume_report_view_def loss_consume_report_fields_def loss_consume_report_columns_consume_def loss_consume_report_columns_players_def enumLevel_eq)

lemma loss_recharge_report_fits [page_fit]: "page_fits loss_recharge_report loss_recharge_report_view"
  by (simp add: fit_eval loss_recharge_report_def loss_recharge_report_cfg_def loss_recharge_report_view_def loss_recharge_report_fields_def loss_recharge_report_columns_consume_def loss_recharge_report_columns_players_def enumLevel_eq)

lemma loss_report_fits [page_fit]: "page_fits loss_report loss_report_view"
  by (simp add: fit_eval loss_report_def loss_report_cfg_def loss_report_view_def loss_report_columns_def enumLevel_eq)

lemma totalactive_fits [page_fit]: "page_fits totalactive totalactive_view"
  by (simp add: fit_eval totalactive_def totalactive_cfg_def totalactive_view_def enumLevel_eq)

lemma guild_skill_record_fits [page_fit]: "page_fits guild_skill_record guild_skill_record_view"
  by (simp add: fit_eval guild_skill_record_def guild_skill_record_cfg_def guild_skill_record_view_def guild_skill_record_columns_def guild_skill_record_fields_def)

interpretation guild_skill_record_export: exporting_page guild_skill_record "''save_store''" "gr_columns (main_grid guild_skill_record)"
  by (rule exporting_pageI [OF guild_skill_record.asking_page_axioms])
    (simp add: main_grid_def guild_skill_record_def guild_skill_record_onBtnExport_def guild_skill_record_cfg_def)

lemma guild_active_record_fits [page_fit]: "page_fits guild_active_record guild_active_record_view"
  by (simp add: fit_eval guild_active_record_def guild_active_record_cfg_def guild_active_record_view_def guild_active_record_columns_def guild_active_record_fields_def)

interpretation guild_active_record_export: exporting_page guild_active_record "''save_store''" "gr_columns (main_grid guild_active_record)"
  by (rule exporting_pageI [OF guild_active_record.asking_page_axioms])
    (simp add: main_grid_def guild_active_record_def guild_active_record_onBtnExport_def guild_active_record_cfg_def)

lemma guild_pages_fit:
  assumes "(r, v) \<in> set guild_pages"
  shows "page_fits r v" and "exporting_page r ''save_store'' (gr_columns (main_grid r))"
  using assms
  by (auto simp: guild_pages_def page_fit
      guild_skill_record_export.exporting_page_axioms guild_active_record_export.exporting_page_axioms)

lemma consumereport_fits [page_fit]: "page_fits consumereport consumereport_view"
  by (simp add: fit_eval consumereport_def consumereport_cfg_def consumereport_view_def consumereport_fields_def
      consumereport_columns_consume_def consumereport_columns_players_def enumLevel_eq)

lemma mapped_pages_fit:
  assumes "(r, v, good, row) \<in> set (mapped_pages tz)"
  shows "page_fits r v" and "exporting_page r ''store_grid'' (gr_columns (main_grid r))"
  using assms by (auto simp: mapped_pages_def page_fit
      add_equip_report_export.exporting_page_axioms city_campaign_report_export.exporting_page_axioms
      level_campaign_report_export.exporting_page_axioms aveonlinereport_export.exporting_page_axioms
      maxonlinereport_export.exporting_page_axioms newusersreport_export.exporting_page_axioms
      activeusersreport_export.exporting_page_axioms)

lemma report_pages_fit:
  assumes "(r, v) \<in> set (report_pages tz)"
  shows "page_fits r v"
  using assms
  by (cases rule: report_pages_cases)
    (auto simp: row_pages_fit saving_pages_fit guild_pages_fit consumereport_fits mapped_pages_fit loss_pages_def loss_consume_report_fits loss_recharge_report_fits loss_report_fits totalactive_fits)


end
