(* ===== verification/Level_Consume.thy ===== *)
theory Level_Consume
  imports Level_Reports
begin

text \<open>
  \<open>levelconsume.js\<close>: two column charts of the consumption at a zone, a day, a currency and a
  system of that currency. It is the only page whose combo boxes react to a selection: the
  selected currency decides which systems the next box offers, and both selections are kept in
  script variables, which the query button reads instead of the boxes. The events and the page
  state are those of the report pages; the step runs the listeners after a selection. A selection of
  the entry already chosen runs the listener too, which the library's combo box leaves out; the
  runs of the model include those of the page.

  \<open>Math.random\<close> only chooses the colours of the columns: \<open>draw k\<close> is the value of
  the \<open>k\<close>-th \<open>Math.floor(Math.random() * 255)\<close>. The unused function \<open>generateData\<close> is left out.
\<close>

section \<open>The page\<close>

record gradient =
  gd_id :: string
  gd_angle :: nat
  gd_stops :: "(nat \<times> string) list"

record chart =
  ch_store :: string
  ch_gradients :: "gradient list"
  ch_value_title :: string
  ch_category_title :: string
  ch_xField :: string
  ch_yField :: string

definition gradient_ids :: "string list" where
  "gradient_ids = map (\<lambda>i. ''v-'' @ string_of_nat i) [1 ..< 19]"

text \<open>The loop that fills both tables starts at the second identifier.\<close>

definition colors :: "string list" where
  "colors = map (\<lambda>id. ''url(#'' @ id @ '')'') (tl gradient_ids)"

definition rgb :: "nat \<Rightarrow> nat \<Rightarrow> nat \<Rightarrow> string" where
  "rgb r g b = ''rgb('' @ string_of_nat r @ '', '' @ string_of_nat g @ '', '' @ string_of_nat b @ '')''"

definition gradients :: "(nat \<Rightarrow> nat) \<Rightarrow> gradient list" where
  "gradients draw =
     map (\<lambda>(k, id). \<lparr>gd_id = id, gd_angle = 0,
        gd_stops = [(0, rgb (draw (6 * k)) (draw (6 * k + 1)) (draw (6 * k + 2))),
          (100, rgb (draw (6 * k + 3)) (draw (6 * k + 4)) (draw (6 * k + 5)))]\<rparr>) (enumerate 0 (tl gradient_ids))"

text \<open>The renderer of both series.\<close>

definition bar_fill :: "nat \<Rightarrow> string" where
  "bar_fill i = colors ! (i mod length colors)"

definition consume_chart :: "(nat \<Rightarrow> nat) \<Rightarrow> chart" where
  "consume_chart draw =
     \<lparr>ch_store = ''g_store_consume'', ch_gradients = gradients draw, ch_value_title = (uni [0x6D88, 0x8D39]),
      ch_category_title = (uni [0x7B49, 0x7EA7, 0x6BB5]), ch_xField = ''name'', ch_yField = ''data''\<rparr>"

definition players_chart :: "(nat \<Rightarrow> nat) \<Rightarrow> chart" where
  "players_chart draw =
     \<lparr>ch_store = ''g_store_players'', ch_gradients = gradients draw, ch_value_title = (uni [0x4EBA, 0x6570]),
      ch_category_title = (uni [0x7B49, 0x7EA7, 0x6BB5]), ch_xField = ''name'', ch_yField = ''data''\<rparr>"

definition systems :: "(string \<times> string list) list" where
  "systems =
     [(''credits'', [(uni [0x590D, 0x6D3B]), (uni [0x5546, 0x57CE]), (uni [0x6253, 0x8F66]),
         (uni [0x5151, 0x6362, 0x786C, 0x5E01]), (uni [0x5151, 0x6362, 0x7EB8, 0x5E01])]),
      (''coins'', [(uni [0x5065, 0x5EB7, 0x996E, 0x98DF]), (uni [0x561F, 0x561F, 0x6253, 0x8F66]), (uni [0x5730, 0x94C1]),
         (uni [0x957F, 0x9014]), (uni [0x533B, 0x9662]), (uni [0x5F3A, 0x8EAB, 0x5065, 0x4F53]),
         (uni [0x88C5, 0x5907, 0x5408, 0x9B42]), (uni [0x88C5, 0x5907, 0x6253, 0x9020]), (uni [0x5929, 0x8D4B, 0x5347, 0x7EA7]),
         (uni [0x88C5, 0x5907, 0x5546, 0x5E97]), (uni [0x793C, 0x7269, 0x5546, 0x5E97]), (uni [0x836F, 0x54C1, 0x5546, 0x5E97]),
         (uni [0x98DF, 0x7269, 0x5546, 0x5E97]), (uni [0x7075, 0x7B26, 0x7BC6, 0x523B]), (uni [0x56DB, 0x8C61, 0x89C9, 0x9192]),
         (uni [0x5B9D, 0x77F3, 0x5546, 0x5E97]), (uni [0x7075, 0x7B26, 0x5546, 0x5E97]), (uni [0x80CC, 0x5305, 0x7A7A, 0x95F4]),
         (uni [0x94F6, 0x884C, 0x7A7A, 0x95F4])]),
      (''money'', [(uni [0x5151, 0x6362, 0x786C, 0x5E01]), (uni [0x4EA4, 0x6613, 0x884C]), (uni [0x5546, 0x57CE, 0x9650, 0x8D2D])]),
      (''voucher'', [(uni [0x5546, 0x57CE, 0x514D, 0x8D39])])]"

definition levelconsume_cfg :: page_cfg where
  "levelconsume_cfg =
     \<lparr>app_name = ''levelconsume'',
      pg_stores =
       [(''g_store_consume'', [''name'', ''data''], []),
        (''g_store_players'', [''name'', ''data''], []),
        (''store_zone'', [''zone_name'', ''zone_id''], []),
        (''store_cat'', [''catname'', ''category''],
          [[(''catname'', JStr (loc ''str_credits'')), (''category'', JStr ''credits'')],
           [(''catname'', JStr (loc ''str_money'')), (''category'', JStr ''money'')],
           [(''catname'', JStr (loc ''str_coins'')), (''category'', JStr ''coins'')],
           [(''catname'', JStr (loc ''str_voucher'')), (''category'', JStr ''voucher'')]]),
        (''store_sys'', [''sysname'', ''syscat''], [])],
      pg_widgets =
       [(''zone_input'', local_combo ''str_zone'' ''store_zone'' ''zone_id'' ''zone_name'' ''str_plz_select_zone'' 235),
        (''date_input'', date_field ''query_date'' ''str_date''),
        (''cat_input'', local_combo ''str_huobi_cat'' ''store_cat'' ''category'' ''catname'' ''str_plz_select_category'' 235),
        (''sys_input'', local_combo ''str_sys_cat'' ''store_sys'' ''syscat'' ''sysname'' ''str_plz_select_syscat'' 235),
        (''btn_query'', query_button)],
      pg_grids = []\<rparr>"

definition levelconsume_launch :: "ajax_opts \<times> page callback" where
  "levelconsume_launch = (get_choices ''/statshelper/get_zones'', zones_loaded)"

definition script_var :: "page \<Rightarrow> string \<Rightarrow> jsval" where
  "script_var p n = (case vars p n of None \<Rightarrow> JUndef | Some v \<Rightarrow> v)"

definition set_var :: "string \<Rightarrow> jsval \<Rightarrow> page \<Rightarrow> page" where
  "set_var n v p = p\<lparr>vars := (vars p)(n \<mapsto> v)\<rparr>"

text \<open>\<open>reset()\<close> of an input field.\<close>

definition reset_input :: "string \<Rightarrow> page \<Rightarrow> page" where
  "reset_input n p = p\<lparr>inputs := (inputs p)(n := init_input levelconsume_cfg n)\<rparr>"

definition onSelectCategory :: "jsobj \<Rightarrow> page \<Rightarrow> page outcome" where
  "onSelectCategory rc p0 =
     (let cat = obj_get rc ''category'';
          p = reset_input ''sys_input'' (clear_store ''store_sys'' (set_var ''g_const_type'' cat p0))
      in case map_of systems (js_to_string cat) of
           None \<Rightarrow> Threw TypeError p
         | Some all_sys \<Rightarrow>
             Done (fold (\<lambda>s. add_to ''store_sys'' [(''sysname'', JStr s), (''syscat'', JStr s)]) all_sys p))"

definition onSelectSystem :: "jsobj \<Rightarrow> page \<Rightarrow> page outcome" where
  "onSelectSystem rc p = Done (set_var ''g_sys_name'' (obj_get rc ''syscat'') p)"

definition levelconsume_onBtnQuery :: "page \<Rightarrow> page" where
  "levelconsume_onBtnQuery p =
     (let zone_id = getValue p ''zone_input'';
          g_const_type = script_var p ''g_const_type'';
          g_sys_name = script_var p ''g_sys_name'';
          date = getValue p ''date_input''
      in run_query
           [(falsy zone_id, ''str_plz_select_zone''),
            (falsy g_const_type, ''str_plz_select_category''),
            (falsy g_sys_name, ''str_plz_select_syscat''),
            (falsy date, ''str_plz_select_date'')]
           (g_search_name p)
           (post ''/statshelper/get_lv_consume''
             [(''zone_id'', zone_id), (''cost_type'', g_const_type), (''sys_name'', g_sys_name), (''date'', date)]) p)"

definition lvs :: "string list" where
  "lvs = [''10'', ''20'', ''25'', ''30'', ''35'', ''40'', ''45'', ''50'', ''55'', ''60'', ''65'', ''70'', ''75'',
     ''80'', ''85'', ''90'', ''95'', ''100'']"

text \<open>
  \<open>dm == i + 1\<close>, where \<open>dm\<close> is a tenth of the level, or above 2 the number 2 and a fifth of
  what the level has above 20. The fractions are multiplied out; a level that is no number
  equals nothing.
\<close>

definition at_bar :: "nat \<Rightarrow> jsval \<Rightarrow> bool" where
  "at_bar i rc =
     (case js_to_number (js_prop rc ''level_rgn'') of
        None \<Rightarrow> False
      | Some l \<Rightarrow> if 20 < l then l - 20 = 5 * (int i - 1) else l = 10 * (int i + 1))"

definition add_bar :: "string \<Rightarrow> jsval \<Rightarrow> page \<Rightarrow> page" where
  "add_bar col_name rc p =
     add_to ''g_store_players'' [(''name'', JStr (''lv'' @ col_name)), (''data'', js_prop rc ''players'')]
       (add_to ''g_store_consume'' [(''name'', JStr (''lv'' @ col_name)), (''data'', js_prop rc ''consume'')] p)"

definition bar_rows :: "jsval list \<Rightarrow> nat \<times> string \<Rightarrow> page \<Rightarrow> page outcome" where
  "bar_rows xs bar =
     js_for (\<lambda>rc p. if nullish rc then Threw TypeError p
                    else Done (if at_bar (fst bar) rc then add_bar (snd bar) rc p else p)) xs"

definition updateChart :: "page callback" where
  "updateChart res p =
     with_val (js_items res) (\<lambda>xs. js_for (bar_rows xs) (enumerate 0 lvs))
       (clear_store ''g_store_players'' (clear_store ''g_store_consume'' p))"

definition levelconsume_view :: layout where
  "levelconsume_view =
     \<lparr>toolbar = [''zone_input'', ''date_input'', ''cat_input'', ''sys_input'', ''btn_query''],
      center = [''g_chart_consume'', ''g_chart_players'']\<rparr>"

definition levelconsume :: report where
  "levelconsume =
     \<lparr>rp_cfg = levelconsume_cfg, rp_launch = Some levelconsume_launch, rp_query = levelconsume_onBtnQuery,
      rp_done = \<lambda>res. updateChart (js_prop res ''res''), rp_export = id, rp_then = id\<rparr>"

text \<open>The listeners of the two combo boxes, with the record that has been selected.\<close>

definition on_select :: "string \<Rightarrow> jsobj \<Rightarrow> page \<Rightarrow> page outcome" where
  "on_select n rc p =
     (if n = ''cat_input'' then onSelectCategory rc p
      else if n = ''sys_input'' then onSelectSystem rc p
      else Done p)"

definition entry_at :: "string \<Rightarrow> nat \<Rightarrow> page \<Rightarrow> jsobj option" where
  "entry_at n i p =
     (case map_of (pg_widgets levelconsume_cfg) n of
        Some (Combo b) \<Rightarrow> store_getAt (stores p (cb_store b)) i
      | _ \<Rightarrow> None)"

definition levelconsume_step :: "page \<Rightarrow> event \<Rightarrow> page" where
  "levelconsume_step p e =
     (case e of
        Choose n i \<Rightarrow>
          (case entry_at n i p of
             None \<Rightarrow> p
           | Some rc \<Rightarrow> final_state (on_select n rc (page_step levelconsume p e)))
      | _ \<Rightarrow> page_step levelconsume p e)"

definition levelconsume_run :: "world \<Rightarrow> event list \<Rightarrow> page" where
  "levelconsume_run w es = foldl levelconsume_step (launch levelconsume w) es"

section \<open>The reference\<close>

definition level_at :: "nat \<Rightarrow> jsval \<Rightarrow> bool" where
  "level_at lv rc = (js_to_number (js_prop rc ''level_rgn'') = Some (int lv))"

definition chart_bars :: "string \<Rightarrow> jsval list \<Rightarrow> jsobj list" where
  "chart_bars what xs =
     concat (map (\<lambda>lv. map (\<lambda>rc. [(''name'', JStr (level_key ''lv'' lv)), (''data'', js_prop rc what)])
       (filter (level_at lv) xs)) enumLevel)"

text \<open>The systems the second box has to offer.\<close>

definition offered :: "page \<Rightarrow> string list" where
  "offered p =
     (case vars p ''g_const_type'' of
        None \<Rightarrow> []
      | Some cat \<Rightarrow> (case map_of systems (js_to_string cat) of None \<Rightarrow> [] | Some l \<Rightarrow> l))"

definition follows_category :: "page \<Rightarrow> bool" where
  "follows_category p =
     (store_getRange (stores p ''store_sys'') = map (\<lambda>s. [(''sysname'', JStr s), (''syscat'', JStr s)]) (offered p) \<and>
      (getValue p ''sys_input'' = JNull \<or> (\<exists>s \<in> set (offered p). getValue p ''sys_input'' = JStr s)))"

section \<open>The charts\<close>

lemma digit_chars:
  "digit_char 0 = CHR ''0''" "digit_char 1 = CHR ''1''" "digit_char (Suc 0) = CHR ''1''" "digit_char 2 = CHR ''2''" "digit_char 3 = CHR ''3''"
  "digit_char 4 = CHR ''4''" "digit_char 5 = CHR ''5''" "digit_char 6 = CHR ''6''" "digit_char 7 = CHR ''7''"
  "digit_char 8 = CHR ''8''" "digit_char 9 = CHR ''9''"
  by code_simp+

lemma lvs_levels: "lvs = map string_of_nat enumLevel"
  by (simp add: lvs_def enumLevel_eq string_of_nat.simps digit_chars)

lemma at_bar_level:
  assumes "i < length enumLevel"
  shows "at_bar i = level_at (enumLevel ! i)"
proof
  fix rc
  have i: "i < 18" using assms by (simp add: enumLevel_eq)
  then have "enumLevel ! i = (if i < 2 then 10 * (i + 1) else 20 + 5 * (i - 1))"
    by (simp add: enumLevel_eq nth_Cons split: nat.splits)
  with i show "at_bar i rc = level_at (enumLevel ! i) rc"
    by (cases "i < 2") (auto simp: at_bar_def level_at_def split: option.splits)
qed

lemma bar_rows_done:
  "list_all present xs \<Longrightarrow> bar_rows xs bar p = Done (fold (add_bar (snd bar)) (filter (at_bar (fst bar)) xs) p)"
proof (induction xs arbitrary: p)
  case (Cons x xs)
  then show ?case by (simp add: bar_rows_def present_def)
qed (simp add: bar_rows_def)

text \<open>All bars in the order they are added.\<close>

definition bars :: "jsval list \<Rightarrow> (string \<times> jsval) list" where
  "bars xs = concat (map (\<lambda>lv. map (Pair (string_of_nat lv)) (filter (level_at lv) xs)) enumLevel)"

lemma bars_loop:
  assumes "list_all present xs"
  shows "js_for (bar_rows xs) (enumerate 0 lvs) p = Done (fold (\<lambda>b. add_bar (fst b) (snd b)) (bars xs) p)"
proof -
  have "js_for (bar_rows xs) bs p = Done (fold (\<lambda>b. fold (add_bar (snd b)) (filter (at_bar (fst b)) xs)) bs p)" for bs
    by (rule js_for_Done) (simp add: bar_rows_done assms)
  moreover have "fold (\<lambda>b. fold (add_bar (snd b)) (filter (at_bar (fst b)) xs)) (enumerate 0 lvs) p =
      fold (\<lambda>lv. fold (add_bar (string_of_nat lv)) (filter (level_at lv) xs)) enumLevel p"
  proof -
    have "enumerate 0 lvs = map (\<lambda>i. (i, string_of_nat (enumLevel ! i))) [0 ..< length enumLevel]"
      by (rule nth_equalityI) (simp_all add: lvs_levels nth_enumerate_eq)
    moreover have "fold f enumLevel p = fold (\<lambda>i. f (enumLevel ! i)) [0 ..< length enumLevel] p" for f
      using fold_map [of f "(!) enumLevel" "[0 ..< length enumLevel]"] by (simp add: map_nth o_def)
    ultimately show ?thesis by (auto simp: fold_map o_def at_bar_level intro!: fold_cong)
  qed
  moreover have "fold (\<lambda>lv. fold (add_bar (string_of_nat lv)) (filter (level_at lv) xs)) ls p =
      fold (\<lambda>b. add_bar (fst b) (snd b)) (concat (map (\<lambda>lv. map (Pair (string_of_nat lv)) (filter (level_at lv) xs)) ls)) p" for ls
    by (induction ls arbitrary: p) (simp_all add: fold_map o_def)
  ultimately show ?thesis by (simp add: bars_def)
qed

lemma chart_bars_eq:
  "chart_bars what xs = map (\<lambda>b. [(''name'', JStr (''lv'' @ fst b)), (''data'', js_prop (snd b) what)]) (bars xs)"
  by (simp add: chart_bars_def bars_def map_concat o_def level_key_def)

lemma updateChart_recs:
  fixes p xs
  assumes "list_all present xs"
  defines "q \<equiv> final_state (updateChart (JArr xs) p)"
  shows "s_recs (stores q ''g_store_consume'') =
      map (model_data (s_fields (stores p ''g_store_consume''))) (chart_bars ''consume'' xs)"
    and "s_recs (stores q ''g_store_players'') =
      map (model_data (s_fields (stores p ''g_store_players''))) (chart_bars ''players'' xs)"
  using assms(1)
  by (simp_all add: q_def updateChart_def bars_loop chart_bars_eq add_bar_def [abs_def] fold_two_stores store_removeAll_def)

section \<open>What a step keeps of the choices\<close>

text \<open>Everything but the zones, the charts and the requests.\<close>

definition same_choices :: "page \<Rightarrow> page \<Rightarrow> bool" where
  "same_choices p q =
     (vars q = vars p \<and> inputs q = inputs p \<and> stores q ''store_cat'' = stores p ''store_cat'' \<and>
      stores q ''store_sys'' = stores p ''store_sys'')"

lemma same_choices_refl [simp]: "same_choices p p"
  by (simp add: same_choices_def)

lemma same_choices_add_to:
  "same_choices p q \<Longrightarrow> n \<noteq> ''store_cat'' \<Longrightarrow> n \<noteq> ''store_sys'' \<Longrightarrow> same_choices p (add_to n d q)"
  by (simp add: same_choices_def add_to_def)

lemma same_choices_zones: "same_choices p (final_state (zones_loaded res p))"
  unfolding zones_loaded_def add_each_def with_val_def
  by (auto split: sum.split simp: split_def with_val_def
      intro!: js_for_invariant [where P = "same_choices p"] same_choices_add_to)

lemma same_choices_chart: "same_choices p (final_state (updateChart res p))"
proof -
  have "same_choices p (final_state (bar_rows xs bar q))" if "same_choices p q" for xs bar q
    unfolding bar_rows_def using that
    by (intro js_for_invariant [where P = "same_choices p"]) (auto simp: add_bar_def intro!: same_choices_add_to)
  then have "same_choices p (final_state (js_for (bar_rows xs) bs q))" if "same_choices p q" for xs bs q
    using that by (intro js_for_invariant [where P = "same_choices p"])
  then show ?thesis
    by (auto simp: updateChart_def with_val_def split: sum.split) (simp_all add: same_choices_def clear_store_def)
qed

lemma same_choices_callback: "same_choices p (final_state (on_answer levelconsume k res p))"
  using same_choices_zones [of p res] same_choices_chart [of p "js_prop res ''res''"]
  by (cases k) (simp_all add: on_answer_def levelconsume_def levelconsume_launch_def export_saved_def same_choices_def
      emit_def Let_def)

lemma same_choices_answer: "same_choices p (page_step levelconsume p (Answer i a))"
proof -
  have "same_choices p (final_state (ajax_response (Some (on_answer levelconsume k)) None a (p\<lparr>pending := ks\<rparr>)))" for k ks
    using same_choices_callback [of "p\<lparr>pending := ks\<rparr>" k]
    by (auto simp: ajax_response_def with_val_def same_choices_def emit_def
        split: response.splits option.splits sum.splits)
  then show ?thesis by simp
qed

lemma page_ok_chart: "page_ok c p \<Longrightarrow> page_ok c (final_state (updateChart res p))"
  unfolding updateChart_def
  by (intro page_ok_with_val page_ok_js_for page_ok_clear_store)
    (auto simp: bar_rows_def add_bar_def intro!: page_ok_js_for page_ok_add_to)

interpretation levelconsume: report_program levelconsume
  by unfold_locales
    (auto simp: levelconsume_def levelconsume_launch_def levelconsume_onBtnQuery_def Let_def page_ok_chart intro: page_intros)

lemma page_ok_select: "page_ok c p \<Longrightarrow> page_ok c (final_state (on_select n rc p))"
proof -
  assume p: "page_ok c p"
  have add: "page_ok c (fold (\<lambda>s. add_to ''store_sys'' (f s)) l q)" if "page_ok c q" for f :: "string \<Rightarrow> jsobj" and l q
    using that by (induction l arbitrary: q) (simp_all add: page_ok_add_to)
  have var: "page_ok c (set_var v x p)" for v x
    using p page_ok_stores_cong [of "set_var v x p" p c] by (simp add: set_var_def)
  have "page_ok c (reset_input ''sys_input'' (clear_store ''store_sys'' (set_var v x p)))" for v x
    using page_ok_clear_store [OF var] by (simp add: page_ok_def reset_input_def)
  from add [OF this] this var p show ?thesis
    by (auto simp: on_select_def onSelectCategory_def onSelectSystem_def Let_def split: option.split)
qed

lemma run_snoc: "levelconsume_run w (es @ [e]) = levelconsume_step (levelconsume_run w es) e"
  by (simp add: levelconsume_run_def)

lemma levelconsume_run_ok: "page_ok levelconsume_cfg (levelconsume_run w es)"
proof (induction es rule: rev_induct)
  case Nil
  then show ?case using levelconsume.launch_ok by (simp add: levelconsume_run_def levelconsume_def)
next
  case (snoc e es)
  then have "page_ok levelconsume_cfg (page_step levelconsume (levelconsume_run w es) e)"
    using levelconsume.page_step_keeps by (simp add: levelconsume_def)
  then show ?case
    using snoc by (auto simp: run_snoc levelconsume_step_def split: event.split option.split intro: page_ok_select)
qed

section \<open>The systems follow the currency\<close>

definition choices_inv :: "page \<Rightarrow> bool" where
  "choices_inv p = (stores p ''store_cat'' = init_store levelconsume_cfg ''store_cat'' \<and> follows_category p)"

lemma choices_inv_same: "choices_inv p \<Longrightarrow> same_choices p q \<Longrightarrow> choices_inv q"
  by (simp add: choices_inv_def same_choices_def follows_category_def offered_def getValue_def)

lemma cat_records:
  "s_recs (init_store levelconsume_cfg ''store_cat'') =
     map (\<lambda>(k, cat). [(''catname'', JStr (loc k)), (''category'', JStr cat)])
       [(''str_credits'', ''credits''), (''str_money'', ''money''), (''str_coins'', ''coins''), (''str_voucher'', ''voucher'')]"
  by (simp add: init_store_def levelconsume_cfg_def store_add_def new_store_def model_data_def field_value_def)

lemma systems_known:
  "cat \<in> {''credits'', ''money'', ''coins'', ''voucher''} \<Longrightarrow> \<exists>l. map_of systems cat = Some l"
  by (auto simp: systems_def)

lemma cat_entries:
  assumes "rc \<in> set (s_recs (init_store levelconsume_cfg ''store_cat''))"
  shows "\<exists>cat l. obj_get rc ''category'' = JStr cat \<and> map_of systems cat = Some l"
proof -
  from assms obtain cat where "obj_get rc ''category'' = JStr cat" and "cat \<in> {''credits'', ''money'', ''coins'', ''voucher''}"
    by (auto simp: cat_records)
  with systems_known show ?thesis by blast
qed

lemma sys_fields: "s_fields (init_store levelconsume_cfg ''store_sys'') = [''sysname'', ''syscat'']"
  by (simp add: init_store_def levelconsume_cfg_def new_store_def)

lemma fill_systems:
  assumes "s_fields (stores p ''store_sys'') = [''sysname'', ''syscat'']"
  defines "q l \<equiv> fold (\<lambda>s. add_to ''store_sys'' [(''sysname'', JStr s), (''syscat'', JStr s)]) l p"
  shows "s_recs (stores (q l) ''store_sys'') =
      s_recs (stores p ''store_sys'') @ map (\<lambda>s. [(''sysname'', JStr s), (''syscat'', JStr s)]) l"
    and "vars (q l) = vars p" and "inputs (q l) = inputs p" and "stores (q l) ''store_cat'' = stores p ''store_cat''"
    and "effects (q l) = effects p" and "pending (q l) = pending p"
proof -
  show "s_recs (stores (q l) ''store_sys'') =
      s_recs (stores p ''store_sys'') @ map (\<lambda>s. [(''sysname'', JStr s), (''syscat'', JStr s)]) l"
    using assms(1) unfolding q_def
    by (induction l arbitrary: p) (simp_all add: store_add_def model_data_def field_value_def Let_def)
  show "vars (q l) = vars p" unfolding q_def by (induction l arbitrary: p) (simp_all add: add_to_def)
  show "effects (q l) = effects p" unfolding q_def by (induction l arbitrary: p) (simp_all add: add_to_def)
  show "pending (q l) = pending p" unfolding q_def by (induction l arbitrary: p) simp_all
  show "inputs (q l) = inputs p" unfolding q_def by (induction l arbitrary: p) simp_all
  show "stores (q l) ''store_cat'' = stores p ''store_cat''" unfolding q_def by (induction l arbitrary: p) simp_all
qed

text \<open>What the selection of a currency leaves behind.\<close>

lemma category_selected:
  assumes "stores p ''store_cat'' = init_store levelconsume_cfg ''store_cat''"
    and "page_ok levelconsume_cfg p" and "rc \<in> set (s_recs (stores p ''store_cat''))"
  defines "q \<equiv> final_state (onSelectCategory rc p)"
  obtains cat l where "obj_get rc ''category'' = JStr cat" and "map_of systems cat = Some l"
    and "vars q = (vars p)(''g_const_type'' \<mapsto> JStr cat)"
    and "inputs q = (inputs p)(''sys_input'' := \<lparr>in_value = JNull, in_raw = []\<rparr>)"
    and "s_recs (stores q ''store_sys'') = map (\<lambda>s. [(''sysname'', JStr s), (''syscat'', JStr s)]) l"
    and "stores q ''store_cat'' = stores p ''store_cat''" and "effects q = effects p" and "pending q = pending p"
proof -
  from cat_entries [of rc] assms(1,3) obtain cat l
    where cat: "obj_get rc ''category'' = JStr cat" "map_of systems cat = Some l" by auto
  let ?q = "reset_input ''sys_input'' (clear_store ''store_sys'' (set_var ''g_const_type'' (JStr cat) p))"
  have q: "q = fold (\<lambda>s. add_to ''store_sys'' [(''sysname'', JStr s), (''syscat'', JStr s)]) l ?q"
    by (simp add: q_def onSelectCategory_def cat)
  have "s_fields (stores ?q ''store_sys'') = [''sysname'', ''syscat'']"
    using assms(2) by (simp add: reset_input_def set_var_def store_removeAll_def page_ok_def sys_fields)
  note fill = fill_systems [OF this, of l, folded q]
  have "s_recs (stores ?q ''store_sys'') = []" "vars ?q = (vars p)(''g_const_type'' \<mapsto> JStr cat)"
      "inputs ?q = (inputs p)(''sys_input'' := \<lparr>in_value = JNull, in_raw = []\<rparr>)"
      "stores ?q ''store_cat'' = stores p ''store_cat''" "effects ?q = effects p" "pending ?q = pending p"
    by (simp_all add: reset_input_def clear_store_def set_var_def store_removeAll_def init_input_def levelconsume_cfg_def
        local_combo_def date_field_def)
  with fill cat show ?thesis by (intro that) simp_all
qed

lemma select_category_inv:
  assumes "stores p ''store_cat'' = init_store levelconsume_cfg ''store_cat''"
    and "page_ok levelconsume_cfg p" and "rc \<in> set (s_recs (stores p ''store_cat''))"
  shows "choices_inv (final_state (onSelectCategory rc p))"
  by (rule category_selected [OF assms])
    (simp add: choices_inv_def follows_category_def offered_def store_getRange_def getValue_def assms(1))

lemma select_entry_inputs:
  "vars (select_entry c n i p) = vars p"
  "effects (select_entry c n i p) = effects p"
  "m \<noteq> n \<Longrightarrow> inputs (select_entry c n i p) m = inputs p m"
  by (simp_all add: select_entry_def split: option.splits widget.splits)

lemma select_system_inv:
  assumes "choices_inv p" and "entry_at ''sys_input'' i p = Some rc"
  shows "choices_inv (final_state (onSelectSystem rc (select_entry levelconsume_cfg ''sys_input'' i p)))"
proof -
  have rc: "store_getAt (stores p ''store_sys'') i = Some rc"
    using assms(2) by (simp add: entry_at_def levelconsume_cfg_def local_combo_def date_field_def)
  then have "rc \<in> set (s_recs (stores p ''store_sys''))"
    by (auto simp: store_getAt_def split: if_splits)
  then obtain s where "s \<in> set (offered p)" and s: "rc = [(''sysname'', JStr s), (''syscat'', JStr s)]"
    using assms(1) by (auto simp: choices_inv_def follows_category_def store_getRange_def)
  then show ?thesis
    using assms(1) rc
    by (simp add: onSelectSystem_def choices_inv_def follows_category_def offered_def set_var_def getValue_def
        select_entry_def levelconsume_cfg_def local_combo_def date_field_def)
qed

lemma choices_inv_select:
  assumes "choices_inv p" and "page_ok levelconsume_cfg p" and "entry_at n i p = Some rc"
  shows "choices_inv (final_state (on_select n rc (select_entry levelconsume_cfg n i p)))"
proof -
  consider "n = ''cat_input''" | "n = ''sys_input''" | "n \<noteq> ''cat_input''" "n \<noteq> ''sys_input''" by blast
  then show ?thesis
  proof cases
    case 1
    then have "rc \<in> set (s_recs (stores p ''store_cat''))"
      using assms(3) by (auto simp: entry_at_def levelconsume_cfg_def local_combo_def date_field_def store_getAt_def split: if_splits)
    moreover have "page_ok levelconsume_cfg (select_entry levelconsume_cfg n i p)"
      using assms(2) by (simp add: page_ok_def)
    ultimately show ?thesis
      using assms(1) 1 by (auto simp: on_select_def choices_inv_def [of p] intro!: select_category_inv)
  next
    case 2
    then show ?thesis using assms select_system_inv by (simp add: on_select_def)
  next
    case 3
    then show ?thesis
      using assms(1)
      by (simp add: on_select_def choices_inv_def follows_category_def offered_def getValue_def select_entry_inputs)
  qed
qed

lemma choices_inv_step:
  assumes "choices_inv p" and "page_ok levelconsume_cfg p"
  shows "choices_inv (levelconsume_step p e)"
proof (cases e)
  case (Choose n i)
  then show ?thesis
    using assms choices_inv_select [OF assms]
    by (simp add: levelconsume_step_def levelconsume_def split: option.split)
next
  case (Answer i a)
  then show ?thesis
    using choices_inv_same [OF assms(1) same_choices_answer] by (simp add: levelconsume_step_def)
next
  case ClickQuery
  have "same_choices p (run_query gs name opts p)" for gs name opts
    by (simp add: same_choices_def run_query_def emit_def ajaxCall_eq split: option.split)
  then show ?thesis
    using choices_inv_same [OF assms(1)] ClickQuery
    by (simp add: levelconsume_step_def levelconsume_def levelconsume_onBtnQuery_def Let_def)
qed (use assms in \<open>auto simp: levelconsume_step_def levelconsume_def levelconsume_cfg_def local_combo_def date_field_def
    query_button_def choices_inv_def follows_category_def offered_def getValue_def split: option.splits widget.splits if_splits\<close>)

lemma choices_inv_run: "choices_inv (levelconsume_run w es)"
proof (induction es rule: rev_induct)
  case Nil
  show ?case
    by (simp add: levelconsume_run_def launch_def levelconsume_def levelconsume_launch_def page_init_def choices_inv_def
        follows_category_def offered_def getValue_def init_input_def ajaxCall_eq emit_def)
      (simp add: store_getRange_def init_store_def levelconsume_cfg_def new_store_def local_combo_def date_field_def)
next
  case (snoc e es)
  then show ?case by (simp add: run_snoc choices_inv_step levelconsume_run_ok)
qed

section \<open>Properties\<close>

text \<open>
  C29. When a query is answered, after any sequence of events, the two charts show the
  reference: level by level in ascending order, one column for every row of that level, with
  its consumption and its players; rows of other levels are dropped.
\<close>

theorem charts_refine:
  fixes w es
  defines "p \<equiv> levelconsume_run w es"
  assumes "query_answer p e = [v]" and "rows_wf present v"
  shows "store_getRange (stores (levelconsume_step p e) ''g_store_consume'') =
      map (model_data [''name'', ''data'']) (chart_bars ''consume'' (rows_of v)) \<and>
    store_getRange (stores (levelconsume_step p e) ''g_store_players'') =
      map (model_data [''name'', ''data'']) (chart_bars ''players'' (rows_of v))"
proof -
  from assms(2) obtain ks kvs where v: "v = JObj kvs"
    and q: "levelconsume_step p e = final_state (updateChart (obj_get kvs ''res'') (p\<lparr>pending := ks\<rparr>))"
    by (auto simp: query_answer_def ajax_response_def on_answer_def levelconsume_step_def levelconsume_def
        split: event.splits response.splits option.splits jsval.splits if_splits)
  have "s_fields (stores p n) = s_fields (init_store levelconsume_cfg n)" for n
    using levelconsume_run_ok [of w es] by (simp add: p_def page_ok_def)
  moreover have "s_fields (init_store levelconsume_cfg n) = [''name'', ''data'']"
    if "n = ''g_store_consume'' \<or> n = ''g_store_players''" for n
    using that by (auto simp: init_store_def levelconsume_cfg_def new_store_def)
  moreover note rows = rows_wfD [OF assms(3)]
  ultimately show ?thesis
    using updateChart_recs [OF rows(2), of "p\<lparr>pending := ks\<rparr>"] by (simp add: q v store_getRange_def)
qed

definition level_run :: "event list" where
  "level_run =
     [Answer 0 (ok_answer (JArr [JObj [(''name'', JStr ''z1'')]])), Choose ''zone_input'' 0,
      Pick ''date_input'' 1 ''d1'' ''2016-01-01'', Choose ''cat_input'' 0, Choose ''sys_input'' 1]"

definition level_answer :: event where
  "level_answer = Answer 0 (ok_answer (JArr
     [JObj [(''level_rgn'', JNum 25), (''consume'', JNum 7), (''players'', JNum 2)],
      JObj [(''level_rgn'', JNum 26), (''consume'', JNum 8), (''players'', JNum 3)],
      JObj [(''level_rgn'', JNum 10), (''consume'', JNum 9), (''players'', JNum 4)]]))"

lemmas level_run_simps = levelconsume_run_def level_run_def levelconsume_step_def run_eval store_eval entry_at_def on_select_def
  onSelectCategory_def onSelectSystem_def set_var_def reset_input_def script_var_def levelconsume_def
  levelconsume_cfg_def levelconsume_launch_def systems_def

lemma level_eval_zone: "getValue (levelconsume_run example_world level_run) ''zone_input'' = JNum 1"
  by (simp add: level_run_simps)

lemma level_eval_date: "getValue (levelconsume_run example_world level_run) ''date_input'' = JDate 1 ''d1''"
  by (simp add: level_run_simps)

lemma level_eval_type: "script_var (levelconsume_run example_world level_run) ''g_const_type'' = JStr ''credits''"
  by (simp add: level_run_simps)

lemma level_eval_system: "script_var (levelconsume_run example_world level_run) ''g_sys_name'' = JStr (uni [0x5546, 0x57CE])"
  by (simp add: level_run_simps)

lemma level_eval_pending: "pending (levelconsume_run example_world level_run) = []"
  by (simp add: level_run_simps)

lemmas level_eval = level_eval_zone level_eval_date level_eval_type level_eval_system level_eval_pending

theorem charts_refine_witness:
  "map (\<lambda>b. (obj_get b ''name'', obj_get b ''data'')) (store_getRange (stores (levelconsume_run example_world
      (level_run @ [ClickQuery, level_answer])) ''g_store_consume'')) =
   [(JStr ''lv10'', JNum 9), (JStr ''lv25'', JNum 7)]"
proof -
  let ?p = "levelconsume_run example_world (level_run @ [ClickQuery])"
  let ?rows = "[JObj [(''level_rgn'', JNum 25), (''consume'', JNum 7), (''players'', JNum 2)],
      JObj [(''level_rgn'', JNum 26), (''consume'', JNum 8), (''players'', JNum 3)],
      JObj [(''level_rgn'', JNum 10), (''consume'', JNum 9), (''players'', JNum 4)]]"
  let ?v = "JObj [(''success'', JStr ''ok''), (''res'', JArr ?rows)]"
  have shop: "uni [0x5546, 0x57CE] \<noteq> []" by (simp add: uni_def)
  then have "pending ?p = [KQuery]"
    by (simp add: run_snoc levelconsume_step_def levelconsume_def levelconsume_onBtnQuery_def level_eval run_query_def)
  then have ans: "query_answer ?p level_answer = [?v]"
    by (simp add: query_answer_def level_answer_def ok_answer_def)
  have wf: "rows_wf present ?v" by (simp add: rows_wf_def present_def)
  have "chart_bars ''consume'' ?rows = [[(''name'', JStr ''lv10''), (''data'', JNum 9)], [(''name'', JStr ''lv25''), (''data'', JNum 7)]]"
    by (simp add: chart_bars_def enumLevel_eq level_at_def level_key_def string_of_nat.simps digit_chars)
  then show ?thesis
    using charts_refine [OF ans wf] run_snoc [of example_world "level_run @ [ClickQuery]" level_answer]
    by (simp add: rows_of_def model_data_def field_value_def)
qed

text \<open>
  C30. Whatever the sequence of events, the second box offers exactly the systems of the
  currency selected last (none before a selection) and holds nothing or one of them.
\<close>

theorem systems_follow_category: "follows_category (levelconsume_run w es)"
  using choices_inv_run by (simp add: choices_inv_def)


text \<open>
  After another currency is selected the second box is empty, but the query button does
  not ask for a system: it sends the new currency together with the system selected under the
  earlier one.
\<close>

lemma stale_system_sent:
  fixes w es
  defines "p \<equiv> levelconsume_run w es"
  defines "q i \<equiv> levelconsume_step p (Choose ''cat_input'' i)"
  assumes "truthy (getValue p ''zone_input'')" and "truthy (getValue p ''date_input'')"
    and "truthy (script_var p ''g_sys_name'')" and "entry_at ''cat_input'' i p = Some rc"
  shows "getValue (q i) ''sys_input'' = JNull \<and>
    (\<exists>req. effects (levelconsume_step (q i) ClickQuery) = effects p @ [Send req] \<and>
       map_of (r_params req) ''cost_type'' = Some (Raw (obj_get rc ''category'')) \<and>
       map_of (r_params req) ''sys_name'' = Some (Raw (script_var p ''g_sys_name'')))"
proof -
  let ?s = "select_entry levelconsume_cfg ''cat_input'' i p"
  have s: "stores ?s ''store_cat'' = init_store levelconsume_cfg ''store_cat''" "page_ok levelconsume_cfg ?s"
    "rc \<in> set (s_recs (stores ?s ''store_cat''))"
    using choices_inv_run [of w es] levelconsume_run_ok [of w es] assms(6)
    by (auto simp: p_def choices_inv_def page_ok_def entry_at_def levelconsume_cfg_def local_combo_def date_field_def
        store_getAt_def split: if_splits)
  have q: "q i = final_state (onSelectCategory rc ?s)"
    using assms(6) by (simp add: q_def levelconsume_step_def on_select_def levelconsume_def)
  obtain cat l where cat: "obj_get rc ''category'' = JStr cat" "map_of systems cat = Some l"
    and parts: "vars (q i) = (vars ?s)(''g_const_type'' \<mapsto> JStr cat)" "effects (q i) = effects ?s"
      "inputs (q i) = (inputs ?s)(''sys_input'' := \<lparr>in_value = JNull, in_raw = []\<rparr>)"
    by (rule category_selected [OF s, folded q])
  from cat(2) have "cat \<noteq> []" by (auto simp: systems_def split: if_splits)
  with parts cat assms(3-5) show ?thesis
    by (simp add: levelconsume_step_def levelconsume_def levelconsume_onBtnQuery_def getValue_def script_var_def
        select_entry_inputs run_query_def ajaxCall_eq post_def sent_params_def emit_def update_conv')
qed

lemma voucher_entry: "\<exists>rc. entry_at ''cat_input'' 3 (levelconsume_run w es) = Some rc \<and> obj_get rc ''category'' = JStr ''voucher''"
proof -
  have "stores (levelconsume_run w es) ''store_cat'' = init_store levelconsume_cfg ''store_cat''"
    using choices_inv_run by (simp add: choices_inv_def)
  then have "entry_at ''cat_input'' 3 (levelconsume_run w es) = store_getAt (init_store levelconsume_cfg ''store_cat'') 3"
    by (simp add: entry_at_def levelconsume_cfg_def local_combo_def date_field_def)
  then show ?thesis by (simp add: store_getAt_def cat_records)
qed

theorem stale_system_sent_witness:
  "\<exists>req. last (effects (levelconsume_run example_world (level_run @ [Choose ''cat_input'' 3, ClickQuery]))) = Send req \<and>
     map_of (r_params req) ''cost_type'' = Some (Raw (JStr ''voucher'')) \<and>
     map_of (r_params req) ''sys_name'' = Some (Raw (JStr (uni [0x5546, 0x57CE])))"
proof -
  have shop: "uni [0x5546, 0x57CE] \<noteq> []" by (simp add: uni_def)
  from voucher_entry obtain rc where rc: "entry_at ''cat_input'' 3 (levelconsume_run example_world level_run) = Some rc"
    and cat: "obj_get rc ''category'' = JStr ''voucher''" by blast
  have "truthy (getValue (levelconsume_run example_world level_run) ''zone_input'')"
    "truthy (getValue (levelconsume_run example_world level_run) ''date_input'')"
    "truthy (script_var (levelconsume_run example_world level_run) ''g_sys_name'')"
    using shop by (simp_all add: level_eval)
  moreover have "levelconsume_run example_world (level_run @ [a, b]) =
      levelconsume_step (levelconsume_step (levelconsume_run example_world level_run) a) b" for a b
    by (simp add: levelconsume_run_def)
  ultimately show ?thesis using stale_system_sent [OF _ _ _ rc] by (auto simp: cat level_eval)
qed

text \<open>
  Every column is filled with a colour the charts define, whatever the number of columns and
  whatever was drawn.
\<close>

lemma bar_fill_defined:
  "\<exists>g \<in> set (ch_gradients (consume_chart draw)). bar_fill i = ''url(#'' @ gd_id g @ '')''"
proof -
  let ?k = "i mod length colors"
  have n: "length colors = 17" "length gradient_ids = 18" by (simp_all add: colors_def gradient_ids_def)
  then have k: "?k < 17" by simp
  let ?g = "gradients draw ! ?k"
  have len: "length (gradients draw) = 17" by (simp add: gradients_def n)
  have "gd_id ?g = tl gradient_ids ! ?k"
    using k n by (simp add: gradients_def nth_enumerate_eq)
  moreover have "bar_fill i = ''url(#'' @ (tl gradient_ids ! ?k) @ '')''"
    using k n(2) unfolding bar_fill_def by (subst colors_def, subst nth_map) simp_all
  moreover have "?g \<in> set (gradients draw)" using k len by simp
  ultimately show ?thesis by (intro bexI [of _ ?g]) (simp_all add: consume_chart_def)
qed

end
