(* ===== verification/Login.thy ===== *)
theory Login
  imports Session
begin

text \<open>
  The log-in and registration pages (\<open>app/stat/public/functions/login.js\<close>, \<open>regist.js\<close>):
  their forms, the validation of the fields (the e-mail pattern as a regular expression with
  an executable matcher, the length of the password, the confirmation), the buttons and the
  callbacks. A page's state extends the browser by the texts of the fields and the requests
  that wait for an answer. The validation of a text field follows \<open>Ext.form.field.Text\<close>: a
  blank field is judged by \<open>allowBlank\<close> alone, any other by its \<open>vtype\<close>.
\<close>

section \<open>Regular expressions\<close>

datatype re = Zero | One | Cls "char \<Rightarrow> bool" | Alt re re | Seq re re | Star re

inductive matches :: "re \<Rightarrow> string \<Rightarrow> bool" where
  m_one: "matches One []"
| m_cls: "f c \<Longrightarrow> matches (Cls f) [c]"
| m_alt1: "matches r s \<Longrightarrow> matches (Alt r q) s"
| m_alt2: "matches q s \<Longrightarrow> matches (Alt r q) s"
| m_seq: "matches r s \<Longrightarrow> matches q t \<Longrightarrow> matches (Seq r q) (s @ t)"
| m_nil: "matches (Star r) []"
| m_step: "matches r s \<Longrightarrow> matches (Star r) t \<Longrightarrow> matches (Star r) (s @ t)"

inductive_simps matches_simps: "matches Zero s" "matches One s" "matches (Cls f) s" "matches (Alt r q) s"
  "matches (Seq r q) s"

inductive_cases matches_starE: "matches (Star r) s"

fun nullable :: "re \<Rightarrow> bool" where
  "nullable Zero = False"
| "nullable One = True"
| "nullable (Cls f) = False"
| "nullable (Alt r q) = (nullable r \<or> nullable q)"
| "nullable (Seq r q) = (nullable r \<and> nullable q)"
| "nullable (Star r) = True"

fun deriv :: "char \<Rightarrow> re \<Rightarrow> re" where
  "deriv c Zero = Zero"
| "deriv c One = Zero"
| "deriv c (Cls f) = (if f c then One else Zero)"
| "deriv c (Alt r q) = Alt (deriv c r) (deriv c q)"
| "deriv c (Seq r q) =
     (if nullable r then Alt (Seq (deriv c r) q) (deriv c q) else Seq (deriv c r) q)"
| "deriv c (Star r) = Seq (deriv c r) (Star r)"

fun rmatch :: "re \<Rightarrow> string \<Rightarrow> bool" where
  "rmatch r [] = nullable r"
| "rmatch r (c # s) = rmatch (deriv c r) s"

section \<open>The e-mail pattern\<close>

definition between :: "char \<Rightarrow> char \<Rightarrow> char \<Rightarrow> bool" where
  "between a b c = ((of_char a :: nat) \<le> of_char c \<and> (of_char c :: nat) \<le> of_char b)"

definition word_char :: "char \<Rightarrow> bool" where
  "word_char c =
     (between (CHR ''a'') (CHR ''z'') c \<or> between (CHR ''A'') (CHR ''Z'') c \<or> between (CHR ''0'') (CHR ''9'') c \<or>
      c = CHR ''_'' \<or> c = CHR ''-'')"

definition plus_re :: "re \<Rightarrow> re" where
  "plus_re r = Seq r (Star r)"

definition char_re :: "char \<Rightarrow> re" where
  "char_re c = Cls (\<lambda>x. x = c)"

definition twice_or_thrice :: "re \<Rightarrow> re" where
  "twice_or_thrice r = Seq r (Seq r (Alt One r))"

definition once_or_twice :: "re \<Rightarrow> re" where
  "once_or_twice r = Seq r (Alt One r)"

definition email_re :: re where
  "email_re =
     Seq (plus_re (Cls word_char)) (Seq (char_re (CHR ''@''))
       (Seq (plus_re (Cls word_char))
         (once_or_twice (Seq (char_re (CHR ''.'')) (twice_or_thrice (Cls word_char))))))"

definition isEmail :: "string \<Rightarrow> bool" where
  "isEmail str = rmatch email_re str"

section \<open>Forms\<close>

datatype vtype = Vemail | Vpassword | Vpasswordconfirm

record form_field =
  ff_name :: string
  ff_at :: "nat \<times> nat"
  ff_width :: nat
  ff_allowBlank :: bool
  ff_inputType :: string
  ff_vtype :: vtype

record form_button =
  fb_name :: string
  fb_text :: string
  fb_at :: "nat \<times> nat"
  fb_formBind :: bool
  fb_handler :: string

datatype form_item = Label string "nat \<times> nat" | Field form_field | FormButton form_button

record form_cfg =
  fm_app :: string
  fm_title :: string
  fm_size :: "nat \<times> nat"
  fm_items :: "form_item list"

record form_page = world +
  texts :: "string \<Rightarrow> string"
  waiting :: "string list"

definition form_fields :: "form_cfg \<Rightarrow> form_field list" where
  "form_fields c = concat (map (\<lambda>i. case i of Field f \<Rightarrow> [f] | _ \<Rightarrow> []) (fm_items c))"

text \<open>\<open>form.getValues()\<close>: the text of every field.\<close>

definition getValues :: "form_cfg \<Rightarrow> form_page \<Rightarrow> jsobj" where
  "getValues c p = map (\<lambda>f. (ff_name f, JStr (texts p (ff_name f)))) (form_fields c)"

text \<open>\<open>verifyNamePwd\<close>: the validators.\<close>

definition verifyNamePwd :: "form_cfg \<Rightarrow> vtype \<Rightarrow> string \<Rightarrow> form_page \<Rightarrow> bool" where
  "verifyNamePwd c v val p =
     (case v of
        Vemail \<Rightarrow> isEmail val
      | Vpassword \<Rightarrow> 6 \<le> js_length val
      | Vpasswordconfirm \<Rightarrow>
          (let pass = obj_get (getValues c p) ''pass''
           in if \<not> js_eq (JStr val) pass then False else True))"

definition field_valid :: "form_cfg \<Rightarrow> form_page \<Rightarrow> form_field \<Rightarrow> bool" where
  "field_valid c p f =
     (let v = texts p (ff_name f)
      in if v = [] then ff_allowBlank f else verifyNamePwd c (ff_vtype f) v p)"

definition form_isValid :: "form_cfg \<Rightarrow> form_page \<Rightarrow> bool" where
  "form_isValid c p = list_all (field_valid c p) (form_fields c)"

definition form_init :: "world \<Rightarrow> form_page" where
  "form_init w =
     \<lparr>cookies = cookies w, doc_url = doc_url w, csrf = csrf w, effects = effects w,
      texts = (\<lambda>_. []), waiting = []\<rparr>"

section \<open>login.js\<close>

definition login_form :: form_cfg where
  "login_form =
     \<lparr>fm_app = ''login'', fm_title = loc ''str_login'', fm_size = (300, 210),
      fm_items =
       [Label (loc ''str_email'') (30, 35),
        Field \<lparr>ff_name = ''email'', ff_at = (100, 30), ff_width = 150, ff_allowBlank = True,
               ff_inputType = ''text'', ff_vtype = Vemail\<rparr>,
        Label (loc ''str_password'') (30, 80),
        Field \<lparr>ff_name = ''pass'', ff_at = (100, 75), ff_width = 150, ff_allowBlank = True,
               ff_inputType = ''password'', ff_vtype = Vpassword\<rparr>,
        FormButton \<lparr>fb_name = ''login'', fb_text = loc ''str_login'', fb_at = (180, 130),
                    fb_formBind = True, fb_handler = ''onBtnLogin''\<rparr>,
        FormButton \<lparr>fb_name = ''regist'', fb_text = loc ''str_regist'', fb_at = (25, 130),
                    fb_formBind = True, fb_handler = ''onBtnRegist''\<rparr>]\<rparr>"

definition onLoginSuccess :: "form_page callback" where
  "onLoginSuccess res p =
     Done (emit (Goto (BASE_URL @ ''/main/dashboard''))
       (cookie_set ''userid'' (js_prop res ''uid'') (cookie_set ''sessionid'' (js_prop res ''sid'') p)))"

definition onBtnLogin :: "form_page \<Rightarrow> form_page" where
  "onBtnLogin p =
     (if form_isValid login_form p then
        (let values = getValues login_form p
         in (ajaxCall \<lparr>o_url = ''/users/do_login'', o_method = Some ''POST'',
               o_params = Some [(''email'', Raw (obj_get values ''email'')),
                                (''password'', Raw (obj_get values ''pass''))]\<rparr> p)
            \<lparr>waiting := waiting p @ [''onLoginSuccess'']\<rparr>)
      else p)"

definition login_onBtnRegist :: "form_page \<Rightarrow> form_page" where
  "login_onBtnRegist p = emit (Goto (BASE_URL @ ''/users/regist'')) p"

section \<open>regist.js\<close>

definition regist_form :: form_cfg where
  "regist_form =
     \<lparr>fm_app = ''regist'', fm_title = loc ''str_regist'', fm_size = (350, 280),
      fm_items =
       [Label (loc ''str_email'') (30, 35),
        Field \<lparr>ff_name = ''email'', ff_at = (150, 30), ff_width = 170, ff_allowBlank = False,
               ff_inputType = ''text'', ff_vtype = Vemail\<rparr>,
        Label (loc ''str_password'') (30, 80),
        Field \<lparr>ff_name = ''pass'', ff_at = (150, 75), ff_width = 170, ff_allowBlank = False,
               ff_inputType = ''password'', ff_vtype = Vpassword\<rparr>,
        Label (loc ''str_confirm_password'') (30, 125),
        Field \<lparr>ff_name = ''passconfirm'', ff_at = (150, 120), ff_width = 170, ff_allowBlank = False,
               ff_inputType = ''password'', ff_vtype = Vpasswordconfirm\<rparr>,
        FormButton \<lparr>fb_name = ''regist'', fb_text = loc ''str_regist'', fb_at = (150, 205),
                    fb_formBind = True, fb_handler = ''onBtnRegist''\<rparr>]\<rparr>"

definition onRegistSuccess :: "form_page callback" where
  "onRegistSuccess res p =
     Done (emit (Goto (BASE_URL @ ''/users/login'')) (emit (Alert ''Regist success, now you can login.'') p))"

definition regist_onBtnRegist :: "form_page \<Rightarrow> form_page" where
  "regist_onBtnRegist p =
     (if \<not> form_isValid regist_form p then p
      else
        (let values = getValues regist_form p
         in (ajaxCall \<lparr>o_url = ''/users/do_regist'', o_method = Some ''POST'',
               o_params = Some [(''email'', Raw (obj_get values ''email'')),
                                (''password'', Raw (obj_get values ''pass''))]\<rparr> p)
            \<lparr>waiting := waiting p @ [''onSuccess'']\<rparr>))"

section \<open>The matcher decides the language\<close>

lemma matches_nil: "matches r [] \<longleftrightarrow> nullable r"
  by (induction r) (auto simp: matches_simps intro: m_nil)

lemma matches_star_Cons:
  "matches (Star r) s \<Longrightarrow> s = c # s' \<Longrightarrow> \<exists>t u. matches r (c # t) \<and> matches (Star r) u \<and> s' = t @ u"
proof (induction "Star r" s arbitrary: s' rule: matches.induct)
  case (m_step s t)
  then show ?case by (cases s) auto
qed auto

lemma matches_deriv: "matches (deriv c r) s \<longleftrightarrow> matches r (c # s)"
proof (induction r arbitrary: s)
  case (Seq r q)
  have "matches (Seq r q) (c # s) \<longleftrightarrow>
      (\<exists>t u. matches r (c # t) \<and> matches q u \<and> s = t @ u) \<or> (nullable r \<and> matches q (c # s))"
    by (auto simp: matches_simps Cons_eq_append_conv matches_nil [symmetric])
  then show ?case using Seq by (auto simp: matches_simps)
next
  case (Star r)
  have "matches (Star r) (c # s) \<longleftrightarrow> (\<exists>t u. matches r (c # t) \<and> matches (Star r) u \<and> s = t @ u)"
    using matches_star_Cons [of r "c # s" c s] m_step [of r "c # t" for t] by auto
  then show ?case using Star by (auto simp: matches_simps)
qed (auto simp: matches_simps)

lemma rmatch_matches: "rmatch r s \<longleftrightarrow> matches r s"
  by (induction s arbitrary: r) (simp_all add: matches_nil matches_deriv)

lemma matches_star_cls: "matches (Star (Cls f)) s \<longleftrightarrow> list_all f s"
proof
  show "matches (Star (Cls f)) s \<Longrightarrow> list_all f s"
    by (induction "Star (Cls f)" s rule: matches.induct) (auto simp: matches_simps)
  show "list_all f s \<Longrightarrow> matches (Star (Cls f)) s"
    using m_step [of "Cls f" "[c]" for c] by (induction s) (auto intro: m_nil m_cls)
qed

lemma matches_cls_seq: "matches (Seq (Cls f) q) s \<longleftrightarrow> (\<exists>c t. s = c # t \<and> f c \<and> matches q t)"
  by (auto simp: matches_simps) (metis append_Cons append_Nil)

lemma matches_plus_cls: "matches (plus_re (Cls f)) s \<longleftrightarrow> s \<noteq> [] \<and> list_all f s"
  by (cases s) (auto simp: plus_re_def matches_cls_seq matches_star_cls)

lemma matches_two_three:
  "matches (twice_or_thrice (Cls f)) s \<longleftrightarrow> (length s = 2 \<or> length s = 3) \<and> list_all f s"
  by (auto simp: twice_or_thrice_def matches_cls_seq matches_simps(2-4) length_Suc_conv numeral_2_eq_2 numeral_3_eq_3)

definition label_ok :: "string \<Rightarrow> bool" where
  "label_ok t = ((length t = 2 \<or> length t = 3) \<and> list_all word_char t)"

definition email_parts :: "string \<Rightarrow> string \<Rightarrow> string list \<Rightarrow> string" where
  "email_parts u h ts = u @ ''@'' @ h @ concat (map (\<lambda>t. CHR ''.'' # t) ts)"

definition dot_label :: re where
  "dot_label = Seq (char_re (CHR ''.'')) (twice_or_thrice (Cls word_char))"

lemma matches_dot_label: "matches dot_label s \<longleftrightarrow> (\<exists>t. s = CHR ''.'' # t \<and> label_ok t)"
  by (auto simp: dot_label_def char_re_def matches_cls_seq matches_two_three label_ok_def)

lemma matches_labels:
  "matches (once_or_twice dot_label) s \<longleftrightarrow>
     (\<exists>ts. s = concat (map (\<lambda>t. CHR ''.'' # t) ts) \<and> (length ts = 1 \<or> length ts = 2) \<and> list_all label_ok ts)"
  (is "?L = ?R")
proof
  assume ?L
  then obtain a v where "s = a @ v" "matches dot_label a" "v = [] \<or> matches dot_label v"
    by (auto simp: once_or_twice_def matches_simps(2,4,5))
  then obtain t where "s = (CHR ''.'' # t) @ v" "label_ok t" "v = [] \<or> (\<exists>t'. v = CHR ''.'' # t' \<and> label_ok t')"
    by (auto simp: matches_dot_label)
  then have "s = concat (map (\<lambda>t. CHR ''.'' # t) [t]) \<or>
      (\<exists>t'. s = concat (map (\<lambda>t. CHR ''.'' # t) [t, t']) \<and> label_ok t')"
    by auto
  then show ?R
  proof
    assume "s = concat (map (\<lambda>t. CHR ''.'' # t) [t])"
    with \<open>label_ok t\<close> show ?R by (intro exI [of _ "[t]"]) simp
  next
    assume "\<exists>t'. s = concat (map (\<lambda>t. CHR ''.'' # t) [t, t']) \<and> label_ok t'"
    with \<open>label_ok t\<close> obtain t' where "s = concat (map (\<lambda>t. CHR ''.'' # t) [t, t'])" "label_ok t'" by blast
    with \<open>label_ok t\<close> show ?R by (intro exI [of _ "[t, t']"]) simp
  qed
next
  assume ?R
  then obtain ts where s: "s = concat (map (\<lambda>t. CHR ''.'' # t) ts)" "list_all label_ok ts"
    and "length ts = 1 \<or> length ts = 2" by blast
  then consider t where "ts = [t]" | t t' where "ts = [t, t']"
    by (auto simp: length_Suc_conv numeral_2_eq_2)
  then show ?L
  proof cases
    case 1
    with s m_seq [OF _ m_alt1 [OF m_one], of dot_label "CHR ''.'' # t" dot_label] show ?thesis
      by (simp add: once_or_twice_def matches_dot_label)
  next
    case 2
    with s m_seq [OF _ m_alt2, of dot_label "CHR ''.'' # t" dot_label "CHR ''.'' # t'" One] show ?thesis
      by (simp add: once_or_twice_def matches_dot_label)
  qed
qed

text \<open>
  C34. The validator accepts exactly the addresses of the form \<open>user@host.label\<close> or
  \<open>user@host.label.label\<close> with a non-empty user and host of letters, digits, \<open>_\<close> and \<open>-\<close>, and
  labels of two or three such characters.
\<close>

theorem isEmail_iff:
  "isEmail s \<longleftrightarrow>
     (\<exists>u h ts. s = email_parts u h ts \<and> u \<noteq> [] \<and> h \<noteq> [] \<and> list_all word_char u \<and> list_all word_char h \<and>
        (length ts = 1 \<or> length ts = 2) \<and> list_all label_ok ts)"
  unfolding isEmail_def rmatch_matches email_re_def matches_simps(5) matches_plus_cls
    dot_label_def [symmetric] matches_labels
  by (auto simp: char_re_def matches_simps(3) email_parts_def) blast+

section \<open>What the buttons send\<close>

lemma texts_frame [simp]: "texts (ajaxCall opts p) = texts p" "texts (emit e p) = texts p"
  by (simp_all add: ajaxCall_eq emit_def)

lemma isEmail_nonempty: "isEmail s \<Longrightarrow> s \<noteq> []"
  by (auto simp: isEmail_def email_re_def plus_re_def)

lemma form_values:
  "obj_get (getValues login_form p) ''email'' = JStr (texts p ''email'')"
  "obj_get (getValues login_form p) ''pass'' = JStr (texts p ''pass'')"
  "obj_get (getValues regist_form p) ''email'' = JStr (texts p ''email'')"
  "obj_get (getValues regist_form p) ''pass'' = JStr (texts p ''pass'')"
  by (simp_all add: getValues_def form_fields_def login_form_def regist_form_def)

lemma js_length_nonempty: "6 \<le> js_length s \<Longrightarrow> s \<noteq> []"
  by (auto simp: js_length_def)

lemma regist_valid:
  "form_isValid regist_form p \<longleftrightarrow>
     isEmail (texts p ''email'') \<and> 6 \<le> js_length (texts p ''pass'') \<and> texts p ''passconfirm'' = texts p ''pass''"
proof -
  have "form_isValid regist_form p \<longleftrightarrow> list_all (field_valid regist_form p) (form_fields regist_form)"
    by (rule form_isValid_def)
  also have "\<dots> \<longleftrightarrow> (texts p ''email'' \<noteq> [] \<and> isEmail (texts p ''email'')) \<and>
      (texts p ''pass'' \<noteq> [] \<and> 6 \<le> js_length (texts p ''pass'')) \<and>
      (texts p ''passconfirm'' \<noteq> [] \<and> texts p ''passconfirm'' = texts p ''pass'')"
    using form_values(4) [of p]
    by (auto simp: form_fields_def regist_form_def field_valid_def verifyNamePwd_def Let_def)
  finally show ?thesis using isEmail_nonempty js_length_nonempty by metis
qed

lemma login_valid:
  "form_isValid login_form p \<longleftrightarrow>
     (texts p ''email'' = [] \<or> isEmail (texts p ''email'')) \<and>
     (texts p ''pass'' = [] \<or> 6 \<le> js_length (texts p ''pass''))"
  by (auto simp: form_isValid_def form_fields_def login_form_def field_valid_def verifyNamePwd_def Let_def)

definition credentials :: "string \<Rightarrow> form_page \<Rightarrow> request" where
  "credentials url p =
     \<lparr>r_url = url, r_method = ''POST'',
      r_params = [(''email'', Raw (JStr (texts p ''email''))), (''password'', Raw (JStr (texts p ''pass''))),
                  (''sid'', Raw (cookie_get ''sessionid'' p))],
      r_token = csrf p\<rparr>"

text \<open>
  The registration button sends one request, with the e-mail and the password of the form,
  when the e-mail is well formed, the password has at least six characters and the
  confirmation equals it; otherwise it does nothing at all.
\<close>

lemma regist_button_sends:
  "regist_onBtnRegist p =
     (if isEmail (texts p ''email'') \<and> 6 \<le> js_length (texts p ''pass'') \<and> texts p ''passconfirm'' = texts p ''pass''
      then (emit (Send (credentials ''/users/do_regist'' p)) p)\<lparr>waiting := waiting p @ [''onSuccess'']\<rparr>
      else p)"
  by (simp add: regist_onBtnRegist_def regist_valid form_values ajaxCall_eq sent_params_def credentials_def)

text \<open>
  The log-in button sends one request with the texts of the form, unless one of them is
  filled in and not acceptable; blank fields pass.
\<close>

lemma login_button_sends:
  "onBtnLogin p =
     (if (texts p ''email'' = [] \<or> isEmail (texts p ''email'')) \<and>
         (texts p ''pass'' = [] \<or> 6 \<le> js_length (texts p ''pass''))
      then (emit (Send (credentials ''/users/do_login'' p)) p)\<lparr>waiting := waiting p @ [''onLoginSuccess'']\<rparr>
      else p)"
  by (simp add: onBtnLogin_def login_valid form_values ajaxCall_eq sent_params_def credentials_def)

text \<open>
  A successful log-in opens a session: the two cookies hold the identifiers the server
  answered, the dashboard is opened, and every later call of the browser carries the
  session identifier.
\<close>

lemma login_opens_session:
  assumes "obj_get kvs ''success'' = JStr ''ok''"
  shows "\<exists>q. ajax_response (Some onLoginSuccess) None (Responded txt (Some (JObj kvs))) p = Done q \<and>
    effects q = effects p @ [Goto ''/main/dashboard''] \<and>
    getUid q = JStr (js_to_string (obj_get kvs ''uid'')) \<and>
    fst (getSid q) = JStr (js_to_string (obj_get kvs ''sid'')) \<and>
    (\<forall>opts. map_of (sent_params opts q) ''sid'' = Some (Raw (JStr (js_to_string (obj_get kvs ''sid'')))))"
proof -
  have c: "cookie_get k (emit e q) = cookie_get k q" for k e and q :: form_page
    by (simp add: cookie_get_def)
  have "effects (cookie_set k v q) = effects q" for k v and q :: form_page by (simp add: cookie_set_def)
  then show ?thesis
    using assms
    by (simp add: ajax_response_ok onLoginSuccess_def BASE_URL_def getUid_def getSid_eq c cookie_get_set
        map_of_sent_params)
qed

theorem login_opens_session_witness:
  "\<exists>q. ajax_response (Some onLoginSuccess) None
      (Responded [] (Some (JObj [(''success'', JStr ''ok''), (''sid'', JStr ''s9''), (''uid'', JStr ''4'')])))
      (form_init \<lparr>cookies = [], doc_url = ''/users/login'', csrf = JUndef, effects = []\<rparr>) = Done q \<and>
    getUid q = JStr ''4'' \<and> fst (getSid q) = JStr ''s9''"
  using login_opens_session [of "[(''success'', JStr ''ok''), (''sid'', JStr ''s9''), (''uid'', JStr ''4'')]" "[]"
      "form_init \<lparr>cookies = [], doc_url = ''/users/login'', csrf = JUndef, effects = []\<rparr>"]
  by auto

end
