(* ===== verification/Keyed_Store.thy ===== *)
theory Keyed_Store
  imports Prelude
begin

text \<open>
  Stores whose records have an identifier and that sort by it (\<open>sorters: [{property: 'id',
  direction: 'ASC'}]\<close>), as the account pages use them: a record's key is its identifier, a
  record without one gets a fresh key, inserting a record whose key is present replaces the
  old one, and \<open>add\<close> finds its place by binary search. The contract is the locale
  \<open>sorted_listing\<close>: whatever the order in which rows arrive, the listing is sorted and shows
  the last row given for every identifier.
\<close>

section \<open>Field conversion\<close>

definition int_field :: "jsval \<Rightarrow> jsval" where
  "int_field v =
     (case v of
        JNum n \<Rightarrow> JNum n
      | JNaN \<Rightarrow> JNaN
      | JUndef \<Rightarrow> JNum 0
      | JNull \<Rightarrow> JNum 0
      | JStr s \<Rightarrow> if s = [] then JNum 0 else parseInt10 (JStr (filter (\<lambda>c. c \<notin> set ''$,%'') s))
      | _ \<Rightarrow> parseInt10 (JStr (filter (\<lambda>c. c \<notin> set ''$,%'') (js_to_string v))))"

definition string_field :: "jsval \<Rightarrow> jsval" where
  "string_field v = (if nullish v then JStr [] else JStr (js_to_string v))"

section \<open>Keyed records\<close>

type_synonym krow = "string \<times> jsobj"

record keyed_store =
  ks_auto :: nat
  ks_rows :: "krow list"

definition keyed_new :: keyed_store where
  "keyed_new = \<lparr>ks_auto = 1, ks_rows = []\<rparr>"

fun index_of_key :: "string \<Rightarrow> krow list \<Rightarrow> nat option" where
  "index_of_key k [] = None"
| "index_of_key k (x # xs) = (if fst x = k then Some 0 else map_option Suc (index_of_key k xs))"

definition insert_at :: "nat \<Rightarrow> krow \<Rightarrow> krow list \<Rightarrow> krow list" where
  "insert_at j x xs =
     (case index_of_key (fst x) xs of
        None \<Rightarrow> take j xs @ [x] @ drop j xs
      | Some c \<Rightarrow>
          (let ys = take c xs @ drop (Suc c) xs;
               j' = (if c < j then j - 1 else j)
           in take j' ys @ [x] @ drop j' ys))"

definition id_of :: "jsobj \<Rightarrow> int option" where
  "id_of d = (case obj_get d ''id'' of JNum n \<Rightarrow> Some n | _ \<Rightarrow> None)"

definition compare_id :: "jsobj \<Rightarrow> jsobj \<Rightarrow> int" where
  "compare_id a b =
     (case (id_of a, id_of b) of
        (Some x, Some y) \<Rightarrow> if x > y then 1 else if x < y then - 1 else 0
      | _ \<Rightarrow> 0)"

text \<open>The binary search over the half-open interval from \<open>lo\<close> to \<open>hi\<close>.\<close>

function find_insertion :: "jsobj \<Rightarrow> krow list \<Rightarrow> nat \<Rightarrow> nat \<Rightarrow> nat" where
  "find_insertion d xs lo hi =
     (if lo < hi then
        (let c = (lo + hi - 1) div 2
         in if 0 \<le> compare_id d (snd (xs ! c)) then find_insertion d xs (c + 1) hi
            else find_insertion d xs lo c)
      else lo)"
  by pat_completeness auto
termination
  by (relation "measure (\<lambda>(d, xs, lo, hi). hi - lo)") auto

declare find_insertion.simps [simp del]

text \<open>The key of a record: its identifier as given, or a fresh one where there is none.\<close>

definition has_id :: "jsval \<Rightarrow> bool" where
  "has_id v = (truthy v \<or> v = JNum 0)"

definition auto_key :: "nat \<Rightarrow> string" where
  "auto_key n = ''ext-record-'' @ string_of_nat n"

definition keyed_row :: "jsval \<Rightarrow> jsobj \<Rightarrow> keyed_store \<Rightarrow> krow" where
  "keyed_row raw_id d s = (if has_id raw_id then js_to_string raw_id else auto_key (ks_auto s), d)"

definition bump :: "jsval \<Rightarrow> keyed_store \<Rightarrow> nat" where
  "bump raw_id s = (if has_id raw_id then ks_auto s else Suc (ks_auto s))"

definition keyed_insert :: "nat \<Rightarrow> jsval \<Rightarrow> jsobj \<Rightarrow> keyed_store \<Rightarrow> keyed_store" where
  "keyed_insert j raw_id d s =
     s\<lparr>ks_auto := bump raw_id s, ks_rows := insert_at j (keyed_row raw_id d s) (ks_rows s)\<rparr>"

definition keyed_add :: "jsval \<Rightarrow> jsobj \<Rightarrow> keyed_store \<Rightarrow> keyed_store" where
  "keyed_add raw_id d s =
     keyed_insert (find_insertion d (ks_rows s) 0 (length (ks_rows s))) raw_id d s"

definition keyed_removeAll :: "keyed_store \<Rightarrow> keyed_store" where
  "keyed_removeAll s = s\<lparr>ks_rows := []\<rparr>"

definition keyed_getAt :: "nat \<Rightarrow> keyed_store \<Rightarrow> jsobj option" where
  "keyed_getAt i s = (if i < length (ks_rows s) then Some (snd (ks_rows s ! i)) else None)"

section \<open>Well-formed listings\<close>

definition row_id :: "krow \<Rightarrow> int" where
  "row_id x = (case id_of (snd x) of Some n \<Rightarrow> n | None \<Rightarrow> 0)"

definition numbered :: "krow \<Rightarrow> bool" where
  "numbered x = (\<exists>n. id_of (snd x) = Some n \<and> fst x = string_of_int n)"

definition listing_ok :: "krow list \<Rightarrow> bool" where
  "listing_ok xs = (list_all numbered xs \<and> sorted_wrt (\<lambda>a b. row_id a < row_id b) xs)"

text \<open>The listing as a map from identifiers to records.\<close>

definition listing_map :: "krow list \<Rightarrow> int \<Rightarrow> jsobj option" where
  "listing_map xs = map_of (map (\<lambda>x. (row_id x, snd x)) xs)"

lemma string_of_int_inj: "string_of_int a = string_of_int b \<Longrightarrow> a = b"
  by (metis option.inject parse_int_string_of_int)

lemma numbered_row_id: "numbered x \<Longrightarrow> id_of (snd x) = Some (row_id x) \<and> fst x = string_of_int (row_id x)"
  by (auto simp: numbered_def row_id_def)

lemma find_insertion_sorted:
  assumes "listing_ok xs" and "id_of d = Some n" and "lo \<le> hi" and "hi \<le> length xs"
    and "\<forall>i < lo. row_id (xs ! i) \<le> n" and "\<forall>i. hi \<le> i \<longrightarrow> i < length xs \<longrightarrow> n < row_id (xs ! i)"
  shows "find_insertion d xs lo hi \<le> length xs \<and>
    (\<forall>i < find_insertion d xs lo hi. row_id (xs ! i) \<le> n) \<and>
    (\<forall>i. find_insertion d xs lo hi \<le> i \<longrightarrow> i < length xs \<longrightarrow> n < row_id (xs ! i))"
  using assms
proof (induction d xs lo hi rule: find_insertion.induct)
  case (1 d xs lo hi)
  note ok = 1(3) and n = 1(4) and lohi = 1(5,6) and low = 1(7) and high = 1(8)
  show ?case
  proof (cases "lo < hi")
    case False
    then have "find_insertion d xs lo hi = lo" by (simp add: find_insertion.simps [of d xs lo hi])
    moreover have "lo = hi" using False lohi by simp
    ultimately show ?thesis using lohi low high by simp
  next
    case True
    define c where "c = (lo + hi - 1) div 2"
    have eq: "find_insertion d xs lo hi =
        (if 0 \<le> compare_id d (snd (xs ! c)) then find_insertion d xs (c + 1) hi else find_insertion d xs lo c)"
      using True by (simp add: find_insertion.simps [of d xs lo hi] Let_def c_def)
    have c: "lo \<le> c" "c < hi" using True by (auto simp: c_def)
    with lohi have cl: "c < length xs" by simp
    then have "numbered (xs ! c)" using ok by (simp add: listing_ok_def list_all_length)
    then have cmp: "0 \<le> compare_id d (snd (xs ! c)) \<longleftrightarrow> row_id (xs ! c) \<le> n"
      using n numbered_row_id [of "xs ! c"] by (simp add: compare_id_def)
    have mono: "row_id (xs ! i) \<le> row_id (xs ! j)" if "i \<le> j" "j < length xs" for i j
    proof (cases "i = j")
      case False
      with that ok have "row_id (xs ! i) < row_id (xs ! j)"
        by (simp add: listing_ok_def sorted_wrt_iff_nth_less)
      then show ?thesis by simp
    qed simp
    show ?thesis
    proof (cases "row_id (xs ! c) \<le> n")
      case le: True
      have "\<forall>i < c + 1. row_id (xs ! i) \<le> n"
        using mono [OF _ cl] le by (metis Suc_eq_plus1 less_Suc_eq_le order_trans)
      with le cmp c lohi high show ?thesis
        unfolding eq by (simp only: if_True) (rule 1(1) [OF True c_def _ ok n], simp_all)
    next
      case gt: False
      have "\<forall>i. c \<le> i \<longrightarrow> i < length xs \<longrightarrow> n < row_id (xs ! i)"
        using mono [of c] gt by (meson less_le_trans not_le)
      with gt cmp c lohi low show ?thesis
        unfolding eq by (simp only: if_False) (rule 1(2) [OF True c_def _ ok n], simp_all)
    qed
  qed
qed

lemma index_of_key_Some: "index_of_key k xs = Some c \<Longrightarrow> c < length xs \<and> fst (xs ! c) = k"
  by (induction xs arbitrary: c) (auto split: if_splits)

lemma index_of_key_None: "index_of_key k xs = None \<Longrightarrow> x \<in> set xs \<Longrightarrow> fst x \<noteq> k"
  by (induction xs) (auto split: if_splits)

text \<open>Where a row belongs: behind the smaller identifiers, before the greater ones, in place of its own.\<close>

lemma insert_at_place:
  assumes ok: "listing_ok xs" and x: "numbered x"
    and j: "j \<le> length xs" "\<forall>i < j. row_id (xs ! i) \<le> row_id x" "\<forall>i. j \<le> i \<longrightarrow> i < length xs \<longrightarrow> row_id x < row_id (xs ! i)"
  obtains as ms bs where "xs = as @ ms @ bs" and "insert_at j x xs = as @ [x] @ bs"
    and "\<forall>y \<in> set as. row_id y < row_id x" and "\<forall>y \<in> set ms. row_id y = row_id x"
    and "\<forall>y \<in> set bs. row_id x < row_id y"
proof (cases "index_of_key (fst x) xs")
  case None
  have "row_id y < row_id x" if "y \<in> set (take j xs)" for y
  proof -
    from that obtain i where i: "i < j" "i < length xs" "y = xs ! i" by (auto simp: in_set_conv_nth)
    then have "numbered y" "fst y \<noteq> fst x"
      using ok index_of_key_None [OF None] by (auto simp: listing_ok_def list_all_length)
    then have "row_id y \<noteq> row_id x" using numbered_row_id [OF x] numbered_row_id [of y] by auto
    with j(2) i show ?thesis by force
  qed
  moreover have "row_id x < row_id y" if "y \<in> set (drop j xs)" for y
    using that j(3) by (auto simp: in_set_conv_nth)
  moreover have "insert_at j x xs = take j xs @ [x] @ drop j xs" by (simp add: insert_at_def None)
  ultimately show thesis by (intro that [of "take j xs" "[]" "drop j xs"]) simp_all
next
  case (Some c)
  then have c: "c < length xs" "fst (xs ! c) = fst x" using index_of_key_Some by auto
  then have "numbered (xs ! c)" using ok by (simp add: listing_ok_def list_all_length)
  then have rc: "row_id (xs ! c) = row_id x"
    using c(2) numbered_row_id [OF x] numbered_row_id [of "xs ! c"] string_of_int_inj by metis
  have mono: "row_id (xs ! i) < row_id (xs ! k)" if "i < k" "k < length xs" for i k
    using that ok by (simp add: listing_ok_def sorted_wrt_iff_nth_less)
  have cj: "c < j" using j(3) c(1) rc by (metis less_irrefl not_le)
  have "j = Suc c"
  proof (rule ccontr)
    assume "j \<noteq> Suc c"
    with cj have k: "Suc c < j" by simp
    with j(1,2) have "row_id (xs ! Suc c) \<le> row_id x" by simp
    with mono [of c "Suc c"] k j(1) rc show False by simp
  qed
  moreover have "insert_at j x xs = take c xs @ [x] @ drop (Suc c) xs"
    using c(1) cj \<open>j = Suc c\<close> by (simp add: insert_at_def Some Let_def)
  moreover have "xs = take c xs @ [xs ! c] @ drop (Suc c) xs"
    using c(1) by (simp add: Cons_nth_drop_Suc)
  moreover have "row_id y < row_id x" if "y \<in> set (take c xs)" for y
    using that mono [of _ c] c(1) rc by (auto simp: in_set_conv_nth)
  moreover have "row_id x < row_id y" if "y \<in> set (drop (Suc c) xs)" for y
    using that mono [of c] c(1) rc by (auto simp: in_set_conv_nth)
  ultimately show thesis using rc by (intro that [of "take c xs" "[xs ! c]" "drop (Suc c) xs"]) simp_all
qed

lemma map_of_skip: "\<forall>y \<in> set ys. f y \<noteq> k \<Longrightarrow> map_of (map (\<lambda>y. (f y, g y)) ys @ zs) k = map_of zs k"
  by (induction ys) auto

lemma insert_sorted_place:
  assumes "listing_ok xs" and "numbered x"
    and "j = find_insertion (snd x) xs 0 (length xs)"
  shows "listing_ok (insert_at j x xs)"
    and "listing_map (insert_at j x xs) = (listing_map xs)(row_id x \<mapsto> snd x)"
proof -
  have "id_of (snd x) = Some (row_id x)" using numbered_row_id [OF assms(2)] by simp
  from find_insertion_sorted [OF assms(1) this, of 0 "length xs"]
  obtain as ms bs where xs: "xs = as @ ms @ bs" and ins: "insert_at j x xs = as @ [x] @ bs"
    and as: "\<forall>y \<in> set as. row_id y < row_id x" and ms: "\<forall>y \<in> set ms. row_id y = row_id x"
    and bs: "\<forall>y \<in> set bs. row_id x < row_id y"
    by (auto simp: assms(3) [symmetric] intro: insert_at_place [OF assms(1,2), of j])
  show "listing_ok (insert_at j x xs)"
    using assms(1) [unfolded xs] assms(2) as bs unfolding ins by (auto simp: listing_ok_def sorted_wrt_append)
  show "listing_map (insert_at j x xs) = (listing_map xs)(row_id x \<mapsto> snd x)"
  proof
    fix k
    show "listing_map (insert_at j x xs) k = ((listing_map xs)(row_id x \<mapsto> snd x)) k"
    proof (cases "k = row_id x")
      case True
      with as have "\<forall>y \<in> set as. row_id y \<noteq> k" by auto
      then have "map_of (map (\<lambda>y. (row_id y, snd y)) as @ zs) k = map_of zs k" for zs
        by (rule map_of_skip)
      with True show ?thesis unfolding listing_map_def ins map_append by (simp del: map_of_append)
    next
      case False
      then have "map_of (map (\<lambda>y. (row_id y, snd y)) ms @ zs) k = map_of zs k" for zs
        using ms by (intro map_of_skip) auto
      with False show ?thesis unfolding listing_map_def ins by (simp add: xs map_add_def split: option.split)
    qed
  qed
qed

section \<open>The contract of a sorted listing\<close>

locale sorted_listing =
  fixes add :: "int \<Rightarrow> 'd \<Rightarrow> 's \<Rightarrow> 's"
    and clear :: "'s \<Rightarrow> 's"
    and ids :: "'s \<Rightarrow> int list"
    and look :: "'s \<Rightarrow> int \<Rightarrow> 'd option"
    and ok :: "'s \<Rightarrow> bool"
  assumes ok_add: "ok s \<Longrightarrow> ok (add n d s)"
    and ok_clear: "ok (clear s)"
    and look_add: "ok s \<Longrightarrow> look (add n d s) = (look s)(n \<mapsto> d)"
    and look_clear: "look (clear s) = Map.empty"
    and ids_sorted: "ok s \<Longrightarrow> sorted (ids s) \<and> distinct (ids s)"
    and ids_look: "ok s \<Longrightarrow> set (ids s) = dom (look s)"
begin

lemma ok_fold_add: "ok s \<Longrightarrow> ok (fold (\<lambda>(n, d). add n d) rows s)"
  by (induction rows arbitrary: s) (auto simp: ok_add)

lemma look_fold_add: "ok s \<Longrightarrow> look (fold (\<lambda>(n, d). add n d) rows s) = look s ++ map_of (rev rows)"
proof (induction rows arbitrary: s)
  case (Cons r rows)
  obtain n d where r: "r = (n, d)" by fastforce
  then have "look (fold (\<lambda>(n, d). add n d) (r # rows) s) = look (add n d s) ++ map_of (rev rows)"
    using Cons by (simp add: ok_add)
  also have "\<dots> = look s ++ map_of (rev (r # rows))"
    using Cons.prems by (simp add: r look_add map_add_upd_left [symmetric] fun_eq_iff map_add_def split: option.splits)
  finally show ?case .
qed simp

text \<open>Refilling a listing: every identifier once, in ascending order, with the row given last.\<close>

theorem refill:
  fixes rows s
  defines "t \<equiv> fold (\<lambda>(n, d). add n d) rows (clear s)"
  shows "ids t = sorted_list_of_set (fst ` set rows)" and "look t = map_of (rev rows)"
proof -
  have t: "ok t" unfolding t_def by (rule ok_fold_add) (rule ok_clear)
  show l: "look t = map_of (rev rows)" by (simp add: t_def look_fold_add ok_clear look_clear)
  have "set (ids t) = fst ` set rows" using ids_look [OF t] l by (simp add: dom_map_of_conv_image_fst)
  then show "ids t = sorted_list_of_set (fst ` set rows)"
    using ids_sorted [OF t] by (metis sorted_list_of_set.idem_if_sorted_distinct)
qed

end

text \<open>
  The listing of the account pages: a row is added with its numeric identifier, the rest of
  the record is what it shows.
\<close>

definition listing_add :: "int \<Rightarrow> jsobj \<Rightarrow> keyed_store \<Rightarrow> keyed_store" where
  "listing_add n d s = keyed_add (JNum n) ((''id'', JNum n) # d) s"

definition listing_ids :: "keyed_store \<Rightarrow> int list" where
  "listing_ids s = map row_id (ks_rows s)"

definition listing_look :: "keyed_store \<Rightarrow> int \<Rightarrow> jsobj option" where
  "listing_look s n = map_option tl (listing_map (ks_rows s) n)"

definition store_ok :: "keyed_store \<Rightarrow> bool" where
  "store_ok s = listing_ok (ks_rows s)"

lemma listing_add_rows:
  "ks_rows (listing_add n d s) =
     insert_at (find_insertion ((''id'', JNum n) # d) (ks_rows s) 0 (length (ks_rows s)))
       (string_of_int n, (''id'', JNum n) # d) (ks_rows s)"
  by (simp add: listing_add_def keyed_add_def keyed_insert_def keyed_row_def has_id_def)

lemma new_row: "numbered (string_of_int n, (''id'', JNum n) # d)" "row_id (string_of_int n, (''id'', JNum n) # d) = n"
  by (simp_all add: numbered_def row_id_def id_of_def)

interpretation listing: sorted_listing listing_add keyed_removeAll listing_ids listing_look store_ok
proof
  fix s n d
  show "store_ok (keyed_removeAll s)" by (simp add: store_ok_def keyed_removeAll_def listing_ok_def)
  show "listing_look (keyed_removeAll s) = Map.empty"
    by (rule ext) (simp add: listing_look_def keyed_removeAll_def listing_map_def)
  assume s: "store_ok s"
  then have l: "listing_ok (ks_rows s)" by (simp add: store_ok_def)
  note place = insert_sorted_place [OF l new_row(1) refl, of n d, unfolded new_row(2) snd_conv]
  show "store_ok (listing_add n d s)" using place(1) by (simp add: store_ok_def listing_add_rows)
  show "listing_look (listing_add n d s) = (listing_look s)(n \<mapsto> d)"
    using place(2) by (auto simp: fun_eq_iff listing_look_def listing_add_rows)
  have "sorted_wrt (<) (listing_ids s)" using l by (simp add: listing_ids_def sorted_wrt_map listing_ok_def)
  then show "sorted (listing_ids s) \<and> distinct (listing_ids s)" by (simp add: strict_sorted_iff)
  have "dom (listing_map xs) = row_id ` set xs" for xs
    by (simp add: listing_map_def dom_map_of_conv_image_fst image_image)
  then show "set (listing_ids s) = dom (listing_look s)"
    by (simp add: listing_ids_def listing_look_def dom_def)
qed

end
