(* ===== verification/Roles.thy ===== *)
theory Roles
  imports Session Keyed_Store
begin

text \<open>
  The role list (\<open>app/stat/public/functions/rolemanage.js\<close>): the store of roles sorted by
  identifier, loading it, adding a row, saving an edited row, removing a role after a
  confirmation, and going to the page of its rights. The state extends the browser by the
  store, the row in the editor, the row of the open confirmation and the callbacks of the
  requests that wait for an answer.
\<close>

section \<open>The page\<close>

datatype role_kont = GotRoles | SavedRole | RemovedRole

record role_page = world +
  g_list_store :: keyed_store
  editing :: "nat option"
  confirming :: "nat option"
  role_pending :: "role_kont list"

datatype list_column =
    DataColumn string string bool
  | ActionColumn string string string

definition rolemanage_columns :: "list_column list" where
  "rolemanage_columns =
     [DataColumn (loc ''str_id'') ''id'' False,
      DataColumn (loc ''str_name'') ''name'' True,
      DataColumn (loc ''str_description'') ''desc'' True,
      ActionColumn (loc ''delete'') ''/images/delete.gif'' ''onRemoveClick'',
      ActionColumn (loc ''modify'') ''/images/edit.png'' ''onModifyClick'']"

text \<open>The model \<open>Role\<close>: an integer identifier and two strings.\<close>

definition role_data :: "jsval \<Rightarrow> jsval \<Rightarrow> jsval \<Rightarrow> jsobj" where
  "role_data i name desc = [(''id'', int_field i), (''name'', string_field name), (''desc'', string_field desc)]"

definition rpcGetRoles :: "role_page \<Rightarrow> role_page" where
  "rpcGetRoles p =
     (ajaxCall \<lparr>o_url = ''/users/role_list'', o_method = Some ''POST'', o_params = None\<rparr> p)
       \<lparr>role_pending := role_pending p @ [GotRoles]\<rparr>"

definition add_role :: "jsval \<Rightarrow> role_page \<Rightarrow> role_page outcome" where
  "add_role rc p =
     (if nullish rc then Threw TypeError p
      else Done (p\<lparr>g_list_store := keyed_add (js_prop rc ''id'')
             (role_data (js_prop rc ''id'') (js_prop rc ''name'') (js_prop rc ''desc'')) (g_list_store p)\<rparr>))"

definition roles_loaded :: "role_page callback" where
  "roles_loaded res p = with_val (js_items (js_prop res ''res'')) (\<lambda>xs. js_for add_role (rev xs)) p"

definition rolemanage_onLaunch :: "world \<Rightarrow> role_page" where
  "rolemanage_onLaunch w =
     rpcGetRoles
       \<lparr>cookies = cookies w, doc_url = doc_url w, csrf = csrf w, effects = effects w,
        g_list_store = keyed_new, editing = None, confirming = None, role_pending = []\<rparr>"

definition role_onModifyClick :: "nat \<Rightarrow> role_page \<Rightarrow> role_page outcome" where
  "role_onModifyClick rowIndex p =
     (case keyed_getAt rowIndex (g_list_store p) of
        None \<Rightarrow> Threw TypeError p
      | Some rc \<Rightarrow>
          (let i = obj_get rc ''id''
           in if js_eq i (JNum 0) then Done p
              else Done (emit (Goto (BASE_URL @ ''/users/right_manage?id='' @ js_to_string i)) p)))"

definition onUpdateClick :: "jsobj \<Rightarrow> role_page \<Rightarrow> role_page" where
  "onUpdateClick rc p =
     (ajaxCall \<lparr>o_url = ''/users/save_role'', o_method = None,
        o_params = Some [(''id'', Raw (obj_get rc ''id'')), (''name'', Raw (obj_get rc ''name'')),
                         (''desc'', Raw (obj_get rc ''desc''))]\<rparr> p)
       \<lparr>role_pending := role_pending p @ [SavedRole]\<rparr>"

text \<open>The callback names \<open>_list_store\<close>, which no script declares.\<close>

definition role_saved :: "role_page callback" where
  "role_saved res p = Threw (ReferenceError ''_list_store'') p"

definition onRemoveClick :: "nat \<Rightarrow> role_page \<Rightarrow> role_page" where
  "onRemoveClick rowIndex p = p\<lparr>confirming := Some rowIndex\<rparr>"

definition remove_confirmed :: "nat \<Rightarrow> string \<Rightarrow> role_page \<Rightarrow> role_page outcome" where
  "remove_confirmed rowIndex btn p =
     (if btn = ''ok'' then
        (case keyed_getAt rowIndex (g_list_store p) of
           None \<Rightarrow> Threw TypeError p
         | Some rc \<Rightarrow>
             Done ((ajaxCall \<lparr>o_url = ''/users/remove_role'', o_method = None,
                      o_params = Some [(''id'', Raw (obj_get rc ''id''))]\<rparr> p)
                     \<lparr>role_pending := role_pending p @ [RemovedRole]\<rparr>))
      else Done p)"

definition role_removed :: "role_page callback" where
  "role_removed res p = Done (rpcGetRoles (p\<lparr>g_list_store := keyed_removeAll (g_list_store p)\<rparr>))"

definition onBtnAddRow :: "role_page \<Rightarrow> role_page" where
  "onBtnAddRow p =
     (let p1 = p\<lparr>editing := None\<rparr>;
          r = role_data (JNum 0) (JStr ''name'') (JStr ''desc'');
          p2 = p1\<lparr>g_list_store := keyed_insert 0 (JNum 0) r (g_list_store p1)\<rparr>
      in p2\<lparr>editing := Some 0\<rparr>)"

section \<open>Events\<close>

text \<open>
  A finished edit stores the two texts, which the editor does not let be blank, in the record
  and fires \<open>edit\<close>. A pressed button of the confirmation closes it and runs its callback.
\<close>

datatype role_event =
    Modify nat
  | FinishEdit nat string string
  | Remove nat
  | DialogButton string
  | AddRow
  | RoleAnswer nat response

definition role_on_answer :: "role_kont \<Rightarrow> role_page callback" where
  "role_on_answer k = (case k of GotRoles \<Rightarrow> roles_loaded | SavedRole \<Rightarrow> role_saved | RemovedRole \<Rightarrow> role_removed)"

definition set_row :: "nat \<Rightarrow> jsobj \<Rightarrow> keyed_store \<Rightarrow> keyed_store" where
  "set_row i d s = s\<lparr>ks_rows := (ks_rows s)[i := (fst (ks_rows s ! i), d)]\<rparr>"

fun role_step :: "role_page \<Rightarrow> role_event \<Rightarrow> role_page" where
  "role_step p (Modify i) = final_state (role_onModifyClick i p)"
| "role_step p (FinishEdit i name desc) =
     (case keyed_getAt i (g_list_store p) of
        Some rc \<Rightarrow>
          (if name = [] \<or> desc = [] then p
           else (let d = obj_set ''desc'' (JStr desc) (obj_set ''name'' (JStr name) rc)
                 in onUpdateClick d (p\<lparr>g_list_store := set_row i d (g_list_store p), editing := None\<rparr>)))
      | None \<Rightarrow> p)"
| "role_step p (Remove i) = onRemoveClick i p"
| "role_step p (DialogButton btn) =
     (case confirming p of
        Some i \<Rightarrow> final_state (remove_confirmed i btn (p\<lparr>confirming := None\<rparr>))
      | None \<Rightarrow> p)"
| "role_step p AddRow = onBtnAddRow p"
| "role_step p (RoleAnswer i a) =
     (if i < length (role_pending p)
      then final_state (ajax_response (Some (role_on_answer (role_pending p ! i))) None a
             (p\<lparr>role_pending := take i (role_pending p) @ drop (Suc i) (role_pending p)\<rparr>))
      else p)"

definition run_roles :: "role_page \<Rightarrow> role_event list \<Rightarrow> role_page" where
  "run_roles p es = foldl role_step p es"

section \<open>The list shows the roles in the order of their identifiers\<close>

text \<open>A row as the server sends it.\<close>

definition role_row :: "int \<times> string \<times> string \<Rightarrow> jsval" where
  "role_row r = (case r of (n, name, desc) \<Rightarrow> JObj [(''id'', JNum n), (''name'', JStr name), (''desc'', JStr desc)])"

definition shown_role :: "int \<times> string \<times> string \<Rightarrow> int \<times> jsobj" where
  "shown_role r = (case r of (n, name, desc) \<Rightarrow> (n, [(''name'', JStr name), (''desc'', JStr desc)]))"

lemma role_pending_frame [simp]:
  "g_list_store (ajaxCall opts p) = g_list_store p"
  "g_list_store (emit e p) = g_list_store p"
  "role_pending (ajaxCall opts p) = role_pending p"
  "role_pending (emit e p) = role_pending p"
  by (simp_all add: ajaxCall_eq emit_def)

lemma add_role_row:
  "add_role (role_row r) p =
     Done (p\<lparr>g_list_store := (case shown_role r of (n, d) \<Rightarrow> listing_add n d (g_list_store p))\<rparr>)"
  by (cases r) (simp add: add_role_def role_row_def shown_role_def listing_add_def role_data_def int_field_def
      string_field_def)

lemma add_roles:
  "js_for add_role (map role_row rs) p =
     Done (p\<lparr>g_list_store := fold (\<lambda>(n, d). listing_add n d) (map shown_role rs) (g_list_store p)\<rparr>)"
proof (induction rs arbitrary: p)
  case (Cons r rs)
  then show ?case by (cases "shown_role r") (simp add: add_role_row)
qed simp

lemma roles_loaded_rows:
  assumes "obj_get kvs ''res'' = JArr (map role_row rs)"
  shows "roles_loaded (JObj kvs) p =
    Done (p\<lparr>g_list_store := fold (\<lambda>(n, d). listing_add n d) (map shown_role (rev rs)) (g_list_store p)\<rparr>)"
  using assms by (simp add: roles_loaded_def rev_map add_roles)

text \<open>
  C8. After a role has been removed and the list reloaded, the page shows exactly the roles
  the server sent, each identifier once and in ascending order, whatever order they came in
  and whatever the list showed before.
\<close>

theorem roles_reloaded:
  assumes "obj_get kvs ''success'' = JStr ''ok''" and "obj_get answer ''res'' = JArr (map role_row rs)"
    and "role_removed (JObj kvs) p = Done q"
  shows "\<exists>q'. roles_loaded (JObj answer) q = Done q' \<and>
    listing_ids (g_list_store q') = sorted_list_of_set (fst ` set rs) \<and>
    listing_look (g_list_store q') = map_of (map shown_role rs)"
proof -
  let ?rows = "map shown_role (rev rs)"
  have store: "g_list_store q = keyed_removeAll (g_list_store p)"
    using assms(3) by (auto simp: role_removed_def rpcGetRoles_def)
  have "fst ` set ?rows = fst ` set rs"
    by (force simp: shown_role_def image_image split: prod.splits)
  then show ?thesis
    using listing.refill [of ?rows "g_list_store p"] roles_loaded_rows [OF assms(2), of q]
    by (simp add: store rev_map)
qed

theorem roles_reloaded_witness:
  "\<exists>q'. roles_loaded (JObj [(''res'', JArr [role_row (2, ''b'', ''B''), role_row (1, ''a'', ''A'')])])
      (final_state (role_removed (JObj [(''success'', JStr ''ok'')])
         (rolemanage_onLaunch \<lparr>cookies = [], doc_url = [], csrf = JUndef, effects = []\<rparr>))) = Done q' \<and>
    listing_ids (g_list_store q') = [1, 2]"
  using roles_reloaded [of "[(''success'', JStr ''ok'')]"
      "[(''res'', JArr [role_row (2, ''b'', ''B''), role_row (1, ''a'', ''A'')])]" "[(2, ''b'', ''B''), (1, ''a'', ''A'')]"]
  by (auto simp: role_removed_def)

text \<open>
  Saving an edited role always fails after the server has stored it: the callback stops at
  an undeclared name, so the list keeps the rows it had and no reload is requested.
\<close>

lemma role_save_never_reloads:
  assumes "obj_get kvs ''success'' = JStr ''ok''"
  shows "ajax_response (Some (role_on_answer SavedRole)) None (Responded txt (Some (JObj kvs))) p =
    Threw (ReferenceError ''_list_store'') p"
  using assms by (simp add: ajax_response_ok role_on_answer_def role_saved_def)

theorem role_save_never_reloads_witness:
  "ajax_response (Some (role_on_answer SavedRole)) None (Responded [] (Some (JObj [(''success'', JStr ''ok'')])))
     (rolemanage_onLaunch \<lparr>cookies = [], doc_url = [], csrf = JUndef, effects = []\<rparr>) =
   Threw (ReferenceError ''_list_store'') (rolemanage_onLaunch \<lparr>cookies = [], doc_url = [], csrf = JUndef, effects = []\<rparr>)"
  by (rule role_save_never_reloads) simp

section \<open>The list stays sorted in every run\<close>

text \<open>Identifiers are natural numbers on the server; a row without one is not sent.\<close>

definition natural_row :: "jsval \<Rightarrow> bool" where
  "natural_row rc = (\<not> nullish rc \<and> (case js_prop rc ''id'' of JNum n \<Rightarrow> 0 \<le> n | _ \<Rightarrow> False))"

fun natural_answer :: "role_event \<Rightarrow> bool" where
  "natural_answer (RoleAnswer i (Responded t (Some (JObj kvs)))) =
     (case obj_get kvs ''res'' of JArr xs \<Rightarrow> list_all natural_row xs | JUndef \<Rightarrow> True | _ \<Rightarrow> False)"
| "natural_answer (RoleAnswer i (Responded t (Some v))) = False"
| "natural_answer e = True"

definition roles_ok :: "keyed_store \<Rightarrow> bool" where
  "roles_ok s = (store_ok s \<and> list_all (\<lambda>n. 0 \<le> n) (listing_ids s))"

lemma roles_ok_listing_add: "roles_ok s \<Longrightarrow> 0 \<le> n \<Longrightarrow> roles_ok (listing_add n d s)"
proof -
  assume s: "roles_ok s" and n: "0 \<le> n"
  then have ok: "store_ok s" "store_ok (listing_add n d s)" by (simp_all add: roles_ok_def listing.ok_add)
  have "set (listing_ids (listing_add n d s)) = insert n (set (listing_ids s))"
    using listing.ids_look [OF ok(1)] listing.ids_look [OF ok(2)] listing.look_add [OF ok(1), of n d] by auto
  then show ?thesis using s n ok(2) by (simp add: roles_ok_def list_all_iff)
qed

lemma roles_ok_add_role:
  assumes "natural_row rc" and "roles_ok (g_list_store p)"
  shows "roles_ok (g_list_store (final_state (add_role rc p)))"
proof -
  from assms(1) obtain n where n: "js_prop rc ''id'' = JNum n" "0 \<le> n" "\<not> nullish rc"
    by (auto simp: natural_row_def split: jsval.splits)
  then show ?thesis
    using roles_ok_listing_add [OF assms(2) n(2), unfolded listing_add_def]
    by (simp add: add_role_def role_data_def int_field_def)
qed

lemma roles_ok_insert_zero:
  assumes "roles_ok s"
  shows "roles_ok (keyed_insert 0 (JNum 0) (role_data (JNum 0) name desc) s)"
proof -
  let ?x = "(string_of_int 0, role_data (JNum 0) name desc)"
  have x: "numbered ?x" "row_id ?x = 0"
    by (simp_all add: role_data_def int_field_def numbered_def row_id_def id_of_def)
  obtain xs where xs: "ks_rows s = xs" by simp
  have ok: "listing_ok xs" and pos: "\<forall>y \<in> set xs. 0 \<le> row_id y"
    using assms by (auto simp: roles_ok_def store_ok_def listing_ids_def list_all_iff xs)
  have "\<exists>ys. insert_at 0 ?x xs = ?x # ys \<and> listing_ok ys \<and> (\<forall>y \<in> set ys. 0 < row_id y)"
  proof (cases "index_of_key (fst ?x) xs")
    case None
    have "row_id y \<noteq> 0" if "y \<in> set xs" for y
      using that index_of_key_None [OF None that] numbered_row_id [of y] ok
      by (auto simp: listing_ok_def list_all_iff)
    with pos have "\<forall>y \<in> set xs. 0 < row_id y" by (metis order_le_less)
    with ok None show ?thesis by (simp add: insert_at_def)
  next
    case (Some c)
    then have c: "c < length xs" "fst (xs ! c) = string_of_int 0" using index_of_key_Some by auto
    then have "numbered (xs ! c)" using ok by (simp add: listing_ok_def list_all_length)
    then have rc: "row_id (xs ! c) = 0" using c(2) numbered_row_id [of "xs ! c"] string_of_int_inj by metis
    have less: "row_id (xs ! i) < row_id (xs ! k)" if "i < k" "k < length xs" for i k
      using that ok by (simp add: listing_ok_def sorted_wrt_iff_nth_less)
    have "c = 0"
    proof (rule ccontr)
      assume "c \<noteq> 0"
      then have "row_id (xs ! 0) < 0" using less [of 0 c] c(1) rc by simp
      moreover have "0 \<le> row_id (xs ! 0)" using pos c(1) nth_mem [of 0 xs] by fastforce
      ultimately show False by simp
    qed
    then obtain y ys where y: "xs = y # ys" "row_id y = 0" using c(1) rc by (cases xs) auto
    then show ?thesis using ok Some \<open>c = 0\<close> by (auto simp: insert_at_def listing_ok_def)
  qed
  then obtain ys where "insert_at 0 ?x xs = ?x # ys" "listing_ok ys" "\<forall>y \<in> set ys. 0 < row_id y" by blast
  then show ?thesis
    using x by (auto simp: roles_ok_def store_ok_def listing_ok_def listing_ids_def keyed_insert_def keyed_row_def
        has_id_def xs list_all_iff less_imp_le)
qed

lemma roles_ok_set_row:
  assumes "roles_ok s" and "keyed_getAt i s = Some rc" and "id_of d = id_of rc"
  shows "roles_ok (set_row i d s)"
proof -
  let ?xs = "ks_rows s" and ?x = "(fst (ks_rows s ! i), d)"
  have i: "i < length ?xs" "rc = snd (?xs ! i)" using assms(2) by (auto simp: keyed_getAt_def split: if_splits)
  then have same: "row_id ?x = row_id (?xs ! i)" "numbered ?x = numbered (?xs ! i)"
    using assms(3) by (simp_all add: row_id_def numbered_def)
  have ids: "map row_id (?xs[i := ?x]) = map row_id ?xs"
    using same(1) by (rule map_update_same)
  have "list_all numbered (?xs[i := ?x])"
    using assms(1) i(1) same(2)
    by (auto simp: roles_ok_def store_ok_def listing_ok_def list_all_length nth_list_update)
  moreover have "sorted_wrt (<) (map row_id (?xs[i := ?x]))"
    unfolding ids using assms(1) by (simp add: roles_ok_def store_ok_def listing_ok_def sorted_wrt_map)
  then have "sorted_wrt (\<lambda>a b. row_id a < row_id b) (?xs[i := ?x])" by (simp only: sorted_wrt_map)
  ultimately show ?thesis
    using assms(1) ids by (simp add: roles_ok_def store_ok_def listing_ok_def listing_ids_def set_row_def)
qed

lemma roles_ok_answer:
  assumes "natural_answer (RoleAnswer i a)" and "roles_ok (g_list_store p)"
  shows "roles_ok (g_list_store (final_state (ajax_response (Some (role_on_answer k)) None a p)))"
proof -
  have removed: "roles_ok (g_list_store (final_state (role_removed res p)))" for res
    by (simp add: role_removed_def rpcGetRoles_def roles_ok_def store_ok_def keyed_removeAll_def listing_ok_def
        listing_ids_def)
  have loaded: "roles_ok (g_list_store (final_state (roles_loaded (JObj kvs) p)))"
    if "case obj_get kvs ''res'' of JArr xs \<Rightarrow> list_all natural_row xs | JUndef \<Rightarrow> True | _ \<Rightarrow> False" for kvs
  proof (cases "obj_get kvs ''res''")
    case (JArr xs)
    with that have "\<forall>x \<in> set (rev xs). natural_row x" by (simp add: list_all_iff)
    then have "roles_ok (g_list_store (final_state (js_for add_role (rev xs) p)))"
      using assms(2) roles_ok_add_role
      by (intro js_for_invariant [where P = "\<lambda>q. roles_ok (g_list_store q)"]) auto
    with JArr show ?thesis by (simp add: roles_loaded_def)
  qed (use that assms(2) in \<open>simp_all add: roles_loaded_def\<close>)
  show ?thesis
    using assms removed loaded
    by (cases "RoleAnswer i a" rule: natural_answer.cases; cases k)
      (auto simp: ajax_response_def with_val_def role_on_answer_def role_saved_def split: sum.splits)
qed

lemma role_step_ok:
  assumes "natural_answer e" and "roles_ok (g_list_store p)"
  shows "roles_ok (g_list_store (role_step p e))"
proof (cases e)
  case (RoleAnswer i a)
  then show ?thesis
    using assms roles_ok_answer [of i a "p\<lparr>role_pending := r\<rparr>" for r] by simp
next
  case (FinishEdit i name desc)
  show ?thesis
  proof (cases "keyed_getAt i (g_list_store p)")
    case (Some rc)
    then have "roles_ok (set_row i (obj_set ''desc'' (JStr desc) (obj_set ''name'' (JStr name) rc)) (g_list_store p))"
      using assms(2) by (intro roles_ok_set_row [of _ i rc]) (simp_all add: id_of_def)
    then show ?thesis using assms(2) FinishEdit Some by (simp add: onUpdateClick_def Let_def)
  qed (use FinishEdit assms(2) in simp)
next
  case AddRow
  then show ?thesis using roles_ok_insert_zero [OF assms(2)] by (simp add: onBtnAddRow_def Let_def)
qed (use assms(2) in \<open>auto simp: role_onModifyClick_def onRemoveClick_def remove_confirmed_def Let_def split: option.splits\<close>)

text \<open>
  In every run of the role page the list is sorted by strictly ascending identifiers, so
  no role is listed twice, whatever rows are added, edited or reloaded and in whatever order
  the answers come.
\<close>

lemma roles_always_sorted:
  assumes "list_all natural_answer es"
  shows "sorted_wrt (<) (listing_ids (g_list_store (run_roles (rolemanage_onLaunch w) es)))"
proof -
  have "roles_ok (g_list_store (run_roles (rolemanage_onLaunch w) es))"
    using assms
  proof (induction es rule: rev_induct)
    case Nil
    show ?case
      by (simp add: run_roles_def rolemanage_onLaunch_def rpcGetRoles_def roles_ok_def store_ok_def keyed_new_def
          listing_ok_def listing_ids_def)
  next
    case (snoc e es)
    then show ?case by (simp add: run_roles_def role_step_ok)
  qed
  then show ?thesis
    using listing.ids_sorted by (auto simp: roles_ok_def strict_sorted_iff)
qed

theorem roles_always_sorted_witness:
  "sorted_wrt (<) (listing_ids (g_list_store (run_roles
      (rolemanage_onLaunch \<lparr>cookies = [], doc_url = [], csrf = JUndef, effects = []\<rparr>)
      [RoleAnswer 0 (Responded [] (Some (JObj [(''success'', JStr ''ok''),
         (''res'', JArr [role_row (3, ''c'', ''C''), role_row (1, ''a'', ''A'')])]))), AddRow, FinishEdit 0 ''n'' ''d''])))"
  by (rule roles_always_sorted) (simp add: role_row_def natural_row_def)

end
