(* ===== verification/Users.thy ===== *)
theory Users
  imports Roles
begin

text \<open>
  The user list (\<open>app/stat/public/functions/usermanage.js\<close>) and the page that changes a
  user's role (\<open>changerole.js\<close>), which receives the user and the current role in its
  address. The last part shows that the two pages fit together.
\<close>

section \<open>usermanage.js\<close>

datatype user_kont = GotUsers | SwitchedUser

record user_page = world +
  g_store :: keyed_store
  user_pending :: "user_kont list"

definition usermanage_columns :: "list_column list" where
  "usermanage_columns =
     [DataColumn (loc ''str_id'') ''id'' False,
      DataColumn (loc ''str_email'') ''email'' False,
      DataColumn (loc ''str_role'') ''role'' False,
      DataColumn (loc ''str_inuse'') ''inuse'' False,
      ActionColumn (loc ''str_switch_inuse'') ''/images/accept.png'' ''onActiveClick'',
      ActionColumn (loc ''str_modify_user_role'') ''/images/add.gif'' ''onModifyClick'']"

definition user_data :: "jsval \<Rightarrow> jsval \<Rightarrow> jsval \<Rightarrow> jsval \<Rightarrow> jsobj" where
  "user_data i email role inuse =
     [(''id'', int_field i), (''email'', string_field email), (''role'', string_field role),
      (''inuse'', string_field inuse)]"

definition rpcGetUserList :: "user_page \<Rightarrow> user_page" where
  "rpcGetUserList p =
     (ajaxCall \<lparr>o_url = ''/users/user_list'', o_method = Some ''POST'', o_params = None\<rparr> p)
       \<lparr>user_pending := user_pending p @ [GotUsers]\<rparr>"

definition add_user :: "jsval \<Rightarrow> user_page \<Rightarrow> user_page outcome" where
  "add_user rc p =
     (if nullish rc then Threw TypeError p
      else
        (let inuse = (if truthy (js_prop rc ''inuse'') then loc ''yes'' else loc ''no'')
         in Done (p\<lparr>g_store := keyed_add (js_prop rc ''id'')
              (user_data (js_prop rc ''id'') (js_prop rc ''email'') (js_prop rc ''role'') (JStr inuse)) (g_store p)\<rparr>)))"

definition users_loaded :: "user_page callback" where
  "users_loaded res p = with_val (js_items (js_prop res ''res'')) (\<lambda>xs. js_for add_user (rev xs)) p"

definition usermanage_onLaunch :: "world \<Rightarrow> user_page" where
  "usermanage_onLaunch w =
     rpcGetUserList
       \<lparr>cookies = cookies w, doc_url = doc_url w, csrf = csrf w, effects = effects w,
        g_store = keyed_new, user_pending = []\<rparr>"

definition onActiveClick :: "nat \<Rightarrow> user_page \<Rightarrow> user_page outcome" where
  "onActiveClick rowIndex p =
     (case keyed_getAt rowIndex (g_store p) of
        None \<Rightarrow> Threw TypeError p
      | Some rc \<Rightarrow>
          (let inuse = obj_get rc ''inuse''; i = obj_get rc ''id''
           in if js_eq i (JNum 0) then Done p
              else
                Done ((ajaxCall \<lparr>o_url = ''/users/enable_account'', o_method = Some ''POST'',
                   o_params = Some [(''id'', Raw i),
                     (''inuse'', Raw (JNum (if js_eq inuse (JStr (loc ''yes'')) then 1 else 0)))]\<rparr> p)
                   \<lparr>user_pending := user_pending p @ [SwitchedUser]\<rparr>)))"

definition user_switched :: "user_page callback" where
  "user_switched res p = Done (rpcGetUserList (p\<lparr>g_store := keyed_removeAll (g_store p)\<rparr>))"

definition user_onModifyClick :: "nat \<Rightarrow> user_page \<Rightarrow> user_page outcome" where
  "user_onModifyClick rowIndex p =
     (case keyed_getAt rowIndex (g_store p) of
        None \<Rightarrow> Threw TypeError p
      | Some rc \<Rightarrow>
          Done (emit (Goto (BASE_URL @ ''/users/change_role?uid='' @ js_to_string (obj_get rc ''id'') @
            ''&role='' @ js_to_string (obj_get rc ''role''))) p))"

section \<open>changerole.js\<close>

datatype change_kont = GotAllRoles | ChangedRole

record change_page = world +
  cur_uid :: jsval
  cur_role :: jsval
  role_choices :: "jsobj list"
  g_comb :: "jsval option"
  change_pending :: "change_kont list"

text \<open>The script reads its address first; a broken escape stops it.\<close>

definition change_init :: "world \<Rightarrow> js_exn + change_page" where
  "change_init w =
     (case getUrlParam w of
        Inl e \<Rightarrow> Inl e
      | Inr urlparam \<Rightarrow>
          Inr \<lparr>cookies = cookies w, doc_url = doc_url w, csrf = csrf w, effects = effects w,
               cur_uid = obj_get urlparam ''uid'', cur_role = obj_get urlparam ''role'',
               role_choices = [], g_comb = None, change_pending = []\<rparr>)"

definition getAllRoles :: "change_page \<Rightarrow> change_page" where
  "getAllRoles p =
     (ajaxCall \<lparr>o_url = ''/users/role_list'', o_method = None, o_params = None\<rparr> p)
       \<lparr>change_pending := change_pending p @ [GotAllRoles]\<rparr>"

definition createViews :: "jsobj list \<Rightarrow> jsval \<Rightarrow> change_page \<Rightarrow> change_page" where
  "createViews data curid p = p\<lparr>role_choices := data, g_comb := Some curid\<rparr>"

definition collect_role :: "jsval \<Rightarrow> jsval \<Rightarrow> jsobj list \<times> jsval \<Rightarrow> (jsobj list \<times> jsval) outcome" where
  "collect_role role rc acc =
     (case acc of (data, curid) \<Rightarrow>
        if nullish rc then Threw TypeError (data, curid)
        else Done (data @ [[(''id'', js_prop rc ''id''), (''name'', js_prop rc ''name'')]],
                   if js_eq (js_prop rc ''name'') role then js_prop rc ''id'' else curid))"

definition all_roles_loaded :: "change_page callback" where
  "all_roles_loaded res p =
     with_val (js_items (js_prop res ''res''))
       (\<lambda>xs p. case js_for (collect_role (cur_role p)) (rev xs) ([], JNum 0) of
                 Done (data, curid) \<Rightarrow> Done (createViews data curid p)
               | Threw e acc \<Rightarrow> Threw e p) p"

definition changerole_onLaunch :: "world \<Rightarrow> js_exn + change_page" where
  "changerole_onLaunch w = map_sum id getAllRoles (change_init w)"

definition change_onBtnSave :: "change_page \<Rightarrow> change_page outcome" where
  "change_onBtnSave p =
     (case g_comb p of
        None \<Rightarrow> Threw TypeError p
      | Some roleid \<Rightarrow>
          Done ((ajaxCall \<lparr>o_url = ''/users/do_change_role'', o_method = None,
             o_params = Some [(''uid'', Raw (cur_uid p)), (''roleid'', Raw roleid)]\<rparr> p)
             \<lparr>change_pending := change_pending p @ [ChangedRole]\<rparr>))"

definition role_changed :: "change_page callback" where
  "role_changed res p =
     Done (emit (Goto (BASE_URL @ ''/users/user_manage'')) (emit (MsgAlert (loc ''alert'') (loc ''str_save_success'')) p))"

definition change_onBtnCancel :: "change_page \<Rightarrow> change_page" where
  "change_onBtnCancel p = emit (Goto (BASE_URL @ ''/views/user_manage.html'')) p"

section \<open>The address carries the user and the role\<close>

definition url_plain :: "string \<Rightarrow> bool" where
  "url_plain s = list_all (\<lambda>c. c \<notin> set ''%&=?'') s"

lemma url_plain_notin: "url_plain s \<Longrightarrow> c \<in> set ''%&=?'' \<Longrightarrow> c \<notin> set s"
  by (auto simp: url_plain_def list_all_iff)

lemma decode_pair:
  assumes "url_plain k" and "url_plain v" and "k \<noteq> []"
  shows "decode_parts ((k @ CHR ''='' # v) # ps) u = decode_parts ps (add_param k (JStr v) u)"
proof -
  have "js_split (CHR ''='') (k @ CHR ''='' # v) = [k, v]"
    using assms by (simp add: js_split_append js_split_no_sep url_plain_notin)
  then show ?thesis using assms by (simp add: decode_uri_plain url_plain_notin)
qed

lemma split_tail: "c \<notin> set t \<Longrightarrow> \<exists>y ys. js_split c (s @ c # t) = y # ys \<and> ys \<noteq> [] \<and> last ys = t"
proof (induction s)
  case Nil
  then show ?case by (simp add: js_split_no_sep)
next
  case (Cons x s)
  then obtain y ys where "js_split c (s @ c # t) = y # ys" "ys \<noteq> []" "last ys = t" by blast
  then show ?case by simp
qed

lemma last_split: "c \<notin> set t \<Longrightarrow> last (js_split c (s @ c # t)) = t"
  using split_tail [of c t s] by auto

lemma address_parameters:
  assumes "url_plain u" and "url_plain r"
    and "doc_url w = base @ CHR ''?'' # ''uid='' @ u @ ''&role='' @ r"
  shows "getUrlParam w = Inr [(''uid'', JStr u), (''role'', JStr r)]"
proof -
  let ?q = "''uid='' @ u @ ''&role='' @ r"
  have "CHR ''?'' \<notin> set ?q" using assms(1,2) by (auto dest: url_plain_notin)
  then have "last (js_split (CHR ''?'') (doc_url w)) = ?q" unfolding assms(3) by (rule last_split)
  moreover have "js_split (CHR ''&'') ?q = [''uid='' @ u, ''role='' @ r]"
  proof -
    have "js_split (CHR ''&'') ((''uid='' @ u) @ CHR ''&'' # ''role='' @ r) = [''uid='' @ u, ''role='' @ r]"
      using assms(1,2) by (subst js_split_append) (auto simp: js_split_no_sep dest: url_plain_notin)
    then show ?thesis by simp
  qed
  moreover have "url_plain ''uid''" "url_plain ''role''" by (simp_all add: url_plain_def)
  ultimately show ?thesis
    using assms(1,2) decode_pair [of "''uid''" u] decode_pair [of "''role''" r]
    by (simp add: getUrlParam_def urlDecode_def add_param_def)
qed

text \<open>The loop keeps the identifier of the first role of the list that has the current name.\<close>

definition role_pair :: "jsval \<times> string \<Rightarrow> jsval" where
  "role_pair r = JObj [(''id'', fst r), (''name'', JStr (snd r))]"

definition named_role :: "string \<Rightarrow> (jsval \<times> string) list \<Rightarrow> jsval" where
  "named_role name rs = (case find (\<lambda>r. snd r = name) rs of Some r \<Rightarrow> fst r | None \<Rightarrow> JNum 0)"

lemma collect_roles:
  "js_for (collect_role (JStr name)) (map role_pair (rev rs)) (data, JNum 0) =
     Done (data @ map (\<lambda>r. [(''id'', fst r), (''name'', JStr (snd r))]) (rev rs), named_role name rs)"
proof (induction rs)
  case Nil
  show ?case by (simp add: named_role_def)
next
  case (Cons r rs)
  then show ?case
    by (cases r) (simp add: js_for_append collect_role_def role_pair_def named_role_def)
qed

text \<open>
  C12. From the list of users to the changed role: the address the user list opens carries the
  user's identifier and role, the page it opens preselects the first role of that name, and
  saving sends that user and that role. (Identifier and role must not hold the four
  characters that separate the parts of an address; the list does not encode them.)
\<close>

theorem change_role_chain:
  assumes "keyed_getAt i (g_store p) = Some rc"
    and "url_plain (js_to_string (obj_get rc ''id''))" and "url_plain (js_to_string (obj_get rc ''role''))"
    and "user_onModifyClick i p = Done p'" and "effects p' = effects p @ [Goto url]" and "doc_url w = host @ url"
    and "obj_get answer ''res'' = JArr (map role_pair rs)"
  shows "\<exists>q q'. changerole_onLaunch w = Inr q \<and> all_roles_loaded (JObj answer) q = Done q' \<and>
    cur_uid q' = JStr (js_to_string (obj_get rc ''id'')) \<and>
    g_comb q' = Some (named_role (js_to_string (obj_get rc ''role'')) rs) \<and>
    (\<exists>q''. change_onBtnSave q' = Done q'' \<and>
       effects q'' = effects q' @ [Send \<lparr>r_url = ''/users/do_change_role'', r_method = ''POST'',
         r_params = [(''uid'', Raw (JStr (js_to_string (obj_get rc ''id'')))),
                     (''roleid'', Raw (named_role (js_to_string (obj_get rc ''role'')) rs)),
                     (''sid'', Raw (cookie_get ''sessionid'' q'))],
         r_token = csrf q'\<rparr>])"
proof -
  let ?u = "js_to_string (obj_get rc ''id'')" and ?r = "js_to_string (obj_get rc ''role'')"
  have "url = ''/users/change_role?uid='' @ ?u @ ''&role='' @ ?r"
    using assms(1,4,5) by (auto simp: user_onModifyClick_def BASE_URL_def)
  then have "doc_url w = (host @ ''/users/change_role'') @ CHR ''?'' # ''uid='' @ ?u @ ''&role='' @ ?r"
    using assms(6) by simp
  from address_parameters [OF assms(2,3) this]
  show ?thesis
    using collect_roles [of ?r rs "[]"] assms(7)
    by (auto simp: changerole_onLaunch_def change_init_def getAllRoles_def ajaxCall_eq emit_def all_roles_loaded_def
        rev_map createViews_def change_onBtnSave_def sent_params_def)
qed

definition example_users :: user_page where
  "example_users =
     \<lparr>cookies = [], doc_url = ''/users/user_manage'', csrf = JUndef, effects = [],
      g_store = \<lparr>ks_auto = 1, ks_rows = [(''7'', user_data (JStr ''7'') (JStr ''a@b.cn'') (JStr ''admin'') (JStr ''yes''))]\<rparr>,
      user_pending = []\<rparr>"

lemma example_user_row:
  "keyed_getAt 0 (g_store example_users) =
     Some [(''id'', JNum 7), (''email'', JStr ''a@b.cn''), (''role'', JStr ''admin''), (''inuse'', JStr ''yes'')]"
  by (simp add: example_users_def keyed_getAt_def user_data_def int_field_def string_field_def parseInt10_def skip_visible
      parse_int_string_def digit_val_def)

theorem change_role_chain_witness:
  "\<exists>q q'. changerole_onLaunch
      \<lparr>cookies = [], doc_url = ''http://h/users/change_role?uid=7&role=admin'', csrf = JUndef, effects = []\<rparr> = Inr q \<and>
    all_roles_loaded (JObj [(''res'', JArr (map role_pair [(JNum 1, ''guest''), (JNum 2, ''admin'')]))]) q = Done q' \<and>
    cur_uid q' = JStr ''7'' \<and> g_comb q' = Some (JNum 2)"
proof -
  have t: "string_of_int 7 = ''7''" by code_simp
  let ?rc = "[(''id'', JNum 7), (''email'', JStr ''a@b.cn''), (''role'', JStr ''admin''), (''inuse'', JStr ''yes'')]"
  have m: "user_onModifyClick 0 example_users =
      Done (emit (Goto ''/users/change_role?uid=7&role=admin'') example_users)"
    by (simp add: user_onModifyClick_def example_user_row BASE_URL_def t)
  show ?thesis
    using change_role_chain [of 0 example_users ?rc _ "''/users/change_role?uid=7&role=admin''"
        "\<lparr>cookies = [], doc_url = ''http://h/users/change_role?uid=7&role=admin'', csrf = JUndef, effects = []\<rparr>"
        "''http://h''" "[(''res'', JArr (map role_pair [(JNum 1, ''guest''), (JNum 2, ''admin'')]))]"
        "[(JNum 1, ''guest''), (JNum 2, ''admin'')]", OF example_user_row _ _ m]
    by (auto simp: t url_plain_def named_role_def)
qed

end
