(* ===== verification/Rights.thy ===== *)
theory Rights
  imports Session
begin

text \<open>
  The rights of a role (\<open>app/stat/public/functions/rightmanage.js\<close>): one checkbox for every
  function of the console, checked when the role has the function, and a button that saves
  the checked ones. The functions are loaded first, then the rights of the role named in the
  address, then the form is built.
\<close>

section \<open>The page\<close>

record check_item =
  boxLabel :: string
  name :: jsval
  inputValue :: jsval
  checked :: bool

datatype right_kont = GotFunctions | GotRoleFunctions | SavedRights

record right_page = world +
  items :: "check_item list"
  roleid :: jsval
  form_built :: bool
  right_pending :: "right_kont list"

definition rightmanage_onLaunch :: "world \<Rightarrow> right_page" where
  "rightmanage_onLaunch w =
     (ajaxCall \<lparr>o_url = ''/users/func_list'', o_method = Some ''POST'', o_params = None\<rparr>
        \<lparr>cookies = cookies w, doc_url = doc_url w, csrf = csrf w, effects = effects w,
         items = [], roleid = JUndef, form_built = False, right_pending = []\<rparr>)
      \<lparr>right_pending := [GotFunctions]\<rparr>"

definition function_item :: "jsval \<Rightarrow> js_exn + check_item" where
  "function_item rc =
     (if nullish rc then Inl TypeError
      else Inr \<lparr>boxLabel = js_to_string (js_add (JStr (loc (js_to_string (js_add (JStr ''str_'') (js_prop rc ''name''))) @ '':''))
                                         (js_prop rc ''desc'')),
                name = js_prop rc ''name'', inputValue = js_prop rc ''id'', checked = False\<rparr>)"

definition getRoleFunctions :: "right_page \<Rightarrow> right_page outcome" where
  "getRoleFunctions p =
     with_val (getUrlParam p)
       (\<lambda>params p.
          let i = obj_get params ''id''; p1 = p\<lparr>roleid := i\<rparr>
          in Done ((ajaxCall \<lparr>o_url = ''/users/role_funcs'', o_method = Some ''POST'',
               o_params = Some [(''roleid'', Raw i)]\<rparr> p1)\<lparr>right_pending := right_pending p1 @ [GotRoleFunctions]\<rparr>)) p"

text \<open>
  The loop runs from the last row to the first and writes \<open>items[i]\<close>; with the array empty
  before, the items end up in the order of the rows.
\<close>

fun items_from :: "jsval list \<Rightarrow> check_item list \<Rightarrow> (check_item list) outcome" where
  "items_from [] acc = Done acc"
| "items_from (rc # rcs) acc =
     (case function_item rc of Inl e \<Rightarrow> Threw e acc | Inr it \<Rightarrow> items_from rcs (it # acc))"

definition functions_loaded :: "right_page callback" where
  "functions_loaded res p =
     with_val (js_items (js_prop res ''res''))
       (\<lambda>xs p. case items_from (rev xs) [] of
                 Done its \<Rightarrow> getRoleFunctions (p\<lparr>items := its\<rparr>)
               | Threw e its \<Rightarrow> Threw e p) p"

text \<open>The inner loop stops at the first match, counted from the end.\<close>

fun has_function :: "jsval \<Rightarrow> jsval list \<Rightarrow> js_exn + bool" where
  "has_function v [] = Inr False"
| "has_function v (r # rs) =
     (if nullish r then Inl TypeError
      else if js_eq v (js_prop r ''funid'') then Inr True else has_function v rs)"

fun mark_items :: "jsval list \<Rightarrow> check_item list \<Rightarrow> js_exn + check_item list" where
  "mark_items rs [] = Inr []"
| "mark_items rs (it # its) =
     (case mark_items rs its of
        Inl e \<Rightarrow> Inl e
      | Inr its' \<Rightarrow>
          (case has_function (inputValue it) rs of
             Inl e \<Rightarrow> Inl e
           | Inr b \<Rightarrow> Inr (it\<lparr>checked := b\<rparr> # its')))"

definition createView :: "right_page \<Rightarrow> right_page" where
  "createView p = p\<lparr>form_built := True\<rparr>"

definition role_functions_loaded :: "right_page callback" where
  "role_functions_loaded res p =
     with_val (if items p = [] then Inr [] else js_items (js_prop res ''res''))
       (\<lambda>rs. with_val (mark_items (rev rs) (items p)) (\<lambda>its p. Done (createView (p\<lparr>items := its\<rparr>)))) p"

text \<open>\<open>form.getValues()\<close>: the checked boxes by name; boxes of one name share an array.\<close>

definition check_values :: "check_item list \<Rightarrow> jsobj" where
  "check_values its =
     fold (\<lambda>it u. if checked it then add_param (js_to_string (name it)) (inputValue it) u else u) its []"

definition chosen_ids :: "check_item list \<Rightarrow> jsval list" where
  "chosen_ids its =
     fold (\<lambda>it fids.
             let fid = obj_get (check_values its) (js_to_string (name it))
             in if js_typeof fid \<noteq> ''undefined'' then fids @ [fid] else fids) (rev its) []"

definition right_onBtnSave :: "right_page \<Rightarrow> right_page" where
  "right_onBtnSave p =
     (ajaxCall \<lparr>o_url = ''/users/save_role_rights'', o_method = Some ''POST'',
        o_params = Some [(''roleid'', Raw (roleid p)), (''funids'', Encoded (JArr (chosen_ids (items p))))]\<rparr> p)
       \<lparr>right_pending := right_pending p @ [SavedRights]\<rparr>"

definition rights_saved :: "right_page callback" where
  "rights_saved res p =
     Done (emit (Goto (BASE_URL @ ''/users/role_manage'')) (emit (MsgAlert (loc ''alert'') (loc ''str_save_success'')) p))"

definition right_onBtnCancel :: "right_page \<Rightarrow> right_page" where
  "right_onBtnCancel p = emit (Goto (BASE_URL @ ''/users/role_manage'')) p"

text \<open>The user toggles a checkbox.\<close>

definition toggle :: "nat \<Rightarrow> right_page \<Rightarrow> right_page" where
  "toggle i p =
     (if i < length (items p) \<and> form_built p
      then p\<lparr>items := (items p)[i := (items p ! i)\<lparr>checked := \<not> checked (items p ! i)\<rparr>]\<rparr> else p)"

section \<open>What is saved\<close>

definition item_name :: "check_item \<Rightarrow> string" where
  "item_name it = js_to_string (name it)"

definition checked_value :: "check_item list \<Rightarrow> string \<Rightarrow> jsval option" where
  "checked_value its k = map_option inputValue (find (\<lambda>it. checked it \<and> item_name it = k) its)"

lemma find_append: "find P (xs @ ys) = (case find P xs of None \<Rightarrow> find P ys | Some x \<Rightarrow> Some x)"
  by (induction xs) auto

lemma check_values_lookup:
  "distinct (map item_name its) \<Longrightarrow> map_of (check_values its) = checked_value its"
proof (induction its rule: rev_induct)
  case Nil
  show ?case by (simp add: check_values_def checked_value_def fun_eq_iff)
next
  case (snoc it its)
  then have IH: "map_of (check_values its) = checked_value its" by simp
  from snoc.prems have "checked_value its (item_name it) = None"
    by (auto simp: checked_value_def find_None_iff) (metis image_eqI)
  then have "map_of (check_values its) (item_name it) = None" using IH by simp
  then have "check_values (its @ [it]) =
      (if checked it then check_values its @ [(item_name it, inputValue it)] else check_values its)"
    by (simp add: check_values_def add_param_def item_name_def)
  moreover have "checked_value (its @ [it]) k =
      (case checked_value its k of
         Some v \<Rightarrow> Some v
       | None \<Rightarrow> if checked it \<and> item_name it = k then Some (inputValue it) else None)" for k
    by (simp add: checked_value_def find_append split: option.splits)
  ultimately show ?case
    using IH by (auto simp: fun_eq_iff map_add_def split: option.splits)
qed

lemma checked_value_of:
  assumes "distinct (map item_name its)" and "it \<in> set its"
  shows "checked_value its (item_name it) = (if checked it then Some (inputValue it) else None)"
proof -
  have same: "x = it" if "x \<in> set its" "item_name x = item_name it" for x
    using that assms by (metis distinct_map inj_onD)
  show ?thesis
  proof (cases "find (\<lambda>x. checked x \<and> item_name x = item_name it) its")
    case None
    then show ?thesis using assms(2) by (auto simp: checked_value_def find_None_iff)
  next
    case (Some x)
    then have "x \<in> set its" "checked x" "item_name x = item_name it" by (auto simp: find_Some_iff)
    then show ?thesis using Some same by (auto simp: checked_value_def)
  qed
qed

lemma fold_collect:
  "fold (\<lambda>it fids. if P it then fids @ [f it] else fids) its acc = acc @ map f (filter P its)"
  by (induction its arbitrary: acc) simp_all

lemma chosen_ids_checked:
  assumes "distinct (map item_name its)" and "\<forall>it \<in> set its. inputValue it \<noteq> JUndef"
  shows "chosen_ids its = map inputValue (filter checked (rev its))"
proof -
  let ?v = "\<lambda>it. obj_get (check_values its) (js_to_string (name it))"
  have v: "?v it = (if checked it then inputValue it else JUndef)" if "it \<in> set its" for it
    using checked_value_of [OF assms(1) that] check_values_lookup [OF assms(1)]
    by (simp add: obj_get_def item_name_def)
  have t: "js_typeof x \<noteq> ''undefined'' \<longleftrightarrow> x \<noteq> JUndef" for x by (cases x) simp_all
  have "chosen_ids its = map ?v (filter (\<lambda>it. ?v it \<noteq> JUndef) (rev its))"
    by (simp add: chosen_ids_def Let_def t fold_collect)
  also have "filter (\<lambda>it. ?v it \<noteq> JUndef) (rev its) = filter checked (rev its)"
    using v assms(2) by (intro filter_cong) auto
  also have "map ?v (filter checked (rev its)) = map inputValue (filter checked (rev its))"
    using v by (intro map_cong) auto
  finally show ?thesis .
qed

section \<open>Loading the form\<close>

text \<open>A function of the console as the server sends it, and a right of the role.\<close>

definition function_row :: "int \<times> string \<times> string \<Rightarrow> jsval" where
  "function_row f = (case f of (i, n, d) \<Rightarrow> JObj [(''id'', JNum i), (''name'', JStr n), (''desc'', JStr d)])"

definition right_row :: "int \<Rightarrow> jsval" where
  "right_row i = JObj [(''funid'', JNum i)]"

definition item_for :: "int set \<Rightarrow> int \<times> string \<times> string \<Rightarrow> check_item" where
  "item_for R f = (case f of (i, n, d) \<Rightarrow>
     \<lparr>boxLabel = loc (''str_'' @ n) @ '':'' @ d, name = JStr n, inputValue = JNum i, checked = (i \<in> R)\<rparr>)"

lemma items_from_rows: "items_from (map function_row fs) acc = Done (rev (map (item_for {}) fs) @ acc)"
proof (induction fs arbitrary: acc)
  case (Cons f fs)
  then show ?case
    by (cases f) (simp add: function_row_def function_item_def item_for_def js_add_def)
qed simp

lemma has_function_rows: "has_function (JNum i) (map right_row rs) = Inr (i \<in> set rs)"
  by (induction rs) (auto simp: right_row_def)

lemma mark_items_rows:
  "mark_items (map right_row rs) (map (item_for {}) fs) = Inr (map (item_for (set rs)) fs)"
proof (induction fs)
  case (Cons f fs)
  then show ?case
    by (cases f) (simp add: has_function_rows item_for_def)
qed simp

lemma rights_form:
  assumes "getUrlParam p = Inr ps"
    and "obj_get funcs ''res'' = JArr (map function_row fs)" and "obj_get rights ''res'' = JArr (map right_row rs)"
    and "fs \<noteq> []"
  shows "\<exists>q q'. functions_loaded (JObj funcs) p = Done q \<and> role_functions_loaded (JObj rights) q = Done q' \<and>
    items q' = map (item_for (set rs)) fs \<and> roleid q' = obj_get ps ''id'' \<and> form_built q'"
proof -
  have u: "getUrlParam (p\<lparr>items := its\<rparr>) = getUrlParam p" for its by (simp add: getUrlParam_def)
  have i: "items (ajaxCall opts q) = items q" "roleid (ajaxCall opts q) = roleid q" for opts q
    by (simp_all add: ajaxCall_eq emit_def)
  from assms show ?thesis
    using mark_items_rows [of "rev rs" fs]
    by (auto simp: functions_loaded_def rev_map items_from_rows getRoleFunctions_def u i role_functions_loaded_def
        createView_def Let_def)
qed

text \<open>
  C9. Opening the rights of a role and saving them unchanged keeps them: the identifiers sent
  are exactly the functions the role had among those the console offers, and they are sent
  for the role the address names. (Function names are distinct, as in the server's table.)
\<close>

theorem rights_round_trip:
  assumes "getUrlParam p = Inr ps"
    and "obj_get funcs ''res'' = JArr (map function_row fs)" and "obj_get rights ''res'' = JArr (map right_row rs)"
    and "fs \<noteq> []" and "distinct (map (\<lambda>f. fst (snd f)) fs)"
  shows "\<exists>q q'. functions_loaded (JObj funcs) p = Done q \<and> role_functions_loaded (JObj rights) q = Done q' \<and>
    effects (right_onBtnSave q') = effects q' @ [Send \<lparr>r_url = ''/users/save_role_rights'', r_method = ''POST'',
      r_params = [(''roleid'', Raw (obj_get ps ''id'')),
                  (''funids'', Encoded (JArr (map JNum (filter (\<lambda>i. i \<in> set rs) (rev (map fst fs)))))),
                  (''sid'', Raw (cookie_get ''sessionid'' q'))],
      r_token = csrf q'\<rparr>]"
proof -
  obtain q q' where q: "functions_loaded (JObj funcs) p = Done q" "role_functions_loaded (JObj rights) q = Done q'"
    and its: "items q' = map (item_for (set rs)) fs" and r: "roleid q' = obj_get ps ''id''"
    using rights_form [OF assms(1-4)] by blast
  have "item_name (item_for R f) = fst (snd f)" for R f by (cases f) (simp add: item_name_def item_for_def)
  then have d: "distinct (map item_name (items q'))" using assms(5) by (simp add: its o_def)
  have "inputValue (item_for R f) = JNum (fst f)" "checked (item_for R f) = (fst f \<in> R)" for R f
    by (cases f; simp add: item_for_def)+
  then have "chosen_ids (items q') = map JNum (filter (\<lambda>i. i \<in> set rs) (rev (map fst fs)))"
    by (subst chosen_ids_checked [OF d]) (auto simp: its rev_map filter_map o_def)
  with q r show ?thesis
    by (auto simp: right_onBtnSave_def ajaxCall_eq sent_params_def)
qed

definition example_rights :: right_page where
  "example_rights = rightmanage_onLaunch \<lparr>cookies = [], doc_url = ''/users/right_manage?id=3'', csrf = JUndef, effects = []\<rparr>"

theorem rights_round_trip_witness:
  "\<exists>q q'. functions_loaded (JObj [(''res'', JArr (map function_row [(1, ''a'', ''A''), (2, ''b'', ''B'')]))]) example_rights = Done q \<and>
    role_functions_loaded (JObj [(''res'', JArr (map right_row [2, 9]))]) q = Done q' \<and>
    effects (right_onBtnSave q') = effects q' @ [Send \<lparr>r_url = ''/users/save_role_rights'', r_method = ''POST'',
      r_params = [(''roleid'', Raw (JStr ''3'')), (''funids'', Encoded (JArr [JNum 2])),
                  (''sid'', Raw (cookie_get ''sessionid'' q'))],
      r_token = csrf q'\<rparr>]"
proof -
  have "getUrlParam example_rights = Inr [(''id'', JStr ''3'')]" by code_simp
  from rights_round_trip [OF this, of "[(''res'', JArr (map function_row [(1, ''a'', ''A''), (2, ''b'', ''B'')]))]"
      "[(1, ''a'', ''A''), (2, ''b'', ''B'')]" "[(''res'', JArr (map right_row [2, 9]))]" "[2, 9]"]
  show ?thesis by simp
qed

text \<open>
  Whatever boxes are toggled, saving sends the identifiers of exactly the boxes that are
  checked, in reverse order.
\<close>

lemma rights_save_checked:
  assumes "distinct (map item_name (items p))" and "\<forall>it \<in> set (items p). inputValue it \<noteq> JUndef"
    and "p' = fold toggle is p"
  shows "effects (right_onBtnSave p') = effects p @ [Send \<lparr>r_url = ''/users/save_role_rights'', r_method = ''POST'',
      r_params = [(''roleid'', Raw (roleid p)),
                  (''funids'', Encoded (JArr (map inputValue (filter checked (rev (items p')))))),
                  (''sid'', Raw (cookie_get ''sessionid'' p))],
      r_token = csrf p\<rparr>]"
proof -
  let ?keep = "\<lambda>q. map item_name (items q) = map item_name (items p) \<and> map inputValue (items q) = map inputValue (items p) \<and>
    effects q = effects p \<and> roleid q = roleid p \<and> cookies q = cookies p \<and> csrf q = csrf p"
  have step: "?keep q \<Longrightarrow> ?keep (toggle i q)" for i q
  proof -
    assume q: "?keep q"
    let ?it = "(items q ! i)\<lparr>checked := \<not> checked (items q ! i)\<rparr>"
    have "map item_name ((items q)[i := ?it]) = map item_name (items q)"
      "map inputValue ((items q)[i := ?it]) = map inputValue (items q)"
      by (rule map_update_same, simp add: item_name_def)+
    with q show ?thesis by (simp add: toggle_def)
  qed
  have "?keep (fold toggle js q)" if "?keep q" for js q
    using that
  proof (induction js arbitrary: q)
    case (Cons j js)
    show ?case unfolding fold_simps o_apply by (rule Cons.IH) (rule step [OF Cons.prems])
  qed simp
  from this [of p "is"] have p': "?keep p'" using assms(3) by simp
  then have "distinct (map item_name (items p'))" using assms(1) by simp
  moreover have "JUndef \<notin> set (map inputValue (items p'))" using p' assms(2) by (auto simp: image_iff)
  ultimately have "chosen_ids (items p') = map inputValue (filter checked (rev (items p')))"
    by (intro chosen_ids_checked) force+
  with p' show ?thesis by (simp add: right_onBtnSave_def ajaxCall_eq sent_params_def cookie_get_def)
qed

theorem rights_save_checked_witness:
  "effects (right_onBtnSave (fold toggle [0]
      (example_rights\<lparr>items := map (item_for {2}) [(1, ''a'', ''A''), (2, ''b'', ''B'')], form_built := True\<rparr>))) =
   effects example_rights @ [Send \<lparr>r_url = ''/users/save_role_rights'', r_method = ''POST'',
      r_params = [(''roleid'', Raw (roleid example_rights)), (''funids'', Encoded (JArr [JNum 2, JNum 1])),
                  (''sid'', Raw (cookie_get ''sessionid'' example_rights))],
      r_token = csrf example_rights\<rparr>]"
proof -
  let ?p = "example_rights\<lparr>items := map (item_for {2}) [(1, ''a'', ''A''), (2, ''b'', ''B'')], form_built := True\<rparr>"
  have "cookie_get ''sessionid'' ?p = cookie_get ''sessionid'' example_rights" by (simp add: cookie_get_def)
  then show ?thesis
    by (subst rights_save_checked [of ?p _ "[0]", OF _ _ refl])
      (simp_all add: item_for_def item_name_def toggle_def)
qed

end
