(* ===== verification/Dashboard.thy ===== *)
theory Dashboard
  imports Session "HOL-Library.List_Lexorder" "HOL-Library.Char_ord"
begin

text \<open>
  The console's frame (\<open>app/stat/public/functions/dashboard.js\<close>): the table from functions to
  modules, the tree of the functions a user may use, opening a function in the content frame,
  and logging out. The tree is a list of modules, each with its functions, in the order the
  nodes are appended. Names are compared by their characters, as \<open>Array.sort\<close> does.
\<close>

section \<open>The table\<close>

definition map_modules :: "(string \<times> string) list" where
  "map_modules = [
     (''role_manage'', ''users''),
     (''user_manage'', ''users''),
     (''gen_today'', ''statsbin''),
     (''level_consume'', ''statshelper''),
     (''consume_report'', ''statshelper''),
     (''total_active'', ''statsorign''),
     (''active_report'', ''statsorign''),
     (''retention_report'', ''statsorign''),
     (''chief_level_report'', ''statsorign''),
     (''city_level_report'', ''statshelper''),
     (''credits_consume_report'', ''statshelper''),
     (''credits_gain_report'', ''statshelper''),
     (''coins_consume_report'', ''statshelper''),
     (''coins_gain_report'', ''statshelper''),
     (''money_consume_report'', ''statshelper''),
     (''money_gain_report'', ''statshelper''),
     (''voucher_consume_report'', ''statshelper''),
     (''voucher_gain_report'', ''statshelper''),
     (''shop_consume_report'', ''statshelper''),
     (''start_campaign_report'', ''statshelper''),
     (''level_campaign_report'', ''statshelper''),
     (''city_campaign_report'', ''statshelper''),
     (''active_factions_report'', ''statshelper''),
     (''all_factions_report'', ''statshelper''),
     (''main_quest_cam_report'', ''statshelper''),
     (''booth_trade_report'', ''statshelper''),
     (''new_users_report'', ''realtimestats''),
     (''active_users_report'', ''realtimestats''),
     (''max_online_report'', ''realtimestats''),
     (''ave_online_report'', ''realtimestats''),
     (''chapter_quest_report'', ''statshelper''),
     (''boss_practice_report'', ''statshelper''),
     (''guild_level_record'', ''statshelper''),
     (''guild_skill_record'', ''statshelper''),
     (''guild_active_record'', ''statshelper''),
     (''player_recharge_record'', ''recharge''),
     (''player_recharge_report'', ''recharge''),
     (''new_player_recharge_report'', ''recharge''),
     (''loss_consume_report'', ''loss''),
     (''loss_recharge_report'', ''loss''),
     (''loss_report'', ''loss''),
     (''all_player_level_report'', ''statshelper''),
     (''all_player_city_event_level_report'', ''statshelper''),
     (''add_equip_report'', ''statshelper''),
     (''campaign_report'', ''statshelper''),
     (''main_quest_report'', ''statshelper''),
     (''main_quest_user_report'', ''statshelper''),
     (''vip_level_report'', ''statshelper''),
     (''vip_purchase_report'', ''statshelper''),
     (''share_award_report'', ''statshelper''),
     (''born_quest_report'', ''statshelper'')]"

definition module_of :: "string \<Rightarrow> jsval" where
  "module_of n = (case map_of map_modules n of Some m \<Rightarrow> JStr m | None \<Rightarrow> JUndef)"

section \<open>The page\<close>

record func_node =
  fn_text :: string
  fn_id :: string

record module_node =
  mn_text :: string
  mn_id :: jsval
  mn_children :: "func_node list"

record dashboard = world +
  g_tree :: "module_node list"
  g_frame :: string
  rights_pending :: nat

definition dashboard_onLaunch :: "world \<Rightarrow> dashboard" where
  "dashboard_onLaunch w =
     ajaxCall \<lparr>o_url = ''/main/get_rights'', o_method = Some ''POST'', o_params = None\<rparr>
       \<lparr>cookies = cookies w, doc_url = doc_url w, csrf = csrf w, effects = effects w,
        g_tree = [], g_frame = [], rights_pending = 1\<rparr>"

text \<open>
  One round of the loop: the module's node is looked up by name and appended to the root when
  it is missing, then the function's node is appended to it.
\<close>

definition add_func :: "string \<Rightarrow> module_node list \<Rightarrow> module_node list" where
  "add_func n tree =
     (let m = module_of n;
          leaf = \<lparr>fn_text = loc (''str_'' @ n), fn_id = n\<rparr>
      in if list_ex (\<lambda>x. mn_id x = m) tree
         then map (\<lambda>x. if mn_id x = m then x\<lparr>mn_children := mn_children x @ [leaf]\<rparr> else x) tree
         else tree @ [\<lparr>mn_text = loc (''str_module_'' @ js_to_string m), mn_id = m, mn_children = [leaf]\<rparr>])"

definition rights_tree :: "string list \<Rightarrow> module_node list" where
  "rights_tree res = fold add_func (rev (sort res)) []"

definition onGetRights :: "jsval \<Rightarrow> dashboard \<Rightarrow> dashboard outcome" where
  "onGetRights res p =
     (case res of
        JArr xs \<Rightarrow> Done (p\<lparr>g_tree := rights_tree (map js_to_string xs), g_frame := BASE_URL @ ''/welcome.html''\<rparr>)
      | _ \<Rightarrow> Threw TypeError p)"

definition rights_loaded :: "dashboard callback" where
  "rights_loaded res = onGetRights (js_prop res ''res'')"

definition onSelectFunc :: "string \<Rightarrow> dashboard \<Rightarrow> dashboard" where
  "onSelectFunc i p =
     (let md = module_of i
      in if js_typeof md \<noteq> ''undefined'' then p\<lparr>g_frame := BASE_URL @ ''/'' @ js_to_string md @ ''/'' @ i\<rparr> else p)"

definition onBtnLogout :: "dashboard \<Rightarrow> dashboard" where
  "onBtnLogout p =
     emit (Goto (BASE_URL @ ''/users/login''))
       (cookie_set ''sessionid'' JNull
         (ajaxCall \<lparr>o_url = ''/users/do_logout'', o_method = Some ''POST'', o_params = None\<rparr> p))"

section \<open>The tree holds every right once, under its module\<close>

text \<open>
  The tree over a list of names in the order they are appended: one node per module that
  occurs, and under it the names of the module in that order.
\<close>

definition tree_over :: "string list \<Rightarrow> module_node list \<Rightarrow> bool" where
  "tree_over ns t =
     (distinct (map mn_id t) \<and> set (map mn_id t) = module_of ` set ns \<and>
      list_all (\<lambda>x. map fn_id (mn_children x) = filter (\<lambda>n. module_of n = mn_id x) ns) t)"

lemma tree_over_add:
  assumes "tree_over ns t"
  shows "tree_over (ns @ [n]) (add_func n t)"
proof (cases "list_ex (\<lambda>x. mn_id x = module_of n) t")
  case True
  let ?f = "\<lambda>x. if mn_id x = module_of n
    then x\<lparr>mn_children := mn_children x @ [\<lparr>fn_text = loc (''str_'' @ n), fn_id = n\<rparr>]\<rparr> else x"
  have t: "add_func n t = map ?f t" using True by (simp add: add_func_def Let_def)
  have ids: "map mn_id (map ?f t) = map mn_id t" by simp
  from True have "module_of n \<in> set (map mn_id t)" by (auto simp: list_ex_iff) (metis image_eqI)
  then have "module_of n \<in> module_of ` set ns" using assms by (simp add: tree_over_def)
  moreover have "list_all (\<lambda>x. map fn_id (mn_children x) = filter (\<lambda>m. module_of m = mn_id x) (ns @ [n])) (map ?f t)"
    using assms by (auto simp: tree_over_def list_all_iff)
  ultimately show ?thesis using assms ids unfolding t tree_over_def by (auto simp del: map_map)
next
  case False
  let ?x = "\<lparr>mn_text = loc (''str_module_'' @ js_to_string (module_of n)), mn_id = module_of n,
    mn_children = [\<lparr>fn_text = loc (''str_'' @ n), fn_id = n\<rparr>]\<rparr>"
  have t: "add_func n t = t @ [?x]" using False by (auto simp: add_func_def Let_def)
  from False have new: "module_of n \<notin> set (map mn_id t)" by (auto simp: list_ex_iff)
  then have "module_of n \<notin> module_of ` set ns" using assms by (simp add: tree_over_def)
  then have "filter (\<lambda>m. module_of m = module_of n) ns = []" by (auto simp: filter_empty_conv) (metis image_eqI)
  with new assms show ?thesis unfolding t tree_over_def by (auto simp: list_all_iff)
qed

lemma tree_over_fold: "tree_over ns (fold add_func ns [])"
proof (induction ns rule: rev_induct)
  case Nil
  show ?case by (simp add: tree_over_def)
next
  case (snoc n ns)
  then show ?case by (simp add: tree_over_add)
qed

text \<open>
  The tree built from a user's rights has one node per module that occurs among them, and
  under every module exactly the rights of that module, each as often as it was granted, in
  descending order of their names.
\<close>

lemma rights_tree_complete:
  "distinct (map mn_id (rights_tree res)) \<and>
   set (map mn_id (rights_tree res)) = module_of ` set res \<and>
   list_all (\<lambda>x. map fn_id (mn_children x) = rev (sort (filter (\<lambda>n. module_of n = mn_id x) res))) (rights_tree res)"
proof -
  have "tree_over (rev (sort res)) (rights_tree res)" unfolding rights_tree_def by (rule tree_over_fold)
  then show ?thesis by (simp add: tree_over_def filter_sort rev_filter [symmetric])
qed

text \<open>
  Selecting a function in the tree opens the page of the module it is shown under; a right
  the table does not know is shown under the module of unknown ones and opens nothing.
\<close>

lemma select_opens_module_page:
  assumes "x \<in> set (rights_tree res)" and "f \<in> set (mn_children x)"
  shows "fn_id f \<in> set res \<and>
    onSelectFunc (fn_id f) p =
      (if mn_id x = JUndef then p else p\<lparr>g_frame := ''/'' @ js_to_string (mn_id x) @ ''/'' @ fn_id f\<rparr>)"
proof -
  have "tree_over (rev (sort res)) (rights_tree res)" unfolding rights_tree_def by (rule tree_over_fold)
  then have "map fn_id (mn_children x) = filter (\<lambda>n. module_of n = mn_id x) (rev (sort res))"
    using assms(1) by (simp add: tree_over_def list_all_iff)
  moreover have "fn_id f \<in> set (map fn_id (mn_children x))" using assms(2) by simp
  ultimately have f: "fn_id f \<in> set res" "module_of (fn_id f) = mn_id x" by auto
  have "js_typeof (mn_id x) = ''undefined'' \<longleftrightarrow> mn_id x = JUndef"
    unfolding f(2) [symmetric] by (simp add: module_of_def split: option.splits)
  then show ?thesis
    using f by (simp add: onSelectFunc_def Let_def BASE_URL_def)
qed

theorem select_opens_module_page_witness:
  "onSelectFunc ''role_manage'' (dashboard_onLaunch \<lparr>cookies = [], doc_url = [], csrf = JUndef, effects = []\<rparr>) =
   (dashboard_onLaunch \<lparr>cookies = [], doc_url = [], csrf = JUndef, effects = []\<rparr>)\<lparr>g_frame := ''/users/role_manage''\<rparr>"
proof -
  let ?f = "\<lparr>fn_text = loc (''str_role_manage''), fn_id = ''role_manage''\<rparr>"
  let ?x = "\<lparr>mn_text = loc ''str_module_users'', mn_id = JStr ''users'', mn_children = [?f]\<rparr>"
  have "?x \<in> set (rights_tree [''role_manage''])"
    by (simp add: rights_tree_def add_func_def module_of_def map_modules_def)
  from select_opens_module_page [OF this, of ?f] show ?thesis by simp
qed

text \<open>
  Logging out tells the server, forgets the session and returns to the log-in page: every
  later call carries the text \<open>null\<close> instead of the session identifier.
\<close>

lemma logout_forgets_session:
  "\<exists>req. effects (onBtnLogout p) = effects p @ [Send req, Goto ''/users/login''] \<and>
     r_url req = ''/users/do_logout'' \<and> map_of (r_params req) ''sid'' = Some (Raw (cookie_get ''sessionid'' p)) \<and>
     map_of (sent_params opts (onBtnLogout p)) ''sid'' = Some (Raw (JStr ''null''))"
proof -
  have c: "cookie_get k (emit e q) = cookie_get k q" for k e and q :: dashboard by (simp add: cookie_get_def)
  have e: "effects (cookie_set k v q) = effects q" for k v and q :: dashboard by (simp add: cookie_set_def)
  show ?thesis
    by (simp add: onBtnLogout_def BASE_URL_def map_of_sent_params e c cookie_get_set effects_ajaxCall)
qed

end
