(* ===== verification/Gen_Today.thy ===== *)
theory Gen_Today
  imports Session
begin

text \<open>
  Generating the statistics of today (\<open>app/stat/public/functions/gentodaystats.js\<close>): the button
  starts a job on the server unless one is running, a task asks every ten seconds whether it
  is complete, and the answer \<open>complete\<close> ends the task. The page is a state machine: the user
  clicks, the timer fires, answers come in any order. \<open>gen_step\<close> is its step relation, with
  the handlers of the source as the effects of the steps.
\<close>

section \<open>Handlers\<close>

datatype gen_kont = KGen | KCheck nat

record gen_page = world +
  label :: string
  g_in_generating :: bool
  running :: "nat list"
  next_task :: nat
  gen_pending :: "gen_kont list"
  ajax_timeout :: int

definition gentodaystats_onLaunch :: "world \<Rightarrow> gen_page" where
  "gentodaystats_onLaunch w =
     \<lparr>cookies = cookies w, doc_url = doc_url w, csrf = csrf w, effects = effects w,
      label = [], g_in_generating = False, running = [], next_task = 0, gen_pending = [], ajax_timeout = 30000\<rparr>"

definition gen_call :: "string \<Rightarrow> gen_kont \<Rightarrow> gen_page \<Rightarrow> gen_page" where
  "gen_call url k p =
     (ajaxCall \<lparr>o_url = url, o_method = None, o_params = None\<rparr> p)\<lparr>gen_pending := gen_pending p @ [k]\<rparr>"

definition onBtnGen :: "gen_page \<Rightarrow> gen_page" where
  "onBtnGen p =
     (if g_in_generating p then p
      else (gen_call ''/statshelper/do_gen_today_stats'' KGen (p\<lparr>ajax_timeout := 30 * 60 * 100000\<rparr>))
             \<lparr>g_in_generating := True\<rparr>)"

definition startCheck :: "gen_page \<Rightarrow> gen_page" where
  "startCheck p = p\<lparr>running := running p @ [next_task p], next_task := Suc (next_task p)\<rparr>"

definition gen_started :: "gen_page callback" where
  "gen_started res p =
     Done (startCheck (p\<lparr>label :=
       (if truthy (js_prop res ''working'')
        then uni [0x5DF2, 0x7ECF, 0x5728, 0x751F, 0x6210, 0x4E2D, 0x4E86, 0xFF0C, 0x544A, 0x8BC9, 0x4F60, 0x4E0D,
                  0x8981, 0x5207, 0x6362, 0x9875, 0x9762] @ ''...''
        else uni [0x751F, 0x6210, 0x4E2D, 0xFF0C, 0x8BF7, 0x4E0D, 0x8981, 0x5207, 0x6362, 0x9875, 0x9762] @ ''...'')\<rparr>))"

definition check_run :: "nat \<Rightarrow> gen_page \<Rightarrow> gen_page" where
  "check_run t p = gen_call ''/statshelper/do_check_today_gen'' (KCheck t) p"

definition check_done :: "nat \<Rightarrow> gen_page callback" where
  "check_done t res p =
     (if truthy (js_prop res ''complete'')
      then Done (emit (Alert (loc ''str_gen_today_stats_success''))
             (p\<lparr>label := uni [0x606D, 0x559C, 0xFF0C, 0x751F, 0x6210, 0x597D, 0x4E86] @ ''!'',
                g_in_generating := False, running := removeAll t (running p)\<rparr>))
      else Done p)"

definition gen_on_answer :: "gen_kont \<Rightarrow> gen_page callback" where
  "gen_on_answer k = (case k of KGen \<Rightarrow> gen_started | KCheck t \<Rightarrow> check_done t)"

definition gen_answer :: "nat \<Rightarrow> response \<Rightarrow> gen_page \<Rightarrow> gen_page" where
  "gen_answer i a p =
     final_state (ajax_response (Some (gen_on_answer (gen_pending p ! i))) None a
       (p\<lparr>gen_pending := take i (gen_pending p) @ drop (Suc i) (gen_pending p)\<rparr>))"

section \<open>The state machine\<close>

inductive gen_step :: "gen_page \<Rightarrow> gen_page \<Rightarrow> bool" where
  click: "gen_step p (onBtnGen p)"
| tick: "t \<in> set (running p) \<Longrightarrow> gen_step p (check_run t p)"
| answer: "i < length (gen_pending p) \<Longrightarrow> gen_step p (gen_answer i a p)"

inductive_cases gen_stepE: "gen_step p q"

inductive gen_reach :: "gen_page \<Rightarrow> gen_page \<Rightarrow> bool" where
  here: "gen_reach p p"
| more: "gen_reach p q \<Longrightarrow> gen_step q r \<Longrightarrow> gen_reach p r"

text \<open>
  Timely runs: the timer fires only when no check is waiting for its answer, that is, the
  server answers a check within the ten seconds of the interval.
\<close>

inductive timely_step :: "gen_page \<Rightarrow> gen_page \<Rightarrow> bool" where
  t_click: "timely_step p (onBtnGen p)"
| t_tick: "t \<in> set (running p) \<Longrightarrow> \<forall>u. KCheck u \<notin> set (gen_pending p) \<Longrightarrow> timely_step p (check_run t p)"
| t_answer: "i < length (gen_pending p) \<Longrightarrow> timely_step p (gen_answer i a p)"

inductive timely_reach :: "gen_page \<Rightarrow> gen_page \<Rightarrow> bool" where
  t_here: "timely_reach p p"
| t_more: "timely_reach p q \<Longrightarrow> timely_step q r \<Longrightarrow> timely_reach p r"

text \<open>What is under way: a start request, or a task with at most one check.\<close>

definition gen_ok :: "gen_page \<Rightarrow> bool" where
  "gen_ok p =
     ((g_in_generating p \<and> gen_pending p = [KGen] \<and> running p = []) \<or>
      (g_in_generating p \<and> (\<exists>t. running p = [t] \<and> (gen_pending p = [] \<or> gen_pending p = [KCheck t]))) \<or>
      (gen_pending p = [] \<and> running p = []))"

section \<open>One job at a time\<close>

lemma gen_frame [simp]:
  "running (ajaxCall opts p) = running p" "gen_pending (ajaxCall opts p) = gen_pending p"
  "g_in_generating (ajaxCall opts p) = g_in_generating p"
  "running (emit e p) = running p" "gen_pending (emit e p) = gen_pending p"
  "g_in_generating (emit e p) = g_in_generating p"
  "next_task (ajaxCall opts p) = next_task p" "next_task (emit e p) = next_task p"
  by (simp_all add: ajaxCall_eq emit_def)

text \<open>An answer takes its callback from the queue; then it succeeds, or changes none of the three parts.\<close>

lemma gen_answer_cases:
  fixes p i
  defines "q \<equiv> p\<lparr>gen_pending := take i (gen_pending p) @ drop (Suc i) (gen_pending p)\<rparr>"
  shows "(\<exists>res. gen_answer i a p = final_state (gen_on_answer (gen_pending p ! i) res q)) \<or>
    (running (gen_answer i a p) = running p \<and> gen_pending (gen_answer i a p) = gen_pending q \<and>
     g_in_generating (gen_answer i a p) = g_in_generating p)"
  unfolding gen_answer_def q_def ajax_response_def with_val_def
  by (auto split: response.splits option.splits sum.splits)

lemma gen_ok_answer:
  assumes "gen_ok p" and "i < length (gen_pending p)"
  shows "gen_ok (gen_answer i a p)"
proof -
  have i: "i = 0" and one: "length (gen_pending p) = 1"
    using assms by (auto simp: gen_ok_def)
  show ?thesis
    using gen_answer_cases [of i a p] assms one
    by (auto simp: i gen_ok_def gen_on_answer_def gen_started_def startCheck_def check_done_def split: if_splits)
qed

lemma gen_ok_step: "timely_step p q \<Longrightarrow> gen_ok p \<Longrightarrow> gen_ok q"
proof (induction rule: timely_step.induct)
  case (t_click p)
  then show ?case by (auto simp: onBtnGen_def gen_call_def gen_ok_def)
next
  case (t_tick t p)
  then show ?case by (auto simp: check_run_def gen_call_def gen_ok_def)
next
  case (t_answer i p a)
  then show ?case by (intro gen_ok_answer)
qed

lemma gen_ok_reach: "timely_reach (gentodaystats_onLaunch w) p \<Longrightarrow> gen_ok p"
proof (induction "gentodaystats_onLaunch w" p rule: timely_reach.induct)
  case t_here
  show ?case by (simp add: gen_ok_def gentodaystats_onLaunch_def)
next
  case (t_more q r)
  then show ?case by (simp add: gen_ok_step)
qed

text \<open>
  C10. As long as every check is answered before the next one is due, at most one job is under
  way: at any moment at most one start request waits, at most one task runs, never both, and
  while the page says that nothing is being generated neither exists.
\<close>

theorem one_job_at_a_time:
  assumes "timely_reach (gentodaystats_onLaunch w) p"
  shows "count_list (gen_pending p) KGen + length (running p) \<le> 1 \<and>
    (\<not> g_in_generating p \<longrightarrow> gen_pending p = [] \<and> running p = [])"
  using gen_ok_reach [OF assms] by (auto simp: gen_ok_def)

theorem one_job_at_a_time_witness:
  "running (onBtnGen (gentodaystats_onLaunch \<lparr>cookies = [], doc_url = [], csrf = JUndef, effects = []\<rparr>)) = [] \<and>
   count_list (gen_pending (onBtnGen (gentodaystats_onLaunch \<lparr>cookies = [], doc_url = [], csrf = JUndef, effects = []\<rparr>))) KGen = 1"
proof -
  let ?p = "gentodaystats_onLaunch \<lparr>cookies = [], doc_url = [], csrf = JUndef, effects = []\<rparr>"
  have "timely_reach ?p (onBtnGen ?p)" by (rule t_more [OF t_here t_click])
  from one_job_at_a_time [OF this] show ?thesis
    by (simp add: onBtnGen_def gen_call_def gentodaystats_onLaunch_def)
qed

section \<open>A job can always be finished\<close>

definition stuck :: "gen_page \<Rightarrow> bool" where
  "stuck p = (g_in_generating p \<and> gen_pending p = [] \<and> running p = [])"

definition ok_gen :: "jsobj \<Rightarrow> response" where
  "ok_gen kvs = Responded [] (Some (JObj ((''success'', JStr ''ok'') # kvs)))"

lemmas gen_eval = onBtnGen_def gen_call_def gen_answer_def ajax_response_def ok_gen_def gen_on_answer_def
  gen_started_def startCheck_def check_run_def check_done_def gentodaystats_onLaunch_def

lemma timely_reach_trans: "timely_reach q r \<Longrightarrow> timely_reach p q \<Longrightarrow> timely_reach p r"
  by (induction rule: timely_reach.induct) (auto intro: t_more)

lemma finish_check:
  assumes "running p = [t]" and "gen_pending p = [KCheck t]"
  shows "\<exists>q. timely_reach p q \<and> \<not> g_in_generating q \<and> gen_pending q = [] \<and> running q = []"
proof (intro exI conjI)
  show "timely_reach p (gen_answer 0 (ok_gen [(''complete'', JBool True)]) p)"
    by (rule t_more [OF t_here t_answer]) (simp add: assms)
qed (simp_all add: assms gen_eval)

lemma finish_task:
  assumes "running p = [t]" and "gen_pending p = []"
  shows "\<exists>q. timely_reach p q \<and> \<not> g_in_generating q \<and> gen_pending q = [] \<and> running q = []"
proof -
  have step: "timely_reach p (check_run t p)" by (rule t_more [OF t_here t_tick]) (simp_all add: assms)
  have "running (check_run t p) = [t]" and "gen_pending (check_run t p) = [KCheck t]" by (simp_all add: gen_eval assms)
  from finish_check [OF this] step show ?thesis by (blast intro: timely_reach_trans)
qed

text \<open>
  C11. As long as every check is answered before the next one is due, a job under way can be
  finished: from every state of the page, unless a start request failed, some further timely
  steps lead to a page that is idle again and lets the next job be started.
\<close>

theorem job_can_finish:
  assumes "timely_reach (gentodaystats_onLaunch w) p" and "\<not> stuck p"
  shows "\<exists>q. timely_reach p q \<and> \<not> g_in_generating q \<and> gen_pending q = [] \<and> running q = []"
proof -
  from gen_ok_reach [OF assms(1)] assms(2)
  consider "gen_pending p = [KGen]" "running p = []" | t where "running p = [t]" "gen_pending p = []"
    | t where "running p = [t]" "gen_pending p = [KCheck t]" | "\<not> g_in_generating p" "gen_pending p = []" "running p = []"
    by (auto simp: gen_ok_def stuck_def)
  then show ?thesis
  proof cases
    case 1
    let ?q = "gen_answer 0 (ok_gen []) p"
    have step: "timely_reach p ?q" by (rule t_more [OF t_here t_answer]) (simp add: 1)
    have "running ?q = [next_task p]" and "gen_pending ?q = []" by (simp_all add: gen_eval 1)
    from finish_task [OF this] step show ?thesis by (blast intro: timely_reach_trans)
  qed (use finish_task finish_check t_here in blast)+
qed

theorem job_can_finish_witness:
  "\<exists>q. timely_reach (onBtnGen (gentodaystats_onLaunch \<lparr>cookies = [], doc_url = [], csrf = JUndef, effects = []\<rparr>)) q \<and>
     \<not> g_in_generating q"
proof -
  let ?p = "gentodaystats_onLaunch \<lparr>cookies = [], doc_url = [], csrf = JUndef, effects = []\<rparr>"
  have "timely_reach ?p (onBtnGen ?p)" by (rule t_more [OF t_here t_click])
  moreover have "\<not> stuck (onBtnGen ?p)" by (simp add: stuck_def gen_eval)
  ultimately show ?thesis using job_can_finish by blast
qed

section \<open>A failed start leaves the page stuck\<close>

lemma stuck_step: "gen_step p q \<Longrightarrow> stuck p \<Longrightarrow> q = p"
  by (erule gen_stepE) (auto simp: stuck_def onBtnGen_def)

text \<open>
  C40. When the start request fails (the connection breaks, or the server refuses), the button is
  dead for good: the flag stays set, no request is waiting and no task runs, and no further
  event changes anything.
\<close>

theorem failed_start_sticks:
  assumes "\<not> g_in_generating p" and "gen_pending p = []" and "running p = []"
    and "gen_reach (gen_answer 0 (Failed txt) (onBtnGen p)) q"
  shows "q = gen_answer 0 (Failed txt) (onBtnGen p) \<and> stuck q"
proof -
  have s: "stuck (gen_answer 0 (Failed txt) (onBtnGen p))"
    using assms(1-3) by (simp add: stuck_def gen_answer_def ajax_response_def onBtnGen_def gen_call_def)
  from assms(4) show ?thesis
    by (induction "gen_answer 0 (Failed txt) (onBtnGen p)" q rule: gen_reach.induct)
      (use s stuck_step in auto)
qed

theorem failed_start_sticks_witness:
  "stuck (onBtnGen (gen_answer 0 (Failed ''err'') (onBtnGen
      (gentodaystats_onLaunch \<lparr>cookies = [], doc_url = [], csrf = JUndef, effects = []\<rparr>))))"
proof -
  let ?p = "gentodaystats_onLaunch \<lparr>cookies = [], doc_url = [], csrf = JUndef, effects = []\<rparr>"
  have "gen_reach (gen_answer 0 (Failed ''err'') (onBtnGen ?p)) (onBtnGen (gen_answer 0 (Failed ''err'') (onBtnGen ?p)))"
    by (rule more [OF here click])
  moreover have "\<not> g_in_generating ?p" "gen_pending ?p = []" "running ?p = []"
    by (simp_all add: gentodaystats_onLaunch_def)
  ultimately show ?thesis using failed_start_sticks by blast
qed

section \<open>Late checks break the exclusion\<close>

definition late_run :: "gen_page \<Rightarrow> gen_page" where
  "late_run p =
     onBtnGen (gen_answer 0 (ok_gen [(''complete'', JBool True)])
       (onBtnGen (gen_answer 0 (ok_gen [(''complete'', JBool True)])
         (check_run 0 (check_run 0 (gen_answer 0 (ok_gen []) (onBtnGen p)))))))"

text \<open>
  When a check is answered late, the exclusion fails: two checks of one job answered after
  each other, with a click between them, lead to two start requests waiting at once.
\<close>

lemma late_check_starts_two_jobs:
  "gen_reach (gentodaystats_onLaunch w) (late_run (gentodaystats_onLaunch w)) \<and>
   count_list (gen_pending (late_run (gentodaystats_onLaunch w))) KGen = 2"
proof
  show "gen_reach (gentodaystats_onLaunch w) (late_run (gentodaystats_onLaunch w))"
    unfolding late_run_def
    by (intro more [OF _ click] more [OF _ answer] more [OF _ tick] here) (simp_all add: gen_eval)
  show "count_list (gen_pending (late_run (gentodaystats_onLaunch w))) KGen = 2"
    by (simp add: late_run_def gen_eval)
qed

end
