(* ===== verification/GM_Forms.thy ===== *)
theory GM_Forms
  imports Prelude
begin

text \<open>
  The script of the game master console (\<open>app/gm/app/assets/javascripts/application.js\<close>):
  the menu of the completing input fields, the change of language, and the forms whose
  submission goes to the server in the background.

  The state of a console page is the record \<open>gm_page\<close>: the requests sent, the calls of
  \<open>showStatus\<close> (a function of the page template), the flash line, its running timers, the
  dialogs shown, the submissions the browser carried out itself, the reloads, and the callbacks that wait for an
  answer, in the order of their requests. What \<open>serialize()\<close> and \<open>attr('action')\<close> return is
  part of the form. Answers may come in any order; time is counted in milliseconds.
\<close>

section \<open>Menus\<close>

datatype menu_line = Header string | Item jsval

definition item_category :: "jsval \<Rightarrow> jsval" where
  "item_category item = (let c = js_prop item ''category'' in if truthy c then c else JStr [])"

definition render_item :: "jsval \<Rightarrow> menu_line list \<times> jsval \<Rightarrow> (menu_line list \<times> jsval) outcome" where
  "render_item item st =
     (case st of (ul, currentCategory) \<Rightarrow>
        if nullish item then Threw TypeError st
        else let cat = item_category item
             in if \<not> js_eq cat currentCategory then Done (ul @ [Header (js_to_string cat), Item item], cat)
                else Done (ul @ [Item item], currentCategory))"

definition renderMenu :: "jsval list \<Rightarrow> (menu_line list \<times> jsval) outcome" where
  "renderMenu items = js_for render_item items ([], JStr [])"

section \<open>Completion\<close>

text \<open>
  \<open>term in cache\<close> also finds the names every object inherits. The line that would fill the
  cache is commented out.
\<close>

definition inherited_names :: "string list" where
  "inherited_names =
     [''constructor'', ''hasOwnProperty'', ''isPrototypeOf'', ''propertyIsEnumerable'', ''toLocaleString'', ''toString'',
      ''valueOf'', ''__defineGetter__'', ''__defineSetter__'', ''__lookupGetter__'', ''__lookupSetter__'', ''__proto__'']"

datatype completion = Cached string | Fetch string jsval

definition complete_source :: "(string \<times> jsval) list \<Rightarrow> string \<Rightarrow> string \<Rightarrow> completion" where
  "complete_source cache url term =
     (let key = url @ term
      in if List.member (map fst cache) key \<or> List.member inherited_names key then Cached key
         else Fetch (''/config/complete/'' @ url) (JObj [(''term'', JStr term)]))"

section \<open>Pages\<close>

record form =
  fm_action :: string
  fm_serialized :: string

record gm_request =
  gq_method :: string
  gq_url :: string
  gq_data :: "string option"

record flash_line =
  fl_color :: string
  fl_text :: string
  fl_shown :: bool

datatype gm_kont = KLanguage | KStatus | KFlash

record gm_page =
  gm_sent :: "gm_request list"
  gm_status :: "(string \<times> string) list"
  gm_flash :: flash_line
  gm_timers :: "nat list"
  gm_now :: nat
  gm_dialogs :: "string list"
  gm_native :: "form list"
  gm_reloads :: nat
  gm_waiting :: "gm_kont list"

definition gm_init :: gm_page where
  "gm_init =
     \<lparr>gm_sent = [], gm_status = [], gm_flash = \<lparr>fl_color = [], fl_text = [], fl_shown = False\<rparr>, gm_timers = [],
      gm_now = 0, gm_dialogs = [], gm_native = [], gm_reloads = 0, gm_waiting = []\<rparr>"

definition gm_ajax :: "gm_kont \<Rightarrow> gm_request \<Rightarrow> gm_page \<Rightarrow> gm_page" where
  "gm_ajax k q p = p\<lparr>gm_sent := gm_sent p @ [q], gm_waiting := gm_waiting p @ [k]\<rparr>"

definition showStatus :: "string \<Rightarrow> string \<Rightarrow> gm_page \<Rightarrow> gm_page" where
  "showStatus text status p = p\<lparr>gm_status := gm_status p @ [(text, status)]\<rparr>"

definition showStatus2 :: "string \<Rightarrow> string \<Rightarrow> gm_page \<Rightarrow> gm_page" where
  "showStatus2 text color p =
     p\<lparr>gm_flash := \<lparr>fl_color = color, fl_text = text, fl_shown = True\<rparr>, gm_timers := gm_timers p @ [gm_now p + 2000]\<rparr>"

definition onChangeLanguage :: "string \<Rightarrow> gm_page \<Rightarrow> gm_page" where
  "onChangeLanguage lang =
     gm_ajax KLanguage \<lparr>gq_method = ''PUT'', gq_url = ''/i18n?lang='' @ lang, gq_data = None\<rparr>"

definition post_form :: "form \<Rightarrow> gm_request" where
  "post_form f = \<lparr>gq_method = ''POST'', gq_url = fm_action f, gq_data = Some (fm_serialized f)\<rparr>"

text \<open>The submit handlers return whether the browser goes on to submit the form itself.\<close>

definition ajaxSubmit :: "form \<Rightarrow> gm_page \<Rightarrow> bool \<times> gm_page" where
  "ajaxSubmit f p = (False, gm_ajax KStatus (post_form f) p)"

definition ajaxSubmit2 :: "form \<Rightarrow> gm_page \<Rightarrow> bool \<times> gm_page" where
  "ajaxSubmit2 f p = (False, gm_ajax KFlash (post_form f) p)"

definition ajaxSubmitWithConfirm :: "string \<Rightarrow> bool \<Rightarrow> form \<Rightarrow> gm_page \<Rightarrow> bool \<times> gm_page" where
  "ajaxSubmitWithConfirm text confirmed f p0 =
     (let p = p0\<lparr>gm_dialogs := gm_dialogs p0 @ [text]\<rparr>
      in (False, if confirmed then gm_ajax KStatus (post_form f) p else p))"

text \<open>The callbacks. A request succeeds with a decoded answer or fails.\<close>

definition status_success :: "jsval \<Rightarrow> gm_page \<Rightarrow> gm_page outcome" where
  "status_success json =
     with_val (js_get json ''success'') (\<lambda>s p.
       Done (if truthy s then showStatus ''Success~'' ''success'' p else showStatus ''Failed!'' ''fail'' p))"

definition flash_success :: "jsval \<Rightarrow> gm_page \<Rightarrow> gm_page outcome" where
  "flash_success json =
     with_val (js_get json ''success'') (\<lambda>s p.
       Done (if truthy s then showStatus2 ''Success~'' ''green'' p
             else showStatus2 (js_to_string (js_add (JStr ''Failed: '') (js_prop json ''reason''))) ''red'' p))"

definition language_changed :: "gm_page \<Rightarrow> gm_page" where
  "language_changed p =
     (let q = showStatus ''Language changed, please wait...'' ''success'' p in q\<lparr>gm_reloads := gm_reloads q + 1\<rparr>)"

definition gm_answer :: "gm_kont \<Rightarrow> jsval option \<Rightarrow> gm_page \<Rightarrow> gm_page outcome" where
  "gm_answer k a p =
     (case (k, a) of
        (KLanguage, Some json) \<Rightarrow> Done (language_changed p)
      | (KLanguage, None) \<Rightarrow> Done (showStatus ''Something wrong when changing language!'' ''fail'' p)
      | (KStatus, Some json) \<Rightarrow> status_success json p
      | (KStatus, None) \<Rightarrow> Done (showStatus ''Something wrong!'' ''fail'' p)
      | (KFlash, Some json) \<Rightarrow> flash_success json p
      | (KFlash, None) \<Rightarrow> Done (showStatus2 ''Something wrong!'' ''red'' p))"

section \<open>Runs\<close>

datatype gm_event =
    ChangeLanguage string
  | Submit form
  | SubmitFlash form
  | SubmitConfirm string bool form
  | GmAnswer nat "jsval option"
  | Wait nat

definition submitted :: "form \<Rightarrow> bool \<times> gm_page \<Rightarrow> gm_page" where
  "submitted f r = (if fst r then (snd r)\<lparr>gm_native := gm_native (snd r) @ [f]\<rparr> else snd r)"

text \<open>Time passes; the timers that are due hide the flash line.\<close>

definition pass_time :: "nat \<Rightarrow> gm_page \<Rightarrow> gm_page" where
  "pass_time d p =
     (let t = gm_now p + d; due = list_ex (\<lambda>x. x \<le> t) (gm_timers p)
      in p\<lparr>gm_now := t, gm_timers := filter (\<lambda>x. t < x) (gm_timers p),
           gm_flash := (if due then (gm_flash p)\<lparr>fl_shown := False\<rparr> else gm_flash p)\<rparr>)"

fun gm_step :: "gm_page \<Rightarrow> gm_event \<Rightarrow> gm_page" where
  "gm_step p (ChangeLanguage lang) = onChangeLanguage lang p"
| "gm_step p (Submit f) = submitted f (ajaxSubmit f p)"
| "gm_step p (SubmitFlash f) = submitted f (ajaxSubmit2 f p)"
| "gm_step p (SubmitConfirm text confirmed f) = submitted f (ajaxSubmitWithConfirm text confirmed f p)"
| "gm_step p (GmAnswer i a) =
     (if i < length (gm_waiting p)
      then final_state (gm_answer (gm_waiting p ! i) a
             (p\<lparr>gm_waiting := take i (gm_waiting p) @ drop (Suc i) (gm_waiting p)\<rparr>))
      else p)"
| "gm_step p (Wait d) = pass_time d p"

definition gm_run :: "gm_event list \<Rightarrow> gm_page" where
  "gm_run es = foldl gm_step gm_init es"

text \<open>What a run has to send: one request for every change of language and every submission that is not declined.\<close>

fun asks :: "gm_event \<Rightarrow> gm_request list" where
  "asks (ChangeLanguage lang) = [\<lparr>gq_method = ''PUT'', gq_url = ''/i18n?lang='' @ lang, gq_data = None\<rparr>]"
| "asks (Submit f) = [post_form f]"
| "asks (SubmitFlash f) = [post_form f]"
| "asks (SubmitConfirm text confirmed f) = (if confirmed then [post_form f] else [])"
| "asks _ = []"

section \<open>Menus show every item under its category\<close>

text \<open>The items of a menu with the header they stand under.\<close>

fun labelled :: "string \<Rightarrow> menu_line list \<Rightarrow> (string \<times> jsval) list" where
  "labelled h [] = []"
| "labelled h (Header s # ls) = labelled s ls"
| "labelled h (Item x # ls) = (h, x) # labelled h ls"

fun headers :: "menu_line list \<Rightarrow> string list" where
  "headers [] = []"
| "headers (Header s # ls) = s # headers ls"
| "headers (Item x # ls) = headers ls"

fun last_header :: "string \<Rightarrow> menu_line list \<Rightarrow> string" where
  "last_header h [] = h"
| "last_header h (Header s # ls) = last_header s ls"
| "last_header h (Item x # ls) = last_header h ls"

text \<open>An item as the servers send them: an object without a category or with a text for one.\<close>

definition plain_item :: "jsval \<Rightarrow> bool" where
  "plain_item x = (\<not> nullish x \<and> (case js_prop x ''category'' of JStr s \<Rightarrow> True | v \<Rightarrow> falsy v))"

definition category_text :: "jsval \<Rightarrow> string" where
  "category_text x = js_to_string (item_category x)"

lemma plain_category: "plain_item x \<Longrightarrow> item_category x = JStr (category_text x)"
  by (auto simp: plain_item_def item_category_def category_text_def Let_def split: jsval.splits)

lemma menu_append:
  "labelled h (ls @ ms) = labelled h ls @ labelled (last_header h ls) ms"
  "headers (ls @ ms) = headers ls @ headers ms"
  "last_header h (ls @ ms) = last_header (last_header h ls) ms"
  by (induction h ls rule: labelled.induct) simp_all

lemma render_loop:
  assumes "list_all plain_item items"
  shows "\<exists>ms. js_for render_item items (ul, JStr c) = Done (ul @ ms, JStr (last_header c ms)) \<and>
     labelled c ms = map (\<lambda>x. (category_text x, x)) items \<and>
     c # headers ms = remdups_adj (c # map category_text items)"
  using assms
proof (induction items arbitrary: ul c)
  case Nil
  then show ?case by (intro exI [of _ "[]"]) simp
next
  case (Cons x items)
  let ?k = "category_text x"
  let ?new = "(if ?k = c then [Item x] else [Header ?k, Item x])"
  have x: "render_item x (ul, JStr c) = Done (ul @ ?new, JStr ?k)"
    using Cons.prems by (auto simp: render_item_def plain_category plain_item_def Let_def)
  from Cons obtain ms where ms: "js_for render_item items (ul @ ?new, JStr ?k) = Done ((ul @ ?new) @ ms, JStr (last_header ?k ms))"
      "labelled ?k ms = map (\<lambda>x. (category_text x, x)) items"
      "?k # headers ms = remdups_adj (?k # map category_text items)"
    by fastforce
  show ?case
    by (rule exI [of _ "?new @ ms"]) (use x ms in \<open>auto simp: menu_append\<close>)
qed

section \<open>Properties\<close>

text \<open>
  A menu of completions shows all items in their order, each under the header of its own
  category (the items before the first header have none), and it has a header exactly where
  the category changes.
\<close>

lemma menu_groups_items:
  assumes "list_all plain_item items"
  shows "\<exists>ul c. renderMenu items = Done (ul, c) \<and>
     labelled [] ul = map (\<lambda>x. (category_text x, x)) items \<and>
     headers ul = tl (remdups_adj ([] # map category_text items))"
proof -
  from render_loop [OF assms, of "[]" "[]"] obtain ms where
    "js_for render_item items ([], JStr []) = Done (ms, JStr (last_header [] ms))"
    "labelled [] ms = map (\<lambda>x. (category_text x, x)) items" "[] # headers ms = remdups_adj ([] # map category_text items)"
    by auto
  then show ?thesis by (auto simp: renderMenu_def) (metis list.sel(3))
qed

theorem menu_groups_items_witness:
  "\<exists>ul c. renderMenu [JObj [(''label'', JStr ''a'')], JObj [(''label'', JStr ''b''), (''category'', JStr ''k'')],
      JObj [(''label'', JStr ''c''), (''category'', JStr ''k'')]] = Done (ul, c) \<and> headers ul = [''k'']"
proof -
  have "list_all plain_item [JObj [(''label'', JStr ''a'')], JObj [(''label'', JStr ''b''), (''category'', JStr ''k'')],
      JObj [(''label'', JStr ''c''), (''category'', JStr ''k'')]]"
    by (simp add: plain_item_def)
  from menu_groups_items [OF this] show ?thesis by (auto simp: category_text_def item_category_def Let_def)
qed

lemma gm_run_sent: "gm_sent (gm_run es) = concat (map asks es)" "gm_native (gm_run es) = []"
proof -
  have answer: "gm_sent (final_state (gm_answer k a p)) = gm_sent p" "gm_native (final_state (gm_answer k a p)) = gm_native p" for k a p
    by (simp_all add: gm_answer_def status_success_def flash_success_def language_changed_def showStatus_def showStatus2_def
        with_val_def Let_def split: gm_kont.split option.split sum.split)
  have "gm_sent (gm_step p e) = gm_sent p @ asks e \<and> gm_native (gm_step p e) = gm_native p" for p e
    by (cases e) (simp_all add: answer submitted_def ajaxSubmit_def ajaxSubmit2_def ajaxSubmitWithConfirm_def gm_ajax_def
        onChangeLanguage_def pass_time_def Let_def)
  then have "gm_sent (foldl gm_step p es) = gm_sent p @ concat (map asks es) \<and>
      gm_native (foldl gm_step p es) = gm_native p" for p
    by (induction es arbitrary: p) simp_all
  then show "gm_sent (gm_run es) = concat (map asks es)" "gm_native (gm_run es) = []"
    by (simp_all add: gm_run_def gm_init_def)
qed

text \<open>
  C32. Whatever the sequence of events, the console sends one request for every change of
  language and every submission, in their order, except the submissions that were declined, and
  the browser never submits a form itself.
\<close>

theorem submissions_sent_once:
  "gm_sent (gm_run es) = concat (map asks es) \<and> gm_native (gm_run es) = []"
  by (simp add: gm_run_sent)

text \<open>
  A flash line that replaces another one is hidden by the timer of the other: it is shown for
  less than the two seconds its own timer allows.
\<close>

lemma flash_hidden_early:
  fixes f g d
  assumes "0 < d" and "d < 2000"
  defines "p \<equiv> gm_run [SubmitFlash f, SubmitFlash g, GmAnswer 0 None, Wait d, GmAnswer 0 None]"
  shows "fl_shown (gm_flash p) \<and> \<not> fl_shown (gm_flash (gm_step p (Wait (2000 - d)))) \<and>
    list_ex (\<lambda>t. gm_now (gm_step p (Wait (2000 - d))) < t) (gm_timers (gm_step p (Wait (2000 - d))))"
  using assms
  by (simp add: gm_run_def gm_init_def submitted_def ajaxSubmit2_def gm_ajax_def gm_answer_def showStatus2_def pass_time_def)

text \<open>Nothing fills the cache, so every search asks the server, unless its key is an inherited name.\<close>

lemma completion_fetches:
  "\<not> List.member inherited_names (url @ term) \<Longrightarrow>
     complete_source [] url term = Fetch (''/config/complete/'' @ url) (JObj [(''term'', JStr term)])"
  by (simp add: complete_source_def)

end
