(* ===== verification/Form_Data.thy ===== *)
theory Form_Data
  imports Session
begin

text \<open>
  How the game master console writes the data of its requests: the part of jQuery that turns the
  fields of a form or an object into the text of a request (\<open>serializeArray\<close>, \<open>serialize\<close>,
  \<open>jQuery.param\<close> and \<open>buildParams\<close> of \<open>app/gm/app/assets/javascripts/jquery-1.9.1.js\<close>), on which
  \<open>ajaxSubmit\<close> and its variants rely, and the reading of such a text, the format of HTML forms.

  A field is the record \<open>control\<close>. Texts are bytes of UTF-8, which is what escapes are made of.
\<close>

section \<open>Fields of a form\<close>

text \<open>What \<open>val()\<close> returns: nothing, a text, or the chosen texts of a menu with many choices.\<close>

datatype control_value = NoValue | OneValue string | ManyValues "string list"

record control =
  ct_name :: string
  ct_disabled :: bool
  ct_node :: string
  ct_type :: string
  ct_checked :: bool
  ct_value :: control_value

definition lower :: "char \<Rightarrow> char" where
  "lower c = (let n = of_char c :: nat in if 65 \<le> n \<and> n \<le> 90 then char_of (n + 32) else c)"

definition starts_with :: "string \<Rightarrow> string \<Rightarrow> bool" where
  "starts_with p s = (take (length p) s = p)"

definition submittable_node :: "string \<Rightarrow> bool" where
  "submittable_node node = list_ex (\<lambda>p. starts_with p (map lower node)) [''input'', ''select'', ''textarea'', ''keygen'']"

definition submitter_type :: "string \<Rightarrow> bool" where
  "submitter_type ty = List.member [''submit'', ''button'', ''image'', ''reset'', ''file''] (map lower ty)"

definition checkable_type :: "string \<Rightarrow> bool" where
  "checkable_type ty = List.member [''checkbox'', ''radio''] (map lower ty)"

definition successful :: "control \<Rightarrow> bool" where
  "successful c =
     (ct_name c \<noteq> [] \<and> \<not> ct_disabled c \<and> submittable_node (ct_node c) \<and> \<not> submitter_type (ct_type c) \<and>
      (ct_checked c \<or> \<not> checkable_type (ct_type c)))"

text \<open>Line ends become a carriage return and a line feed.\<close>

fun crlf :: "string \<Rightarrow> string" where
  "crlf [] = []"
| "crlf (c # cs) =
     (if c = CHR 0x0A then CHR 0x0D # CHR 0x0A # crlf cs
      else if c = CHR 0x0D \<and> cs \<noteq> [] \<and> hd cs = CHR 0x0A then crlf cs
      else c # crlf cs)"

definition serializeArray :: "control list \<Rightarrow> (string \<times> string) list" where
  "serializeArray cs =
     concat (map (\<lambda>c. case ct_value c of
                         NoValue \<Rightarrow> []
                       | OneValue v \<Rightarrow> [(ct_name c, crlf v)]
                       | ManyValues vs \<Rightarrow> map (\<lambda>v. (ct_name c, crlf v)) vs)
       (filter successful cs))"

section \<open>The text of a request\<close>

definition unreserved :: "char \<Rightarrow> bool" where
  "unreserved c =
     (let n = of_char c :: nat
      in 48 \<le> n \<and> n \<le> 57 \<or> 65 \<le> n \<and> n \<le> 90 \<or> 97 \<le> n \<and> n \<le> 122 \<or>
         List.member [0x2D, 0x5F, 0x2E, 0x21, 0x7E, 0x2A, 0x27, 0x28, 0x29] n)"

definition hex_digit :: "nat \<Rightarrow> char" where
  "hex_digit n = char_of (if n < 10 then 48 + n else 55 + n)"

definition encode_char :: "char \<Rightarrow> string" where
  "encode_char c =
     (if unreserved c then [c]
      else [CHR ''%'', hex_digit (of_char c div 16), hex_digit (of_char c mod 16)])"

definition encodeURIComponent :: "string \<Rightarrow> string" where
  "encodeURIComponent s = concat (map encode_char s)"

fun replace_r20 :: "string \<Rightarrow> string" where
  "replace_r20 [] = []"
| "replace_r20 (c # cs) =
     (if take 3 (c # cs) = ''%20'' then CHR ''+'' # replace_r20 (drop 2 cs) else c # replace_r20 cs)"

definition param_text :: "(string \<times> string) list \<Rightarrow> string" where
  "param_text ps =
     replace_r20 (js_join ''&'' (map (\<lambda>(k, v). encodeURIComponent k @ ''='' @ encodeURIComponent v) ps))"

definition serialize :: "control list \<Rightarrow> string" where
  "serialize cs = param_text (serializeArray cs)"

text \<open>
  The names and values \<open>jQuery.param\<close> makes of an object, in order. An element of an array that is not an object gets no index in its name.
\<close>

definition param_value :: "jsval \<Rightarrow> string" where
  "param_value v = (if nullish v then [] else js_to_string v)"

definition ends_with_brackets :: "string \<Rightarrow> bool" where
  "ends_with_brackets s = (length s \<ge> 2 \<and> drop (length s - 2) s = ''[]'')"

function buildParams :: "string \<Rightarrow> jsval \<Rightarrow> (string \<times> string) list" where
  "buildParams prefix (JArr xs) =
     concat (map (\<lambda>(i, v).
       if ends_with_brackets prefix then [(prefix, param_value v)]
       else buildParams (prefix @ ''['' @ (if js_typeof v = ''object'' then string_of_nat i else []) @ '']'') v)
     (zip [0 ..< length xs] xs))"
| "buildParams prefix (JObj kvs) =
     concat (map (\<lambda>(name, v). buildParams (prefix @ ''['' @ name @ '']'') v) kvs)"
| "buildParams prefix JUndef = [(prefix, param_value JUndef)]"
| "buildParams prefix JNull = [(prefix, param_value JNull)]"
| "buildParams prefix (JBool b) = [(prefix, param_value (JBool b))]"
| "buildParams prefix JNaN = [(prefix, param_value JNaN)]"
| "buildParams prefix (JNum n) = [(prefix, param_value (JNum n))]"
| "buildParams prefix (JStr s) = [(prefix, param_value (JStr s))]"
| "buildParams prefix (JDate d s) = [(prefix, param_value (JDate d s))]"
  by pat_completeness auto
termination
proof (relation "measure (\<lambda>(prefix, v). size v)", goal_cases)
  case (2 prefix xs z i v)
  then have "v \<in> set xs" by (auto dest: set_zip_rightD)
  then show ?case by (simp add: size_list_estimation' less_Suc_eq_le)
next
  case (3 prefix kvs z name v)
  then show ?case by (auto simp: less_Suc_eq_le intro: size_list_estimation')
qed simp

definition jquery_param :: "jsobj \<Rightarrow> (string \<times> string) list" where
  "jquery_param kvs = concat (map (\<lambda>(prefix, v). buildParams prefix v) kvs)"

section \<open>Reading a request\<close>

text \<open>The format of HTML forms: plus signs are spaces, escapes are bytes; a broken escape has no reading.\<close>

definition read_text :: "string \<Rightarrow> string option" where
  "read_text s = decode_uri (map (\<lambda>c. if c = CHR ''+'' then CHR '' '' else c) s)"

definition read_pair :: "string \<Rightarrow> (string \<times> string) option" where
  "read_pair p =
     (case (read_text (takeWhile (\<lambda>c. c \<noteq> CHR ''='') p), read_text (drop 1 (dropWhile (\<lambda>c. c \<noteq> CHR ''='') p))) of
        (Some k, Some v) \<Rightarrow> Some (k, v)
      | _ \<Rightarrow> None)"

definition read_form :: "string \<Rightarrow> (string \<times> string) option list" where
  "read_form s = (if s = [] then [] else map read_pair (js_split (CHR ''&'') s))"

section \<open>Escapes\<close>

lemma hex_digit_val: "n < 16 \<Longrightarrow> hex_val (hex_digit n) = Some n"
  by (auto simp: hex_val_def hex_digit_def Let_def)

lemma hex_digit_letter: "n < 16 \<Longrightarrow> hex_digit n \<notin> {CHR ''%'', CHR ''+'', CHR ''='', CHR ''&''}"
  using hex_digit_val [of n] by (auto simp: hex_val_def)

lemma hex_digit_inj: "m < 16 \<Longrightarrow> n < 16 \<Longrightarrow> hex_digit m = hex_digit n \<longleftrightarrow> m = n"
  using hex_digit_val by (metis option.inject)

lemma unreserved_letter: "unreserved c \<Longrightarrow> c \<notin> {CHR ''%'', CHR ''+'', CHR ''='', CHR ''&'', CHR '' ''}"
  by (auto simp: unreserved_def)

definition form_char :: "char \<Rightarrow> string" where
  "form_char c = (if c = CHR '' '' then ''+'' else encode_char c)"

lemma replace_plain: "c \<noteq> CHR ''%'' \<Longrightarrow> replace_r20 (c # cs) = c # replace_r20 cs"
  by simp

lemma replace_escape:
  assumes "a \<noteq> CHR ''%''" "b \<noteq> CHR ''%''"
  shows "replace_r20 (CHR ''%'' # a # b # t) =
    (if a = CHR ''2'' \<and> b = CHR ''0'' then CHR ''+'' # replace_r20 t else CHR ''%'' # a # b # replace_r20 t)"
proof -
  have "replace_r20 (a # b # t) = a # b # replace_r20 t" using assms by (simp only: replace_plain not_False_eq_True)
  then show ?thesis
    by (subst replace_r20.simps(2)) (simp add: numeral_3_eq_3 numeral_2_eq_2 del: replace_r20.simps(2))
qed

lemma nibbles: "of_char (c :: char) div 16 < (16 :: nat)" "of_char (c :: char) mod 16 < (16 :: nat)"
  using nat_of_char_less_256 [of c] by (simp_all add: less_mult_imp_div_less)

text \<open>The replacement of \<open>%20\<close> in a finished text is that of every single space.\<close>

lemma replace_char: "replace_r20 (encode_char c @ t) = form_char c @ replace_r20 t"
proof (cases "unreserved c")
  case True
  then show ?thesis using unreserved_letter [OF True] by (simp add: encode_char_def form_char_def replace_plain)
next
  case False
  have whole: "c = char_of (16 * (of_char c div 16) + of_char c mod 16 :: nat)" by simp
  have space: "c = CHR '' '' \<longleftrightarrow> hex_digit (of_char c div 16) = CHR ''2'' \<and> hex_digit (of_char c mod 16) = CHR ''0''"
  proof
    assume "hex_digit (of_char c div 16) = CHR ''2'' \<and> hex_digit (of_char c mod 16) = CHR ''0''"
    moreover have "CHR ''2'' = hex_digit 2" "CHR ''0'' = hex_digit 0" by code_simp+
    ultimately have "of_char c div 16 = (2 :: nat)" "of_char c mod 16 = (0 :: nat)"
      using hex_digit_inj nibbles [of c] by simp_all
    then have "c = char_of (32 :: nat)" using whole by simp
    moreover have "char_of (32 :: nat) = CHR '' ''" by code_simp
    ultimately show "c = CHR '' ''" by simp
  next
    assume c: "c = CHR '' ''"
    show "hex_digit (of_char c div 16) = CHR ''2'' \<and> hex_digit (of_char c mod 16) = CHR ''0''"
      unfolding c by code_simp
  qed
  have "hex_digit (of_char c div 16) \<noteq> CHR ''%''" "hex_digit (of_char c mod 16) \<noteq> CHR ''%''"
    using hex_digit_letter nibbles [of c] by blast+
  note escape = replace_escape [OF this, of t]
  have "encode_char c @ t = CHR ''%'' # hex_digit (of_char c div 16) # hex_digit (of_char c mod 16) # t"
    using False by (simp add: encode_char_def)
  then have "replace_r20 (encode_char c @ t) =
      (if c = CHR '' '' then CHR ''+'' # replace_r20 t
       else CHR ''%'' # hex_digit (of_char c div 16) # hex_digit (of_char c mod 16) # replace_r20 t)"
    unfolding space by (simp only: escape)
  then show ?thesis using False by (simp add: form_char_def encode_char_def)
qed

lemma replace_encoded: "replace_r20 (encodeURIComponent s @ t) = concat (map form_char s) @ replace_r20 t"
  by (induction s) (simp_all add: encodeURIComponent_def replace_char)

definition form_text :: "string \<Rightarrow> string" where
  "form_text s = concat (map form_char s)"

lemma param_text_eq: "param_text ps = js_join ''&'' (map (\<lambda>(k, v). form_text k @ ''='' @ form_text v) ps)"
proof -
  have pair: "replace_r20 (encodeURIComponent k @ CHR ''='' # encodeURIComponent v @ t) = form_text k @ CHR ''='' # form_text v @ replace_r20 t"
    for k v t by (simp add: replace_encoded replace_plain form_text_def)
  show ?thesis
    unfolding param_text_def
  proof (induction ps rule: induct_list012)
    case (2 p)
    then show ?case using pair [of "fst p" "snd p" "[]"] by (simp add: case_prod_unfold)
  next
    case (3 p q ps)
    then show ?case using pair [of "fst p" "snd p"] by (simp add: case_prod_unfold replace_plain)
  qed simp
qed

text \<open>No separator is left in an escaped text, and it reads back.\<close>

lemma form_text_letters: "x \<in> set (form_text s) \<Longrightarrow> x \<noteq> CHR ''='' \<and> x \<noteq> CHR ''&''"
  using hex_digit_letter nibbles unreserved_letter
  by (auto simp: form_text_def form_char_def encode_char_def split: if_splits)

lemma read_char:
  "decode_uri (map (\<lambda>c. if c = CHR ''+'' then CHR '' '' else c) (form_char c) @ t) = map_option (\<lambda>u. c # u) (decode_uri t)"
proof (cases "c = CHR '' ''")
  case True
  then show ?thesis by (simp add: form_char_def)
next
  case space: False
  show ?thesis
  proof (cases "unreserved c")
    case True
    then show ?thesis using space unreserved_letter [OF True] by (simp add: form_char_def encode_char_def)
  next
    case False
    have "hex_digit (of_char c div 16) \<noteq> CHR ''+''" "hex_digit (of_char c mod 16) \<noteq> CHR ''+''"
      using hex_digit_letter nibbles [of c] by blast+
    moreover have "char_of (16 * (of_char c div 16) + of_char c mod 16 :: nat) = c" by simp
    ultimately show ?thesis
      using False space hex_digit_val [OF nibbles(1), of c] hex_digit_val [OF nibbles(2), of c]
      by (simp add: form_char_def encode_char_def)
  qed
qed

lemma read_form_text: "read_text (form_text s) = Some s"
  by (induction s) (simp_all add: read_text_def form_text_def read_char)

lemma read_param_pair: "read_pair (form_text k @ ''='' @ form_text v) = Some (k, v)"
proof -
  have k: "CHR ''='' \<notin> set (form_text k)" using form_text_letters by blast
  have "takeWhile (\<lambda>c. c \<noteq> CHR ''='') (form_text k @ ''='' @ form_text v) = form_text k"
    using k by (subst takeWhile_append2) auto
  moreover have "drop 1 (dropWhile (\<lambda>c. c \<noteq> CHR ''='') (form_text k @ ''='' @ form_text v)) = form_text v"
    using k by (subst dropWhile_append2) auto
  ultimately show ?thesis by (simp only: read_pair_def read_form_text) simp
qed

theorem read_param_text: "read_form (param_text ps) = map Some ps"
proof (cases "ps = []")
  case True
  then show ?thesis by (simp add: param_text_eq read_form_def)
next
  case False
  let ?parts = "map (\<lambda>(k, v). form_text k @ ''='' @ form_text v) ps"
  have "\<forall>x\<in>set ?parts. CHR ''&'' \<notin> set x" using form_text_letters by fastforce
  then have "js_split (CHR ''&'') (js_join ''&'' ?parts) = ?parts" using False by (intro split_join) simp_all
  moreover have "js_join ''&'' ?parts \<noteq> []" using False by (cases ps; cases "tl ps") auto
  ultimately show ?thesis
    by (simp add: read_form_def param_text_eq case_prod_unfold read_param_pair [simplified])
qed

corollary read_serialized: "read_form (serialize cs) = map Some (serializeArray cs)"
  by (simp add: serialize_def read_param_text)

end
