(* ===== verification/Form_Submission.thy ===== *)
theory Form_Submission
  imports GM_Forms Form_Data
begin

text \<open>
  The submissions of the game master console (\<open>GM_Forms\<close>) together with the text jQuery makes of
  their fields (\<open>Form_Data\<close>): \<open>$(this).serialize()\<close> is taken when the form is submitted, and the
  request carries it to the address of the form.
\<close>

definition form_of :: "string \<Rightarrow> control list \<Rightarrow> form" where
  "form_of action cs = \<lparr>fm_action = action, fm_serialized = serialize cs\<rparr>"

text \<open>How a form is bound: plainly, with the flash line, or with a question and its answer.\<close>

datatype binding = Plain | Flashing | Asking string bool

datatype console_event =
    SubmitFields binding string "control list"
  | Answered nat "jsval option"
  | Passed nat
  | Language string

fun event_of :: "console_event \<Rightarrow> gm_event" where
  "event_of (SubmitFields Plain a cs) = Submit (form_of a cs)"
| "event_of (SubmitFields Flashing a cs) = SubmitFlash (form_of a cs)"
| "event_of (SubmitFields (Asking q ok) a cs) = SubmitConfirm q ok (form_of a cs)"
| "event_of (Answered n r) = GmAnswer n r"
| "event_of (Passed d) = Wait d"
| "event_of (Language l) = ChangeLanguage l"

text \<open>What the user meant to send: the address and the successful fields of every form not declined.\<close>

fun meant :: "console_event \<Rightarrow> (string \<times> (string \<times> string) list) list" where
  "meant (SubmitFields (Asking q ok) a cs) = (if ok then [(a, serializeArray cs)] else [])"
| "meant (SubmitFields b a cs) = [(a, serializeArray cs)]"
| "meant _ = []"

definition read_request :: "gm_request \<Rightarrow> (string \<times> (string \<times> string) option list) list" where
  "read_request q = (case gq_data q of None \<Rightarrow> [] | Some d \<Rightarrow> [(gq_url q, read_form d)])"

lemma read_asks: "concat (map read_request (asks (event_of e))) = map (\<lambda>(a, ps). (a, map Some ps)) (meant e)"
  by (cases e rule: meant.cases) (auto simp: read_request_def post_form_def form_of_def read_serialized)

text \<open>
  C31. Whatever is submitted, answered and waited for, in any order, the requests of the console that
  carry data read back, in order, as exactly the successful fields of the forms that were not
  declined: their names and values, with every character, each at the address of its form.
\<close>
theorem submitted_fields_read_back:
  "concat (map read_request (gm_sent (gm_run (map event_of es)))) =
     map (\<lambda>(a, ps). (a, map Some ps)) (concat (map meant es))"
proof -
  have "concat (map read_request (concat (map asks (map event_of es)))) =
      map (\<lambda>(a, ps). (a, map Some ps)) (concat (map meant es))"
    by (induction es) (simp_all add: read_asks)
  then show ?thesis by (simp add: gm_run_sent(1))
qed

end
