(* ===== verification/Gift_Form.thy ===== *)
theory Gift_Form
  imports Prelude
begin

text \<open>
  The form that drafts a gift on three pages of the game master console: the mail to a group
  (\<open>app/gm/app/views/group_mail/_form.html.erb\<close>), the reward of gift keys
  (\<open>cdkeys/manage.html.erb\<close>) and the batch of gifts (\<open>data_batch/edit.html.erb\<close>). Each page
  carries its own copy of the same script: a type is picked from a menu, then its parameters
  one field after the other, and the button \<open>#give_submit\<close> appears when the last is in.

  The state is the record \<open>gift_form\<close>: the variable \<open>selectedEditItem\<close>, the fields by number
  (the ids \<open>give_param_name1\<close> to \<open>3\<close>), what is shown, and the handlers each field has got.
  A selector for a field that is not on the page changes nothing (\<open>put\<close>). Texts of the page in
  the operator's language (\<open>t :item\<close>) are given by a parameter \<open>t\<close>.

  The user's events are those the page lets through: one can only focus a field that is shown
  and only type or pick in the field that has the focus; the picked item has an identifier.
  \<open>PickParam\<close> and \<open>PickType\<close> are choices in the menu of the completing fields, which also puts
  the item's text into the field; \<open>TypeParam\<close> is a new text, entered when the field is left.
\<close>

section \<open>Items and fields\<close>

record edit_param =
  ep_url :: string
  ep_name :: string

record edit_item =
  ei_id :: string
  ei_value :: string
  ei_params :: "edit_param list"

record gift_form =
  selectedEditItem :: "edit_item option"
  give_type :: string
  give_type_name :: string
  give_type_tick :: bool
  give_submit :: bool
  give_param_label :: "nat \<Rightarrow> string"
  give_param_name :: "nat \<Rightarrow> string"
  give_param :: "nat \<Rightarrow> string"
  give_param_div :: "nat \<Rightarrow> bool"
  give_param_tick :: "nat \<Rightarrow> bool"
  change_handlers :: "nat \<Rightarrow> string list"
  completes :: "nat \<Rightarrow> string option"
  focused :: "nat option"

text \<open>Writing the element number \<open>i\<close> of a family; the pages have numbers 1 to 3.\<close>

definition put :: "nat \<Rightarrow> 'a \<Rightarrow> (nat \<Rightarrow> 'a) \<Rightarrow> nat \<Rightarrow> 'a" where
  "put i v f = (if 1 \<le> i \<and> i \<le> 3 then f(i := v) else f)"

text \<open>The page as it is loaded: every field empty and hidden, the labels of the template.\<close>

definition gift_init :: "(nat \<Rightarrow> string) \<Rightarrow> gift_form" where
  "gift_init labels =
     \<lparr>selectedEditItem = None, give_type = [], give_type_name = [], give_type_tick = False, give_submit = False,
      give_param_label = labels, give_param_name = (\<lambda>_. []), give_param = (\<lambda>_. []), give_param_div = (\<lambda>_. False),
      give_param_tick = (\<lambda>_. False), change_handlers = (\<lambda>_. []), completes = (\<lambda>_. None), focused = None\<rparr>"

text \<open>What can be given on the pages, and how a field that is typed in is checked there.\<close>

definition edits_mail :: "(string \<Rightarrow> string) \<Rightarrow> edit_item list" where
  "edits_mail t =
     [\<lparr>ei_id = ''give_equip'', ei_value = t ''equip'',
       ei_params = [\<lparr>ep_url = ''equip'', ep_name = t ''equip_tid''\<rparr>, \<lparr>ep_url = ''level'', ep_name = t ''level''\<rparr>]\<rparr>,
      \<lparr>ei_id = ''give_item'', ei_value = t ''item'',
       ei_params = [\<lparr>ep_url = ''item'', ep_name = t ''item_tid''\<rparr>, \<lparr>ep_url = ''num'', ep_name = t ''count''\<rparr>]\<rparr>,
      \<lparr>ei_id = ''give_garment'', ei_value = t ''garment'',
       ei_params = [\<lparr>ep_url = ''garment'', ep_name = t ''garment_tid''\<rparr>]\<rparr>]"

definition counted_item :: "(string \<Rightarrow> string) \<Rightarrow> string \<Rightarrow> string \<Rightarrow> string \<Rightarrow> edit_item" where
  "counted_item t i url tid =
     \<lparr>ei_id = i, ei_value = t i,
      ei_params = [\<lparr>ep_url = url, ep_name = t tid\<rparr>, \<lparr>ep_url = ''number'', ep_name = t ''count''\<rparr>]\<rparr>"

definition edits_batch :: "(string \<Rightarrow> string) \<Rightarrow> edit_item list" where
  "edits_batch t =
     [counted_item t ''give_item'' ''item'' ''item_tid'', counted_item t ''give_equip'' ''equip'' ''equip_tid'',
      counted_item t ''give_garment'' ''garment'' ''garment_tid'']"

definition edits_cdkeys :: "(string \<Rightarrow> string) \<Rightarrow> edit_item list" where
  "edits_cdkeys t =
     [counted_item t ''give_item'' ''item'' ''item_tid'', counted_item t ''give_equip'' ''equip'' ''equip_tid'',
      counted_item t ''give_garment'' ''garment'' ''garment_tid'']"

definition check_mail_param :: "string \<Rightarrow> (int \<Rightarrow> bool) option" where
  "check_mail_param url =
     (if url = ''num'' then Some (\<lambda>n. n > 0) else if url = ''level'' then Some (\<lambda>n. n > 0 \<and> n \<le> 70) else None)"

definition check_number_param :: "string \<Rightarrow> (int \<Rightarrow> bool) option" where
  "check_number_param url = (if url = ''number'' then Some (\<lambda>n. n > 0) else None)"

section \<open>From field to field\<close>

definition show_next :: "nat \<Rightarrow> gift_form \<Rightarrow> gift_form" where
  "show_next idx f =
     (case selectedEditItem f of
        None \<Rightarrow> f
      | Some item \<Rightarrow>
          if length (ei_params item) > idx
          then f\<lparr>give_param_label := put (idx + 1) (ep_name (ei_params item ! idx)) (give_param_label f),
                 give_param_div := put (idx + 1) True (give_param_div f)\<rparr>
          else f\<lparr>give_submit := True\<rparr>)"

definition nextItem :: "nat \<Rightarrow> gift_form \<Rightarrow> gift_form" where
  "nextItem idx f = show_next idx (f\<lparr>give_param_tick := put idx True (give_param_tick f)\<rparr>)"

text \<open>On the page of the gift keys only items have a count.\<close>

definition nextItem_cdkeys :: "nat \<Rightarrow> gift_form \<Rightarrow> gift_form" where
  "nextItem_cdkeys idx f0 =
     (let f = f0\<lparr>give_param_tick := put idx True (give_param_tick f0)\<rparr>
      in if idx = 1 \<and> give_type f \<noteq> ''give_item'' then f\<lparr>give_submit := True\<rparr> else show_next idx f)"

fun clear_from :: "nat \<Rightarrow> nat \<Rightarrow> gift_form \<Rightarrow> gift_form" where
  "clear_from idx 0 f = f"
| "clear_from idx (Suc i) f =
     (if Suc i > idx
      then clear_from idx i
             (f\<lparr>give_param_tick := put (Suc i) False (give_param_tick f),
                give_param_div := put (Suc i) False (give_param_div f),
                give_param_name := put (Suc i) [] (give_param_name f),
                give_param := put (Suc i) [] (give_param f)\<rparr>)
      else f)"

definition currentItem :: "nat \<Rightarrow> gift_form \<Rightarrow> gift_form" where
  "currentItem idx f0 =
     (let f = clear_from idx 3 f0
      in f\<lparr>give_param_tick := put idx False (give_param_tick f), give_submit := False\<rparr>)"

section \<open>The handlers of the fields\<close>

text \<open>
  Every choice of a type calls \<open>initConfigCompletes\<close>, which adds a \<open>change\<close> handler to a field
  that is typed in and turns the others into completing fields; handlers are never taken off.
\<close>

definition install :: "(string \<Rightarrow> (int \<Rightarrow> bool) option) \<Rightarrow> nat \<Rightarrow> gift_form \<Rightarrow> gift_form" where
  "install check idx f =
     (case selectedEditItem f of
        None \<Rightarrow> f
      | Some item \<Rightarrow>
          if length (ei_params item) > idx - 1
          then let url = ep_url (ei_params item ! (idx - 1))
               in if check url \<noteq> None
                  then f\<lparr>change_handlers := (change_handlers f)(idx := change_handlers f idx @ [url])\<rparr>
                  else f\<lparr>completes := (completes f)(idx := Some url)\<rparr>
          else f)"

definition initConfigCompletes :: "(string \<Rightarrow> (int \<Rightarrow> bool) option) \<Rightarrow> gift_form \<Rightarrow> gift_form" where
  "initConfigCompletes check f = fold (install check) [1, 2, 3] f"

definition on_change ::
  "(string \<Rightarrow> (int \<Rightarrow> bool) option) \<Rightarrow> (nat \<Rightarrow> gift_form \<Rightarrow> gift_form) \<Rightarrow> nat \<Rightarrow> string \<Rightarrow> gift_form \<Rightarrow> gift_form" where
  "on_change check next idx url f =
     (case js_parse_int (give_param_name f idx) of
        None \<Rightarrow> currentItem idx f
      | Some n \<Rightarrow>
          (case check url of
             None \<Rightarrow> f
           | Some good \<Rightarrow>
               if good n then next idx (f\<lparr>give_param := put idx (string_of_int n) (give_param f)\<rparr>)
               else currentItem idx f))"

text \<open>The menu of the types, by position in the list of items.\<close>

definition select_type ::
  "edit_item list \<Rightarrow> (string \<Rightarrow> (int \<Rightarrow> bool) option) \<Rightarrow> (nat \<Rightarrow> gift_form \<Rightarrow> gift_form) \<Rightarrow> nat \<Rightarrow> gift_form \<Rightarrow> gift_form" where
  "select_type edits check next k f0 =
     (let item = edits ! k;
          f1 = initConfigCompletes check (f0\<lparr>selectedEditItem := Some item\<rparr>);
          f2 = next 0 (f1\<lparr>give_type := ei_id item, give_type_tick := True\<rparr>)
      in f2\<lparr>give_type_name := ei_value item\<rparr>)"

definition focus_type :: "gift_form \<Rightarrow> gift_form" where
  "focus_type f = (currentItem 0 (f\<lparr>give_type_tick := False\<rparr>))\<lparr>focused := Some 0\<rparr>"

datatype gift_event =
    FocusType
  | PickType nat
  | FocusParam nat
  | PickParam nat string string
  | TypeParam nat string

definition gift_step ::
  "edit_item list \<Rightarrow> (string \<Rightarrow> (int \<Rightarrow> bool) option) \<Rightarrow> (nat \<Rightarrow> gift_form \<Rightarrow> gift_form) \<Rightarrow> gift_event \<Rightarrow> gift_form \<Rightarrow> gift_form" where
  "gift_step edits check next e f =
     (case e of
        FocusType \<Rightarrow> focus_type f
      | PickType k \<Rightarrow> if focused f = Some 0 \<and> k < length edits then select_type edits check next k f else f
      | FocusParam i \<Rightarrow>
          if 1 \<le> i \<and> i \<le> 3 \<and> give_param_div f i
          then (if completes f i \<noteq> None then currentItem i f else f)\<lparr>focused := Some i\<rparr>
          else f
      | PickParam i v name \<Rightarrow>
          if 1 \<le> i \<and> focused f = Some i \<and> give_param_div f i \<and> completes f i \<noteq> None \<and> v \<noteq> []
          then let f' = next i (f\<lparr>give_param := put i v (give_param f)\<rparr>)
               in f'\<lparr>give_param_name := put i name (give_param_name f')\<rparr>
          else f
      | TypeParam i s \<Rightarrow>
          if 1 \<le> i \<and> focused f = Some i \<and> give_param_div f i
          then fold (on_change check next i) (change_handlers f i) (f\<lparr>give_param_name := put i s (give_param_name f)\<rparr>)
          else f)"

abbreviation mail_step :: "(string \<Rightarrow> string) \<Rightarrow> gift_event \<Rightarrow> gift_form \<Rightarrow> gift_form" where
  "mail_step t \<equiv> gift_step (edits_mail t) check_mail_param nextItem"

abbreviation batch_step :: "(string \<Rightarrow> string) \<Rightarrow> gift_event \<Rightarrow> gift_form \<Rightarrow> gift_form" where
  "batch_step t \<equiv> gift_step (edits_batch t) check_number_param nextItem"

abbreviation cdkeys_step :: "(string \<Rightarrow> string) \<Rightarrow> gift_event \<Rightarrow> gift_form \<Rightarrow> gift_form" where
  "cdkeys_step t \<equiv> gift_step (edits_cdkeys t) check_number_param nextItem_cdkeys"


section \<open>What the steps leave\<close>

lemma put_same [simp]: "put i v f j = (if j = i \<and> 1 \<le> i \<and> i \<le> 3 then v else f j)"
  by (simp add: put_def)

lemma clear_from_eq:
  "n \<le> 3 \<Longrightarrow> clear_from idx n f =
     f\<lparr>give_param_tick := (\<lambda>i. if idx < i \<and> i \<le> n then False else give_param_tick f i),
       give_param_div := (\<lambda>i. if idx < i \<and> i \<le> n then False else give_param_div f i),
       give_param_name := (\<lambda>i. if idx < i \<and> i \<le> n then [] else give_param_name f i),
       give_param := (\<lambda>i. if idx < i \<and> i \<le> n then [] else give_param f i)\<rparr>"
proof (induction n arbitrary: f)
  case 0
  show ?case by (cases f) (simp add: fun_eq_iff)
next
  case (Suc n)
  show ?case
  proof (cases "Suc n > idx")
    case True
    with Suc show ?thesis by (cases f) (auto simp: fun_eq_iff)
  next
    case False
    then show ?thesis by (cases f) (auto simp: fun_eq_iff)
  qed
qed

lemma currentItem_eq:
  "currentItem idx f =
     f\<lparr>give_param_tick := (\<lambda>i. if idx \<le> i \<and> 1 \<le> i \<and> i \<le> 3 then False else give_param_tick f i),
       give_param_div := (\<lambda>i. if idx < i \<and> i \<le> 3 then False else give_param_div f i),
       give_param_name := (\<lambda>i. if idx < i \<and> i \<le> 3 then [] else give_param_name f i),
       give_param := (\<lambda>i. if idx < i \<and> i \<le> 3 then [] else give_param f i),
       give_submit := False\<rparr>"
  by (cases f) (auto simp: currentItem_def clear_from_eq fun_eq_iff Let_def)

text \<open>A good value of a parameter, and a draft whose first parameters are good.\<close>

definition good_value :: "(string \<Rightarrow> (int \<Rightarrow> bool) option) \<Rightarrow> string \<Rightarrow> string \<Rightarrow> bool" where
  "good_value check url v =
     (case check url of
        None \<Rightarrow> v \<noteq> []
      | Some good \<Rightarrow> (case js_parse_int v of None \<Rightarrow> False | Some n \<Rightarrow> good n \<and> v = string_of_int n))"

definition url_of :: "edit_item \<Rightarrow> nat \<Rightarrow> string" where
  "url_of it i = ep_url (ei_params it ! (i - 1))"

definition filled_to :: "(string \<Rightarrow> (int \<Rightarrow> bool) option) \<Rightarrow> edit_item \<Rightarrow> nat \<Rightarrow> (nat \<Rightarrow> string) \<Rightarrow> bool" where
  "filled_to check it n ps = list_all (\<lambda>i. good_value check (url_of it i) (ps i)) [1 ..< Suc n]"

lemma filled_to_iff: "filled_to check it n ps = (\<forall>i. 1 \<le> i \<and> i \<le> n \<longrightarrow> good_value check (url_of it i) (ps i))"
  by (auto simp: filled_to_def list_all_iff)

lemma filled_to_cong: "(\<And>i. 1 \<le> i \<Longrightarrow> i \<le> n \<Longrightarrow> ps i = qs i) \<Longrightarrow> filled_to check it n ps = filled_to check it n qs"
  by (simp add: filled_to_iff)

lemma filled_to_le: "filled_to check it n ps \<Longrightarrow> m \<le> n \<Longrightarrow> filled_to check it m ps"
  by (simp add: filled_to_iff)

text \<open>What a page shows next when \<open>n\<close> parameters of the selected item are asked for.\<close>

definition advance :: "nat \<Rightarrow> edit_item \<Rightarrow> nat \<Rightarrow> gift_form \<Rightarrow> gift_form" where
  "advance n it idx f0 =
     (let f = f0\<lparr>give_param_tick := put idx True (give_param_tick f0)\<rparr>
      in if idx < n
         then f\<lparr>give_param_label := put (idx + 1) (ep_name (ei_params it ! idx)) (give_param_label f),
                give_param_div := put (idx + 1) True (give_param_div f)\<rparr>
         else f\<lparr>give_submit := True\<rparr>)"

definition handled :: "(string \<Rightarrow> (int \<Rightarrow> bool) option) \<Rightarrow> edit_item \<Rightarrow> gift_form \<Rightarrow> nat \<Rightarrow> bool" where
  "handled check it f i =
     (if check (url_of it i) = None then completes f i \<noteq> None \<and> change_handlers f i = []
      else completes f i = None \<and> change_handlers f i \<noteq> [] \<and> last (change_handlers f i) = url_of it i)"

text \<open>
  The contract of a page: its items ask for one to three parameters, a field is typed in for
  all items or picked for all items, and \<open>next\<close> goes on to the next parameter asked for.
\<close>

locale gift_page =
  fixes edits :: "edit_item list"
    and check :: "string \<Rightarrow> (int \<Rightarrow> bool) option"
    and "next" :: "nat \<Rightarrow> gift_form \<Rightarrow> gift_form"
    and needs :: "edit_item \<Rightarrow> nat"
  assumes needs_bounds: "it \<in> set edits \<Longrightarrow> 1 \<le> needs it \<and> needs it \<le> length (ei_params it) \<and> length (ei_params it) \<le> 3"
    and one_kind: "it \<in> set edits \<Longrightarrow> it' \<in> set edits \<Longrightarrow> 1 \<le> i \<Longrightarrow> i \<le> length (ei_params it) \<Longrightarrow>
      i \<le> length (ei_params it') \<Longrightarrow> (check (url_of it i) = None) = (check (url_of it' i) = None)"
    and next_advances: "selectedEditItem f = Some it \<Longrightarrow> it \<in> set edits \<Longrightarrow> give_type f = ei_id it \<Longrightarrow>
      idx \<le> needs it \<Longrightarrow> next idx f = advance (needs it) it idx f"
begin

text \<open>The handlers a field has got come from items of the page, the last one from the selected item.\<close>

definition handlers_ok :: "gift_form \<Rightarrow> bool" where
  "handlers_ok f =
     ((\<forall>i u. completes f i = Some u \<longrightarrow> (\<exists>it\<in>set edits. 1 \<le> i \<and> i \<le> length (ei_params it) \<and> url_of it i = u \<and> check u = None)) \<and>
      (\<forall>i. \<forall>u\<in>set (change_handlers f i).
         \<exists>it\<in>set edits. 1 \<le> i \<and> i \<le> length (ei_params it) \<and> url_of it i = u \<and> check u \<noteq> None))"

definition drafting :: "edit_item \<Rightarrow> gift_form \<Rightarrow> bool" where
  "drafting it f =
     (selectedEditItem f = Some it \<and> it \<in> set edits \<and> give_type f = ei_id it \<and>
      (\<forall>i. 1 \<le> i \<and> i \<le> length (ei_params it) \<longrightarrow> handled check it f i))"

definition gift_inv :: "gift_form \<Rightarrow> bool" where
  "gift_inv f =
     (handlers_ok f \<and>
      (\<forall>i. give_param_div f i \<longrightarrow>
         (\<exists>it. drafting it f \<and> 1 \<le> i \<and> i \<le> needs it \<and> filled_to check it (i - 1) (give_param f))) \<and>
      (give_submit f \<longrightarrow> (\<exists>it. drafting it f \<and> filled_to check it (needs it) (give_param f))) \<and>
      (focused f = Some 0 \<longrightarrow> \<not> give_submit f \<and> (\<forall>i. give_param_div f i \<longrightarrow> i = 1)))"

lemma gift_invI:
  assumes "handlers_ok f"
    and "\<And>i. give_param_div f i \<Longrightarrow>
         \<exists>it. drafting it f \<and> 1 \<le> i \<and> i \<le> needs it \<and> filled_to check it (i - 1) (give_param f)"
    and "give_submit f \<Longrightarrow> \<exists>it. drafting it f \<and> filled_to check it (needs it) (give_param f)"
    and "focused f = Some 0 \<Longrightarrow> \<not> give_submit f \<and> (\<forall>i. give_param_div f i \<longrightarrow> i = 1)"
  shows "gift_inv f"
  using assms by (auto simp: gift_inv_def)

lemma gift_init_inv: "gift_inv (gift_init labels)"
  by (simp add: gift_inv_def gift_init_def handlers_ok_def)

lemma drafting_unique: "drafting it f \<Longrightarrow> drafting it' f \<Longrightarrow> it = it'"
  by (simp add: drafting_def)

lemma currentItem_inv:
  assumes "gift_inv f" shows "gift_inv (currentItem idx f)"
proof (rule gift_invI)
  show "handlers_ok (currentItem idx f)"
    using assms by (simp add: gift_inv_def handlers_ok_def currentItem_eq)
next
  fix i assume shown: "give_param_div (currentItem idx f) i"
  then have "give_param_div f i" by (simp add: currentItem_eq split: if_splits)
  then obtain it where it: "drafting it f" "1 \<le> i" "i \<le> needs it" "filled_to check it (i - 1) (give_param f)"
    using assms by (auto simp: gift_inv_def)
  then have "i \<le> 3" using needs_bounds [of it] by (auto simp: drafting_def)
  with shown have "i \<le> idx" by (auto simp: currentItem_eq split: if_splits)
  then have "filled_to check it (i - 1) (give_param (currentItem idx f))"
    using it(4) by (auto simp: filled_to_iff currentItem_eq)
  moreover have "drafting it (currentItem idx f)"
    using it(1) by (simp add: drafting_def handled_def currentItem_eq)
  ultimately show "\<exists>it. drafting it (currentItem idx f) \<and> 1 \<le> i \<and> i \<le> needs it \<and>
      filled_to check it (i - 1) (give_param (currentItem idx f))"
    using it(2,3) by blast
next
  show "\<exists>it. drafting it (currentItem idx f) \<and> filled_to check it (needs it) (give_param (currentItem idx f))"
    if "give_submit (currentItem idx f)"
    using that by (simp add: currentItem_eq)
next
  show "\<not> give_submit (currentItem idx f) \<and> (\<forall>i. give_param_div (currentItem idx f) i \<longrightarrow> i = 1)"
    if "focused (currentItem idx f) = Some 0"
    using that assms by (auto simp: gift_inv_def currentItem_eq split: if_splits)
qed

lemma advance_fields [simp]:
  "give_param (advance n it idx f) = give_param f"
  "selectedEditItem (advance n it idx f) = selectedEditItem f"
  "give_type (advance n it idx f) = give_type f"
  "change_handlers (advance n it idx f) = change_handlers f"
  "completes (advance n it idx f) = completes f"
  "focused (advance n it idx f) = focused f"
  "give_param_name (advance n it idx f) = give_param_name f"
  "give_param_div (advance n it idx f) j = (give_param_div f j \<or> idx < n \<and> j = idx + 1 \<and> idx + 1 \<le> 3)"
  "give_submit (advance n it idx f) = (give_submit f \<or> n \<le> idx)"
  by (auto simp: advance_def Let_def)

lemma drafting_cong:
  "selectedEditItem g = selectedEditItem f \<Longrightarrow> give_type g = give_type f \<Longrightarrow>
   change_handlers g = change_handlers f \<Longrightarrow> completes g = completes f \<Longrightarrow> drafting it g = drafting it f"
  by (simp add: drafting_def handled_def)

lemma handlers_ok_cong:
  "change_handlers g = change_handlers f \<Longrightarrow> completes g = completes f \<Longrightarrow> handlers_ok g = handlers_ok f"
  by (simp add: handlers_ok_def)

lemma gift_inv_cong:
  assumes "selectedEditItem g = selectedEditItem f" "give_type g = give_type f" "change_handlers g = change_handlers f"
    "completes g = completes f" "give_param g = give_param f" "give_param_div g = give_param_div f"
    "give_submit g = give_submit f" "focused g = focused f"
  shows "gift_inv g = gift_inv f"
  using assms by (simp add: gift_inv_def handlers_ok_cong [OF assms(3,4)] drafting_cong [OF assms(1-4)])

lemma gift_inv_shown_only [simp]:
  "gift_inv (f\<lparr>give_type_name := x\<rparr>) = gift_inv f" "gift_inv (f\<lparr>give_type_tick := b\<rparr>) = gift_inv f"
  "gift_inv (f\<lparr>give_param_name := ns\<rparr>) = gift_inv f"
  by (rule gift_inv_cong; simp)+

lemma advance_inv:
  assumes inv: "gift_inv f" and it: "drafting it f" "idx \<le> needs it" "filled_to check it idx (give_param f)"
    and "focused f = Some 0 \<Longrightarrow> idx = 0"
  shows "gift_inv (advance (needs it) it idx f)"
proof -
  have item: "it \<in> set edits" using it(1) by (simp add: drafting_def)
  have d: "drafting it' (advance (needs it) it idx f) = drafting it' f" for it'
    by (rule drafting_cong) simp_all
  have h: "handlers_ok (advance (needs it) it idx f)"
    using inv handlers_ok_cong [of "advance (needs it) it idx f" f] by (simp add: gift_inv_def)
  show ?thesis
    using h inv it assms(5) needs_bounds [OF item] unfolding gift_inv_def d advance_fields
    by (auto simp: le_antisym)
qed

text \<open>
  While the handlers of field \<open>i\<close> run one after the other, its own value may be out of range;
  everything else is kept.
\<close>

definition typing :: "edit_item \<Rightarrow> nat \<Rightarrow> gift_form \<Rightarrow> bool" where
  "typing it i f =
     (handlers_ok f \<and> drafting it f \<and> 1 \<le> i \<and> i \<le> needs it \<and> focused f = Some i \<and>
      (\<forall>j. give_param_div f j \<longrightarrow> 1 \<le> j \<and> j \<le> needs it) \<and>
      (\<forall>j k. (j = i \<or> give_param_div f j) \<and> 1 \<le> k \<and> k < j \<and> k \<noteq> i \<longrightarrow> good_value check (url_of it k) (give_param f k)) \<and>
      (\<forall>k. give_submit f \<and> 1 \<le> k \<and> k \<le> needs it \<and> k \<noteq> i \<longrightarrow> good_value check (url_of it k) (give_param f k)))"

lemma typing_item: "typing it i f \<Longrightarrow> it \<in> set edits"
  by (simp add: typing_def drafting_def)

lemma typing_start:
  assumes "gift_inv f" "focused f = Some i" "give_param_div f i" "1 \<le> i"
  obtains it where "typing it i f"
proof -
  obtain it where it: "drafting it f" "1 \<le> i" "i \<le> needs it" "filled_to check it (i - 1) (give_param f)"
    using assms(1,3) by (auto simp: gift_inv_def)
  have shown: "1 \<le> j \<and> j \<le> needs it \<and> filled_to check it (j - 1) (give_param f)" if j: "give_param_div f j" for j
  proof -
    obtain it' where "drafting it' f" "1 \<le> j \<and> j \<le> needs it' \<and> filled_to check it' (j - 1) (give_param f)"
      using assms(1) j by (auto simp: gift_inv_def)
    then show ?thesis using drafting_unique [OF it(1)] by metis
  qed
  have "filled_to check it (needs it) (give_param f)" if "give_submit f"
    using assms(1) that drafting_unique [OF it(1)] by (auto simp: gift_inv_def)
  then have "typing it i f"
    using assms it shown by (fastforce simp: typing_def gift_inv_def filled_to_iff)
  then show ?thesis by (rule that)
qed

lemma typing_done:
  assumes "typing it i f" and "good_value check (url_of it i) (give_param f i)"
  shows "gift_inv f"
proof (rule gift_invI)
  show "handlers_ok f" using assms(1) by (simp add: typing_def)
next
  fix j assume j: "give_param_div f j"
  then have "filled_to check it (j - 1) (give_param f)"
    using assms unfolding typing_def filled_to_iff by (metis diff_less le_trans less_le_trans nat_less_le zero_less_one)
  with j assms(1) show "\<exists>it. drafting it f \<and> 1 \<le> j \<and> j \<le> needs it \<and> filled_to check it (j - 1) (give_param f)"
    unfolding typing_def by blast
next
  assume "give_submit f"
  then have "filled_to check it (needs it) (give_param f)" using assms unfolding typing_def filled_to_iff by metis
  with assms(1) show "\<exists>it. drafting it f \<and> filled_to check it (needs it) (give_param f)"
    unfolding typing_def by blast
next
  show "focused f = Some 0 \<Longrightarrow> \<not> give_submit f \<and> (\<forall>i. give_param_div f i \<longrightarrow> i = 1)"
    using assms(1) by (auto simp: typing_def)
qed

lemma typing_transfer:
  assumes f: "typing it i f"
    and same: "selectedEditItem g = selectedEditItem f" "give_type g = give_type f" "change_handlers g = change_handlers f"
      "completes g = completes f" "focused g = focused f"
    and divs: "\<And>j. give_param_div g j \<Longrightarrow> give_param_div f j \<or> j = Suc i \<and> j \<le> needs it"
    and submit: "give_submit g \<Longrightarrow> give_submit f \<or> i = needs it"
    and ps: "\<And>j k. j = i \<or> give_param_div g j \<Longrightarrow> k < j \<Longrightarrow> k \<noteq> i \<Longrightarrow> give_param g k = give_param f k"
      "\<And>k. give_submit g \<Longrightarrow> k \<noteq> i \<Longrightarrow> give_param g k = give_param f k"
  shows "typing it i g"
proof -
  have below: "good_value check (url_of it k) (give_param f k)" if "j = i \<or> give_param_div f j" "1 \<le> k" "k < j" "k \<noteq> i" for j k
    using f that unfolding typing_def by blast
  have "good_value check (url_of it k) (give_param g k)" if "j = i \<or> give_param_div g j" "1 \<le> k" "k < j" "k \<noteq> i" for j k
    using that divs [of j] ps(1) [of j k] below [of j k] below [of i k] by (cases "j = Suc i") auto
  moreover have "good_value check (url_of it k) (give_param g k)" if "give_submit g" "1 \<le> k" "k \<le> needs it" "k \<noteq> i" for k
  proof -
    have "give_submit f \<or> k < i" using submit [OF that(1)] that(3,4) by auto
    then have "good_value check (url_of it k) (give_param f k)"
      using f that below [of i k] unfolding typing_def by blast
    then show ?thesis using ps(2) that by simp
  qed
  moreover have "1 \<le> j \<and> j \<le> needs it" if "give_param_div g j" for j
    using f divs [OF that] unfolding typing_def by auto
  ultimately show ?thesis
    using f same unfolding typing_def drafting_cong [OF same(1-4)] handlers_ok_cong [OF same(3,4)] by auto
qed

lemma typing_set: "typing it i f \<Longrightarrow> typing it i (f\<lparr>give_param := put i v (give_param f)\<rparr>)"
  by (erule typing_transfer) simp_all

lemma typing_name: "typing it i f \<Longrightarrow> typing it i (f\<lparr>give_param_name := put i v (give_param_name f)\<rparr>)"
  by (erule typing_transfer) simp_all

lemma typing_next:
  assumes "typing it i f" shows "next i f = advance (needs it) it i f"
  using assms by (intro next_advances) (auto simp: typing_def drafting_def)

lemma typing_advance: "typing it i f \<Longrightarrow> typing it i (advance (needs it) it i f)"
  by (rule typing_transfer, assumption) (auto simp: typing_def)

lemma typing_current:
  assumes "typing it i f"
  shows "typing it i (currentItem i f)" and "gift_inv (currentItem i f)"
proof -
  have bound: "needs it \<le> 3" using needs_bounds [OF typing_item [OF assms]] by simp
  have d: "drafting it' (currentItem i f) = drafting it' f" for it'
    by (rule drafting_cong) (simp_all add: currentItem_eq)
  have h: "handlers_ok (currentItem i f) = handlers_ok f"
    by (rule handlers_ok_cong) (simp_all add: currentItem_eq)
  have shown_le: "give_param_div f j \<Longrightarrow> j \<le> needs it" for j
    using assms by (simp add: typing_def)
  have shown: "give_param_div (currentItem i f) j \<longleftrightarrow> give_param_div f j \<and> j \<le> i" for j
    using le_trans [OF shown_le bound] by (auto simp: currentItem_eq)
  have kept: "give_param (currentItem i f) k = give_param f k" if "k \<le> i" for k
    using that by (simp add: currentItem_eq)
  show "typing it i (currentItem i f)"
    using assms shown kept by (rule_tac typing_transfer) (auto simp: currentItem_eq)
  show "gift_inv (currentItem i f)"
  proof (rule gift_invI)
    show "handlers_ok (currentItem i f)" using assms by (simp add: h typing_def)
  next
    fix j assume "give_param_div (currentItem i f) j"
    then have j: "give_param_div f j" "j \<le> i" using shown by simp_all
    have "good_value check (url_of it k) (give_param f k)" if "1 \<le> k" "k < j" for k
    proof -
      have "k \<noteq> i" using that j(2) by simp
      then show ?thesis using assms j(1) that unfolding typing_def by blast
    qed
    with j show "\<exists>it. drafting it (currentItem i f) \<and> 1 \<le> j \<and> j \<le> needs it \<and>
        filled_to check it (j - 1) (give_param (currentItem i f))"
      using assms kept unfolding d
      by (intro exI [of _ it]) (auto simp: filled_to_iff typing_def)
  qed (use assms in \<open>auto simp: typing_def currentItem_eq\<close>)
qed

text \<open>One handler, and all handlers of a field: the last is the selected item's.\<close>

lemma good_typed: "check u = Some good \<Longrightarrow> good n \<Longrightarrow> good_value check u (string_of_int n)"
  by (simp add: good_value_def js_parse_int_of_int)

lemma on_change_typing:
  assumes "typing it i f" shows "typing it i (on_change check next i u f)"
  using assms typing_current(1) typing_advance [OF typing_set] typing_next [OF typing_set]
  by (auto simp: on_change_def split: option.splits)

lemma on_change_done:
  assumes "typing it i f" and "check (url_of it i) \<noteq> None"
  shows "gift_inv (on_change check next i (url_of it i) f)"
proof -
  obtain good where good: "check (url_of it i) = Some good" using assms(2) by blast
  show ?thesis
  proof (cases "js_parse_int (give_param_name f i)")
    case None
    then show ?thesis using typing_current(2) [OF assms(1)] by (simp add: on_change_def)
  next
    case (Some n)
    show ?thesis
    proof (cases "good n")
      case True
      let ?g = "f\<lparr>give_param := put i (string_of_int n) (give_param f)\<rparr>"
      have g: "typing it i ?g" using assms(1) by (rule typing_set)
      have "1 \<le> i \<and> i \<le> 3" using assms(1) needs_bounds [OF typing_item [OF assms(1)]] by (simp add: typing_def)
      then have "gift_inv (advance (needs it) it i ?g)"
        using good_typed [OF good True] by (intro typing_done [OF typing_advance [OF g]]) simp
      then show ?thesis using Some good True typing_next [OF g] by (simp add: on_change_def)
    next
      case False
      then show ?thesis using Some good typing_current(2) [OF assms(1)] by (simp add: on_change_def)
    qed
  qed
qed

lemma fold_typing: "typing it i f \<Longrightarrow> typing it i (fold (on_change check next i) us f)"
  by (induction us arbitrary: f) (simp_all add: on_change_typing)

lemma init_fields [simp]:
  "selectedEditItem (install check i f) = selectedEditItem f" "give_param (install check i f) = give_param f"
  "give_param_div (install check i f) = give_param_div f" "give_submit (install check i f) = give_submit f"
  "focused (install check i f) = focused f"
  by (simp_all add: install_def Let_def split: option.splits)

lemma install_handlers:
  assumes "selectedEditItem f = Some it"
  shows "change_handlers (install check i f) j =
      (if j = i \<and> i - 1 < length (ei_params it) \<and> check (url_of it i) \<noteq> None
       then change_handlers f j @ [url_of it j] else change_handlers f j)"
    and "completes (install check i f) j =
      (if j = i \<and> i - 1 < length (ei_params it) \<and> check (url_of it i) = None then Some (url_of it j) else completes f j)"
  using assms by (auto simp: install_def Let_def url_of_def)

lemma initConfigCompletes_fields [simp]:
  "selectedEditItem (initConfigCompletes check f) = selectedEditItem f"
  "give_param (initConfigCompletes check f) = give_param f"
  "give_param_div (initConfigCompletes check f) = give_param_div f"
  "give_submit (initConfigCompletes check f) = give_submit f"
  "focused (initConfigCompletes check f) = focused f"
  by (simp_all add: initConfigCompletes_def)

lemma initConfigCompletes_handlers:
  assumes "selectedEditItem f = Some it" and "it \<in> set edits"
  shows "change_handlers (initConfigCompletes check f) j =
      (if 1 \<le> j \<and> j \<le> length (ei_params it) \<and> check (url_of it j) \<noteq> None
       then change_handlers f j @ [url_of it j] else change_handlers f j)"
    and "completes (initConfigCompletes check f) j =
      (if 1 \<le> j \<and> j \<le> length (ei_params it) \<and> check (url_of it j) = None then Some (url_of it j) else completes f j)"
proof -
  have len: "length (ei_params it) \<le> 3" "1 \<le> length (ei_params it)" using needs_bounds [OF assms(2)] by simp_all
  have j: "j = 0 \<or> j = 1 \<or> j = 2 \<or> j = 3 \<or> 3 < j" by arith
  show "change_handlers (initConfigCompletes check f) j =
      (if 1 \<le> j \<and> j \<le> length (ei_params it) \<and> check (url_of it j) \<noteq> None
       then change_handlers f j @ [url_of it j] else change_handlers f j)"
    using assms(1) len j by (auto simp: initConfigCompletes_def install_handlers(1) [of _ it] Suc_le_eq numeral_2_eq_2 numeral_3_eq_3)
  show "completes (initConfigCompletes check f) j =
      (if 1 \<le> j \<and> j \<le> length (ei_params it) \<and> check (url_of it j) = None then Some (url_of it j) else completes f j)"
    using assms(1) len j by (auto simp: initConfigCompletes_def install_handlers(2) [of _ it] Suc_le_eq numeral_2_eq_2 numeral_3_eq_3)
qed

lemma initConfigCompletes_drafting:
  assumes "handlers_ok f" "selectedEditItem f = Some it" "it \<in> set edits"
  shows "handlers_ok (initConfigCompletes check f)"
    and "1 \<le> i \<Longrightarrow> i \<le> length (ei_params it) \<Longrightarrow> handled check it (initConfigCompletes check f) i"
proof -
  show "handlers_ok (initConfigCompletes check f)"
    using assms(1,3) unfolding handlers_ok_def initConfigCompletes_handlers [OF assms(2,3)]
    by (auto split: if_splits)
  assume i: "1 \<le> i" "i \<le> length (ei_params it)"
  have typed: "check (url_of it i) \<noteq> None" if "u \<in> set (change_handlers f i)" for u
    using assms(1) that one_kind [OF assms(3) _ i] unfolding handlers_ok_def by metis
  have picked: "check (url_of it i) = None" if "completes f i = Some u" for u
    using assms(1) that one_kind [OF assms(3) _ i] unfolding handlers_ok_def by metis
  show "handled check it (initConfigCompletes check f) i"
    using i typed picked unfolding handled_def initConfigCompletes_handlers [OF assms(2,3)]
    by (cases "change_handlers f i"; cases "completes f i") auto
qed

lemma select_type_inv:
  assumes f: "gift_inv f" "focused f = Some 0" and k: "k < length edits"
  shows "gift_inv (select_type edits check next k f)"
proof -
  define it where "it = edits ! k"
  have it: "it \<in> set edits" using k by (simp add: it_def)
  define g where "g = (initConfigCompletes check (f\<lparr>selectedEditItem := Some it\<rparr>))\<lparr>give_type := ei_id it, give_type_tick := True\<rparr>"
  have h: "handlers_ok (f\<lparr>selectedEditItem := Some it\<rparr>)" using f(1) by (simp add: gift_inv_def handlers_ok_def)
  have g: "drafting it g" "handlers_ok g"
    using initConfigCompletes_drafting [OF h _ it] it
    by (simp_all add: g_def drafting_def handled_def handlers_ok_cong [of "_\<lparr>give_type := _, give_type_tick := _\<rparr>"])
  have "gift_inv g"
    using f g needs_bounds [OF it] by (intro gift_invI) (auto simp: g_def gift_inv_def filled_to_iff)
  then have "gift_inv (advance (needs it) it 0 g)"
    using g by (intro advance_inv) (auto simp: filled_to_iff)
  moreover have "next 0 g = advance (needs it) it 0 g"
    using g(1) it by (intro next_advances) (auto simp: drafting_def)
  ultimately show ?thesis
    by (simp add: select_type_def Let_def flip: it_def g_def)
qed

lemma focus_inv:
  assumes "gift_inv f"
  shows "gift_inv (focus_type f)"
    and "1 \<le> i \<Longrightarrow> gift_inv (f\<lparr>focused := Some i\<rparr>)"
    and "1 \<le> i \<Longrightarrow> gift_inv ((currentItem i f)\<lparr>focused := Some i\<rparr>)"
proof -
  have d: "drafting it (g\<lparr>focused := x\<rparr>) = drafting it g" "handlers_ok (g\<lparr>focused := x\<rparr>) = handlers_ok g" for it g x
    by (simp_all add: drafting_def handled_def handlers_ok_def)
  have later: "gift_inv (g\<lparr>focused := Some i\<rparr>)" if "gift_inv g" "1 \<le> i" for g i
    using that by (simp add: gift_inv_def d)
  then show "1 \<le> i \<Longrightarrow> gift_inv (f\<lparr>focused := Some i\<rparr>)"
    and "1 \<le> i \<Longrightarrow> gift_inv ((currentItem i f)\<lparr>focused := Some i\<rparr>)"
    using assms currentItem_inv by simp_all
  have "gift_inv (f\<lparr>give_type_tick := False\<rparr>)" using assms by simp
  then have inv: "gift_inv (currentItem 0 (f\<lparr>give_type_tick := False\<rparr>))" by (rule currentItem_inv)
  have "\<not> give_param_div (currentItem 0 (f\<lparr>give_type_tick := False\<rparr>)) j" for j
  proof
    assume j: "give_param_div (currentItem 0 (f\<lparr>give_type_tick := False\<rparr>)) j"
    then obtain it where "drafting it (currentItem 0 (f\<lparr>give_type_tick := False\<rparr>))" "1 \<le> j" "j \<le> needs it"
      using inv unfolding gift_inv_def by blast
    then have "1 \<le> j \<and> j \<le> 3" using needs_bounds [of it] by (auto simp: drafting_def)
    with j show False by (simp add: currentItem_eq)
  qed
  with inv show "gift_inv (focus_type f)"
    by (auto simp: focus_type_def gift_inv_def d) (simp add: currentItem_eq)
qed

theorem gift_step_inv:
  assumes f: "gift_inv f" shows "gift_inv (gift_step edits check next e f)"
proof (cases e)
  case FocusType
  then show ?thesis using focus_inv(1) [OF f] by (simp add: gift_step_def)
next
  case (PickType k)
  then show ?thesis using f select_type_inv by (simp add: gift_step_def)
next
  case (FocusParam i)
  then show ?thesis using f focus_inv(2,3) [OF f, of i] by (simp add: gift_step_def)
next
  case (PickParam i v name)
  show ?thesis
  proof (cases "1 \<le> i \<and> focused f = Some i \<and> give_param_div f i \<and> completes f i \<noteq> None \<and> v \<noteq> []")
    case True
    then obtain it where it: "typing it i f" using f typing_start by blast
    then have "handled check it f i" and i: "i \<le> needs it" "i \<le> 3" "i \<le> length (ei_params it)"
      using needs_bounds [OF typing_item [OF it]] True by (auto simp: typing_def drafting_def)
    with True have free: "check (url_of it i) = None" by (auto simp: handled_def split: if_splits)
    let ?g = "f\<lparr>give_param := put i v (give_param f)\<rparr>"
    have g: "typing it i ?g" using it by (rule typing_set)
    have "gift_inv (advance (needs it) it i ?g)"
      using True i free by (intro typing_done [OF typing_advance [OF g]]) (simp add: good_value_def)
    then show ?thesis
      using True PickParam typing_next [OF g]
      by (simp add: gift_step_def Let_def)
  next
    case False
    then show ?thesis using PickParam f by (auto simp: gift_step_def)
  qed
next
  case (TypeParam i s)
  show ?thesis
  proof (cases "1 \<le> i \<and> focused f = Some i \<and> give_param_div f i")
    case True
    then obtain it where it: "typing it i f" using f typing_start by blast
    let ?g = "f\<lparr>give_param_name := put i s (give_param_name f)\<rparr>"
    have g: "typing it i ?g" and ginv: "gift_inv ?g"
      using it f by (simp_all add: typing_name)
    have h: "handled check it f i"
      using it needs_bounds [OF typing_item [OF it]] by (auto simp: typing_def drafting_def)
    show ?thesis
    proof (cases "change_handlers f i" rule: rev_cases)
      case Nil
      then show ?thesis using True TypeParam ginv by (simp add: gift_step_def)
    next
      case (snoc us u)
      then have u: "u = url_of it i" "check (url_of it i) \<noteq> None"
        using h by (auto simp: handled_def split: if_splits)
      have "gift_inv (on_change check next i u (fold (on_change check next i) us ?g))"
        using on_change_done [OF fold_typing [OF g] u(2)] u(1) by simp
      then show ?thesis using True TypeParam snoc by (simp add: gift_step_def)
    qed
  next
    case False
    then show ?thesis using TypeParam f by (auto simp: gift_step_def)
  qed
qed

lemma gift_run_inv: "gift_inv f \<Longrightarrow> gift_inv (fold (gift_step edits check next) es f)"
  by (induction es arbitrary: f) (simp_all add: gift_step_inv)

text \<open>Every parameter on the page, also of a draft that was left, is one some item accepts.\<close>

definition params_good :: "gift_form \<Rightarrow> bool" where
  "params_good f =
     (\<forall>i. give_param f i = [] \<or>
        (\<exists>it\<in>set edits. 1 \<le> i \<and> i \<le> length (ei_params it) \<and> good_value check (url_of it i) (give_param f i)))"

lemma params_good_cong: "give_param g = give_param f \<Longrightarrow> params_good g = params_good f"
  by (simp add: params_good_def)

lemma params_good_shown_only [simp]:
  "params_good (advance n it idx f) = params_good f" "params_good (f\<lparr>focused := x\<rparr>) = params_good f"
  "params_good (f\<lparr>give_type_tick := b\<rparr>) = params_good f" "params_good (f\<lparr>give_param_name := ns\<rparr>) = params_good f"
  by (rule params_good_cong; simp)+

lemma params_good_current: "params_good f \<Longrightarrow> params_good (currentItem i f)"
  by (simp add: params_good_def currentItem_eq)

lemma params_good_put:
  assumes "params_good f" "it \<in> set edits" "1 \<le> i" "i \<le> length (ei_params it)" "good_value check (url_of it i) v"
  shows "params_good (f\<lparr>give_param := put i v (give_param f)\<rparr>)"
  using assms unfolding params_good_def by auto

lemma on_change_good:
  assumes it: "typing it i f" and f: "params_good f" and u: "u \<in> set (change_handlers f i)"
  shows "params_good (on_change check next i u f)"
proof (cases "js_parse_int (give_param_name f i)")
  case None
  then show ?thesis using params_good_current [OF f] by (simp add: on_change_def)
next
  case (Some n)
  obtain it' where it': "it' \<in> set edits" "1 \<le> i" "i \<le> length (ei_params it')" "url_of it' i = u" "check u \<noteq> None"
  proof -
    have "handlers_ok f" using it by (simp add: typing_def)
    then have "\<forall>u\<in>set (change_handlers f i).
        \<exists>it\<in>set edits. 1 \<le> i \<and> i \<le> length (ei_params it) \<and> url_of it i = u \<and> check u \<noteq> None"
      unfolding handlers_ok_def by blast
    from bspec [OF this u] show ?thesis using that by blast
  qed
  then obtain good where good: "check u = Some good" by blast
  have "params_good (f\<lparr>give_param := put i (string_of_int n) (give_param f)\<rparr>)" if "good n"
    using params_good_put [OF f it'(1-3)] good_typed [OF good that] it'(4) by simp
  then show ?thesis
    using Some good params_good_current [OF f] typing_next [OF typing_set [OF it]]
    by (simp add: on_change_def)
qed

lemma on_change_handlers:
  "typing it i f \<Longrightarrow> change_handlers (on_change check next i u f) = change_handlers f"
  using typing_next [OF typing_set]
  by (auto simp: on_change_def currentItem_eq split: option.splits)

lemma fold_on_change_good:
  assumes "typing it i f" "params_good f" "set us \<subseteq> set (change_handlers f i)"
  shows "params_good (fold (on_change check next i) us f)"
  using assms
  by (induction us arbitrary: f) (simp_all add: on_change_good on_change_typing on_change_handlers)

lemma select_type_param:
  assumes "k < length edits"
  shows "give_param (select_type edits check next k f) = give_param f"
proof -
  let ?g = "(initConfigCompletes check (f\<lparr>selectedEditItem := Some (edits ! k)\<rparr>))\<lparr>give_type := ei_id (edits ! k), give_type_tick := True\<rparr>"
  have "next 0 ?g = advance (needs (edits ! k)) (edits ! k) 0 ?g"
    using assms by (intro next_advances) simp_all
  then show ?thesis by (simp add: select_type_def Let_def)
qed

theorem gift_step_good:
  assumes f: "gift_inv f" "params_good f"
  shows "params_good (gift_step edits check next e f)"
proof (cases e)
  case FocusType
  then show ?thesis using f(2) params_good_current by (simp add: gift_step_def focus_type_def)
next
  case (PickType k)
  then show ?thesis
    using f(2) select_type_param [of k f] params_good_cong [of "select_type edits check next k f" f] by (simp add: gift_step_def)
next
  case (FocusParam i)
  then show ?thesis
    using f(2) params_good_current [OF f(2), of i] by (simp add: gift_step_def)
next
  case (PickParam i v name)
  show ?thesis
  proof (cases "1 \<le> i \<and> focused f = Some i \<and> give_param_div f i \<and> completes f i \<noteq> None \<and> v \<noteq> []")
    case True
    then obtain it where it: "typing it i f" using f(1) typing_start by blast
    then have i: "handled check it f i" "i \<le> length (ei_params it)"
      using needs_bounds [OF typing_item [OF it]] True by (auto simp: typing_def drafting_def)
    with True have "good_value check (url_of it i) v" by (auto simp: handled_def good_value_def split: if_splits)
    then have "params_good (f\<lparr>give_param := put i v (give_param f)\<rparr>)"
      using params_good_put [OF f(2) typing_item [OF it]] True i(2) by simp
    then show ?thesis
      using True PickParam typing_next [OF typing_set [OF it, of v]] by (simp add: gift_step_def Let_def)
  next
    case False
    then show ?thesis using PickParam f(2) by (auto simp: gift_step_def)
  qed
next
  case (TypeParam i s)
  show ?thesis
  proof (cases "1 \<le> i \<and> focused f = Some i \<and> give_param_div f i")
    case True
    then obtain it where it: "typing it i f" using f(1) typing_start by blast
    show ?thesis
      using f(2) True TypeParam fold_on_change_good [OF typing_name [OF it]] by (simp add: gift_step_def)
  next
    case False
    then show ?thesis using TypeParam f(2) by (auto simp: gift_step_def)
  qed
qed

lemma gift_init_good: "params_good (gift_init labels)"
  by (simp add: params_good_def gift_init_def)

text \<open>The button is there only for a draft of an item of the page with all its parameters.\<close>

lemma offered_complete:
  assumes "gift_inv f" "give_submit f"
  obtains it where "it \<in> set edits" "selectedEditItem f = Some it" "give_type f = ei_id it"
    "filled_to check it (needs it) (give_param f)"
  using assms by (auto simp: gift_inv_def drafting_def)

text \<open>Filling in a draft of two parameters, whatever was done before.\<close>

lemma on_change_keeps:
  assumes "typing it i f"
  shows "j < i \<Longrightarrow> give_param (on_change check next i u f) j = give_param f j"
    and "j \<le> i \<Longrightarrow> give_param_name (on_change check next i u f) j = give_param_name f j"
  using typing_next [OF typing_set [OF assms]]
  by (auto simp: on_change_def currentItem_eq split: option.splits)

lemma fold_on_change_keeps:
  assumes "typing it i f"
  shows "j < i \<Longrightarrow> give_param (fold (on_change check next i) us f) j = give_param f j"
    and "j \<le> i \<Longrightarrow> give_param_name (fold (on_change check next i) us f) j = give_param_name f j"
  using assms by (induction us arbitrary: f) (simp_all add: on_change_keeps on_change_typing)

lemma typed_value:
  assumes f: "gift_inv f" "focused f = Some i" "give_param_div f i" "1 \<le> i" "drafting it f" "i = needs it"
    and s: "check (url_of it i) = Some good" "js_parse_int s = Some n" "good n"
  shows "let g = gift_step edits check next (TypeParam i s) f
         in give_submit g \<and> give_type g = ei_id it \<and> give_param g i = string_of_int n \<and> (\<forall>j<i. give_param g j = give_param f j)"
proof -
  obtain it' where it': "typing it' i f" using f typing_start by blast
  have "it = it'" by (rule drafting_unique [OF f(5)]) (use it' in \<open>simp add: typing_def\<close>)
  with it' have it: "typing it i f" by simp
  let ?g = "f\<lparr>give_param_name := put i s (give_param_name f)\<rparr>"
  have g: "typing it i ?g" using it by (rule typing_name)
  have b: "i \<le> 3" "i \<le> length (ei_params it)" using f(6) needs_bounds [OF typing_item [OF it]] by simp_all
  then have h: "handled check it f i" using f(4,5) by (auto simp: drafting_def)
  then obtain us where us: "change_handlers f i = us @ [url_of it i]"
    using s(1) unfolding handled_def by (metis append_butlast_last_id option.distinct(1))
  let ?h = "fold (on_change check next i) us ?g"
  have h': "typing it i ?h" using g by (rule fold_typing)
  have "give_param_name ?h i = s" "give_param ?h j = give_param f j" if "j < i" for j
    using fold_on_change_keeps [OF g, of j us] fold_on_change_keeps [OF g, of i us] that f(4) b by simp_all
  moreover have "give_type ?h = ei_id it" using h' by (simp add: typing_def drafting_def)
  moreover have "give_param_name ?h i = s" using fold_on_change_keeps(2) [OF g, of i us] f(4) b by simp
  ultimately show ?thesis
    using f b us s typing_next [OF typing_set [OF h', of "string_of_int n"]]
    by (simp add: gift_step_def on_change_def Let_def)
qed

lemma picked_type:
  assumes "gift_inv f" "k < length edits"
  defines "g \<equiv> fold (gift_step edits check next) [FocusType, PickType k] f"
  shows "gift_inv g" "drafting (edits ! k) g" "give_param_div g 1"
proof -
  have f1: "gift_inv (focus_type f)" "focused (focus_type f) = Some 0"
    using focus_inv(1) [OF assms(1)] by (simp_all add: focus_type_def)
  show "gift_inv g" unfolding g_def by (rule gift_run_inv [OF assms(1)])
  let ?it = "edits ! k"
  have it: "?it \<in> set edits" using assms(2) by simp
  let ?i = "(initConfigCompletes check ((focus_type f)\<lparr>selectedEditItem := Some ?it\<rparr>))\<lparr>give_type := ei_id ?it, give_type_tick := True\<rparr>"
  have g: "g = (advance (needs ?it) ?it 0 ?i)\<lparr>give_type_name := ei_value ?it\<rparr>"
    using f1 assms(2) it next_advances [of ?i ?it 0] by (simp add: g_def gift_step_def select_type_def Let_def)
  have "handlers_ok ((focus_type f)\<lparr>selectedEditItem := Some ?it\<rparr>)" using f1(1) by (simp add: gift_inv_def handlers_ok_def)
  then have "handled check ?it g i" if "1 \<le> i" "i \<le> length (ei_params ?it)" for i
    using initConfigCompletes_drafting(2) [of "(focus_type f)\<lparr>selectedEditItem := Some ?it\<rparr>", OF _ _ it that]
    by (simp add: g handled_def)
  then show "drafting ?it g" using it by (simp add: drafting_def) (simp add: g)
  show "give_param_div g 1" using needs_bounds [OF it] by (simp add: g)
qed

lemma drafting_focus [simp]: "drafting it (f\<lparr>focused := x\<rparr>) = drafting it f"
  by (rule drafting_cong) simp_all

lemma drafting_current [simp]: "drafting it (currentItem i f) = drafting it f"
  by (rule drafting_cong) (simp_all add: currentItem_eq)

lemma handled_shown:
  assumes "gift_inv f" "drafting it f" "give_param_div f i"
  shows "1 \<le> i" "i \<le> needs it" "i \<le> 3" "handled check it f i"
proof -
  obtain it' where "drafting it' f" "1 \<le> i \<and> i \<le> needs it'" using assms(1,3) by (auto simp: gift_inv_def)
  then show i: "1 \<le> i" "i \<le> needs it" using drafting_unique [OF assms(2)] by auto
  have "it \<in> set edits" using assms(2) by (simp add: drafting_def)
  then show "i \<le> 3" "handled check it f i" using i assms(2) needs_bounds [of it] by (auto simp: drafting_def)
qed

lemma focused_param:
  assumes "gift_inv f" "drafting it f" "give_param_div f i"
  defines "g \<equiv> gift_step edits check next (FocusParam i) f"
  shows "gift_inv g" "drafting it g" "give_param_div g i" "focused g = Some i" "\<And>j. j \<le> i \<Longrightarrow> give_param g j = give_param f j"
  using gift_step_inv [OF assms(1), of "FocusParam i"] handled_shown [OF assms(1-3)] assms(2,3)
  by (simp_all add: g_def gift_step_def) (simp_all add: currentItem_eq)

lemma picked_param:
  fixes name :: string
  assumes "gift_inv f" "drafting it f" "give_param_div f i" "focused f = Some i"
    and "check (url_of it i) = None" "v \<noteq> []" "i < needs it"
  defines "g \<equiv> gift_step edits check next (PickParam i v name) f"
  shows "gift_inv g" "drafting it g" "give_param_div g (i + 1)" "give_param g i = v"
proof -
  note shown = handled_shown [OF assms(1-3)]
  have item: "it \<in> set edits" using assms(2) by (simp add: drafting_def)
  let ?f = "f\<lparr>give_param := put i v (give_param f)\<rparr>"
  have "next i ?f = advance (needs it) it i ?f"
    using assms(2,7) item by (intro next_advances) (auto simp: drafting_def)
  then have g: "g = (advance (needs it) it i ?f)\<lparr>give_param_name := put i name (give_param_name f)\<rparr>"
    using assms(3,4,5,6) shown by (auto simp: g_def gift_step_def handled_def)
  show "gift_inv g" unfolding g_def by (rule gift_step_inv [OF assms(1)])
  show "drafting it g" using assms(2) by (subst drafting_cong [of g f]) (simp_all add: g)
  show "give_param_div g (i + 1)" "give_param g i = v"
    using assms(7) shown needs_bounds [OF item] by (simp_all add: g)
qed

lemma filled_draft:
  assumes f: "gift_inv f" and k: "k < length edits" "needs (edits ! k) = 2"
    and c: "check (url_of (edits ! k) 1) = None" "check (url_of (edits ! k) 2) = Some good"
    and v: "v \<noteq> []" "js_parse_int s = Some n" "good n"
  shows "let g = fold (gift_step edits check next)
                   [FocusType, PickType k, FocusParam 1, PickParam 1 v name, FocusParam 2, TypeParam 2 s] f
         in give_submit g \<and> give_type g = ei_id (edits ! k) \<and> give_param g 1 = v \<and> give_param g 2 = string_of_int n"
proof -
  let ?it = "edits ! k" and ?step = "gift_step edits check next"
  define f2 where "f2 = fold ?step [FocusType, PickType k] f"
  note f2 = picked_type [OF f k(1), folded f2_def]
  define f3 where "f3 = ?step (FocusParam 1) f2"
  note f3 = focused_param [OF f2, folded f3_def]
  define f4 where "f4 = ?step (PickParam 1 v name) f3"
  have "1 < needs ?it" using k by simp
  note f4 = picked_param [OF f3(1-4) c(1) v(1) this, of name, folded f4_def]
  have "give_param_div f4 2" using f4(3) by (simp add: numeral_2_eq_2)
  define f5 where "f5 = ?step (FocusParam 2) f4"
  note f5 = focused_param [OF f4(1,2) \<open>give_param_div f4 2\<close>, folded f5_def]
  have "(2::nat) = needs ?it" "(1::nat) \<le> 2" using k by simp_all
  note f6 = typed_value [OF f5(1,4,3) this(2) f5(2) this(1) c(2) v(2,3)]
  have "fold ?step [FocusType, PickType k, FocusParam 1, PickParam 1 v name, FocusParam 2, TypeParam 2 s] f
      = ?step (TypeParam 2 s) f5"
    by (simp add: f5_def f4_def f3_def f2_def)
  then show ?thesis using f6 f5(5) [of 1] f4(4) by (auto simp: Let_def)
qed

end

section \<open>The three pages\<close>

definition asked :: "edit_item \<Rightarrow> nat" where
  "asked it = length (ei_params it)"

definition asked_cdkeys :: "edit_item \<Rightarrow> nat" where
  "asked_cdkeys it = (if ei_id it = ''give_item'' then 2 else 1)"

lemma show_next_advance:
  "selectedEditItem f = Some it \<Longrightarrow> nextItem i f = advance (length (ei_params it)) it i f"
  by (simp add: nextItem_def show_next_def advance_def Let_def)

lemmas item_simps = edits_mail_def edits_batch_def edits_cdkeys_def counted_item_def url_of_def asked_def asked_cdkeys_def
  check_mail_param_def check_number_param_def

lemma one_or_two: "1 \<le> (i::nat) \<Longrightarrow> i \<le> length xs \<Longrightarrow> length xs \<le> 2 \<Longrightarrow> i = 1 \<or> i = 2"
  by linarith

interpretation mail: gift_page "edits_mail t" check_mail_param nextItem asked for t
proof
  fix it it' i
  assume "it \<in> set (edits_mail t)" "it' \<in> set (edits_mail t)" "1 \<le> i" "i \<le> length (ei_params it)" "i \<le> length (ei_params it')"
  then show "(check_mail_param (url_of it i) = None) = (check_mail_param (url_of it' i) = None)"
    using one_or_two [of i "ei_params it"] by (auto simp: item_simps)
qed (auto simp: item_simps show_next_advance)

interpretation batch: gift_page "edits_batch t" check_number_param nextItem asked for t
proof
  fix it it' i
  assume "it \<in> set (edits_batch t)" "it' \<in> set (edits_batch t)" "1 \<le> i" "i \<le> length (ei_params it)" "i \<le> length (ei_params it')"
  then show "(check_number_param (url_of it i) = None) = (check_number_param (url_of it' i) = None)"
    using one_or_two [of i "ei_params it"] by (auto simp: item_simps)
qed (auto simp: item_simps show_next_advance)

interpretation cdkeys: gift_page "edits_cdkeys t" check_number_param nextItem_cdkeys asked_cdkeys for t
proof
  fix it it' i
  assume "it \<in> set (edits_cdkeys t)" "it' \<in> set (edits_cdkeys t)" "1 \<le> i" "i \<le> length (ei_params it)" "i \<le> length (ei_params it')"
  then show "(check_number_param (url_of it i) = None) = (check_number_param (url_of it' i) = None)"
    using one_or_two [of i "ei_params it"] by (auto simp: item_simps)
next
  fix f :: gift_form and it idx
  assume "selectedEditItem f = Some it" "it \<in> set (edits_cdkeys t)" "give_type f = ei_id it" "idx \<le> asked_cdkeys it"
  moreover have "length (ei_params it) = 2" using calculation by (auto simp: item_simps)
  ultimately show "nextItem_cdkeys idx f = advance (asked_cdkeys it) it idx f"
    by (cases "ei_id it = ''give_item''"; cases "idx = 1")
      (simp_all add: asked_cdkeys_def nextItem_cdkeys_def show_next_def advance_def Let_def)
qed (auto simp: item_simps)

text \<open>A draft as the three pages read it off the fields.\<close>

definition counted :: "string \<Rightarrow> bool" where
  "counted s = (case js_parse_int s of None \<Rightarrow> False | Some n \<Rightarrow> 0 < n \<and> s = string_of_int n)"

lemma filled_first_two:
  "filled_to check it n ps \<Longrightarrow> 1 \<le> n \<Longrightarrow> good_value check (url_of it 1) (ps 1)"
  "filled_to check it n ps \<Longrightarrow> 2 \<le> n \<Longrightarrow> good_value check (url_of it 2) (ps 2)"
  by (simp_all add: filled_to_iff)

lemma good_value_text: "check u = None \<Longrightarrow> good_value check u v = (v \<noteq> [])"
  by (simp add: good_value_def)

lemma good_value_number:
  "check u = Some good \<Longrightarrow> good_value check u v = (\<exists>n. v = string_of_int n \<and> good n)"
  by (auto simp: good_value_def js_parse_int_of_int split: option.splits)

lemma counted_iff: "counted s = (\<exists>n. s = string_of_int n \<and> 0 < n)"
  by (auto simp: counted_def js_parse_int_of_int split: option.splits)

lemma mail_filled:
  assumes "it \<in> set (edits_mail t)" "filled_to check_mail_param it (asked it) ps"
  shows "ei_id it \<in> {''give_equip'', ''give_item'', ''give_garment''}" "ps 1 \<noteq> []"
    and "ei_id it \<noteq> ''give_garment'' \<Longrightarrow> counted (ps 2)"
    and "ei_id it = ''give_equip'' \<Longrightarrow> \<exists>n. ps 2 = string_of_int n \<and> 1 \<le> n \<and> n \<le> 70"
  using assms(1) filled_first_two [OF assms(2)]
  by (auto simp: item_simps good_value_text good_value_number counted_iff) (metis zless_iff_Suc_zadd int_one_le_iff_zero_less)

lemma number_filled:
  assumes "it \<in> set (edits_batch t) \<or> it \<in> set (edits_cdkeys t)" "filled_to check_number_param it n ps"
  shows "1 \<le> n \<Longrightarrow> ps 1 \<noteq> []" "2 \<le> n \<Longrightarrow> counted (ps 2)"
  using assms(1) filled_first_two [OF assms(2)]
  by (auto simp: item_simps good_value_text good_value_number counted_iff)

text \<open>
  C19. Whatever was chosen, typed or left half-way before, a draft of a counted item can be finished:
  picking the type, picking an item and typing a positive number brings up the button, with that
  item and that number as the parameters.
\<close>
theorem draft_can_be_finished:
  assumes "v \<noteq> []" "0 < n"
  shows "let g = fold (mail_step t) (es @ [FocusType, PickType 1, FocusParam 1, PickParam 1 v name, FocusParam 2,
                                          TypeParam 2 (string_of_int n)]) (gift_init labels)
         in give_submit g \<and> give_type g = ''give_item'' \<and> give_param g 1 = v \<and> give_param g 2 = string_of_int n"
proof -
  have inv: "mail.gift_inv t (fold (mail_step t) es (gift_init labels))"
    by (rule mail.gift_run_inv [OF mail.gift_init_inv])
  have item: "1 < length (edits_mail t)" "asked (edits_mail t ! 1) = 2" "ei_id (edits_mail t ! 1) = ''give_item''"
    "check_mail_param (url_of (edits_mail t ! 1) 1) = None" "check_mail_param (url_of (edits_mail t ! 1) 2) = Some (\<lambda>n. n > 0)"
    by (simp_all add: item_simps)
  show ?thesis
    using mail.filled_draft [OF inv item(1,2,4,5) assms(1) js_parse_int_of_int assms(2), of name] item(3)
    by (simp add: Let_def)
qed

lemma draft_can_be_finished_witness:
  "let g = fold (mail_step (\<lambda>k. k)) ([FocusType, PickType 0, FocusParam 1] @
             [FocusType, PickType 1, FocusParam 1, PickParam 1 ''it1'' ''Sword'', FocusParam 2, TypeParam 2 (string_of_int 3)])
             (gift_init (\<lambda>_. []))
   in give_submit g \<and> give_type g = ''give_item'' \<and> give_param g 1 = ''it1'' \<and> give_param g 2 = string_of_int 3"
  by (rule draft_can_be_finished) simp_all

end
