(* ===== verification/Gift_Records.thy ===== *)
theory Gift_Records
  imports Gift_Form Form_Data
begin

text \<open>
  The lists of gifts on two pages of the game master console: the reward of gift keys
  (\<open>app/gm/app/views/cdkeys/manage.html.erb\<close>) and the batch of gifts for many players
  (\<open>data_batch/edit.html.erb\<close>). A finished draft (\<open>Gift_Form\<close>) becomes a record and a row of the
  table; the button of a row deletes both.

  The array \<open>g_records\<close> keeps a hole where an element was deleted (\<open>None\<close>). The rows are kept
  with the number in their id. On the page of the keys the reward is one text, the value of the
  hidden field \<open>item_id\<close>, rewritten after every change; on the other page the array itself is
  posted, in the notation of \<open>jQuery.param\<close> (\<open>Form_Data\<close>).
\<close>

section \<open>The page\<close>

record gift_record =
  rec_category :: string
  rec_name :: string
  rec_tid :: string
  rec_count :: jsval

record record_page =
  draft :: gift_form
  g_records :: "gift_record option list"
  table_rows :: "(nat \<times> gift_record) list"
  item_id :: string
  batch_posts :: "(string \<times> string) list list"
  batch_status :: "(string \<times> string) list"
  batch_location :: "string option"

definition record_init :: "(nat \<Rightarrow> string) \<Rightarrow> record_page" where
  "record_init labels =
     \<lparr>draft = gift_init labels, g_records = [], table_rows = [], item_id = [], batch_posts = [],
      batch_status = [], batch_location = None\<rparr>"

text \<open>\<open>forEach\<close> passes over the holes.\<close>

definition js_forEach :: "('a \<Rightarrow> 's \<Rightarrow> 's) \<Rightarrow> 'a option list \<Rightarrow> 's \<Rightarrow> 's" where
  "js_forEach f xs s = fold (\<lambda>x s. case x of None \<Rightarrow> s | Some r \<Rightarrow> f r s) xs s"

definition bonus_text :: "gift_record \<Rightarrow> string" where
  "bonus_text r = rec_tid r @ ''*'' @ js_to_string (rec_count r) @ ''|''"

definition sync_bonus :: "record_page \<Rightarrow> record_page" where
  "sync_bonus p = p\<lparr>item_id := js_forEach (\<lambda>r s. s @ bonus_text r) (g_records p) []\<rparr>"

text \<open>The new row goes after the last one; the table always has its heading.\<close>

definition addRow :: "nat \<Rightarrow> gift_record \<Rightarrow> record_page \<Rightarrow> record_page" where
  "addRow i r p = p\<lparr>table_rows := table_rows p @ [(i, r)]\<rparr>"

definition delete_at :: "nat \<Rightarrow> record_page \<Rightarrow> record_page" where
  "delete_at i p =
     p\<lparr>g_records := (g_records p)[i := None], table_rows := filter (\<lambda>row. fst row \<noteq> i) (table_rows p)\<rparr>"

section \<open>The reward of gift keys\<close>

definition cdkeys_del_record :: "nat \<Rightarrow> record_page \<Rightarrow> record_page" where
  "cdkeys_del_record i p = sync_bonus (delete_at i p)"

definition cdkeys_add_record :: "record_page \<Rightarrow> record_page" where
  "cdkeys_add_record p =
     (let f = draft p;
          count = (if give_param f 2 = [] then JNum 1 else JStr (give_param f 2));
          r = \<lparr>rec_category = give_type f, rec_name = give_param_name f 1, rec_tid = give_param f 1, rec_count = count\<rparr>;
          p1 = addRow (length (g_records p)) r p;
          p2 = sync_bonus (p1\<lparr>g_records := g_records p1 @ [Some r]\<rparr>)
      in p2\<lparr>draft := currentItem 0 (draft p2)\<rparr>)"

section \<open>The batch of gifts\<close>

definition batch_del_record :: "nat \<Rightarrow> record_page \<Rightarrow> record_page" where
  "batch_del_record i p = delete_at i p"

definition batch_add_record :: "record_page \<Rightarrow> record_page" where
  "batch_add_record p =
     (let f = draft p;
          r = \<lparr>rec_category = give_type f, rec_name = give_param_name f 1, rec_tid = give_param f 1,
               rec_count = JStr (give_param f 2)\<rparr>;
          p1 = addRow (length (g_records p)) r p
      in p1\<lparr>g_records := g_records p1 @ [Some r], draft := currentItem 0 (draft p1)\<rparr>)"

definition record_json :: "gift_record \<Rightarrow> jsval" where
  "record_json r =
     JObj [(''category'', JStr (rec_category r)), (''name'', JStr (rec_name r)), (''tid'', JStr (rec_tid r)), (''count'', rec_count r)]"

text \<open>A hole reads as \<open>undefined\<close>.\<close>

definition submit_records :: "string \<Rightarrow> string \<Rightarrow> string \<Rightarrow> record_page \<Rightarrow> record_page" where
  "submit_records ids zone reason p =
     p\<lparr>batch_posts := batch_posts p @
        [jquery_param
           [(''records'', JArr (map (\<lambda>x. case x of None \<Rightarrow> JUndef | Some r \<Rightarrow> record_json r) (g_records p))),
            (''ids'', JStr ids), (''zone'', JStr zone), (''reason'', JStr reason)]]\<rparr>"

definition submit_answered :: "bool \<Rightarrow> record_page \<Rightarrow> record_page" where
  "submit_answered succeeded p =
     (if succeeded then p\<lparr>batch_location := Some ''/data_batch/edit''\<rparr>
      else p\<lparr>batch_status := batch_status p @ [(''Something wrong!'', ''fail'')]\<rparr>)"

section \<open>Events\<close>

datatype record_event =
    DraftGift gift_event
  | AddRecord
  | DeleteRecord nat

text \<open>A row's button is on the page as long as the row is.\<close>

definition record_step ::
  "(gift_event \<Rightarrow> gift_form \<Rightarrow> gift_form) \<Rightarrow> (record_page \<Rightarrow> record_page) \<Rightarrow> (nat \<Rightarrow> record_page \<Rightarrow> record_page) \<Rightarrow>
   record_event \<Rightarrow> record_page \<Rightarrow> record_page" where
  "record_step gift add del e p =
     (case e of
        DraftGift g \<Rightarrow> p\<lparr>draft := gift g (draft p)\<rparr>
      | AddRecord \<Rightarrow> if give_submit (draft p) then add p else p
      | DeleteRecord i \<Rightarrow> if List.member (map fst (table_rows p)) i then del i p else p)"

abbreviation cdkeys_record_step :: "(string \<Rightarrow> string) \<Rightarrow> record_event \<Rightarrow> record_page \<Rightarrow> record_page" where
  "cdkeys_record_step t \<equiv> record_step (cdkeys_step t) cdkeys_add_record cdkeys_del_record"

abbreviation batch_record_step :: "(string \<Rightarrow> string) \<Rightarrow> record_event \<Rightarrow> record_page \<Rightarrow> record_page" where
  "batch_record_step t \<equiv> record_step (batch_step t) batch_add_record batch_del_record"

section \<open>The server's reading of a reward\<close>

text \<open>
  \<open>split\<close> of Ruby at one character: empty parts at the end are dropped. The reward is split at
  bars and each part at stars; a part that is not of two texts counts once (\<open>api_controller.rb\<close>).
\<close>

definition ruby_split :: "char \<Rightarrow> string \<Rightarrow> string list" where
  "ruby_split c s = rev (dropWhile (\<lambda>p. p = []) (rev (js_split c s)))"

definition ruby_to_i :: "string \<Rightarrow> int" where
  "ruby_to_i s = (case parse_int_string s of None \<Rightarrow> 0 | Some n \<Rightarrow> n)"

definition read_bonus :: "string \<Rightarrow> string \<times> int" where
  "read_bonus part =
     (case ruby_split (CHR ''*'') part of
        [tid, n] \<Rightarrow> (tid, ruby_to_i n)
      | tid # _ \<Rightarrow> (tid, 1)
      | [] \<Rightarrow> ([], 1))"

definition read_bonuses :: "string \<Rightarrow> (string \<times> int) list" where
  "read_bonuses s = map read_bonus (ruby_split (CHR ''|'') s)"

text \<open>
  On the way to that reading the reward is stripped (\<open>cdkeys_controller.rb\<close>) and becomes the fifth part
  of the line of its key, whose parts are joined by commas (\<open>cdkey.rb\<close>) and split there again. The
  table that keeps the lines is not in the repository.
\<close>

definition ruby_blank :: "char \<Rightarrow> bool" where
  "ruby_blank c = (let n = of_char c :: nat in n = 0 \<or> n = 32 \<or> (9 \<le> n \<and> n \<le> 13))"

definition ruby_strip :: "string \<Rightarrow> string" where
  "ruby_strip s = rev (dropWhile ruby_blank (rev (dropWhile ruby_blank s)))"

definition key_line :: "string \<Rightarrow> int \<Rightarrow> string \<Rightarrow> int \<Rightarrow> string \<Rightarrow> int \<Rightarrow> string" where
  "key_line sdk repeat_num tid end_time bonus_id real_num =
     js_join '','' [sdk, string_of_int repeat_num, tid, string_of_int end_time, bonus_id, string_of_int real_num]"

definition bonus_of_line :: "string \<Rightarrow> string option" where
  "bonus_of_line line = (let details = ruby_split (CHR '','') line in if 4 < length details then Some (details ! 4) else None)"

section \<open>Rows and records\<close>

fun live_from :: "nat \<Rightarrow> 'a option list \<Rightarrow> (nat \<times> 'a) list" where
  "live_from n [] = []"
| "live_from n (None # xs) = live_from (Suc n) xs"
| "live_from n (Some x # xs) = (n, x) # live_from (Suc n) xs"

lemma live_from_append [simp]: "live_from n (xs @ [Some x]) = live_from n xs @ [(n + length xs, x)]"
  by (induction n xs rule: live_from.induct) simp_all

lemma live_from_bounds: "(i, x) \<in> set (live_from n xs) \<Longrightarrow> n \<le> i \<and> i < n + length xs \<and> xs ! (i - n) = Some x"
  by (induction n xs rule: live_from.induct) (auto simp: nth_Cons' Suc_diff_le split: if_splits)

lemma live_from_delete [simp]: "live_from n (xs[i := None]) = filter (\<lambda>row. fst row \<noteq> n + i) (live_from n xs)"
proof (induction n xs arbitrary: i rule: live_from.induct)
  case (2 n xs)
  have "filter (\<lambda>row. fst row \<noteq> n) (live_from (Suc n) xs) = live_from (Suc n) xs"
    by (rule filter_True) (auto dest: live_from_bounds)
  with 2 show ?case by (cases i) simp_all
next
  case (3 n x xs)
  have "filter (\<lambda>row. fst row \<noteq> n) (live_from (Suc n) xs) = live_from (Suc n) xs"
    by (rule filter_True) (auto dest: live_from_bounds)
  with 3 show ?case by (cases i) simp_all
qed simp

lemma forEach_live: "js_forEach f xs s = fold (\<lambda>(i, r). f r) (live_from n xs) s"
  by (induction n xs arbitrary: s rule: live_from.induct) (simp_all add: js_forEach_def)

lemma fold_append: "fold (\<lambda>(i, r) s. s @ g r) rows s = s @ concat (map (g \<circ> snd) rows)"
  by (induction rows arbitrary: s) auto

lemma bonus_of_live: "item_id (sync_bonus p) = concat (map (bonus_text \<circ> snd) (live_from 0 (g_records p)))"
  using forEach_live [of "\<lambda>r s. s @ bonus_text r" "g_records p" "[]" 0] fold_append [of bonus_text _ "[]"]
  by (simp add: sync_bonus_def)

lemma sync_fields [simp]:
  "g_records (sync_bonus p) = g_records p" "table_rows (sync_bonus p) = table_rows p" "draft (sync_bonus p) = draft p"
  by (simp_all add: sync_bonus_def)

text \<open>
  What a page of records owes its draft: adding turns the draft into a record and a row and empties
  it, deleting takes away one record and its row.
\<close>

locale record_list = gift_page edits check "next" needs
  for edits :: "edit_item list" and check :: "string \<Rightarrow> (int \<Rightarrow> bool) option"
    and "next" :: "nat \<Rightarrow> gift_form \<Rightarrow> gift_form" and needs :: "edit_item \<Rightarrow> nat" +
  fixes add :: "record_page \<Rightarrow> record_page" and del :: "nat \<Rightarrow> record_page \<Rightarrow> record_page"
    and make :: "gift_form \<Rightarrow> gift_record" and good :: "gift_record \<Rightarrow> bool"
  assumes add_fields: "g_records (add p) = g_records p @ [Some (make (draft p))]"
      "table_rows (add p) = table_rows p @ [(length (g_records p), make (draft p))]"
      "draft (add p) = currentItem 0 (draft p)"
    and del_fields: "g_records (del i p) = (g_records p)[i := None]"
      "table_rows (del i p) = filter (\<lambda>row. fst row \<noteq> i) (table_rows p)" "draft (del i p) = draft p"
    and make_good: "it \<in> set edits \<Longrightarrow> give_type f = ei_id it \<Longrightarrow> filled_to check it (needs it) (give_param f) \<Longrightarrow>
      params_good f \<Longrightarrow> good (make f)"
begin

definition list_inv :: "record_page \<Rightarrow> bool" where
  "list_inv p =
     (gift_inv (draft p) \<and> params_good (draft p) \<and> table_rows p = live_from 0 (g_records p) \<and> (\<forall>row\<in>set (table_rows p). good (snd row)))"

lemma record_step_inv:
  assumes "list_inv p" shows "list_inv (record_step (gift_step edits check next) add del e p)"
proof (cases e)
  case (DraftGift g)
  then show ?thesis using assms gift_step_inv gift_step_good by (simp add: record_step_def list_inv_def)
next
  case AddRecord
  show ?thesis
  proof (cases "give_submit (draft p)")
    case True
    then obtain it where "it \<in> set edits" "give_type (draft p) = ei_id it" "filled_to check it (needs it) (give_param (draft p))"
      using assms offered_complete [of "draft p"] unfolding list_inv_def by metis
    then have "good (make (draft p))" using assms by (intro make_good) (simp_all add: list_inv_def)
    then show ?thesis
      using AddRecord True assms currentItem_inv params_good_current by (auto simp: record_step_def list_inv_def add_fields)
  qed (use AddRecord assms in \<open>simp add: record_step_def\<close>)
next
  case (DeleteRecord i)
  then show ?thesis using assms by (auto simp: record_step_def list_inv_def del_fields)
qed

lemma record_run_inv:
  assumes "list_inv p" shows "list_inv (fold (record_step (gift_step edits check next) add del) es p)"
  using assms by (induction es arbitrary: p) (simp_all add: record_step_inv)

lemma record_init_inv: "list_inv (record_init labels)"
  by (simp add: list_inv_def record_init_def gift_init_inv gift_init_good)

end

text \<open>The records of the two pages.\<close>

definition cdkeys_record :: "gift_form \<Rightarrow> gift_record" where
  "cdkeys_record f =
     \<lparr>rec_category = give_type f, rec_name = give_param_name f 1, rec_tid = give_param f 1,
      rec_count = (if give_param f 2 = [] then JNum 1 else JStr (give_param f 2))\<rparr>"

definition batch_record :: "gift_form \<Rightarrow> gift_record" where
  "batch_record f =
     \<lparr>rec_category = give_type f, rec_name = give_param_name f 1, rec_tid = give_param f 1, rec_count = JStr (give_param f 2)\<rparr>"

text \<open>A record names an item and a positive count; the number 1 stands for a count left out.\<close>

definition count_of :: "gift_record \<Rightarrow> int" where
  "count_of r = (case rec_count r of JNum n \<Rightarrow> n | JStr s \<Rightarrow> ruby_to_i s | _ \<Rightarrow> 0)"

definition good_record :: "gift_record \<Rightarrow> bool" where
  "good_record r =
     (rec_tid r \<noteq> [] \<and> 0 < count_of r \<and> (rec_count r = JNum 1 \<or> rec_count r = JStr (string_of_int (count_of r))))"

lemma good_recordI:
  "p1 \<noteq> [] \<Longrightarrow> counted p2 \<Longrightarrow> good_record \<lparr>rec_category = ty, rec_name = nm, rec_tid = p1, rec_count = JStr p2\<rparr>"
  "p1 \<noteq> [] \<Longrightarrow> good_record \<lparr>rec_category = ty, rec_name = nm, rec_tid = p1, rec_count = JNum 1\<rparr>"
  by (auto simp: good_record_def count_of_def counted_iff ruby_to_i_def parse_int_string_of_int)

lemma cdkeys_second_param:
  assumes "cdkeys.params_good t f" shows "give_param f 2 = [] \<or> counted (give_param f 2)"
proof -
  have "check_number_param (url_of it 2) = Some (\<lambda>n. n > 0)" if "it \<in> set (edits_cdkeys t)" for it
    using that by (auto simp: item_simps)
  then show ?thesis
    using assms unfolding cdkeys.params_good_def counted_iff by (metis good_value_number)
qed

interpretation cdkeys_list: record_list "edits_cdkeys t" check_number_param nextItem_cdkeys asked_cdkeys
  cdkeys_add_record cdkeys_del_record cdkeys_record good_record for t
proof
  fix it and f :: gift_form
  assume "it \<in> set (edits_cdkeys t)" "filled_to check_number_param it (asked_cdkeys it) (give_param f)" "cdkeys.params_good t f"
  then show "good_record (cdkeys_record f)"
    using number_filled(1) [of it t "asked_cdkeys it"] cdkeys_second_param [of t f] cdkeys.needs_bounds [of it t]
    by (auto simp: cdkeys_record_def good_recordI)
qed (simp_all add: cdkeys_add_record_def cdkeys_del_record_def delete_at_def addRow_def cdkeys_record_def sync_bonus_def Let_def)

interpretation batch_list: record_list "edits_batch t" check_number_param nextItem asked
  batch_add_record batch_del_record batch_record good_record for t
proof
  fix it and f :: gift_form
  assume it: "it \<in> set (edits_batch t)" "filled_to check_number_param it (asked it) (give_param f)"
  have "asked it = 2" using it(1) by (auto simp: item_simps)
  then show "good_record (batch_record f)"
    using number_filled [OF disjI1 [OF it(1)] it(2)] by (simp add: batch_record_def good_recordI)
qed (simp_all add: batch_add_record_def batch_del_record_def delete_at_def addRow_def batch_record_def Let_def)

text \<open>The reward is the text of the rows.\<close>

lemma cdkeys_bonus_kept:
  assumes "item_id p = concat (map (bonus_text \<circ> snd) (live_from 0 (g_records p)))"
  shows "item_id (cdkeys_record_step t e p) =
    concat (map (bonus_text \<circ> snd) (live_from 0 (g_records (cdkeys_record_step t e p))))"
  using assms
  by (cases e) (simp_all add: record_step_def cdkeys_add_record_def cdkeys_del_record_def Let_def bonus_of_live)

lemma cdkeys_run:
  fixes labels :: "nat \<Rightarrow> string" and t :: "string \<Rightarrow> string" and es :: "record_event list"
  defines "p \<equiv> fold (cdkeys_record_step t) es (record_init labels)"
  shows "table_rows p = live_from 0 (g_records p)" "item_id p = concat (map (bonus_text \<circ> snd) (table_rows p))"
    "\<forall>row\<in>set (table_rows p). good_record (snd row)"
proof -
  have inv: "cdkeys_list.list_inv t p" unfolding p_def by (rule cdkeys_list.record_run_inv [OF cdkeys_list.record_init_inv])
  then show rows: "table_rows p = live_from 0 (g_records p)" and "\<forall>row\<in>set (table_rows p). good_record (snd row)"
    by (simp_all add: cdkeys_list.list_inv_def)
  have "item_id (fold (cdkeys_record_step t) es q) = concat (map (bonus_text \<circ> snd) (live_from 0 (g_records (fold (cdkeys_record_step t) es q))))"
    if "item_id q = concat (map (bonus_text \<circ> snd) (live_from 0 (g_records q)))" for q
    using that by (induction es arbitrary: q) (simp_all add: cdkeys_bonus_kept)
  then have "item_id p = concat (map (bonus_text \<circ> snd) (live_from 0 (g_records p)))"
    by (simp add: p_def record_init_def)
  then show "item_id p = concat (map (bonus_text \<circ> snd) (table_rows p))" by (simp add: rows)
qed

section \<open>Reading a reward back\<close>

lemma digits_plain: "c \<in> set (string_of_int n) \<Longrightarrow> digit_val c \<noteq> None \<or> c = CHR ''-''"
  using string_of_nat_digits [of "nat n"] string_of_nat_digits [of "nat (- n)"]
  by (auto simp: string_of_int_def list_all_iff split: if_splits)

lemma count_text_plain:
  assumes "good_record r"
  shows "CHR ''*'' \<notin> set (js_to_string (rec_count r))" "CHR ''|'' \<notin> set (js_to_string (rec_count r))"
    "js_to_string (rec_count r) \<noteq> []" "ruby_to_i (js_to_string (rec_count r)) = count_of r"
proof -
  have printed: "js_to_string (rec_count r) = string_of_int (count_of r)"
  proof -
    have "rec_count r = JNum 1 \<or> rec_count r = JStr (string_of_int (count_of r))" using assms by (simp add: good_record_def)
    then show ?thesis
    proof
      assume "rec_count r = JNum 1"
      then show ?thesis by (simp add: count_of_def)
    next
      assume "rec_count r = JStr (string_of_int (count_of r))"
      from arg_cong [OF this, of js_to_string] show ?thesis by simp
    qed
  qed
  have "digit_val (CHR ''*'') = None" "digit_val (CHR ''|'') = None" by code_simp+
  then show "CHR ''*'' \<notin> set (js_to_string (rec_count r))" "CHR ''|'' \<notin> set (js_to_string (rec_count r))"
    using digits_plain unfolding printed by force+
  show "js_to_string (rec_count r) \<noteq> []" "ruby_to_i (js_to_string (rec_count r)) = count_of r"
    unfolding printed by (simp add: string_of_int_def) (simp add: ruby_to_i_def parse_int_string_of_int)
qed

definition plain_tid :: "gift_record \<Rightarrow> bool" where
  "plain_tid r = (CHR ''*'' \<notin> set (rec_tid r) \<and> CHR ''|'' \<notin> set (rec_tid r))"

definition bonus_part :: "gift_record \<Rightarrow> string" where
  "bonus_part r = rec_tid r @ ''*'' @ js_to_string (rec_count r)"

lemma read_part:
  assumes "good_record r" "plain_tid r"
  shows "read_bonus (bonus_part r) = (rec_tid r, count_of r)"
  using count_text_plain [OF assms(1)] assms(2)
  by (simp add: read_bonus_def bonus_part_def ruby_split_def plain_tid_def js_split_append js_split_no_sep)

lemma split_parts:
  assumes "\<forall>r\<in>set rs. good_record r \<and> plain_tid r"
  shows "js_split (CHR ''|'') (concat (map bonus_text rs)) = map bonus_part rs @ [[]]"
  using assms
proof (induction rs)
  case (Cons r rs)
  then have "CHR ''|'' \<notin> set (bonus_part r)"
    using count_text_plain(2) [of r] by (auto simp: bonus_part_def plain_tid_def)
  moreover have "concat (map bonus_text (r # rs)) = bonus_part r @ CHR ''|'' # concat (map bonus_text rs)"
    by (simp add: bonus_text_def bonus_part_def)
  ultimately show ?case using Cons js_split_append by simp
qed simp

lemma read_rows:
  assumes "\<forall>r\<in>set rs. good_record r \<and> plain_tid r"
  shows "read_bonuses (concat (map bonus_text rs)) = map (\<lambda>r. (rec_tid r, count_of r)) rs"
proof -
  have "dropWhile (\<lambda>p. p = []) (rev (map bonus_part rs)) = rev (map bonus_part rs)"
    by (cases rs rule: rev_cases) (simp_all add: bonus_part_def)
  then show ?thesis
    using assms read_part by (simp add: read_bonuses_def ruby_split_def split_parts [OF assms])
qed

text \<open>The reward on its way through the line of the key.\<close>

lemma no_comma_number: "CHR '','' \<notin> set (string_of_int n)"
proof -
  have "digit_val (CHR '','') = None" by code_simp
  then show ?thesis using digits_plain [of "CHR '',''" n] by auto
qed

lemma bonus_in_line:
  assumes "CHR '','' \<notin> set sdk" "CHR '','' \<notin> set tid" "CHR '','' \<notin> set bonus"
  shows "bonus_of_line (key_line sdk repeat_num tid end_time bonus real_num) = Some bonus"
proof -
  have "string_of_int real_num \<noteq> []" by (simp add: string_of_int_def)
  moreover have "js_split (CHR '','') (key_line sdk repeat_num tid end_time bonus real_num) =
      [sdk, string_of_int repeat_num, tid, string_of_int end_time, bonus, string_of_int real_num]"
    unfolding key_line_def by (rule split_join) (use assms no_comma_number in auto)
  ultimately show ?thesis by (simp add: bonus_of_line_def ruby_split_def Let_def)
qed

definition travels :: "gift_record \<Rightarrow> bool" where
  "travels r = (CHR '','' \<notin> set (rec_tid r) \<and> \<not> ruby_blank (hd (rec_tid r)))"

lemma reward_unstripped:
  assumes "\<forall>r\<in>set rs. good_record r \<and> travels r"
  shows "ruby_strip (concat (map bonus_text rs)) = concat (map bonus_text rs)"
proof (cases rs rule: rev_cases)
  case Nil
  then show ?thesis by (simp add: ruby_strip_def)
next
  case (snoc qs q)
  have bar: "\<not> ruby_blank (CHR ''|'')" by code_simp
  have "rs \<noteq> []" using snoc by simp
  then obtain r rs' where rs: "rs = r # rs'" by (cases rs) auto
  then have "rec_tid r \<noteq> []" "\<not> ruby_blank (hd (rec_tid r))" using assms by (auto simp: good_record_def travels_def)
  then have "dropWhile ruby_blank (concat (map bonus_text rs)) = concat (map bonus_text rs)"
    by (cases "rec_tid r") (simp_all add: rs bonus_text_def)
  moreover have "dropWhile ruby_blank (rev (concat (map bonus_text rs))) = rev (concat (map bonus_text rs))"
    using bar by (simp add: snoc bonus_text_def)
  ultimately show ?thesis by (simp add: ruby_strip_def)
qed

lemma reward_no_comma:
  assumes "\<forall>r\<in>set rs. good_record r \<and> travels r"
  shows "CHR '','' \<notin> set (concat (map bonus_text rs))"
proof -
  have "CHR '','' \<notin> set (js_to_string (rec_count r))" if "good_record r" for r
    using that no_comma_number [of "count_of r"] no_comma_number [of 1] by (auto simp: good_record_def)
  then show ?thesis using assms by (auto simp: travels_def bonus_text_def)
qed

section \<open>What a batch posts\<close>

lemma hole_params: "buildParams (''records['' @ [] @ '']'') JUndef = [(''records[]'', [])]"
  by (simp add: param_value_def)

definition record_params :: "nat \<Rightarrow> gift_record \<Rightarrow> (string \<times> string) list" where
  "record_params i r =
     [(''records['' @ string_of_nat i @ ''][category]'', rec_category r), (''records['' @ string_of_nat i @ ''][name]'', rec_name r),
      (''records['' @ string_of_nat i @ ''][tid]'', rec_tid r),
      (''records['' @ string_of_nat i @ ''][count]'', js_to_string (rec_count r))]"

lemma record_params_built:
  assumes "good_record r"
  shows "buildParams (''records['' @ string_of_nat i @ '']'') (record_json r) = record_params i r"
proof -
  have "buildParams prefix (rec_count r) = [(prefix, js_to_string (rec_count r))]" for prefix
    using assms by (auto simp: good_record_def param_value_def)
  then show ?thesis by (simp add: record_json_def record_params_def param_value_def)
qed

lemma live_from_set: "Some r \<in> set rs \<longleftrightarrow> r \<in> snd ` set (live_from n rs)"
  by (induction n rs rule: live_from.induct) auto

lemma records_built:
  assumes "\<And>r. Some r \<in> set rs \<Longrightarrow> good_record r"
  shows "buildParams ''records'' (JArr (map (\<lambda>x. case x of None \<Rightarrow> JUndef | Some r \<Rightarrow> record_json r) rs)) =
    concat (map (\<lambda>(i, x). case x of None \<Rightarrow> [(''records[]'', [])] | Some r \<Rightarrow> record_params i r) (zip [0 ..< length rs] rs))"
proof -
  let ?v = "\<lambda>x. case x of None \<Rightarrow> JUndef | Some r \<Rightarrow> record_json r"
  have "buildParams ''records'' (JArr (map ?v rs)) =
      concat (map (\<lambda>(i, x). buildParams (''records['' @ (if js_typeof (?v x) = ''object'' then string_of_nat i else []) @ '']'') (?v x))
        (zip [0 ..< length rs] rs))"
    by (simp add: zip_map2 case_prod_unfold o_def ends_with_brackets_def cong del: if_weak_cong)
  also have "\<dots> = concat (map (\<lambda>(i, x). case x of None \<Rightarrow> [(''records[]'', [])] | Some r \<Rightarrow> record_params i r) (zip [0 ..< length rs] rs))"
  proof (rule arg_cong [of _ _ concat], rule map_cong [OF refl], clarify)
    fix i x assume "(i, x) \<in> set (zip [0 ..< length rs] rs)"
    then have "x \<in> set rs" by (rule set_zip_rightD)
    show "buildParams (''records['' @ (if js_typeof (?v x) = ''object'' then string_of_nat i else []) @ '']'') (?v x) =
        (case x of None \<Rightarrow> [(''records[]'', [])] | Some r \<Rightarrow> record_params i r)"
    proof (cases x)
      case None
      then show ?thesis by (simp add: param_value_def)
    next
      case (Some r)
      then have "good_record r" using assms \<open>x \<in> set rs\<close> by simp
      moreover have "js_typeof (record_json r) = ''object''" by (simp add: record_json_def)
      ultimately show ?thesis using Some record_params_built [of r i] by simp
    qed
  qed
  finally show ?thesis .
qed

section \<open>The properties\<close>

text \<open>
  C18. On the page of gift keys the table shows the records that were not deleted, in order and under
  their numbers, and the reward that will be submitted is the text of just these rows, after any
  sequence of drafts, additions and deletions.
\<close>
theorem reward_is_text_of_rows:
  "let p = fold (cdkeys_record_step t) es (record_init labels)
   in table_rows p = live_from 0 (g_records p) \<and> item_id p = concat (map (bonus_text \<circ> snd) (table_rows p))"
  using cdkeys_run(1,2) by (simp add: Let_def)

text \<open>
  C16. The server reads the reward of a key back as the rows of the table: the same items with the
  same counts, each at least one, as long as no identifier holds a star or a bar. It still does when
  the reward was stripped and went through the comma-separated line of the key, as long as moreover
  no identifier begins with a blank and no identifier or other part of the line holds a comma.
\<close>
theorem reward_read_back:
  fixes es t labels sdk repeat_num tid end_time real_num
  defines "p \<equiv> fold (cdkeys_record_step t) es (record_init labels)"
  assumes "\<forall>row\<in>set (table_rows p). plain_tid (snd row)"
  shows "read_bonuses (item_id p) = map (\<lambda>row. (rec_tid (snd row), count_of (snd row))) (table_rows p) \<and>
    (\<forall>row\<in>set (table_rows p). 1 \<le> count_of (snd row)) \<and>
    ((\<forall>row\<in>set (table_rows p). travels (snd row)) \<and> CHR '','' \<notin> set sdk \<and> CHR '','' \<notin> set tid \<longrightarrow>
       map_option read_bonuses (bonus_of_line (key_line sdk repeat_num tid end_time (ruby_strip (item_id p)) real_num)) =
         Some (map (\<lambda>row. (rec_tid (snd row), count_of (snd row))) (table_rows p)))"
proof -
  note run = cdkeys_run [of t es labels, folded p_def]
  have good: "\<forall>r\<in>set (map snd (table_rows p)). good_record r \<and> plain_tid r" using run(3) assms(2) by auto
  have "item_id p = concat (map bonus_text (map snd (table_rows p)))" using run(2) by (simp add: o_def)
  note sent = this
  have read: "read_bonuses (item_id p) = map (\<lambda>row. (rec_tid (snd row), count_of (snd row))) (table_rows p)"
    using read_rows [OF good] by (simp add: sent o_def)
  moreover have "\<forall>row\<in>set (table_rows p). 1 \<le> count_of (snd row)" using run(3) by (auto simp: good_record_def)
  moreover have "bonus_of_line (key_line sdk repeat_num tid end_time (ruby_strip (item_id p)) real_num) = Some (item_id p)"
    if "\<forall>row\<in>set (table_rows p). travels (snd row)" "CHR '','' \<notin> set sdk" "CHR '','' \<notin> set tid"
  proof -
    have rs: "\<forall>r\<in>set (map snd (table_rows p)). good_record r \<and> travels r" using good that(1) by auto
    show ?thesis unfolding sent reward_unstripped [OF rs] by (rule bonus_in_line [OF that(2,3) reward_no_comma [OF rs]])
  qed
  ultimately show ?thesis by simp
qed

definition example_keys :: "record_event list" where
  "example_keys =
     map DraftGift [FocusType, PickType 0, FocusParam 1, PickParam 1 ''it1'' ''Sword'', FocusParam 2, TypeParam 2 ''5''] @ [AddRecord] @
     map DraftGift [FocusType, PickType 1, FocusParam 1, PickParam 1 ''eq2'' ''Shield''] @ [AddRecord] @
     map DraftGift [FocusType, PickType 2, FocusParam 1, PickParam 1 ''g3'' ''Coat''] @ [AddRecord, DeleteRecord 0]"

lemma example_keys_rows:
  "table_rows (fold (cdkeys_record_step (\<lambda>k. k)) example_keys (record_init (\<lambda>_. []))) =
     [(1, \<lparr>rec_category = ''give_equip'', rec_name = ''Shield'', rec_tid = ''eq2'', rec_count = JNum 1\<rparr>),
      (2, \<lparr>rec_category = ''give_garment'', rec_name = ''Coat'', rec_tid = ''g3'', rec_count = JNum 1\<rparr>)]"
  by code_simp

lemma reward_read_back_witness:
  "read_bonuses (item_id (fold (cdkeys_record_step (\<lambda>k. k)) example_keys (record_init (\<lambda>_. [])))) = [(''eq2'', 1), (''g3'', 1)] \<and>
   map_option read_bonuses (bonus_of_line (key_line ''all'' 1 ''k1'' 1530000000
     (ruby_strip (item_id (fold (cdkeys_record_step (\<lambda>k. k)) example_keys (record_init (\<lambda>_. []))))) 1)) = Some [(''eq2'', 1), (''g3'', 1)]"
  using reward_read_back [of "\<lambda>k. k" example_keys "\<lambda>_. []" "''all''" "''k1''" 1 1530000000 1] unfolding example_keys_rows
  by (simp add: plain_tid_def count_of_def travels_def ruby_blank_def)

text \<open>
  A batch posts the fields of every record that was not deleted under the number of its row, but
  each deleted one is still there as a blank \<open>records[]\<close>.
\<close>
lemma batch_posts_holes:
  "let p = fold (batch_record_step t) es (record_init labels)
   in last (batch_posts (submit_records ids zone reason p)) =
        concat (map (\<lambda>(i, x). case x of None \<Rightarrow> [(''records[]'', [])] | Some r \<Rightarrow> record_params i r)
                  (zip [0 ..< length (g_records p)] (g_records p))) @
        [(''ids'', ids), (''zone'', zone), (''reason'', reason)] \<and>
      table_rows p = live_from 0 (g_records p)"
proof -
  define p where "p = fold (batch_record_step t) es (record_init labels)"
  have inv: "batch_list.list_inv t p" unfolding p_def by (rule batch_list.record_run_inv [OF batch_list.record_init_inv])
  then have rows: "table_rows p = live_from 0 (g_records p)" by (simp add: batch_list.list_inv_def)
  have "good_record r" if "Some r \<in> set (g_records p)" for r
    using inv that live_from_set [of r "g_records p" 0] by (auto simp: batch_list.list_inv_def)
  note built = records_built [of "g_records p", OF this]
  show ?thesis
    unfolding Let_def p_def [symmetric] submit_records_def jquery_param_def
    by (simp add: built rows param_value_def del: buildParams.simps(1))
qed

end
