(* ===== verification/Group_Mail.thy ===== *)
theory Group_Mail
  imports Gift_Form
begin

text \<open>
  The mail to a group of players, as it is written and changed on the game master console:
  the script shared by both pages (\<open>app/gm/app/views/group_mail/_form.html.erb\<close>), the page of
  a new mail (\<open>new.html.erb\<close>) and the page that changes one (\<open>edit.html.erb\<close>). The part of the
  server that reads the attachments (\<open>group_mail_controller.rb\<close>) says what is sent.

  The state is the record \<open>mail_page\<close>: the draft of the next attachment (\<open>Gift_Form\<close>), the five
  slots of the attachments (the fields \<open>hide_type1\<close> and \<open>hide_param11\<close> and so on) with the counter \<open>curIndex\<close>, the check box and the two areas that say
  who gets the mail, the other fields by their ids, the alerts, the calls of \<open>showStatus\<close>, the
  requests sent and the address the page has gone to. The events are the user's and the answers of
  the server. Fields that are disabled take no text; for the menus of fixed choices the model
  lets any text in.
\<close>

section \<open>The page\<close>

record mail_page =
  gift :: gift_form
  curIndex :: nat
  slot_type :: "nat \<Rightarrow> string"
  slot_param :: "nat \<Rightarrow> nat \<Rightarrow> string"
  attach_param :: "nat \<Rightarrow> nat \<Rightarrow> string"
  attach_label :: "nat \<Rightarrow> nat \<Rightarrow> string"
  attach_div :: "nat \<Rightarrow> nat \<Rightarrow> bool"
  clear_shown :: bool
  by_pid :: bool
  pids_disabled :: bool
  zones_disabled :: bool
  field :: "string \<Rightarrow> string"
  mail_alerts :: "string list"
  mail_status :: "(string \<times> string) list"
  mail_posts :: "(string \<times> jsval) list"
  mail_location :: "string option"

text \<open>Writing one of the five slots, and one of its three parameters.\<close>

definition put_slot :: "nat \<Rightarrow> 'a \<Rightarrow> (nat \<Rightarrow> 'a) \<Rightarrow> nat \<Rightarrow> 'a" where
  "put_slot i v f = (if 1 \<le> i \<and> i \<le> 5 then f(i := v) else f)"

definition put_cell :: "nat \<Rightarrow> nat \<Rightarrow> 'a \<Rightarrow> (nat \<Rightarrow> nat \<Rightarrow> 'a) \<Rightarrow> nat \<Rightarrow> nat \<Rightarrow> 'a" where
  "put_cell i j v f = put_slot i (put j v (f i)) f"

text \<open>
  The page of a new mail when its scripts have run, for the operator \<open>user\<close>; \<open>t\<close> gives the
  texts of the page.
\<close>

definition initDefault :: "mail_page \<Rightarrow> mail_page" where
  "initDefault p =
     p\<lparr>field := (field p)(''start_time'' := ''01/01/2018 00:00'', ''end_time'' := ''01/01/2030 00:00'',
                          ''min_lv'' := ''1'', ''max_lv'' := ''70'', ''need_activity'' := ''0'')\<rparr>"

definition mail_form_loaded :: "(string \<Rightarrow> string) \<Rightarrow> string \<Rightarrow> mail_page" where
  "mail_form_loaded t user =
     \<lparr>gift = gift_init (\<lambda>i. t (''give_param'' @ string_of_nat i)), curIndex = 1, slot_type = (\<lambda>_. []), slot_param = (\<lambda>_ _. []), attach_param = (\<lambda>_ _. []),
      attach_label = (\<lambda>i j. t (''param'' @ string_of_nat i @ string_of_nat j)), attach_div = (\<lambda>_ _. False), clear_shown = False, by_pid = True,
      pids_disabled = False, zones_disabled = True,
      field = (\<lambda>_. [])(''senderName'' := user, ''send_type'' := ''all_mail'', ''type'' := ''system'',
                       ''sub_type'' := ''normal'', ''zones'' := ''all''),
      mail_alerts = [], mail_status = [], mail_posts = [], mail_location = None\<rparr>"

definition new_mail :: "(string \<Rightarrow> string) \<Rightarrow> string \<Rightarrow> mail_page" where
  "new_mail t user = initDefault (mail_form_loaded t user)"

section \<open>Attachments\<close>

definition resetItems :: "gift_form \<Rightarrow> gift_form" where
  "resetItems f =
     fold (\<lambda>i f. f\<lparr>give_param := put i [] (give_param f), give_param_div := put i False (give_param_div f),
                  give_param_tick := put i False (give_param_tick f), give_param_label := put i [] (give_param_label f),
                  give_param_name := put i [] (give_param_name f)\<rparr>)
       [1, 2, 3]
       (f\<lparr>give_type := [], give_type_name := [], give_type_tick := False, give_submit := False\<rparr>)"

definition param_given :: "gift_form \<Rightarrow> nat \<Rightarrow> bool" where
  "param_given f i =
     (give_param_label f i \<noteq> [] \<and> give_param_name f i \<noteq> [] \<and> give_param f i \<noteq> [] \<and> give_type f \<noteq> [])"

definition add_given :: "nat \<Rightarrow> mail_page \<times> bool \<Rightarrow> mail_page \<times> bool" where
  "add_given i pb =
     (case pb of (p, filled) \<Rightarrow>
        if param_given (gift p) i
        then (p\<lparr>attach_div := put_cell (curIndex p) i True (attach_div p),
                attach_param := put_cell (curIndex p) i (give_param_name (gift p) i) (attach_param p),
                attach_label := put_cell (curIndex p) i (give_param_label (gift p) i) (attach_label p),
                slot_param := put_cell (curIndex p) i (give_param (gift p) i) (slot_param p)\<rparr>, True)
        else (p, filled))"

definition showClearAttachmentBtn :: "bool \<Rightarrow> mail_page \<Rightarrow> mail_page" where
  "showClearAttachmentBtn show p = p\<lparr>clear_shown := show\<rparr>"

definition addMail :: "(string \<Rightarrow> string) \<Rightarrow> mail_page \<Rightarrow> mail_page" where
  "addMail t p =
     (if curIndex p \<le> 5
      then (case fold add_given [1, 2, 3]
                   (p\<lparr>slot_type := put_slot (curIndex p) (give_type (gift p)) (slot_type p)\<rparr>, False) of
              (p', filled) \<Rightarrow>
                if filled
                then showClearAttachmentBtn True (p'\<lparr>gift := resetItems (gift p'), curIndex := curIndex p' + 1\<rparr>)
                else p')
      else p\<lparr>mail_alerts := mail_alerts p @ [t ''mail_attachment_full'']\<rparr>)"

text \<open>\<open>.val("")\<close> on a label, which is a \<open>span\<close>, changes nothing that is shown.\<close>

definition clear_cell :: "nat \<Rightarrow> nat \<Rightarrow> mail_page \<Rightarrow> mail_page" where
  "clear_cell i j p =
     p\<lparr>attach_div := put_cell i j False (attach_div p), slot_param := put_cell i j [] (slot_param p),
       attach_param := put_cell i j [] (attach_param p)\<rparr>"

definition clearAttachMents :: "mail_page \<Rightarrow> mail_page" where
  "clearAttachMents p =
     showClearAttachmentBtn False
       (fold (\<lambda>i p. fold (clear_cell i) [1, 2, 3] (p\<lparr>slot_type := put_slot i [] (slot_type p)\<rparr>))
          [1, 2, 3] (p\<lparr>curIndex := 1\<rparr>))"

section \<open>Recipients, check and data\<close>

definition onChooseSendType :: "mail_page \<Rightarrow> mail_page" where
  "onChooseSendType p =
     (if by_pid p
      then p\<lparr>field := (field p)(''zones'' := ''all''), pids_disabled := False, zones_disabled := True\<rparr>
      else p\<lparr>field := (field p)(''pids'' := ''all''), pids_disabled := True, zones_disabled := False\<rparr>)"

definition slot_data :: "mail_page \<Rightarrow> nat \<Rightarrow> jsobj" where
  "slot_data p i =
     [(''hide_type'' @ string_of_nat i, JStr (slot_type p i)),
      (''hide_param'' @ string_of_nat i @ ''1'', JStr (slot_param p i 1)),
      (''hide_param'' @ string_of_nat i @ ''2'', JStr (slot_param p i 2)),
      (''hide_param'' @ string_of_nat i @ ''3'', JStr (slot_param p i 3))]"

definition getData :: "mail_page \<Rightarrow> jsval" where
  "getData p =
     JObj ([(''zones'', JStr (if by_pid p then ''all'' else field p ''zones'')),
            (''pids'', JStr (if by_pid p then field p ''pids'' else ''all''))] @
           map (\<lambda>k. (k, JStr (field p k)))
             [''senderName'', ''type'', ''sub_type'', ''send_type'', ''need_activity'', ''content_text'', ''title_one'', ''title_two''] @
           concat (map (slot_data p) [1, 2, 3, 4, 5]) @
           map (\<lambda>k. (k, JStr (field p k))) [''start_time'', ''end_time'', ''min_lv'', ''max_lv''])"

text \<open>The first complaint about a new mail, by the name of its text.\<close>

definition checkMail :: "mail_page \<Rightarrow> string option" where
  "checkMail p =
     (if field p ''senderName'' = [] then Some ''mail_senderName_no_empty''
      else if js_length (field p ''content_text'') > 300 then Some ''mail_content_too_long''
      else if field p ''content_text'' = [] then Some ''mail_content_no_empty''
      else if field p ''title_one'' = [] then Some ''title_one_no_empty''
      else if field p ''zones'' = [] then Some ''zones_cannot_empty''
      else if field p ''pids'' = [] then Some ''pids_cannot_empty''
      else if js_length (field p ''pids'') > 14000 then Some ''pids_too_long''
      else if field p ''need_activity'' = [] then Some ''activity_cannot_empty''
      else None)"

definition create_mail :: "(string \<Rightarrow> string) \<Rightarrow> mail_page \<Rightarrow> mail_page" where
  "create_mail t p =
     (case checkMail p of
        Some msg \<Rightarrow> p\<lparr>mail_alerts := mail_alerts p @ [t msg]\<rparr>
      | None \<Rightarrow> p\<lparr>mail_posts := mail_posts p @ [(''/group_mail/create/'', getData p)]\<rparr>)"

definition mail_show :: "string \<Rightarrow> string \<Rightarrow> mail_page \<Rightarrow> mail_page" where
  "mail_show text status p = p\<lparr>mail_status := mail_status p @ [(text, status)]\<rparr>"

text \<open>The answer to \<open>create\<close> and \<open>save\<close>: a decoded value, or none where the request failed.\<close>

definition mail_answered :: "string \<Rightarrow> jsval option \<Rightarrow> mail_page \<Rightarrow> mail_page" where
  "mail_answered what answer p =
     (case answer of
        None \<Rightarrow> mail_show ''Something wrong!'' ''red'' p
      | Some json \<Rightarrow>
          if truthy json \<and> truthy (js_prop json ''success'')
          then (mail_show (what @ '' success~'') ''green'' p)\<lparr>mail_location := Some ''/group_mail/list/''\<rparr>
          else mail_show (what @ '' error'') ''red'' p)"

section \<open>The events of the page of a new mail\<close>

datatype mail_event =
    Draft gift_event
  | AddAttachment
  | ClearAttachments
  | ClickByPid
  | Fill string string
  | CreateMail
  | CreateAnswer "jsval option"

definition mail_event_step :: "(string \<Rightarrow> string) \<Rightarrow> mail_event \<Rightarrow> mail_page \<Rightarrow> mail_page" where
  "mail_event_step t e p =
     (case e of
        Draft g \<Rightarrow> p\<lparr>gift := mail_step t g (gift p)\<rparr>
      | AddAttachment \<Rightarrow> if give_submit (gift p) then addMail t p else p
      | ClearAttachments \<Rightarrow> if clear_shown p then clearAttachMents p else p
      | ClickByPid \<Rightarrow> onChooseSendType (p\<lparr>by_pid := \<not> by_pid p\<rparr>)
      | Fill k s \<Rightarrow>
          if k = ''pids'' \<and> pids_disabled p \<or> k = ''zones'' \<and> zones_disabled p then p
          else p\<lparr>field := (field p)(k := s)\<rparr>
      | CreateMail \<Rightarrow> create_mail t p
      | CreateAnswer r \<Rightarrow> mail_answered ''create'' r p)"

definition mail_run :: "(string \<Rightarrow> string) \<Rightarrow> mail_event list \<Rightarrow> mail_page \<Rightarrow> mail_page" where
  "mail_run t es p = fold (mail_event_step t) es p"

section \<open>The page that changes a mail\<close>

text \<open>
  Putting a value into a field: \<open>undefined\<close> and \<open>null\<close> empty it, a menu without the value falls
  back on its first choice. The attachments the server sends are objects.
\<close>

definition val_text :: "jsval \<Rightarrow> string" where
  "val_text v = (if nullish v then [] else js_to_string v)"

definition set_field :: "string \<Rightarrow> jsval \<Rightarrow> mail_page \<Rightarrow> mail_page" where
  "set_field k v p = p\<lparr>field := (field p)(k := val_text v)\<rparr>"

definition set_menu :: "string list \<Rightarrow> string \<Rightarrow> jsval \<Rightarrow> mail_page \<Rightarrow> mail_page" where
  "set_menu options k v p =
     p\<lparr>field := (field p)(k := if List.member options (val_text v) then val_text v else hd options)\<rparr>"

definition findLocalParams :: "(string \<Rightarrow> string) \<Rightarrow> jsval \<Rightarrow> edit_param list" where
  "findLocalParams t ty =
     (case List.find (\<lambda>e. js_eq ty (JStr (ei_id e))) (edits_mail t) of None \<Rightarrow> [] | Some e \<Rightarrow> ei_params e)"

definition findLabel :: "(string \<Rightarrow> string) \<Rightarrow> jsval \<Rightarrow> nat \<Rightarrow> string" where
  "findLabel t ty index =
     (case List.find (\<lambda>e. js_eq ty (JStr (ei_id e))) (edits_mail t) of
        None \<Rightarrow> [] | Some e \<Rightarrow> ep_name (ei_params e ! index))"

definition showParam :: "(string \<Rightarrow> string) \<Rightarrow> jsval \<Rightarrow> nat \<Rightarrow> jsobj \<Rightarrow> bool" where
  "showParam t ty index attachment =
     (let hasParam = list_ex (\<lambda>e. js_eq ty (JStr (ei_id e)) \<and> index < length (ei_params e)) (edits_mail t);
          v = obj_get attachment (''params'' @ string_of_nat (index + 1))
      in truthy v \<and> \<not> js_eq v (JStr []) \<and> hasParam)"

definition process_param :: "(string \<Rightarrow> string) \<Rightarrow> nat \<Rightarrow> jsobj \<Rightarrow> nat \<Rightarrow> mail_page \<Rightarrow> mail_page" where
  "process_param t i a j p =
     (let ty = obj_get a ''type''; v = obj_get a (''params'' @ string_of_nat j)
      in if showParam t ty (j - 1) a
         then p\<lparr>attach_div := put_cell i j True (attach_div p),
                attach_label := put_cell i j (findLabel t ty (j - 1)) (attach_label p),
                attach_param := put_cell i j (val_text (if j = 1 then obj_get a ''name'' else v)) (attach_param p),
                slot_param := put_cell i j (val_text v) (slot_param p)\<rparr>
         else p)"

definition process_one :: "(string \<Rightarrow> string) \<Rightarrow> nat \<times> jsobj \<Rightarrow> mail_page \<Rightarrow> mail_page" where
  "process_one t ia p =
     (case ia of (i, a) \<Rightarrow>
        fold (process_param t i a) [1 ..< Suc (length (findLocalParams t (obj_get a ''type'')))]
          (p\<lparr>curIndex := curIndex p + 1, slot_type := put_slot i (val_text (obj_get a ''type'')) (slot_type p)\<rparr>))"

definition processAttachments :: "(string \<Rightarrow> string) \<Rightarrow> jsobj list \<Rightarrow> mail_page \<Rightarrow> mail_page" where
  "processAttachments t attachments p0 =
     (let p = fold (process_one t) (zip [1 ..< Suc (length attachments)] attachments) (p0\<lparr>curIndex := 1\<rparr>)
      in if curIndex p > 1 then showClearAttachmentBtn True p else p)"

fun as_object :: "jsval \<Rightarrow> jsobj" where
  "as_object (JObj kvs) = kvs"
| "as_object _ = []"

text \<open>The callback of \<open>startLoad\<close>, once the answer is there.\<close>

definition load_recipients :: "jsval \<Rightarrow> mail_page \<Rightarrow> mail_page" where
  "load_recipients json p =
     (if js_eq (js_prop json ''to_pid'') (JStr ''all'')
      then p\<lparr>by_pid := False, pids_disabled := True, zones_disabled := False\<rparr>
      else p\<lparr>by_pid := True, pids_disabled := False, zones_disabled := True\<rparr>)"

definition load_rest :: "(string \<Rightarrow> string) \<Rightarrow> jsval \<Rightarrow> jsval \<Rightarrow> mail_page \<Rightarrow> mail_page outcome" where
  "load_rest t json content p0 =
     (let p = set_field ''title_two'' (js_prop content ''title_two'')
                (set_field ''title_one'' (js_prop content ''title_one'')
                  (set_field ''content_text'' (js_prop content ''text'') p0));
          things = js_prop content ''things'';
          finish = (\<lambda>p. load_recipients json
                     (set_field ''need_activity'' (js_prop json ''need_activity'')
                       (set_menu [''system''] ''type'' (js_prop json ''type'')
                         (set_field ''max_lv'' (js_prop json ''max_lv'')
                           (set_field ''min_lv'' (js_prop json ''min_lv'')
                             (set_field ''end_time'' (js_prop json ''end_time'')
                               (set_field ''start_time'' (js_prop json ''start_time'') p)))))))
      in if truthy things
         then with_val (js_items things) (\<lambda>xs p. Done (finish (processAttachments t (map as_object xs) p))) p
         else Done (finish p))"

definition load_mail :: "(string \<Rightarrow> string) \<Rightarrow> jsval \<Rightarrow> mail_page \<Rightarrow> mail_page outcome" where
  "load_mail t json p0 =
     (let mail = js_prop json ''mail''
      in if nullish mail then Threw TypeError p0
         else let p = set_field ''pids'' (js_prop json ''to_pid'')
                        (set_field ''zones'' (js_prop json ''zones'')
                          (set_menu [''all_mail'', ''permanent_mail''] ''send_type'' (js_prop mail ''send_type'')
                            (set_menu [''normal''] ''sub_type'' (js_prop mail ''sub_type'')
                              (set_field ''senderName'' (js_prop mail ''from_name'') p0))))
              in if nullish (js_prop mail ''content'') then Threw TypeError p
                 else load_rest t json (js_prop mail ''content'') p)"

definition getMail_done :: "(string \<Rightarrow> string) \<Rightarrow> jsval option \<Rightarrow> mail_page \<Rightarrow> mail_page outcome" where
  "getMail_done t answer p =
     (let failed = mail_show (uni [0x83B7, 0x53D6, 0x90AE, 0x4EF6, 0x4FE1, 0x606F, 0x5931, 0x8D25] @ ''!'') ''red'' p
      in case answer of
           None \<Rightarrow> Done failed
         | Some json \<Rightarrow> if truthy json then load_mail t json p else Done failed)"

definition save_mail :: "string \<Rightarrow> mail_page \<Rightarrow> mail_page" where
  "save_mail mail_id p = p\<lparr>mail_posts := mail_posts p @ [(''/group_mail/save/'' @ mail_id, getData p)]\<rparr>"

section \<open>What the server reads\<close>

text \<open>
  The attachments of a mail: a slot counts when its type and first parameter are filled in,
  and the second is 1 when it is not.
\<close>

record thing =
  thing_type :: string
  thing_params1 :: string
  thing_params2 :: jsval

definition filled_in :: "jsval \<Rightarrow> bool" where
  "filled_in v = (\<not> nullish v \<and> v \<noteq> JStr [])"

definition server_thing :: "jsval \<Rightarrow> nat \<Rightarrow> thing list" where
  "server_thing params i =
     (let ty = js_prop params (''hide_type'' @ string_of_nat i);
          p1 = js_prop params (''hide_param'' @ string_of_nat i @ ''1'');
          p2 = js_prop params (''hide_param'' @ string_of_nat i @ ''2'')
      in if filled_in ty \<and> filled_in p1
         then [\<lparr>thing_type = js_to_string ty, thing_params1 = js_to_string p1,
                thing_params2 = (if filled_in p2 then p2 else JNum 1)\<rparr>]
         else [])"

definition server_things :: "jsval \<Rightarrow> thing list" where
  "server_things params = concat (map (server_thing params) [1, 2, 3, 4, 5])"

section \<open>What adding and clearing leave\<close>

lemma put_slot_same [simp]: "put_slot i v f j = (if j = i \<and> 1 \<le> i \<and> i \<le> 5 then v else f j)"
  by (simp add: put_slot_def)

lemma put_cell_same [simp]:
  "put_cell i j v f a b = (if a = i \<and> b = j \<and> 1 \<le> i \<and> i \<le> 5 \<and> 1 \<le> j \<and> j \<le> 3 then v else f a b)"
  by (simp add: put_cell_def)

lemma put_cell_other: "a \<noteq> i \<Longrightarrow> put_cell i j v f a = f a"
  by (simp add: put_cell_def put_slot_def)

lemma resetItems_fields [simp]:
  "give_type (resetItems f) = []" "give_submit (resetItems f) = False" "selectedEditItem (resetItems f) = selectedEditItem f"
  "change_handlers (resetItems f) = change_handlers f" "completes (resetItems f) = completes f" "focused (resetItems f) = focused f"
  "give_param_div (resetItems f) i = (give_param_div f i \<and> \<not> (1 \<le> i \<and> i \<le> 3))"
  by (auto simp: resetItems_def)

lemma add_given_fields:
  "gift (fst (add_given i pb)) = gift (fst pb)" "curIndex (fst (add_given i pb)) = curIndex (fst pb)"
  "slot_type (fst (add_given i pb)) = slot_type (fst pb)" "by_pid (fst (add_given i pb)) = by_pid (fst pb)"
  "field (fst (add_given i pb)) = field (fst pb)" "mail_posts (fst (add_given i pb)) = mail_posts (fst pb)"
  "snd (add_given i pb) = (snd pb \<or> param_given (gift (fst pb)) i)"
  "slot_param (fst (add_given i pb)) a b =
     (if param_given (gift (fst pb)) i \<and> a = curIndex (fst pb) \<and> b = i \<and> 1 \<le> a \<and> a \<le> 5 \<and> 1 \<le> b \<and> b \<le> 3
      then give_param (gift (fst pb)) i else slot_param (fst pb) a b)"
  by (auto simp: add_given_def split: prod.splits)

definition drafted :: "gift_form \<Rightarrow> nat \<Rightarrow> string" where
  "drafted f i = (if 1 \<le> i \<and> i \<le> 3 \<and> param_given f i then give_param f i else [])"

definition any_given :: "gift_form \<Rightarrow> bool" where
  "any_given f = (param_given f 1 \<or> param_given f 2 \<or> param_given f 3)"

text \<open>A button pressed while a slot is free either fills the slot and empties the draft, or only notes the type.\<close>

definition slot_free :: "mail_page \<Rightarrow> bool" where
  "slot_free p = (1 \<le> curIndex p \<and> curIndex p \<le> 6 \<and> (\<forall>i j. curIndex p \<le> i \<longrightarrow> slot_param p i j = []))"

lemma addMail_fields:
  assumes "curIndex p \<le> 5" "slot_free p"
  shows "gift (addMail t p) = (if any_given (gift p) then resetItems (gift p) else gift p)"
    and "curIndex (addMail t p) = (if any_given (gift p) then curIndex p + 1 else curIndex p)"
    and "slot_type (addMail t p) i = (if i = curIndex p then give_type (gift p) else slot_type p i)"
    and "slot_param (addMail t p) i j = (if i = curIndex p then drafted (gift p) j else slot_param p i j)"
proof -
  have three: "1 \<le> j \<and> j \<le> 3 \<longleftrightarrow> j = 1 \<or> j = 2 \<or> j = (3::nat)" for j by auto
  have drafted: "drafted (gift p) j = (if (j = 1 \<or> j = 2 \<or> j = 3) \<and> param_given (gift p) j then give_param (gift p) j else [])"
    for j using three [of j] by (auto simp: drafted_def)
  show "gift (addMail t p) = (if any_given (gift p) then resetItems (gift p) else gift p)"
    and "curIndex (addMail t p) = (if any_given (gift p) then curIndex p + 1 else curIndex p)"
    and "slot_type (addMail t p) i = (if i = curIndex p then give_type (gift p) else slot_type p i)"
    using assms
    by (simp_all add: addMail_def add_given_fields split_beta showClearAttachmentBtn_def any_given_def slot_free_def)
  show "slot_param (addMail t p) i j = (if i = curIndex p then drafted (gift p) j else slot_param p i j)"
    using assms
    by (cases "j = 1 \<or> j = 2 \<or> j = 3"; cases "i = curIndex p")
      (auto simp add: addMail_def add_given_fields split_beta showClearAttachmentBtn_def drafted slot_free_def)
qed

lemma addMail_full: "\<not> curIndex p \<le> 5 \<Longrightarrow> addMail t p = p\<lparr>mail_alerts := mail_alerts p @ [t ''mail_attachment_full'']\<rparr>"
  by (simp add: addMail_def)

section \<open>Attachments as a list\<close>

text \<open>
  What the page promises: a list of at most five attachments, to which the button adds the
  draft. An attachment is its type and the parameters whose field was not left blank.
\<close>

type_synonym attachment = "string \<times> string \<times> string \<times> string"

definition draft_of :: "gift_form \<Rightarrow> attachment" where
  "draft_of f = (give_type f, drafted f 1, drafted f 2, drafted f 3)"

definition list_step :: "(string \<Rightarrow> string) \<Rightarrow> mail_event \<Rightarrow> gift_form \<times> attachment list \<Rightarrow> gift_form \<times> attachment list" where
  "list_step t e s =
     (case s of (f, xs) \<Rightarrow>
        (case e of
           Draft g \<Rightarrow> (mail_step t g f, xs)
         | AddAttachment \<Rightarrow>
             if give_submit f \<and> length xs < 5 \<and> any_given f then (resetItems f, xs @ [draft_of f]) else (f, xs)
         | _ \<Rightarrow> (f, xs)))"

definition slot_of :: "mail_page \<Rightarrow> nat \<Rightarrow> attachment" where
  "slot_of p i = (slot_type p i, slot_param p i 1, slot_param p i 2, slot_param p i 3)"

definition attached :: "mail_page \<Rightarrow> gift_form \<times> attachment list" where
  "attached p = (gift p, map (slot_of p) [1 ..< curIndex p])"

lemma onChoose_fields [simp]:
  "gift (onChooseSendType p) = gift p" "curIndex (onChooseSendType p) = curIndex p"
  "slot_type (onChooseSendType p) = slot_type p" "slot_param (onChooseSendType p) = slot_param p"
  by (simp_all add: onChooseSendType_def)

lemma create_fields [simp]:
  "gift (create_mail t p) = gift p" "curIndex (create_mail t p) = curIndex p"
  "slot_type (create_mail t p) = slot_type p" "slot_param (create_mail t p) = slot_param p"
  by (simp_all add: create_mail_def split: option.splits)

lemma answered_fields [simp]:
  "gift (mail_answered w r p) = gift p" "curIndex (mail_answered w r p) = curIndex p"
  "slot_type (mail_answered w r p) = slot_type p" "slot_param (mail_answered w r p) = slot_param p"
  by (simp_all add: mail_answered_def mail_show_def split: option.splits)

lemma attached_cong:
  "gift q = gift p \<Longrightarrow> curIndex q = curIndex p \<Longrightarrow> slot_type q = slot_type p \<Longrightarrow> slot_param q = slot_param p \<Longrightarrow>
     attached q = attached p"
  by (simp add: attached_def slot_of_def)

lemma addMail_attached:
  assumes "curIndex p \<le> 5" "slot_free p"
  shows "attached (addMail t p) =
      (if any_given (gift p) then (resetItems (gift p), snd (attached p) @ [draft_of (gift p)]) else attached p)"
    and "slot_free (addMail t p)"
proof -
  note eqs = addMail_fields [OF assms]
  have "map (slot_of (addMail t p)) [1 ..< curIndex p] = map (slot_of p) [1 ..< curIndex p]"
    by (simp add: slot_of_def eqs)
  then show "attached (addMail t p) =
      (if any_given (gift p) then (resetItems (gift p), snd (attached p) @ [draft_of (gift p)]) else attached p)"
    using assms by (simp add: attached_def eqs slot_free_def) (simp add: slot_of_def draft_of_def eqs)
  have "drafted (gift p) j = []" if "\<not> any_given (gift p)" for j
  proof -
    have "\<not> param_given (gift p) j" if "1 \<le> j" "j \<le> 3"
      using \<open>\<not> any_given (gift p)\<close> that numeral_3_eq_3 le_Suc_eq by (auto simp: any_given_def numeral_2_eq_2)
    then show ?thesis by (auto simp: drafted_def)
  qed
  then show "slot_free (addMail t p)"
    using assms by (auto simp: slot_free_def eqs)
qed

lemma attached_length: "slot_free p \<Longrightarrow> length (snd (attached p)) < 5 \<longleftrightarrow> curIndex p \<le> 5"
  by (auto simp: attached_def slot_free_def)

text \<open>Every event but clearing is a step on the list.\<close>

lemma other_event_fields:
  assumes "e \<noteq> ClearAttachments" "e \<noteq> AddAttachment" "\<And>g. e \<noteq> Draft g"
  shows "gift (mail_event_step t e p) = gift p" "curIndex (mail_event_step t e p) = curIndex p"
    "slot_type (mail_event_step t e p) = slot_type p" "slot_param (mail_event_step t e p) = slot_param p"
  using assms by (cases e; simp add: mail_event_step_def)+

lemma event_attached:
  assumes "slot_free p" "e \<noteq> ClearAttachments"
  shows "attached (mail_event_step t e p) = list_step t e (attached p)" and "slot_free (mail_event_step t e p)"
proof -
  obtain xs where pair: "attached p = (gift p, xs)" by (simp add: attached_def)
  have "attached (mail_event_step t e p) = list_step t e (attached p) \<and> slot_free (mail_event_step t e p)"
  proof (cases "e = AddAttachment \<or> (\<exists>g. e = Draft g)")
    case False
    then have e: "e \<noteq> AddAttachment" "\<And>g. e \<noteq> Draft g" and no_draft: "\<nexists>g. e = Draft g" by auto
    note same = other_event_fields [OF assms(2) e, of t p]
    have "list_step t e (attached p) = attached p"
      using e(1) no_draft assms(2) by (cases e) (simp_all add: list_step_def pair)
    with assms(1) attached_cong [OF same] show ?thesis by (simp add: slot_free_def same)
  next
    case True
    then consider "e = AddAttachment" "curIndex p \<le> 5" | "e = AddAttachment" "\<not> curIndex p \<le> 5" | g where "e = Draft g"
      by blast
    then show ?thesis
    proof cases
      case 1
      then show ?thesis
        using addMail_attached [OF _ assms(1), of t] attached_length [OF assms(1)] assms(1)
        by (auto simp: mail_event_step_def list_step_def pair)
    next
      case 2
      have "attached (p\<lparr>mail_alerts := x\<rparr>) = attached p" for x by (rule attached_cong) simp_all
      with 2 show ?thesis
        using attached_length [OF assms(1)] assms(1)
        by (auto simp: mail_event_step_def list_step_def addMail_full slot_free_def pair)
    next
      case 3
      then show ?thesis
        using assms(1) pair by (auto simp: mail_event_step_def list_step_def slot_free_def attached_def slot_of_def)
    qed
  qed
  then show "attached (mail_event_step t e p) = list_step t e (attached p)" and "slot_free (mail_event_step t e p)"
    by simp_all
qed

lemma run_attached:
  assumes "slot_free p" "ClearAttachments \<notin> set es"
  shows "attached (mail_run t es p) = fold (list_step t) es (attached p) \<and> slot_free (mail_run t es p)"
  using assms
proof (induction es arbitrary: p)
  case Nil
  then show ?case by (simp add: mail_run_def)
next
  case (Cons e es)
  then show ?case using event_attached [OF Cons.prems(1), of e t] by (auto simp: mail_run_def)
qed

lemma new_mail_free: "slot_free (new_mail t user)" "attached (new_mail t user) = (gift (new_mail t user), [])"
  by (simp_all add: slot_free_def attached_def new_mail_def initDefault_def mail_form_loaded_def)

text \<open>What the server makes of the slots.\<close>

fun thing_of :: "attachment \<Rightarrow> thing list" where
  "thing_of (ty, p1, p2, p3) =
     (if ty \<noteq> [] \<and> p1 \<noteq> []
      then [\<lparr>thing_type = ty, thing_params1 = p1, thing_params2 = (if p2 \<noteq> [] then JStr p2 else JNum 1)\<rparr>] else [])"

lemma slot_texts:
  "string_of_nat (Suc 0) = ''1''" "string_of_nat (Suc (Suc 0)) = ''2''" "string_of_nat 1 = ''1''" "string_of_nat 2 = ''2''" "string_of_nat 3 = ''3''" "string_of_nat 4 = ''4''" "string_of_nat 5 = ''5''"
  by code_simp+

lemma getData_slots:
  assumes "i \<in> {1, 2, 3, 4, 5}"
  shows "js_prop (getData p) (''hide_type'' @ string_of_nat i) = JStr (slot_type p i)"
    and "js_prop (getData p) (''hide_param'' @ string_of_nat i @ ''1'') = JStr (slot_param p i 1)"
    and "js_prop (getData p) (''hide_param'' @ string_of_nat i @ ''2'') = JStr (slot_param p i 2)"
  using assms by (elim insertE emptyE; simp add: getData_def slot_data_def slot_texts [simplified])+

lemma things_sent: "server_things (getData p) = concat (map (\<lambda>i. thing_of (slot_of p i)) [1, 2, 3, 4, 5])"
proof -
  have "server_thing (getData p) i = thing_of (slot_of p i)" if "i \<in> {1, 2, 3, 4, 5}" for i
    unfolding server_thing_def getData_slots [OF that] Let_def by (simp add: filled_in_def slot_of_def)
  then show ?thesis by (simp add: server_things_def)
qed

lemma things_of_attached:
  assumes "slot_free p"
  shows "server_things (getData p) = concat (map thing_of (snd (attached p)))"
proof -
  have all: "[1, 2, 3, 4, 5] = [1 ..< curIndex p] @ [curIndex p ..< 6]"
  proof -
    have "[1 ..< 6] = [1, 2, 3, 4, 5::nat]" by (simp add: upt_rec)
    moreover have "[1 ..< 6] = [1 ..< curIndex p] @ [curIndex p ..< 6]"
      using assms upt_add_eq_append [of 1 "curIndex p" "6 - curIndex p"] by (simp add: slot_free_def)
    ultimately show ?thesis by simp
  qed
  have "thing_of (slot_of p i) = []" if "curIndex p \<le> i" for i
    using assms that by (simp add: slot_free_def slot_of_def)
  then have "concat (map (\<lambda>i. thing_of (slot_of p i)) [curIndex p ..< 6]) = []" by (simp add: concat_eq_Nil_conv)
  moreover have "server_things (getData p) = concat (map (\<lambda>i. thing_of (slot_of p i)) ([1 ..< curIndex p] @ [curIndex p ..< 6]))"
    unfolding things_sent all ..
  ultimately show ?thesis by (simp add: attached_def o_def)
qed

lemma run_things:
  assumes "slot_free p" "ClearAttachments \<notin> set es"
  shows "server_things (getData (mail_run t es p)) = concat (map thing_of (snd (fold (list_step t) es (attached p))))"
  using run_attached [OF assms, of t] things_of_attached [of "mail_run t es p"] by simp

section \<open>A mail read back\<close>

text \<open>A stored attachment as the server sends it, with the name it looks up.\<close>

definition thing_json :: "(thing \<Rightarrow> string) \<Rightarrow> thing \<Rightarrow> jsobj" where
  "thing_json name th =
     [(''type'', JStr (thing_type th)), (''params1'', JStr (thing_params1 th)), (''params2'', thing_params2 th),
      (''name'', JStr (name th))]"

definition storable :: "thing \<Rightarrow> bool" where
  "storable th =
     (List.member [''give_equip'', ''give_item'', ''give_garment''] (thing_type th) \<and> thing_params1 th \<noteq> [] \<and>
      (if thing_type th = ''give_garment'' then thing_params2 th = JNum 1
       else (case thing_params2 th of JStr s \<Rightarrow> s \<noteq> [] | _ \<Rightarrow> False)))"

lemma process_param_fields [simp]:
  "gift (process_param t i a j p) = gift p" "curIndex (process_param t i a j p) = curIndex p"
  "slot_type (process_param t i a j p) = slot_type p" "field (process_param t i a j p) = field p"
  "by_pid (process_param t i a j p) = by_pid p"
  "slot_param (process_param t i a j p) =
     (if showParam t (obj_get a ''type'') (j - 1) a
      then put_cell i j (val_text (obj_get a (''params'' @ string_of_nat j))) (slot_param p) else slot_param p)"
  by (simp_all add: process_param_def Let_def)

lemma local_params:
  "ty = ''give_equip'' \<or> ty = ''give_item'' \<Longrightarrow> length (findLocalParams t (JStr ty)) = 2"
  "length (findLocalParams t (JStr ''give_garment'')) = 1"
  by (auto simp: findLocalParams_def edits_mail_def)

lemma shown_params:
  assumes "storable th"
  shows "showParam t (JStr (thing_type th)) 0 (thing_json name th)"
    and "thing_type th \<noteq> ''give_garment'' \<Longrightarrow> showParam t (JStr (thing_type th)) 1 (thing_json name th)"
  using assms
  by (auto simp: storable_def showParam_def thing_json_def edits_mail_def slot_texts [simplified] Let_def split: jsval.splits)

lemma process_one_fields:
  assumes "storable th"
  shows "curIndex (process_one t (i, thing_json name th) p) = curIndex p + 1"
    and "field (process_one t (i, thing_json name th) p) = field p"
    and "by_pid (process_one t (i, thing_json name th) p) = by_pid p"
    and "slot_type (process_one t (i, thing_json name th) p) = put_slot i (thing_type th) (slot_type p)"
    and "i' \<noteq> i \<Longrightarrow> slot_param (process_one t (i, thing_json name th) p) i' = slot_param p i'"
    and "1 \<le> i \<Longrightarrow> i \<le> 5 \<Longrightarrow> (\<And>j. slot_param p i j = []) \<Longrightarrow>
         thing_of (slot_of (process_one t (i, thing_json name th) p) i) = [th]"
proof -
  let ?a = "thing_json name th"
  have ty: "obj_get ?a ''type'' = JStr (thing_type th)" by (simp add: thing_json_def)
  have ps: "obj_get ?a (''params'' @ string_of_nat 1) = JStr (thing_params1 th)"
    "obj_get ?a (''params'' @ string_of_nat 2) = thing_params2 th"
    by (simp_all add: thing_json_def slot_texts [simplified])
  have cases: "findLocalParams t (JStr (thing_type th)) = ps \<Longrightarrow>
      [1 ..< Suc (length ps)] = (if thing_type th = ''give_garment'' then [1] else [1, 2])" for ps
    using assms local_params(1) [of "thing_type th" t] local_params(2) [of t] by (auto simp: storable_def upt_rec)
  note unfolded = process_one_def prod.case ty cases [OF refl]
  show "curIndex (process_one t (i, ?a) p) = curIndex p + 1" "field (process_one t (i, ?a) p) = field p"
    "by_pid (process_one t (i, ?a) p) = by_pid p"
    "slot_type (process_one t (i, ?a) p) = put_slot i (thing_type th) (slot_type p)"
    unfolding unfolded by (simp_all add: val_text_def)
  show "slot_param (process_one t (i, ?a) p) i' = slot_param p i'" if "i' \<noteq> i"
    unfolding unfolded using that by (simp add: put_cell_other)
  assume i: "1 \<le> i" "i \<le> 5" and empty: "\<And>j. slot_param p i j = []"
  show "thing_of (slot_of (process_one t (i, ?a) p) i) = [th]"
  proof (cases "thing_type th = ''give_garment''")
    case True
    then show ?thesis
      using assms i empty shown_params(1) [OF assms, of t name] unfolding unfolded slot_of_def
      by (simp add: ty ps [simplified] val_text_def storable_def thing_json_def slot_texts [simplified])
  next
    case False
    then show ?thesis
      using assms i empty shown_params [OF assms, of t name] unfolding unfolded slot_of_def
      by (auto simp: ty ps [simplified] val_text_def storable_def split: jsval.splits)
  qed
qed

text \<open>Loading fills the slots in order.\<close>

lemma process_list:
  fixes name :: "thing \<Rightarrow> string" and t :: "string \<Rightarrow> string"
  assumes "\<And>th. th \<in> set ths \<Longrightarrow> storable th" "1 \<le> k" "k + length ths \<le> 6" "\<And>i j. k \<le> i \<Longrightarrow> slot_param p i j = []"
  defines "q \<equiv> fold (process_one t) (zip [k ..< k + length ths] (map (thing_json name) ths)) p"
  shows "curIndex q = curIndex p + length ths \<and> field q = field p \<and> by_pid q = by_pid p \<and>
    (\<forall>i. i < k \<longrightarrow> slot_of q i = slot_of p i) \<and> (\<forall>i j. k + length ths \<le> i \<longrightarrow> slot_param q i j = []) \<and>
    concat (map (\<lambda>i. thing_of (slot_of q i)) [k ..< k + length ths]) = ths"
  using assms(1-4) unfolding q_def
proof (induction ths arbitrary: k p)
  case Nil
  then show ?case by simp
next
  case (Cons th ths)
  let ?p = "process_one t (k, thing_json name th) p"
  have th: "storable th" using Cons.prems(1) by simp
  note one = process_one_fields [where t = t and i = k and name = name and p = p, OF th]
  have bounds: "1 \<le> k" "k \<le> 5" using Cons.prems by simp_all
  have free: "slot_param ?p i j = []" if "Suc k \<le> i" for i j
    using one(5) [of i] that Cons.prems(4) by simp
  have split: "[k ..< k + length (th # ths)] = k # [Suc k ..< Suc k + length ths]"
    by (subst upt_conv_Cons) simp_all
  let ?q = "fold (process_one t) (zip [Suc k ..< Suc k + length ths] (map (thing_json name) ths)) ?p"
  have IH: "curIndex ?q = curIndex ?p + length ths \<and> field ?q = field ?p \<and> by_pid ?q = by_pid ?p \<and>
    (\<forall>i. i < Suc k \<longrightarrow> slot_of ?q i = slot_of ?p i) \<and> (\<forall>i j. Suc k + length ths \<le> i \<longrightarrow> slot_param ?q i j = []) \<and>
    concat (map (\<lambda>i. thing_of (slot_of ?q i)) [Suc k ..< Suc k + length ths]) = ths"
    by (rule Cons.IH) (use Cons.prems free in auto)
  have "slot_of ?p i = slot_of p i" if "i < k" for i
    using one(4) one(5) [of i] that by (simp add: slot_of_def)
  moreover have "thing_of (slot_of ?q k) = [th]"
    using IH one(6) bounds Cons.prems(4) by simp
  ultimately show ?case
    using IH one(1-3) unfolding split by (simp add: less_Suc_eq)
qed

lemma processAttachments_fields:
  fixes name :: "thing \<Rightarrow> string" and t :: "string \<Rightarrow> string"
  assumes "\<And>th. th \<in> set ths \<Longrightarrow> storable th" "length ths \<le> 5" "\<And>i j. slot_param p i j = []"
  defines "q \<equiv> processAttachments t (map (thing_json name) ths) p"
  shows "curIndex q = length ths + 1" "field q = field p" "by_pid q = by_pid p" "slot_free q"
    "snd (attached q) = map (slot_of q) [1 ..< length ths + 1]" "concat (map thing_of (snd (attached q))) = ths"
proof -
  let ?r = "fold (process_one t) (zip [1 ..< 1 + length ths] (map (thing_json name) ths)) (p\<lparr>curIndex := 1\<rparr>)"
  have r: "curIndex ?r = 1 + length ths \<and> field ?r = field p \<and> by_pid ?r = by_pid p \<and>
    (\<forall>i j. 1 + length ths \<le> i \<longrightarrow> slot_param ?r i j = []) \<and> concat (map (\<lambda>i. thing_of (slot_of ?r i)) [1 ..< 1 + length ths]) = ths"
    using process_list [where ths = ths and k = 1 and p = "p\<lparr>curIndex := 1\<rparr>" and t = t and name = name] assms(1-3)
    by auto
  have q: "q = (if curIndex ?r > 1 then showClearAttachmentBtn True ?r else ?r)"
    by (simp add: q_def processAttachments_def Let_def)
  have same: "curIndex q = curIndex ?r" "field q = field ?r" "by_pid q = by_pid ?r" "slot_param q = slot_param ?r"
    "slot_type q = slot_type ?r"
    by (simp_all add: q showClearAttachmentBtn_def)
  have slots: "slot_of q = slot_of ?r" by (rule ext) (simp add: slot_of_def same)
  show "curIndex q = length ths + 1" "field q = field p" "by_pid q = by_pid p" using r by (simp_all add: same)
  then show "snd (attached q) = map (slot_of q) [1 ..< length ths + 1]" by (simp add: attached_def)
  then show "concat (map thing_of (snd (attached q))) = ths" using r by (simp add: slots o_def)
  show "slot_free q" using r assms(2) by (simp add: slot_free_def same)
qed

section \<open>Drafts and attachments together\<close>

lemma resetItems_inv:
  assumes "mail.gift_inv t f" shows "mail.gift_inv t (resetItems f)"
proof -
  have "\<not> give_param_div (resetItems f) i" for i
  proof
    assume i: "give_param_div (resetItems f) i"
    then obtain it where "mail.drafting t it f" "1 \<le> i" "i \<le> asked it"
      using assms by (auto simp: mail.gift_inv_def)
    then show False
      using i mail.needs_bounds [of it t] by (auto simp: mail.drafting_def)
  qed
  moreover have "mail.handlers_ok t (resetItems f)"
    using assms mail.handlers_ok_cong [of "resetItems f" f] by (simp add: mail.gift_inv_def)
  ultimately show ?thesis by (intro mail.gift_invI) (auto simp del: resetItems_fields(7))
qed

text \<open>An attachment of a type the page offers, its second parameter in range when it was kept.\<close>

definition sound_attachment :: "attachment \<Rightarrow> bool" where
  "sound_attachment x =
     (case x of (ty, p1, p2, p3) \<Rightarrow>
        List.member [''give_equip'', ''give_item'', ''give_garment''] ty \<and>
        (ty \<noteq> ''give_garment'' \<longrightarrow> p2 = [] \<or> counted p2) \<and>
        (ty = ''give_equip'' \<longrightarrow> p2 = [] \<or> (case js_parse_int p2 of None \<Rightarrow> False | Some n \<Rightarrow> n \<le> 70)))"

lemma draft_sound:
  assumes "mail.gift_inv t f" "give_submit f"
  shows "sound_attachment (draft_of f)"
proof -
  obtain it where it: "it \<in> set (edits_mail t)" "give_type f = ei_id it" "filled_to check_mail_param it (asked it) (give_param f)"
    using mail.offered_complete [OF assms] by metis
  note filled = mail_filled [OF it(1,3)]
  have "drafted f 2 = [] \<or> drafted f 2 = give_param f 2" by (simp add: drafted_def)
  then show ?thesis
    using filled it(2) by (auto simp: sound_attachment_def draft_of_def js_parse_int_of_int)
qed

lemma list_step_sound:
  assumes "mail.gift_inv t (fst s)" "list_all sound_attachment (snd s)"
  shows "mail.gift_inv t (fst (list_step t e s)) \<and> list_all sound_attachment (snd (list_step t e s))"
proof -
  obtain f xs where s: "s = (f, xs)" by (cases s)
  show ?thesis
    using assms mail.gift_step_inv resetItems_inv draft_sound
    by (cases e) (auto simp: list_step_def s)
qed

lemma list_run_sound:
  assumes "mail.gift_inv t (fst s)" "list_all sound_attachment (snd s)"
  shows "list_all sound_attachment (snd (fold (list_step t) es s))"
  using assms by (induction es arbitrary: s) (simp_all add: list_step_sound)

lemma clear_fields:
  "slot_type (clearAttachMents p) i = (if 1 \<le> i \<and> i \<le> 3 then [] else slot_type p i)"
  "slot_param (clearAttachMents p) i j = (if 1 \<le> i \<and> i \<le> 3 \<and> 1 \<le> j \<and> j \<le> 3 then [] else slot_param p i j)"
proof -
  have three: "1 \<le> k \<and> k \<le> 3 \<longleftrightarrow> k = 1 \<or> k = 2 \<or> k = (3::nat)" for k by auto
  show "slot_type (clearAttachMents p) i = (if 1 \<le> i \<and> i \<le> 3 then [] else slot_type p i)"
    unfolding three by (simp add: clearAttachMents_def showClearAttachmentBtn_def clear_cell_def)
  show "slot_param (clearAttachMents p) i j = (if 1 \<le> i \<and> i \<le> 3 \<and> 1 \<le> j \<and> j \<le> 3 then [] else slot_param p i j)"
    using three [of i] three [of j] by (auto simp: clearAttachMents_def showClearAttachmentBtn_def clear_cell_def)
qed

section \<open>Loading and saving\<close>

lemma set_fields [simp]:
  "slot_type (set_field k v p) = slot_type p" "slot_param (set_field k v p) = slot_param p"
  "curIndex (set_field k v p) = curIndex p" "by_pid (set_field k v p) = by_pid p"
  "field (set_field k v p) = (field p)(k := val_text v)"
  "slot_type (set_menu os k v p) = slot_type p" "slot_param (set_menu os k v p) = slot_param p"
  "curIndex (set_menu os k v p) = curIndex p" "by_pid (set_menu os k v p) = by_pid p"
  "k' \<noteq> k \<Longrightarrow> field (set_menu os k v p) k' = field p k'"
  "slot_type (load_recipients json p) = slot_type p" "slot_param (load_recipients json p) = slot_param p"
  "field (load_recipients json p) = field p"
  "by_pid (load_recipients json p) = (\<not> js_eq (js_prop json ''to_pid'') (JStr ''all''))"
  by (simp_all add: set_field_def set_menu_def load_recipients_def)

lemma js_prop_value: "js_prop v k \<noteq> JUndef \<Longrightarrow> \<not> nullish v"
  by (cases v) simp_all

text \<open>The fields of the data that are read off single fields of the page.\<close>

lemma getData_fields:
  "k \<in> {''senderName'', ''type'', ''sub_type'', ''send_type'', ''need_activity'', ''content_text'', ''title_one'',
     ''title_two'', ''start_time'', ''end_time'', ''min_lv'', ''max_lv''} \<Longrightarrow> js_prop (getData p) k = JStr (field p k)"
  "js_prop (getData p) ''zones'' = JStr (if by_pid p then ''all'' else field p ''zones'')"
  "js_prop (getData p) ''pids'' = JStr (if by_pid p then field p ''pids'' else ''all'')"
  by (elim insertE emptyE; simp add: getData_def slot_data_def slot_texts [simplified]) (simp_all add: getData_def)

lemma things_same_slots:
  "slot_type q = slot_type p \<Longrightarrow> slot_param q = slot_param p \<Longrightarrow> server_things (getData q) = server_things (getData p)"
  by (simp add: things_sent slot_of_def)

lemma loaded_mail:
  fixes name :: "thing \<Rightarrow> string" and t :: "string \<Rightarrow> string"
  assumes "truthy json" "\<And>i j. slot_param p0 i j = []" "list_all storable ths" "length ths \<le> 5"
    and things: "js_prop content ''things'' = JArr (map (\<lambda>th. JObj (thing_json name th)) ths)"
    and content: "content = js_prop (js_prop json ''mail'') ''content''"
  defines "p \<equiv> final_state (getMail_done t (Some json) p0)"
  shows "server_things (getData p) = ths"
    and "by_pid p = (\<not> js_eq (js_prop json ''to_pid'') (JStr ''all''))"
    and "field p ''zones'' = val_text (js_prop json ''zones'')" "field p ''pids'' = val_text (js_prop json ''to_pid'')"
    and "field p ''content_text'' = val_text (js_prop content ''text'')"
    and "field p ''title_one'' = val_text (js_prop content ''title_one'')"
    and "field p ''senderName'' = val_text (js_prop (js_prop json ''mail'') ''from_name'')"
proof -
  have "\<not> nullish content" using js_prop_value [of content "''things''"] things by simp
  then have "content \<noteq> JUndef" "\<not> nullish content" by auto
  then have ok: "\<not> nullish (js_prop json ''mail'')" "\<not> nullish (js_prop (js_prop json ''mail'') ''content'')"
    using content js_prop_value [of "js_prop json ''mail''" "''content''"] by auto
  have objects: "map as_object (map (\<lambda>th. JObj (thing_json name th)) ths) = map (thing_json name) ths" by simp
  define p1 where "p1 = set_field ''title_two'' (js_prop content ''title_two'')
     (set_field ''title_one'' (js_prop content ''title_one'') (set_field ''content_text'' (js_prop content ''text'')
       (set_field ''pids'' (js_prop json ''to_pid'') (set_field ''zones'' (js_prop json ''zones'')
         (set_menu [''all_mail'', ''permanent_mail''] ''send_type'' (js_prop (js_prop json ''mail'') ''send_type'')
           (set_menu [''normal''] ''sub_type'' (js_prop (js_prop json ''mail'') ''sub_type'')
             (set_field ''senderName'' (js_prop (js_prop json ''mail'') ''from_name'') p0)))))))"
  have free: "slot_param p1 i j = []" for i j using assms(2) by (simp add: p1_def)
  define q where "q = processAttachments t (map (thing_json name) ths) p1"
  have storable: "storable th" if "th \<in> set ths" for th using assms(3) that by (simp add: list_all_iff)
  note q = processAttachments_fields [where p = p1 and t = t and name = name, OF storable assms(4) free, folded q_def]
  have p: "p = load_recipients json (set_field ''need_activity'' (js_prop json ''need_activity'')
      (set_menu [''system''] ''type'' (js_prop json ''type'') (set_field ''max_lv'' (js_prop json ''max_lv'')
        (set_field ''min_lv'' (js_prop json ''min_lv'') (set_field ''end_time'' (js_prop json ''end_time'')
          (set_field ''start_time'' (js_prop json ''start_time'') q))))))"
    unfolding p_def getMail_done_def load_mail_def load_rest_def Let_def option.case content [symmetric]
    using assms(1) ok things by (simp add: content [symmetric] objects flip: p1_def) (simp add: q_def o_def)
  have "server_things (getData p) = server_things (getData q)" by (rule things_same_slots) (simp_all add: p)
  then show "server_things (getData p) = ths" using things_of_attached [OF q(4)] q(6) by simp
  show "by_pid p = (\<not> js_eq (js_prop json ''to_pid'') (JStr ''all''))" by (simp add: p)
  show "field p ''zones'' = val_text (js_prop json ''zones'')" "field p ''pids'' = val_text (js_prop json ''to_pid'')"
    "field p ''content_text'' = val_text (js_prop content ''text'')"
    "field p ''title_one'' = val_text (js_prop content ''title_one'')"
    "field p ''senderName'' = val_text (js_prop (js_prop json ''mail'') ''from_name'')"
    by (simp_all add: p q(2)) (simp_all add: p1_def)
qed

section \<open>The properties\<close>

text \<open>
  C13. As long as they are not cleared, the attachments the server reads off the mail are exactly
  those added: the list, in order, of the drafts for which the button was pressed while fewer
  than five were attached, each with its type and the parameters that were not left blank.
\<close>
theorem attachments_are_those_added:
  assumes "ClearAttachments \<notin> set es"
  shows "server_things (getData (mail_run t es (new_mail t user))) =
    concat (map thing_of (snd (fold (list_step t) es (gift (new_mail t user), []))))"
  using run_things [OF new_mail_free(1) assms] by (simp add: new_mail_free(2))

definition example_mail :: "mail_event list" where
  "example_mail =
     map Draft [FocusType, PickType 1, FocusParam 1, PickParam 1 ''it1'' ''Sword'', FocusParam 2, TypeParam 2 ''0'', TypeParam 2 ''3''] @
     [AddAttachment, CreateMail] @ map Draft [FocusType, PickType 2, FocusParam 1, PickParam 1 ''g7'' ''Coat''] @ [AddAttachment]"

definition example_things :: "thing list" where
  "example_things =
     [\<lparr>thing_type = ''give_item'', thing_params1 = ''it1'', thing_params2 = JStr ''3''\<rparr>,
      \<lparr>thing_type = ''give_garment'', thing_params1 = ''g7'', thing_params2 = JNum 1\<rparr>]"

lemma example_list:
  "concat (map thing_of (snd (fold (list_step (\<lambda>k. k)) example_mail (gift (new_mail (\<lambda>k. k) ''gm''), [])))) = example_things"
  by code_simp

lemma example_plain: "ClearAttachments \<notin> set example_mail"
  by (simp add: example_mail_def)

lemma attachments_are_those_added_witness:
  "server_things (getData (mail_run (\<lambda>k. k) example_mail (new_mail (\<lambda>k. k) ''gm''))) = example_things"
  using attachments_are_those_added [OF example_plain, of "\<lambda>k. k" "''gm''"] example_list by simp

text \<open>
  C14. As long as the attachments are not cleared, every attachment the server reads off a mail is of
  a type the page offers and names an item; a count is the text of a positive number and a level the
  text of a number from 1 to 70, or 1 where the parameter was left out, whatever was typed on the way.
  Clearing is excluded because it leaves the fourth and the fifth attachment, whose parameters a later
  attachment can inherit.
\<close>
theorem attachments_in_range:
  assumes "ClearAttachments \<notin> set es" "th \<in> set (server_things (getData (mail_run t es (new_mail t user))))"
  shows "thing_type th \<in> {''give_equip'', ''give_item'', ''give_garment''} \<and> thing_params1 th \<noteq> [] \<and>
    (thing_type th \<noteq> ''give_garment'' \<longrightarrow>
       (\<exists>n. 1 \<le> n \<and> (thing_type th = ''give_equip'' \<longrightarrow> n \<le> 70) \<and>
            thing_params2 th \<in> {JNum 1, JStr (string_of_int n)}))"
proof -
  let ?p = "mail_run t es (new_mail t user)"
  have "gift (new_mail t user) = gift_init (\<lambda>i. t (''give_param'' @ string_of_nat i))"
    by (simp add: new_mail_def initDefault_def mail_form_loaded_def)
  then have "list_all sound_attachment (snd (fold (list_step t) es (gift (new_mail t user), [])))"
    by (intro list_run_sound) (simp_all add: mail.gift_init_inv)
  then have sound: "\<forall>x\<in>set (snd (attached ?p)). sound_attachment x"
    using run_attached [OF new_mail_free(1) assms(1), of t t user] by (simp add: new_mail_free(2) list_all_iff)
  have "server_things (getData ?p) = concat (map thing_of (snd (attached ?p)))"
    using run_attached [OF new_mail_free(1) assms(1), of t t user] by (intro things_of_attached) simp
  with assms(2) obtain x where x: "x \<in> set (snd (attached ?p))" "th \<in> set (thing_of x)" by auto
  obtain ty p1 p2 p3 where xs: "x = (ty, p1, p2, p3)" by (cases x)
  have ok: "sound_attachment (ty, p1, p2, p3)" using sound x(1) xs by blast
  have th: "th = \<lparr>thing_type = ty, thing_params1 = p1, thing_params2 = (if p2 \<noteq> [] then JStr p2 else JNum 1)\<rparr>" "p1 \<noteq> []"
    using x(2) xs by (simp_all split: if_splits)
  have "ty \<in> {''give_equip'', ''give_item'', ''give_garment''}"
    using ok by (auto simp: sound_attachment_def)
  moreover have "\<exists>n. 1 \<le> n \<and> (ty = ''give_equip'' \<longrightarrow> n \<le> 70) \<and> thing_params2 th \<in> {JNum 1, JStr (string_of_int n)}"
    if ng: "ty \<noteq> ''give_garment''"
  proof (cases "p2 = []")
    case True
    then have "thing_params2 th = JNum 1" using th(1) by simp
    then show ?thesis by (intro exI [of _ 1]) simp
  next
    case False
    then have "counted p2" using ok ng by (simp add: sound_attachment_def)
    then obtain n where n: "p2 = string_of_int n" "0 < n" unfolding counted_iff by blast
    have "n \<le> 70" if "ty = ''give_equip''"
      using ok False n(1) that by (simp add: sound_attachment_def js_parse_int_of_int)
    then show ?thesis using th(1) n False by (intro exI [of _ n]) simp
  qed
  ultimately show ?thesis using th by simp
qed

lemma attachments_in_range_witness:
  "\<exists>th. th \<in> set (server_things (getData (mail_run (\<lambda>k. k) example_mail (new_mail (\<lambda>k. k) ''gm'')))) \<and>
     thing_params1 th \<noteq> [] \<and> (\<exists>n. 1 \<le> n \<and> thing_params2 th \<in> {JNum 1, JStr (string_of_int n)})"
proof -
  let ?th = "\<lparr>thing_type = ''give_item'', thing_params1 = ''it1'', thing_params2 = JStr ''3''\<rparr>"
  have "server_things (getData (mail_run (\<lambda>k. k) example_mail (new_mail (\<lambda>k. k) ''gm''))) = example_things"
    using run_things [OF new_mail_free(1) example_plain, of "\<lambda>k. k"] example_list by (simp add: new_mail_free(2))
  then have th: "?th \<in> set (server_things (getData (mail_run (\<lambda>k. k) example_mail (new_mail (\<lambda>k. k) ''gm''))))"
    by (simp add: example_things_def)
  show ?thesis using attachments_in_range [OF example_plain th] th by (intro exI [of _ ?th]) auto
qed

text \<open>
  The button that clears the attachments empties the first three slots only: the server still
  reads what the fourth and the fifth hold.
\<close>
lemma clear_leaves_two_slots:
  "server_things (getData (clearAttachMents p)) = thing_of (slot_of p 4) @ thing_of (slot_of p 5)"
  by (simp add: things_sent slot_of_def clear_fields)

text \<open>
  C15. A stored mail that is loaded into the page of changes and saved at once is sent back as it
  was: the server reads the same attachments in the same order, and the same sender, text and
  title; it goes to all players of the same zones when it was for all, to the same players otherwise.
\<close>
theorem loaded_mail_saved_back:
  assumes "truthy json" "list_all storable ths" "length ths \<le> 5"
    and "content = js_prop (js_prop json ''mail'') ''content''"
    and "js_prop content ''things'' = JArr (map (\<lambda>th. JObj (thing_json name th)) ths)"
  shows "\<exists>data. mail_posts (save_mail i (final_state (getMail_done t (Some json) (mail_form_loaded t user)))) =
      mail_posts (final_state (getMail_done t (Some json) (mail_form_loaded t user))) @ [(''/group_mail/save/'' @ i, data)] \<and>
    server_things data = ths \<and>
    js_prop data ''content_text'' = JStr (val_text (js_prop content ''text'')) \<and>
    js_prop data ''title_one'' = JStr (val_text (js_prop content ''title_one'')) \<and>
    js_prop data ''senderName'' = JStr (val_text (js_prop (js_prop json ''mail'') ''from_name'')) \<and>
    (if js_eq (js_prop json ''to_pid'') (JStr ''all'')
     then js_prop data ''pids'' = JStr ''all'' \<and> js_prop data ''zones'' = JStr (val_text (js_prop json ''zones''))
     else js_prop data ''zones'' = JStr ''all'' \<and> js_prop data ''pids'' = JStr (val_text (js_prop json ''to_pid'')))"
proof -
  have free: "slot_param (mail_form_loaded t user) i j = []" for i j by (simp add: mail_form_loaded_def)
  note l = loaded_mail [where t = t, OF assms(1) free assms(2,3,5,4)]
  let ?p = "final_state (getMail_done t (Some json) (mail_form_loaded t user))"
  show ?thesis
    by (rule exI [of _ "getData ?p"]) (simp add: save_mail_def l getData_fields)
qed

definition example_json :: jsval where
  "example_json =
     JObj [(''mail'', JObj [(''from_name'', JStr ''gm''),
              (''content'', JObj [(''text'', JStr ''hello''), (''title_one'', JStr ''gift''),
                 (''things'', JArr (map (\<lambda>th. JObj (thing_json (\<lambda>_. ''n'') th)) example_things))])]),
           (''zones'', JStr ''all''), (''to_pid'', JArr [JStr ''p1'', JStr ''p2''])]"

lemma loaded_mail_saved_back_witness:
  "\<exists>data. mail_posts (save_mail ''9'' (final_state (getMail_done (\<lambda>k. k) (Some example_json) (mail_form_loaded (\<lambda>k. k) ''gm'')))) =
      mail_posts (final_state (getMail_done (\<lambda>k. k) (Some example_json) (mail_form_loaded (\<lambda>k. k) ''gm''))) @ [(''/group_mail/save/'' @ ''9'', data)] \<and>
    server_things data = example_things \<and> js_prop data ''pids'' = JStr ''p1,p2''"
proof -
  let ?content = "js_prop (js_prop example_json ''mail'') ''content''"
  have json: "truthy example_json" "js_prop ?content ''things'' = JArr (map (\<lambda>th. JObj (thing_json (\<lambda>_. ''n'') th)) example_things)"
    "\<not> js_eq (js_prop example_json ''to_pid'') (JStr ''all'')" "val_text (js_prop example_json ''to_pid'') = ''p1,p2''"
    by (simp_all add: example_json_def js_eq_def js_prim_def val_text_def)
  have ths: "list_all storable example_things" "length example_things \<le> 5" by code_simp+
  show ?thesis
    using loaded_mail_saved_back [OF json(1) ths refl json(2), of "''9''" "\<lambda>k. k" "''gm''"] json(3,4) by auto
qed

text \<open>What the check demands of the data that is sent.\<close>

definition sendable :: "jsval \<Rightarrow> bool" where
  "sendable data =
     (list_all (\<lambda>k. js_prop data k \<noteq> JStr []) [''senderName'', ''content_text'', ''title_one'', ''zones'', ''pids'', ''need_activity''] \<and>
      js_length (js_to_string (js_prop data ''content_text'')) \<le> 300 \<and>
      js_length (js_to_string (js_prop data ''pids'')) \<le> 14000 \<and>
      (js_prop data ''zones'' = JStr ''all'' \<or> js_prop data ''pids'' = JStr ''all''))"

lemma checked_sendable: "checkMail p = None \<Longrightarrow> sendable (getData p)"
  by (auto simp: checkMail_def sendable_def getData_fields js_length_def split: if_splits)

lemma posts_fields [simp]:
  "mail_posts (onChooseSendType p) = mail_posts p" "mail_posts (mail_answered w r p) = mail_posts p"
  "mail_posts (addMail t p) = mail_posts p" "mail_posts (clearAttachMents p) = mail_posts p"
  by (simp_all add: onChooseSendType_def mail_answered_def mail_show_def addMail_def add_given_fields split_beta
      showClearAttachmentBtn_def clearAttachMents_def clear_cell_def split: option.splits)

lemma event_posts:
  "set (mail_posts (mail_event_step t e p)) \<subseteq>
     set (mail_posts p) \<union> (if checkMail p = None then {(''/group_mail/create/'', getData p)} else {})"
  by (cases e) (auto simp: mail_event_step_def create_mail_def split: option.splits)

text \<open>
  C17. Every mail a page of a new mail sends has a sender, a title, a text of 1 to 300 characters and
  recipients, and names its zones or its players, not both: what does not pass the check is never
  posted, whatever the order of the events.
\<close>
theorem posted_mails_complete:
  "list_all (\<lambda>(url, data). url = ''/group_mail/create/'' \<and> sendable data) (mail_posts (mail_run t es (new_mail t user)))"
proof -
  let ?ok = "\<lambda>p. list_all (\<lambda>(url, data). url = ''/group_mail/create/'' \<and> sendable data) (mail_posts p)"
  have "?ok (fold (mail_event_step t) es p)" if "?ok p" for p
    using that
  proof (induction es arbitrary: p)
    case (Cons e es)
    have "?ok (mail_event_step t e p)"
      using Cons.prems event_posts [of t e p] checked_sendable [of p]
      by (fastforce simp: list_all_iff split: if_splits)
    then show ?case using Cons.IH by simp
  qed simp
  then show ?thesis
    by (simp add: mail_run_def new_mail_def initDefault_def mail_form_loaded_def)
qed

text \<open>Two clicks on the box leave \<open>all\<close> as the players, whoever was named before.\<close>

lemma by_pid_twice:
  assumes "by_pid p"
  shows "by_pid (mail_run t [ClickByPid, ClickByPid] p)" "field (mail_run t [ClickByPid, ClickByPid] p) ''pids'' = ''all''"
    "field (mail_run t [ClickByPid, ClickByPid] p) ''zones'' = ''all''"
  using assms by (simp_all add: mail_run_def mail_event_step_def onChooseSendType_def)

text \<open>An item whose name was blanked after it was picked is not sent, though it takes a slot.\<close>

lemma nameless_item_lost: "give_param_name f 1 = [] \<Longrightarrow> thing_of (draft_of f) = []"
  by (simp add: draft_of_def drafted_def param_given_def)

end
