(* ===== verification/Mail_List.thy ===== *)
theory Mail_List
  imports Group_Mail Text_Split
begin

text \<open>
  The list of the mails to groups (\<open>app/gm/app/views/group_mail/list.html.erb\<close>): its links to
  the other pages, the buttons that delete and publish a mail after a question, the function
  that would save an order of the mails; and the line that shows the messages of all pages of
  the console (\<open>layouts/main.html.erb\<close>).

  The state of the page is the record \<open>mail_list\<close>. \<open>index_field\<close> gives the texts of the fields
  \<open>mail_index_...\<close>, none where the page has no such field. Answers may come in any order.
\<close>

section \<open>The page\<close>

datatype list_call = CallDelete | CallPublish | CallIndex

record mail_list =
  ml_dialogs :: "string list"
  ml_sent :: "(string \<times> jsval option) list"
  ml_waiting :: "list_call list"
  ml_status :: "(string \<times> string) list"
  ml_location :: "string option"

definition mail_list_init :: mail_list where
  "mail_list_init = \<lparr>ml_dialogs = [], ml_sent = [], ml_waiting = [], ml_status = [], ml_location = None\<rparr>"

definition ml_call :: "list_call \<Rightarrow> string \<Rightarrow> jsval option \<Rightarrow> mail_list \<Rightarrow> mail_list" where
  "ml_call k url data p = p\<lparr>ml_sent := ml_sent p @ [(url, data)], ml_waiting := ml_waiting p @ [k]\<rparr>"

definition deleteMail :: "string \<Rightarrow> mail_list \<Rightarrow> mail_list" where
  "deleteMail i = ml_call CallDelete (''/group_mail/delete/'' @ i) None"

definition publishMail :: "string \<Rightarrow> mail_list \<Rightarrow> mail_list" where
  "publishMail i = ml_call CallPublish (''/group_mail/publish/'' @ i) None"

definition deleteCur :: "(string \<Rightarrow> string) \<Rightarrow> bool \<Rightarrow> string \<Rightarrow> mail_list \<Rightarrow> mail_list" where
  "deleteCur t confirmed i p0 =
     (let p = p0\<lparr>ml_dialogs := ml_dialogs p0 @ [t ''confirm_operation'']\<rparr>
      in if confirmed then deleteMail i p else p)"

definition publishCur :: "(string \<Rightarrow> string) \<Rightarrow> bool \<Rightarrow> string \<Rightarrow> mail_list \<Rightarrow> mail_list" where
  "publishCur t confirmed i p0 =
     (let p = p0\<lparr>ml_dialogs := ml_dialogs p0 @ [t ''confirm_operation'']\<rparr>
      in if confirmed then publishMail i p else p)"

definition toCreate :: "mail_list \<Rightarrow> mail_list" where
  "toCreate p = p\<lparr>ml_location := Some ''/group_mail/new/''\<rparr>"

definition editCur :: "string \<Rightarrow> mail_list \<Rightarrow> mail_list" where
  "editCur i p = p\<lparr>ml_location := Some (''/group_mail/edit/'' @ i)\<rparr>"

text \<open>
  The indexes by mail: a blank field counts 0, a field that is not there has no number. The page
  has no such fields and nothing calls \<open>saveIndex\<close>.
\<close>

definition index_value :: "string option \<Rightarrow> jsval" where
  "index_value entry =
     (case entry of
        None \<Rightarrow> JNaN
      | Some s \<Rightarrow> if s = [] then JNum 0 else (case js_parse_int s of None \<Rightarrow> JNaN | Some n \<Rightarrow> JNum n))"

definition getIndexes :: "(string \<Rightarrow> string option) \<Rightarrow> string \<Rightarrow> jsval" where
  "getIndexes index_field ids =
     JObj [(''indexes'', JObj (fold (\<lambda>i. obj_set i (index_value (index_field i))) (js_split (CHR ''_'') ids) []))]"

definition saveIndex :: "(string \<Rightarrow> string option) \<Rightarrow> string \<Rightarrow> mail_list \<Rightarrow> mail_list" where
  "saveIndex index_field ids = ml_call CallIndex ''/group_mail/saveIndex/'' (Some (getIndexes index_field ids))"

fun call_name :: "list_call \<Rightarrow> string" where
  "call_name CallDelete = ''delete''"
| "call_name CallPublish = ''publish''"
| "call_name CallIndex = ''save''"

definition list_answered :: "list_call \<Rightarrow> jsval option \<Rightarrow> mail_list \<Rightarrow> mail_list" where
  "list_answered k answer p =
     (case answer of
        None \<Rightarrow> p\<lparr>ml_status := ml_status p @ [(''Something wrong!'', ''red'')]\<rparr>
      | Some json \<Rightarrow>
          if truthy json \<and> truthy (js_prop json ''success'')
          then p\<lparr>ml_status := ml_status p @ [(call_name k @ '' success~'', ''green'')], ml_location := Some ''/group_mail/list/''\<rparr>
          else p\<lparr>ml_status := ml_status p @ [(call_name k @ '' error'', ''red'')]\<rparr>)"

datatype mail_list_event =
    ClickDelete string bool
  | ClickPublish string bool
  | ClickEdit string
  | ClickCreate
  | ListAnswer nat "jsval option"

definition mail_list_step :: "(string \<Rightarrow> string) \<Rightarrow> mail_list_event \<Rightarrow> mail_list \<Rightarrow> mail_list" where
  "mail_list_step t e p =
     (case e of
        ClickDelete i confirmed \<Rightarrow> deleteCur t confirmed i p
      | ClickPublish i confirmed \<Rightarrow> publishCur t confirmed i p
      | ClickEdit i \<Rightarrow> editCur i p
      | ClickCreate \<Rightarrow> toCreate p
      | ListAnswer n r \<Rightarrow>
          if n < length (ml_waiting p)
          then list_answered (ml_waiting p ! n) r
                 (p\<lparr>ml_waiting := take n (ml_waiting p) @ drop (Suc n) (ml_waiting p)\<rparr>)
          else p)"

section \<open>The line of messages\<close>

record flash_bar =
  bar_classes :: "string list"
  bar_text :: string
  bar_shown :: bool

definition status_classes :: "string list" where
  "status_classes = [''alert-danger'', ''alert-success'', ''alert-info'', ''alert-warning'']"

definition removeStatusClass :: "flash_bar \<Rightarrow> flash_bar" where
  "removeStatusClass b = b\<lparr>bar_classes := filter (\<lambda>c. \<not> List.member status_classes c) (bar_classes b)\<rparr>"

definition bar_addClass :: "string \<Rightarrow> flash_bar \<Rightarrow> flash_bar" where
  "bar_addClass c b = (if List.member (bar_classes b) c then b else b\<lparr>bar_classes := bar_classes b @ [c]\<rparr>)"

definition layout_showStatus :: "string \<Rightarrow> string \<Rightarrow> flash_bar \<Rightarrow> flash_bar" where
  "layout_showStatus text status b0 =
     (let b = removeStatusClass b0;
          b = (if status = ''success'' then bar_addClass ''alert-success'' b
               else if status = ''fail'' then bar_addClass ''alert-danger'' b
               else if status = ''info'' then bar_addClass ''alert-info'' b
               else if status = ''warning'' then bar_addClass ''alert-warning'' b
               else b)
      in b\<lparr>bar_text := text, bar_shown := True\<rparr>)"

section \<open>What the pages do\<close>

text \<open>Only confirmed clicks send something, each its own request.\<close>

fun list_asks :: "mail_list_event \<Rightarrow> (string \<times> jsval option) list" where
  "list_asks (ClickDelete i confirmed) = (if confirmed then [(''/group_mail/delete/'' @ i, None)] else [])"
| "list_asks (ClickPublish i confirmed) = (if confirmed then [(''/group_mail/publish/'' @ i, None)] else [])"
| "list_asks _ = []"

lemma list_answered_sent [simp]: "ml_sent (list_answered k r p) = ml_sent p"
  by (simp add: list_answered_def split: option.splits)

lemma mail_list_sends:
  "ml_sent (fold (mail_list_step t) es p) = ml_sent p @ concat (map list_asks es)"
proof (induction es arbitrary: p)
  case (Cons e es)
  have "ml_sent (mail_list_step t e p) = ml_sent p @ list_asks e"
    by (cases e) (simp_all add: mail_list_step_def deleteCur_def publishCur_def deleteMail_def publishMail_def
        ml_call_def editCur_def toCreate_def Let_def)
  then show ?case using Cons by simp
qed simp

text \<open>The colour of a status, when the layout knows it.\<close>

definition status_colour :: "string \<Rightarrow> string list" where
  "status_colour status =
     (if status = ''success'' then [''alert-success''] else if status = ''fail'' then [''alert-danger'']
      else if status = ''info'' then [''alert-info''] else if status = ''warning'' then [''alert-warning''] else [])"

lemma shown_status:
  "filter (List.member status_classes) (bar_classes (layout_showStatus text status b)) = status_colour status"
  "bar_text (layout_showStatus text status b) = text"
  by (auto simp: layout_showStatus_def removeStatusClass_def bar_addClass_def status_classes_def status_colour_def Let_def
      filter_empty_conv)

text \<open>The messages of the mail pages carry names of colours, which the layout does not know.\<close>

lemma answered_status: "set (mail_status (mail_answered what r p)) \<subseteq> set (mail_status p) \<union> UNIV \<times> {''green'', ''red''}"
  by (auto simp: mail_answered_def mail_show_def split: option.splits if_splits)

lemma list_status: "set (ml_status (list_answered k r p)) \<subseteq> set (ml_status p) \<union> UNIV \<times> {''green'', ''red''}"
  by (auto simp: list_answered_def split: option.splits if_splits)

lemma mail_messages_uncoloured:
  "status \<in> {''green'', ''red''} \<Longrightarrow>
   filter (List.member status_classes) (bar_classes (layout_showStatus text status b)) = []"
  by (auto simp: shown_status(1) status_colour_def)

end
