(* ===== verification/Json_Text.thy ===== *)
theory Json_Text
  imports Form_Data
begin

text \<open>
  The texts of the JSON editor (\<open>app/gm/public/jsoneditor/jsoneditor.js\<close>): how a value becomes the
  text of a cell of the tree and how the text of a cell is read (\<open>_escape\<close>, \<open>_unescape\<close>,
  \<open>_stripHTML\<close>, \<open>_stringCast\<close>, \<open>_getType\<close>), with the parts of the language they use: \<open>replace\<close> with a
  global pattern, \<open>JSON.stringify\<close> and \<open>JSON.parse\<close>.

  The lemmas: what is escaped reads back, what is stringified parses, and the text of a value that
  needs no quotes is cast to this value.
\<close>

section \<open>Replacing\<close>

text \<open>\<open>s.replace(/pat/g, r)\<close> for a pattern without operators: from left to right, without overlaps.\<close>

function replace_all :: "string \<Rightarrow> string \<Rightarrow> string \<Rightarrow> string" where
  "replace_all pat r [] = []"
| "replace_all pat r (c # cs) =
     (if pat \<noteq> [] \<and> starts_with pat (c # cs)
      then r @ replace_all pat r (drop (length pat) (c # cs))
      else c # replace_all pat r cs)"
  by pat_completeness auto
termination by (relation "measure (\<lambda>(pat, r, s). length s)") auto

section \<open>Strings in JSON\<close>

definition low_hex :: "nat \<Rightarrow> char" where
  "low_hex n = lower (hex_digit n)"

definition quote_char :: "char \<Rightarrow> string" where
  "quote_char c =
     (let n = of_char c :: nat
      in if c = CHR 0x22 then [CHR 0x5C, CHR 0x22]
         else if c = CHR 0x5C then [CHR 0x5C, CHR 0x5C]
         else if n = 8 then [CHR 0x5C, CHR ''b'']
         else if n = 9 then [CHR 0x5C, CHR ''t'']
         else if n = 10 then [CHR 0x5C, CHR ''n'']
         else if n = 12 then [CHR 0x5C, CHR ''f'']
         else if n = 13 then [CHR 0x5C, CHR ''r'']
         else if n < 32 then [CHR 0x5C, CHR ''u'', CHR ''0'', CHR ''0'', low_hex (n div 16), low_hex (n mod 16)]
         else [c])"

definition quote_body :: "string \<Rightarrow> string" where
  "quote_body s = concat (map quote_char s)"

definition json_quote :: "string \<Rightarrow> string" where
  "json_quote s = CHR 0x22 # quote_body s @ [CHR 0x22]"

text \<open>
  Reading a string up to its closing quote. Control characters must be escaped. Two escapes that
  form a surrogate pair are one character of four bytes.
\<close>

fun hex4 :: "string \<Rightarrow> (nat \<times> string) option" where
  "hex4 (a # b # c # d # s) =
     (case (hex_val a, hex_val b, hex_val c, hex_val d) of
        (Some w, Some x, Some y, Some z) \<Rightarrow> Some (((w * 16 + x) * 16 + y) * 16 + z, s)
      | _ \<Rightarrow> None)"
| "hex4 _ = None"

definition utf8_long :: "nat \<Rightarrow> string" where
  "utf8_long n =
     [char_of (240 + n div 262144), char_of (128 + n div 4096 mod 64), char_of (128 + n div 64 mod 64), char_of (128 + n mod 64)]"

text \<open>The character after \<open>\u\<close>, and what follows.\<close>

definition unicode_escape :: "string \<Rightarrow> (string \<times> string) option" where
  "unicode_escape s =
     (case hex4 s of
        None \<Rightarrow> None
      | Some (n, s1) \<Rightarrow>
          (if 0xD800 \<le> n \<and> n < 0xDC00 \<and> starts_with [CHR 0x5C, CHR ''u''] s1
           then (case hex4 (drop 2 s1) of
                   Some (m, s2) \<Rightarrow>
                     if 0xDC00 \<le> m \<and> m < 0xE000
                     then Some (utf8_long (0x10000 + (n - 0xD800) * 0x400 + (m - 0xDC00)), s2)
                     else Some (utf8_char n, s1)
                 | None \<Rightarrow> Some (utf8_char n, s1))
           else Some (utf8_char n, s1)))"

definition simple_escape :: "char \<Rightarrow> char option" where
  "simple_escape c =
     (if c = CHR 0x22 \<or> c = CHR 0x5C \<or> c = CHR ''/'' then Some c
      else if c = CHR ''b'' then Some (CHR 0x08)
      else if c = CHR ''f'' then Some (CHR 0x0C)
      else if c = CHR ''n'' then Some (CHR 0x0A)
      else if c = CHR ''r'' then Some (CHR 0x0D)
      else if c = CHR ''t'' then Some (CHR 0x09)
      else None)"

lemma hex4_shorter: "hex4 s = Some (n, t) \<Longrightarrow> length t < length s"
  by (cases s rule: hex4.cases) (auto split: option.splits)

lemma unicode_escape_shorter: "unicode_escape s = Some (t, r) \<Longrightarrow> length r < length s"
  by (auto simp: unicode_escape_def split: option.splits if_splits dest!: hex4_shorter)

function scan_string :: "string \<Rightarrow> (string \<times> string) option" where
  "scan_string [] = None"
| "scan_string (c # cs) =
     (if c = CHR 0x22 then Some ([], cs)
      else if (of_char c :: nat) < 32 then None
      else if c = CHR 0x5C then
        (case cs of
           [] \<Rightarrow> None
         | d # ds \<Rightarrow>
             if d = CHR ''u''
             then (case unicode_escape ds of
                     None \<Rightarrow> None
                   | Some (t, r) \<Rightarrow> map_option (apfst ((@) t)) (scan_string r))
             else (case simple_escape d of
                     None \<Rightarrow> None
                   | Some x \<Rightarrow> map_option (apfst ((#) x)) (scan_string ds)))
      else map_option (apfst ((#) c)) (scan_string cs))"
  by pat_completeness auto
termination by (relation "measure length") (auto dest: unicode_escape_shorter)

section \<open>Values in JSON\<close>

text \<open>
  \<open>JSON.stringify\<close>: nothing for \<open>undefined\<close>, which is left out of objects and becomes \<open>null\<close> in
  arrays. What is decoded from JSON holds no dates; they are printed as their text.
\<close>

fun stringify :: "jsval \<Rightarrow> string option" where
  "stringify JUndef = None"
| "stringify JNull = Some ''null''"
| "stringify (JBool b) = Some (if b then ''true'' else ''false'')"
| "stringify JNaN = Some ''null''"
| "stringify (JNum n) = Some (string_of_int n)"
| "stringify (JStr s) = Some (json_quote s)"
| "stringify (JDate t s) = Some (json_quote s)"
| "stringify (JArr vs) =
     Some (CHR ''['' # js_join '','' (map (\<lambda>v. case stringify v of None \<Rightarrow> ''null'' | Some t \<Rightarrow> t) vs) @ '']'')"
| "stringify (JObj kvs) =
     Some (CHR 0x7B # js_join '',''
       (concat (map (\<lambda>(k, v). case stringify v of None \<Rightarrow> [] | Some t \<Rightarrow> [json_quote k @ '':'' @ t]) kvs)) @ [CHR 0x7D])"

definition json_blank :: "char \<Rightarrow> bool" where
  "json_blank c = (c = CHR '' '' \<or> c = CHR 0x0A \<or> c = CHR 0x0D \<or> c = CHR 0x09)"

definition skip_ws :: "string \<Rightarrow> string" where
  "skip_ws s = dropWhile json_blank s"

abbreviation is_digit :: "char \<Rightarrow> bool" where
  "is_digit c \<equiv> digit_val c \<noteq> None"

text \<open>
  The numerals of JSON: an optional sign, digits without a leading zero, a fraction, an exponent. A
  numeral with one of the latter two is outside the integers and stands as \<open>NaN\<close>.
\<close>

definition json_fraction :: "string \<Rightarrow> (bool \<times> string) option" where
  "json_fraction s =
     (if starts_with ''.'' s
      then (if tl s \<noteq> [] \<and> is_digit (hd (tl s)) then Some (True, dropWhile is_digit (tl s)) else None)
      else Some (False, s))"

definition json_exponent :: "string \<Rightarrow> (bool \<times> string) option" where
  "json_exponent s =
     (if starts_with ''e'' s \<or> starts_with ''E'' s
      then (let t = (if starts_with ''+'' (tl s) \<or> starts_with ''-'' (tl s) then tl (tl s) else tl s)
            in if t \<noteq> [] \<and> is_digit (hd t) then Some (True, dropWhile is_digit t) else None)
      else Some (False, s))"

definition json_number :: "string \<Rightarrow> (jsval \<times> string) option" where
  "json_number s =
     (let neg = starts_with ''-'' s; t = (if neg then tl s else s);
          ds = takeWhile is_digit t; n = int (fst (digits_val 0 ds))
      in if ds = [] \<or> (hd ds = CHR ''0'' \<and> ds \<noteq> ''0'') then None
         else (case json_fraction (dropWhile is_digit t) of
                 None \<Rightarrow> None
               | Some (frac, r) \<Rightarrow>
                   (case json_exponent r of
                      None \<Rightarrow> None
                    | Some (expo, r') \<Rightarrow> Some (if frac \<or> expo then JNaN else JNum (if neg then - n else n), r'))))"

text \<open>
  \<open>JSON.parse\<close> by recursive descent. The number counts the nested calls still allowed; a text needs
  no more of them than it has characters.
\<close>

fun json_value :: "nat \<Rightarrow> string \<Rightarrow> (jsval \<times> string) option"
  and json_elems :: "nat \<Rightarrow> string \<Rightarrow> (jsval list \<times> string) option"
  and json_members :: "nat \<Rightarrow> string \<Rightarrow> ((string \<times> jsval) list \<times> string) option"
where
  "json_value 0 s0 = None"
| "json_value (Suc n) s0 =
     (let s = skip_ws s0
      in if starts_with [CHR 0x22] s then map_option (apfst JStr) (scan_string (tl s))
         else if starts_with ''['' s then
           (if starts_with '']'' (skip_ws (tl s)) then Some (JArr [], tl (skip_ws (tl s)))
            else map_option (apfst JArr) (json_elems n (tl s)))
         else if starts_with [CHR 0x7B] s then
           (if starts_with [CHR 0x7D] (skip_ws (tl s)) then Some (JObj [], tl (skip_ws (tl s)))
            else map_option (apfst (\<lambda>kvs. JObj (fold (\<lambda>(k, v). obj_set k v) kvs []))) (json_members n (tl s)))
         else if starts_with ''null'' s then Some (JNull, drop 4 s)
         else if starts_with ''true'' s then Some (JBool True, drop 4 s)
         else if starts_with ''false'' s then Some (JBool False, drop 5 s)
         else json_number s)"
| "json_elems 0 s0 = None"
| "json_elems (Suc n) s0 =
     (case json_value n s0 of
        None \<Rightarrow> None
      | Some (v, s1) \<Rightarrow>
          (let s = skip_ws s1
           in if starts_with '','' s then map_option (apfst ((#) v)) (json_elems n (tl s))
              else if starts_with '']'' s then Some ([v], tl s)
              else None))"
| "json_members 0 s0 = None"
| "json_members (Suc n) s0 =
     (let s = skip_ws s0
      in if \<not> starts_with [CHR 0x22] s then None
         else (case scan_string (tl s) of
                 None \<Rightarrow> None
               | Some (k, s1) \<Rightarrow>
                   (if \<not> starts_with '':'' (skip_ws s1) then None
                    else (case json_value n (tl (skip_ws s1)) of
                            None \<Rightarrow> None
                          | Some (v, s2) \<Rightarrow>
                              (let r = skip_ws s2
                               in if starts_with '','' r then map_option (apfst ((#) (k, v))) (json_members n (tl r))
                                  else if starts_with [CHR 0x7D] r then Some ([(k, v)], tl r)
                                  else None)))))"

definition json_parse :: "string \<Rightarrow> js_exn + jsval" where
  "json_parse s =
     (case json_value (Suc (length s)) s of
        Some (v, r) \<Rightarrow> if skip_ws r = [] then Inr v else Inl SyntaxError
      | None \<Rightarrow> Inl SyntaxError)"

section \<open>The text of a cell\<close>

definition escape :: "jsval \<Rightarrow> string" where
  "escape v =
     quote_body (replace_all ''  '' '' &nbsp;'' (replace_all ''>'' ''&gt;'' (replace_all ''<'' ''&lt;'' (js_to_string v))))"

definition unescape :: "string \<Rightarrow> js_exn + string" where
  "unescape s =
     (case scan_string (s @ [CHR 0x22]) of
        Some (t, []) \<Rightarrow> Inr (replace_all ''&nbsp;'' '' '' (replace_all ''&gt;'' ''>'' (replace_all ''&lt;'' ''<'' t)))
      | _ \<Rightarrow> Inl SyntaxError)"

text \<open>
  \<open>_stripHTML\<close> removes what matches \<open>/<(?:.|\n)*?>/\<close>: from a bracket to the first closing one, if no
  carriage return and no separator of lines or paragraphs (\<open>U+2028\<close>, \<open>U+2029\<close>) stands between.
\<close>

fun after_tag :: "string \<Rightarrow> string option" where
  "after_tag [] = None"
| "after_tag (c # cs) =
     (if c = CHR ''>'' then Some cs
      else if c = CHR 0x0D \<or> starts_with (uni [0x2028]) (c # cs) \<or> starts_with (uni [0x2029]) (c # cs) then None
      else after_tag cs)"

lemma after_tag_shorter: "after_tag s = Some t \<Longrightarrow> length t < length s"
  by (induction s) (auto split: if_splits)

function stripHTML :: "string \<Rightarrow> string" where
  "stripHTML [] = []"
| "stripHTML (c # cs) =
     (if c = CHR ''<'' then (case after_tag cs of Some r \<Rightarrow> stripHTML r | None \<Rightarrow> c # stripHTML cs)
      else c # stripHTML cs)"
  by pat_completeness auto
termination by (relation "measure length") (auto dest: after_tag_shorter)

text \<open>\<open>parseFloat\<close> finds a number where one begins the text.\<close>

definition parseFloat_finds :: "string \<Rightarrow> bool" where
  "parseFloat_finds s0 =
     (let t = unsigned (skip_blanks s0);
          u = (if starts_with ''.'' t then tl t else t)
      in u \<noteq> [] \<and> is_digit (hd u) \<or> starts_with ''Infinity'' t)"

definition stringCast :: "string \<Rightarrow> jsval" where
  "stringCast str =
     (let low = map lower str
      in if str = [] then JStr []
         else if low = ''null'' then JNull
         else if low = ''true'' then JBool True
         else if low = ''false'' then JBool False
         else (case js_string_number str of
                 Some num \<Rightarrow> if parseFloat_finds str then JNum num else JStr str
               | None \<Rightarrow> JStr str))"

datatype node_type = TArray | TObject | TString | TAuto

fun getType :: "jsval \<Rightarrow> node_type" where
  "getType (JArr vs) = TArray"
| "getType (JObj kvs) = TObject"
| "getType (JDate t s) = TObject"
| "getType (JStr s) = (if js_typeof (stringCast s) \<noteq> ''string'' then TString else TAuto)"
| "getType v = TAuto"

section \<open>What is quoted is read\<close>

lemma hex_val_low_hex: "d < 16 \<Longrightarrow> hex_val (low_hex d) = Some d"
  by (cases "d < 10") (auto simp: low_hex_def hex_digit_def lower_def hex_val_def Let_def)

lemma hex_val_zero: "hex_val CHR ''0'' = Some 0"
  by (simp add: hex_val_def)

lemma unicode_escape_control:
  assumes "n < 32"
  shows "unicode_escape (CHR ''0'' # CHR ''0'' # low_hex (n div 16) # low_hex (n mod 16) # s) = Some ([char_of n], s)"
proof -
  have "n div 16 * 16 + n mod 16 = n" by simp
  moreover have "n div 16 < 16" "n mod 16 < 16" using assms by simp_all
  ultimately have "hex4 (CHR ''0'' # CHR ''0'' # low_hex (n div 16) # low_hex (n mod 16) # s) = Some (n, s)"
    by (simp add: hex_val_low_hex hex_val_zero)
  then show ?thesis using assms by (simp add: unicode_escape_def)
qed

lemma control_chars:
  "char_of (8 :: nat) = CHR 0x08" "char_of (9 :: nat) = CHR 0x09" "char_of (10 :: nat) = CHR 0x0A"
  "char_of (12 :: nat) = CHR 0x0C" "char_of (13 :: nat) = CHR 0x0D"
  by (code_simp)+

lemma append_one: "(@) [c] = (#) c"
  by (rule ext) simp

lemma scan_quote_char: "scan_string (quote_char c @ s) = map_option (apfst ((#) c)) (scan_string s)"
proof -
  define n where "n = (of_char c :: nat)"
  then have c: "c = char_of n" by simp
  consider "c = CHR 0x22" | "c = CHR 0x5C" | "n \<in> {8, 9, 10, 12, 13}" | "n < 32" "n \<notin> {8, 9, 10, 12, 13}"
    | "\<not> n < 32" "c \<noteq> CHR 0x22" "c \<noteq> CHR 0x5C" by blast
  then show ?thesis
  proof cases
    case 4
    moreover have "c \<noteq> CHR 0x22" "c \<noteq> CHR 0x5C" using 4(1) by (auto simp: n_def)
    ultimately have "quote_char c = [CHR 0x5C, CHR ''u'', CHR ''0'', CHR ''0'', low_hex (n div 16), low_hex (n mod 16)]"
      by (simp add: quote_char_def Let_def flip: n_def)
    with 4 show ?thesis by (simp add: unicode_escape_control c append_one)
  next
    case 3
    then show ?thesis by (elim insertE) (simp_all add: c control_chars quote_char_def simple_escape_def)
  qed (simp_all add: quote_char_def simple_escape_def Let_def flip: n_def)
qed

lemma quote_body_simps [simp]:
  "quote_body [] = []"
  "quote_body (c # s) = quote_char c @ quote_body s"
  "quote_body (s @ t) = quote_body s @ quote_body t"
  by (simp_all add: quote_body_def)

lemma scan_quote_body: "scan_string (quote_body s @ CHR 0x22 # r) = Some (s, r)"
  by (induction s) (simp_all add: scan_quote_char)

section \<open>Escaped texts read back\<close>

text \<open>
  The three replacements of \<open>_escape\<close> at once, by recursion over the text: brackets become entities,
  of two spaces in a row the second one does.
\<close>

fun entities :: "string \<Rightarrow> string" where
  "entities [] = []"
| "entities [c] = (if c = CHR ''<'' then ''&lt;'' else if c = CHR ''>'' then ''&gt;'' else [c])"
| "entities (c # d # s) =
     (if c = CHR '' '' \<and> d = CHR '' '' then '' &nbsp;'' @ entities s
      else if c = CHR ''<'' then ''&lt;'' @ entities (d # s)
      else if c = CHR ''>'' then ''&gt;'' @ entities (d # s)
      else c # entities (d # s))"

definition brackets :: "string \<Rightarrow> string" where
  "brackets s = replace_all ''>'' ''&gt;'' (replace_all ''<'' ''&lt;'' s)"

lemma brackets_simps [simp]:
  "brackets [] = []"
  "brackets (c # s) = (if c = CHR ''<'' then ''&lt;'' else if c = CHR ''>'' then ''&gt;'' else [c]) @ brackets s"
  by (simp_all add: brackets_def starts_with_def)

lemma spaces_brackets: "replace_all ''  '' '' &nbsp;'' (brackets s) = entities s"
  by (induction s rule: entities.induct) (simp_all add: starts_with_def)

lemma escape_entities: "escape v = quote_body (entities (js_to_string v))"
  by (simp add: escape_def spaces_brackets flip: brackets_def)

lemma entities_back:
  assumes "CHR ''&'' \<notin> set s"
  shows "replace_all ''&nbsp;'' '' '' (replace_all ''&gt;'' ''>'' (replace_all ''&lt;'' ''<'' (entities s))) = s"
  using assms by (induction s rule: entities.induct) (auto simp: starts_with_def)

lemma unescape_quote_body:
  "unescape (quote_body s) =
     Inr (replace_all ''&nbsp;'' '' '' (replace_all ''&gt;'' ''>'' (replace_all ''&lt;'' ''<'' s)))"
  by (simp add: unescape_def scan_quote_body)

lemma low_hex_ascii:
  assumes "d < 16"
  shows "low_hex d \<notin> {CHR ''<'', CHR ''>'', CHR ''&'', CHR 0xC2, CHR 0xA0}"
proof -
  have "hex_val (CHR ''<'') = None" "hex_val (CHR ''>'') = None" "hex_val (CHR ''&'') = None"
    "hex_val (CHR 0xC2) = None" "hex_val (CHR 0xA0) = None"
    by (simp_all add: hex_val_def)
  with hex_val_low_hex [OF assms] show ?thesis by auto
qed

lemma quote_char_plain: "\<not> (of_char c :: nat) < 32 \<Longrightarrow> c \<noteq> CHR 0x22 \<Longrightarrow> c \<noteq> CHR 0x5C \<Longrightarrow> quote_char c = [c]"
  by (auto simp: quote_char_def Let_def)

lemma quote_char_ascii:
  assumes "(of_char c :: nat) < 32 \<or> c = CHR 0x22 \<or> c = CHR 0x5C"
  shows "quote_char c \<noteq> []"
    and "\<forall>d\<in>set (quote_char c). d \<notin> {CHR ''<'', CHR ''>'', CHR ''&'', CHR 0xC2, CHR 0xA0}"
proof -
  have "(of_char c :: nat) div 16 < 16 \<or> \<not> (of_char c :: nat) < 32" by auto
  then have "low_hex (of_char c div 16) \<notin> {CHR ''<'', CHR ''>'', CHR ''&'', CHR 0xC2, CHR 0xA0} \<or> \<not> (of_char c :: nat) < 32"
    using low_hex_ascii by blast
  moreover have "low_hex (of_char c mod 16) \<notin> {CHR ''<'', CHR ''>'', CHR ''&'', CHR 0xC2, CHR 0xA0}"
    by (rule low_hex_ascii) simp
  ultimately show "\<forall>d\<in>set (quote_char c). d \<notin> {CHR ''<'', CHR ''>'', CHR ''&'', CHR 0xC2, CHR 0xA0}"
    using assms by (auto simp: quote_char_def Let_def)
  show "quote_char c \<noteq> []" using assms by (auto simp: quote_char_def Let_def)
qed

lemma stripHTML_plain: "CHR ''<'' \<notin> set s \<Longrightarrow> stripHTML s = s"
  by (induction s) auto

lemma quote_char_no_bracket: "c \<noteq> CHR ''<'' \<Longrightarrow> CHR ''<'' \<notin> set (quote_char c)"
  by (cases "(of_char c :: nat) < 32 \<or> c = CHR 0x22 \<or> c = CHR 0x5C")
    (use quote_char_ascii(2) [of c] in blast, simp add: quote_char_plain)

lemma quote_body_no_bracket: "CHR ''<'' \<notin> set s \<Longrightarrow> CHR ''<'' \<notin> set (quote_body s)"
  by (induction s) (simp_all add: quote_char_no_bracket eq_commute [of "CHR ''<''"])

lemma entities_no_bracket: "CHR ''<'' \<notin> set (entities s)"
  by (induction s rule: entities.induct) auto

lemma unescape_escape:
  "CHR ''&'' \<notin> set (js_to_string v) \<Longrightarrow> unescape (stripHTML (escape v)) = Inr (js_to_string v)"
  by (simp add: escape_entities stripHTML_plain quote_body_no_bracket entities_no_bracket unescape_quote_body entities_back)

section \<open>What the browser makes of a text\<close>

text \<open>
  A text that the browser would itself write as the markup of a cell: no brackets, no blank of the
  kind that does not break lines (\<open>U+00A0\<close>), and every ampersand begins one of its entities. Such
  a markup reads back unchanged from \<open>innerHTML\<close>.
\<close>

fun serialised :: "string \<Rightarrow> bool" where
  "serialised [] = True"
| "serialised (c # cs) =
     (c \<noteq> CHR ''<'' \<and> c \<noteq> CHR ''>'' \<and> \<not> starts_with [CHR 0xC2, CHR 0xA0] (c # cs) \<and>
      (c = CHR ''&'' \<longrightarrow> list_ex (\<lambda>e. starts_with e cs) [''lt;'', ''gt;'', ''nbsp;'', ''amp;'']) \<and> serialised cs)"

definition html_law :: "(string \<Rightarrow> string) \<Rightarrow> bool" where
  "html_law H = (\<forall>s. serialised s \<longrightarrow> H s = s)"

text \<open>Texts without ampersands and without that blank are written in this way.\<close>

fun plain_text :: "string \<Rightarrow> bool" where
  "plain_text [] = True"
| "plain_text (c # cs) = (c \<noteq> CHR ''&'' \<and> \<not> starts_with [CHR 0xC2, CHR 0xA0] (c # cs) \<and> plain_text cs)"

lemma plain_text_no_amp: "plain_text s \<Longrightarrow> CHR ''&'' \<notin> set s"
  by (induction s) auto

lemma serialised_ascii:
  assumes "\<forall>d\<in>set u. d \<notin> {CHR ''<'', CHR ''>'', CHR ''&'', CHR 0xC2, CHR 0xA0}"
  shows "serialised (u @ s) = serialised s"
  using assms by (induction u) (auto simp: starts_with_def)

lemma serialised_quote:
  assumes "c \<notin> {CHR ''<'', CHR ''>'', CHR ''&''}"
  shows "serialised (quote_char c @ s) = (serialised s \<and> \<not> (c = CHR 0xC2 \<and> starts_with [CHR 0xA0] s))"
proof (cases "(of_char c :: nat) < 32 \<or> c = CHR 0x22 \<or> c = CHR 0x5C")
  case True
  then have "c \<noteq> CHR 0xC2" by auto
  then show ?thesis using serialised_ascii [OF quote_char_ascii(2) [OF True]] by simp
next
  case False
  then show ?thesis using assms by (auto simp: quote_char_plain starts_with_def)
qed

lemma hd_entities:
  "entities (d # s) \<noteq> [] \<and> (hd (entities (d # s)) = d \<or> hd (entities (d # s)) = CHR ''&'' \<or> hd (entities (d # s)) = CHR '' '')"
  by (cases s) auto

lemma starts_quote:
  assumes "starts_with [CHR 0xA0] (quote_body (entities (d # s)))"
  shows "d = CHR 0xA0"
proof -
  obtain e t where e: "entities (d # s) = e # t" "e = d \<or> e = CHR ''&'' \<or> e = CHR '' ''"
    using hd_entities [of d s] by (cases "entities (d # s)") auto
  have "e = CHR 0xA0"
  proof (cases "(of_char e :: nat) < 32 \<or> e = CHR 0x22 \<or> e = CHR 0x5C")
    case True
    then show ?thesis
      using assms quote_char_ascii [OF True] by (cases "quote_char e") (auto simp: e(1) starts_with_def)
  next
    case False
    then show ?thesis using assms by (auto simp: e(1) quote_char_plain starts_with_def)
  qed
  with e(2) show ?thesis by auto
qed

lemma quoted_entities:
  "quote_char (CHR ''&'') = ''&''" "quote_char (CHR ''l'') = ''l''" "quote_char (CHR ''t'') = ''t''"
  "quote_char (CHR ''g'') = ''g''" "quote_char (CHR '';'') = '';''" "quote_char (CHR '' '') = '' ''"
  "quote_char (CHR ''n'') = ''n''" "quote_char (CHR ''b'') = ''b''" "quote_char (CHR ''s'') = ''s''"
  "quote_char (CHR ''p'') = ''p''"
  by (simp_all add: quote_char_def)

lemma serialised_entities: "plain_text s \<Longrightarrow> serialised (quote_body (entities s))"
proof (induction s rule: entities.induct)
  case (2 c)
  then show ?case using serialised_quote [of c "[]"] by (simp add: quoted_entities starts_with_def)
next
  case (3 c d s)
  show ?case
  proof (cases "c = CHR '' '' \<and> d = CHR '' '' \<or> c = CHR ''<'' \<or> c = CHR ''>''")
    case True
    with 3 show ?thesis by (auto simp: quoted_entities starts_with_def)
  next
    case False
    with 3 have "serialised (quote_body (entities (d # s)))" "c \<notin> {CHR ''<'', CHR ''>'', CHR ''&''}" by auto
    moreover have "\<not> (c = CHR 0xC2 \<and> starts_with [CHR 0xA0] (quote_body (entities (d # s))))"
      using 3(5) starts_quote [of d s] by (auto simp: starts_with_def simp del: entities.simps)
    ultimately show ?thesis using False serialised_quote [of c "quote_body (entities (d # s))"] by auto
  qed
qed simp

lemma serialised_escape: "plain_text (js_to_string v) \<Longrightarrow> serialised (escape v)"
  by (simp add: escape_entities serialised_entities)

section \<open>Casting\<close>

text \<open>What a cell of the type \<open>auto\<close> holds: a value whose text is cast to the value itself.\<close>

fun auto_value :: "jsval \<Rightarrow> bool" where
  "auto_value JNull = True"
| "auto_value (JBool b) = True"
| "auto_value (JNum n) = True"
| "auto_value (JStr s) = (stringCast s = JStr s)"
| "auto_value v = False"

lemma starts_with_simps [simp]:
  "starts_with [] s"
  "starts_with (c # p) [] = False"
  "starts_with (c # p) (d # s) = (c = d \<and> starts_with p s)"
  by (auto simp: starts_with_def)

lemma digit_range: "is_digit c \<Longrightarrow> 48 \<le> (of_char c :: nat) \<and> (of_char c :: nat) \<le> 57"
  by (simp add: digit_val_def Let_def split: if_splits)

lemma numeral_chars:
  assumes "is_digit c"
  shows "\<not> json_blank c" and "c \<noteq> CHR ''-''" and "c \<noteq> CHR ''+''" and "c \<noteq> CHR ''.''" and "lower c = c"
    and "c \<noteq> CHR ''n''" and "c \<noteq> CHR ''t''" and "c \<noteq> CHR ''f''" and "c \<noteq> CHR 0x22" and "c \<noteq> CHR ''[''" and "c \<noteq> CHR 0x7B"
    and "c \<noteq> CHR '']''"
proof -
  note r = digit_range [OF assms]
  show "lower c = c" using r by (simp add: lower_def Let_def)
  show "\<not> json_blank c" using r unfolding json_blank_def by (elim conjE) (intro notI, elim disjE, simp_all)
  show "c \<noteq> CHR ''-''" "c \<noteq> CHR ''+''" "c \<noteq> CHR ''.''" "c \<noteq> CHR ''n''" "c \<noteq> CHR ''t''" "c \<noteq> CHR ''f''" "c \<noteq> CHR 0x22"
    "c \<noteq> CHR ''[''" "c \<noteq> CHR 0x7B" "c \<noteq> CHR '']''"
    using r by (intro notI, simp)+
qed

lemma string_of_nat_Cons: "\<exists>c cs. string_of_nat n = c # cs \<and> is_digit c \<and> list_all is_digit cs"
  using string_of_nat_digits [of n] by (cases "string_of_nat n") auto

lemma string_of_int_cases:
  obtains (pos) c cs where "string_of_int i = c # cs" "is_digit c" "list_all is_digit cs"
  | (neg) c cs where "string_of_int i = CHR ''-'' # c # cs" "is_digit c" "list_all is_digit cs"
  using string_of_nat_Cons [of "nat i"] string_of_nat_Cons [of "nat (- i)"]
  by (cases "i < 0") (auto simp: string_of_int_def)

lemma lower_minus: "lower (CHR ''-'') = CHR ''-''"
  by (simp add: lower_def)

lemma stringCast_of_int: "stringCast (string_of_int i) = JNum i"
proof (cases i rule: string_of_int_cases)
  case (pos c cs)
  then show ?thesis
    using js_string_number_of_int [of i] numeral_chars [OF pos(2)] skip_number [OF number_chars, of i]
    by (simp add: stringCast_def parseFloat_finds_def Let_def unsigned_def)
next
  case (neg c cs)
  then show ?thesis
    using js_string_number_of_int [of i] numeral_chars [OF neg(2)] skip_number [OF number_chars, of i]
    by (simp add: stringCast_def parseFloat_finds_def Let_def lower_minus unsigned_def)
qed

lemma stringCast_result:
  "stringCast s = JStr t \<Longrightarrow> t = s"
  by (auto simp: stringCast_def Let_def split: if_splits option.splits)

lemma stringCast_text: "auto_value v \<Longrightarrow> stringCast (js_to_string v) = v"
  by (cases v) (auto simp: stringCast_of_int, simp_all add: stringCast_def lower_def)

lemma stringCast_kinds: "\<exists>n. stringCast s = JNum n \<or> (\<exists>b. stringCast s = JBool b) \<or> stringCast s = JNull \<or> stringCast s = JStr s"
  by (auto simp: stringCast_def Let_def split: option.splits)

lemma auto_value_cast: "auto_value (stringCast s)"
  using stringCast_kinds [of s] by auto

lemma getType_auto:
  assumes "getType v = TAuto" "v \<noteq> JUndef" "v \<noteq> JNaN"
  shows "auto_value v"
proof (cases v)
  case (JStr s)
  then show ?thesis using assms(1) stringCast_kinds [of s] by (auto split: if_splits)
qed (use assms in simp_all)

section \<open>Stringified values parse\<close>

text \<open>What \<open>JSON.parse\<close> returns: no \<open>undefined\<close>, no \<open>NaN\<close>, no dates, names only once.\<close>

fun json_ok :: "jsval \<Rightarrow> bool" where
  "json_ok JNull = True"
| "json_ok (JBool b) = True"
| "json_ok (JNum n) = True"
| "json_ok (JStr s) = True"
| "json_ok (JArr vs) = list_all json_ok vs"
| "json_ok (JObj kvs) = (distinct (map fst kvs) \<and> list_all (\<lambda>(k, v). json_ok v) kvs)"
| "json_ok v = False"

lemma fold_obj_set:
  assumes "distinct (map fst kvs)" "fst ` set kvs \<inter> fst ` set acc = {}"
  shows "fold (\<lambda>(k, v). obj_set k v) kvs acc = acc @ kvs"
proof -
  have new: "k \<notin> fst ` set acc \<Longrightarrow> obj_set k v acc = acc @ [(k, v)]" for k v and acc :: jsobj
    by (induction acc) auto
  show ?thesis using assms
  proof (induction kvs arbitrary: acc)
    case (Cons kv kvs)
    obtain k v where kv: "kv = (k, v)" by (cases kv)
    have "k \<notin> fst ` set acc" using Cons.prems kv by auto
    then show ?case using Cons.prems Cons.IH [of "acc @ [(k, v)]"] by (auto simp: kv new)
  qed simp
qed

lemma leading_zero: "hd (string_of_nat n) = CHR ''0'' \<Longrightarrow> string_of_nat n = ''0''"
proof (induction n rule: string_of_nat.induct)
  case (1 n)
  show ?case
  proof (cases "n < 10")
    case True
    have "string_of_nat n = [digit_char n]" using True by (subst string_of_nat.simps) simp
    with 1(2) show ?thesis by simp
  next
    case False
    have n: "string_of_nat n = string_of_nat (n div 10) @ [digit_char (n mod 10)]"
      using False by (subst string_of_nat.simps) simp
    with 1(2) have "hd (string_of_nat (n div 10)) = CHR ''0''" by simp
    with 1(1) [OF False] have "string_of_nat (n div 10) = ''0''" by simp
    then have "digits_val 0 ''0'' = (n div 10, [])" using digits_val_string_of_nat [of "n div 10"] by simp
    then have "n div 10 = 0" by (simp add: digit_val_def)
    with False show ?thesis by simp
  qed
qed

text \<open>What may follow a number without being part of it.\<close>

definition number_ends :: "string \<Rightarrow> bool" where
  "number_ends r = (r = [] \<or> hd r \<in> {CHR '','', CHR '']'', CHR 0x7D})"

lemma number_ends_simps:
  assumes "number_ends r"
  shows "takeWhile is_digit r = []" "dropWhile is_digit r = r" "json_fraction r = Some (False, r)" "json_exponent r = Some (False, r)"
  using assms
  by (cases r; force simp: number_ends_def json_fraction_def json_exponent_def digit_val_def)+

lemma takeWhile_digits:
  assumes "list_all is_digit ds" "number_ends r"
  shows "takeWhile is_digit (ds @ r) = ds" "dropWhile is_digit (ds @ r) = r"
  using assms by (simp_all add: takeWhile_append2 dropWhile_append2 list_all_iff number_ends_simps del: not_None_eq)

lemma json_number_of_nat:
  assumes "number_ends r"
  shows "json_number (string_of_nat n @ r) = Some (JNum (int n), r)"
    "json_number (CHR ''-'' # string_of_nat n @ r) = Some (JNum (- int n), r)"
proof -
  obtain c cs where c: "string_of_nat n = c # cs" "is_digit c" using string_of_nat_Cons [of n] by blast
  have z: "c = CHR ''0'' \<Longrightarrow> cs = []" using leading_zero [of n] c by simp
  have d: "takeWhile is_digit (c # cs @ r) = c # cs" "dropWhile is_digit (c # cs @ r) = r"
    using takeWhile_digits [OF string_of_nat_digits assms, of n] c by simp_all
  have v: "fst (digits_val 0 (c # cs)) = n" using digits_val_string_of_nat [of n] c by simp
  note facts = z d v number_ends_simps [OF assms] numeral_chars(2) [OF c(2)]
  show "json_number (string_of_nat n @ r) = Some (JNum (int n), r)"
    using facts unfolding c(1) json_number_def Let_def by (auto simp del: digits_val.simps takeWhile.simps dropWhile.simps)
  show "json_number (CHR ''-'' # string_of_nat n @ r) = Some (JNum (- int n), r)"
    using facts unfolding c(1) json_number_def Let_def by (auto simp del: digits_val.simps takeWhile.simps dropWhile.simps)
qed

lemma json_number_of_int: "number_ends r \<Longrightarrow> json_number (string_of_int i @ r) = Some (JNum i, r)"
  using json_number_of_nat(1) [of r "nat i"] json_number_of_nat(2) [of r "nat (- i)"] by (simp add: string_of_int_def)

text \<open>The texts begin with a character that is not blank and tells the kind of the value.\<close>

lemma stringify_some: "json_ok v \<Longrightarrow> \<exists>t. stringify v = Some t"
  by (cases v) auto

lemma string_of_int_hd:
  obtains c cs where "string_of_int i = c # cs" "\<not> json_blank c"
    "c \<noteq> CHR 0x22" "c \<noteq> CHR ''[''" "c \<noteq> CHR '']''" "c \<noteq> CHR 0x7B" "c \<noteq> CHR ''n''" "c \<noteq> CHR ''t''" "c \<noteq> CHR ''f''"
proof (cases i rule: string_of_int_cases)
  case (pos c cs)
  show ?thesis by (rule that [OF pos(1)]; rule numeral_chars [OF pos(2)])
next
  case (neg c cs)
  show ?thesis by (rule that [OF neg(1)]; simp add: json_blank_def)
qed

lemma stringify_hd:
  assumes "json_ok v" "stringify v = Some t"
  shows "t \<noteq> [] \<and> \<not> json_blank (hd t) \<and> hd t \<noteq> CHR '']''"
  using assms
proof (cases v)
  case (JNum i)
  obtain c cs where "string_of_int i = c # cs" "\<not> json_blank c" "c \<noteq> CHR '']''"
    by (rule string_of_int_hd)
  moreover have "t = string_of_int i" using assms(2) JNum by simp
  ultimately show ?thesis by simp
qed (auto simp: json_quote_def json_blank_def split: if_splits)

lemma skip_ws_hd: "t \<noteq> [] \<Longrightarrow> \<not> json_blank (hd t) \<Longrightarrow> skip_ws (t @ r) = t @ r"
  by (cases t) (simp_all add: skip_ws_def)

lemma skip_ws_Cons: "\<not> json_blank c \<Longrightarrow> skip_ws (c # s) = c # s"
  by (simp add: skip_ws_def)

lemma not_blank [simp]:
  "\<not> json_blank CHR '',''" "\<not> json_blank CHR '']''" "\<not> json_blank CHR ''[''" "\<not> json_blank CHR 0x7B"
  "\<not> json_blank CHR 0x7D" "\<not> json_blank CHR 0x22" "\<not> json_blank CHR '':''"
  by (simp_all add: json_blank_def)

lemma scan_json_quote: "scan_string (tl (json_quote s @ r)) = Some (s, r)"
  using scan_quote_body [of s r] by (simp add: json_quote_def)

abbreviation text_of :: "jsval \<Rightarrow> string" where
  "text_of v \<equiv> the (stringify v)"

text \<open>A value is read from its text whatever follows, if the count of calls exceeds the length.\<close>

definition reads_back :: "jsval \<Rightarrow> bool" where
  "reads_back v =
     (\<forall>n r. length (text_of v) < n \<longrightarrow> number_ends r \<longrightarrow> json_value n (text_of v @ r) = Some (v, r))"

lemma reads_backD:
  "reads_back v \<Longrightarrow> length (text_of v) < n \<Longrightarrow> number_ends r \<Longrightarrow> json_value n (text_of v @ r) = Some (v, r)"
  by (simp add: reads_back_def)

lemma reads_backI:
  assumes "\<And>m r. length (text_of v) \<le> m \<Longrightarrow> number_ends r \<Longrightarrow> json_value (Suc m) (text_of v @ r) = Some (v, r)"
  shows "reads_back v"
  unfolding reads_back_def
proof (intro allI impI)
  fix n r
  assume "length (text_of v) < n" "number_ends r"
  then show "json_value n (text_of v @ r) = Some (v, r)"
    by (cases n) (simp_all add: assms del: json_value.simps)
qed

lemma elems_read:
  assumes "vs \<noteq> []" "list_all reads_back vs" "list_all json_ok vs" "length (js_join '','' (map text_of vs)) + 1 < n"
  shows "json_elems n (js_join '','' (map text_of vs) @ CHR '']'' # r) = Some (vs, r)"
  using assms
proof (induction vs arbitrary: n)
  case (Cons v vs)
  obtain m where n: "n = Suc m" using Cons.prems(4) by (cases n) auto
  have v: "json_value m (text_of v @ u) = Some (v, u)" if "length (text_of v) < m" "number_ends u" for u
    using Cons.prems(2) that by (simp add: reads_backD)
  show ?case
  proof (cases vs)
    case Nil
    then show ?thesis
      using v [of "CHR '']'' # r"] Cons.prems(4) by (simp add: n number_ends_def skip_ws_Cons)
  next
    case (Cons w ws)
    have "json_elems m (js_join '','' (map text_of vs) @ CHR '']'' # r) = Some (vs, r)"
      using Cons.prems Cons n by (intro Cons.IH) auto
    then show ?thesis
      using v [of "'','' @ js_join '','' (map text_of vs) @ CHR '']'' # r"] Cons.prems(4) Cons
      by (simp add: n number_ends_def skip_ws_Cons)
  qed
qed simp

definition member_text :: "string \<times> jsval \<Rightarrow> string" where
  "member_text kv = json_quote (fst kv) @ CHR '':'' # text_of (snd kv)"

lemma member_text_pair: "member_text (k, v) = json_quote k @ CHR '':'' # text_of v"
  by (simp add: member_text_def)

lemma skip_ws_text: "json_ok v \<Longrightarrow> skip_ws (text_of v @ r) = text_of v @ r"
  using stringify_some [of v] stringify_hd [of v "text_of v"] by (auto intro: skip_ws_hd)

lemma members_read:
  assumes "kvs \<noteq> []" "list_all (\<lambda>kv. reads_back (snd kv)) kvs" "length (js_join '','' (map member_text kvs)) + 1 < n"
  shows "json_members n (js_join '','' (map member_text kvs) @ CHR 0x7D # r) = Some (kvs, r)"
  using assms
proof (induction kvs arbitrary: n)
  case (Cons kv kvs)
  obtain m where n: "n = Suc m" using Cons.prems(3) by (cases n) auto
  obtain k v where kv: "kv = (k, v)" by (cases kv)
  have v: "json_value m (text_of v @ u) = Some (v, u)" if "length (text_of v) < m" "number_ends u" for u
    using Cons.prems(2) that kv by (simp add: reads_backD)
  have k: "skip_ws (json_quote k @ u) = json_quote k @ u" "starts_with [CHR 0x22] (json_quote k @ u)" for u
    by (simp_all add: json_quote_def skip_ws_Cons)
  show ?case
  proof (cases kvs)
    case Nil
    then show ?thesis
      using v [of "CHR 0x7D # r"] Cons.prems(3)
      by (simp add: n kv k member_text_pair scan_json_quote number_ends_def skip_ws_Cons)
  next
    case (Cons w ws)
    have "json_members m (js_join '','' (map member_text kvs) @ CHR 0x7D # r) = Some (kvs, r)"
      using Cons.prems Cons n by (intro Cons.IH) auto
    then show ?thesis
      using v [of "'','' @ js_join '','' (map member_text kvs) @ CHR 0x7D # r"] Cons.prems(3) Cons
      by (simp add: n kv k member_text_pair scan_json_quote number_ends_def skip_ws_Cons)
  qed
qed simp

lemma json_ok_array: "json_ok (JArr vs) \<Longrightarrow> map (\<lambda>v. case stringify v of None \<Rightarrow> ''null'' | Some t \<Rightarrow> t) vs = map text_of vs"
  by (auto simp: list_all_iff dest!: stringify_some)

lemma json_ok_object:
  "json_ok (JObj kvs) \<Longrightarrow>
     concat (map (\<lambda>(k, v). case stringify v of None \<Rightarrow> [] | Some t \<Rightarrow> [json_quote k @ '':'' @ t]) kvs) = map member_text kvs"
  by (induction kvs) (auto simp: member_text_def dest!: stringify_some)

lemma json_ok_reads_back: "json_ok v \<Longrightarrow> reads_back v"
proof (induction v rule: json_ok.induct)
  case (3 i)
  show ?case
  proof (rule reads_backI)
    fix m and r :: string
    assume r: "number_ends r"
    obtain c cs where c: "string_of_int i = c # cs" "\<not> json_blank c" "c \<noteq> CHR 0x22" "c \<noteq> CHR ''[''" "c \<noteq> CHR 0x7B"
        "c \<noteq> CHR ''n''" "c \<noteq> CHR ''t''" "c \<noteq> CHR ''f''"
      by (rule string_of_int_hd)
    then show "json_value (Suc m) (text_of (JNum i) @ r) = Some (JNum i, r)"
      using json_number_of_int [OF r, of i] by (simp add: skip_ws_Cons Let_def)
  qed
next
  case (4 s)
  show ?case by (rule reads_backI) (simp add: json_quote_def skip_ws_Cons scan_quote_body Let_def)
next
  case (5 vs)
  show ?case
  proof (rule reads_backI)
    fix m and r :: string
    assume len: "length (text_of (JArr vs)) \<le> m"
    have t: "text_of (JArr vs) @ r = CHR ''['' # js_join '','' (map text_of vs) @ CHR '']'' # r" for r
      by (simp only: stringify.simps option.sel json_ok_array [OF 5(2)]) simp
    show "json_value (Suc m) (text_of (JArr vs) @ r) = Some (JArr vs, r)"
    proof (cases vs)
      case Nil
      then show ?thesis by (simp add: skip_ws_Cons)
    next
      case (Cons w ws)
      let ?u = "js_join '','' (map text_of vs) @ CHR '']'' # r"
      have w: "json_ok w" using 5(2) Cons by simp
      obtain x where x: "?u = text_of w @ x" using Cons by (cases ws) auto
      have "\<not> starts_with '']'' (skip_ws ?u)"
        using stringify_hd [OF w] stringify_some [OF w] unfolding x skip_ws_text [OF w]
        by (cases "text_of w") auto
      moreover have "json_elems m ?u = Some (vs, r)"
        using 5 len t [of "[]"] Cons by (intro elems_read) (auto simp: list_all_iff)
      ultimately show ?thesis unfolding t by (simp add: skip_ws_Cons Let_def)
    qed
  qed
next
  case (6 kvs)
  show ?case
  proof (rule reads_backI)
    fix m and r :: string
    assume len: "length (text_of (JObj kvs)) \<le> m"
    have t: "text_of (JObj kvs) @ r = CHR 0x7B # js_join '','' (map member_text kvs) @ CHR 0x7D # r" for r
      by (simp only: stringify.simps option.sel json_ok_object [OF 6(2)]) simp
    show "json_value (Suc m) (text_of (JObj kvs) @ r) = Some (JObj kvs, r)"
    proof (cases kvs)
      case Nil
      then show ?thesis by (simp add: skip_ws_Cons)
    next
      case (Cons w ws)
      let ?u = "js_join '','' (map member_text kvs) @ CHR 0x7D # r"
      obtain x where x: "?u = CHR 0x22 # x" using Cons by (cases ws) (auto simp: member_text_def json_quote_def)
      have "\<not> starts_with [CHR 0x7D] (skip_ws ?u)" unfolding x by (simp add: skip_ws_Cons)
      moreover have "json_members m ?u = Some (kvs, r)"
        using 6 len t [of "[]"] Cons by (intro members_read) (fastforce simp: list_all_iff)+
      moreover have "fold (\<lambda>(k, v). obj_set k v) kvs [] = kvs"
        using fold_obj_set [of kvs "[]"] 6(2) by simp
      ultimately show ?thesis unfolding t by (simp add: skip_ws_Cons Let_def)
    qed
  qed
qed (auto intro!: reads_backI simp: skip_ws_Cons json_blank_def)

text \<open>The two functions of the language are inverse on what can be decoded.\<close>

lemma json_parse_stringify:
  assumes "json_ok v"
  shows "json_parse (text_of v) = Inr v"
proof -
  have "json_value (Suc (length (text_of v))) (text_of v @ []) = Some (v, [])"
    by (rule reads_backD [OF json_ok_reads_back [OF assms]]) (simp_all add: number_ends_def)
  then show ?thesis by (simp add: json_parse_def skip_ws_def del: json_value.simps)
qed

end
