(* ===== verification/Json_Editor.thy ===== *)
theory Json_Editor
  imports Json_Text
begin

text \<open>
  The tree of the JSON editor (\<open>app/gm/public/jsoneditor/jsoneditor.js\<close>) with which the game masters
  change the raw data of a player: its nodes, what a click or a key does to them, and the value
  that is read from the tree.

  A node is its attributes and its children, if it ever had any; a node that was an array or an
  object keeps them when it becomes a plain value. Of the row of a node (\<open>dom\<close>) the model holds the
  markup of its two cells, whether the cell of the name can be edited and whether the row has
  buttons; \<open>None\<close> is a node whose row was not built. \<open>H\<close> is the browser: the markup read from a cell
  into which a markup was written. A row stands in the table when all nodes above are expanded.
  \<open>JSONEditor.focusNode\<close> is a mark on the node; when the node leaves the tree, so does the mark.
  Positions, colours and highlighting are left out, and so is the row with the append button,
  which belongs to every expanded node.
\<close>

section \<open>Nodes\<close>

record cells =
  cell_field :: string
  cell_value :: string
  cell_editable :: bool
  cell_buttons :: bool

record attrs =
  nd_type :: node_type
  nd_field :: jsval
  nd_fieldHTML :: "string option"
  nd_fieldEditable :: bool
  nd_value :: jsval
  nd_valueHTML :: "string option"
  nd_expanded :: bool
  nd_index :: "nat option"
  nd_dom :: "cells option"
  nd_focused :: bool

datatype node = Node (attrs: attrs) (childs: "node list option")

abbreviation nests :: "node_type \<Rightarrow> bool" where
  "nests t \<equiv> t = TArray \<or> t = TObject"

definition with_attrs :: "(attrs \<Rightarrow> attrs) \<Rightarrow> node \<Rightarrow> node" where
  "with_attrs f n = Node (f (attrs n)) (childs n)"

definition kids :: "node \<Rightarrow> node list" where
  "kids n = (case childs n of None \<Rightarrow> [] | Some ks \<Rightarrow> ks)"

section \<open>Drawing\<close>

text \<open>The name a row shows: the position in an array, else the field, else the type.\<close>

definition shown_field :: "attrs \<Rightarrow> jsval" where
  "shown_field a =
     (case nd_index a of
        Some i \<Rightarrow> JNum (int i)
      | None \<Rightarrow>
          if \<not> nullish (nd_field a) then nd_field a
          else if nd_type a = TArray then JStr ''array''
          else if nd_type a = TObject then JStr ''object''
          else JStr ''field'')"

definition updateField :: "(string \<Rightarrow> string) \<Rightarrow> attrs \<Rightarrow> attrs" where
  "updateField H a =
     a\<lparr>nd_dom := map_option (\<lambda>d. d\<lparr>cell_field := H (escape (shown_field a)),
                               cell_editable := cell_editable d \<or> nd_fieldEditable a\<rparr>) (nd_dom a)\<rparr>"

fun updateDom :: "(string \<Rightarrow> string) \<Rightarrow> node \<Rightarrow> node" where
  "updateDom H (Node a cs) = Node (updateField H a) (map_option (map (updateDom H)) cs)"

definition set_index :: "(string \<Rightarrow> string) \<Rightarrow> nat \<Rightarrow> node \<Rightarrow> node" where
  "set_index H i = with_attrs (\<lambda>b. b\<lparr>nd_index := Some i,
     nd_dom := map_option (\<lambda>d. d\<lparr>cell_field := H (string_of_nat i)\<rparr>) (nd_dom b)\<rparr>)"

definition drop_index :: "(string \<Rightarrow> string) \<Rightarrow> node \<Rightarrow> node" where
  "drop_index H k =
     (if nd_index (attrs k) = None then k
      else updateDom H (with_attrs (\<lambda>b. b\<lparr>nd_index := None,
             nd_field := (if nullish (nd_field b) then JStr ''field'' else nd_field b)\<rparr>) k))"

text \<open>\<open>_updateStatus\<close>: the count in the cell of the value, and the positions of the children from the start on.\<close>

definition from_index :: "nat \<Rightarrow> (nat \<Rightarrow> node \<Rightarrow> node) \<Rightarrow> node list \<Rightarrow> node list" where
  "from_index s f ks = map (\<lambda>(i, k). if s \<le> i then f i k else k) (zip [0 ..< length ks] ks)"

definition show_count :: "(string \<Rightarrow> string) \<Rightarrow> char \<Rightarrow> nat \<Rightarrow> char \<Rightarrow> attrs \<Rightarrow> attrs" where
  "show_count H l n r a =
     a\<lparr>nd_dom := map_option (\<lambda>d. d\<lparr>cell_value := H (l # string_of_nat n @ [r])\<rparr>) (nd_dom a)\<rparr>"

definition updateStatus :: "(string \<Rightarrow> string) \<Rightarrow> nat \<Rightarrow> node \<Rightarrow> node" where
  "updateStatus H s n =
     (case (nd_dom (attrs n), childs n) of
        (Some d, Some ks) \<Rightarrow>
          (if nd_type (attrs n) = TArray
           then Node (show_count H (CHR ''['') (length ks) (CHR '']'') (attrs n)) (Some (from_index s (set_index H) ks))
           else if nd_type (attrs n) = TObject
           then Node (show_count H (CHR 0x7B) (length ks) (CHR 0x7D) (attrs n))
                  (Some (from_index s (\<lambda>i. drop_index H) ks))
           else n)
      | _ \<Rightarrow> n)"

definition createDomValue :: "(string \<Rightarrow> string) \<Rightarrow> attrs \<Rightarrow> string" where
  "createDomValue H a =
     H (if nd_type a = TArray then ''[...]''
        else if nd_type a = TObject then CHR 0x7B # ''...'' @ [CHR 0x7D]
        else escape (nd_value a))"

text \<open>\<open>getDom\<close> builds the row of a node unless it has one; \<open>pt\<close> is the type of its parent.\<close>

definition getDom :: "(string \<Rightarrow> string) \<Rightarrow> node_type option \<Rightarrow> node \<Rightarrow> node" where
  "getDom H pt n =
     (if nd_dom (attrs n) \<noteq> None then n
      else updateDom H (updateStatus H 0 (with_attrs (\<lambda>a. a\<lparr>nd_dom := Some
             \<lparr>cell_field = [], cell_value = createDomValue H a, cell_editable = False,
              cell_buttons = (case pt of None \<Rightarrow> False | Some t \<Rightarrow> nests t)\<rparr>\<rparr>) n)))"

text \<open>Drawing and numbering change no more than attributes, so recursion over the tree goes on.\<close>

lemma node_induct [case_names Node]:
  assumes "\<And>a cs. (\<And>ks k. cs = Some ks \<Longrightarrow> k \<in> set ks \<Longrightarrow> P k) \<Longrightarrow> P (Node a cs)"
  shows "P n"
  by (induction n) (auto intro: assms)

lemma size_with_attrs [simp]: "size (with_attrs f n) = size n"
  by (cases n) (simp add: with_attrs_def)

lemma size_list_same: "(\<And>k. k \<in> set ks \<Longrightarrow> size (f k) = size k) \<Longrightarrow> size_list (size \<circ> f) ks = size_list size ks"
  by (induction ks) (simp_all add: o_def)

lemma size_updateDom [simp]: "size (updateDom H n) = size n"
proof (induction n rule: node_induct)
  case (Node a cs)
  then show ?case by (cases cs) (simp_all add: size_list_same)
qed

lemma size_set_index [simp]: "size (set_index H i n) = size n"
  by (simp add: set_index_def)

lemma size_drop_index [simp]: "size (drop_index H n) = size n"
  by (simp add: drop_index_def)

lemma size_from_index: "(\<And>i k. size (f i k) = size k) \<Longrightarrow> size_list size (from_index s f ks) = size_list size ks"
proof -
  assume f: "\<And>i k. size (f i k) = size k"
  have "size_list size (map (\<lambda>(i, k). if s \<le> i then f i k else k) (zip is ks)) = size_list size ks"
    if "length is = length ks" for "is"
    using that by (induction "is" ks rule: list_induct2) (simp_all add: f)
  then show ?thesis by (simp add: from_index_def)
qed

lemma size_updateStatus [simp]: "size (updateStatus H s n) = size n"
  by (cases n) (simp add: updateStatus_def size_from_index split: option.splits)

lemma size_getDom [simp]: "size (getDom H pt n) = size n"
  by (simp add: getDom_def)

function showChilds :: "(string \<Rightarrow> string) \<Rightarrow> node \<Rightarrow> node" where
  "showChilds H (Node a None) = Node a None"
| "showChilds H (Node a (Some ks)) =
     (if nd_expanded a then Node a (Some (map (\<lambda>k. showChilds H (getDom H (Some (nd_type a)) k)) ks))
      else Node a (Some ks))"
  by pat_completeness auto
termination
  by (relation "measure (size \<circ> snd)") (auto simp: less_Suc_eq_le intro!: le_SucI size_list_estimation' [OF _ order_refl])

lemma size_showChilds [simp]: "size (showChilds H n) = size n"
proof (induction H n rule: showChilds.induct)
  case (2 H a ks)
  then show ?case
    using size_list_same [of ks "\<lambda>k. showChilds H (getDom H (Some (nd_type a)) k)"] by (simp add: o_def)
qed simp

section \<open>Opening and closing\<close>

function expand :: "(string \<Rightarrow> string) \<Rightarrow> bool \<Rightarrow> node \<Rightarrow> node" where
  "expand H recurse (Node a None) = Node a None"
| "expand H recurse (Node a (Some ks)) =
     (let n = showChilds H (Node (a\<lparr>nd_expanded := True\<rparr>) (Some ks))
      in if recurse then Node (attrs n) (map_option (map (expand H recurse)) (childs n)) else n)"
  by pat_completeness auto
termination
proof (relation "measure (\<lambda>(H, r, n). size n)", goal_cases)
  case (2 H recurse a ks n x2 z)
  have "size_list size x2 = size_list size ks"
    using 2 size_showChilds [of H "Node (a\<lparr>nd_expanded := True\<rparr>) (Some ks)"] by (cases n) auto
  moreover have "size z \<le> size_list size x2"
    using 2 by (auto intro: size_list_estimation' [OF _ order_refl])
  ultimately show ?case by simp
qed simp

fun collapse :: "bool \<Rightarrow> node \<Rightarrow> node" where
  "collapse recurse (Node a None) = Node a None"
| "collapse recurse (Node a (Some ks)) =
     Node (a\<lparr>nd_expanded := False\<rparr>) (Some (if recurse then map (collapse recurse) ks else ks))"

section \<open>Children\<close>

text \<open>
  \<open>appendChild\<close>, \<open>insertBefore\<close> (before the child at a position) and \<open>removeChild\<close>. An expanded
  parent draws the new child.
\<close>

definition adopt :: "attrs \<Rightarrow> nat option \<Rightarrow> node \<Rightarrow> node" where
  "adopt a i = with_attrs (\<lambda>b. b\<lparr>nd_fieldEditable := (nd_type a = TObject),
     nd_index := (case i of None \<Rightarrow> nd_index b | Some _ \<Rightarrow> i)\<rparr>)"

definition map_kid :: "nat \<Rightarrow> (node \<Rightarrow> node) \<Rightarrow> node \<Rightarrow> node" where
  "map_kid i f n = Node (attrs n) (map_option (\<lambda>ks. if i < length ks then ks[i := f (ks ! i)] else ks) (childs n))"

definition appendChild :: "(string \<Rightarrow> string) \<Rightarrow> node \<Rightarrow> node \<Rightarrow> node" where
  "appendChild H new n =
     (case childs n of
        Some ks \<Rightarrow>
          (if nests (nd_type (attrs n))
           then (let a = attrs n;
                     new = adopt a (if nd_type a = TArray then Some (length ks) else None) new
                 in if nd_expanded a
                    then map_kid (length ks) (\<lambda>k. updateDom H (showChilds H k))
                           (updateStatus H (case nd_index (attrs new) of None \<Rightarrow> 0 | Some i \<Rightarrow> i)
                             (Node a (Some (ks @ [getDom H (Some (nd_type a)) new]))))
                    else Node a (Some (ks @ [updateDom H new])))
           else n)
      | None \<Rightarrow> n)"

definition insertBefore :: "(string \<Rightarrow> string) \<Rightarrow> node \<Rightarrow> nat \<Rightarrow> node \<Rightarrow> node" where
  "insertBefore H new j n =
     (case childs n of
        Some ks \<Rightarrow>
          (if nests (nd_type (attrs n)) \<and> j < length ks
           then (let a = attrs n;
                     new = adopt a None new;
                     pt = Some (nd_type a)
                 in updateStatus H j
                      (if nd_expanded a
                       then Node a (Some (take j ks @ [updateDom H (showChilds H (getDom H pt new)), getDom H pt (ks ! j)] @ drop (Suc j) ks))
                       else Node a (Some (take j ks @ [updateDom H new] @ drop j ks))))
           else n)
      | None \<Rightarrow> n)"

definition removeChild :: "(string \<Rightarrow> string) \<Rightarrow> nat \<Rightarrow> node \<Rightarrow> node" where
  "removeChild H i n =
     (case childs n of
        Some ks \<Rightarrow> if i < length ks then updateStatus H i (Node (attrs n) (Some (take i ks @ drop (Suc i) ks))) else n
      | None \<Rightarrow> n)"

fun clone :: "node \<Rightarrow> node" where
  "clone (Node a cs) =
     Node (a\<lparr>nd_index := None, nd_dom := None, nd_focused := False\<rparr>) (map_option (map clone) cs)"

definition duplicate :: "(string \<Rightarrow> string) \<Rightarrow> nat \<Rightarrow> node \<Rightarrow> node" where
  "duplicate H i n = (if i < length (kids n) then insertBefore H (clone (kids n ! i)) i n else n)"

section \<open>Values\<close>

definition blank_node :: "jsval \<Rightarrow> node_type \<Rightarrow> jsval \<Rightarrow> attrs" where
  "blank_node f t v =
     \<lparr>nd_type = t, nd_field = f, nd_fieldHTML = None, nd_fieldEditable = False, nd_value = v, nd_valueHTML = None,
      nd_expanded = False, nd_index = None, nd_dom = None, nd_focused = False\<rparr>"

text \<open>
  The constructor with \<open>setField\<close> and \<open>setValue\<close>, which only the constructor calls. Names such as
  \<open>__proto__\<close> and \<open>hasOwnProperty\<close> are names like others here.
\<close>

fun new_node :: "(string \<Rightarrow> string) \<Rightarrow> jsval \<Rightarrow> jsval \<Rightarrow> node" where
  "new_node H f (JArr vs) =
     foldl (\<lambda>n v. appendChild H (new_node H JUndef v) n) (Node (blank_node f TArray (JStr [])) (Some [])) vs"
| "new_node H f (JObj kvs) =
     foldl (\<lambda>n (k, v). appendChild H (new_node H (JStr k) v) n) (Node (blank_node f TObject (JStr [])) (Some [])) kvs"
| "new_node H f (JDate t s) = Node (blank_node f TObject (JStr [])) (Some [])"
| "new_node H f v = Node (blank_node f (getType v) v) None"

text \<open>\<open>_getDomValue\<close> and \<open>_getDomField\<close>: a text that cannot be read leaves \<open>undefined\<close>.\<close>

definition getDomValue :: "attrs \<Rightarrow> attrs outcome" where
  "getDomValue a0 =
     (let a = (case nd_dom a0 of
                 Some d \<Rightarrow> if nests (nd_type a0) then a0 else a0\<lparr>nd_valueHTML := Some (cell_value d)\<rparr>
               | None \<Rightarrow> a0)
      in case nd_valueHTML a of
           None \<Rightarrow> Done a
         | Some html \<Rightarrow>
             (case unescape (stripHTML html) of
                Inr t \<Rightarrow> Done (a\<lparr>nd_value := (if nd_type a = TString then JStr t else stringCast t)\<rparr>)
              | Inl e \<Rightarrow> Threw e (a\<lparr>nd_value := JUndef\<rparr>)))"

definition getDomField :: "attrs \<Rightarrow> attrs outcome" where
  "getDomField a0 =
     (let a = (case nd_dom a0 of
                 Some d \<Rightarrow> if nd_fieldEditable a0 then a0\<lparr>nd_fieldHTML := Some (cell_field d)\<rparr> else a0
               | None \<Rightarrow> a0)
      in case nd_fieldHTML a of
           None \<Rightarrow> Done a
         | Some html \<Rightarrow>
             (case unescape (stripHTML html) of
                Inr t \<Rightarrow> Done (a\<lparr>nd_field := JStr t\<rparr>)
              | Inl e \<Rightarrow> Threw e (a\<lparr>nd_field := JUndef\<rparr>)))"

definition blur :: "attrs \<Rightarrow> attrs" where
  "blur a = final_state (getDomField (final_state (getDomValue a)))"

text \<open>
  \<open>getField\<close> and \<open>getValue\<close>, which assign the result of \<open>_getDomField\<close> and \<open>_getDomValue\<close>; these return
  nothing.
\<close>

definition getField :: "attrs \<Rightarrow> attrs outcome" where
  "getField a =
     (if nd_field a = JUndef then and_then (getDomField a) (\<lambda>b. Done (b\<lparr>nd_field := JUndef\<rparr>)) else Done a)"

fun getValue :: "node \<Rightarrow> (js_exn + jsval) \<times> node"
  and getElems :: "node list \<Rightarrow> (js_exn + jsval list) \<times> node list"
  and getFields :: "jsobj \<Rightarrow> node list \<Rightarrow> (js_exn + jsobj) \<times> node list"
where
  "getValue (Node a cs) =
     (if nests (nd_type a)
      then (case cs of
              None \<Rightarrow> (Inl TypeError, Node a cs)
            | Some ks \<Rightarrow>
                if nd_type a = TArray
                then (case getElems ks of (r, ks') \<Rightarrow> (map_sum id JArr r, Node a (Some ks')))
                else (case getFields [] ks of (r, ks') \<Rightarrow> (map_sum id JObj r, Node a (Some ks'))))
      else if nd_value a = JUndef
      then (case getDomValue a of
              Done b \<Rightarrow> (Inr JUndef, Node (b\<lparr>nd_value := JUndef\<rparr>) cs)
            | Threw e b \<Rightarrow> (Inl e, Node b cs))
      else (Inr (nd_value a), Node a cs))"
| "getElems [] = (Inr [], [])"
| "getElems (k # ks) =
     (case getValue k of
        (Inl e, k') \<Rightarrow> (Inl e, k' # ks)
      | (Inr v, k') \<Rightarrow> (case getElems ks of (r, ks') \<Rightarrow> (map_sum id ((#) v) r, k' # ks')))"
| "getFields obj [] = (Inr obj, [])"
| "getFields obj (Node a cs # ks) =
     (case getField a of
        Threw e b \<Rightarrow> (Inl e, Node b cs # ks)
      | Done b \<Rightarrow>
          (case getValue (Node b cs) of
             (Inl e, k') \<Rightarrow> (Inl e, k' # ks)
           | (Inr v, k') \<Rightarrow>
               (case getFields (obj_set (js_to_string (nd_field b)) v obj) ks of (r, ks') \<Rightarrow> (r, k' # ks'))))"

section \<open>Changing the type\<close>

definition retype_kid :: "node_type \<Rightarrow> nat \<Rightarrow> node \<Rightarrow> node" where
  "retype_kid t i = with_attrs (\<lambda>b.
     if t = TObject
     then b\<lparr>nd_dom := None, nd_index := None, nd_fieldEditable := True,
            nd_field := (if nullish (nd_field b) then JNum (int i) else nd_field b)\<rparr>
     else b\<lparr>nd_dom := None, nd_fieldEditable := False, nd_index := Some i\<rparr>)"

definition changeType :: "(string \<Rightarrow> string) \<Rightarrow> node_type option \<Rightarrow> node_type \<Rightarrow> node \<Rightarrow> node" where
  "changeType H pt t n0 =
     (let a = attrs n0; easy = (\<not> nests t \<and> \<not> nests (nd_type a));
          n1 = (if easy then with_attrs (\<lambda>b. b\<lparr>nd_type := t\<rparr>) n0
                else if nests t
                then showChilds H (getDom H pt
                       (Node (a\<lparr>nd_dom := None, nd_type := t,
                                nd_expanded := (if nests (nd_type a) then nd_expanded a else True)\<rparr>)
                             (Some (from_index 0 (retype_kid t) (kids n0)))))
                else showChilds H (getDom H pt
                       (with_attrs (\<lambda>b. b\<lparr>nd_dom := None, nd_type := t, nd_expanded := False\<rparr>) n0)));
          n2 = (if t = TString then with_attrs (\<lambda>b. b\<lparr>nd_value := JStr (js_to_string (nd_value b))\<rparr>) n1
                else if t = TAuto then with_attrs (\<lambda>b. b\<lparr>nd_value := stringCast (js_to_string (nd_value b))\<rparr>) n1
                else n1)
      in updateDom H n2)"

section \<open>The editor\<close>

type_synonym editor = "node option"

definition setRoot :: "(string \<Rightarrow> string) \<Rightarrow> node \<Rightarrow> editor \<Rightarrow> editor" where
  "setRoot H n ed = Some (getDom H None n)"

definition set_json :: "(string \<Rightarrow> string) \<Rightarrow> jsval \<Rightarrow> editor \<Rightarrow> editor" where
  "set_json H json ed = map_option (expand H False) (setRoot H (new_node H JUndef json) ed)"

definition JSONEditor :: "(string \<Rightarrow> string) \<Rightarrow> jsval \<Rightarrow> editor" where
  "JSONEditor H json = set_json H (if truthy json then json else JObj []) None"

definition clear_editor :: "editor \<Rightarrow> editor" where
  "clear_editor ed = None"

text \<open>The node with the focus reads its cells again.\<close>

fun blur_focused :: "node \<Rightarrow> node" where
  "blur_focused (Node a cs) = Node (if nd_focused a then blur a else a) (map_option (map blur_focused) cs)"

definition get_json :: "editor \<Rightarrow> (js_exn + jsval) \<times> editor" where
  "get_json ed =
     (case ed of
        None \<Rightarrow> (Inr (JObj []), None)
      | Some n \<Rightarrow> (case getValue (blur_focused n) of (r, n') \<Rightarrow> (r, Some n')))"

section \<open>Events\<close>

text \<open>
  A node is named by the positions on the way to it. \<open>TypeValue\<close> and \<open>TypeField\<close> are a key, a cut or
  a paste after which the cell has the given markup. \<open>DragBefore p q j\<close> drops the node \<open>p\<close> before the
  \<open>j\<close>-th child of \<open>q\<close>, \<open>DragToEnd p q\<close> on the append row of \<open>q\<close>. Events on nodes that are not in the
  table, or on buttons that a row does not have, do not happen.
\<close>

type_synonym path = "nat list"

datatype ed_event =
    ExpandAll
  | CollapseAll
  | ClickExpand path bool
  | ClickDuplicate path
  | ClickRemove path
  | ClickAppend path
  | ChooseType path node_type
  | TypeValue path string
  | TypeField path string
  | FocusNode path
  | StartDrag path
  | DragBefore path path nat
  | DragToEnd path path

fun at_path :: "path \<Rightarrow> (node \<Rightarrow> node) \<Rightarrow> node \<Rightarrow> node" where
  "at_path [] f n = f n"
| "at_path (i # p) f n = map_kid i (at_path p f) n"

fun node_at :: "path \<Rightarrow> node \<Rightarrow> node option" where
  "node_at [] n = Some n"
| "node_at (i # p) n = (if i < length (kids n) then node_at p (kids n ! i) else None)"

fun shown :: "path \<Rightarrow> node \<Rightarrow> bool" where
  "shown [] n = True"
| "shown (i # p) n = (nd_expanded (attrs n) \<and> i < length (kids n) \<and> shown p (kids n ! i))"

definition attrs_at :: "path \<Rightarrow> node \<Rightarrow> attrs" where
  "attrs_at p n = (case node_at p n of None \<Rightarrow> attrs n | Some m \<Rightarrow> attrs m)"

definition parent_type :: "path \<Rightarrow> node \<Rightarrow> node_type option" where
  "parent_type p n = (if p = [] then None else Some (nd_type (attrs_at (butlast p) n)))"

definition has_buttons :: "attrs \<Rightarrow> bool" where
  "has_buttons a = (case nd_dom a of None \<Rightarrow> False | Some d \<Rightarrow> cell_buttons d)"

definition field_editable :: "attrs \<Rightarrow> bool" where
  "field_editable a = (case nd_dom a of None \<Rightarrow> False | Some d \<Rightarrow> cell_editable d)"

definition onExpand :: "(string \<Rightarrow> string) \<Rightarrow> bool \<Rightarrow> node \<Rightarrow> node" where
  "onExpand H ctrl n = (if nd_expanded (attrs n) then collapse ctrl n else expand H ctrl n)"

definition value_typed :: "string \<Rightarrow> attrs \<Rightarrow> attrs" where
  "value_typed html a =
     final_state (getDomValue (a\<lparr>nd_dom := map_option (\<lambda>d. d\<lparr>cell_value := html\<rparr>) (nd_dom a)\<rparr>))"

definition field_typed :: "string \<Rightarrow> attrs \<Rightarrow> attrs" where
  "field_typed html a =
     final_state (getDomField (a\<lparr>nd_dom := map_option (\<lambda>d. d\<lparr>cell_field := html\<rparr>) (nd_dom a)\<rparr>))"

fun unfocus :: "node \<Rightarrow> node" where
  "unfocus (Node a cs) = Node (a\<lparr>nd_focused := False\<rparr>) (map_option (map unfocus) cs)"

text \<open>Where a node stands after the one at \<open>p\<close> was removed.\<close>

fun shift :: "path \<Rightarrow> path \<Rightarrow> path" where
  "shift [i] (j # q) = (if i < j then (j - 1) # q else j # q)"
| "shift (i # p) (j # q) = (if i = j then j # shift p q else j # q)"
| "shift p q = q"

text \<open>\<open>moveBefore\<close>: the position among the children is \<open>None\<close> for the append row.\<close>

definition moveBefore :: "(string \<Rightarrow> string) \<Rightarrow> path \<Rightarrow> path \<Rightarrow> nat option \<Rightarrow> node \<Rightarrow> node" where
  "moveBefore H p q pos n =
     (case node_at p n of
        None \<Rightarrow> n
      | Some k \<Rightarrow>
          if nests (nd_type (attrs_at q n))
          then at_path (shift p q)
                 (case pos of None \<Rightarrow> appendChild H k | Some j \<Rightarrow> insertBefore H k (last (shift p (q @ [j]))))
                 (at_path (butlast p) (removeChild H (last p)) n)
          else n)"

fun enabled :: "ed_event \<Rightarrow> node \<Rightarrow> bool" where
  "enabled ExpandAll n = True"
| "enabled CollapseAll n = True"
| "enabled (ClickExpand p ctrl) n = (shown p n \<and> nests (nd_type (attrs_at p n)))"
| "enabled (ClickDuplicate p) n = (p \<noteq> [] \<and> shown p n \<and> has_buttons (attrs_at p n))"
| "enabled (ClickRemove p) n = (p \<noteq> [] \<and> shown p n \<and> has_buttons (attrs_at p n))"
| "enabled (ClickAppend p) n = (shown p n \<and> nd_expanded (attrs_at p n))"
| "enabled (ChooseType p t) n = shown p n"
| "enabled (TypeValue p html) n = (shown p n \<and> \<not> nests (nd_type (attrs_at p n)))"
| "enabled (TypeField p html) n = (shown p n \<and> field_editable (attrs_at p n))"
| "enabled (FocusNode p) n = shown p n"
| "enabled (StartDrag p) n = (p \<noteq> [] \<and> shown p n)"
| "enabled (DragBefore p q j) n =
     (p \<noteq> [] \<and> shown p n \<and> shown (q @ [j]) n \<and> take (length p) q \<noteq> p \<and> q @ [j] \<noteq> p)"
| "enabled (DragToEnd p q) n =
     (p \<noteq> [] \<and> shown p n \<and> shown q n \<and> nd_expanded (attrs_at q n) \<and> take (length p) q \<noteq> p)"

fun handle :: "(string \<Rightarrow> string) \<Rightarrow> ed_event \<Rightarrow> node \<Rightarrow> node" where
  "handle H ExpandAll n = expand H True n"
| "handle H CollapseAll n = collapse True n"
| "handle H (ClickExpand p ctrl) n = at_path p (onExpand H ctrl) n"
| "handle H (ClickDuplicate p) n = at_path (butlast p) (duplicate H (last p)) n"
| "handle H (ClickRemove p) n = at_path (butlast p) (removeChild H (last p)) n"
| "handle H (ClickAppend p) n = at_path p (appendChild H (new_node H (JStr ''field'') (JStr ''value''))) n"
| "handle H (ChooseType p t) n = at_path p (changeType H (parent_type p n) t) n"
| "handle H (TypeValue p html) n = at_path p (with_attrs (value_typed html)) n"
| "handle H (TypeField p html) n = at_path p (with_attrs (field_typed html)) n"
| "handle H (FocusNode p) n = at_path p (with_attrs (\<lambda>a. a\<lparr>nd_focused := True\<rparr>)) (unfocus n)"
| "handle H (StartDrag p) n = blur_focused n"
| "handle H (DragBefore p q j) n = moveBefore H p q (Some j) n"
| "handle H (DragToEnd p q) n = moveBefore H p q None n"

definition ed_step :: "(string \<Rightarrow> string) \<Rightarrow> node \<Rightarrow> ed_event \<Rightarrow> node" where
  "ed_step H n e = (if enabled e n then handle H e n else n)"

definition ed_run :: "(string \<Rightarrow> string) \<Rightarrow> ed_event list \<Rightarrow> node \<Rightarrow> node" where
  "ed_run H es n = foldl (ed_step H) n es"

end
