(* ===== verification/Editor_Runs.thy ===== *)
theory Editor_Runs
  imports Json_Editor
begin

text \<open>
  What the tree of the JSON editor keeps while it is edited, and what the edits do to the data in
  it. The data of a tree is its \<open>outline\<close>: types, names, values and children, without anything that
  is drawn. Every event acts on the outline as an edit of its own (\<open>o_step\<close>); the invariant \<open>tree_ok\<close>
  is what makes this true.
\<close>

named_theorems tree_simps "what drawing leaves alone"

section \<open>The invariant\<close>

text \<open>
  Arrays and objects have children; those of an object have no position; those of a drawn array
  know their positions; the rows below an expanded row are drawn.
\<close>

definition drawn :: "node \<Rightarrow> bool" where
  "drawn n = (nd_dom (attrs n) \<noteq> None)"

definition index_of :: "node \<Rightarrow> nat option" where
  "index_of n = nd_index (attrs n)"

definition type_of :: "node \<Rightarrow> node_type" where
  "type_of n = nd_type (attrs n)"

definition numbered :: "node \<Rightarrow> bool" where
  "numbered n =
     ((nests (type_of n) \<longrightarrow> childs n \<noteq> None) \<and>
      (type_of n = TObject \<longrightarrow> list_all (\<lambda>k. index_of k = None) (kids n)) \<and>
      (type_of n = TArray \<and> drawn n \<longrightarrow> map index_of (kids n) = map Some [0 ..< length (kids n)]))"

definition rows_drawn :: "node \<Rightarrow> bool" where
  "rows_drawn n = (nd_expanded (attrs n) \<and> drawn n \<longrightarrow> list_all drawn (kids n))"

fun tree_ok :: "node \<Rightarrow> bool" where
  "tree_ok (Node a cs) =
     (numbered (Node a cs) \<and> rows_drawn (Node a cs) \<and> (case cs of None \<Rightarrow> True | Some ks \<Rightarrow> list_all tree_ok ks))"

definition half_ok :: "node \<Rightarrow> bool" where
  "half_ok n = (numbered n \<and> list_all tree_ok (kids n))"

lemma tree_ok_iff: "tree_ok n = (half_ok n \<and> rows_drawn n)"
  by (cases n) (auto simp: half_ok_def kids_def split: option.splits)

lemma kids_Node [simp]: "kids (Node a (Some ks)) = ks" "kids (Node a None) = []"
  by (simp_all add: kids_def)

text \<open>The part of a child its parent depends on.\<close>

definition place :: "node \<Rightarrow> nat option \<times> bool" where
  "place n = (index_of n, drawn n)"

lemma place_eq: "place n = place m \<longleftrightarrow> index_of n = index_of m \<and> drawn n = drawn m"
  by (simp add: place_def)

text \<open>Attributes that matter for the invariant.\<close>

definition same_row :: "attrs \<Rightarrow> attrs \<Rightarrow> bool" where
  "same_row a b = (nd_type a = nd_type b \<and> nd_expanded a = nd_expanded b \<and> (nd_dom a = None) = (nd_dom b = None))"

lemma tree_ok_same_row: "same_row a b \<Longrightarrow> tree_ok (Node a cs) = tree_ok (Node b cs)"
  by (simp add: same_row_def numbered_def rows_drawn_def type_of_def drawn_def kids_def)

lemma half_ok_same_row: "same_row a b \<Longrightarrow> half_ok (Node a cs) = half_ok (Node b cs)"
  by (simp add: same_row_def half_ok_def numbered_def type_of_def drawn_def kids_def)

lemma numbered_indexes:
  assumes "map index_of ks = map index_of ls"
  shows "numbered (Node a (Some ks)) = numbered (Node a (Some ls))"
proof -
  have "length ks = length ls" using assms by (rule map_eq_imp_length_eq)
  moreover have "list_all (\<lambda>k. index_of k = None) ks = list_all (\<lambda>x. x = None) (map index_of ks)" for ks
    by (simp add: list_all_iff)
  ultimately show ?thesis using assms by (simp add: numbered_def type_of_def drawn_def)
qed

lemma numbered_places:
  assumes "map place ks = map place ls"
  shows "numbered (Node a (Some ks)) = numbered (Node a (Some ls))"
proof (rule numbered_indexes)
  have "map fst (map place ks) = map fst (map place ls)" using assms by simp
  then show "map index_of ks = map index_of ls" by (simp add: place_def o_def)
qed

lemma rows_places:
  "map place ks = map place ls \<Longrightarrow> rows_drawn (Node a (Some ks)) = rows_drawn (Node a (Some ls))"
proof -
  assume p: "map place ks = map place ls"
  have "map snd (map place ks) = map snd (map place ls)" using p by simp
  then have i: "map drawn ks = map drawn ls" by (simp add: place_def o_def)
  have "list_all drawn ks = list_all (\<lambda>x. x) (map drawn ks)" for ks
    by (simp add: list_all_iff)
  with i show ?thesis by (simp add: rows_drawn_def drawn_def)
qed

section \<open>Drawing keeps it\<close>

lemma updateField_same_row [simp]: "same_row (updateField H a) a"
  by (simp add: updateField_def same_row_def)

lemma place_updateDom [tree_simps]: "place (updateDom H n) = place n"
  by (cases n) (simp add: place_def index_of_def drawn_def updateField_def)

lemma tree_ok_updateDom [tree_simps]: "tree_ok (updateDom H n) = tree_ok n"
proof (induction n rule: node_induct)
  case (Node a cs)
  have *: "tree_ok (updateDom H (Node a cs)) = tree_ok (Node a (map_option (map (updateDom H)) cs))"
    by (simp add: tree_ok_same_row del: tree_ok.simps)
  show ?case
  proof (cases cs)
    case None
    then show ?thesis using * by simp
  next
    case (Some ks)
    have p: "map place (map (updateDom H) ks) = map place ks" by (simp add: tree_simps)
    show ?thesis
      using * Some Node numbered_places [OF p, of a] rows_places [OF p, of a] by (auto simp: list_all_iff)
  qed
qed

lemma set_index_simps [tree_simps]:
  "tree_ok (set_index H i k) = tree_ok k" "index_of (set_index H i k) = Some i" "drawn (set_index H i k) = drawn k"
proof -
  obtain a cs where k: "k = Node a cs" by (cases k)
  have "tree_ok (Node (a\<lparr>nd_index := j, nd_dom := map_option d (nd_dom a)\<rparr>) cs) = tree_ok (Node a cs)" for j d
    by (rule tree_ok_same_row) (simp add: same_row_def)
  then show "tree_ok (set_index H i k) = tree_ok k"
    by (simp add: set_index_def with_attrs_def k del: tree_ok.simps)
  show "index_of (set_index H i k) = Some i" "drawn (set_index H i k) = drawn k"
    by (simp_all add: set_index_def with_attrs_def k index_of_def drawn_def)
qed

lemma drop_index_simps [tree_simps]:
  "tree_ok (drop_index H k) = tree_ok k" "index_of (drop_index H k) = None" "drawn (drop_index H k) = drawn k"
proof -
  obtain a cs where k: "k = Node a cs" by (cases k)
  have "tree_ok (Node (a\<lparr>nd_index := None, nd_field := f\<rparr>) cs) = tree_ok (Node a cs)" for f
    by (rule tree_ok_same_row) (simp add: same_row_def)
  then show "tree_ok (drop_index H k) = tree_ok k"
    by (simp add: drop_index_def with_attrs_def tree_simps k del: tree_ok.simps updateDom.simps)
  show "index_of (drop_index H k) = None" "drawn (drop_index H k) = drawn k"
    by (simp_all add: drop_index_def with_attrs_def k index_of_def drawn_def updateField_def)
qed

lemma from_index_nth: "i < length ks \<Longrightarrow> from_index s f ks ! i = (if s \<le> i then f i (ks ! i) else ks ! i)"
  by (simp add: from_index_def)

lemma length_from_index [simp]: "length (from_index s f ks) = length ks"
  by (simp add: from_index_def)

lemma list_all_nth: "list_all P xs = (\<forall>i<length xs. P (xs ! i))"
  by (simp add: list_all_length)

lemma attrs_updateStatus [tree_simps]:
  "same_row (attrs (updateStatus H s n)) (attrs n)" "index_of (updateStatus H s n) = index_of n"
  by (auto simp: updateStatus_def same_row_def show_count_def index_of_def split: option.splits)

lemma kids_updateStatus:
  "kids (updateStatus H s n) =
     (if drawn n \<and> type_of n = TArray then from_index s (set_index H) (kids n)
      else if drawn n \<and> type_of n = TObject then from_index s (\<lambda>i. drop_index H) (kids n)
      else kids n)"
  by (cases n) (auto simp: updateStatus_def drawn_def type_of_def kids_def from_index_def split: option.splits)

lemma childs_updateStatus: "childs (updateStatus H s n) = None \<longleftrightarrow> childs n = None"
  by (cases n) (auto simp: updateStatus_def split: option.splits)

lemma row_attrs: "same_row (attrs m) (attrs n) \<Longrightarrow> type_of m = type_of n \<and> drawn m = drawn n \<and> nd_expanded (attrs m) = nd_expanded (attrs n)"
  by (simp add: same_row_def type_of_def drawn_def)

lemma length_kids_updateStatus: "length (kids (updateStatus H s n)) = length (kids n)"
  by (simp add: kids_updateStatus)

lemma kid_updateStatus:
  assumes "i < length (kids n)"
  shows "tree_ok (kids (updateStatus H s n) ! i) = tree_ok (kids n ! i)"
    and "drawn (kids (updateStatus H s n) ! i) = drawn (kids n ! i)"
  using assms by (simp_all add: kids_updateStatus from_index_nth tree_simps)

lemma rows_updateStatus: "rows_drawn (updateStatus H s n) = rows_drawn n"
  using row_attrs [OF attrs_updateStatus(1) [of H s n]]
  by (auto simp: rows_drawn_def list_all_nth length_kids_updateStatus kid_updateStatus)

text \<open>A list of children is numbered anew from a position on, if it is in order before it.\<close>

lemma half_ok_updateStatus:
  assumes "nests (type_of n) \<longrightarrow> childs n \<noteq> None" "list_all tree_ok (kids n)"
    and "type_of n = TArray \<Longrightarrow> \<forall>i<length (kids n). i < s \<longrightarrow> index_of (kids n ! i) = Some i"
    and "type_of n = TObject \<Longrightarrow> \<forall>i<length (kids n). i < s \<or> \<not> drawn n \<longrightarrow> index_of (kids n ! i) = None"
  shows "half_ok (updateStatus H s n)"
proof -
  note r = row_attrs [OF attrs_updateStatus(1) [of H s n]]
  have "numbered (updateStatus H s n)"
    unfolding numbered_def childs_updateStatus list_all_nth length_kids_updateStatus
    using r assms(1,3,4)
    by (auto simp: kids_updateStatus from_index_nth tree_simps not_le intro!: nth_equalityI)
  moreover have "list_all tree_ok (kids (updateStatus H s n))"
    using assms(2) by (auto simp: list_all_nth length_kids_updateStatus kid_updateStatus)
  ultimately show ?thesis by (simp add: half_ok_def)
qed

lemma with_attrs_simps [simp]: "attrs (with_attrs f n) = f (attrs n)" "kids (with_attrs f n) = kids n" "childs (with_attrs f n) = childs n"
  by (simp_all add: with_attrs_def kids_def)

lemma kids_updateDom: "kids (updateDom H n) = map (updateDom H) (kids n)"
  by (cases n) (auto simp: kids_def split: option.splits)

lemma updateDom_row [tree_simps]: "same_row (attrs (updateDom H n)) (attrs n)" "childs (updateDom H n) = None \<longleftrightarrow> childs n = None"
  by (cases n; simp)+

lemma kid_updateDom [tree_simps]: "index_of (updateDom H n) = index_of n" "drawn (updateDom H n) = drawn n" "type_of (updateDom H n) = type_of n"
  using place_updateDom [of H n] row_attrs [OF updateDom_row(1) [of H n]] by (simp_all add: place_eq)

lemma half_ok_updateDom [tree_simps]: "half_ok (updateDom H n) = half_ok n"
  by (simp add: half_ok_def numbered_def kids_updateDom tree_simps list.pred_map o_def)

text \<open>Drawing a row numbers its children; drawing all rows below makes the invariant whole.\<close>

lemma half_ok_getDom:
  assumes "half_ok n"
  shows "half_ok (getDom H pt n)" and "drawn (getDom H pt n)" and "index_of (getDom H pt n) = index_of n"
    and "type_of (getDom H pt n) = type_of n" and "nd_expanded (attrs (getDom H pt n)) = nd_expanded (attrs n)"
proof -
  define f where "f = (\<lambda>a. a\<lparr>nd_dom := Some
             \<lparr>cell_field = [], cell_value = createDomValue H a, cell_editable = False,
              cell_buttons = (case pt of None \<Rightarrow> False | Some t \<Rightarrow> nests t)\<rparr>\<rparr> :: attrs)"
  have g: "getDom H pt n = (if drawn n then n else updateDom H (updateStatus H 0 (with_attrs f n)))"
    by (simp add: getDom_def f_def drawn_def)
  have f: "type_of (with_attrs f n) = type_of n" "drawn (with_attrs f n)" "index_of (with_attrs f n) = index_of n"
    "nd_expanded (attrs (with_attrs f n)) = nd_expanded (attrs n)"
    by (simp_all add: f_def type_of_def drawn_def index_of_def)
  note u = row_attrs [OF attrs_updateStatus(1) [of H 0 "with_attrs f n"]]
    row_attrs [OF updateDom_row(1) [of H "updateStatus H 0 (with_attrs f n)"]]
  have "half_ok (updateStatus H 0 (with_attrs f n))"
    using assms f by (intro half_ok_updateStatus) (auto simp: half_ok_def numbered_def)
  then show "half_ok (getDom H pt n)" using assms by (simp add: g tree_simps)
  show "drawn (getDom H pt n)" "type_of (getDom H pt n) = type_of n" "nd_expanded (attrs (getDom H pt n)) = nd_expanded (attrs n)"
    using f u by (simp_all add: g)
  show "index_of (getDom H pt n) = index_of n"
    using f place_updateDom [of H "updateStatus H 0 (with_attrs f n)"] attrs_updateStatus(2) [of H 0 "with_attrs f n"]
    by (simp add: g place_eq)
qed

lemma attrs_showChilds [tree_simps]: "attrs (showChilds H n) = attrs n" "childs (showChilds H n) = None \<longleftrightarrow> childs n = None"
  by (cases "(H, n)" rule: showChilds.cases; simp)+

lemma kids_showChilds:
  "kids (showChilds H n) =
     (if nd_expanded (attrs n) then map (\<lambda>k. showChilds H (getDom H (Some (type_of n)) k)) (kids n) else kids n)"
  by (cases "(H, n)" rule: showChilds.cases) (simp_all add: type_of_def)

lemma place_showChilds [tree_simps]:
  "index_of (showChilds H n) = index_of n" "drawn (showChilds H n) = drawn n" "type_of (showChilds H n) = type_of n"
  by (simp_all add: index_of_def drawn_def type_of_def tree_simps)

lemma tree_ok_half: "tree_ok n \<Longrightarrow> half_ok n"
  by (simp add: tree_ok_iff)

lemma tree_ok_showChilds: "half_ok n \<Longrightarrow> tree_ok (showChilds H n)"
proof (induction H n rule: showChilds.induct)
  case (1 H a)
  then show ?case by (simp add: tree_ok_iff rows_drawn_def)
next
  case (2 H a ks)
  show ?case
  proof (cases "nd_expanded a")
    case True
    let ?f = "\<lambda>k. showChilds H (getDom H (Some (nd_type a)) k)"
    have k: "half_ok k" if "k \<in> set ks" for k
      by (rule tree_ok_half) (use 2(2) that in \<open>simp add: half_ok_def list_all_iff\<close>)
    have "tree_ok (?f k)" "drawn (?f k)" "index_of (?f k) = index_of k" if "k \<in> set ks" for k
      using 2(1) [OF True that] half_ok_getDom [OF k [OF that]] by (simp_all add: tree_simps)
    moreover have "map index_of (map ?f ks) = map index_of ks" using calculation(3) by simp
    then have "numbered (Node a (Some (map ?f ks)))"
      using numbered_indexes [of "map ?f ks" ks a] 2(2) by (simp add: half_ok_def)
    ultimately show ?thesis
      using True by (simp add: rows_drawn_def list_all_iff)
  next
    case False
    with 2(2) show ?thesis by (simp add: tree_ok_iff rows_drawn_def)
  qed
qed

lemma tree_ok_drawn: "half_ok n \<Longrightarrow> tree_ok (showChilds H (getDom H pt n))"
  by (simp add: tree_ok_showChilds half_ok_getDom)

lemma tree_ok_opened: "tree_ok (Node a (Some ks)) \<Longrightarrow> half_ok (Node (a\<lparr>nd_expanded := True\<rparr>) (Some ks))"
  by (simp add: half_ok_def numbered_def type_of_def drawn_def)

text \<open>Replacing children by such that stand at the same places.\<close>

lemma tree_ok_map_kids:
  assumes "tree_ok (Node a (Some ks))" "map place ls = map place ks" "list_all tree_ok ls"
  shows "tree_ok (Node a (Some ls))"
  using assms numbered_places [OF assms(2), of a] rows_places [OF assms(2), of a] by simp

lemma tree_ok_expand: "tree_ok n \<Longrightarrow> tree_ok (expand H r n) \<and> place (expand H r n) = place n"
proof (induction H r n rule: expand.induct)
  case (2 H r a ks)
  define m where "m = showChilds H (Node (a\<lparr>nd_expanded := True\<rparr>) (Some ks))"
  have e: "expand H r (Node a (Some ks)) = (if r then Node (attrs m) (map_option (map (expand H r)) (childs m)) else m)"
    by (simp add: m_def Let_def del: showChilds.simps)
  have m: "tree_ok m" unfolding m_def by (rule tree_ok_showChilds [OF tree_ok_opened [OF 2(2)]])
  have pm: "place m = place (Node a (Some ks))"
    by (simp add: m_def place_def tree_simps) (simp add: index_of_def drawn_def)
  show ?case
  proof (cases r)
    case True
    obtain b ls where ls: "m = Node b (Some ls)" by (cases m; cases "childs m") (auto simp: m_def split: if_splits)
    have "tree_ok (expand H r k) \<and> place (expand H r k) = place k" if "k \<in> set ls" for k
      using 2(1) [OF m_def True, of ls k] m ls that by (simp add: list_all_iff)
    then have "tree_ok (Node b (Some (map (expand H r) ls)))"
      using tree_ok_map_kids [of b ls "map (expand H r) ls"] m ls by (simp add: list_all_iff)
    moreover have "place (Node b (Some (map (expand H r) ls))) = place m"
      by (simp add: ls place_def index_of_def drawn_def)
    ultimately show ?thesis using True pm unfolding e by (simp add: ls)
  next
    case False
    then show ?thesis using m pm unfolding e by simp
  qed
qed simp

lemma tree_ok_closed: "tree_ok (Node a cs) \<Longrightarrow> tree_ok (Node (a\<lparr>nd_expanded := False\<rparr>) cs)"
  by (simp add: numbered_def rows_drawn_def type_of_def drawn_def kids_def)

lemma tree_ok_collapse: "tree_ok n \<Longrightarrow> tree_ok (collapse r n) \<and> place (collapse r n) = place n"
proof (induction r n rule: collapse.induct)
  case (2 r a ks)
  have p: "place (collapse r (Node a (Some ks))) = place (Node a (Some ks))"
    by (simp add: place_def index_of_def drawn_def)
  have "tree_ok (Node (a\<lparr>nd_expanded := False\<rparr>) (Some (if r then map (collapse r) ks else ks)))"
    by (rule tree_ok_map_kids [OF tree_ok_closed [OF 2(2)]]) (use 2 in \<open>auto simp: list_all_iff\<close>)
  with p show ?case by simp
qed simp

section \<open>Edits keep it\<close>

lemma ok_with_attrs:
  assumes "same_row (f (attrs k)) (attrs k)"
  shows "tree_ok (with_attrs f k) = tree_ok k" "half_ok (with_attrs f k) = half_ok k"
  using tree_ok_same_row [OF assms, of "childs k"] half_ok_same_row [OF assms, of "childs k"]
  by (simp_all add: with_attrs_def del: tree_ok.simps)

lemma half_ok_set_index [tree_simps]: "half_ok (set_index H i k) = half_ok k"
  unfolding set_index_def by (rule ok_with_attrs) (simp add: same_row_def)

lemma half_ok_drop_index [tree_simps]: "half_ok (drop_index H k) = half_ok k"
  by (simp add: drop_index_def tree_simps ok_with_attrs same_row_def)

lemma half_kid_updateStatus:
  "i < length (kids n) \<Longrightarrow> half_ok (kids (updateStatus H s n) ! i) = half_ok (kids n ! i)"
  by (simp add: kids_updateStatus from_index_nth tree_simps)

lemma numbered_updateStatus:
  assumes "nests (type_of n) \<longrightarrow> childs n \<noteq> None"
    and "type_of n = TArray \<Longrightarrow> drawn n \<Longrightarrow> \<forall>i<length (kids n). i < s \<longrightarrow> index_of (kids n ! i) = Some i"
    and "type_of n = TObject \<Longrightarrow> \<forall>i<length (kids n). i < s \<or> \<not> drawn n \<longrightarrow> index_of (kids n ! i) = None"
  shows "numbered (updateStatus H s n)"
  unfolding numbered_def childs_updateStatus list_all_nth length_kids_updateStatus
  using row_attrs [OF attrs_updateStatus(1) [of H s n]] assms
  by (auto simp: kids_updateStatus from_index_nth tree_simps not_le intro!: nth_equalityI)

lemma place_updateStatus [tree_simps]: "place (updateStatus H s n) = place n"
  using row_attrs [OF attrs_updateStatus(1) [of H s n]] by (simp add: place_eq tree_simps)

lemma adopt_simps [tree_simps]:
  "half_ok (adopt a i k) = half_ok k" "tree_ok (adopt a i k) = tree_ok k"
  "index_of (adopt a i k) = (case i of None \<Rightarrow> index_of k | Some _ \<Rightarrow> i)" "drawn (adopt a i k) = drawn k"
  by (simp_all add: adopt_def ok_with_attrs same_row_def index_of_def drawn_def split: option.splits)

lemma map_positions: "map f ks = map Some [0 ..< length ks] \<longleftrightarrow> (\<forall>i<length ks. f (ks ! i) = Some i)"
proof
  assume e: "map f ks = map Some [0 ..< length ks]"
  have "f (ks ! i) = Some i" if "i < length ks" for i
    using arg_cong [OF e, of "\<lambda>xs. xs ! i"] that by simp
  then show "\<forall>i<length ks. f (ks ! i) = Some i" by simp
qed (rule nth_equalityI, simp_all)

lemma numbered_iff:
  "numbered n \<longleftrightarrow>
     (nests (type_of n) \<longrightarrow> childs n \<noteq> None) \<and>
     (type_of n = TObject \<longrightarrow> (\<forall>i<length (kids n). index_of (kids n ! i) = None)) \<and>
     (type_of n = TArray \<and> drawn n \<longrightarrow> (\<forall>i<length (kids n). index_of (kids n ! i) = Some i))"
  unfolding numbered_def map_positions list_all_nth by (rule refl)

lemma numbered_nth:
  "numbered n \<Longrightarrow> type_of n = TArray \<Longrightarrow> drawn n \<Longrightarrow> i < length (kids n) \<Longrightarrow> index_of (kids n ! i) = Some i"
  by (simp add: numbered_iff)

lemma numbered_object: "numbered n \<Longrightarrow> type_of n = TObject \<Longrightarrow> i < length (kids n) \<Longrightarrow> index_of (kids n ! i) = None"
  by (simp add: numbered_iff)

lemma kids_tree_ok: "half_ok n \<Longrightarrow> i < length (kids n) \<Longrightarrow> tree_ok (kids n ! i)"
  by (simp add: half_ok_def list_all_nth)

lemma kids_map_kid [simp]:
  "kids (map_kid i f n) = (if i < length (kids n) then (kids n)[i := f (kids n ! i)] else kids n)"
  by (cases n) (auto simp: map_kid_def kids_def split: option.splits)

lemma attrs_map_kid [simp]: "attrs (map_kid i f n) = attrs n" "childs (map_kid i f n) = None \<longleftrightarrow> childs n = None"
  by (simp_all add: map_kid_def)

lemma numbered_map_kid:
  assumes "numbered n" "i < length (kids n) \<Longrightarrow> index_of (f (kids n ! i)) = index_of (kids n ! i)"
  shows "numbered (map_kid i f n)"
proof -
  have "type_of (map_kid i f n) = type_of n" "drawn (map_kid i f n) = drawn n"
    by (simp_all add: type_of_def drawn_def)
  then show ?thesis using assms by (simp add: numbered_iff nth_list_update)
qed

text \<open>A new child may bring a position of its own only where the parent takes it away.\<close>

definition may_append :: "node \<Rightarrow> node \<Rightarrow> bool" where
  "may_append k n =
     (type_of n = TObject \<longrightarrow>
        index_of k = None \<or>
        (nd_expanded (attrs n) \<and> drawn n \<and> the (index_of k) \<le> length (kids n)))"

lemma tree_ok_appendChild:
  assumes "tree_ok n" "tree_ok k" "may_append k n"
  shows "tree_ok (appendChild H k n) \<and> place (appendChild H k n) = place n"
proof (cases "nests (type_of n)")
  case False
  then show ?thesis using assms by (auto simp: appendChild_def type_of_def split: option.splits)
next
  case True
  obtain a ks where n: "n = Node a (Some ks)"
    using assms(1) True by (cases n; cases "childs n") (auto simp: numbered_def type_of_def)
  have num: "numbered n" and rows: "rows_drawn n" and ok: "\<forall>i<length ks. tree_ok (ks ! i)"
    using assms(1) by (simp_all add: n list_all_nth)
  define new where "new = adopt a (if nd_type a = TArray then Some (length ks) else None) k"
  have new: "half_ok new" "tree_ok new" using assms(2) by (simp_all add: new_def tree_simps tree_ok_half)
  show ?thesis
  proof (cases "nd_expanded a")
    case False
    have e: "appendChild H k n = Node a (Some (ks @ [updateDom H new]))"
      using True False by (simp add: appendChild_def n type_of_def new_def Let_def)
    have "numbered (Node a (Some (ks @ [updateDom H new])))"
      using num assms(3) False
      by (auto simp: numbered_def n type_of_def drawn_def tree_simps new_def may_append_def)
    then show ?thesis
      using False ok new unfolding e
      by (auto simp: rows_drawn_def tree_simps list_all_nth [of _ ks] n place_def drawn_def index_of_def)
  next
    case True': True
    define s where "s = (case nd_index (attrs new) of None \<Rightarrow> 0 | Some i \<Rightarrow> i)"
    define d where "d = getDom H (Some (nd_type a)) new"
    define m where "m = Node a (Some (ks @ [d]))"
    define u where "u = updateStatus H s m"
    have e: "appendChild H k n = map_kid (length ks) (\<lambda>k. updateDom H (showChilds H k)) u"
      using True True' by (simp add: appendChild_def n type_of_def new_def Let_def s_def d_def m_def u_def)
    have d: "half_ok d" "drawn d" "index_of d = index_of new"
      using half_ok_getDom [OF new(1)] by (simp_all add: d_def)
    have i: "index_of new = (if nd_type a = TArray then Some (length ks) else index_of k)"
      by (simp add: new_def tree_simps)
    have s: "type_of m = TArray \<Longrightarrow> s = length ks \<and> index_of d = Some (length ks)"
      using i d(3) by (simp add: s_def type_of_def m_def index_of_def [symmetric])
    have s': "type_of m = TObject \<Longrightarrow> s \<le> length ks \<and> (\<not> drawn n \<longrightarrow> index_of d = None)"
      using assms(3) i by (cases "index_of k") (auto simp: s_def d type_of_def m_def may_append_def n index_of_def [symmetric])
    have mn: "drawn m = drawn n" "type_of m = type_of n" "kids m = ks @ [d]" "kids n = ks"
      by (simp_all add: m_def n drawn_def type_of_def)
    have "numbered u"
      unfolding u_def
    proof (rule numbered_updateStatus)
      show "nests (type_of m) \<longrightarrow> childs m \<noteq> None" by (simp add: m_def)
      show "\<forall>i<length (kids m). i < s \<longrightarrow> index_of (kids m ! i) = Some i" if "type_of m = TArray" "drawn m"
        using numbered_nth [OF num] s that mn by (auto simp: nth_append)
      show "\<forall>i<length (kids m). i < s \<or> \<not> drawn m \<longrightarrow> index_of (kids m ! i) = None" if "type_of m = TObject"
        using numbered_object [OF num] s' that mn by (auto simp: nth_append)
    qed
    then have "numbered (appendChild H k n)"
      unfolding e by (rule numbered_map_kid) (simp add: tree_simps)
    moreover have "list_all tree_ok (kids (appendChild H k n))"
      using ok d(1) mn half_kid_updateStatus [of "length ks" m H s]
      by (auto simp: e u_def list_all_nth nth_list_update length_kids_updateStatus kid_updateStatus tree_simps nth_append
          less_Suc_eq intro: tree_ok_showChilds)
    moreover have "rows_drawn (appendChild H k n)"
    proof -
      have "rows_drawn u" using rows d(2) mn by (simp add: u_def rows_updateStatus) (simp add: rows_drawn_def m_def n drawn_def)
      then show ?thesis unfolding e by (simp add: rows_drawn_def drawn_def [of "map_kid _ _ _"] list_all_nth nth_list_update tree_simps) (simp add: drawn_def)
    qed
    moreover have "place (appendChild H k n) = place u"
      unfolding e by (simp add: place_def index_of_def drawn_def)
    moreover have "place u = place n"
      by (simp add: u_def place_updateStatus) (simp add: m_def n place_def index_of_def drawn_def)
    ultimately show ?thesis by (simp add: tree_ok_iff half_ok_def)
  qed
qed

lemma place_Node: "place (Node (attrs n) cs) = place n"
  by (simp add: place_def index_of_def drawn_def)

text \<open>Numbering what is in order up to a position, all rows in place.\<close>

lemma tree_ok_updateStatus:
  assumes "nests (type_of n) \<longrightarrow> childs n \<noteq> None" "list_all tree_ok (kids n)" "rows_drawn n"
    and "type_of n = TArray \<Longrightarrow> drawn n \<Longrightarrow> \<forall>i<length (kids n). i < s \<longrightarrow> index_of (kids n ! i) = Some i"
    and "type_of n = TObject \<Longrightarrow> \<forall>i<length (kids n). i < s \<or> \<not> drawn n \<longrightarrow> index_of (kids n ! i) = None"
  shows "tree_ok (updateStatus H s n)"
proof -
  have "list_all tree_ok (kids (updateStatus H s n))"
    using assms(2) by (auto simp: list_all_nth length_kids_updateStatus kid_updateStatus)
  then show ?thesis
    using assms numbered_updateStatus [of n s H] by (simp add: tree_ok_iff half_ok_def rows_updateStatus)
qed

lemma drawn_getDom: "drawn n \<Longrightarrow> getDom H pt n = n"
  by (simp add: getDom_def drawn_def)

lemma tree_ok_insertBefore:
  assumes "tree_ok n" "tree_ok k" "drawn n"
  shows "tree_ok (insertBefore H k j n) \<and> place (insertBefore H k j n) = place n"
proof (cases "nests (type_of n) \<and> j < length (kids n)")
  case False
  then show ?thesis using assms by (cases n) (auto simp: insertBefore_def type_of_def kids_def split: option.splits)
next
  case True
  obtain a ks where n: "n = Node a (Some ks)"
    using True by (cases n; cases "childs n") (auto simp: type_of_def)
  have num: "numbered n" and rows: "rows_drawn n" and ok: "list_all tree_ok ks"
    using assms(1) by (simp_all add: n)
  have j: "j < length ks" using True n by simp
  define new where "new = adopt a None k"
  have new: "half_ok new" "tree_ok new" using assms(2) by (simp_all add: new_def tree_simps tree_ok_half)
  define d where "d = (if nd_expanded a then updateDom H (showChilds H (getDom H (Some (nd_type a)) new)) else updateDom H new)"
  have d: "tree_ok d" "nd_expanded a \<Longrightarrow> drawn d"
    using new half_ok_getDom(2) [OF new(1), of H "Some (nd_type a)"] by (simp_all add: d_def tree_simps tree_ok_drawn)
  define m where "m = Node a (Some (take j ks @ d # drop j ks))"
  have kj: "nd_expanded a \<Longrightarrow> drawn (ks ! j)"
    using rows assms(3) j by (simp add: rows_drawn_def n list_all_nth drawn_def)
  have "drop j ks = ks ! j # drop (Suc j) ks" using j by (simp add: Cons_nth_drop_Suc)
  then have e: "insertBefore H k j n = updateStatus H j m"
    using True j kj by (simp add: insertBefore_def n type_of_def new_def [symmetric] Let_def d_def m_def drawn_getDom)
  have mn: "drawn m = drawn n" "type_of m = type_of n" "kids m = take j ks @ d # drop j ks" "kids n = ks"
    by (simp_all add: m_def n drawn_def type_of_def)
  have before: "kids m ! i = ks ! i" if "i < j" for i
    using that j by (simp add: mn nth_append)
  have sub: "set (kids m) \<subseteq> insert d (set ks)"
    using set_take_subset [of j ks] set_drop_subset [of j ks] by (auto simp: mn)
  have "tree_ok (updateStatus H j m)"
  proof (rule tree_ok_updateStatus)
    show "nests (type_of m) \<longrightarrow> childs m \<noteq> None" by (simp add: m_def)
    show "list_all tree_ok (kids m)"
      using ok d(1) sub by (auto simp: list_all_iff)
    show "rows_drawn m"
      using rows d(2) sub by (auto simp: rows_drawn_def list_all_iff mn) (auto simp: m_def n)
    show "\<forall>i<length (kids m). i < j \<longrightarrow> index_of (kids m ! i) = Some i" if "type_of m = TArray" "drawn m"
      using numbered_nth [OF num] that mn(1,2,4) before j by simp
    show "\<forall>i<length (kids m). i < j \<or> \<not> drawn m \<longrightarrow> index_of (kids m ! i) = None" if "type_of m = TObject"
      using numbered_object [OF num] that mn(1,2,4) before j assms(3) by simp
  qed
  moreover have "place (updateStatus H j m) = place n"
    by (simp add: place_updateStatus) (simp add: m_def n place_def index_of_def drawn_def)
  ultimately show ?thesis by (simp add: e)
qed

lemma tree_ok_removeChild:
  assumes "tree_ok n"
  shows "tree_ok (removeChild H i n) \<and> place (removeChild H i n) = place n"
proof (cases "i < length (kids n)")
  case False
  then show ?thesis using assms by (cases n) (auto simp: removeChild_def kids_def split: option.splits)
next
  case True
  obtain a ks where n: "n = Node a (Some ks)"
    using True by (cases n; cases "childs n") auto
  have num: "numbered n" and rows: "rows_drawn n" and ok: "list_all tree_ok ks" and i: "i < length ks"
    using assms True by (simp_all add: n)
  define m where "m = Node a (Some (take i ks @ drop (Suc i) ks))"
  have e: "removeChild H i n = updateStatus H i m"
    using i by (simp add: removeChild_def n m_def)
  have mn: "drawn m = drawn n" "type_of m = type_of n" "kids m = take i ks @ drop (Suc i) ks" "kids n = ks"
    by (simp_all add: m_def n drawn_def type_of_def)
  have before: "kids m ! j = ks ! j" if "j < i" for j
    using that i by (simp add: mn nth_append)
  have sub: "set (kids m) \<subseteq> set ks" using set_take_subset set_drop_subset by (fastforce simp: mn)
  have "tree_ok (updateStatus H i m)"
  proof (rule tree_ok_updateStatus)
    show "nests (type_of m) \<longrightarrow> childs m \<noteq> None" by (simp add: m_def)
    show "list_all tree_ok (kids m)" using ok sub by (auto simp: list_all_iff)
    show "rows_drawn m" using rows sub by (auto simp: rows_drawn_def m_def n list_all_iff drawn_def)
    show "\<forall>j<length (kids m). j < i \<longrightarrow> index_of (kids m ! j) = Some j" if "type_of m = TArray" "drawn m"
      using numbered_nth [OF num] that mn(1,2,4) before i by simp
    show "\<forall>j<length (kids m). j < i \<or> \<not> drawn m \<longrightarrow> index_of (kids m ! j) = None" if "type_of m = TObject"
    proof -
      have "\<forall>k\<in>set ks. index_of k = None" using num that mn(2) by (simp add: numbered_def n list_all_iff)
      then show ?thesis using sub by (auto dest: nth_mem)
    qed
  qed
  moreover have "place (updateStatus H i m) = place n"
    by (simp add: place_updateStatus) (simp add: m_def n place_def index_of_def drawn_def)
  ultimately show ?thesis by (simp add: e)
qed

lemma clone_simps: "index_of (clone n) = None" "drawn (clone n) = False" "type_of (clone n) = type_of n"
  "nd_expanded (attrs (clone n)) = nd_expanded (attrs n)"
  by (cases n; simp add: index_of_def drawn_def type_of_def)+

lemma tree_ok_clone: "tree_ok n \<Longrightarrow> tree_ok (clone n)"
proof (induction n rule: node_induct)
  case (Node a cs)
  show ?case
  proof (cases cs)
    case None
    then show ?thesis using Node by (simp add: numbered_def rows_drawn_def type_of_def drawn_def)
  next
    case (Some ks)
    define b where "b = a\<lparr>nd_index := None, nd_dom := None, nd_focused := False\<rparr>"
    have "numbered (Node b (Some (map clone ks)))"
      by (simp add: numbered_def type_of_def drawn_def list.pred_map o_def clone_simps b_def list.pred_True)
    moreover have "rows_drawn (Node b (Some (map clone ks)))"
      by (simp add: rows_drawn_def drawn_def b_def)
    ultimately show ?thesis using Node Some by (simp add: list_all_iff flip: b_def)
  qed
qed

lemma tree_ok_duplicate:
  assumes "tree_ok n" "drawn n"
  shows "tree_ok (duplicate H i n) \<and> place (duplicate H i n) = place n"
proof (cases "i < length (kids n)")
  case True
  then have "tree_ok (clone (kids n ! i))"
    using assms(1) by (simp add: tree_ok_clone kids_tree_ok tree_ok_half)
  then show ?thesis using True tree_ok_insertBefore [OF assms(1) _ assms(2)] by (simp add: duplicate_def)
qed (use assms in \<open>simp add: duplicate_def\<close>)

text \<open>A tree that was just built: nothing is drawn or open.\<close>

definition fresh :: "node \<Rightarrow> bool" where
  "fresh n = (tree_ok n \<and> index_of n = None \<and> \<not> drawn n \<and> \<not> nd_expanded (attrs n))"

lemma attrs_appendChild: "\<not> nd_expanded (attrs n) \<Longrightarrow> attrs (appendChild H k n) = attrs n"
  by (simp add: appendChild_def Let_def split: option.splits)

lemma fresh_appendChild: "fresh n \<Longrightarrow> fresh k \<Longrightarrow> fresh (appendChild H k n)"
  using tree_ok_appendChild [of n k H]
  by (simp add: fresh_def may_append_def attrs_appendChild place_eq)

lemma fresh_foldl: "fresh n \<Longrightarrow> \<forall>v\<in>set vs. fresh (g v) \<Longrightarrow> fresh (foldl (\<lambda>n v. appendChild H (g v) n) n vs)"
  by (induction vs arbitrary: n) (simp_all add: fresh_appendChild)

lemma fresh_blank:
  "fresh (Node (blank_node f t v) (Some []))"
  "\<not> nests t \<Longrightarrow> fresh (Node (blank_node f t v) None)"
  by (simp_all add: fresh_def blank_node_def numbered_def rows_drawn_def type_of_def index_of_def drawn_def)

lemma fresh_new_node: "fresh (new_node H f v)"
proof (induction H f v rule: new_node.induct)
  case (1 H f vs)
  then show ?case using fresh_foldl [of _ vs "new_node H JUndef" H] by (simp add: fresh_blank)
next
  case (2 H f kvs)
  have "fresh (foldl (\<lambda>n kv. appendChild H (new_node H (JStr (fst kv)) (snd kv)) n) (Node (blank_node f TObject (JStr [])) (Some [])) kvs)"
    by (rule fresh_foldl) (use 2 in \<open>auto simp: fresh_blank\<close>)
  then show ?case by (simp add: case_prod_unfold)
qed (simp_all add: fresh_blank)

lemma nests_iff: "nests t \<longleftrightarrow> t \<noteq> TString \<and> t \<noteq> TAuto"
  by (cases t) simp_all

lemma retype_kid_simps:
  "half_ok n \<Longrightarrow> tree_ok (retype_kid t i n)" "\<not> drawn (retype_kid t i n)"
  "index_of (retype_kid t i n) = (if t = TObject then None else Some i)"
proof -
  assume n: "half_ok n"
  let ?m = "retype_kid t i n"
  have m: "kids ?m = kids n" "childs ?m = childs n" "type_of ?m = type_of n" "\<not> drawn ?m"
    by (simp_all add: retype_kid_def type_of_def drawn_def)
  then have "numbered ?m" "rows_drawn ?m" "list_all tree_ok (kids ?m)"
    using n by (simp_all add: half_ok_def numbered_def rows_drawn_def)
  then show "tree_ok ?m" by (simp add: tree_ok_iff half_ok_def)
qed (simp_all add: retype_kid_def drawn_def index_of_def)

text \<open>A node that changes between plain values and collections is drawn anew.\<close>

definition retyped :: "node_type \<Rightarrow> node \<Rightarrow> node" where
  "retyped t n =
     (if nests t
      then Node ((attrs n)\<lparr>nd_dom := None, nd_type := t,
                   nd_expanded := (if nests (type_of n) then nd_expanded (attrs n) else True)\<rparr>)
             (Some (from_index 0 (retype_kid t) (kids n)))
      else with_attrs (\<lambda>b. b\<lparr>nd_dom := None, nd_type := t, nd_expanded := False\<rparr>) n)"

definition cast_value :: "node_type \<Rightarrow> jsval \<Rightarrow> jsval" where
  "cast_value t v = (if t = TString then JStr (js_to_string v) else if t = TAuto then stringCast (js_to_string v) else v)"

lemma changeType_eq:
  "changeType H pt t n =
     updateDom H (with_attrs (\<lambda>b. b\<lparr>nd_value := cast_value t (nd_value b)\<rparr>)
       (if \<not> nests t \<and> \<not> nests (type_of n) then with_attrs (\<lambda>b. b\<lparr>nd_type := t\<rparr>) n
        else showChilds H (getDom H pt (retyped t n))))"
proof -
  have "with_attrs (\<lambda>b. b\<lparr>nd_value := nd_value b\<rparr>) m = m" for m
    by (cases m) (simp add: with_attrs_def)
  then show ?thesis
    by (cases t) (simp_all add: changeType_def Let_def retyped_def type_of_def cast_value_def)
qed

lemma half_ok_retyped:
  assumes "half_ok n"
  shows "half_ok (retyped t n)"
proof (cases "nests t")
  case True
  define ls where "ls = from_index 0 (retype_kid t) (kids n)"
  have l: "ls ! i = retype_kid t i (kids n ! i)" "length ls = length (kids n)" if "i < length ls" for i
    using that by (simp_all add: ls_def from_index_nth)
  have "tree_ok (ls ! i)" "index_of (ls ! i) = (if t = TObject then None else Some i)" if "i < length ls" for i
    using l [OF that] that kids_tree_ok [OF assms, of i] by (simp_all add: retype_kid_simps tree_ok_half)
  then show ?thesis
    using True by (simp add: retyped_def half_ok_def numbered_iff type_of_def drawn_def list_all_nth flip: ls_def)
next
  case False
  then show ?thesis using assms by (simp add: retyped_def half_ok_def numbered_def type_of_def drawn_def)
qed

lemma tree_ok_changeType:
  assumes "tree_ok n" "drawn n"
  shows "tree_ok (changeType H pt t n) \<and> place (changeType H pt t n) = place n"
proof -
  define n1 where "n1 = (if \<not> nests t \<and> \<not> nests (type_of n) then with_attrs (\<lambda>b. b\<lparr>nd_type := t\<rparr>) n
        else showChilds H (getDom H pt (retyped t n)))"
  have m: "half_ok (retyped t n)" by (rule half_ok_retyped [OF tree_ok_half [OF assms(1)]])
  have "tree_ok n1"
  proof (cases "\<not> nests t \<and> \<not> nests (type_of n)")
    case True
    then show ?thesis
      using assms(1)
      by (cases n) (auto simp: n1_def with_attrs_def numbered_def rows_drawn_def type_of_def drawn_def kids_def)
  next
    case False
    then show ?thesis using tree_ok_drawn [OF m] by (auto simp: n1_def)
  qed
  moreover have "index_of (retyped t n) = index_of n" by (simp add: retyped_def index_of_def)
  then have "place n1 = place n"
    using half_ok_getDom(2,3) [OF m, of H pt] assms(2)
    by (auto simp: n1_def place_eq tree_simps) (auto simp: index_of_def drawn_def)
  moreover have "changeType H pt t n = updateDom H (with_attrs (\<lambda>b. b\<lparr>nd_value := cast_value t (nd_value b)\<rparr>) n1)"
    unfolding changeType_eq n1_def by (rule refl)
  ultimately show ?thesis
    by (simp add: tree_simps ok_with_attrs same_row_def) (simp add: place_def index_of_def drawn_def)
qed

section \<open>Events keep it\<close>

lemma getDomValue_row:
  "same_row (final_state (getDomValue a)) a" "nd_index (final_state (getDomValue a)) = nd_index a"
  by (auto simp: getDomValue_def same_row_def Let_def split: option.splits sum.splits)

lemma getDomField_row:
  "same_row (final_state (getDomField a)) a" "nd_index (final_state (getDomField a)) = nd_index a"
  by (auto simp: getDomField_def same_row_def Let_def split: option.splits sum.splits)

lemma same_row_trans: "same_row a b \<Longrightarrow> same_row b c \<Longrightarrow> same_row a c"
  by (simp add: same_row_def)

lemma same_row_refl [simp]: "same_row a a"
  by (simp add: same_row_def)

lemma blur_row: "same_row (blur a) a" "nd_index (blur a) = nd_index a"
  using same_row_trans [OF getDomField_row(1) getDomValue_row(1)]
  by (simp_all add: blur_def getDomField_row getDomValue_row)

lemma value_typed_row: "same_row (value_typed html a) a" "nd_index (value_typed html a) = nd_index a"
  unfolding value_typed_def
  by (rule same_row_trans [OF getDomValue_row(1)]) (simp_all add: same_row_def getDomValue_row(2))

lemma field_typed_row: "same_row (field_typed html a) a" "nd_index (field_typed html a) = nd_index a"
  unfolding field_typed_def
  by (rule same_row_trans [OF getDomField_row(1)]) (simp_all add: same_row_def getDomField_row(2))

lemma place_with_attrs:
  "same_row (f (attrs n)) (attrs n) \<Longrightarrow> nd_index (f (attrs n)) = nd_index (attrs n) \<Longrightarrow> place (with_attrs f n) = place n"
  by (simp add: place_def index_of_def drawn_def same_row_def)

text \<open>A change of attributes all over the tree.\<close>

lemma tree_ok_map_attrs:
  assumes g: "\<And>a cs. g (Node a cs) = Node (f a) (map_option (map g) cs)"
    and f: "\<And>a. same_row (f a) a \<and> nd_index (f a) = nd_index a"
    and n: "tree_ok n"
  shows "tree_ok (g n) \<and> place (g n) = place n"
  using n
proof (induction n rule: node_induct)
  case (Node a cs)
  have row: "tree_ok (Node (f a) ds) = tree_ok (Node a ds)" for ds
    by (rule tree_ok_same_row) (simp add: f)
  have p: "place (g (Node a cs)) = place (Node a cs)"
    using f [of a] by (simp add: g place_def index_of_def drawn_def same_row_def)
  have "tree_ok (Node a (map_option (map g) cs))"
  proof (cases cs)
    case None
    then show ?thesis using Node by simp
  next
    case (Some ks)
    have "tree_ok (Node a (Some (map g ks)))"
      by (rule tree_ok_map_kids [of a ks]) (use Node Some in \<open>auto simp: list_all_iff\<close>)
    then show ?thesis using Some by simp
  qed
  then show ?case using p by (simp add: g row del: tree_ok.simps)
qed

lemma tree_ok_blur_focused: "tree_ok n \<Longrightarrow> tree_ok (blur_focused n) \<and> place (blur_focused n) = place n"
  by (rule tree_ok_map_attrs [where f = "\<lambda>a. if nd_focused a then blur a else a"]) (simp_all add: blur_row)

lemma tree_ok_unfocus: "tree_ok n \<Longrightarrow> tree_ok (unfocus n) \<and> place (unfocus n) = place n"
  by (rule tree_ok_map_attrs [where f = "\<lambda>a. a\<lparr>nd_focused := False\<rparr>"]) (simp_all add: same_row_def)

lemma tree_ok_at_path:
  assumes "tree_ok n" "node_at p n = Some m" "tree_ok (f m)" "place (f m) = place m"
  shows "tree_ok (at_path p f n) \<and> place (at_path p f n) = place n"
  using assms(1,2)
proof (induction p arbitrary: n)
  case Nil
  then show ?case using assms by simp
next
  case (Cons i p)
  obtain a ks where n: "n = Node a (Some ks)" and i: "i < length ks" and at: "node_at p (ks ! i) = Some m"
    using Cons.prems(2) by (cases n; cases "childs n") (auto split: if_splits)
  have "tree_ok (at_path p f (ks ! i)) \<and> place (at_path p f (ks ! i)) = place (ks ! i)"
    using Cons.prems(1) i by (intro Cons.IH at) (simp add: n list_all_nth)
  then have k: "tree_ok (at_path p f (ks ! i))" "place (at_path p f (ks ! i)) = place (ks ! i)" by simp_all
  have "map place (ks[i := at_path p f (ks ! i)]) = (map place ks)[i := map place ks ! i]"
    using k(2) i by (simp add: map_update)
  then have pl: "map place (ks[i := at_path p f (ks ! i)]) = map place ks" by (simp only: list_update_id)
  have "list_all tree_ok (ks[i := at_path p f (ks ! i)])"
    using Cons.prems(1) k(1) by (auto simp: n list_all_iff dest!: set_update_subset_insert [THEN subsetD])
  then have "tree_ok (Node a (Some (ks[i := at_path p f (ks ! i)])))"
    using Cons.prems(1) pl unfolding n by (blast intro: tree_ok_map_kids)
  moreover have "place (at_path (i # p) f n) = place n"
    by (simp add: place_def index_of_def drawn_def)
  ultimately show ?case using i by (simp add: n map_kid_def del: tree_ok.simps)
qed

lemma shown_node_at:
  assumes "tree_ok n" "drawn n" "shown p n"
  obtains m where "node_at p n = Some m" "tree_ok m" "drawn m" "attrs_at p n = attrs m"
proof -
  have "\<exists>m. node_at p n = Some m \<and> tree_ok m \<and> drawn m"
    using assms
  proof (induction p arbitrary: n)
    case (Cons i p)
    have "tree_ok (kids n ! i)" "drawn (kids n ! i)"
      using Cons.prems kids_tree_ok [OF tree_ok_half] by (simp_all add: tree_ok_iff rows_drawn_def list_all_nth)
    then show ?case using Cons by simp
  qed simp
  then show thesis using that by (auto simp: attrs_at_def)
qed

lemma tree_ok_shown:
  assumes "tree_ok n" "drawn n" "shown p n"
    and "\<And>m. tree_ok m \<Longrightarrow> drawn m \<Longrightarrow> node_at p n = Some m \<Longrightarrow> tree_ok (f m) \<and> place (f m) = place m"
  shows "tree_ok (at_path p f n) \<and> place (at_path p f n) = place n"
proof -
  obtain m where "node_at p n = Some m" "tree_ok m" "drawn m" by (rule shown_node_at [OF assms(1-3)])
  then show ?thesis using tree_ok_at_path [OF assms(1)] assms(4) by blast
qed

lemma shown_butlast: "shown p n \<Longrightarrow> shown (butlast p) n"
proof (induction p arbitrary: n)
  case (Cons i p)
  then show ?case by (cases p) auto
qed simp

section \<open>Dragging\<close>

text \<open>Two trees with the same rows: what is shown in one is shown in the other.\<close>

definition like :: "node \<Rightarrow> node \<Rightarrow> bool" where
  "like k k' =
     (\<forall>q. shown q k' = shown q k \<and>
        (\<forall>m. node_at q k = Some m \<longrightarrow>
           (\<exists>m'. node_at q k' = Some m' \<and> same_row (attrs m') (attrs m) \<and> length (kids m') = length (kids m))))"

lemma like_refl [simp]: "like k k"
  by (simp add: like_def)

lemma shown_updateDom: "shown q (updateDom H k) = shown q k"
proof (induction q arbitrary: k)
  case (Cons i q)
  have "nd_expanded (attrs (updateDom H k)) = nd_expanded (attrs k)"
    using updateDom_row(1) [of H k] by (simp add: same_row_def)
  then show ?case by (simp add: Cons.IH kids_updateDom cong: conj_cong)
qed simp

lemma node_at_updateDom: "node_at q (updateDom H k) = map_option (updateDom H) (node_at q k)"
  by (induction q arbitrary: k) (simp_all add: kids_updateDom)

lemma like_updateDom: "like k (updateDom H k)"
  unfolding like_def by (simp add: shown_updateDom node_at_updateDom kids_updateDom updateDom_row(1))

lemma like_with_attrs: "same_row (f (attrs k)) (attrs k) \<Longrightarrow> like k (with_attrs f k)"
proof -
  assume f: "same_row (f (attrs k)) (attrs k)"
  have "shown q (with_attrs f k) = shown q k" for q
    using f by (cases q) (simp_all add: same_row_def)
  moreover have "node_at q (with_attrs f k) = (if q = [] then Some (with_attrs f k) else node_at q k)" for q
    by (cases q) simp_all
  ultimately show ?thesis using f by (auto simp: like_def)
qed

lemma like_trans:
  assumes "like a b" "like b c"
  shows "like a c"
  unfolding like_def
proof (intro allI conjI impI)
  fix q m
  show "shown q c = shown q a" using assms by (simp add: like_def)
  assume "node_at q a = Some m"
  then obtain m' where "node_at q b = Some m'" "same_row (attrs m') (attrs m)" "length (kids m') = length (kids m)"
    using assms(1) by (auto simp: like_def)
  moreover obtain m'' where "node_at q c = Some m''" "same_row (attrs m'') (attrs m')" "length (kids m'') = length (kids m')"
    using assms(2) calculation(1) by (auto simp: like_def)
  ultimately show "\<exists>m'. node_at q c = Some m' \<and> same_row (attrs m') (attrs m) \<and> length (kids m') = length (kids m)"
    using same_row_trans by auto
qed

lemma like_set_index: "like k (set_index H i k)"
  unfolding set_index_def by (rule like_with_attrs) (simp add: same_row_def)

lemma like_drop_index: "like k (drop_index H k)"
  unfolding drop_index_def
  by (auto intro!: like_trans [OF like_with_attrs like_updateDom] simp: same_row_def)

lemma like_kid_updateStatus:
  "i < length (kids n) \<Longrightarrow> like (kids n ! i) (kids (updateStatus H s n) ! i)"
  by (simp add: kids_updateStatus from_index_nth like_set_index like_drop_index)

lemma row_removeChild: "same_row (attrs (removeChild H i n)) (attrs n)"
  using attrs_updateStatus(1) by (auto simp: removeChild_def split: option.splits) (metis node.sel(1))

lemma kids_removeChild:
  assumes "i < length (kids n)"
  shows "length (kids (removeChild H i n)) = length (kids n) - 1"
    and "j < i \<Longrightarrow> like (kids n ! j) (kids (removeChild H i n) ! j)"
    and "i < j \<Longrightarrow> j < length (kids n) \<Longrightarrow> like (kids n ! j) (kids (removeChild H i n) ! (j - 1))"
proof -
  obtain a ks where n: "n = Node a (Some ks)" using assms by (cases n; cases "childs n") auto
  have e: "removeChild H i n = updateStatus H i (Node a (Some (take i ks @ drop (Suc i) ks)))"
    using assms by (simp add: removeChild_def n)
  show "length (kids (removeChild H i n)) = length (kids n) - 1"
    using assms unfolding e by (simp add: length_kids_updateStatus n)
  show "like (kids n ! j) (kids (removeChild H i n) ! j)" if "j < i"
    using like_kid_updateStatus [of j "Node a (Some (take i ks @ drop (Suc i) ks))" H i] assms that
    unfolding e by (simp add: n nth_append)
  show "like (kids n ! j) (kids (removeChild H i n) ! (j - 1))" if "i < j" "j < length (kids n)"
  proof -
    have "\<exists>d. j = Suc (i + d)" by (rule less_imp_Suc_add) (rule that(1))
    then obtain d where "j = Suc (i + d)" by (rule exE)
    then have "(take i ks @ drop (Suc i) ks) ! (j - 1) = ks ! j" using that assms by (simp add: n nth_append)
    then show ?thesis
      using like_kid_updateStatus [of "j - 1" "Node a (Some (take i ks @ drop (Suc i) ks))" H i] assms that
      unfolding e by (simp add: n)
  qed
qed

lemma row_after_removal:
  "same_row (attrs (at_path (butlast p) (removeChild H (last p)) n)) (attrs n)"
  "butlast p \<noteq> [] \<Longrightarrow> length (kids (at_path (butlast p) (removeChild H (last p)) n)) = length (kids n)"
proof -
  show "same_row (attrs (at_path (butlast p) (removeChild H (last p)) n)) (attrs n)"
    using row_removeChild [of H "last p" n] by (cases "butlast p") simp_all
  show "butlast p \<noteq> [] \<Longrightarrow> length (kids (at_path (butlast p) (removeChild H (last p)) n)) = length (kids n)"
    by (cases "butlast p") simp_all
qed

text \<open>What is not below the removed node is found again at its shifted place.\<close>

lemma shown_shift:
  fixes H :: "string \<Rightarrow> string"
  assumes "p \<noteq> []" "shown p n" "shown q n" "node_at q n = Some m" "take (length p) q \<noteq> p"
  defines "n1 \<equiv> at_path (butlast p) (removeChild H (last p)) n"
  shows "shown (shift p q) n1 \<and>
    (\<exists>m'. node_at (shift p q) n1 = Some m' \<and> same_row (attrs m') (attrs m) \<and>
          (q \<noteq> butlast p \<longrightarrow> length (kids m') = length (kids m)))"
  using assms(1-5) unfolding n1_def
proof (induction p q arbitrary: n rule: shift.induct)
  case (1 i j q)
  have i: "i < length (kids n)" using 1(2) by simp
  have x: "nd_expanded (attrs (removeChild H i n))" using 1(2) row_removeChild [of H i n] by (simp add: same_row_def)
  have j: "j < length (kids n)" "shown q (kids n ! j)" "node_at q (kids n ! j) = Some m" "i \<noteq> j"
    using 1(3-5) by (auto split: if_splits)
  note k = kids_removeChild [where H = H, OF i]
  define l where "l = (if i < j then j - 1 else j)"
  have l: "l < length (kids (removeChild H i n))" "like (kids n ! j) (kids (removeChild H i n) ! l)"
    using k j i by (auto simp: l_def)
  then obtain m' where "node_at q (kids (removeChild H i n) ! l) = Some m'" "same_row (attrs m') (attrs m)"
    "length (kids m') = length (kids m)" "shown q (kids (removeChild H i n) ! l)"
    using j(2,3) by (auto simp: like_def)
  moreover have "shift [i] (j # q) = l # q" by (simp add: l_def)
  ultimately show ?case using l(1) x by simp
next
  case (2 i i' p j q)
  show ?case
  proof (cases "i = j")
    case True
    then show ?thesis using 2 by (simp split: if_splits)
  next
    case False
    then show ?thesis using 2(2-) by (simp split: if_splits)
  qed
qed (use row_after_removal in auto)

text \<open>
  An element of an array that is dropped at the end of an object gets a name, unless the object has
  fewer entries than the position of the element in its array.
\<close>

fun drop_is_named :: "ed_event \<Rightarrow> node \<Rightarrow> bool" where
  "drop_is_named (DragToEnd p q) n =
     (case (node_at p n, node_at q n) of
        (Some k, Some m) \<Rightarrow> type_of m = TObject \<longrightarrow> index_of k = None \<or> the (index_of k) \<le> length (kids m)
      | _ \<Rightarrow> True)"
| "drop_is_named _ n = True"

lemma node_at_snoc: "node_at (p @ [i]) n = (case node_at p n of None \<Rightarrow> None | Some m \<Rightarrow> if i < length (kids m) then Some (kids m ! i) else None)"
  by (induction p arbitrary: n) simp_all

lemma node_at_butlast:
  assumes "p \<noteq> []" "node_at p n = Some k"
  obtains m where "node_at (butlast p) n = Some m" "last p < length (kids m)" "k = kids m ! last p"
  using assms node_at_snoc [of "butlast p" "last p" n] by (auto split: option.splits if_splits)

lemma removed_ok:
  assumes "tree_ok n" "drawn n" "p \<noteq> []" "shown p n"
  shows "tree_ok (at_path (butlast p) (removeChild H (last p)) n) \<and> place (at_path (butlast p) (removeChild H (last p)) n) = place n"
  by (rule tree_ok_shown [OF assms(1,2) shown_butlast [OF assms(4)]]) (rule tree_ok_removeChild)

lemma drawn_place: "place m = place n \<Longrightarrow> drawn m = drawn n"
  by (simp add: place_eq)

lemma tree_ok_moveBefore:
  assumes n: "tree_ok n" "drawn n" and p: "p \<noteq> []" "shown p n" and q: "shown q n" "take (length p) q \<noteq> p"
    and e: "pos = None \<Longrightarrow> nd_expanded (attrs_at q n) \<and> drop_is_named (DragToEnd p q) n"
  shows "tree_ok (moveBefore H p q pos n) \<and> place (moveBefore H p q pos n) = place n"
proof -
  obtain k where k: "node_at p n = Some k" "tree_ok k" by (rule shown_node_at [OF n p(2)])
  obtain m where m: "node_at q n = Some m" "tree_ok m" "drawn m" "attrs_at q n = attrs m" by (rule shown_node_at [OF n q(1)])
  define n1 where "n1 = at_path (butlast p) (removeChild H (last p)) n"
  have n1: "tree_ok n1" "place n1 = place n" using removed_ok [OF n p] by (simp_all add: n1_def)
  obtain m' where m': "shown (shift p q) n1" "node_at (shift p q) n1 = Some m'" "same_row (attrs m') (attrs m)"
      "q \<noteq> butlast p \<longrightarrow> length (kids m') = length (kids m)"
    using shown_shift [OF p q(1) m(1) q(2), of H] unfolding n1_def by blast
  have d1: "drawn n1" using n(2) drawn_place [OF n1(2)] by simp
  obtain m'' where "node_at (shift p q) n1 = Some m''" "tree_ok m''" "drawn m''" by (rule shown_node_at [OF n1(1) d1 m'(1)])
  then have m'_ok: "tree_ok m'" "drawn m'" using m'(2) by auto
  have append: "may_append k m'" if "pos = None"
  proof -
    have x: "nd_expanded (attrs m')" "type_of m' = type_of m" using e [OF that] m(4) m'(3) by (simp_all add: same_row_def type_of_def)
    have "index_of k = None" if "q = butlast p" "type_of m = TObject"
    proof -
      obtain m0 where m0: "node_at (butlast p) n = Some m0" "last p < length (kids m0)" "k = kids m0 ! last p"
        by (rule node_at_butlast [OF p(1) k(1)])
      then show ?thesis
        using numbered_object [of m "last p"] that m(1,2) tree_ok_half [of m] by (simp add: half_ok_def)
    qed
    then show ?thesis
      using e [OF that] k(1) m(1) m'(4) m'_ok(2) x by (auto simp: may_append_def)
  qed
  have "tree_ok (f m') \<and> place (f m') = place m'"
    if "f = (case pos of None \<Rightarrow> appendChild H k | Some j \<Rightarrow> insertBefore H k (last (shift p (q @ [j]))))" for f
    using that append tree_ok_appendChild [OF m'_ok(1) k(2)] tree_ok_insertBefore [OF m'_ok(1) k(2) m'_ok(2)]
    by (cases pos) auto
  then have "tree_ok (at_path (shift p q) f n1) \<and> place (at_path (shift p q) f n1) = place n"
    if "f = (case pos of None \<Rightarrow> appendChild H k | Some j \<Rightarrow> insertBefore H k (last (shift p (q @ [j]))))" for f
    using tree_ok_at_path [OF n1(1) m'(2), of f] n1(2) that by simp
  then show ?thesis using n(1) by (simp add: moveBefore_def k(1) n1_def del: tree_ok.simps)
qed

lemma shown_snoc: "shown (q @ [j]) n \<Longrightarrow> shown q n"
  using shown_butlast [of "q @ [j]" n] by simp

lemma shown_unfocus: "shown p (unfocus n) = shown p n"
proof (induction p arbitrary: n)
  case (Cons i p)
  obtain a cs where n: "n = Node a cs" by (cases n)
  show ?case using Cons.IH by (cases cs) (simp_all add: n cong: conj_cong)
qed simp

lemma tree_ok_handle:
  assumes n: "tree_ok n" "drawn n" and e: "enabled e n" "drop_is_named e n"
  shows "tree_ok (handle H e n) \<and> place (handle H e n) = place n"
proof -
  note at = tree_ok_shown [OF n]
  show ?thesis
  proof (cases e)
    case (ClickExpand p ctrl)
    then show ?thesis
      using e by (auto simp: onExpand_def tree_ok_expand tree_ok_collapse intro!: at)
  next
    case (ClickDuplicate p)
    then show ?thesis using e by (auto intro!: at tree_ok_duplicate shown_butlast)
  next
    case (ClickAppend p)
    let ?k = "new_node H (JStr ''field'') (JStr ''value'')"
    have "tree_ok (appendChild H ?k m) \<and> place (appendChild H ?k m) = place m" if "tree_ok m" for m
      using that fresh_new_node [of H "JStr ''field''" "JStr ''value''"]
      by (intro tree_ok_appendChild) (simp_all add: fresh_def may_append_def del: new_node.simps)
    then show ?thesis
      using e unfolding ClickAppend handle.simps by (intro at) simp_all
  next
    case (DragBefore p q j)
    then show ?thesis using e tree_ok_moveBefore [OF n, of p q "Some j"] shown_snoc by auto
  next
    case (DragToEnd p q)
    then show ?thesis using e tree_ok_moveBefore [OF n, of p q None] by auto
  next
    case (FocusNode p)
    have u: "tree_ok (unfocus n) \<and> place (unfocus n) = place n" by (rule tree_ok_unfocus [OF n(1)])
    have "shown p (unfocus n)" using e(1) FocusNode by (simp add: shown_unfocus)
    then show ?thesis
      using tree_ok_shown [of "unfocus n" p] u n(2) drawn_place [of "unfocus n" n]
      by (auto simp: FocusNode ok_with_attrs same_row_def place_with_attrs)
  qed (use n e in \<open>auto simp: tree_ok_expand tree_ok_collapse tree_ok_blur_focused tree_ok_changeType tree_ok_removeChild
      ok_with_attrs value_typed_row field_typed_row place_with_attrs intro!: at shown_butlast\<close>)
qed

end
