(* ===== verification/Editor_Outline.thy ===== *)
theory Editor_Outline
  imports Editor_Runs
begin

text \<open>
  The edits of the JSON editor seen on the data alone. The outline of a tree holds types, names,
  values and children; the operations on outlines (\<open>o_append\<close>, \<open>o_insert\<close>, \<open>o_remove\<close>, \<open>o_retype\<close>, ...)
  say what an edit is meant to do, and every handler of the editor refines one of them.
\<close>

section \<open>Outlines\<close>

datatype outlined = Out (o_type: node_type) (o_field: jsval) (o_value: jsval) (o_childs: "outlined list option")

fun outline :: "node \<Rightarrow> outlined" where
  "outline (Node a cs) = Out (nd_type a) (nd_field a) (nd_value a) (map_option (map outline) cs)"

definition o_kids :: "outlined \<Rightarrow> outlined list" where
  "o_kids x = (case o_childs x of None \<Rightarrow> [] | Some ks \<Rightarrow> ks)"

definition o_with_kids :: "(outlined list \<Rightarrow> outlined list) \<Rightarrow> outlined \<Rightarrow> outlined" where
  "o_with_kids f x = Out (o_type x) (o_field x) (o_value x) (map_option f (o_childs x))"

definition o_map_kid :: "nat \<Rightarrow> (outlined \<Rightarrow> outlined) \<Rightarrow> outlined \<Rightarrow> outlined" where
  "o_map_kid i f = o_with_kids (\<lambda>ks. if i < length ks then ks[i := f (ks ! i)] else ks)"

fun o_at :: "path \<Rightarrow> (outlined \<Rightarrow> outlined) \<Rightarrow> outlined \<Rightarrow> outlined" where
  "o_at [] f x = f x"
| "o_at (i # p) f x = o_map_kid i (o_at p f) x"

fun o_node_at :: "path \<Rightarrow> outlined \<Rightarrow> outlined option" where
  "o_node_at [] x = Some x"
| "o_node_at (i # p) x = (if i < length (o_kids x) then o_node_at p (o_kids x ! i) else None)"

section \<open>Edits of outlines\<close>

definition o_append :: "outlined \<Rightarrow> outlined \<Rightarrow> outlined" where
  "o_append k x = (if nests (o_type x) then o_with_kids (\<lambda>ks. ks @ [k]) x else x)"

definition o_insert :: "outlined \<Rightarrow> nat \<Rightarrow> outlined \<Rightarrow> outlined" where
  "o_insert k j x =
     (if nests (o_type x) \<and> j < length (o_kids x) then o_with_kids (\<lambda>ks. take j ks @ k # drop j ks) x else x)"

definition o_remove :: "nat \<Rightarrow> outlined \<Rightarrow> outlined" where
  "o_remove i x = (if i < length (o_kids x) then o_with_kids (\<lambda>ks. take i ks @ drop (Suc i) ks) x else x)"

definition o_duplicate :: "nat \<Rightarrow> outlined \<Rightarrow> outlined" where
  "o_duplicate i x = (if i < length (o_kids x) then o_insert (o_kids x ! i) i x else x)"

definition o_named :: "jsval \<Rightarrow> outlined \<Rightarrow> outlined" where
  "o_named f k = Out (o_type k) (if nullish (o_field k) then f else o_field k) (o_value k) (o_childs k)"

definition o_retype :: "node_type \<Rightarrow> outlined \<Rightarrow> outlined" where
  "o_retype t x =
     Out t (o_field x) (cast_value t (o_value x))
       (if t = TObject then Some (map (\<lambda>(i, k). o_named (JNum (int i)) k) (zip [0 ..< length (o_kids x)] (o_kids x)))
        else if t = TArray then Some (o_kids x)
        else o_childs x)"

definition read_cell :: "node_type \<Rightarrow> string \<Rightarrow> jsval" where
  "read_cell t html =
     (case unescape (stripHTML html) of
        Inr s \<Rightarrow> if t = TString then JStr s else stringCast s
      | Inl _ \<Rightarrow> JUndef)"

definition o_value_typed :: "string \<Rightarrow> outlined \<Rightarrow> outlined" where
  "o_value_typed html x = Out (o_type x) (o_field x) (read_cell (o_type x) html) (o_childs x)"

definition o_field_typed :: "string \<Rightarrow> outlined \<Rightarrow> outlined" where
  "o_field_typed html x = Out (o_type x) (read_cell TString html) (o_value x) (o_childs x)"

definition o_move :: "path \<Rightarrow> path \<Rightarrow> nat option \<Rightarrow> outlined \<Rightarrow> outlined" where
  "o_move p q pos x =
     (case (o_node_at p x, o_node_at (butlast p) x, o_node_at q x) of
        (Some k, Some parent, Some target) \<Rightarrow>
          if nests (o_type target)
          then (let k' = (if o_type parent = TArray \<and> o_type target = TObject then o_named (JStr ''field'') k else k)
                in o_at (shift p q)
                     (case pos of None \<Rightarrow> o_append k' | Some j \<Rightarrow> o_insert k' (last (shift p (q @ [j]))))
                     (o_at (butlast p) (o_remove (last p)) x))
          else x
      | _ \<Rightarrow> x)"

fun o_new :: "jsval \<Rightarrow> jsval \<Rightarrow> outlined" where
  "o_new f (JArr vs) = Out TArray f (JStr []) (Some (map (o_new JUndef) vs))"
| "o_new f (JObj kvs) = Out TObject f (JStr []) (Some (map (\<lambda>(k, v). o_new (JStr k) v) kvs))"
| "o_new f (JDate t s) = Out TObject f (JStr []) (Some [])"
| "o_new f v = Out (getType v) f v None"

fun o_step :: "ed_event \<Rightarrow> outlined \<Rightarrow> outlined" where
  "o_step (ClickDuplicate p) x = o_at (butlast p) (o_duplicate (last p)) x"
| "o_step (ClickRemove p) x = o_at (butlast p) (o_remove (last p)) x"
| "o_step (ClickAppend p) x = o_at p (o_append (o_new (JStr ''field'') (JStr ''value''))) x"
| "o_step (ChooseType p t) x = o_at p (o_retype t) x"
| "o_step (TypeValue p html) x = o_at p (o_value_typed html) x"
| "o_step (TypeField p html) x = o_at p (o_field_typed html) x"
| "o_step (DragBefore p q j) x = o_move p q (Some j) x"
| "o_step (DragToEnd p q) x = o_move p q None x"
| "o_step _ x = x"

text \<open>The value a tree stands for: in an object a later entry of the same name wins.\<close>

fun o_json :: "outlined \<Rightarrow> jsval" where
  "o_json (Out t f v cs) =
     (case cs of
        None \<Rightarrow> v
      | Some ks \<Rightarrow>
          if t = TArray then JArr (map o_json ks)
          else if t = TObject then JObj (fold (\<lambda>k. obj_set (js_to_string (o_field k)) (o_json k)) ks [])
          else v)"

section \<open>Drawing leaves the data alone\<close>

lemma outline_simps [simp]:
  "o_type (outline n) = type_of n" "o_field (outline n) = nd_field (attrs n)" "o_value (outline n) = nd_value (attrs n)"
  "o_childs (outline n) = map_option (map outline) (childs n)" "o_kids (outline n) = map outline (kids n)"
  by (cases n; simp add: type_of_def o_kids_def kids_def split: option.splits)+

lemma outline_eq_iff:
  "outline m = outline n \<longleftrightarrow>
     type_of m = type_of n \<and> nd_field (attrs m) = nd_field (attrs n) \<and> nd_value (attrs m) = nd_value (attrs n) \<and>
     map_option (map outline) (childs m) = map_option (map outline) (childs n)"
  by (cases m; cases n; simp add: type_of_def)

lemma outline_with_attrs:
  "nd_type (f (attrs n)) = nd_type (attrs n) \<Longrightarrow> nd_field (f (attrs n)) = nd_field (attrs n) \<Longrightarrow>
     nd_value (f (attrs n)) = nd_value (attrs n) \<Longrightarrow> outline (with_attrs f n) = outline n"
  by (simp add: outline_eq_iff type_of_def)

lemma outline_updateDom [simp]: "outline (updateDom H n) = outline n"
proof (induction n rule: node_induct)
  case (Node a cs)
  then show ?case by (cases cs) (simp_all add: updateField_def)
qed

lemma outline_set_index [simp]: "outline (set_index H i k) = outline k"
  by (simp add: set_index_def outline_with_attrs)

lemma outline_drop_index: "outline (drop_index H k) = (if index_of k = None then outline k else o_named (JStr ''field'') (outline k))"
  by (cases k) (simp add: drop_index_def index_of_def with_attrs_def o_named_def del: updateDom.simps)

lemma outline_from_index:
  "map outline (from_index s f ks) = map (\<lambda>(i, k). if s \<le> i then outline (f i k) else outline k) (zip [0 ..< length ks] ks)"
  by (simp add: from_index_def case_prod_unfold)

lemma from_index_same:
  assumes "\<And>i. s \<le> i \<Longrightarrow> i < length ks \<Longrightarrow> outline (f i (ks ! i)) = outline (ks ! i)"
  shows "map outline (from_index s f ks) = map outline ks"
  by (rule nth_equalityI) (simp_all add: from_index_nth assms)

text \<open>The children of an object that bring a position get a name.\<close>

lemma childs_kids: "childs n = (if childs n = None then None else Some (kids n))"
  by (auto simp: kids_def)

lemma updateStatus_attrs [simp]:
  "nd_field (attrs (updateStatus H s n)) = nd_field (attrs n)" "nd_value (attrs (updateStatus H s n)) = nd_value (attrs n)"
  "type_of (updateStatus H s n) = type_of n"
  by (auto simp: updateStatus_def show_count_def type_of_def split: option.splits)

lemma outline_updateStatus_same:
  assumes "type_of n = TObject \<Longrightarrow> drawn n \<Longrightarrow> \<forall>i<length (kids n). s \<le> i \<longrightarrow> index_of (kids n ! i) = None"
  shows "outline (updateStatus H s n) = outline n"
proof -
  have "map outline (kids (updateStatus H s n)) = map outline (kids n)"
    using assms by (auto simp: kids_updateStatus outline_drop_index intro!: from_index_same)
  then show ?thesis
    using childs_updateStatus [of H s n] childs_kids [of n] childs_kids [of "updateStatus H s n"]
    by (auto simp: outline_eq_iff)
qed

lemma outline_getDom: "numbered n \<Longrightarrow> outline (getDom H pt n) = outline n"
proof -
  assume n: "numbered n"
  have "outline (updateStatus H 0 (with_attrs (\<lambda>a. a\<lparr>nd_dom := Some (d a)\<rparr>) n)) = outline n" for d
    using n by (subst outline_updateStatus_same) (simp_all add: outline_with_attrs numbered_iff type_of_def)
  then show ?thesis by (simp add: getDom_def)
qed

lemma outline_showChilds: "half_ok n \<Longrightarrow> outline (showChilds H n) = outline n"
proof (induction H n rule: showChilds.induct)
  case (2 H a ks)
  have k: "half_ok k" if "k \<in> set ks" for k
    by (rule tree_ok_half) (use 2(2) that in \<open>simp add: half_ok_def list_all_iff\<close>)
  have "outline (showChilds H (getDom H (Some (nd_type a)) k)) = outline k" if "nd_expanded a" "k \<in> set ks" for k
    using 2(1) [OF that] half_ok_getDom(1) [OF k [OF that(2)]] outline_getDom k [OF that(2)]
    by (simp add: half_ok_def)
  then show ?case by simp
qed simp

lemma outline_drawn: "half_ok n \<Longrightarrow> outline (showChilds H (getDom H pt n)) = outline n"
  by (simp add: outline_showChilds half_ok_getDom outline_getDom half_ok_def [of n])

lemma outline_expand: "tree_ok n \<Longrightarrow> outline (expand H r n) = outline n"
proof (induction H r n rule: expand.induct)
  case (2 H r a ks)
  define m where "m = showChilds H (Node (a\<lparr>nd_expanded := True\<rparr>) (Some ks))"
  have e: "expand H r (Node a (Some ks)) = (if r then Node (attrs m) (map_option (map (expand H r)) (childs m)) else m)"
    by (simp add: m_def Let_def del: showChilds.simps)
  have m: "tree_ok m" "outline m = outline (Node a (Some ks))"
    unfolding m_def using tree_ok_opened [OF 2(2)] by (simp_all add: tree_ok_showChilds outline_showChilds del: showChilds.simps tree_ok.simps)
  show ?case
  proof (cases r)
    case True
    obtain b ls where ls: "m = Node b (Some ls)"
      using m(2) by (cases m) auto
    have "outline (expand H r k) = outline k" if "k \<in> set ls" for k
      using 2(1) [OF m_def True, of ls k] m ls that by (simp add: list_all_iff)
    then have "map outline (map (expand H r) ls) = map outline ls" by simp
    then have "outline (Node b (Some (map (expand H r) ls))) = outline m" by (simp only: ls outline.simps option.map)
    then show ?thesis using True m(2) unfolding e by (simp only: ls node.sel option.map if_True)
  next
    case False
    then show ?thesis using m(2) unfolding e by simp
  qed
qed simp

lemma outline_collapse: "outline (collapse r n) = outline n"
  by (induction r n rule: collapse.induct) auto

lemma outline_clone [simp]: "outline (clone n) = outline n"
proof (induction n rule: node_induct)
  case (Node a cs)
  then show ?case by (cases cs) simp_all
qed

section \<open>Each handler refines an edit\<close>

lemma o_childs_none: "childs n = None \<Longrightarrow> o_with_kids f (outline n) = outline n"
  by (cases n) (simp add: o_with_kids_def)

definition entering :: "node \<Rightarrow> node \<Rightarrow> outlined" where
  "entering k n = (if type_of n = TObject \<and> index_of k \<noteq> None then o_named (JStr ''field'') (outline k) else outline k)"

lemma outline_adopt [simp]: "outline (adopt a i k) = outline k"
  by (simp add: adopt_def outline_with_attrs)

lemma outline_map_kid:
  "outline (map_kid i f n) = o_with_kids (\<lambda>ks. if i < length ks then ks[i := outline (f (kids n ! i))] else ks) (outline n)"
  by (cases n; cases "childs n") (auto simp: map_kid_def o_with_kids_def map_update)

lemma outline_Node: "outline (Node (attrs n) (Some ls)) = Out (type_of n) (nd_field (attrs n)) (nd_value (attrs n)) (Some (map outline ls))"
  by (simp add: type_of_def)

lemma outline_alt:
  "outline n = Out (type_of n) (nd_field (attrs n)) (nd_value (attrs n)) (if childs n = None then None else Some (map outline (kids n)))"
  by (cases n; cases "childs n") (auto simp: type_of_def)

text \<open>What the numbering does to the child at a position.\<close>

definition renamed :: "nat \<Rightarrow> node \<Rightarrow> nat \<Rightarrow> node \<Rightarrow> outlined" where
  "renamed s n i k =
     (if s \<le> i \<and> drawn n \<and> type_of n = TObject \<and> index_of k \<noteq> None then o_named (JStr ''field'') (outline k) else outline k)"

lemma outline_kids_updateStatus:
  "i < length (kids n) \<Longrightarrow> outline (kids (updateStatus H s n) ! i) = renamed s n i (kids n ! i)"
  by (simp add: kids_updateStatus from_index_nth outline_drop_index renamed_def)

lemma outline_updateStatus:
  "outline (updateStatus H s n) =
     Out (type_of n) (nd_field (attrs n)) (nd_value (attrs n))
       (if childs n = None then None else Some (map (\<lambda>i. renamed s n i (kids n ! i)) [0 ..< length (kids n)]))"
proof -
  have "map outline (kids (updateStatus H s n)) = map (\<lambda>i. renamed s n i (kids n ! i)) [0 ..< length (kids n)]"
    by (rule nth_equalityI) (simp_all add: outline_kids_updateStatus length_kids_updateStatus)
  then show ?thesis by (simp add: outline_alt [of "updateStatus H s n"] childs_updateStatus)
qed

lemma outline_appendChild:
  assumes "tree_ok n" "tree_ok k" "may_append k n"
  shows "outline (appendChild H k n) = o_append (entering k n) (outline n)"
proof (cases "nests (type_of n)")
  case False
  then show ?thesis by (auto simp: appendChild_def type_of_def o_append_def split: option.splits)
next
  case True
  obtain a ks where n: "n = Node a (Some ks)"
    using assms(1) True by (cases n; cases "childs n") (auto simp: numbered_def type_of_def)
  have num: "numbered n" using assms(1) by (simp add: n)
  define new where "new = adopt a (if nd_type a = TArray then Some (length ks) else None) k"
  have new: "half_ok new" using assms(2) by (simp add: new_def tree_simps tree_ok_half)
  have o: "o_append x (outline n) = Out (type_of n) (nd_field a) (nd_value a) (Some (map outline ks @ [x]))" for x
    using True by (simp add: n o_append_def o_with_kids_def type_of_def)
  show ?thesis
  proof (cases "nd_expanded a")
    case False
    have e: "appendChild H k n = Node a (Some (ks @ [updateDom H new]))"
      using True False by (simp add: appendChild_def n type_of_def new_def Let_def)
    show ?thesis
      using assms(3) False unfolding e o by (auto simp: n type_of_def entering_def may_append_def new_def)
  next
    case True': True
    define s where "s = (case nd_index (attrs new) of None \<Rightarrow> 0 | Some i \<Rightarrow> i)"
    define d where "d = getDom H (Some (nd_type a)) new"
    define u where "u = updateStatus H s (Node a (Some (ks @ [d])))"
    have e: "appendChild H k n = map_kid (length ks) (\<lambda>k. updateDom H (showChilds H k)) u"
      using True True' by (simp add: appendChild_def n type_of_def new_def Let_def s_def d_def u_def)
    have d: "half_ok d" "index_of d = index_of new" "outline d = outline k"
      using half_ok_getDom [OF new] outline_getDom [of new H] new by (simp_all add: d_def half_ok_def) (simp add: new_def)
    have i: "index_of new = (if nd_type a = TArray then Some (length ks) else index_of k)"
      by (simp add: new_def tree_simps)
    have s: "type_of n = TObject \<Longrightarrow> s \<le> length ks \<and> (\<not> drawn n \<longrightarrow> index_of d = None)"
      using assms(3) i by (cases "index_of k") (auto simp: s_def d type_of_def may_append_def n index_of_def [symmetric])
    have old: "\<forall>j<length ks. type_of n = TObject \<longrightarrow> index_of (ks ! j) = None"
      using numbered_object [OF num] by (simp add: n)
    have len: "length (kids u) = Suc (length ks)" by (simp add: u_def length_kids_updateStatus)
    have kids: "outline (kids u ! j) = (if j < length ks then outline (ks ! j) else entering k n)"
      if "j \<le> length ks" for j
      using outline_kids_updateStatus [of j "Node a (Some (ks @ [d]))" H s] that s old d
      by (auto simp: u_def length_kids_updateStatus renamed_def nth_append entering_def n type_of_def drawn_def i)
    have "half_ok (kids u ! length ks)"
      using d(1) half_kid_updateStatus [of "length ks" "Node a (Some (ks @ [d]))" H s] by (simp add: u_def)
    then have l: "outline (updateDom H (showChilds H (kids u ! length ks))) = entering k n"
      using kids [of "length ks"] by (simp add: outline_showChilds)
    have "map outline (kids (appendChild H k n)) = map outline ks @ [entering k n]"
      unfolding e using kids l len by (intro nth_equalityI) (auto simp: nth_list_update nth_append)
    moreover have "nd_type (attrs u) = nd_type a"
      using updateStatus_attrs(3) [of H s "Node a (Some (ks @ [d]))"] by (simp add: u_def type_of_def)
    moreover have "childs u \<noteq> None" by (simp add: u_def childs_updateStatus)
    ultimately show ?thesis
      unfolding o outline_alt [of "appendChild H k n"] unfolding e
      by (simp add: type_of_def) (simp add: u_def n)
  qed
qed

lemma outline_insertBefore:
  assumes "tree_ok n" "tree_ok k" "drawn n"
  shows "outline (insertBefore H k j n) = o_insert (entering k n) j (outline n)"
proof (cases "nests (type_of n) \<and> j < length (kids n)")
  case False
  then show ?thesis
    by (cases n; cases "childs n") (auto simp: insertBefore_def type_of_def o_insert_def o_kids_def)
next
  case True
  obtain a ks where n: "n = Node a (Some ks)"
    using True by (cases n; cases "childs n") (auto simp: type_of_def)
  have num: "numbered n" and rows: "rows_drawn n" using assms(1) by (simp_all add: n)
  have j: "j < length ks" using True n by simp
  define new where "new = adopt a None k"
  have new: "half_ok new" "index_of new = index_of k" "outline new = outline k"
    using assms(2) by (simp_all add: new_def tree_simps tree_ok_half)
  define d where "d = (if nd_expanded a then updateDom H (showChilds H (getDom H (Some (nd_type a)) new)) else updateDom H new)"
  have d: "outline d = outline k" "index_of d = index_of k"
    using new outline_drawn [OF new(1)] half_ok_getDom(3) [OF new(1)] by (simp_all add: d_def tree_simps)
  define m where "m = Node a (Some (take j ks @ d # drop j ks))"
  have kj: "nd_expanded a \<Longrightarrow> drawn (ks ! j)"
    using rows assms(3) j by (simp add: rows_drawn_def n list_all_nth drawn_def)
  have "drop j ks = ks ! j # drop (Suc j) ks" using j by (simp add: Cons_nth_drop_Suc)
  then have e: "insertBefore H k j n = updateStatus H j m"
    using True j kj by (simp add: insertBefore_def n type_of_def new_def [symmetric] Let_def d_def m_def drawn_getDom)
  have old: "\<forall>x\<in>set ks. type_of n = TObject \<longrightarrow> index_of x = None"
    using num by (simp add: n numbered_def list_all_iff)
  have mn: "drawn m" "type_of m = type_of n" "kids m = take j ks @ d # drop j ks"
    using assms(3) by (simp_all add: m_def n drawn_def type_of_def)
  have nth: "renamed j m i (kids m ! i) = (map outline (take j ks) @ entering k n # map outline (drop j ks)) ! i"
    if "i \<le> length ks" for i
  proof -
    consider "i < j" | "i = j" | i' where "i = Suc i'" "j \<le> i'" by (metis Suc_leI less_imp_Suc_add not_less_iff_gr_or_eq le_add1)
    then show ?thesis
    proof cases
      case 3
      then have "ks ! i' \<in> set ks" using that by simp
      with old have "type_of n = TObject \<longrightarrow> index_of (ks ! i') = None" by blast
      then show ?thesis using 3 that j mn by (auto simp: renamed_def nth_append)
    qed (use old j that mn d in \<open>auto simp: renamed_def nth_append entering_def\<close>)
  qed
  have "map (\<lambda>i. renamed j m i (kids m ! i)) [0 ..< length (kids m)] = map outline (take j ks) @ entering k n # map outline (drop j ks)"
    using nth j by (intro nth_equalityI) (simp_all add: mn(3) del: upt_Suc)
  then show ?thesis
    unfolding e outline_updateStatus using True j
    by (simp add: m_def) (simp add: n o_insert_def o_with_kids_def o_kids_def take_map drop_map type_of_def)
qed

lemma outline_removeChild:
  assumes "tree_ok n"
  shows "outline (removeChild H i n) = o_remove i (outline n)"
proof (cases "i < length (kids n)")
  case False
  then show ?thesis by (cases n; cases "childs n") (auto simp: removeChild_def o_remove_def o_kids_def)
next
  case True
  obtain a ks where n: "n = Node a (Some ks)"
    using True by (cases n; cases "childs n") auto
  define m where "m = Node a (Some (take i ks @ drop (Suc i) ks))"
  have e: "removeChild H i n = updateStatus H i m"
    using True by (simp add: removeChild_def n m_def)
  have "index_of x = None" if "type_of m = TObject" "x \<in> set (kids m)" for x
    using assms that by (auto simp: m_def n numbered_def type_of_def list_all_iff dest: in_set_takeD in_set_dropD)
  then have "outline (updateStatus H i m) = outline m"
    by (intro outline_updateStatus_same) (auto dest: nth_mem)
  then show ?thesis
    using True unfolding e by (simp add: m_def n o_remove_def o_with_kids_def o_kids_def take_map drop_map)
qed

lemma outline_duplicate:
  assumes "tree_ok n" "drawn n"
  shows "outline (duplicate H i n) = o_duplicate i (outline n)"
proof (cases "i < length (kids n)")
  case True
  then have "tree_ok (clone (kids n ! i))"
    using assms(1) by (simp add: tree_ok_clone kids_tree_ok tree_ok_half)
  then show ?thesis
    using True outline_insertBefore [OF assms(1) _ assms(2)]
    by (simp add: duplicate_def o_duplicate_def entering_def clone_simps)
qed (simp add: duplicate_def o_duplicate_def)

lemma outline_retype_kid:
  "outline (retype_kid t i k) = (if t = TObject then o_named (JNum (int i)) (outline k) else outline k)"
  by (cases k) (simp add: retype_kid_def with_attrs_def o_named_def)

lemma outline_retyped:
  "outline (retyped t n) =
     Out t (nd_field (attrs n)) (nd_value (attrs n)) (o_childs (o_retype t (outline n)))"
proof -
  have "map outline (from_index 0 (retype_kid t) (kids n)) =
      (if t = TObject then map (\<lambda>(i, k). o_named (JNum (int i)) k) (zip [0 ..< length (kids n)] (map outline (kids n)))
       else map outline (kids n))"
    by (rule nth_equalityI) (simp_all add: from_index_nth outline_retype_kid)
  then show ?thesis by (cases t) (simp_all add: retyped_def with_attrs_def o_retype_def type_of_def)
qed

lemma outline_with_value:
  "outline (with_attrs (\<lambda>b. b\<lparr>nd_value := v (nd_value b)\<rparr>) m) =
     Out (o_type (outline m)) (o_field (outline m)) (v (o_value (outline m))) (o_childs (outline m))"
  by (cases m) (simp add: with_attrs_def)

lemma outline_changeType:
  assumes "tree_ok n" "drawn n"
  shows "outline (changeType H pt t n) = o_retype t (outline n)"
proof -
  define n1 where "n1 = (if \<not> nests t \<and> \<not> nests (type_of n) then with_attrs (\<lambda>b. b\<lparr>nd_type := t\<rparr>) n
        else showChilds H (getDom H pt (retyped t n)))"
  have "outline (with_attrs (\<lambda>b. b\<lparr>nd_type := t\<rparr>) n) = Out t (nd_field (attrs n)) (nd_value (attrs n)) (map_option (map outline) (childs n))"
    by (cases n) (simp add: with_attrs_def)
  then have "outline n1 = Out t (nd_field (attrs n)) (nd_value (attrs n)) (o_childs (o_retype t (outline n)))"
    by (auto simp: n1_def outline_retyped o_retype_def outline_drawn [OF half_ok_retyped [OF tree_ok_half [OF assms(1)]]])
  moreover have "changeType H pt t n = updateDom H (with_attrs (\<lambda>b. b\<lparr>nd_value := cast_value t (nd_value b)\<rparr>) n1)"
    unfolding changeType_eq n1_def by (rule refl)
  ultimately show ?thesis
    by (simp only: outline_updateDom outline_with_value outlined.sel) (simp add: o_retype_def)
qed

lemma outline_at_path:
  assumes "node_at p n = Some m" "outline (f m) = g (outline m)"
  shows "outline (at_path p f n) = o_at p g (outline n)"
  using assms(1)
proof (induction p arbitrary: n)
  case (Cons i p)
  then have i: "i < length (kids n)" and at: "node_at p (kids n ! i) = Some m" by (simp_all split: if_splits)
  show ?case using i Cons.IH [OF at] by (simp add: outline_map_kid o_map_kid_def o_with_kids_def kids_def split: option.splits)
qed (use assms(2) in simp)

lemma o_node_at_outline: "o_node_at p (outline n) = map_option outline (node_at p n)"
  by (induction p arbitrary: n) simp_all

lemma outline_map_attrs:
  assumes "\<And>a cs. g (Node a cs) = Node (f a) (map_option (map g) cs)"
    and "\<And>a. nd_type (f a) = nd_type a \<and> nd_field (f a) = nd_field a \<and> nd_value (f a) = nd_value a"
  shows "outline (g n) = outline n"
proof (induction n rule: node_induct)
  case (Node a cs)
  then show ?case by (cases cs) (simp_all add: assms)
qed

lemma outline_unfocus: "outline (unfocus n) = outline n"
  by (rule outline_map_attrs [where f = "\<lambda>a. a\<lparr>nd_focused := False\<rparr>"]) simp_all

lemma outline_value_typed:
  assumes "drawn n" "\<not> nests (type_of n)"
  shows "outline (with_attrs (value_typed html) n) = o_value_typed html (outline n)"
  using assms
  by (cases n)
    (auto simp: with_attrs_def value_typed_def getDomValue_def drawn_def type_of_def o_value_typed_def read_cell_def
      split: option.splits sum.splits)

lemma outline_field_typed:
  assumes "drawn n" "nd_fieldEditable (attrs n)"
  shows "outline (with_attrs (field_typed html) n) = o_field_typed html (outline n)"
  using assms
  by (cases n)
    (auto simp: with_attrs_def field_typed_def getDomField_def drawn_def o_field_typed_def read_cell_def
      split: option.splits sum.splits)

lemma o_with_kids_twice: "o_with_kids f (o_with_kids g x) = o_with_kids (f \<circ> g) x"
  by (simp add: o_with_kids_def option.map_comp)

lemma outline_foldl_append:
  assumes "fresh n" "\<forall>v\<in>set vs. fresh (g v)" "nests (type_of n)"
  shows "outline (foldl (\<lambda>n v. appendChild H (g v) n) n vs) = o_with_kids (\<lambda>ks. ks @ map (\<lambda>v. outline (g v)) vs) (outline n)"
  using assms
proof (induction vs arbitrary: n)
  case Nil
  then show ?case by (cases n; cases "childs n") (simp_all add: o_with_kids_def)
next
  case (Cons v vs)
  have f: "fresh (appendChild H (g v) n)" "fresh (g v)" using Cons.prems by (simp_all add: fresh_appendChild)
  have "outline (appendChild H (g v) n) = o_append (outline (g v)) (outline n)"
    using outline_appendChild [of n "g v" H] Cons.prems f(2)
    by (simp add: fresh_def may_append_def entering_def)
  moreover have "type_of (appendChild H (g v) n) = type_of n"
    using Cons.prems(1) by (simp add: type_of_def attrs_appendChild fresh_def)
  ultimately show ?case
    using Cons f by (simp add: o_append_def o_with_kids_twice o_def)
qed

lemma blank_simps:
  "type_of (Node (blank_node f t v) cs) = t" "outline (Node (blank_node f t v) cs) = Out t f v (map_option (map outline) cs)"
  "nd_type (blank_node f t v) = t" "nd_field (blank_node f t v) = f" "nd_value (blank_node f t v) = v"
  by (simp_all add: blank_node_def type_of_def)

lemma outline_new_node: "outline (new_node H f v) = o_new f v"
proof (induction H f v rule: new_node.induct)
  case (1 H f vs)
  then show ?case
    using outline_foldl_append [of "Node (blank_node f TArray (JStr [])) (Some [])" vs "new_node H JUndef" H]
    by (simp add: fresh_blank fresh_new_node blank_simps o_with_kids_def)
next
  case (2 H f kvs)
  then show ?case
    using outline_foldl_append [of "Node (blank_node f TObject (JStr [])) (Some [])" kvs "\<lambda>kv. new_node H (JStr (fst kv)) (snd kv)" H]
    by (auto simp: fresh_blank fresh_new_node blank_simps o_with_kids_def case_prod_unfold)
qed (simp_all add: blank_simps)

section \<open>Runs\<close>

fun has_focus :: "node \<Rightarrow> bool" where
  "has_focus (Node a cs) = (nd_focused a \<or> (case cs of None \<Rightarrow> False | Some ks \<Rightarrow> list_ex has_focus ks))"

text \<open>
  Events whose effect the data determines: a drag starts with no cell in the focus, names are typed
  below objects only, what is dragged comes out of an array or an object and gets a name.
\<close>

fun refined :: "ed_event \<Rightarrow> node \<Rightarrow> bool" where
  "refined (StartDrag p) n = (\<not> has_focus n)"
| "refined (TypeField p html) n = nd_fieldEditable (attrs_at p n)"
| "refined (DragBefore p q j) n = nests (nd_type (attrs_at (butlast p) n))"
| "refined (DragToEnd p q) n = (nests (nd_type (attrs_at (butlast p) n)) \<and> drop_is_named (DragToEnd p q) n)"
| "refined _ n = True"

lemma refined_is_named: "refined e n \<Longrightarrow> drop_is_named e n"
  by (cases e) simp_all

lemma blur_no_focus: "\<not> has_focus n \<Longrightarrow> blur_focused n = n"
proof (induction n rule: node_induct)
  case (Node a cs)
  then show ?case by (cases cs) (auto simp: list_ex_iff intro: map_idI)
qed

lemma attrs_at_node: "node_at p n = Some m \<Longrightarrow> attrs_at p n = attrs m"
  by (simp add: attrs_at_def)

lemma outline_moveBefore:
  assumes n: "tree_ok n" "drawn n" and p: "p \<noteq> []" "shown p n" and q: "shown q n" "take (length p) q \<noteq> p"
    and e: "pos = None \<Longrightarrow> nd_expanded (attrs_at q n) \<and> drop_is_named (DragToEnd p q) n"
    and src: "nests (nd_type (attrs_at (butlast p) n))"
  shows "outline (moveBefore H p q pos n) = o_move p q pos (outline n)"
proof -
  obtain k where k: "node_at p n = Some k" "tree_ok k" by (rule shown_node_at [OF n p(2)])
  obtain m where m: "node_at q n = Some m" "tree_ok m" "drawn m" "attrs_at q n = attrs m" by (rule shown_node_at [OF n q(1)])
  obtain m0 where m0: "node_at (butlast p) n = Some m0" "tree_ok m0" "drawn m0" "attrs_at (butlast p) n = attrs m0"
    by (rule shown_node_at [OF n shown_butlast [OF p(2)]])
  have kid: "last p < length (kids m0)" "k = kids m0 ! last p"
    using node_at_butlast [OF p(1) k(1)] m0(1) by auto
  have num: "numbered m0" using m0(2) tree_ok_half by (auto simp: half_ok_def)
  have idx: "(index_of k \<noteq> None) = (type_of m0 = TArray)"
    using src m0(3,4) kid numbered_nth [OF num] numbered_object [OF num] by (auto simp: type_of_def)
  define n1 where "n1 = at_path (butlast p) (removeChild H (last p)) n"
  have n1: "tree_ok n1" "place n1 = place n" using removed_ok [OF n p] by (simp_all add: n1_def)
  have o1: "outline n1 = o_at (butlast p) (o_remove (last p)) (outline n)"
    using outline_at_path [OF m0(1), of "removeChild H (last p)" "o_remove (last p)"] outline_removeChild [OF m0(2)]
    by (simp add: n1_def)
  obtain m' where m': "shown (shift p q) n1" "node_at (shift p q) n1 = Some m'" "same_row (attrs m') (attrs m)"
      "q \<noteq> butlast p \<longrightarrow> length (kids m') = length (kids m)"
    using shown_shift [OF p q(1) m(1) q(2), of H] unfolding n1_def by blast
  have ty: "type_of m' = type_of m" using m'(3) by (simp add: same_row_def type_of_def)
  have d1: "drawn n1" using n(2) drawn_place [OF n1(2)] by simp
  obtain m'' where "node_at (shift p q) n1 = Some m''" "tree_ok m''" "drawn m''" by (rule shown_node_at [OF n1(1) d1 m'(1)])
  then have m'_ok: "tree_ok m'" "drawn m'" using m'(2) by auto
  have append: "may_append k m'" if "pos = None"
    using e [OF that] k(1) m m'(3,4) m'_ok(2) m0 idx ty
    by (cases "q = butlast p") (auto simp: may_append_def same_row_def)
  define k' where "k' = (if type_of m0 = TArray \<and> type_of m = TObject then o_named (JStr ''field'') (outline k) else outline k)"
  have k': "entering k m' = k'" using idx ty by (auto simp: entering_def k'_def)
  have "outline (at_path (shift p q)
      (case pos of None \<Rightarrow> appendChild H k | Some j \<Rightarrow> insertBefore H k (last (shift p (q @ [j])))) n1) =
    o_at (shift p q) (case pos of None \<Rightarrow> o_append k' | Some j \<Rightarrow> o_insert k' (last (shift p (q @ [j])))) (outline n1)"
  proof (cases pos)
    case None
    then show ?thesis
      using outline_at_path [OF m'(2), of "appendChild H k" "o_append k'"] outline_appendChild [OF m'_ok(1) k(2) append] k' by simp
  next
    case (Some j)
    then show ?thesis
      using outline_at_path [OF m'(2), of "insertBefore H k (last (shift p (q @ [j])))" "o_insert k' (last (shift p (q @ [j])))"]
        outline_insertBefore [OF m'_ok(1) k(2) m'_ok(2)] k' by simp
  qed
  then show ?thesis
    by (simp add: moveBefore_def o_move_def o_node_at_outline k(1) m(1) m0(1) m(4) o1 flip: n1_def k'_def type_of_def)
qed

lemma o_at_id: "o_at p (\<lambda>x. x) x = x"
proof (induction p arbitrary: x)
  case (Cons i p)
  then have "o_at p (\<lambda>x. x) = (\<lambda>x. x)" by (intro ext)
  then show ?case by (cases x) (simp add: o_map_kid_def o_with_kids_def option.map_ident cong: if_cong)
qed simp

lemma handle_refines:
  assumes n: "tree_ok n" "drawn n" and e: "enabled e n" "refined e n"
  shows "outline (handle H e n) = o_step e (outline n)"
proof -
  have at: "outline (at_path p f n) = o_at p g (outline n)"
    if sh: "shown p n" and f: "\<And>m. tree_ok m \<Longrightarrow> drawn m \<Longrightarrow> attrs_at p n = attrs m \<Longrightarrow> outline (f m) = g (outline m)" for p f g
  proof -
    obtain m where "node_at p n = Some m" "tree_ok m" "drawn m" "attrs_at p n = attrs m" by (rule shown_node_at [OF n sh])
    then show ?thesis using f outline_at_path by blast
  qed
  show ?thesis
  proof (cases e)
    case (ClickExpand p ctrl)
    have "outline (at_path p (onExpand H ctrl) n) = o_at p (\<lambda>x. x) (outline n)"
      by (rule at) (use e ClickExpand in \<open>simp_all add: onExpand_def outline_expand outline_collapse\<close>)
    then show ?thesis by (simp add: ClickExpand o_at_id)
  next
    case (ClickAppend p)
    let ?k = "new_node H (JStr ''field'') (JStr ''value'')"
    have "outline (appendChild H ?k m) = o_append (o_new (JStr ''field'') (JStr ''value'')) (outline m)" if "tree_ok m" for m
      using outline_appendChild [OF that, of ?k H] fresh_new_node [of H "JStr ''field''" "JStr ''value''"]
      by (simp add: fresh_def may_append_def entering_def outline_new_node del: new_node.simps o_new.simps)
    then show ?thesis
      using e unfolding ClickAppend handle.simps o_step.simps by (intro at) simp_all
  next
    case (FocusNode p)
    have u: "tree_ok (unfocus n)" "drawn (unfocus n)"
      using tree_ok_unfocus [OF n(1)] n(2) drawn_place [of "unfocus n" n] by simp_all
    have "shown p (unfocus n)" using e(1) FocusNode by (simp add: shown_unfocus)
    then obtain m where "node_at p (unfocus n) = Some m" by (rule shown_node_at [OF u])
    then have "outline (at_path p (with_attrs (\<lambda>a. a\<lparr>nd_focused := True\<rparr>)) (unfocus n)) = o_at p (\<lambda>x. x) (outline (unfocus n))"
      by (rule outline_at_path) (simp add: outline_with_attrs)
    then show ?thesis by (simp add: FocusNode o_at_id outline_unfocus)
  next
    case (DragBefore p q j)
    then show ?thesis using e outline_moveBefore [OF n, of p q "Some j" H] shown_snoc by auto
  next
    case (DragToEnd p q)
    then show ?thesis using e outline_moveBefore [OF n, of p q None H] by auto
  qed (use n e in \<open>auto simp: outline_expand outline_collapse blur_no_focus outline_duplicate outline_removeChild outline_changeType
      outline_value_typed outline_field_typed type_of_def intro!: at shown_butlast\<close>)
qed

section \<open>From opening to saving\<close>

definition opened :: "(string \<Rightarrow> string) \<Rightarrow> jsval \<Rightarrow> node" where
  "opened H json = expand H False (getDom H None (new_node H JUndef json))"

lemma set_json_opened: "set_json H json ed = Some (opened H json)"
  by (simp add: set_json_def setRoot_def opened_def)

lemma opened_simps:
  "tree_ok (opened H v)" "drawn (opened H v)" "outline (opened H v) = o_new JUndef v"
proof -
  let ?n = "new_node H JUndef v"
  have f: "fresh ?n" by (rule fresh_new_node)
  then have h: "half_ok ?n" by (simp add: fresh_def tree_ok_half)
  have t: "tree_ok (getDom H None ?n)"
    using half_ok_getDom [OF h, of H None] f by (simp add: tree_ok_iff rows_drawn_def fresh_def)
  have x: "tree_ok (opened H v) \<and> place (opened H v) = place (getDom H None ?n)"
    unfolding opened_def by (rule tree_ok_expand [OF t])
  then show "tree_ok (opened H v)" by simp
  show "drawn (opened H v)" using x half_ok_getDom(2) [OF h, of H None] drawn_place by blast
  show "outline (opened H v) = o_new JUndef v"
    unfolding opened_def using t h by (simp add: outline_expand outline_getDom half_ok_def outline_new_node del: new_node.simps)
qed

fun along :: "(ed_event \<Rightarrow> node \<Rightarrow> bool) \<Rightarrow> (string \<Rightarrow> string) \<Rightarrow> ed_event list \<Rightarrow> node \<Rightarrow> bool" where
  "along P H [] n = True"
| "along P H (e # es) n = ((enabled e n \<longrightarrow> P e n) \<and> along P H es (ed_step H n e))"

fun carried_out :: "(string \<Rightarrow> string) \<Rightarrow> ed_event list \<Rightarrow> node \<Rightarrow> ed_event list" where
  "carried_out H [] n = []"
| "carried_out H (e # es) n = (if enabled e n then [e] else []) @ carried_out H es (ed_step H n e)"

lemma ed_run_simps [simp]:
  "ed_run H [] n = n" "ed_run H (e # es) n = ed_run H es (ed_step H n e)"
  by (simp_all add: ed_run_def)

lemma tree_ok_step:
  assumes "tree_ok n" "drawn n" "enabled e n \<longrightarrow> drop_is_named e n"
  shows "tree_ok (ed_step H n e) \<and> drawn (ed_step H n e)"
proof (cases "enabled e n")
  case True
  then have "tree_ok (handle H e n) \<and> place (handle H e n) = place n"
    using assms tree_ok_handle by blast
  then show ?thesis using True assms(2) drawn_place [of "handle H e n" n] by (simp add: ed_step_def)
qed (use assms in \<open>simp add: ed_step_def\<close>)

lemma tree_ok_run:
  assumes "tree_ok n" "drawn n" "along drop_is_named H es n"
  shows "tree_ok (ed_run H es n) \<and> drawn (ed_run H es n)"
  using assms
proof (induction es arbitrary: n)
  case (Cons e es)
  have "tree_ok (ed_step H n e) \<and> drawn (ed_step H n e)"
    using Cons.prems by (intro tree_ok_step) simp_all
  then show ?case using Cons by simp
qed simp

lemma run_refines:
  assumes "tree_ok n" "drawn n" "along refined H es n"
  shows "outline (ed_run H es n) = foldl (\<lambda>x e. o_step e x) (outline n) (carried_out H es n)"
  using assms
proof (induction es arbitrary: n)
  case (Cons e es)
  have "tree_ok (ed_step H n e) \<and> drawn (ed_step H n e)"
    using Cons.prems refined_is_named by (intro tree_ok_step) simp_all
  moreover have "outline (ed_step H n e) = (if enabled e n then o_step e (outline n) else outline n)"
    using Cons.prems handle_refines [of n e H] by (simp add: ed_step_def)
  ultimately show ?case using Cons by simp
qed simp

text \<open>Trees whose values and names can all be read.\<close>

fun atom :: "jsval \<Rightarrow> bool" where
  "atom JUndef = False"
| "atom (JArr vs) = False"
| "atom (JObj kvs) = False"
| "atom JNaN = False"
| "atom (JDate t s) = False"
| "atom v = True"

definition o_name :: "outlined \<Rightarrow> string" where
  "o_name k = js_to_string (o_field k)"

fun settled :: "outlined \<Rightarrow> bool" where
  "settled (Out t f v cs) =
     (if nests t
      then (case cs of
              None \<Rightarrow> False
            | Some ks \<Rightarrow> list_all settled ks \<and> (t = TObject \<longrightarrow> list_all (\<lambda>k. o_field k \<noteq> JUndef) ks))
      else atom v)"

lemma getValue_settled:
  "settled (outline n) \<Longrightarrow> getValue n = (Inr (o_json (outline n)), n)"
  "list_all settled (map outline ks) \<Longrightarrow> getElems ks = (Inr (map o_json (map outline ks)), ks)"
  "list_all settled (map outline ks) \<Longrightarrow> list_all (\<lambda>k. o_field k \<noteq> JUndef) (map outline ks) \<Longrightarrow>
     getFields obj ks = (Inr (fold (\<lambda>k. obj_set (o_name k) (o_json k)) (map outline ks) obj), ks)"
proof (induction n and ks and obj ks rule: getValue_getElems_getFields.induct)
  case (1 a cs)
  show ?case
  proof (cases "nests (nd_type a)")
    case True
    then obtain ks where ks: "cs = Some ks" using 1(3) by (auto split: option.splits)
    then show ?thesis using 1 True by (auto simp: o_name_def list.pred_map o_def split: if_splits)
  next
    case False
    then have "nd_value a \<noteq> JUndef" using 1(3) by auto
    then show ?thesis using False by (auto split: option.splits)
  qed
qed (auto simp: getField_def o_name_def split: prod.splits)

lemma get_json_settled:
  assumes "settled (outline n)" "\<not> has_focus n"
  shows "get_json (Some n) = (Inr (o_json (outline n)), Some n)"
  using assms by (simp add: get_json_def blur_no_focus getValue_settled)

end
