(* ===== verification/Editor_Saved.thy ===== *)
theory Editor_Saved
  imports Editor_Outline
begin

text \<open>
  Loading and saving raw data: a tree without a focused cell keeps having none, so that reading it
  changes nothing, and what was loaded is read from the tree however it was opened and closed.
\<close>

section \<open>The focus\<close>

abbreviation no_focus :: "node \<Rightarrow> bool" where
  "no_focus n \<equiv> \<not> has_focus n"

lemma no_focus_iff: "no_focus n \<longleftrightarrow> \<not> nd_focused (attrs n) \<and> (\<forall>k\<in>set (kids n). no_focus k)"
  by (cases n; cases "childs n") (auto simp: list_ex_iff)

lemma has_focus_with_attrs:
  "nd_focused (f (attrs n)) = nd_focused (attrs n) \<Longrightarrow> has_focus (with_attrs f n) = has_focus n"
  by (cases n) (simp add: with_attrs_def)

lemma has_focus_updateDom: "has_focus (updateDom H n) = has_focus n"
proof (induction n rule: node_induct)
  case (Node a cs)
  then show ?case by (cases cs) (auto simp: list_ex_iff updateField_def)
qed

lemma has_focus_index:
  "has_focus (set_index H i k) = has_focus k" "has_focus (drop_index H k) = has_focus k" "has_focus (retype_kid t i k) = has_focus k"
  by (simp_all add: set_index_def drop_index_def retype_kid_def has_focus_with_attrs has_focus_updateDom)

lemma no_focus_from_index:
  assumes "\<forall>k\<in>set ks. no_focus k" "\<And>i k. has_focus (f i k) = has_focus k"
  shows "\<forall>k\<in>set (from_index s f ks). no_focus k"
  using assms by (auto simp: from_index_def set_zip)

lemma focused_updateStatus: "nd_focused (attrs (updateStatus H s n)) = nd_focused (attrs n)"
  by (auto simp: updateStatus_def show_count_def split: option.splits)

lemma no_focus_kids: "no_focus n \<Longrightarrow> \<forall>k\<in>set (kids n). no_focus k" "no_focus n \<Longrightarrow> \<not> nd_focused (attrs n)"
  using no_focus_iff by blast+

lemma no_focusI: "\<not> nd_focused (attrs n) \<Longrightarrow> \<forall>k\<in>set (kids n). no_focus k \<Longrightarrow> no_focus n"
  using no_focus_iff by blast

lemma no_focus_updateStatus:
  assumes "no_focus n"
  shows "no_focus (updateStatus H s n)"
proof (rule no_focusI)
  note k = no_focus_kids [OF assms]
  show "\<not> nd_focused (attrs (updateStatus H s n))" using k(2) by (simp add: focused_updateStatus)
  show "\<forall>k\<in>set (kids (updateStatus H s n)). no_focus k"
    using no_focus_from_index [where f = "set_index H" and s = s, OF k(1) has_focus_index(1)]
      no_focus_from_index [where f = "\<lambda>i. drop_index H" and s = s, OF k(1) has_focus_index(2)] k(1)
    by (simp add: kids_updateStatus)
qed

lemma no_focus_getDom: "no_focus n \<Longrightarrow> no_focus (getDom H pt n)"
  by (simp add: getDom_def has_focus_updateDom no_focus_updateStatus has_focus_with_attrs)

lemma no_focus_showChilds: "no_focus n \<Longrightarrow> no_focus (showChilds H n)"
proof (induction H n rule: showChilds.induct)
  case (2 H a ks)
  then show ?case by (auto simp: list_ex_iff no_focus_getDom)
qed simp

lemma no_focus_expand: "no_focus n \<Longrightarrow> no_focus (expand H r n)"
proof (induction H r n rule: expand.induct)
  case (2 H r a ks)
  define m where "m = showChilds H (Node (a\<lparr>nd_expanded := True\<rparr>) (Some ks))"
  have e: "expand H r (Node a (Some ks)) = (if r then Node (attrs m) (map_option (map (expand H r)) (childs m)) else m)"
    by (simp add: m_def Let_def del: showChilds.simps)
  have m: "no_focus m" unfolding m_def using 2(2) by (intro no_focus_showChilds) simp
  show ?case
  proof (cases r)
    case True
    then have "no_focus (expand H r k)" if "childs m = Some ls" "k \<in> set ls" for ls k
      using 2(1) [OF m_def True that] m that by (cases m) (auto simp: list_ex_iff)
    then show ?thesis using m True unfolding e by (cases m; cases "childs m") (auto simp: list_ex_iff)
  next
    case False
    then show ?thesis using m unfolding e by simp
  qed
qed simp

lemma no_focus_collapse: "no_focus n \<Longrightarrow> no_focus (collapse r n)"
  by (induction r n rule: collapse.induct) (auto simp: list_ex_iff)

lemma no_focus_map_kid:
  "no_focus n \<Longrightarrow> (\<And>k. no_focus k \<Longrightarrow> no_focus (f k)) \<Longrightarrow> no_focus (map_kid i f n)"
  by (cases n; cases "childs n") (auto simp: map_kid_def list_ex_iff dest!: set_update_subset_insert [THEN subsetD])

lemma has_focus_adopt: "has_focus (adopt a i k) = has_focus k"
  by (simp add: adopt_def has_focus_with_attrs)

lemma no_focus_appendChild:
  assumes "no_focus n" "no_focus k"
  shows "no_focus (appendChild H k n)"
proof (cases "childs n")
  case (Some ks)
  have node: "no_focus (Node (attrs n) (Some (ks @ [x])))" if "no_focus x" for x
    using assms(1) that Some by (cases n) (auto simp: list_ex_iff)
  have "no_focus (getDom H pt (adopt (attrs n) i k))" for pt i
    using assms(2) by (simp add: no_focus_getDom has_focus_adopt)
  note u = no_focus_updateStatus [OF node [OF this]]
  have "no_focus (map_kid l (\<lambda>x. updateDom H (showChilds H x)) (updateStatus H s (Node (attrs n) (Some (ks @ [getDom H pt (adopt (attrs n) i k)])))))" for l s pt i
    by (rule no_focus_map_kid [OF u]) (simp add: has_focus_updateDom no_focus_showChilds)
  moreover have "no_focus (Node (attrs n) (Some (ks @ [updateDom H (adopt (attrs n) i k)])))" for i
    by (rule node) (simp add: assms(2) has_focus_adopt has_focus_updateDom)
  ultimately show ?thesis
    using assms(1) by (simp add: appendChild_def Some Let_def del: has_focus.simps)
qed (use assms in \<open>simp add: appendChild_def\<close>)

lemma no_focus_insertBefore:
  assumes "no_focus n" "no_focus k"
  shows "no_focus (insertBefore H k j n)"
proof (cases "childs n")
  case (Some ks)
  have ks: "\<forall>x\<in>set ks. no_focus x" using no_focus_kids(1) [OF assms(1)] by (simp add: kids_def Some)
  have sub: "no_focus x" if "x \<in> set (take i ks) \<or> x \<in> set (drop i ks)" for x i
    using ks that by (auto dest: in_set_takeD in_set_dropD)
  have u: "no_focus (updateStatus H j (Node (attrs n) (Some ls)))" if "\<forall>x\<in>set ls. no_focus x" for ls
    by (intro no_focus_updateStatus no_focusI) (use no_focus_kids(2) [OF assms(1)] that in simp_all)
  have "no_focus (updateDom H (showChilds H (getDom H pt (adopt (attrs n) None k))))" "no_focus (updateDom H (adopt (attrs n) None k))" for pt
    using assms(2) by (simp_all add: has_focus_updateDom has_focus_adopt no_focus_showChilds no_focus_getDom)
  moreover have "no_focus (getDom H pt (ks ! j))" if "j < length ks" for pt
    using that ks by (simp add: no_focus_getDom)
  ultimately show ?thesis
    using assms(1) unfolding insertBefore_def Some Let_def
    by (auto simp del: has_focus.simps intro!: u dest: sub [OF disjI1] sub [OF disjI2])
qed (use assms in \<open>simp add: insertBefore_def\<close>)

lemma no_focus_removeChild:
  assumes "no_focus n"
  shows "no_focus (removeChild H i n)"
proof (cases "childs n")
  case (Some ks)
  have "no_focus (Node (attrs n) (Some (take i ks @ drop (Suc i) ks)))"
    using assms Some by (cases n) (auto simp: list_ex_iff dest: in_set_takeD in_set_dropD)
  then show ?thesis using assms by (simp add: removeChild_def Some no_focus_updateStatus del: has_focus.simps)
qed (use assms in \<open>simp add: removeChild_def\<close>)

lemma no_focus_clone: "no_focus (clone n)"
proof (induction n rule: node_induct)
  case (Node a cs)
  then show ?case by (cases cs) (auto simp: list_ex_iff)
qed

lemma no_focus_duplicate: "no_focus n \<Longrightarrow> no_focus (duplicate H i n)"
  by (simp add: duplicate_def no_focus_insertBefore no_focus_clone)

lemma no_focus_foldl: "no_focus n \<Longrightarrow> \<forall>v\<in>set vs. no_focus (g v) \<Longrightarrow> no_focus (foldl (\<lambda>n v. appendChild H (g v) n) n vs)"
  by (induction vs arbitrary: n) (simp_all add: no_focus_appendChild)

lemma no_focus_new_node: "no_focus (new_node H f v)"
proof (induction H f v rule: new_node.induct)
  case (1 H f vs)
  have "no_focus (foldl (\<lambda>n v. appendChild H (new_node H JUndef v) n) (Node (blank_node f TArray (JStr [])) (Some [])) vs)"
    by (rule no_focus_foldl) (use 1 in \<open>auto simp: blank_node_def\<close>)
  then show ?case by simp
next
  case (2 H f kvs)
  have "no_focus (foldl (\<lambda>n kv. appendChild H (new_node H (JStr (fst kv)) (snd kv)) n) (Node (blank_node f TObject (JStr [])) (Some [])) kvs)"
    by (rule no_focus_foldl) (use 2 in \<open>auto simp: blank_node_def\<close>)
  then show ?case by (simp add: case_prod_unfold)
qed (simp_all add: blank_node_def)

lemma no_focus_retyped:
  assumes "no_focus n"
  shows "no_focus (retyped t n)"
proof (rule no_focusI)
  note k = no_focus_kids [OF assms]
  show "\<not> nd_focused (attrs (retyped t n))" using k(2) by (simp add: retyped_def)
  show "\<forall>k\<in>set (kids (retyped t n)). no_focus k"
    using no_focus_from_index [where f = "retype_kid t" and s = 0, OF k(1) has_focus_index(3)] k(1)
    by (simp add: retyped_def)
qed

lemma no_focus_changeType: "no_focus n \<Longrightarrow> no_focus (changeType H pt t n)"
  by (simp add: changeType_eq has_focus_updateDom has_focus_with_attrs no_focus_showChilds no_focus_getDom no_focus_retyped)

lemma focused_reads: "nd_focused (final_state (getDomValue a)) = nd_focused a" "nd_focused (final_state (getDomField a)) = nd_focused a"
  by (auto simp: getDomValue_def getDomField_def Let_def split: option.splits sum.splits)

lemma no_focus_typed: "has_focus (with_attrs (value_typed html) n) = has_focus n" "has_focus (with_attrs (field_typed html) n) = has_focus n"
  by (simp_all add: has_focus_with_attrs value_typed_def field_typed_def focused_reads)

lemma no_focus_at_path: "no_focus n \<Longrightarrow> (\<And>m. no_focus m \<Longrightarrow> no_focus (f m)) \<Longrightarrow> no_focus (at_path p f n)"
  by (induction p arbitrary: n) (simp_all add: no_focus_map_kid)

lemma no_focus_node_at: "no_focus n \<Longrightarrow> node_at p n = Some m \<Longrightarrow> no_focus m"
proof (induction p arbitrary: n)
  case (Cons i p)
  then have "i < length (kids n)" "node_at p (kids n ! i) = Some m" by (simp_all split: if_splits)
  then show ?case using Cons.IH [of "kids n ! i"] no_focus_kids(1) [OF Cons.prems(1)] by simp
qed simp

lemma no_focus_onExpand: "no_focus n \<Longrightarrow> no_focus (onExpand H ctrl n)"
  by (simp add: onExpand_def no_focus_expand no_focus_collapse)

lemma no_focus_moveBefore:
  assumes "no_focus n"
  shows "no_focus (moveBefore H p q pos n)"
proof (cases "node_at p n")
  case (Some k)
  have k: "no_focus k" by (rule no_focus_node_at [OF assms Some])
  have "no_focus (at_path (butlast p) (removeChild H (last p)) n)"
    by (rule no_focus_at_path [OF assms]) (rule no_focus_removeChild)
  then have "no_focus (at_path (shift p q) f (at_path (butlast p) (removeChild H (last p)) n))"
    if "f = appendChild H k \<or> (\<exists>j. f = insertBefore H k j)" for f
    by (rule no_focus_at_path) (use that k in \<open>auto simp: no_focus_appendChild no_focus_insertBefore\<close>)
  then show ?thesis using assms Some by (auto simp: moveBefore_def split: option.splits)
qed (use assms in \<open>simp add: moveBefore_def\<close>)

text \<open>Only an event of focus gives a cell the focus.\<close>

fun takes_focus :: "ed_event \<Rightarrow> bool" where
  "takes_focus (FocusNode p) = True"
| "takes_focus _ = False"

lemma no_focus_step: "no_focus n \<Longrightarrow> \<not> takes_focus e \<Longrightarrow> no_focus (ed_step H n e)"
  by (cases e)
    (auto simp: ed_step_def no_focus_onExpand no_focus_expand no_focus_collapse no_focus_duplicate no_focus_removeChild no_focus_appendChild
      no_focus_new_node no_focus_changeType no_focus_typed no_focus_moveBefore blur_no_focus simp del: new_node.simps
      dest!: no_focus_at_path [THEN notE, rotated 2])

lemma no_focus_run: "no_focus n \<Longrightarrow> \<forall>e\<in>set es. \<not> takes_focus e \<Longrightarrow> no_focus (ed_run H es n)"
  by (induction es arbitrary: n) (simp_all add: no_focus_step)

lemma no_focus_opened: "no_focus (opened H v)"
  unfolding opened_def by (intro no_focus_expand no_focus_getDom no_focus_new_node)

section \<open>Loading and saving\<close>

lemma json_ok_atom: "json_ok v \<Longrightarrow> \<not> nests (getType v) \<Longrightarrow> atom v"
  by (cases v) simp_all

lemma o_new_field [simp]: "o_field (o_new f v) = f"
  by (cases "(f, v)" rule: o_new.cases) simp_all

lemma settled_new: "json_ok v \<Longrightarrow> settled (o_new f v)"
proof (induction f v rule: o_new.induct)
  case (1 f vs)
  then show ?case by (auto simp: list_all_iff)
next
  case (2 f kvs)
  then show ?case by (fastforce simp: list_all_iff)
qed simp_all

lemma fold_names:
  assumes "distinct (map o_name ks)"
  shows "fold (\<lambda>k. obj_set (o_name k) (g k)) ks [] = map (\<lambda>k. (o_name k, g k)) ks"
proof -
  have "fold (\<lambda>k. obj_set (o_name k) (g k)) ks acc = fold (\<lambda>(k, v). obj_set k v) (map (\<lambda>k. (o_name k, g k)) ks) acc" for acc
    by (induction ks arbitrary: acc) simp_all
  then show ?thesis using fold_obj_set [of "map (\<lambda>k. (o_name k, g k)) ks" "[]"] assms by (simp add: o_def)
qed

lemma o_json_object:
  "o_json (Out TObject f v (Some ks)) = JObj (fold (\<lambda>k. obj_set (o_name k) (o_json k)) ks [])"
  by (simp add: o_name_def)

lemma o_json_new: "json_ok v \<Longrightarrow> o_json (o_new f v) = v"
proof (induction f v rule: o_new.induct)
  case (1 f vs)
  then show ?case by (simp add: list_all_iff map_idI)
next
  case (2 f kvs)
  let ?ks = "map (\<lambda>(k, v). o_new (JStr k) v) kvs"
  have names: "map o_name ?ks = map fst kvs" by (auto simp: o_name_def)
  have vals: "map (\<lambda>k. (o_name k, o_json k)) ?ks = kvs"
    by (rule map_idI [of kvs, THEN trans [rotated]]) (use 2 in \<open>auto simp: o_name_def list_all_iff\<close>)
  have "fold (\<lambda>k. obj_set (o_name k) (o_json k)) ?ks [] = kvs"
    using fold_names [of ?ks o_json] 2(2) unfolding names vals by simp
  then show ?case unfolding o_new.simps o_json_object by simp
qed (simp_all split: node_type.splits)

text \<open>Looking at the data changes nothing: rows are opened and closed, drags begin.\<close>

fun looks :: "ed_event \<Rightarrow> bool" where
  "looks ExpandAll = True"
| "looks CollapseAll = True"
| "looks (ClickExpand p ctrl) = True"
| "looks (StartDrag p) = True"
| "looks _ = False"

lemma looking:
  assumes "tree_ok n" "drawn n" "no_focus n" "\<forall>e\<in>set es. looks e"
  shows "outline (ed_run H es n) = outline n \<and> no_focus (ed_run H es n)"
  using assms
proof (induction es arbitrary: n)
  case (Cons e es)
  have r: "refined e n" "\<not> takes_focus e" "o_step e x = x" for x using Cons.prems by (cases e; simp)+
  have "tree_ok (ed_step H n e) \<and> drawn (ed_step H n e)"
    using Cons.prems r(1) refined_is_named by (intro tree_ok_step) simp_all
  moreover have "outline (ed_step H n e) = outline n"
    using Cons.prems r handle_refines [of n e H] by (simp add: ed_step_def)
  moreover have "no_focus (ed_step H n e)" using Cons.prems(3) r(2) by (rule no_focus_step)
  ultimately show ?case using Cons by simp
qed simp

theorem editor_round_trip:
  assumes "json_ok v" "\<forall>e\<in>set es. looks e"
  shows "fst (get_json (map_option (ed_run H es) (set_json H v ed))) = Inr v"
proof -
  have "outline (ed_run H es (opened H v)) = o_new JUndef v \<and> no_focus (ed_run H es (opened H v))"
    using looking [OF opened_simps(1,2) no_focus_opened assms(2)] by (simp add: opened_simps)
  then show ?thesis
    using get_json_settled settled_new [OF assms(1)] by (simp add: set_json_opened o_json_new assms(1))
qed

end
