(* ===== verification/Editor_Session.thy ===== *)
theory Editor_Session
  imports Editor_Saved
begin

text \<open>
  A session with the editor of raw data, seen on the JSON value: every edit changes the value at one
  place (\<open>j_remove\<close>, \<open>j_append\<close>, \<open>j_retype\<close>, \<open>j_rename\<close>, ...), and what is saved at the end is the loaded
  value with these changes, as long as no two entries of an object get the same name.
\<close>

section \<open>One edit of the saved value\<close>

text \<open>The same edits on a JSON value.\<close>

fun j_at :: "path \<Rightarrow> (jsval \<Rightarrow> jsval) \<Rightarrow> jsval \<Rightarrow> jsval" where
  "j_at [] f v = f v"
| "j_at (i # p) f (JArr vs) = (if i < length vs then JArr (vs[i := j_at p f (vs ! i)]) else JArr vs)"
| "j_at (i # p) f (JObj kvs) = (if i < length kvs then JObj (kvs[i := apsnd (j_at p f) (kvs ! i)]) else JObj kvs)"
| "j_at (i # p) f v = v"

definition drop_nth :: "nat \<Rightarrow> 'a list \<Rightarrow> 'a list" where
  "drop_nth i xs = take i xs @ drop (Suc i) xs"

fun j_remove :: "nat \<Rightarrow> jsval \<Rightarrow> jsval" where
  "j_remove i (JArr vs) = JArr (drop_nth i vs)"
| "j_remove i (JObj kvs) = JObj (drop_nth i kvs)"
| "j_remove i v = v"

fun j_append :: "jsval \<Rightarrow> jsval" where
  "j_append (JArr vs) = JArr (vs @ [JStr ''value''])"
| "j_append (JObj kvs) = JObj (kvs @ [(''field'', JStr ''value'')])"
| "j_append v = v"

text \<open>A copy in an array is one more element; a copy in an object has the name of the original.\<close>

fun j_duplicate :: "nat \<Rightarrow> jsval \<Rightarrow> jsval" where
  "j_duplicate i (JArr vs) = (if i < length vs then JArr (take i vs @ vs ! i # drop i vs) else JArr vs)"
| "j_duplicate i v = v"

text \<open>Between collections the entries stay, a plain value is lost, a collection becomes the empty text.\<close>

fun j_retype :: "node_type \<Rightarrow> jsval \<Rightarrow> jsval" where
  "j_retype TObject (JArr vs) = JObj (zip (map string_of_nat [0 ..< length vs]) vs)"
| "j_retype TObject (JObj kvs) = JObj kvs"
| "j_retype TObject v = JObj []"
| "j_retype TArray (JArr vs) = JArr vs"
| "j_retype TArray (JObj kvs) = JArr (map snd kvs)"
| "j_retype TArray v = JArr []"
| "j_retype TString (JArr vs) = JStr []"
| "j_retype TString (JObj kvs) = JStr []"
| "j_retype TString v = JStr (js_to_string v)"
| "j_retype TAuto (JArr vs) = JStr []"
| "j_retype TAuto (JObj kvs) = JStr []"
| "j_retype TAuto v = stringCast (js_to_string v)"

definition j_rename :: "nat \<Rightarrow> string \<Rightarrow> jsval \<Rightarrow> jsval" where
  "j_rename i s v = (case v of JObj kvs \<Rightarrow> if i < length kvs then JObj (kvs[i := (s, snd (kvs ! i))]) else v | _ \<Rightarrow> v)"

text \<open>An edit is a change at one place; \<open>t\<close> is the type of the node there.\<close>

fun edit_place :: "ed_event \<Rightarrow> path" where
  "edit_place (ClickRemove p) = butlast p"
| "edit_place (ClickDuplicate p) = butlast p"
| "edit_place (ClickAppend p) = p"
| "edit_place (ChooseType p t) = p"
| "edit_place (TypeValue p html) = p"
| "edit_place (TypeField p html) = butlast p"
| "edit_place _ = []"

fun j_edit :: "node_type \<Rightarrow> ed_event \<Rightarrow> jsval \<Rightarrow> jsval" where
  "j_edit t (ClickRemove p) = j_remove (last p)"
| "j_edit t (ClickDuplicate p) = j_duplicate (last p)"
| "j_edit t (ClickAppend p) = j_append"
| "j_edit t (ChooseType p t') = j_retype t'"
| "j_edit t (TypeValue p html) = (\<lambda>v. read_cell t html)"
| "j_edit t (TypeField p html) = j_rename (last p) (js_to_string (read_cell TString html))"
| "j_edit t e = (\<lambda>v. v)"

text \<open>Trees in which no name stands twice in an object.\<close>

fun regular :: "outlined \<Rightarrow> bool" where
  "regular (Out t f v cs) =
     (if nests t
      then (case cs of
              None \<Rightarrow> False
            | Some ks \<Rightarrow> list_all regular ks \<and>
                (t = TObject \<longrightarrow> list_all (\<lambda>k. \<not> nullish (o_field k)) ks \<and> distinct (map o_name ks)))
      else atom v)"

lemma regular_settled: "regular x \<Longrightarrow> settled x"
proof (induction x)
  case (Out t f v cs)
  have "\<not> nullish w \<Longrightarrow> w \<noteq> JUndef" for w by auto
  with Out show ?case by (cases cs) (auto simp: list_all_iff split: if_splits)
qed

lemma o_field_at: "o_node_at p x = Some y \<Longrightarrow> o_field (g y) = o_field y \<Longrightarrow> o_field (o_at p g x) = o_field x"
  by (cases p) (simp_all add: o_map_kid_def o_with_kids_def)

lemma o_map_kid_Out:
  "o_map_kid i f (Out t fi v (Some ks)) = Out t fi v (Some (if i < length ks then ks[i := f (ks ! i)] else ks))"
  "o_map_kid i f (Out t fi v None) = Out t fi v None"
  by (simp_all add: o_map_kid_def o_with_kids_def)

lemma o_kids_Out [simp]: "o_kids (Out t f v (Some ks)) = ks" "o_kids (Out t f v None) = []"
  by (simp_all add: o_kids_def)

lemma regular_object:
  assumes "distinct (map o_name ks)"
  shows "o_json (Out TObject f v (Some ks)) = JObj (map (\<lambda>k. (o_name k, o_json k)) ks)"
  unfolding o_json_object by (simp add: fold_names [OF assms])

lemma j_at_atom: "atom v \<Longrightarrow> j_at (i # p) f v = v"
  by (cases v) simp_all

lemma o_json_leaf: "\<not> nests t \<Longrightarrow> o_json (Out t f v cs) = v"
  by (cases cs) simp_all

lemma o_json_at:
  assumes "regular x" "o_node_at p x = Some y"
    and f: "regular y \<Longrightarrow> o_json (g y) = f (o_json y)" "o_field (g y) = o_field y"
  shows "o_json (o_at p g x) = j_at p f (o_json x)"
  using assms(1,2)
proof (induction p arbitrary: x)
  case Nil
  then show ?case using f(1) by simp
next
  case (Cons i p)
  obtain t fi v cs where x: "x = Out t fi v cs" by (cases x)
  obtain ks where cs: "cs = Some ks" using Cons.prems(2) x by (cases cs) auto
  have i: "i < length ks" and at: "o_node_at p (ks ! i) = Some y"
    using Cons.prems(2) x cs by (simp_all split: if_splits)
  let ?k = "o_at p g (ks ! i)"
  have n: "o_name ?k = o_name (ks ! i)" using o_field_at [where g = g, OF at f(2)] by (simp add: o_name_def)
  show ?case
  proof (cases "nests t")
    case False
    then show ?thesis using Cons.prems(1) by (simp add: x cs o_map_kid_Out o_json_leaf j_at_atom)
  next
    case True
    then have reg: "regular (ks ! i)" using Cons.prems(1) i by (auto simp: x cs list_all_nth)
    note IH = Cons.IH [OF reg at]
    show ?thesis
    proof (cases "t = TArray")
      case True
      then show ?thesis using i IH by (simp add: x cs o_map_kid_Out map_update)
    next
      case False
      with True have t: "t = TObject" by simp
      have d: "distinct (map o_name ks)" using Cons.prems(1) t by (simp add: x cs)
      have "map o_name (ks[i := ?k]) = map o_name ks" using n i by (simp add: map_update) (metis list_update_id nth_map)
      then have "distinct (map o_name (ks[i := ?k]))" using d by simp
      then show ?thesis
        using i IH n by (simp add: x cs t o_map_kid_Out regular_object [OF d] regular_object map_update apsnd_def del: o_json.simps)
    qed
  qed
qed

lemma kept_at:
  assumes P: "\<And>t f v cs. P (Out t f v cs) =
      (if nests t then (case cs of None \<Rightarrow> False | Some ks \<Rightarrow> list_all P ks \<and> (t = TObject \<longrightarrow> Q (map o_field ks))) else atom v)"
    and "P x" "o_node_at p x = Some y" and f: "P y \<Longrightarrow> P (g y)" "o_field (g y) = o_field y"
  shows "P (o_at p g x)"
  using assms(2,3)
proof (induction p arbitrary: x)
  case Nil
  then show ?case using f(1) by simp
next
  case (Cons i p)
  obtain t fi v cs where x: "x = Out t fi v cs" by (cases x)
  obtain ks where cs: "cs = Some ks" using Cons.prems(2) x by (cases cs) auto
  have i: "i < length ks" and at: "o_node_at p (ks ! i) = Some y"
    using Cons.prems(2) x cs by (simp_all split: if_splits)
  have "map o_field (ks[i := o_at p g (ks ! i)]) = map o_field ks"
    using o_field_at [where g = g, OF at f(2)] i by (simp add: map_update) (metis list_update_id nth_map)
  moreover have "P (ks ! i) \<Longrightarrow> P (o_at p g (ks ! i))" by (rule Cons.IH [OF _ at])
  ultimately show ?case
    using Cons.prems(1) i P by (auto simp: x cs o_map_kid_Out list_all_nth nth_list_update)
qed

lemma settled_at:
  assumes "settled x" "o_node_at p x = Some y" "settled y \<Longrightarrow> settled (g y)" "o_field (g y) = o_field y"
  shows "settled (o_at p g x)"
proof (rule kept_at [where P = settled and Q = "list_all (\<lambda>f. f \<noteq> JUndef)" and p = p and g = g and x = x])
  show "settled (Out t f v cs) =
      (if nests t then (case cs of None \<Rightarrow> False | Some ks \<Rightarrow> list_all settled ks \<and> (t = TObject \<longrightarrow> (list_all (\<lambda>f. f \<noteq> JUndef)) (map o_field ks))) else atom v)" for t f v cs
    by (simp_all add: list.pred_map o_def split: option.split)
qed (use assms in auto)

lemma regular_at:
  assumes "regular x" "o_node_at p x = Some y" "regular y \<Longrightarrow> regular (g y)" "o_field (g y) = o_field y"
  shows "regular (o_at p g x)"
proof (rule kept_at [where P = regular and Q = "\<lambda>fs. list_all (\<lambda>f. \<not> nullish f) fs \<and> distinct (map js_to_string fs)" and p = p and g = g and x = x])
  show "regular (Out t f v cs) =
      (if nests t then (case cs of None \<Rightarrow> False | Some ks \<Rightarrow> list_all regular ks \<and> (t = TObject \<longrightarrow> (\<lambda>fs. list_all (\<lambda>f. \<not> nullish f) fs \<and> distinct (map js_to_string fs)) (map o_field ks))) else atom v)" for t f v cs
    by (simp_all add: list.pred_map o_def o_name_def [abs_def] split: option.split)
qed (use assms in auto)

lemma regular_cases [consumes 1]:
  assumes "regular y"
  obtains (array) f v ks where "y = Out TArray f v (Some ks)" "list_all regular ks"
  | (object) f v ks where "y = Out TObject f v (Some ks)" "list_all regular ks" "distinct (map o_name ks)"
      "list_all (\<lambda>k. \<not> nullish (o_field k)) ks"
  | (leaf) t f v cs where "y = Out t f v cs" "\<not> nests t" "atom v"
proof -
  obtain t f v cs where y: "y = Out t f v cs" by (cases y)
  show thesis
  proof (cases "nests t")
    case True
    then show thesis using assms array object by (cases cs; cases "t = TArray") (auto simp: y)
  next
    case False
    then show thesis using assms leaf [OF y] by (simp add: y)
  qed
qed

lemma drop_nth_map: "drop_nth i (map f xs) = map f (drop_nth i xs)"
  by (simp add: drop_nth_def take_map drop_map)

lemma distinct_drop_nth: "distinct xs \<Longrightarrow> distinct (drop_nth i xs)"
  by (simp add: drop_nth_def set_take_disj_set_drop_if_distinct)

lemma o_remove_Out: "o_remove i (Out t f v (Some ks)) = Out t f v (Some (drop_nth i ks))"
  by (simp add: o_remove_def o_with_kids_def drop_nth_def)

lemma remove_json:
  assumes "regular y"
  shows "o_json (o_remove i y) = j_remove i (o_json y)"
  using assms
proof (cases y rule: regular_cases)
  case (object f v ks)
  have "distinct (map o_name (drop_nth i ks))" using distinct_drop_nth [OF object(3), of i] by (simp add: drop_nth_map)
  then show ?thesis by (simp add: object(1) o_remove_Out regular_object [OF object(3)] regular_object drop_nth_map del: o_json.simps)
next
  case (leaf t f v cs)
  then show ?thesis by (cases v) (simp_all add: o_remove_def o_with_kids_def o_json_leaf del: o_json.simps)
qed (simp_all add: o_remove_Out drop_nth_map)

lemma set_drop_nth: "set (drop_nth i xs) \<subseteq> set xs"
  by (auto simp: drop_nth_def dest: in_set_takeD in_set_dropD)

lemma settled_kids: "settled (Out t f v (Some ks)) \<Longrightarrow> set ls \<subseteq> set ks \<Longrightarrow> settled (Out t f v (Some ls))"
  by (auto simp: list_all_iff split: if_splits)

lemma remove_regular:
  assumes "regular y"
  shows "regular (o_remove i y)"
  using assms
proof (cases y rule: regular_cases)
  case (object f v ks)
  then have "distinct (map o_name (drop_nth i ks))" using distinct_drop_nth [of "map o_name ks" i] by (simp add: drop_nth_map)
  then show ?thesis using object set_drop_nth [of i ks] by (auto simp: o_remove_Out list_all_iff)
next
  case (array f v ks)
  then show ?thesis using set_drop_nth [of i ks] by (auto simp: o_remove_Out list_all_iff)
next
  case (leaf t f v cs)
  then show ?thesis by (simp add: o_remove_def o_with_kids_def)
qed

lemma value_cast: "stringCast ''value'' = JStr ''value''"
  by code_simp

lemma new_field: "o_new (JStr ''field'') (JStr ''value'') = Out TAuto (JStr ''field'') (JStr ''value'') None"
  by (simp add: value_cast)

lemma append_json:
  assumes "regular y" "o_type y = TObject \<longrightarrow> ''field'' \<notin> o_name ` set (o_kids y)"
  shows "o_json (o_append (Out TAuto (JStr ''field'') (JStr ''value'') None) y) = j_append (o_json y)"
  using assms(1)
proof (cases y rule: regular_cases)
  case (object f v ks)
  let ?k = "Out TAuto (JStr ''field'') (JStr ''value'') None"
  have "distinct (map o_name (ks @ [?k]))" using object assms(2) by (auto simp: o_name_def)
  then show ?thesis
    by (simp add: object(1) o_append_def o_with_kids_def regular_object [OF object(3)] regular_object del: o_json.simps) (simp add: o_name_def)
next
  case (leaf t f v cs)
  then show ?thesis by (cases v) (simp_all add: o_append_def o_json_leaf del: o_json.simps)
qed (simp add: o_append_def o_with_kids_def)

lemma append_regular:
  assumes "regular y" "o_type y = TObject \<longrightarrow> ''field'' \<notin> o_name ` set (o_kids y)"
  shows "regular (o_append (Out TAuto (JStr ''field'') (JStr ''value'') None) y)"
  using assms(1) by (cases y rule: regular_cases) (use assms(2) in \<open>auto simp: o_append_def o_with_kids_def o_name_def\<close>)

lemma duplicate_json:
  assumes "regular y"
  shows "o_json (o_duplicate i y) = j_duplicate i (o_json y)"
  using assms
proof (cases y rule: regular_cases)
  case (array f v ks)
  then show ?thesis by (simp add: o_duplicate_def o_insert_def o_with_kids_def take_map drop_map)
next
  case (object f v ks)
  have "fold g (take i ks @ ks ! i # drop i ks) [] = fold g ks []" if "i < length ks" "g = (\<lambda>k. obj_set (o_name k) (o_json k))" for g
  proof -
    let ?acc = "fold g (take i ks) []"
    have "drop i ks = ks ! i # drop (Suc i) ks" using that(1) by (simp add: Cons_nth_drop_Suc)
    then have "fold g (take i ks @ ks ! i # drop i ks) [] = fold g (drop (Suc i) ks) (g (ks ! i) (g (ks ! i) ?acc))" by simp
    also have "g (ks ! i) (g (ks ! i) ?acc) = g (ks ! i) ?acc" by (simp add: that(2))
    also have "fold g (drop (Suc i) ks) (g (ks ! i) ?acc) = fold g ks []"
      using arg_cong [OF id_take_nth_drop [OF that(1)], of "\<lambda>xs. fold g xs []"] by simp
    finally show ?thesis .
  qed
  then show ?thesis
    by (simp add: object(1) o_duplicate_def o_insert_def o_with_kids_def o_json_object del: o_json.simps)
next
  case (leaf t f v cs)
  then show ?thesis by (cases v) (simp_all add: o_duplicate_def o_insert_def o_json_leaf del: o_json.simps)
qed

lemma duplicate_settled: "settled y \<Longrightarrow> settled (o_duplicate i y)"
proof (cases "o_childs y")
  case (Some ks)
  assume "settled y"
  then show ?thesis
    using settled_kids [of "o_type y" "o_field y" "o_value y" ks "take i ks @ ks ! i # drop i ks"] Some
      set_take_subset [of i ks] set_drop_subset [of i ks]
    by (cases y) (auto simp: o_duplicate_def o_insert_def o_with_kids_def simp del: settled.simps)
next
  case None
  assume "settled y"
  then show ?thesis using None by (simp add: o_duplicate_def o_kids_def)
qed

text \<open>A place whose type was not changed before: no old children, no old text, no old names.\<close>

definition pristine :: "outlined \<Rightarrow> bool" where
  "pristine y =
     (if nests (o_type y) then o_value y = JStr [] \<and> (o_type y = TArray \<longrightarrow> list_all (\<lambda>k. o_field k = JUndef) (o_kids y))
      else o_childs y = None)"

lemma string_of_nat_inj: "string_of_nat a = string_of_nat b \<Longrightarrow> a = b"
proof -
  assume "string_of_nat a = string_of_nat b"
  then have "digits_val 0 (string_of_nat a) = digits_val 0 (string_of_nat b)" by (rule arg_cong)
  then show "a = b" by (simp only: digits_val_string_of_nat prod.inject)
qed

lemma named_json [simp]: "o_json (o_named f k) = o_json k" "settled (o_named f k) = settled k"
  by (cases k; simp add: o_named_def)+

lemma named_field: "o_field (o_named f k) = (if nullish (o_field k) then f else o_field k)"
  by (simp add: o_named_def)

lemma numbered_names:
  assumes "list_all (\<lambda>k. o_field k = JUndef) ks"
  defines "ls \<equiv> map (\<lambda>(i, k). o_named (JNum (int i)) k) (zip [0 ..< length ks] ks)"
  shows "map (\<lambda>k. (o_name k, o_json k)) ls = zip (map string_of_nat [0 ..< length ks]) (map o_json ks)"
    and "distinct (map o_name ls)"
proof -
  have len: "length ls = length ks" by (simp add: ls_def)
  have i: "o_name (ls ! i) = string_of_nat i" "o_json (ls ! i) = o_json (ks ! i)" if "i < length ks" for i
    using assms(1) that by (simp_all add: ls_def o_name_def named_field list_all_nth string_of_int_def)
  have n: "map o_name ls = map string_of_nat [0 ..< length ks]"
    by (rule nth_equalityI) (simp_all add: len i)
  show "map (\<lambda>k. (o_name k, o_json k)) ls = zip (map string_of_nat [0 ..< length ks]) (map o_json ks)"
    by (rule nth_equalityI) (simp_all add: len i)
  show "distinct (map o_name ls)"
    unfolding n distinct_map by (auto intro: inj_onI dest: string_of_nat_inj)
qed

lemma kept_names:
  assumes "list_all (\<lambda>k. \<not> nullish (o_field k)) ks"
  shows "map (\<lambda>(i, k). o_named (JNum (int i)) k) (zip [0 ..< length ks] ks) = ks"
  using assms
  by (intro nth_equalityI) (simp_all add: list_all_nth o_named_def)

lemma atom_json: "atom v \<Longrightarrow> j_retype TString v = JStr (js_to_string v) \<and> j_retype TAuto v = stringCast (js_to_string v) \<and>
    j_retype TObject v = JObj [] \<and> j_retype TArray v = JArr []"
  by (cases v) simp_all

lemma empty_cast: "stringCast [] = JStr []"
  by (simp add: stringCast_def)

lemma retype_json:
  assumes "regular y" "pristine y"
  shows "o_json (o_retype t y) = j_retype t (o_json y)"
  using assms(1)
proof (cases y rule: regular_cases)
  case (array f v ks)
  have v: "v = JStr []" "list_all (\<lambda>k. o_field k = JUndef) ks" using assms(2) array by (simp_all add: pristine_def)
  show ?thesis
  proof (cases "t = TObject")
    case True
    then show ?thesis
      using numbered_names [OF v(2)]
      by (simp add: array(1) o_retype_def regular_object del: o_json.simps) simp
  next
    case False
    then show ?thesis by (cases t) (simp_all add: array(1) v(1) o_retype_def cast_value_def empty_cast)
  qed
next
  case (object f v ks)
  have v: "v = JStr []" using assms(2) object by (simp add: pristine_def)
  have o: "o_json y = JObj (map (\<lambda>k. (o_name k, o_json k)) ks)" unfolding object(1) by (rule regular_object [OF object(3)])
  show ?thesis
  proof (cases "t = TObject")
    case True
    then show ?thesis
      using object(1) o by (simp add: o_retype_def kept_names [OF object(4)] cast_value_def del: o_json.simps)
  next
    case False
    then show ?thesis unfolding o by (cases t) (simp_all add: object(1) v o_retype_def cast_value_def empty_cast o_def)
  qed
next
  case (leaf u f v cs)
  have cs: "cs = None" using assms(2) leaf by (simp add: pristine_def)
  have o: "o_json y = v" using leaf by (simp add: o_json_leaf del: o_json.simps)
  show ?thesis unfolding o using leaf atom_json [OF leaf(3)] by (cases t) (simp_all add: cs o_retype_def cast_value_def)
qed

lemma atom_cast: "atom (stringCast s)"
  using stringCast_kinds [of s] by auto

lemma regular_named [simp]: "regular (o_named f k) = regular k"
  by (cases k) (simp add: o_named_def)

lemma retype_regular:
  assumes "regular y" "pristine y"
  shows "regular (o_retype t y)"
  using assms(1)
proof (cases y rule: regular_cases)
  case (array f v ks)
  then have ks: "list_all (\<lambda>k. o_field k = JUndef) ks" using assms(2) by (simp add: pristine_def)
  show ?thesis
    using array numbered_names(2) [OF ks]
    by (cases t) (auto simp: o_retype_def cast_value_def atom_cast list_all_nth named_field)
next
  case (object f v ks)
  then show ?thesis
    using kept_names [OF object(4)] by (cases t) (auto simp: o_retype_def cast_value_def atom_cast)
next
  case (leaf u f v cs)
  have cs: "cs = None" using assms(2) leaf by (simp add: pristine_def)
  show ?thesis by (cases t) (simp_all add: leaf(1) cs o_retype_def cast_value_def atom_cast)
qed

text \<open>Typing a value and typing a name.\<close>

lemma read_cell_atom: "read_cell t html \<noteq> JUndef \<Longrightarrow> atom (read_cell t html)"
  by (auto simp: read_cell_def atom_cast split: sum.splits if_splits)

lemma value_cell:
  assumes "regular y" "\<not> nests (o_type y)" "read_cell (o_type y) html \<noteq> JUndef"
  shows "o_json (o_value_typed html y) = read_cell (o_type y) html" "regular (o_value_typed html y)"
  using assms read_cell_atom by (simp_all add: o_value_typed_def o_json_leaf del: o_json.simps)

lemma name_cell:
  fixes f v :: jsval
  assumes "read_cell TString html = JStr s" "i < length ks" "s \<notin> o_name ` set (drop_nth i ks)"
    and ks: "distinct (map o_name ks)" "list_all (\<lambda>k. \<not> nullish (o_field k)) ks" "list_all regular ks"
  defines "y \<equiv> Out TObject f v (Some ks)"
  shows "o_json (o_map_kid i (o_field_typed html) y) = j_rename i s (o_json y)" "regular (o_map_kid i (o_field_typed html) y)"
proof -
  let ?k = "o_field_typed html (ks ! i)" let ?ls = "ks[i := ?k]"
  have k: "o_name ?k = s" "o_json ?k = o_json (ks ! i)" "regular ?k = regular (ks ! i)" "\<not> nullish (o_field ?k)"
    using assms(1) by (cases "ks ! i"; simp add: o_field_typed_def o_name_def)+
  have split: "?ls = take i ks @ ?k # drop (Suc i) ks" using assms(2) by (simp add: upd_conv_take_nth_drop)
  have "distinct (map o_name (drop_nth i ks))" using distinct_drop_nth [OF ks(1), of i] by (simp add: drop_nth_map)
  then have d: "distinct (map o_name ?ls)"
    using assms(3) k(1) unfolding split drop_nth_def by auto
  show "o_json (o_map_kid i (o_field_typed html) y) = j_rename i s (o_json y)"
    using assms(2) k by (simp add: y_def o_map_kid_Out regular_object [OF d] regular_object [OF ks(1)] j_rename_def map_update del: o_json.simps)
  show "regular (o_map_kid i (o_field_typed html) y)"
    using d ks assms(2) k by (auto simp: y_def o_map_kid_Out list_all_nth nth_list_update)
qed

section \<open>Sessions\<close>

text \<open>
  What an edit does at its place, and when it keeps the names of every object apart. Typed texts can
  be read, a changed type was not changed before.
\<close>

fun local_edit :: "ed_event \<Rightarrow> outlined \<Rightarrow> outlined" where
  "local_edit (ClickRemove p) = o_remove (last p)"
| "local_edit (ClickDuplicate p) = o_duplicate (last p)"
| "local_edit (ClickAppend p) = o_append (Out TAuto (JStr ''field'') (JStr ''value'') None)"
| "local_edit (ChooseType p t) = o_retype t"
| "local_edit (TypeValue p html) = o_value_typed html"
| "local_edit (TypeField p html) = o_map_kid (last p) (o_field_typed html)"
| "local_edit e = (\<lambda>x. x)"

fun edit_ok :: "ed_event \<Rightarrow> outlined \<Rightarrow> bool" where
  "edit_ok (ClickDuplicate p) y = (o_type y \<noteq> TObject)"
| "edit_ok (ClickAppend p) y = (o_type y = TObject \<longrightarrow> ''field'' \<notin> o_name ` set (o_kids y))"
| "edit_ok (ChooseType p t) y = pristine y"
| "edit_ok (TypeValue p html) y = (read_cell (o_type y) html \<noteq> JUndef)"
| "edit_ok (TypeField p html) y =
     (p \<noteq> [] \<and> o_type y = TObject \<and> read_cell TString html \<noteq> JUndef \<and>
      js_to_string (read_cell TString html) \<notin> o_name ` set (drop_nth (last p) (o_kids y)))"
| "edit_ok (FocusNode p) y = False"
| "edit_ok (DragBefore p q j) y = False"
| "edit_ok (DragToEnd p q) y = False"
| "edit_ok e y = True"

definition plain_edit :: "ed_event \<Rightarrow> node \<Rightarrow> bool" where
  "plain_edit e n =
     (refined e n \<and> (case o_node_at (edit_place e) (outline n) of None \<Rightarrow> False | Some y \<Rightarrow> edit_ok e y))"

lemma read_text: "read_cell TString html \<noteq> JUndef \<Longrightarrow> read_cell TString html = JStr (js_to_string (read_cell TString html))"
  by (auto simp: read_cell_def split: sum.splits)

lemma local_field: "o_field (local_edit e y) = o_field y" if "\<And>p html. e \<noteq> TypeField p html"
  using that by (cases e) (auto simp: o_remove_def o_duplicate_def o_insert_def o_append_def o_with_kids_def o_retype_def o_value_typed_def)

lemma local_edit_field: "o_field (local_edit e y) = o_field y"
  by (cases "\<exists>p html. e = TypeField p html") (auto simp: local_field o_map_kid_def o_with_kids_def)

lemma duplicate_regular:
  assumes "regular y" "o_type y \<noteq> TObject"
  shows "regular (o_duplicate i y)"
  using assms(1)
proof (cases y rule: regular_cases)
  case (array f v ks)
  then show ?thesis by (auto simp: o_duplicate_def o_insert_def o_with_kids_def list_all_iff dest: in_set_takeD in_set_dropD)
qed (use assms(2) in \<open>simp_all add: o_duplicate_def o_insert_def\<close>)

lemma local_edit_json:
  assumes y: "regular y" "edit_ok e y"
    and typed: "\<And>p html. e = TypeValue p html \<Longrightarrow> \<not> nests (o_type y)" "\<And>p html. e = TypeField p html \<Longrightarrow> last p < length (o_kids y)"
  shows "o_json (local_edit e y) = j_edit (o_type y) e (o_json y) \<and> regular (local_edit e y)"
proof (cases e)
  case (TypeField p html)
  obtain s where s: "read_cell TString html = JStr s" "s \<notin> o_name ` set (drop_nth (last p) (o_kids y))" "o_type y = TObject"
    using y(2) read_text [of html] TypeField by auto
  from y(1) obtain f v ks where "y = Out TObject f v (Some ks)" "list_all regular ks" "distinct (map o_name ks)"
      "list_all (\<lambda>k. \<not> nullish (o_field k)) ks"
    by (cases y rule: regular_cases) (use s(3) in auto)
  then show ?thesis using name_cell [OF s(1), of "last p" ks] s typed(2) TypeField by simp
qed (use y typed in \<open>simp_all add: remove_json remove_regular duplicate_json duplicate_regular append_json append_regular
    retype_json retype_regular value_cell del: o_json.simps\<close>)

lemma o_at_fun: "o_at [] f = f" "o_at (i # p) f = o_map_kid i (o_at p f)"
  by (simp_all add: fun_eq_iff)

lemma o_at_snoc: "p \<noteq> [] \<Longrightarrow> o_at (butlast p) (o_map_kid (last p) f) = o_at p f"
proof (induction p)
  case (Cons i p)
  then show ?case by (cases "p = []") (simp_all add: o_at_fun)
qed simp

lemma o_step_local: "edit_ok e y \<Longrightarrow> o_step e x = o_at (edit_place e) (local_edit e) x"
  by (cases e) (auto simp: o_at_snoc value_cast)

definition edited_type :: "ed_event \<Rightarrow> node \<Rightarrow> node_type" where
  "edited_type e n = nd_type (attrs_at (edit_place e) n)"

lemma plain_step:
  assumes n: "tree_ok n" "drawn n" "regular (outline n)" and e: "enabled e n" "plain_edit e n"
  shows "o_json (outline (ed_step H n e)) = j_at (edit_place e) (j_edit (edited_type e n) e) (o_json (outline n)) \<and>
    regular (outline (ed_step H n e))"
proof -
  obtain y where y: "o_node_at (edit_place e) (outline n) = Some y" "edit_ok e y" and r: "refined e n"
    using e(2) by (auto simp: plain_edit_def split: option.splits)
  then obtain m where m: "node_at (edit_place e) n = Some m" "y = outline m" by (auto simp: o_node_at_outline)
  have t: "edited_type e n = o_type y" using m attrs_at_node [OF m(1)] by (simp add: edited_type_def type_of_def)
  have v: "\<not> nests (o_type y)" if "e = TypeValue p html" for p html
    using e(1) t that by (simp add: edited_type_def)
  have f: "last p < length (o_kids y)" if "e = TypeField p html" for p html
  proof -
    have "shown p n" using e(1) that by simp
    then obtain k where k: "node_at p n = Some k" by (rule shown_node_at [OF n(1,2)])
    have "p \<noteq> []" using y(2) that by simp
    then obtain m' where "node_at (butlast p) n = Some m'" "last p < length (kids m')" using node_at_butlast [OF _ k] by metis
    then show ?thesis using m that by simp
  qed
  have "outline (ed_step H n e) = o_at (edit_place e) (local_edit e) (outline n)"
    using handle_refines [OF n(1,2) e(1) r] e(1) o_step_local [OF y(2)] by (simp add: ed_step_def)
  moreover have local: "regular y \<Longrightarrow> o_json (local_edit e y) = j_edit (o_type y) e (o_json y) \<and> regular (local_edit e y)"
    using local_edit_json [OF _ y(2)] v f by blast
  ultimately show ?thesis
    using o_json_at [OF n(3) y(1), of "local_edit e" "j_edit (o_type y) e"] regular_at [OF n(3) y(1), of "local_edit e"] local_edit_field
    by (simp add: t)
qed

text \<open>The loaded value with all edits of a run.\<close>

fun edited :: "(string \<Rightarrow> string) \<Rightarrow> ed_event list \<Rightarrow> node \<Rightarrow> jsval \<Rightarrow> jsval" where
  "edited H [] n v = v"
| "edited H (e # es) n v =
     edited H es (ed_step H n e) (if enabled e n then j_at (edit_place e) (j_edit (edited_type e n) e) v else v)"

lemma plain_run:
  assumes "tree_ok n" "drawn n" "no_focus n" "regular (outline n)" "along plain_edit H es n"
  shows "o_json (outline (ed_run H es n)) = edited H es n (o_json (outline n)) \<and> regular (outline (ed_run H es n)) \<and>
    no_focus (ed_run H es n)"
  using assms
proof (induction es arbitrary: n)
  case (Cons e es)
  have p: "enabled e n \<Longrightarrow> refined e n \<and> \<not> takes_focus e"
    using Cons.prems(5) by (cases e) (auto simp: plain_edit_def split: option.splits)
  have "tree_ok (ed_step H n e) \<and> drawn (ed_step H n e)"
    using Cons.prems p refined_is_named by (intro tree_ok_step) blast+
  moreover have "no_focus (ed_step H n e)"
    using Cons.prems(3) p no_focus_step [of n e H] by (cases "enabled e n") (auto simp: ed_step_def)
  moreover have "o_json (outline (ed_step H n e)) =
      (if enabled e n then j_at (edit_place e) (j_edit (edited_type e n) e) (o_json (outline n)) else o_json (outline n)) \<and>
    regular (outline (ed_step H n e))"
  proof (cases "enabled e n")
    case True
    then show ?thesis using plain_step [OF Cons.prems(1,2,4)] Cons.prems(5) by simp
  next
    case False
    then show ?thesis using Cons.prems(4) by (simp add: ed_step_def)
  qed
  ultimately show ?case using Cons.IH [of "ed_step H n e"] Cons.prems(5) by simp
qed simp

lemma regular_new: "json_ok v \<Longrightarrow> regular (o_new f v)"
proof (induction f v rule: o_new.induct)
  case (1 f vs)
  then show ?case by (auto simp: list_all_iff)
next
  case (2 f kvs)
  let ?ks = "map (\<lambda>(k, v). o_new (JStr k) v) kvs"
  have "map o_name ?ks = map fst kvs" by (auto simp: o_name_def)
  moreover have "distinct (map fst kvs)" using 2(2) by simp
  ultimately have "distinct (map o_name ?ks)" by metis
  moreover have "list_all regular ?ks" using 2 by (fastforce simp: list_all_iff)
  moreover have "list_all (\<lambda>k. \<not> nullish (o_field k)) ?ks" by (auto simp: list_all_iff)
  ultimately show ?case by (simp del: list.map_comp)
qed simp_all

lemma regular_json_ok: "regular x \<Longrightarrow> json_ok (o_json x)"
proof (induction x)
  case (Out t f v cs)
  show ?case
  proof (cases "nests t")
    case True
    then obtain ks where ks: "cs = Some ks" "list_all regular ks" using Out(2) by (cases cs) auto
    then have j: "list_all json_ok (map o_json ks)" using Out(1) by (auto simp: list_all_iff)
    show ?thesis
    proof (cases "t = TArray")
      case True
      then show ?thesis using j ks by simp
    next
      case False
      then have t: "t = TObject" and d: "distinct (map o_name ks)" using True Out(2) ks by auto
      then show ?thesis using j by (auto simp: ks(1) regular_object [OF d] list_all_iff o_def simp del: o_json.simps)
    qed
  next
    case False
    then show ?thesis using Out(2) by (cases v) (simp_all add: o_json_leaf del: o_json.simps)
  qed
qed

text \<open>An example: an element removed and one appended, a number typed, a name typed.\<close>

definition example_data :: jsval where
  "example_data = JObj [(''lv'', JNum 5), (''bag'', JArr [JNum 1, JStr ''x''])]"

definition example_edits :: "ed_event list" where
  "example_edits = [ClickExpand [1] False, ClickRemove [1, 0], ClickAppend [1], TypeValue [0] ''7'', TypeField [0] ''level'']"

definition same_text :: "string \<Rightarrow> string" where
  "same_text s = s"

lemma example_ok: "json_ok example_data" "along plain_edit same_text example_edits (opened same_text example_data)"
  by (simp add: example_data_def) code_simp

lemma example_edited:
  "edited same_text example_edits (opened same_text example_data) example_data =
     JObj [(''level'', JNum 7), (''bag'', JArr [JStr ''x'', JStr ''value''])]"
  by code_simp

text \<open>
  C6. What a session saves: if a player's data is loaded and changed by removing, copying and adding
  entries, choosing types, typing values and names, opening and closing rows (no two entries of an
  object getting the same name, no place changing its type twice, typed texts readable), then the
  value read from the editor is the loaded one with exactly these changes, each at its place.
\<close>
theorem session_saves_edits:
  assumes "json_ok v" "along plain_edit H es (opened H v)"
  shows "fst (get_json (map_option (ed_run H es) (set_json H v ed))) = Inr (edited H es (opened H v) v)"
proof -
  let ?n = "ed_run H es (opened H v)"
  have "o_json (outline ?n) = edited H es (opened H v) v" "regular (outline ?n)" "no_focus ?n"
    using plain_run [OF opened_simps(1,2) no_focus_opened _ assms(2)] regular_new [OF assms(1)]
    by (simp_all add: opened_simps o_json_new assms(1))
  then show ?thesis using get_json_settled [OF regular_settled] by (simp add: set_json_opened)
qed

section \<open>Edits that are not saved\<close>

lemma j_at_id: "j_at p (\<lambda>v. v) v = v"
proof (induction p arbitrary: v)
  case (Cons i p)
  then have "j_at p (\<lambda>v. v) = (\<lambda>v. v)" by (intro ext)
  moreover have "map_prod id (\<lambda>v. v) kv = (kv :: string \<times> jsval)" for kv by (cases kv) simp
  ultimately show ?case by (cases v) (simp_all add: apsnd_def)
qed simp

lemma object_copy_json: "regular y \<Longrightarrow> o_type y = TObject \<Longrightarrow> o_json (o_duplicate i y) = o_json y"
  using duplicate_json [of y i] by (cases y) (auto simp: o_json_object simp del: o_json.simps split: option.splits)

text \<open>A copy of an entry of an object has the name of the entry, so reading the object finds one of them.\<close>

lemma copy_saved:
  assumes n: "tree_ok n" "drawn n" "no_focus n" "regular (outline n)"
    and e: "enabled (ClickDuplicate p) n" "nd_type (attrs_at (butlast p) n) = TObject"
  shows "fst (get_json (Some (ed_step H n (ClickDuplicate p)))) = Inr (o_json (outline n))"
proof -
  let ?e = "ClickDuplicate p" let ?m = "ed_step H n ?e"
  have "shown (butlast p) n" using e(1) by (simp add: shown_butlast)
  then obtain k where k: "node_at (butlast p) n = Some k" by (rule shown_node_at [OF n(1,2)])
  then have y: "o_node_at (butlast p) (outline n) = Some (outline k)" "o_type (outline k) = TObject"
    using e(2) attrs_at_node [OF k] by (simp_all add: o_node_at_outline type_of_def)
  have m: "outline ?m = o_at (butlast p) (o_duplicate (last p)) (outline n)"
    using handle_refines [OF n(1,2) e(1)] e(1) by (simp add: ed_step_def)
  have field: "o_field (o_duplicate (last p) (outline k)) = o_field (outline k)"
    using local_edit_field [of ?e] by simp
  have "o_json (outline ?m) = j_at (butlast p) (\<lambda>v. v) (o_json (outline n))"
    unfolding m by (rule o_json_at [OF n(4) y(1)]) (use object_copy_json y(2) field in auto)
  moreover have "settled (outline ?m)"
    unfolding m by (rule settled_at [OF regular_settled [OF n(4)] y(1)]) (use duplicate_settled field in auto)
  moreover have "no_focus ?m" using no_focus_step [OF n(3)] by simp
  ultimately show ?thesis using get_json_settled by (simp add: j_at_id)
qed

lemma session_end:
  assumes "json_ok v" "along plain_edit H es (opened H v)"
  defines "n \<equiv> ed_run H es (opened H v)"
  shows "tree_ok n" "drawn n" "no_focus n" "regular (outline n)" "o_json (outline n) = edited H es (opened H v) v"
proof -
  have "along drop_is_named H es n'" if "along plain_edit H es n'" for n'
    using that refined_is_named by (induction es arbitrary: n') (auto simp: plain_edit_def)
  then have "tree_ok n \<and> drawn n" unfolding n_def using assms(2) tree_ok_run opened_simps(1,2) by blast
  then show "tree_ok n" "drawn n" by simp_all
  show "no_focus n" "regular (outline n)" "o_json (outline n) = edited H es (opened H v) v"
    using plain_run [OF opened_simps(1,2) no_focus_opened _ assms(2)] regular_new [OF assms(1)]
    by (simp_all add: n_def opened_simps o_json_new assms(1))
qed

lemma run_one_more: "map_option (ed_run H (es @ [e])) (set_json H v ed) = Some (ed_step H (ed_run H es (opened H v)) e)"
  by (simp add: set_json_opened ed_run_def)

theorem session_saves_edits_witness:
  "fst (get_json (map_option (ed_run same_text example_edits) (set_json same_text example_data None))) =
     Inr (JObj [(''level'', JNum 7), (''bag'', JArr [JStr ''x'', JStr ''value''])])"
  using session_saves_edits [OF example_ok, of None] by (simp add: example_edited)

text \<open>
  C37. A copy of an entry of an object is lost: the copy has the name of the entry, so after clicking
  the button for a copy the saved value is the one saved without the click.
\<close>
theorem copy_of_entry_is_lost:
  assumes "json_ok v" "along plain_edit H es (opened H v)"
    and "enabled (ClickDuplicate p) (ed_run H es (opened H v))"
    and "nd_type (attrs_at (butlast p) (ed_run H es (opened H v))) = TObject"
  shows "fst (get_json (map_option (ed_run H (es @ [ClickDuplicate p])) (set_json H v ed))) = Inr (edited H es (opened H v) v)"
  using session_end [OF assms(1,2)] copy_saved assms(3,4) by (simp add: run_one_more)

theorem copy_of_entry_is_lost_witness:
  "fst (get_json (map_option (ed_run same_text (example_edits @ [ClickDuplicate [0]])) (set_json same_text example_data None))) =
     Inr (JObj [(''level'', JNum 7), (''bag'', JArr [JStr ''x'', JStr ''value''])])"
proof -
  have "enabled (ClickDuplicate [0]) (ed_run same_text example_edits (opened same_text example_data))"
    "nd_type (attrs_at (butlast [0]) (ed_run same_text example_edits (opened same_text example_data))) = TObject"
    by code_simp+
  then show ?thesis using copy_of_entry_is_lost [OF example_ok, of "[0]" None] by (simp add: example_edited)
qed

text \<open>A text that cannot be read stops the reading of the whole tree.\<close>

fun saved_part :: "path \<Rightarrow> node \<Rightarrow> bool" where
  "saved_part [] n = True"
| "saved_part (i # p) n = (nests (nd_type (attrs n)) \<and> i < length (kids n) \<and> saved_part p (kids n ! i))"

lemma getElems_throws:
  "list_all settled (map outline ks) \<Longrightarrow> fst (getValue k) = Inl x \<Longrightarrow> fst (getElems (ks @ k # ls)) = Inl x"
proof (induction ks)
  case Nil
  then show ?case by (cases "getValue k") auto
next
  case (Cons m ks)
  then show ?case by (auto simp: getValue_settled(1) split: prod.splits)
qed

lemma getFields_throws:
  assumes "list_all settled (map outline ks)" "list_all (\<lambda>k. o_field k \<noteq> JUndef) (map outline ks)"
    and "fst (getValue k) = Inl x" "nd_field (attrs k) \<noteq> JUndef"
  shows "fst (getFields obj (ks @ k # ls)) = Inl x"
  using assms(1,2)
proof (induction ks arbitrary: obj)
  case Nil
  then show ?case using assms(3,4) by (cases k; cases "getValue k") (auto simp: getField_def simp del: getValue.simps)
next
  case (Cons m ks)
  then have m: "getValue m = (Inr (o_json (outline m)), m)" "nd_field (attrs m) \<noteq> JUndef" by (simp_all add: getValue_settled(1))
  have "fst (getFields (obj_set (js_to_string (nd_field (attrs m))) (o_json (outline m)) obj) (ks @ k # ls)) = Inl x"
    using Cons by simp
  then show ?case
    using m by (cases m) (auto simp: getField_def simp del: getValue.simps o_json.simps split: prod.splits)
qed

lemma getValue_throws:
  assumes "settled (outline n)" "saved_part p n" "node_at p n = Some m"
    and f: "fst (getValue (f m)) = Inl x" "nd_field (attrs (f m)) = nd_field (attrs m)"
  shows "fst (getValue (at_path p f n)) = Inl x"
  using assms(1-3)
proof (induction p arbitrary: n)
  case Nil
  then show ?case using f by simp
next
  case (Cons i p)
  obtain a cs where n: "n = Node a cs" by (cases n)
  obtain ks where cs: "cs = Some ks" using Cons.prems(2) n by (cases cs) auto
  have i: "i < length ks" and t: "nests (nd_type a)" and k: "saved_part p (ks ! i)" "node_at p (ks ! i) = Some m"
    using Cons.prems(2,3) by (simp_all add: n cs)
  have all: "list_all settled (map outline ks)" using Cons.prems(1) t by (simp add: n cs)
  then have "settled (outline (ks ! i))" using i by (simp add: list_all_iff)
  then have throws: "fst (getValue (at_path p f (ks ! i))) = Inl x" using k by (rule Cons.IH)
  have split: "ks[i := at_path p f (ks ! i)] = take i ks @ at_path p f (ks ! i) # drop (Suc i) ks"
    using i by (simp add: upd_conv_take_nth_drop)
  have before: "list_all settled (map outline (take i ks))" using all by (auto simp: list_all_iff dest: in_set_takeD)
  show ?case
  proof (cases "nd_type a = TArray")
    case True
    then show ?thesis
      using getElems_throws [OF before throws, of "drop (Suc i) ks"] i
      by (auto simp: n cs map_kid_def split split: prod.splits)
  next
    case False
    then have t: "nd_type a = TObject" using t by simp
    then have names: "list_all (\<lambda>k. o_field k \<noteq> JUndef) (map outline ks)" using Cons.prems(1) by (simp add: n cs)
    have "nd_field (attrs (at_path p f (ks ! i))) = nd_field (attrs (ks ! i))"
      using k(2) f(2) by (cases p) (simp_all add: map_kid_def)
    then have "nd_field (attrs (at_path p f (ks ! i))) \<noteq> JUndef" using names i by (simp add: list_all_iff)
    moreover have "list_all (\<lambda>k. o_field k \<noteq> JUndef) (map outline (take i ks))"
      using names by (auto simp: list_all_iff dest: in_set_takeD)
    ultimately show ?thesis
      using getFields_throws [OF before _ throws, of "[]" "drop (Suc i) ks"] i
      by (auto simp: n cs t map_kid_def split split: prod.splits)
  qed
qed

lemma typed_throws:
  assumes "drawn m" "\<not> nests (nd_type (attrs m))" "unescape (stripHTML html) = Inl x"
  shows "fst (getValue (with_attrs (value_typed html) m)) = Inl x"
  using assms by (cases m) (auto simp: with_attrs_def value_typed_def getDomValue_def drawn_def split: option.splits)

text \<open>
  C38. A typed text that is no JSON text between quotes (a single quotation mark, a backslash at the
  end) stops saving altogether: reading the editor throws, whatever else was edited.
\<close>
theorem unreadable_text_stops_saving:
  assumes "json_ok v" "along plain_edit H es (opened H v)"
    and "enabled (TypeValue p html) (ed_run H es (opened H v))" "saved_part p (ed_run H es (opened H v))"
    and "unescape (stripHTML html) = Inl x"
  shows "fst (get_json (map_option (ed_run H (es @ [TypeValue p html])) (set_json H v ed))) = Inl x"
proof -
  let ?n = "ed_run H es (opened H v)"
  note n = session_end [OF assms(1,2)]
  have "shown p ?n" using assms(3) by simp
  then obtain m where m: "node_at p ?n = Some m" "drawn m" "attrs_at p ?n = attrs m" by (rule shown_node_at [OF n(1,2)])
  have "fst (getValue (with_attrs (value_typed html) m)) = Inl x"
    using typed_throws [OF m(2) _ assms(5)] assms(3) m(3) by simp
  moreover have "nd_field (attrs (with_attrs (value_typed html) m)) = nd_field (attrs m)"
    by (simp add: value_typed_def getDomValue_def Let_def split: option.splits sum.splits)
  ultimately have "fst (getValue (ed_step H ?n (TypeValue p html))) = Inl x"
    using getValue_throws [OF regular_settled [OF n(4)] assms(4) m(1)] assms(3) by (simp add: ed_step_def)
  moreover have "no_focus (ed_step H ?n (TypeValue p html))" using no_focus_step [OF n(3)] by simp
  ultimately show ?thesis
    by (cases "getValue (ed_step H ?n (TypeValue p html))") (simp add: run_one_more get_json_def blur_no_focus)
qed

theorem unreadable_text_stops_saving_witness:
  "fst (get_json (map_option (ed_run same_text (example_edits @ [TypeValue [1, 0] ''5\"'']))
     (set_json same_text example_data None))) = Inl SyntaxError"
proof -
  let ?n = "ed_run same_text example_edits (opened same_text example_data)"
  have "enabled (TypeValue [1, 0] ''5\"'') ?n" "saved_part [1, 0] ?n" "unescape (stripHTML ''5\"'') = Inl SyntaxError"
    by code_simp+
  then show ?thesis by (rule unreadable_text_stops_saving [OF example_ok])
qed

section \<open>The tree and its data in every run\<close>

text \<open>
  C23. The tree stays well formed in every run of the editor, drags between arrays and objects
  included, as long as what is dropped at the end of an object has a name: arrays and objects have
  children, children of arrays know their positions in order, children of objects have none, and
  below every expanded row that is drawn all rows are drawn.
\<close>
theorem tree_stays_well_formed:
  assumes "along drop_is_named H es (opened H v)"
  shows "tree_ok (ed_run H es (opened H v)) \<and> drawn (ed_run H es (opened H v))"
  using tree_ok_run [OF opened_simps(1,2) assms] .

definition example_drags :: "ed_event list" where
  "example_drags = [ExpandAll, DragToEnd [0] [1], DragBefore [0, 2] [] 0, DragBefore [1, 1] [] 0, ChooseType [2] TObject, CollapseAll]"

lemma example_drags_ok:
  "along drop_is_named same_text example_drags (opened same_text example_data)"
  "along refined same_text example_drags (opened same_text example_data)"
  by code_simp+

theorem tree_stays_well_formed_witness:
  "tree_ok (ed_run same_text example_drags (opened same_text example_data))"
  using tree_stays_well_formed [OF example_drags_ok(1)] by simp

text \<open>
  C7. Runs of the editor refine the edits of the data alone, if every event carried out is of the
  kind \<open>refined\<close>: a drag begins with no cell in the focus; a name is typed only below an object; what
  is dragged comes out of an array or an object; and what is dropped at the end of an expanded object
  has a name or a position that the object then numbers anew. Under these conditions types, names,
  values and children of the tree are those obtained by applying to the loaded data what each
  carried-out event means, while rows are drawn, numbered, opened and closed on the way. Outside them
  a focused cell is read again, or an entry stays without a name.
\<close>
theorem editor_refines_edits:
  assumes "along refined H es (opened H v)"
  shows "outline (ed_run H es (opened H v)) = foldl (\<lambda>x e. o_step e x) (o_new JUndef v) (carried_out H es (opened H v))"
  using run_refines [OF opened_simps(1,2) assms] by (simp only: opened_simps(3))

theorem editor_refines_edits_witness:
  "outline (ed_run same_text example_drags (opened same_text example_data)) =
     foldl (\<lambda>x e. o_step e x) (o_new JUndef example_data) (carried_out same_text example_drags (opened same_text example_data))"
  by (rule editor_refines_edits [OF example_drags_ok(2)])

section \<open>Cells\<close>

text \<open>
  C22. A cell that shows a value reads back as the value: markup made from a plain value, put into a
  cell and read from it again gives the value, number or text or truth value, as long as its text
  has no ampersand.
\<close>
theorem cell_reads_back:
  assumes "html_law H" "json_ok v" "\<not> nests (getType v)" "plain_text (js_to_string v)"
  shows "read_cell (getType v) (H (escape v)) = v"
proof -
  have h: "H (escape v) = escape v" using assms(1) serialised_escape [OF assms(4)] by (simp add: html_law_def)
  have u: "unescape (stripHTML (escape v)) = Inr (js_to_string v)"
    by (rule unescape_escape [OF plain_text_no_amp [OF assms(4)]])
  show ?thesis
  proof (cases "getType v = TString")
    case True
    then have "\<exists>s. v = JStr s" using assms(2) by (cases v) (auto split: if_splits)
    then show ?thesis using True by (auto simp: read_cell_def h u)
  next
    case False
    then have "getType v = TAuto" using assms(3) by (cases "getType v") auto
    moreover from this have "auto_value v" by (rule getType_auto) (use assms(2) in auto)
    ultimately show ?thesis by (simp add: read_cell_def h u stringCast_text)
  qed
qed

theorem cell_reads_back_witness: "read_cell TAuto (escape (JStr ''a < b  c'')) = JStr ''a < b  c''"
proof -
  have "html_law same_text" by (simp add: html_law_def same_text_def)
  moreover have "getType (JStr ''a < b  c'') = TAuto" "plain_text (js_to_string (JStr ''a < b  c''))" by code_simp+
  ultimately show ?thesis using cell_reads_back [of same_text "JStr ''a < b  c''"] by (simp add: same_text_def)
qed

end
