(* ===== verification/Raw_Data.thy ===== *)
theory Raw_Data
  imports Editor_Session
begin

text \<open>
  The page on which an administrator changes the raw data of a player
  (\<open>app/gm/app/views/data/raw.html.erb\<close> with \<open>shared/_data_top.html.erb\<close>): finding a player by id,
  e-mail address or name, the JSON editor, the text area below it, saving, deleting, kicking,
  permissions and the links. The pages of the archives and of the configuration use the same
  functions \<open>toText\<close> and \<open>toJson\<close>.

  The state is the record \<open>raw_page\<close>. Answers come in any order; the calls that wait for one are
  data. Requests carry their method, address and data. An exception ends a handler, what it did
  before stays.
\<close>

section \<open>The page\<close>

datatype after = AfterLoad | AfterExport | AfterNothing

datatype raw_call =
    CallLoad jsval string
  | CallLookup string after
  | CallKick
  | CallSave
  | CallDelete
  | CallPermission
  | CallSetPermission

type_synonym raw_request = "string \<times> string \<times> jsobj"

record raw_page =
  rd_allow_edit :: bool
  rd_email :: string
  rd_name :: string
  rd_id :: string
  rd_zone :: string
  rd_permission :: jsval
  rd_editor :: editor
  rd_text :: string
  rd_action :: string
  rd_links :: "string list"
  rd_archive :: string
  rd_sent :: "raw_request list"
  rd_waiting :: "raw_call list"
  rd_status :: "(string \<times> string) list"
  rd_dialogs :: "string list"
  rd_windows :: "string list"

definition raw_ask :: "raw_call \<Rightarrow> string \<Rightarrow> string \<Rightarrow> jsobj \<Rightarrow> raw_page \<Rightarrow> raw_page" where
  "raw_ask c method url data p = p\<lparr>rd_sent := rd_sent p @ [(method, url, data)], rd_waiting := rd_waiting p @ [c]\<rparr>"

definition say :: "string \<Rightarrow> string \<Rightarrow> raw_page \<Rightarrow> raw_page" where
  "say text status p = p\<lparr>rd_status := rd_status p @ [(text, status)]\<rparr>"

text \<open>The text a field shows for a value given to \<open>val\<close>.\<close>

definition val_text :: "jsval \<Rightarrow> string" where
  "val_text v = (if nullish v then [] else js_to_string v)"

section \<open>Finding a player\<close>

definition loadById :: "jsval \<Rightarrow> string \<Rightarrow> raw_page \<Rightarrow> raw_page" where
  "loadById i zone = raw_ask (CallLoad i zone) ''GET'' (zone @ ''/'' @ js_to_string i) []"

definition lookupEmail :: "string \<Rightarrow> string \<Rightarrow> after \<Rightarrow> raw_page \<Rightarrow> raw_page" where
  "lookupEmail email zone k = raw_ask (CallLookup zone k) ''GET'' ''/user/by_email'' [(''email'', JStr email)]"

definition lookupName :: "string \<Rightarrow> string \<Rightarrow> after \<Rightarrow> raw_page \<Rightarrow> raw_page" where
  "lookupName name zone k = raw_ask (CallLookup zone k) ''GET'' (''/player/'' @ zone @ ''/'' @ name) []"

definition open_export :: "jsval \<Rightarrow> string \<Rightarrow> raw_page \<Rightarrow> raw_page" where
  "open_export i zone p = p\<lparr>rd_windows := rd_windows p @ [''/data/'' @ zone @ ''/'' @ js_to_string i @ ''/json'']\<rparr>"

definition raw_load :: "raw_page \<Rightarrow> raw_page" where
  "raw_load p =
     (if rd_id p \<noteq> [] then loadById (JStr (rd_id p)) (rd_zone p) p
      else if rd_email p \<noteq> [] then lookupEmail (rd_email p) (rd_zone p) AfterLoad p
      else if rd_name p \<noteq> [] then lookupName (rd_name p) (rd_zone p) AfterLoad p
      else say ''Nothing to load~'' ''success'' p)"

definition exportJson :: "raw_page \<Rightarrow> raw_page" where
  "exportJson p =
     (if rd_id p \<noteq> [] then open_export (JStr (rd_id p)) (rd_zone p) p
      else if rd_email p \<noteq> [] then lookupEmail (rd_email p) (rd_zone p) AfterExport p
      else if rd_name p \<noteq> [] then lookupName (rd_name p) (rd_zone p) AfterExport p
      else say ''Nothing to export~'' ''success'' p)"

definition looked_up :: "string \<Rightarrow> after \<Rightarrow> jsval \<Rightarrow> raw_page \<Rightarrow> raw_page" where
  "looked_up zone k json p =
     (case js_get json ''id'' of
        Inl _ \<Rightarrow> p
      | Inr i \<Rightarrow>
          (let p = p\<lparr>rd_id := val_text i\<rparr>
           in case k of AfterLoad \<Rightarrow> loadById i zone p | AfterExport \<Rightarrow> open_export i zone p | AfterNothing \<Rightarrow> p))"

definition refreshLinks :: "raw_page \<Rightarrow> raw_page" where
  "refreshLinks p =
     p\<lparr>rd_links := map (\<lambda>href. (let base = takeWhile (\<lambda>c. c \<noteq> CHR ''?'') href
                                 in (if base = [] then href else base) @ ''?id='' @ rd_id p @ ''&zone='' @ rd_zone p))
                     (rd_links p)\<rparr>"

definition onIdZoneChanged :: "raw_page \<Rightarrow> raw_page" where
  "onIdZoneChanged p = p\<lparr>rd_archive := ''/archive/'' @ rd_zone p @ ''/'' @ rd_id p\<rparr>"

definition id_changed :: "raw_page \<Rightarrow> raw_page" where
  "id_changed p =
     onIdZoneChanged (refreshLinks
       (p\<lparr>rd_action := ''?id='' @ rd_id p @ ''&email='' @ encodeURIComponent (rd_email p) @ ''&name='' @ rd_name p @
                       ''&zone='' @ rd_zone p\<rparr>))"

definition zone_changed :: "raw_page \<Rightarrow> raw_page" where
  "zone_changed p = onIdZoneChanged (refreshLinks p)"

section \<open>Permissions\<close>

definition permission_types :: "string list" where
  "permission_types = [''normal'', ''dlogin'', ''dtalk'']"

definition getPermission :: "jsval \<Rightarrow> raw_page \<Rightarrow> raw_page" where
  "getPermission i = raw_ask CallPermission ''POST'' ''/player/get_permission'' [(''id'', i)]"

text \<open>Values that are not among the options leave the menu without a selection; of several the last is selected.\<close>

definition updatePermission :: "jsval \<Rightarrow> raw_page \<Rightarrow> raw_page" where
  "updatePermission permission p =
     (let v = (if js_eq permission (JStr []) \<or> nullish permission then JStr ''normal'' else permission);
          names = (case v of JArr vs \<Rightarrow> map val_text vs | _ \<Rightarrow> [js_to_string v]);
          options = filter (\<lambda>s. List.member names s) permission_types
      in p\<lparr>rd_permission := (if options = [] then JNull else JStr (last options))\<rparr>)"

definition onPermissionChanged :: "bool \<Rightarrow> raw_page \<Rightarrow> raw_page" where
  "onPermissionChanged confirmed p0 =
     (if rd_id p0 = [] then p0
      else (let p = p0\<lparr>rd_dialogs := rd_dialogs p0 @
                         [''Are you sure to change('' @ rd_id p0 @ '')permission to:'' @ js_to_string (rd_permission p0)]\<rparr>
            in if confirmed
               then raw_ask CallSetPermission ''POST'' ''/player/set_player_permission''
                      [(''id'', JStr (rd_id p)), (''zone'', JStr (rd_zone p)), (''permission_type'', rd_permission p)] p
               else p))"

section \<open>Loading, saving and deleting\<close>

definition updateView :: "(string \<Rightarrow> string) \<Rightarrow> jsval \<Rightarrow> string \<Rightarrow> jsval \<Rightarrow> raw_page \<Rightarrow> raw_page" where
  "updateView H i zone json p = getPermission i (p\<lparr>rd_editor := set_json H json (rd_editor p)\<rparr>)"

definition confirm_text :: string where
  "confirm_text = uni [0x786E, 0x5B9A, 0x8FDB, 0x884C, 0x8BE5, 0x64CD, 0x4F5C, 0x5417] @ ''?''"

definition withConfirm :: "bool \<Rightarrow> (raw_page \<Rightarrow> raw_page) \<Rightarrow> raw_page \<Rightarrow> raw_page" where
  "withConfirm confirmed f p0 =
     (let p = p0\<lparr>rd_dialogs := rd_dialogs p0 @ [confirm_text]\<rparr> in if confirmed then f p else p)"

text \<open>\<open>JSON.stringify(editor.get(), null)\<close>.\<close>

definition editor_text :: "editor \<Rightarrow> (js_exn + jsval) \<times> editor" where
  "editor_text ed =
     (case get_json ed of
        (r, ed') \<Rightarrow> (map_sum id (\<lambda>v. case stringify v of None \<Rightarrow> JUndef | Some t \<Rightarrow> JStr t) r, ed'))"

definition raw_save :: "raw_page \<Rightarrow> raw_page" where
  "raw_save p0 =
     (case editor_text (rd_editor p0) of
        (r, ed) \<Rightarrow>
          (let p = p0\<lparr>rd_editor := ed\<rparr>
           in case r of
                Inl _ \<Rightarrow> p
              | Inr t \<Rightarrow> raw_ask CallSave ''PUT'' (rd_zone p @ ''/'' @ rd_id p) [(''model'', t)] p))"

definition raw_del :: "raw_page \<Rightarrow> raw_page" where
  "raw_del p = raw_ask CallDelete ''DELETE'' (rd_zone p @ ''/'' @ rd_id p) [] p"

definition raw_kick :: "raw_page \<Rightarrow> raw_page" where
  "raw_kick p = raw_ask CallKick ''POST'' (''/player/kick/'' @ rd_zone p @ ''/'' @ rd_id p) [] p"

definition toText :: "raw_page \<Rightarrow> raw_page" where
  "toText p0 =
     (case editor_text (rd_editor p0) of
        (r, ed) \<Rightarrow>
          (let p = p0\<lparr>rd_editor := ed\<rparr> in case r of Inl _ \<Rightarrow> p | Inr t \<Rightarrow> p\<lparr>rd_text := val_text t\<rparr>))"

definition toJson :: "(string \<Rightarrow> string) \<Rightarrow> raw_page \<Rightarrow> raw_page" where
  "toJson H p =
     (case json_parse (rd_text p) of
        Inl _ \<Rightarrow> p
      | Inr v \<Rightarrow> p\<lparr>rd_editor := set_json H v (rd_editor p)\<rparr>)"

section \<open>Answers\<close>

definition done_or_failed :: "string \<Rightarrow> jsval \<Rightarrow> raw_page \<Rightarrow> raw_page" where
  "done_or_failed what json p =
     (case js_get json ''success'' of
        Inl _ \<Rightarrow> p
      | Inr ok \<Rightarrow> if truthy ok then say (what @ '' success~'') ''success'' p else say (what @ '' failed!'') ''fail'' p)"

fun raw_answered :: "(string \<Rightarrow> string) \<Rightarrow> raw_call \<Rightarrow> jsval \<Rightarrow> raw_page \<Rightarrow> raw_page" where
  "raw_answered H (CallLoad i zone) json p = say ''Load success~'' ''success'' (updateView H i zone json p)"
| "raw_answered H (CallLookup zone k) json p = looked_up zone k json p"
| "raw_answered H CallKick json p = done_or_failed ''Kick'' json p"
| "raw_answered H CallSave json p = done_or_failed ''Save'' json p"
| "raw_answered H CallDelete json p = done_or_failed ''Delete'' json p"
| "raw_answered H CallPermission json p =
     (case js_get json ''permission'' of Inl _ \<Rightarrow> p | Inr v \<Rightarrow> updatePermission v p)"
| "raw_answered H CallSetPermission json p = say ''permission change success~'' ''success'' p"

fun raw_failed :: "raw_call \<Rightarrow> raw_page \<Rightarrow> raw_page" where
  "raw_failed CallPermission p = say ''Something wrong getPermission!'' ''fail'' p"
| "raw_failed CallSetPermission p = say ''Something wrong onPermissionChanged!'' ''fail'' p"
| "raw_failed _ p = say ''Something wrong!'' ''fail'' p"

section \<open>Opening and events\<close>

text \<open>
  The page is opened with the parameters of its address; \<open>zone\<close> is the zone the menu shows. With an
  id, a name or an address given the player is loaded at once.
\<close>

definition raw_links :: "string option \<Rightarrow> string option \<Rightarrow> string option \<Rightarrow> string option \<Rightarrow> string list" where
  "raw_links email name i zone =
     (let param = (\<lambda>p. case p of None \<Rightarrow> [] | Some s \<Rightarrow> s);
          common = ''?email='' @ param email @ ''&name='' @ param name @ ''&id='' @ param i @ ''&zone='' @ param zone
      in [''/data/raw'' @ common, ''/data/view'' @ common, ''/data/history'' @ common, ''/permissions'' @ common])"

definition raw_opened ::
  "(string \<Rightarrow> string) \<Rightarrow> bool \<Rightarrow> string option \<Rightarrow> string option \<Rightarrow> string option \<Rightarrow> string option \<Rightarrow> string \<Rightarrow> raw_page"
where
  "raw_opened H allow email name i zone_param zone =
     (let param = (\<lambda>p. case p of None \<Rightarrow> [] | Some s \<Rightarrow> s);
          p = \<lparr>rd_allow_edit = allow, rd_email = param email, rd_name = param name, rd_id = param i, rd_zone = zone,
               rd_permission = JStr ''normal'', rd_editor = JSONEditor H JUndef, rd_text = [], rd_action = [],
               rd_links = raw_links email name i zone_param, rd_archive = ''#'', rd_sent = [], rd_waiting = [],
               rd_status = [], rd_dialogs = [], rd_windows = []\<rparr>
      in onIdZoneChanged (if i \<noteq> None \<or> name \<noteq> None \<or> email \<noteq> None then raw_load p else p))"

datatype raw_event =
    ChangeId string
  | ChangeEmail string
  | ChangeName string
  | ChangeZone string
  | ChangePermission string bool
  | TypeText string
  | ClickLoad
  | SubmitSearch
  | ClickExportJson
  | ClickKick
  | ClickSave bool
  | ClickDeleteData bool
  | ClickDown
  | ClickUp
  | Edit ed_event
  | RawAnswer nat "jsval option"

text \<open>The buttons that change something, and the one that reads the text area, are there for administrators only.\<close>

definition for_editors :: "(raw_page \<Rightarrow> raw_page) \<Rightarrow> raw_page \<Rightarrow> raw_page" where
  "for_editors f p = (if rd_allow_edit p then f p else p)"

fun raw_step :: "(string \<Rightarrow> string) \<Rightarrow> raw_event \<Rightarrow> raw_page \<Rightarrow> raw_page" where
  "raw_step H (ChangeId s) p = id_changed (p\<lparr>rd_id := s\<rparr>)"
| "raw_step H (ChangeEmail s) p = lookupEmail s (rd_zone p) AfterNothing (p\<lparr>rd_email := s\<rparr>)"
| "raw_step H (ChangeName s) p = p\<lparr>rd_name := s\<rparr>"
| "raw_step H (ChangeZone s) p = zone_changed (p\<lparr>rd_zone := s\<rparr>)"
| "raw_step H (ChangePermission s confirmed) p =
     (if List.member permission_types s then onPermissionChanged confirmed (p\<lparr>rd_permission := JStr s\<rparr>) else p)"
| "raw_step H (TypeText s) p = p\<lparr>rd_text := s\<rparr>"
| "raw_step H ClickLoad p = raw_load p"
| "raw_step H SubmitSearch p = raw_load p"
| "raw_step H ClickExportJson p = exportJson p"
| "raw_step H ClickKick p = for_editors raw_kick p"
| "raw_step H (ClickSave confirmed) p = for_editors (withConfirm confirmed raw_save) p"
| "raw_step H (ClickDeleteData confirmed) p = for_editors (withConfirm confirmed raw_del) p"
| "raw_step H ClickDown p = toText p"
| "raw_step H ClickUp p = for_editors (toJson H) p"
| "raw_step H (Edit e) p = p\<lparr>rd_editor := map_option (\<lambda>n. ed_step H n e) (rd_editor p)\<rparr>"
| "raw_step H (RawAnswer n r) p =
     (if n < length (rd_waiting p)
      then (let q = p\<lparr>rd_waiting := take n (rd_waiting p) @ drop (Suc n) (rd_waiting p)\<rparr>
            in case r of None \<Rightarrow> raw_failed (rd_waiting p ! n) q | Some json \<Rightarrow> raw_answered H (rd_waiting p ! n) json q)
      else p)"

definition raw_run :: "(string \<Rightarrow> string) \<Rightarrow> raw_event list \<Rightarrow> raw_page \<Rightarrow> raw_page" where
  "raw_run H es p = fold (raw_step H) es p"

section \<open>From the player to the server\<close>

lemma raw_run_simps [simp]: "raw_run H [] p = p" "raw_run H (e # es) p = raw_run H es (raw_step H e p)"
  by (simp_all add: raw_run_def)

lemma raw_run_append: "raw_run H (es @ fs) p = raw_run H fs (raw_run H es p)"
  by (simp add: raw_run_def)

lemma raw_run_edits:
  "rd_editor p = Some n \<Longrightarrow> raw_run H (map Edit es) p = p\<lparr>rd_editor := Some (ed_run H es n)\<rparr>"
  by (induction es arbitrary: p n) simp_all

text \<open>What the editor holds after a plain session, as a text and as a value.\<close>

lemma session_text:
  assumes "json_ok v" "along plain_edit H es (opened H v)"
  defines "n \<equiv> ed_run H es (opened H v)"
  shows "editor_text (Some n) = (Inr (JStr (text_of (edited H es (opened H v) v))), Some n)"
    and "get_json (Some n) = (Inr (edited H es (opened H v) v), Some n)"
    and "json_ok (edited H es (opened H v) v)"
    and "json_parse (text_of (edited H es (opened H v) v)) = Inr (edited H es (opened H v) v)"
proof -
  note n = session_end [OF assms(1,2), folded n_def]
  show get: "get_json (Some n) = (Inr (edited H es (opened H v) v), Some n)"
    using get_json_settled [OF regular_settled [OF n(4)] n(3)] n(5) by simp
  show ok: "json_ok (edited H es (opened H v) v)" using regular_json_ok [OF n(4)] n(5) by simp
  show "json_parse (text_of (edited H es (opened H v) v)) = Inr (edited H es (opened H v) v)"
    by (rule json_parse_stringify [OF ok])
  show "editor_text (Some n) = (Inr (JStr (text_of (edited H es (opened H v) v))), Some n)"
    using stringify_some [OF ok] by (auto simp: editor_text_def get)
qed

lemma fresh_value: "json_ok v \<Longrightarrow> fst (get_json (Some (opened H v))) = Inr v"
  using get_json_settled [of "opened H v"] settled_new [of v] no_focus_opened [of H v] by (simp add: opened_simps o_json_new)

text \<open>A player is loaded, the call is answered, and the data is edited; \<open>n\<close> calls waited before.\<close>

definition load_and_edit :: "nat \<Rightarrow> jsval \<Rightarrow> ed_event list \<Rightarrow> raw_event list" where
  "load_and_edit n v es = ClickLoad # RawAnswer n (Some v) # map Edit es"

text \<open>The page when a player was loaded by id and edited: two requests more, the last one waits.\<close>

lemma loaded_and_edited:
  assumes "rd_id p \<noteq> []"
  shows "raw_run H (load_and_edit (length (rd_waiting p)) v es) p =
    p\<lparr>rd_editor := Some (ed_run H es (opened H v)), rd_waiting := rd_waiting p @ [CallPermission],
      rd_sent := rd_sent p @ [(''GET'', rd_zone p @ ''/'' @ rd_id p, []), (''POST'', ''/player/get_permission'', [(''id'', JStr (rd_id p))])],
      rd_status := rd_status p @ [(''Load success~'', ''success'')]\<rparr>"
  using assms
  by (simp add: load_and_edit_def raw_load_def loadById_def raw_ask_def updateView_def getPermission_def say_def set_json_opened raw_run_edits)

lemma save_sends:
  assumes "editor_text (rd_editor p) = (Inr (JStr t), ed)" "rd_allow_edit p"
  shows "raw_step H (ClickSave True) p =
    p\<lparr>rd_dialogs := rd_dialogs p @ [confirm_text], rd_editor := ed,
      rd_sent := rd_sent p @ [(''PUT'', rd_zone p @ ''/'' @ rd_id p, [(''model'', JStr t)])], rd_waiting := rd_waiting p @ [CallSave]\<rparr>"
  using assms by (simp add: for_editors_def withConfirm_def raw_save_def raw_ask_def)

lemma change_id_simps:
  "rd_id (raw_step H (ChangeId s) p) = s" "rd_zone (raw_step H (ChangeId s) p) = rd_zone p"
  "rd_editor (raw_step H (ChangeId s) p) = rd_editor p" "rd_allow_edit (raw_step H (ChangeId s) p) = rd_allow_edit p"
  "rd_sent (raw_step H (ChangeId s) p) = rd_sent p"
  by (simp_all add: id_changed_def onIdZoneChanged_def refreshLinks_def)

text \<open>An example: a page for administrators on which an id was typed.\<close>

definition example_page :: raw_page where
  "example_page = raw_run same_text [ChangeId ''7''] (raw_opened same_text True None None None None ''1'')"

lemma example_page_simps:
  "rd_allow_edit example_page" "rd_id example_page = ''7''" "rd_zone example_page = ''1''" "rd_waiting example_page = []" "rd_sent example_page = []"
  by (simp_all add: example_page_def raw_opened_def change_id_simps Let_def onIdZoneChanged_def refreshLinks_def id_changed_def)

text \<open>
  The text area: what is written into it is the text of the value, and what is read from it is put
  back into the editor.
\<close>

text \<open>
  C21. Moving the data down into the text area and up again changes nothing: after any plain session
  the area holds a text that reads as the edited value, and the editor, rebuilt from it, holds the
  same value.
\<close>
theorem text_area_round_trip:
  assumes "json_ok v" "along plain_edit H es (opened H v)"
    and "rd_allow_edit p" "rd_editor p = Some (ed_run H es (opened H v))"
  shows "json_parse (rd_text (raw_run H [ClickDown, ClickUp] p)) = Inr (edited H es (opened H v) v) \<and>
    fst (get_json (rd_editor (raw_run H [ClickDown, ClickUp] p))) = Inr (edited H es (opened H v) v)"
proof -
  note t = session_text [OF assms(1,2)]
  have "toText p = p\<lparr>rd_text := text_of (edited H es (opened H v) v)\<rparr>"
    using t(1) assms(4) by (simp add: toText_def val_text_def)
  then show ?thesis
    using t(4) fresh_value [OF t(3), of H] assms(3) by (simp add: for_editors_def toJson_def set_json_opened)
qed

theorem text_area_round_trip_witness:
  "fst (get_json (rd_editor (raw_run same_text [ClickDown, ClickUp]
      (example_page\<lparr>rd_editor := Some (ed_run same_text example_edits (opened same_text example_data))\<rparr>)))) =
     Inr (JObj [(''level'', JNum 7), (''bag'', JArr [JStr ''x'', JStr ''value''])])"
  using text_area_round_trip [OF example_ok, of "example_page\<lparr>rd_editor := Some (ed_run same_text example_edits (opened same_text example_data))\<rparr>"]
  by (simp add: example_page_simps example_edited)

text \<open>
  C5. The way of an edit: an administrator loads a player by id, edits the data in a plain session
  and confirms saving. Then the page has asked for the player's data and permission and has sent one
  request more, to the player's address in the zone, with a text that reads as the answered value with
  exactly these edits.
\<close>
theorem edits_reach_server:
  assumes "json_ok v" "along plain_edit H es (opened H v)" "rd_allow_edit p" "rd_id p \<noteq> []"
  shows "\<exists>t. rd_sent (raw_run H (load_and_edit (length (rd_waiting p)) v es @ [ClickSave True]) p) =
      rd_sent p @ [(''GET'', rd_zone p @ ''/'' @ rd_id p, []),
                   (''POST'', ''/player/get_permission'', [(''id'', JStr (rd_id p))]),
                   (''PUT'', rd_zone p @ ''/'' @ rd_id p, [(''model'', JStr t)])] \<and>
      json_parse t = Inr (edited H es (opened H v) v)"
  using session_text(1,4) [OF assms(1,2)] assms(3)
  by (simp add: raw_run_append loaded_and_edited [OF assms(4)] save_sends del: raw_step.simps)

theorem edits_reach_server_witness:
  "\<exists>t. rd_sent (raw_run same_text (load_and_edit 0 example_data example_edits @ [ClickSave True]) example_page) =
      [(''GET'', ''1/7'', []), (''POST'', ''/player/get_permission'', [(''id'', JStr ''7'')]), (''PUT'', ''1/7'', [(''model'', JStr t)])] \<and>
      json_parse t = Inr (JObj [(''level'', JNum 7), (''bag'', JArr [JStr ''x'', JStr ''value''])])"
  using edits_reach_server [OF example_ok, of example_page] by (simp add: example_page_simps example_edited)

text \<open>
  C39. Saving goes to the id in the field, not to the player that was loaded: after a change of the id
  the data of the loaded player overwrites that of the other one.
\<close>
theorem saved_over_other_player:
  assumes "json_ok v" "along plain_edit H es (opened H v)" "rd_allow_edit p" "rd_id p \<noteq> []"
  shows "\<exists>t. last (rd_sent (raw_run H (load_and_edit (length (rd_waiting p)) v es @ [ChangeId other, ClickSave True]) p)) = (''PUT'', rd_zone p @ ''/'' @ other, [(''model'', JStr t)]) \<and>
      json_parse t = Inr (edited H es (opened H v) v)"
  using session_text(1,4) [OF assms(1,2)] assms(3)
  by (simp add: raw_run_append loaded_and_edited [OF assms(4)] change_id_simps save_sends del: raw_step.simps)

theorem saved_over_other_player_witness:
  "\<exists>t. last (rd_sent (raw_run same_text (load_and_edit 0 example_data example_edits @ [ChangeId ''8'', ClickSave True]) example_page)) =
      (''PUT'', ''1/8'', [(''model'', JStr t)]) \<and>
      json_parse t = Inr (JObj [(''level'', JNum 7), (''bag'', JArr [JStr ''x'', JStr ''value''])])"
  using saved_over_other_player [OF example_ok, of example_page "''8''"] by (simp add: example_page_simps example_edited)

section \<open>What may change a player\<close>

text \<open>Requests that change something on the server, and the events in which somebody orders it.\<close>

fun writes :: "raw_request \<Rightarrow> bool" where
  "writes (method, url, data) = (method \<noteq> ''GET'' \<and> url \<noteq> ''/player/get_permission'')"

fun orders :: "bool \<Rightarrow> raw_event \<Rightarrow> bool" where
  "orders allow ClickKick = allow"
| "orders allow (ClickSave confirmed) = (allow \<and> confirmed)"
| "orders allow (ClickDeleteData confirmed) = (allow \<and> confirmed)"
| "orders allow (ChangePermission s confirmed) = confirmed"
| "orders allow e = False"

named_theorems raw_defs

lemmas [raw_defs] = raw_ask_def say_def loadById_def lookupEmail_def lookupName_def open_export_def raw_load_def exportJson_def
  looked_up_def refreshLinks_def onIdZoneChanged_def id_changed_def zone_changed_def getPermission_def updatePermission_def
  onPermissionChanged_def updateView_def withConfirm_def raw_save_def raw_del_def raw_kick_def toText_def toJson_def
  done_or_failed_def for_editors_def Let_def

definition writing :: "raw_page \<Rightarrow> raw_request list" where
  "writing p = filter writes (rd_sent p)"

lemma answer_writes:
  "writing (raw_answered H c json p) = writing p \<and> rd_allow_edit (raw_answered H c json p) = rd_allow_edit p"
  by (cases c) (auto simp: raw_defs writing_def split: sum.splits after.splits)

lemma failure_writes: "writing (raw_failed c p) = writing p \<and> rd_allow_edit (raw_failed c p) = rd_allow_edit p"
  by (cases c) (simp_all add: raw_defs writing_def)

lemma step_writes:
  "length (writing (raw_step H e p)) \<le> length (writing p) + (if orders (rd_allow_edit p) e then 1 else 0) \<and>
   rd_allow_edit (raw_step H e p) = rd_allow_edit p"
proof (cases e)
  case (RawAnswer n r)
  then show ?thesis
    by (cases r) (simp_all add: Let_def answer_writes failure_writes, simp_all add: writing_def)
qed (auto simp: raw_defs writing_def split: prod.splits sum.splits)

text \<open>
  C20. In every run of the page, with any answers in any order, at most one request that changes a
  player is sent for each order: a kick by an administrator, or a confirmed change of the permission,
  save or deletion, the last two by an administrator. Without orders nothing is changed.
\<close>
theorem changes_are_ordered:
  "length (filter writes (rd_sent (raw_run H es p))) \<le>
     length (filter writes (rd_sent p)) + length (filter (orders (rd_allow_edit p)) es)"
proof -
  have "length (writing (raw_run H es p)) \<le> length (writing p) + length (filter (orders (rd_allow_edit p)) es)"
  proof (induction es arbitrary: p)
    case (Cons e es)
    then show ?case using Cons.IH [of "raw_step H e p"] step_writes [of H e p] by (simp split: if_splits)
  qed simp
  then show ?thesis by (simp add: writing_def)
qed

end
