(* ===== verification/Spec2Isabelle.thy ===== *)
theory Spec2Isabelle
  imports Console_Pages Level_Consume Login Roles Users Rights Dashboard Gen_Today Form_Submission Gift_Records Mail_List Raw_Data
begin

text \<open>
  \<^bold>\<open>The program.\<close> The repository holds the servers of a game and two consoles for the people
  who run it. Its own JavaScript is the code of these consoles in the browser: the statistics
  console under \<open>src/app/stat/public\<close> (pages in \<open>functions\<close>, the script all pages include in
  \<open>shared/include-ext.js\<close>, the texts in \<open>locale/zh.js\<close>) and the game master console, with the
  script \<open>src/app/gm/app/assets/javascripts/application.js\<close> and the scripts inside its page templates
  under \<open>src/app/gm/app/views\<close>. The development models this code, of the templates those with a
  logic of their own: the mails to groups, the rewards of gift keys, the batches of gifts, the raw
  data of players with the JSON editor (\<open>src/app/gm/public/jsoneditor/jsoneditor.js\<close>) and the line of
  messages. Everything else is a parameter: the servers (Ruby, Lua, C) appear as arbitrary
  answers, the libraries (Ext JS, jQuery) only with what the code uses of them. Two readings of the
  server are modelled as well, because the pages only make sense with them: how it takes the
  attachments off a mail and how it takes a reward apart.

  \<^bold>\<open>How the parts interact.\<close> A page is opened by the dashboard in a frame. It declares stores,
  input fields, grids and a layout, asks the server for its choices, and then lives by events:
  the user selects, types, clicks; answers arrive in any order, may fail, may report an expired
  session, may have any shape. Every call goes through \<open>ajaxCall\<close>, which adds the session
  cookie and dispatches the answer; exports go through \<open>doExportXls\<close>. The log-in page sets the
  cookies, the dashboard removes them. The user list hands a user to the page that changes a
  role through the address, the role list hands a role to the page of its rights. On the game master
  console three pages share one way to draft a gift; a finished draft becomes an attachment of a
  mail, a part of the reward of a key, or a record of a batch. The page of the raw data asks for a
  player, gives the answer to the editor, which builds a tree of nodes and rows, lets the user change
  it, reads a value off it and sends that to the server as a text.

  \<^bold>\<open>State and effects.\<close> JavaScript values are the datatype \<open>jsval\<close>; handlers that can throw return
  an \<open>outcome\<close> that keeps the state reached before the exception. A browser is the record
  \<open>world\<close> (cookies, address, token, and the list of effects: requests, messages, downloads,
  navigations); the records of the pages extend it. Callbacks that wait for an answer are data,
  kept in the order of their requests; an \<open>Answer\<close> event takes any of them. A run is a fold of
  the page's step over a list of events, so that a statement on all event lists covers every
  interleaving of clicks and answers. The pages of the game master console have records of their own;
  their runs are folds over the user's events in the same way.

  \<^bold>\<open>Theories and what they show.\<close>

  \<^item> \<open>Prelude\<close>: values, coercions, property reads, loops and exceptions of the language; printed
    numbers read back.
  \<^item> \<open>Ext_Store\<close>: stores of records with declared fields. The locale \<open>record_store\<close> states what the
    pages rely on (what is added can be read back, fields never change), interpreted on the model.
  \<^item> \<open>Keyed_Store\<close>: stores sorted by an identifier, with the locale \<open>sorted_listing\<close>, interpreted on the
    model; used by the role and user lists.
  \<^item> \<open>Localisation\<close>, \<open>Session\<close>, \<open>Date_Format\<close>: \<open>zh.js\<close> and \<open>include-ext.js\<close>. A call carries the session
    cookie; an expired session leads to the log-in page and to nothing else; the text of a time
    stamp reads back as the local day that contains it.
  \<^item> \<open>Report_Page\<close>: what the report pages have in common, as records and shared handlers; frame and
    well-formedness lemmas collected in \<open>page_simps\<close> and \<open>page_intros\<close>.
  \<^item> \<open>Page_Runs\<close>: the contracts as locales (\<open>report_program\<close>, \<open>answered_store\<close>, \<open>asking_page\<close>,
    \<open>plain_report\<close>, \<open>keeping_report\<close>, \<open>mapped_report\<close>, \<open>exporting_page\<close>) and what follows from them
    for every run, by induction over the events.
  \<^item> \<open>Reports_Plain\<close>, \<open>Reports_Saved\<close>, \<open>Recharge_Reports\<close>, \<open>Currency\<close>, \<open>Level_Reports\<close>,
    \<open>Online_Reports\<close>, \<open>Guild_Reports\<close>, \<open>Consume_Report\<close>: the report pages, one group of definitions per file
    of \<open>functions\<close> (\<open>_columns\<close>, \<open>_cfg\<close>, \<open>_launch\<close>, \<open>_onBtnQuery\<close>, \<open>_updateGrid\<close>, \<open>_onBtnExport\<close>, \<open>_view\<close> and
    the page itself), each page an interpretation of its locales. Where a page computes (averages
    of an hour, rows merged by skill or guild, tables over systems and levels) it is proved equal
    to a reference definition.
  \<^item> \<open>Console_Pages\<close>: the list of all these pages; their descriptions hold together.
  \<^item> \<open>Level_Consume\<close>: \<open>levelconsume.js\<close>, whose combo boxes have listeners, with its charts.
  \<^item> \<open>Login\<close>: \<open>login.js\<close> and \<open>regist.js\<close>. The pattern for e-mail addresses is matched by derivatives and
    proved equivalent to a description of the language; the buttons send exactly when the fields
    are acceptable.
  \<^item> \<open>Roles\<close>, \<open>Users\<close>, \<open>Rights\<close>: \<open>rolemanage.js\<close>, \<open>usermanage.js\<close>, \<open>changerole.js\<close>, \<open>rightmanage.js\<close>. The
    role list stays sorted and shows the server's roles after a reload; the chain from the user
    list through the address to the saved role; opening and saving the rights of a role is the
    identity.
  \<^item> \<open>Dashboard\<close>: \<open>dashboard.js\<close>, the tree of functions and the pages it opens.
  \<^item> \<open>Gen_Today\<close>: \<open>gentodaystats.js\<close> as a step relation with timer, answers and clicks; with timely answers
    at most one job is under way and it can always be finished; with late ones two can be.
  \<^item> \<open>GM_Forms\<close>: the script of the game master console: menus, background submissions, flash lines.
  \<^item> \<open>Form_Data\<close>, \<open>Form_Submission\<close>: how the fields of a form or an object become the data of a request
    (\<open>serialize\<close>, \<open>jQuery.param\<close> and \<open>buildParams\<close> of \<open>jquery-1.9.1.js\<close>), and that the submissions of the
    console read back as the fields that were submitted. \<open>Text_Split\<close>: splitting and joining texts.
  \<^item> \<open>Gift_Form\<close>: the form for drafting a gift (\<open>selectedEditItem\<close>, \<open>nextItem\<close>, \<open>currentItem\<close>,
    \<open>initConfigCompletes\<close> and their handlers), in the copies of \<open>group_mail/_form.html.erb\<close>,
    \<open>cdkeys/manage.html.erb\<close> and \<open>data_batch/edit.html.erb\<close>. The locale \<open>gift_page\<close> states what a copy
    must do; it is interpreted on the three. The button is there only for a complete draft with
    values in range, though the handlers of a field pile up, and every draft can be finished.
  \<^item> \<open>Group_Mail\<close>, \<open>Mail_List\<close>: the pages of \<open>group_mail\<close> and the messages of \<open>layouts/main.html.erb\<close>. The
    five slots with their counter refine a list of attachments; what is sent passed the check; a
    stored mail survives loading and saving; clearing leaves two slots; only confirmed clicks delete
    or publish.
  \<^item> \<open>Gift_Records\<close>: the tables of the other two pages. The locale \<open>record_list\<close> extends
    \<open>gift_page\<close>: rows and records agree after any events. The reward of a key reads back as its rows;
    a batch sends deleted records as blanks.
  \<^item> \<open>Json_Text\<close>: the texts of JSON (\<open>JSON.stringify\<close>, \<open>JSON.parse\<close>) and of the cells of the editor
    (\<open>_escape\<close>, \<open>_unescape\<close>, \<open>_stripHTML\<close>, \<open>_stringCast\<close>, \<open>_getType\<close>): printed values parse as themselves.
  \<^item> \<open>Json_Editor\<close>: \<open>jsoneditor.js\<close>, its nodes (\<open>attrs\<close>, \<open>node\<close>), one function per method, the events
    (\<open>handle\<close>) with their guards (\<open>enabled\<close>). The argument \<open>H\<close> is the browser, which gives the markup read from
    a cell for the markup put into it.
  \<^item> \<open>Editor_Runs\<close>: the invariant \<open>tree_ok\<close> and that every operation keeps it. \<open>Editor_Outline\<close>: the edits
    of the data alone (\<open>o_append\<close>, \<open>o_move\<close>, ...) and that every handler refines one. \<open>Editor_Saved\<close>,
    \<open>Editor_Session\<close>: what is saved after a session, and which edits are lost.
  \<^item> \<open>Raw_Data\<close>: the page \<open>data/raw.html.erb\<close> with \<open>shared/_data_top.html.erb\<close>: the way of an edit to the
    server, the text area, what may change a player, and saving over another one.
  \<^item> This theory: what all report pages show, send, keep and accept.

  \<^bold>\<open>Choices and bounds.\<close> All definitions are total: loops over arrays are structural recursion, the
  level loop, the search for the year, the search for the place of a sorted record, the
  parameters of a request, the drawing of the editor's rows and the scan of a text have measures. Only
  the parser of JSON has fuel, one more than the length of its text, and every level of the value
  takes a character, so it is enough for the text of every value. The editor handles integers only;
  a numeral with a fraction or an exponent in a JSON text stands as \<open>NaN\<close>. Numbers are unbounded integers: the
  code handles identifiers, counts, levels and time stamps, all far below \<open>2 ^ 53\<close>; the two places
  with fractions (the hourly mean, the bar of a level) are written out over integers. Texts are read as
  numbers in every notation of the language; the text of a number that is not whole stands as none, so
  in a cell of the editor it stays a text. The offset of
  the local zone is a parameter. Strings are UTF-8 bytes; the length the validators see counts
  UTF-16 units. Names that plain objects inherit from their prototype are treated as absent where
  the servers' names index a table; the completion menu of the game master console models them. Two
  decoded objects are never identical, so loose equality of objects is false.

  \<^bold>\<open>Not modelled.\<close> Ext JS, jQuery, Bootstrap and the other vendored or compiled
  scripts (of jQuery only \<open>Form_Data\<close> is); of the JSON editor the places of rows on the screen, colours
  and the class \<open>JSONFormatter\<close>, which no page creates; the other scripts inside the templates of the game
  master console, which post the fields of one form or list an answer; the English texts (\<open>locale/en.js\<close> does not parse and no page includes it); lines 1 to 11 of
  \<open>include-ext.js\<close>, which write script tags; pixel sizes, themes and animations; \<open>generateData\<close> in
  \<open>levelconsume.js\<close>, which nothing calls; the focus handler of \<open>configcomplete\<close>, which is bound to a
  widget object and not to an element.
\<close>

section \<open>Runs for examples\<close>

definition example_run :: "event list" where
  "example_run =
     [Answer 0 (ok_answer (JArr [JObj [(''name'', JStr ''z1'')], JObj [(''name'', JStr ''z2'')]])),
      ClickQuery, Choose ''zone_input'' 1, Pick ''date_input'' 5 ''d5'' ''2016-01-05'', ClickQuery,
      Answer 0 (ok_answer (JArr [JObj [(''date'', JStr ''d5''), (''tid'', JNum 3)]]))]"

definition example_kept_run :: "event list" where
  "example_kept_run =
     [Answer 0 (ok_answer (JArr [JObj [(''name'', JStr ''z1'')]])), Choose ''zone_input'' 0,
      Pick ''date_start'' 1 ''d1'' ''2016-01-01'', Pick ''date_end'' 5 ''d5'' ''2016-01-05'', ClickQuery, ClickQuery,
      Answer 0 (ok_answer (JArr [JObj [(''tid'', JNum 1)]])), Answer 0 (ok_answer (JArr [JObj [(''tid'', JNum 2)]]))]"

definition example_max_run :: "event list" where
  "example_max_run =
     [Answer 0 (ok_answer (JArr [JObj [(''name'', JStr ''z1'')]])), Choose ''zone_input'' 0, ClickQuery,
      Answer 0 (ok_answer (JArr [JObj [(''date'', JNum 86400), (''maxCount'', JNum 17), (''time'', JNum 90061)]]))]"

definition example_levels :: "nat \<Rightarrow> nat \<Rightarrow> jsval" where
  "example_levels num players =
     JObj (map (\<lambda>j. (string_of_nat j, JObj [(''num'', JNum (int num)), (''players'', JNum (int players))])) enumLevel)"

definition example_loss_run :: "event list" where
  "example_loss_run =
     [Answer 0 (ok_answer (JArr [JObj [(''name'', JStr ''z1'')]])), Choose ''zone_input'' 0, Choose ''cat_input'' 1,
      Choose ''days_input'' 2, ClickQuery, Answer 0 (ok_answer (JObj [(''shop'', example_levels 30 4)]))]"

lemma example_run_answers:
  "query_answers main_quest_report (launch main_quest_report example_world) example_run =
     [JObj [(''success'', JStr ''ok''), (''res'', JArr [JObj [(''date'', JStr ''d5''), (''tid'', JNum 3)]])]]"
  by (simp add: example_run_def run_eval page_simps add_to_def store_add_def model_data_def field_value_def main_quest_report_def main_quest_report_cfg_def
      main_quest_report_launch_def main_quest_report_onBtnQuery_def main_quest_report_updateGrid_def)

lemma example_run_ok:
  "list_all (rows_wf present) (query_answers main_quest_report (launch main_quest_report example_world) example_run)"
  "list_all object_answer example_run"
  by (simp add: example_run_answers rows_wf_def present_def) (simp add: example_run_def ok_answer_def)

lemma main_quest_listed:
  "(main_quest_report, main_quest_report_view, main_quest_report_row) \<in> set row_pages"
  "(main_quest_report, main_quest_report_view) \<in> set (report_pages tz)"
  by (simp_all add: report_pages_def row_pages_def plain_pages_def)

lemma main_quest_fields:
  "s_fields (init_store (rp_cfg main_quest_report) ''store_grid'') = [''date'', ''zone_id'', ''tid'', ''num'']"
  by (simp add: main_quest_report_def main_quest_report_cfg_def init_store_def new_store_def)

section \<open>What the report pages show\<close>

text \<open>
  C1. On every report page that shows rows as they come, after any sequence of events, the
  grid shows the records of the rows of the query answered last, and nothing when no query
  has been answered.
\<close>

theorem grid_shows_last_answer:
  assumes "(r, v, ks) \<in> set row_pages"
    and "list_all (rows_wf present) (query_answers r (launch r w) es)" and "list_all object_answer es"
  shows "store_getRange (stores (run_page r (launch r w) es) ''store_grid'') =
    (let answers = query_answers r (launch r w) es;
         fields = s_fields (init_store (rp_cfg r) ''store_grid'')
     in if answers = [] then [] else map (\<lambda>x. model_data fields (row_obj ks x)) (rows_of (last answers)))"
  using plain_report.grid_shows_last [OF row_pages_contract [OF assms(1)] assms(2,3)] .

theorem grid_shows_last_answer_witness:
  "store_getRange (stores (run_page main_quest_report (launch main_quest_report example_world) example_run) ''store_grid'') =
     [[(''date'', JStr ''d5''), (''zone_id'', JStr []), (''tid'', JNum 3), (''num'', JStr [])]]"
  using grid_shows_last_answer [OF main_quest_listed(1) example_run_ok]
  by (simp add: example_run_answers main_quest_fields rows_of_def row_obj_def main_quest_report_row_def field_value_def)

text \<open>
  C2. Every cell of such a grid is the property of the answered row that has the column's
  name: the grid has one line per row, and in each line every column reads that property
  (blank where the row lacks it).
\<close>

theorem grid_cell_is_row_property:
  assumes "(r, v, ks) \<in> set row_pages"
    and "list_all (rows_wf present) (query_answers r (launch r w) es)" and "list_all object_answer es"
    and "query_answers r (launch r w) es \<noteq> []"
    and "k \<in> set (gr_columns (main_grid r))"
  shows "map (\<lambda>line. obj_get line (c_dataIndex k))
           (store_getRange (stores (run_page r (launch r w) es) (gr_store (main_grid r)))) =
         map (\<lambda>x. let c = js_prop x (c_dataIndex k) in if c = JUndef \<and> c_dataIndex k \<noteq> ''id'' then JStr [] else c)
           (rows_of (last (query_answers r (launch r w) es)))"
proof -
  note fit = row_pages_fit [OF assms(1)]
  from main_grid_listed [OF fit(3)] obtain m where m: "(m, main_grid r) \<in> set (pg_grids (rp_cfg r))" ..
  have "gr_store (main_grid r) = ''store_grid''" using fit(3) by (simp add: grid_in_def)
  then show ?thesis
    using plain_report.grid_shows_last [OF row_pages_contract [OF assms(1)] assms(2,3)] assms(4)
      column_cell [OF fit(2) m assms(5)] main_grid_fields [OF fit(1,3) assms(5)]
    by (simp add: Let_def obj_get_model_data)
qed

lemma main_quest_main_grid: "gr_store (main_grid main_quest_report) = ''store_grid''"
  using row_pages_fit(3) [OF main_quest_listed(1)] by (simp add: grid_in_def)

theorem grid_cell_is_row_property_witness:
  "map (\<lambda>line. obj_get line ''tid'')
     (store_getRange (stores (run_page main_quest_report (launch main_quest_report example_world) example_run) ''store_grid'')) =
   [JNum 3]"
proof -
  have k: "\<exists>k \<in> set (gr_columns (main_grid main_quest_report)). c_dataIndex k = ''tid''"
    by (simp add: main_grid_def main_quest_report_def main_quest_report_cfg_def main_quest_report_columns_def)
  then obtain k where k: "k \<in> set (gr_columns (main_grid main_quest_report))" and tid: "c_dataIndex k = ''tid''" by blast
  show ?thesis
    using grid_cell_is_row_property [OF main_quest_listed(1) example_run_ok _ k]
    by (simp add: example_run_answers rows_of_def tid main_quest_main_grid Let_def)
qed

text \<open>
  C3. What an export of such a page sends, after any sequence of events: the titles of the
  grid's own columns, the records of the query answered last, and the session; nothing else
  leaves the page.
\<close>

theorem export_sends_last_answer:
  assumes "(r, v, ks) \<in> set row_pages"
    and "list_all (rows_wf present) (query_answers r (launch r w) es)" and "list_all object_answer es"
  defines "p \<equiv> run_page r (launch r w) es"
  shows "effects (page_step r p ClickExport) = effects p @
    [Send (export_request (gr_columns (main_grid r))
       (let answers = query_answers r (launch r w) es;
            fields = s_fields (init_store (rp_cfg r) ''store_grid'')
        in if answers = [] then [] else map (\<lambda>x. model_data fields (row_obj ks x)) (rows_of (last answers))) p)]"
  using exporting_page.click_sends [OF row_pages_fit(4) [OF assms(1)], of p]
    plain_report.grid_shows_last [OF row_pages_contract [OF assms(1)] assms(2,3)]
  by (simp add: p_def)

theorem export_sends_last_answer_witness:
  "last (effects (run_page main_quest_report (launch main_quest_report example_world) (example_run @ [ClickExport]))) =
   Send \<lparr>r_url = ''/statsexport/save_export_data'', r_method = ''POST'',
     r_params = [(''str_header'', Encoded (JArr (map column_obj (gr_columns (main_grid main_quest_report))))),
       (''str_data'', Encoded (JArr [JObj [(''date'', JStr ''d5''), (''zone_id'', JStr []), (''tid'', JNum 3), (''num'', JStr [])]])),
       (''sid'', Raw (cookie_get ''sessionid''
          (run_page main_quest_report (launch main_quest_report example_world) example_run)))],
     r_token = csrf (run_page main_quest_report (launch main_quest_report example_world) example_run)\<rparr>"
  using export_sends_last_answer [OF main_quest_listed(1) example_run_ok]
  by (simp add: example_run_answers main_quest_fields rows_of_def row_obj_def main_quest_report_row_def field_value_def
      export_request_def run_page_def)

text \<open>
  A sheet keeps the name of the search that was current when the export was clicked:
  whatever the user does until the answer comes (other choices, queries, exports), the
  answered export downloads one sheet under that name.
\<close>

lemma sheet_keeps_name_of_click:
  assumes "(r, v, ks) \<in> set row_pages \<or> (r, v, ks', clr) \<in> set saving_pages \<or>
      (r, v, good, row) \<in> set (mapped_pages tz) \<or> (r, v) \<in> set guild_pages"
    and "list_all (\<lambda>e. \<not> is_answer e) es" and "js_eq (obj_get kvs ''success'') (JStr ''ok'')"
  shows "effects (page_step r (run_page r (page_step r p ClickExport) es)
            (Answer (length (pending p)) (Responded t (Some (JObj kvs))))) =
     effects (run_page r (page_step r p ClickExport) es) @
       [sheet_download (g_search_name p) (run_page r (page_step r p ClickExport) es)]"
proof -
  obtain n cols where "exporting_page r n cols"
    using assms(1) row_pages_fit(4) saving_pages_fit(3) mapped_pages_fit(2) guild_pages_fit(2) by blast
  then show ?thesis using assms(2,3) by (rule exporting_page.sheet_keeps_name)
qed

theorem sheet_keeps_name_of_click_witness:
  "\<exists>url. last (effects (run_page main_quest_report (launch main_quest_report example_world)
     [ClickExport, Choose ''zone_input'' 0, ClickQuery, Answer 1 (ok_answer JNull)])) = Download url ''.xls''"
proof -
  have "(main_quest_report, main_quest_report_view, main_quest_report_row) \<in> set row_pages \<or>
      (main_quest_report, main_quest_report_view, [], True) \<in> set saving_pages \<or>
      (main_quest_report, main_quest_report_view, present, \<lambda>_. []) \<in> set (mapped_pages 0) \<or>
      (main_quest_report, main_quest_report_view) \<in> set guild_pages"
    using main_quest_listed(1) by simp
  note this [THEN sheet_keeps_name_of_click, of "[Choose ''zone_input'' 0, ClickQuery]"
      "[(''success'', JStr ''ok''), (''res'', JNull)]" "launch main_quest_report example_world" "[]"]
  moreover have "pending (launch main_quest_report example_world) = [KInit]" "g_search_name (launch main_quest_report example_world) = []"
    by (simp_all add: launch_def main_quest_report_def main_quest_report_launch_def page_init_def)
  ultimately show ?thesis
    by (simp add: run_page_def ok_answer_def sheet_download_def)
qed

text \<open>
  C25. The pages that keep all rows for their export show the first fifty rows of the query
  answered last.
\<close>

theorem keeping_grid_shows_first_fifty:
  assumes "(r, v, ks, clr) \<in> set saving_pages"
    and "list_all (rows_wf present) (query_answers r (launch r w) es)" and "list_all object_answer es"
  shows "store_getRange (stores (run_page r (launch r w) es) ''store_grid'') =
    (let answers = query_answers r (launch r w) es;
         fields = s_fields (init_store (rp_cfg r) ''store_grid'')
     in if answers = [] then []
        else map (\<lambda>x. model_data fields (row_obj ks x)) (take 50 (rows_of (last answers))))"
  using keeping_report.grid_shows_first_fifty [OF saving_pages_contract [OF assms(1)] assms(2,3)] .

lemma booth_trade_listed: "(boothtradereport, boothtradereport_view, boothtradereport_row, False) \<in> set saving_pages"
  by (simp add: saving_pages_def keeping_pages_def)

lemma example_kept_answers:
  "query_answers boothtradereport (launch boothtradereport example_world) example_kept_run =
     [JObj [(''success'', JStr ''ok''), (''res'', JArr [JObj [(''tid'', JNum 1)]])],
      JObj [(''success'', JStr ''ok''), (''res'', JArr [JObj [(''tid'', JNum 2)]])]]"
  by (simp add: example_kept_run_def run_eval page_simps add_to_def store_add_def model_data_def field_value_def boothtradereport_def boothtradereport_cfg_def
      boothtradereport_launch_def boothtradereport_onBtnQuery_def boothtradereport_updateGrid_def)

lemma example_kept_ok:
  "list_all (rows_wf present) (query_answers boothtradereport (launch boothtradereport example_world) example_kept_run)"
  "list_all object_answer example_kept_run"
  by (simp add: example_kept_answers rows_wf_def present_def) (simp add: example_kept_run_def ok_answer_def)

lemma booth_trade_zone:
  "obj_get (model_data (s_fields (init_store (rp_cfg boothtradereport) n)) (row_obj boothtradereport_row rc)) ''tid'' =
     (if n = ''save_store'' \<or> n = ''store_grid'' then if js_prop rc ''tid'' = JUndef then JStr [] else js_prop rc ''tid''
      else JUndef)"
  by (simp add: obj_get_model_data set_init_fields fields_of_def boothtradereport_def boothtradereport_cfg_def
      obj_get_row_obj boothtradereport_row_def)

theorem keeping_grid_shows_first_fifty_witness:
  "map (\<lambda>line. obj_get line ''tid'') (store_getRange (stores
     (run_page boothtradereport (launch boothtradereport example_world) example_kept_run) ''store_grid'')) = [JNum 2]"
  by (subst keeping_grid_shows_first_fifty [OF booth_trade_listed example_kept_ok])
    (simp add: example_kept_answers rows_of_def booth_trade_zone)

text \<open>
  C24. What these pages keep for their export: on the pages that clear the kept rows first,
  the rows of the query answered last; on the four that do not (\<open>boothtradereport.js\<close>,
  \<open>bosspracticereport.js\<close>, \<open>guild_level_record.js\<close>, \<open>new_player_recharge_report.js\<close>) the rows of all answered queries, one after another.
\<close>

theorem kept_rows:
  assumes "(r, v, ks, clr) \<in> set saving_pages"
    and "list_all (rows_wf present) (query_answers r (launch r w) es)" and "list_all object_answer es"
  shows "store_getRange (stores (run_page r (launch r w) es) ''save_store'') =
    (let answers = query_answers r (launch r w) es;
         fields = s_fields (init_store (rp_cfg r) ''save_store'');
         recs = (\<lambda>v. map (\<lambda>x. model_data fields (row_obj ks x)) (rows_of v))
     in if clr then (if answers = [] then [] else recs (last answers)) else concat (map recs answers))"
  using keeping_report.save_keeps [OF saving_pages_contract [OF assms(1)] assms(2,3)] .

theorem kept_rows_witness:
  "map (\<lambda>line. obj_get line ''tid'') (store_getRange (stores
     (run_page boothtradereport (launch boothtradereport example_world) example_kept_run) ''save_store'')) = [JNum 1, JNum 2]"
  by (subst kept_rows [OF booth_trade_listed example_kept_ok])
    (simp add: example_kept_answers rows_of_def booth_trade_zone)

section \<open>What every report page keeps\<close>

text \<open>
  C4. Whatever the sequence of events, the query button of every report page either asks for
  one missing input field and sends nothing (all it may change besides is a script variable),
  or sends one request in which no parameter is
  missing (the session identifier apart) and waits for its answer.
\<close>

theorem query_is_complete:
  assumes "(r, v) \<in> set (report_pages tz)"
  defines "p w es \<equiv> run_page r (launch r w) es"
  shows "(\<exists>t vs. page_step r (p w es) ClickQuery = emit (Alert t) ((p w es)\<lparr>vars := vs\<rparr>)) \<or>
     (\<exists>req. effects (page_step r (p w es) ClickQuery) = effects (p w es) @ [Send req] \<and>
        pending (page_step r (p w es) ClickQuery) = pending (p w es) @ [KQuery] \<and>
        list_all complete_param (r_params req))"
  using asking_page.run_query_complete [OF report_pages_contract(1) [OF assms(1)]] by (simp add: p_def)

lemma totalactive_listed: "(totalactive, totalactive_view) \<in> set (report_pages tz)"
  by (simp add: report_pages_def)

theorem query_is_complete_witness:
  "\<exists>req. effects (run_page totalactive (launch totalactive example_world)
        [Pick ''date_input'' 5 ''d5'' ''2016-01-05'', ClickQuery]) = [Send req] \<and> list_all complete_param (r_params req)"
proof -
  let ?p = "run_page totalactive (launch totalactive example_world) [Pick ''date_input'' 5 ''d5'' ''2016-01-05'']"
  have e: "effects ?p = []" and c: "\<And>t vs. page_step totalactive ?p ClickQuery \<noteq> emit (Alert t) (?p\<lparr>vars := vs\<rparr>)"
    by (simp_all add: run_eval totalactive_def totalactive_cfg_def totalactive_onBtnQuery_def example_world_def)
  with query_is_complete [OF totalactive_listed, of example_world "[Pick ''date_input'' 5 ''d5'' ''2016-01-05'']"]
  show ?thesis by (auto simp: run_page_def)
qed

text \<open>
  C33. Whatever the sequence of events, every store of every report page keeps its declared
  fields, and every record in it carries exactly those.
\<close>

theorem stores_stay_well_formed:
  assumes "(r, v) \<in> set (report_pages tz)"
  shows "page_ok (rp_cfg r) (run_page r (launch r w) es)"
  using report_program.run_ok [OF report_pages_contract(2) [OF assms]] .

theorem stores_stay_well_formed_witness:
  "page_ok (rp_cfg totalactive) (run_page totalactive (launch totalactive example_world) [ClickQuery])"
  by (rule stores_stay_well_formed [OF totalactive_listed [of 0]])

text \<open>
  Whatever the sequence of events, every input field of every report page holds only what
  the page offers: a combo box nothing or the value of an entry of its list, a date field
  nothing or a date, a text field a text.
\<close>

lemma inputs_hold_offered_values:
  assumes "(r, v) \<in> set (report_pages tz)"
  shows "inputs_ok (rp_cfg r) (run_page r (launch r w) es)"
  using asking_page.run_inputs [OF report_pages_contract(1) [OF assms]] .

theorem inputs_hold_offered_values_witness:
  "inputs_ok (rp_cfg totalactive) (run_page totalactive (launch totalactive example_world) [Pick ''date_input'' 5 ''d5'' ''d''])"
  by (rule inputs_hold_offered_values [OF totalactive_listed [of 0]])

text \<open>
  C36. The description of every report page holds together: stores and input fields are
  declared once, every combo box reads fields its store declares, every grid column shows a
  field of the grid's store, and the layout places declared input fields and grids only, each
  input field once.
\<close>

theorem descriptions_hold_together:
  assumes "(r, v) \<in> set (report_pages tz)"
  shows "cfg_ok (rp_cfg r) \<and> layout_ok (rp_cfg r) v"
  using report_pages_fit [OF assms] by (simp add: page_fits_def)

theorem descriptions_hold_together_witness:
  "cfg_ok (rp_cfg totalactive) \<and> layout_ok (rp_cfg totalactive) totalactive_view"
  by (rule descriptions_hold_together [OF totalactive_listed [of 0]])

text \<open>
  The pages that build the objects of their rows themselves show, after any sequence of
  events, the objects of the rows of the query answered last, provided the answers have what
  the pages read.
\<close>

lemma mapped_grid_shows_last_answer:
  assumes "(r, v, good, row) \<in> set (mapped_pages tz)"
    and "list_all (rows_wf good) (query_answers r (launch r w) es)" and "list_all object_answer es"
  shows "store_getRange (stores (run_page r (launch r w) es) ''store_grid'') =
    (let answers = query_answers r (launch r w) es;
         fields = s_fields (init_store (rp_cfg r) ''store_grid'')
     in if answers = [] then [] else map (\<lambda>x. model_data fields (row x)) (rows_of (last answers)))"
proof -
  from mapped_pages_contract [OF assms(1)] obtain mk where "mapped_report r ''store_grid'' good mk row" ..
  then show ?thesis using assms(2,3) by (rule mapped_report.shows_last)
qed

lemma example_max_answers:
  "query_answers (maxonlinereport 0) (launch (maxonlinereport 0) example_world) example_max_run =
     [JObj [(''success'', JStr ''ok''),
        (''res'', JArr [JObj [(''date'', JNum 86400), (''maxCount'', JNum 17), (''time'', JNum 90061)]])]]"
  by (simp add: example_max_run_def run_eval page_simps add_to_def store_add_def model_data_def field_value_def
      maxonlinereport_def maxonlinereport_cfg_def maxonlinereport_launch_def maxonlinereport_onBtnQuery_def
      maxonlinereport_updateGrid_def)

theorem mapped_grid_shows_last_answer_witness:
  "map (\<lambda>line. obj_get line ''maxCount'') (store_getRange (stores
     (run_page (maxonlinereport 0) (launch (maxonlinereport 0) example_world) example_max_run) ''store_grid'')) = [JNum 17]"
proof -
  have listed: "(maxonlinereport 0, maxonlinereport_view, present, maxonlinereport_row 0) \<in> set (mapped_pages 0)"
    by (simp add: mapped_pages_def)
  have ok: "list_all (rows_wf present) (query_answers (maxonlinereport 0) (launch (maxonlinereport 0) example_world) example_max_run)"
    "list_all object_answer example_max_run"
    by (simp add: example_max_answers rows_wf_def present_def) (simp add: example_max_run_def ok_answer_def)
  have "''maxCount'' \<in> set (s_fields (init_store (rp_cfg (maxonlinereport 0)) ''store_grid''))"
    by (simp add: set_init_fields fields_of_def maxonlinereport_def maxonlinereport_cfg_def)
  then show ?thesis
    using mapped_grid_shows_last_answer [OF listed ok]
    by (simp add: example_max_answers rows_of_def obj_get_model_data maxonlinereport_row_def)
qed

text \<open>
  C26. The two pages on what lost players paid show two tables, after any sequence of events
  that answers a query: for every category of the query answered last a line of the amounts
  and a line of the numbers of players, over all levels. Every answer of the run is supposed to be
  an object that gives, for each of its categories, an entry for each level; where one is missing
  the listener stops with an exception and leaves the rows drawn so far.
\<close>

theorem loss_tables_show_last_answer:
  assumes "(r, v, n, key) \<in> set loss_pages"
    and "list_all categories_good (query_answers r (launch r w) es)" and "list_all object_answer es"
    and "query_answers r (launch r w) es \<noteq> []"
  shows "store_getRange (stores (run_page r (launch r w) es) n) =
      map (model_data (s_fields (init_store (rp_cfg r) n)))
        (category_rows key ''num'' (last (query_answers r (launch r w) es))) \<and>
    store_getRange (stores (run_page r (launch r w) es) ''store_players'') =
      map (model_data (s_fields (init_store (rp_cfg r) ''store_players'')))
        (category_rows key ''players'' (last (query_answers r (launch r w) es)))"
  using level_loss_report.tables_show_last [OF loss_pages_contract [OF assms(1)] assms(2,3,4)] .

lemma example_loss_answers:
  "query_answers loss_consume_report (launch loss_consume_report example_world) example_loss_run =
     [JObj [(''success'', JStr ''ok''), (''res'', JObj [(''shop'', example_levels 30 4)])]]"
  by (simp add: example_loss_run_def run_eval page_simps add_to_def store_add_def model_data_def field_value_def
      loss_consume_report_def loss_consume_report_cfg_def loss_consume_report_launch_def loss_consume_report_onBtnQuery_def)

lemma js_keys_shop: "js_keys (JObj [(''shop'', v)]) = [''shop'']" "js_member (JObj [(''shop'', v)]) ''shop'' = v"
  by (simp_all add: js_keys_def js_member_def index_key_def parse_int_string_def digit_val_def Let_def)

lemma example_level_cell:
  "list_all (\<lambda>j. js_member (example_levels a b) (string_of_nat j) = JObj [(''num'', JNum (int a)), (''players'', JNum (int b))]) enumLevel"
  by (simp add: example_levels_def enumLevel_eq string_of_nat.simps digit_char_def js_member_def)

lemma example_loss_ok:
  "list_all categories_good (query_answers loss_consume_report (launch loss_consume_report example_world) example_loss_run)"
  "list_all object_answer example_loss_run"
  using example_level_cell [of 30 4]
  by (simp_all add: example_loss_answers categories_good_def js_keys_shop list_all_iff)
    (simp_all add: example_loss_run_def ok_answer_def example_levels_def)

lemma model_data_self:
  assumes "distinct (map fst d)" and "list_all (\<lambda>kv. snd kv \<noteq> JUndef) d"
  shows "model_data (map fst d) d = d"
proof -
  have "field_value d k = [(k, v)]" if "(k, v) \<in> set d" for k v
    using that assms by (auto simp: field_value_def Let_def obj_get_def list_all_iff map_of_eq_Some_iff)
  then have eq: "map (field_value d \<circ> fst) d = map (\<lambda>kv. [kv]) d" by auto
  show ?thesis unfolding model_data_def map_map eq by (simp add: concat_map_singleton)
qed

lemma loss_consume_listed: "(loss_consume_report, loss_consume_report_view, ''store_consume'', ''sys_name'') \<in> set loss_pages"
  by (simp add: loss_pages_def)

lemma loss_consume_fields:
  "s_fields (init_store (rp_cfg loss_consume_report) ''store_players'') = ''sys_name'' # map (level_key ''lv'') enumLevel"
  by (simp add: loss_consume_report_def loss_consume_report_cfg_def init_store_def s_fields_new_store
      loss_consume_report_fields_def enumLevel_eq level_key_def string_of_nat.simps digit_char_def)

theorem loss_tables_show_last_answer_witness:
  "store_getRange (stores (run_page loss_consume_report (launch loss_consume_report example_world) example_loss_run) ''store_players'') =
     [(''sys_name'', JStr ''shop'') # map (\<lambda>j. (level_key ''lv'' j, JNum 4)) enumLevel]"
proof -
  let ?row = "(''sys_name'', JStr ''shop'') # map (\<lambda>j. (level_key ''lv'' j, JNum 4)) enumLevel"
  have row: "category_row ''sys_name'' ''shop'' (example_levels 30 4) ''players'' = ?row"
    using example_level_cell [of 30 4] by (simp add: category_row_def list_all_iff)
  have "distinct (map fst ?row)"
    by (simp add: enumLevel_eq level_key_def string_of_nat.simps digit_char_def)
  then have "model_data (map fst ?row) ?row = ?row" by (rule model_data_self) (simp add: list_all_iff)
  moreover have "map fst ?row = ''sys_name'' # map (level_key ''lv'') enumLevel" by simp
  ultimately have "model_data (''sys_name'' # map (level_key ''lv'') enumLevel) ?row = ?row" by (simp only:)
  then show ?thesis
    using loss_tables_show_last_answer [OF loss_consume_listed example_loss_ok]
    by (simp add: example_loss_answers category_rows_def js_keys_shop row loss_consume_fields del: model_data_Cons)
qed

text \<open>
  The booth page puts the star of a trade into the column of its grade; its star column
  stays blank whatever the server answers.
\<close>

lemma booth_star_in_grade_column:
  "obj_get (row_obj boothtradereport_row rc) ''grade'' = js_prop rc ''star'' \<and>
   obj_get (row_obj boothtradereport_row rc) ''star'' = JUndef \<and>
   (\<exists>k \<in> set boothtradereport_columns. c_dataIndex k = ''star'')"
  by (simp add: row_obj_def boothtradereport_row_def boothtradereport_columns_def)

end
